(* ===== verification/Prelude.thy ===== *)
theory Prelude
  imports Complex_Main "HOL-Library.Sublist" "HOL-Library.List_Lexorder" "HOL-Library.Char_ord"
begin

text \<open>
  Shared vocabulary of the development: the JSON values that the ledger stores and the pattern
  tooling reads, errors as values of a sum type, the keyed-table operations that stand for the
  SQL statements of \<^verbatim>\<open>app/ledger.py\<close>, and the locales that state the laws the components
  rely on. Numbers are exact: a Python int or finite float is a rational, so rounding is not
  modelled, but the range check of \<^verbatim>\<open>math.isfinite\<close> is (\<open>float_limit\<close>).
\<close>

named_theorems table_simps
named_theorems frame_simps
named_theorems op_defs

section \<open>JSON values\<close>

text \<open>The floats that are no numbers; a finite one is a rational here.\<close>

datatype nonfinite = NaN | Plus_infinity | Minus_infinity

datatype json =
    JNull
  | JBool bool
  | JNum rat
  | JNonFinite nonfinite
  | JStr string
  | JList "json list"
  | JObj "(string \<times> json) list"

text \<open>\<open>jget\<close> is \<^verbatim>\<open>d.get(k)\<close> on a value that is a dict, with \<^verbatim>\<open>None\<close> as \<open>JNull\<close>.\<close>

fun jget :: "json \<Rightarrow> string \<Rightarrow> json" where
  "jget (JObj kvs) k = (case map_of kvs k of None \<Rightarrow> JNull | Some v \<Rightarrow> v)"
| "jget _ _ = JNull"

fun jhas :: "json \<Rightarrow> string \<Rightarrow> bool" where
  "jhas (JObj kvs) k = (map_of kvs k \<noteq> None)"
| "jhas _ _ = False"

text \<open>Python truthiness.\<close>

fun truthy :: "json \<Rightarrow> bool" where
  "truthy JNull = False"
| "truthy (JBool b) = b"
| "truthy (JNum q) = (q \<noteq> 0)"
| "truthy (JNonFinite k) = True"
| "truthy (JStr s) = (s \<noteq> [])"
| "truthy (JList xs) = (xs \<noteq> [])"
| "truthy (JObj kvs) = (kvs \<noteq> [])"

fun jitems :: "json \<Rightarrow> (string \<times> json) list" where
  "jitems (JObj kvs) = kvs"
| "jitems _ = []"

fun jlist :: "json \<Rightarrow> json list" where
  "jlist (JList xs) = xs"
| "jlist _ = []"

fun jstr :: "json \<Rightarrow> string option" where
  "jstr (JStr s) = Some s"
| "jstr _ = None"

fun jstrings :: "json \<Rightarrow> string list" where
  "jstrings j = List.map_filter jstr (jlist j)"

text \<open>The value whose text \<^verbatim>\<open>json.dumps(body, sort_keys=True)\<close> prints: keys sorted at every
  level, so two dicts with the same entries in another order have the same text.\<close>

fun canon :: "json \<Rightarrow> json" where
  "canon (JList xs) = JList (map canon xs)"
| "canon (JObj kvs) = JObj (sort_key fst (map (\<lambda>kv. (fst kv, canon (snd kv))) kvs))"
| "canon j = j"

text \<open>An int or float at or above this value is not a finite float (it rounds to infinity).\<close>

definition float_limit :: rat where
  "float_limit = 2 ^ 1024 - 2 ^ 970"

lemma float_limit_pos [simp]: "0 < float_limit"
  by (simp add: float_limit_def)

section \<open>Text\<close>

text \<open>\<^verbatim>\<open>str\<close> of a natural number and \<^verbatim>\<open>sep.join\<close>.\<close>

fun digit_char :: "nat \<Rightarrow> char" where
  "digit_char n = (char_of (48 + n) :: char)"

fun nat_str :: "nat \<Rightarrow> string" where
  "nat_str n = (if n < 10 then [digit_char n] else nat_str (n div 10) @ [digit_char (n mod 10)])"

declare nat_str.simps [simp del]

fun join :: "string \<Rightarrow> string list \<Rightarrow> string" where
  "join sep [] = []"
| "join sep [x] = x"
| "join sep (x # y # xs) = x @ sep @ join sep (y # xs)"

section \<open>Results\<close>

fun sbind :: "'e + 'a \<Rightarrow> ('a \<Rightarrow> 'e + 'b) \<Rightarrow> 'e + 'b" where
  "sbind (Inl e) f = Inl e"
| "sbind (Inr x) f = f x"

lemma sbind_Inr_iff: "sbind m f = Inr y \<longleftrightarrow> (\<exists>x. m = Inr x \<and> f x = Inr y)"
  by (cases m) auto

lemma sbind_Inl_iff: "sbind m f = Inl e \<longleftrightarrow> m = Inl e \<or> (\<exists>x. m = Inr x \<and> f x = Inl e)"
  by (cases m) auto

lemma sbind_InrE: "sbind m f = Inr y \<Longrightarrow> (\<And>x. m = Inr x \<Longrightarrow> f x = Inr y \<Longrightarrow> thesis) \<Longrightarrow> thesis"
  by (cases m) auto

lemma if_InlE: "(if b then Inl e else m) = Inr y \<Longrightarrow> (\<not> b \<Longrightarrow> m = Inr y \<Longrightarrow> thesis) \<Longrightarrow> thesis"
  by (cases b) auto

text \<open>A loop that stops at the first error, as a Python loop whose body raises.\<close>

fun smap :: "('a \<Rightarrow> 'e + 'b) \<Rightarrow> 'a list \<Rightarrow> 'e + 'b list" where
  "smap f [] = Inr []"
| "smap f (x # xs) = sbind (f x) (\<lambda>y. sbind (smap f xs) (\<lambda>ys. Inr (y # ys)))"

lemma smap_length: "smap f xs = Inr ys \<Longrightarrow> length ys = length xs"
  by (induction xs arbitrary: ys) (auto simp: sbind_Inr_iff)

lemma smap_cong: "(\<And>x. x \<in> set xs \<Longrightarrow> f x = g x) \<Longrightarrow> smap f xs = smap g xs"
  by (induction xs) auto

lemma smap_append:
  "smap f (xs @ ys) = sbind (smap f xs) (\<lambda>a. sbind (smap f ys) (\<lambda>b. Inr (a @ b)))"
proof (induction xs)
  case Nil
  show ?case by (cases "smap f ys") auto
next
  case (Cons x xs)
  show ?case
    by (cases "f x"; cases "smap f xs"; cases "smap f ys") (auto simp: Cons)
qed

section \<open>Tables with a primary key\<close>

text \<open>\<open>row_find\<close> is \<^verbatim>\<open>SELECT ... WHERE id=?\<close> with \<^verbatim>\<open>fetchone\<close>; \<open>row_update\<close> is
  \<^verbatim>\<open>UPDATE ... SET ... WHERE id=?\<close>; \<open>row_replace\<close> is \<^verbatim>\<open>INSERT OR REPLACE\<close>, which gives the
  row a new rowid (the end of the list).\<close>

definition row_find :: "('r \<Rightarrow> 'k) \<Rightarrow> 'k \<Rightarrow> 'r list \<Rightarrow> 'r option" where
  "row_find key k rows = find (\<lambda>r. key r = k) rows"

definition row_update :: "('r \<Rightarrow> 'k) \<Rightarrow> 'k \<Rightarrow> ('r \<Rightarrow> 'r) \<Rightarrow> 'r list \<Rightarrow> 'r list" where
  "row_update key k f rows = map (\<lambda>r. if key r = k then f r else r) rows"

definition row_replace :: "('r \<Rightarrow> 'k) \<Rightarrow> 'r \<Rightarrow> 'r list \<Rightarrow> 'r list" where
  "row_replace key r rows = filter (\<lambda>x. key x \<noteq> key r) rows @ [r]"

lemma row_find_Some_iff:
  assumes "distinct (map key rows)"
  shows "row_find key k rows = Some r \<longleftrightarrow> r \<in> set rows \<and> key r = k"
  using assms by (induction rows) (auto simp: row_find_def)

lemma row_find_SomeD: "row_find key k rows = Some r \<Longrightarrow> r \<in> set rows \<and> key r = k"
  by (auto simp: row_find_def find_Some_iff)

lemma row_find_None_iff: "row_find key k rows = None \<longleftrightarrow> k \<notin> key ` set rows"
  by (auto simp: row_find_def find_None_iff)

lemma row_find_append:
  "row_find key k (xs @ ys) = (case row_find key k xs of None \<Rightarrow> row_find key k ys | Some r \<Rightarrow> Some r)"
  by (induction xs) (auto simp: row_find_def)

lemma row_find_Nil [simp]: "row_find key k [] = None"
  by (simp add: row_find_def)

lemma row_find_Cons:
  "row_find key k (r # rs) = (if key r = k then Some r else row_find key k rs)"
  by (simp add: row_find_def)

text \<open>What the code relies on of one table: an update changes exactly the row it names, keeps
  every other row and the keys, and a lookup sees the update.\<close>

locale keyed_table =
  fixes key :: "'r \<Rightarrow> 'k"
  fixes get :: "'k \<Rightarrow> 't \<Rightarrow> 'r option"
  fixes upd :: "'k \<Rightarrow> ('r \<Rightarrow> 'r) \<Rightarrow> 't \<Rightarrow> 't"
  fixes ok :: "('r \<Rightarrow> 'r) \<Rightarrow> bool"
  assumes ok_key: "ok f \<Longrightarrow> key (f r) = key r"
  assumes get_key: "get k t = Some r \<Longrightarrow> key r = k"
  assumes get_upd_same: "ok f \<Longrightarrow> get k (upd k f t) = map_option f (get k t)"
  assumes get_upd_other: "ok f \<Longrightarrow> k' \<noteq> k \<Longrightarrow> get k' (upd k f t) = get k' t"
begin

lemma get_upd: "ok f \<Longrightarrow> get k' (upd k f t) = (if k' = k then map_option f (get k t) else get k' t)"
  by (simp add: get_upd_same get_upd_other)

lemma get_upd_twice:
  "ok f \<Longrightarrow> ok g \<Longrightarrow> get k' (upd k g (upd k f t)) =
     (if k' = k then map_option (g \<circ> f) (get k t) else get k' t)"
  by (simp add: get_upd option.map_comp)

lemma get_upd_None_iff: "ok f \<Longrightarrow> get k' (upd k f t) = None \<longleftrightarrow> get k' t = None"
  by (simp add: get_upd)

lemma upd_preserves:
  assumes "ok f" and "\<And>r k'. get k' t = Some r \<Longrightarrow> P r" and "\<And>r. get k t = Some r \<Longrightarrow> P (f r)"
    and "get k' (upd k f t) = Some r"
  shows "P r"
  using assms by (cases "k' = k") (auto simp: get_upd_same get_upd_other)

end

lemma row_find_update:
  assumes "\<And>r. key (f r) = key r"
  shows "row_find key k' (row_update key k f rows) =
    (if k' = k then map_option f (row_find key k rows) else row_find key k' rows)"
  using assms by (induction rows) (auto simp: row_find_def row_update_def)

lemma map_key_row_update:
  "(\<And>r. key (f r) = key r) \<Longrightarrow> map key (row_update key k f rows) = map key rows"
  by (induction rows) (auto simp: row_update_def)

lemma set_row_update:
  "set (row_update key k f rows) = (\<lambda>r. if key r = k then f r else r) ` set rows"
  by (simp add: row_update_def)

lemma row_find_replace:
  "row_find key k (row_replace key r rows) = (if k = key r then Some r else row_find key k rows)"
proof (induction rows)
  case Nil
  show ?case by (simp add: row_find_def row_replace_def)
next
  case (Cons a rows)
  then show ?case by (auto simp: row_find_def row_replace_def)
qed

lemma distinct_row_replace:
  "distinct (map key rows) \<Longrightarrow> distinct (map key (row_replace key r rows))"
  by (auto simp: row_replace_def distinct_map inj_on_def)

lemmas row_simps = row_find_update row_find_replace map_key_row_update

section \<open>Transition systems\<close>

text \<open>The reachable states of a step relation and the rule every invariant proof uses.\<close>

inductive reach :: "('s \<Rightarrow> bool) \<Rightarrow> ('s \<Rightarrow> 's \<Rightarrow> bool) \<Rightarrow> 's \<Rightarrow> bool" for init step where
  reach_init: "init s \<Longrightarrow> reach init step s"
| reach_step: "reach init step s \<Longrightarrow> step s t \<Longrightarrow> reach init step t"

inductive steps :: "('s \<Rightarrow> 's \<Rightarrow> bool) \<Rightarrow> 's \<Rightarrow> 's \<Rightarrow> bool" for step where
  steps_refl: "steps step s s"
| steps_step: "steps step s t \<Longrightarrow> step t u \<Longrightarrow> steps step s u"

lemma steps_single: "step s t \<Longrightarrow> steps step s t"
  by (rule steps_step [OF steps_refl])

lemma steps_trans: "steps step t u \<Longrightarrow> steps step s t \<Longrightarrow> steps step s u"
  by (induction rule: steps.induct) (auto intro: steps_step)

locale invariant_system =
  fixes init :: "'s \<Rightarrow> bool"
  fixes step :: "'s \<Rightarrow> 's \<Rightarrow> bool"
  fixes inv :: "'s \<Rightarrow> bool"
  assumes inv_init: "init s \<Longrightarrow> inv s"
  assumes inv_step: "inv s \<Longrightarrow> step s t \<Longrightarrow> inv t"
begin

lemma reach_inv: "reach init step s \<Longrightarrow> inv s"
  by (induction rule: reach.induct) (auto intro: inv_init inv_step)

lemma steps_inv: "steps step s t \<Longrightarrow> inv s \<Longrightarrow> inv t"
  by (induction rule: steps.induct) (auto intro: inv_step)

lemma reach_steps: "reach init step s \<Longrightarrow> steps step s t \<Longrightarrow> reach init step t"
  by (rotate_tac 1, induction rule: steps.induct) (auto intro: reach_step)

end

text \<open>A relation that every step keeps between a state and its successor, and that composes,
  holds along every run from a state of the invariant.\<close>

locale monotone_system = invariant_system +
  fixes rel :: "'a \<Rightarrow> 'a \<Rightarrow> bool"
  assumes rel_refl: "rel s s"
  assumes rel_trans: "rel s t \<Longrightarrow> rel t u \<Longrightarrow> rel s u"
  assumes rel_step: "inv s \<Longrightarrow> step s t \<Longrightarrow> rel s t"
begin

lemma steps_rel:
  assumes "steps step s t" and "inv s"
  shows "rel s t"
  using assms
proof (induction rule: steps.induct)
  case (steps_refl s)
  show ?case by (rule rel_refl)
next
  case (steps_step s t u)
  have "inv t" using steps_step.hyps(1) steps_step.prems by (rule steps_inv)
  then have "rel t u" using steps_step.hyps(2) by (rule rel_step)
  with steps_step.IH [OF steps_step.prems] show ?case by (rule rel_trans)
qed

end

section \<open>Generic list facts\<close>

lemma subseq_distinct: "subseq xs ys \<Longrightarrow> distinct ys \<Longrightarrow> distinct xs"
  by (induction rule: list_emb.induct) (auto dest: list_emb_set)

lemma map_of_sort_key: "map_of (sort_key fst kvs) = map_of kvs"
proof
  fix k
  have find: "map_of xs k = map_option snd (find (\<lambda>kv. fst kv = k) xs)" for xs :: "('a \<times> 'b) list"
    by (induction xs) auto
  have hd: "find P xs = (case filter P xs of [] \<Rightarrow> None | y # _ \<Rightarrow> Some y)" for P and xs :: "('a \<times> 'b) list"
    by (induction xs) auto
  show "map_of (sort_key fst kvs) k = map_of kvs k"
    unfolding find hd by (simp add: sort_key_stable)
qed

end
