(* ===== verification/Contracts.thy ===== *)
theory Contracts
  imports Prelude
begin

text \<open>
  The contracts of \<^verbatim>\<open>app/contracts.py\<close>: errors with their status and machine-readable reason,
  the request models and their validation, the JSON bodies of operations and resources as one
  record (\<open>doc\<close>, because the code spreads one dict into the other: \<^verbatim>\<open>{**resource}\<close>,
  \<^verbatim>\<open>{**op}\<close>), and the public view of an operation. Human-readable detail texts and
  \<^verbatim>\<open>next_action\<close> hints of errors are dropped. Timestamps are microseconds as naturals (the code
  compares ISO texts of UTC instants, whose order is the order of the instants).
\<close>

section \<open>Errors\<close>

datatype reason =
    Idempotency_key_reused | Placement_stale | Resource_busy | Resource_changed
  | Resource_not_ready | Budget_exceeded | Resource_referenced | Reference_not_ready
  | Plan_digest_mismatch | Operation_not_planned | Plan_expired | Operation_not_uncertain
  | Cloud_not_available | Placement_changed | Team_archived | Policy_denied
  | Resource_destroyed | Pattern_change_not_supported | Revision_moved
  | App_member | App_gate_mismatch | App_not_ready | App_failover_unsupported
  | App_replica_not_ready | App_failover_noop | App_destroy_unavailable | App_discard_unavailable
  | Group_check_unavailable | Requester_access_revoked
  | Promotion_needs_refs | Promotion_needs_size | Upgrade_noop
  | Tenants_source_file | Team_invalid | Warnings_not_acknowledged | If_match_required
  | Revision_stale | Team_exists | Team_unchanged | Team_has_resources
  | Team_not_archived | Expected_revisions_required

text \<open>\<open>HTTPException\<close> without a reason, \<open>OperationError\<close> with status, reason and the operation it
  names, \<open>TenancyError\<close>, its instance (status 422) whose text says that the size is not offered,
  which \<^verbatim>\<open>promotion.accept\<close> tells apart by that text, \<open>CatalogError\<close>, SQLite's \<open>IntegrityError\<close>, the exceptions of a missing
  key or a missing row, of a value of the wrong type and of an int no float can hold, and an external command's failure.\<close>

datatype err =
    HTTPException nat
  | OperationError nat reason "string option"
  | TenancyError nat
  | SizeNotOffered
  | CatalogError
  | UnknownVersion
  | ValueError
  | IntegrityError
  | KeyError
  | TypeError
  | AttributeError
  | OverflowError
  | UnboundLocalError
  | Expired_abort string

section \<open>Operations and resources\<close>

datatype action = Deploy | Destroy | Drift_check

datatype state =
    Queued | Planning | Planned | Apply_queued | Applying | Succeeded | Failed | Uncertain
  | Ready | Destroyed

text \<open>\<^verbatim>\<open>state NOT IN ('succeeded', 'failed')\<close>, the condition of the index \<^verbatim>\<open>resource_busy\<close>.\<close>

definition busy_state :: "state \<Rightarrow> bool" where
  "busy_state s \<longleftrightarrow> s \<noteq> Succeeded \<and> s \<noteq> Failed"

definition TERMINAL :: "state list" where
  "TERMINAL = [Succeeded, Failed, Uncertain]"

text \<open>A planned change, and what a plan records of its attributes: names only. An entry of
  \<^verbatim>\<open>drift\<close>, and a change stored before these keys existed, has no detail.\<close>

record attribute_detail =
  cd_changed_attributes :: "string list"
  cd_replace_paths :: "string list"
  cd_action_reason :: "string option"
  cd_sensitive_attributes :: "string list"

record change =
  c_address :: string
  c_type :: string
  c_actions :: "string list"
  c_detail :: "attribute_detail option"

record input_ref =
  ref_resource_id :: string
  ref_output :: string

datatype outcome = O_succeeded | O_failed

record reconciliation =
  rec_outcome :: outcome
  rec_actor :: string
  rec_reason :: string
  rec_at :: nat

datatype drift_status = In_sync | Drifted | Unknown

text \<open>The definition a request resolves to (\<^verbatim>\<open>policy.validate\<close>): what to run and where.\<close>

record defn =
  p_pattern :: string
  p_version :: "string option"
  p_commit :: "string option"
  p_source :: string
  p_inputs :: "(string \<times> json) list"
  p_labels :: "(string \<times> string) list"
  p_input_refs :: "(string \<times> input_ref) list"
  p_cloud :: "string option"
  p_business_unit :: "string option"
  p_environment :: "string option"
  p_subscription_id :: "string option"
  p_cloud_target :: "(string \<times> string) list option"
  p_size :: "string option"
  p_injected :: "(string \<times> json) list"

text \<open>The JSON body of an operation row and of a resource row. A key the dict does not have is
  \<open>None\<close> (\<open>False\<close> for the two flags).\<close>

record doc =
  d_def :: defn
  d_id :: string
  d_resource_id :: string
  d_actor :: string
  d_action :: action
  d_state :: "state option"
  d_created_at :: nat
  d_updated_at :: nat
  d_plan_digest :: "string option"
  d_changes :: "change list option"
  d_outputs :: "(string \<times> json) list option"
  d_withheld_outputs :: "string list option"
  d_error :: "string option"
  d_diagnostic :: "string option"
  d_cost :: json
  d_previous_cost :: "rat option"
  d_planned_at :: "nat option"
  d_drift :: "change list option"
  d_planned_objects :: "(string \<times> string) list option"
  d_discarded :: bool
  d_expired :: bool
  d_reconciliation :: "reconciliation option"
  d_operation_id :: "string option"
  d_previous_operation_id :: "string option"
  d_resource_created_at :: "nat option"
  d_managed_objects :: "(string \<times> string) list option"
  d_drift_status :: "drift_status option"
  d_drift_checked_at :: "nat option"
  d_drift_error :: "string option"
  d_promoted_from :: "string option"
  d_team_revision :: "nat option"

text \<open>Reading \<^verbatim>\<open>change\<close> entries: \<^verbatim>\<open>_change_summary\<close>.\<close>

record change_summary =
  n_create :: nat
  n_update :: nat
  n_delete :: nat
  n_replace :: nat
  n_destructive :: bool

definition classify :: "change \<Rightarrow> change_summary \<Rightarrow> change_summary" where
  "classify c s =
    (if ''create'' \<in> set (c_actions c) \<and> ''delete'' \<in> set (c_actions c)
     then s\<lparr>n_replace := n_replace s + 1\<rparr>
     else if ''create'' \<in> set (c_actions c) then s\<lparr>n_create := n_create s + 1\<rparr>
     else if ''delete'' \<in> set (c_actions c) then s\<lparr>n_delete := n_delete s + 1\<rparr>
     else if ''update'' \<in> set (c_actions c) then s\<lparr>n_update := n_update s + 1\<rparr>
     else s)"

definition change_summary_of :: "change list option \<Rightarrow> change_summary option" where
  "change_summary_of changes = (case changes of
      None \<Rightarrow> None
    | Some cs \<Rightarrow>
        let s = fold classify cs
                  \<lparr>n_create = 0, n_update = 0, n_delete = 0, n_replace = 0, n_destructive = False\<rparr>
        in Some (s\<lparr>n_destructive := (n_delete s \<noteq> 0 \<or> n_replace s \<noteq> 0)\<rparr>))"

text \<open>When a planned operation expires. \<open>max_age\<close> is the setting, as a duration.\<close>

definition plan_expires_at :: "nat option \<Rightarrow> doc \<Rightarrow> nat option" where
  "plan_expires_at max_age op = (case max_age of
      None \<Rightarrow> None
    | Some age \<Rightarrow>
        if d_state op \<noteq> Some Planned then None
        else Some ((case d_planned_at op of Some t \<Rightarrow> t | None \<Rightarrow> d_updated_at op) + age))"

section \<open>The public view of an operation\<close>

datatype next_action = Execute_with_plan_digest | Done | Inspect_failure | Reconcile_with_operator | Poll
  | Approve_with_plan_digests | Discard_planned_operations

definition next_action_of :: "state option \<Rightarrow> next_action" where
  "next_action_of s = (case s of
      Some Planned \<Rightarrow> Execute_with_plan_digest
    | Some Succeeded \<Rightarrow> Done
    | Some Failed \<Rightarrow> Inspect_failure
    | Some Uncertain \<Rightarrow> Reconcile_with_operator
    | _ \<Rightarrow> Poll)"

record op_view =
  v_id :: string
  v_resource_id :: string
  v_action :: action
  v_state :: "state option"
  v_pattern :: string
  v_version :: "string option"
  v_commit :: "string option"
  v_created_at :: nat
  v_updated_at :: nat
  v_plan_digest :: "string option"
  v_changes :: "change list option"
  v_drift :: "change list option"
  v_outputs :: "(string \<times> json) list option"
  v_withheld_outputs :: "string list option"
  v_error :: "string option"
  v_diagnostic :: "string option"
  v_change_summary :: "change_summary option"
  v_plan_expires_at :: "nat option"
  v_terminal :: bool
  v_next_action :: next_action
  v_poll_after_seconds :: "nat option"
  v_links :: "(string \<times> string) list"

definition public_operation :: "nat option \<Rightarrow> doc \<Rightarrow> string \<Rightarrow> op_view" where
  "public_operation max_age op pre =
    (let next = next_action_of (d_state op);
         base = pre @ ''/operations/'' @ d_id op
     in \<lparr>v_id = d_id op, v_resource_id = d_resource_id op, v_action = d_action op,
         v_state = d_state op, v_pattern = p_pattern (d_def op), v_version = p_version (d_def op),
         v_commit = p_commit (d_def op), v_created_at = d_created_at op,
         v_updated_at = d_updated_at op, v_plan_digest = d_plan_digest op,
         v_changes = d_changes op, v_drift = d_drift op, v_outputs = d_outputs op,
         v_withheld_outputs = d_withheld_outputs op, v_error = d_error op,
         v_diagnostic = d_diagnostic op,
         v_change_summary = change_summary_of (d_changes op),
         v_plan_expires_at = plan_expires_at max_age op,
         v_terminal = (case d_state op of Some s \<Rightarrow> s \<in> set TERMINAL | None \<Rightarrow> False),
         v_next_action = next,
         v_poll_after_seconds = (if next = Poll then Some 2 else None),
         v_links = [(''self'', base), (''events'', base @ ''/events''),
                    (''execute'', base @ ''/execute''), (''discard'', base @ ''/discard''),
                    (''reconcile'', base @ ''/reconcile''),
                    (''resource'', pre @ ''/resources/'' @ d_resource_id op)]\<rparr>)"

section \<open>Request validation\<close>

definition is_lower :: "char \<Rightarrow> bool" where
  "is_lower c \<longleftrightarrow> CHR ''a'' \<le> c \<and> c \<le> CHR ''z''"

definition is_digit :: "char \<Rightarrow> bool" where
  "is_digit c \<longleftrightarrow> CHR ''0'' \<le> c \<and> c \<le> CHR ''9''"

definition is_hex :: "char \<Rightarrow> bool" where
  "is_hex c \<longleftrightarrow> is_digit c \<or> (CHR ''a'' \<le> c \<and> c \<le> CHR ''f'')"

text \<open>\<^verbatim>\<open>LABEL_KEY.fullmatch\<close>: \<^verbatim>\<open>^[a-z][a-z0-9_.-]{0,62}$\<close>.\<close>

definition label_key :: "string \<Rightarrow> bool" where
  "label_key k = (case k of
      [] \<Rightarrow> False
    | c # cs \<Rightarrow> is_lower c \<and> length cs \<le> 62 \<and>
        list_all (\<lambda>x. is_lower x \<or> is_digit x \<or> x \<in> set ''_.-'') cs)"

definition label_value :: "string \<Rightarrow> bool" where
  "label_value v \<longleftrightarrow> length v \<le> 128 \<and>
     list_all (\<lambda>c. \<not> ((of_char c :: nat) < 32 \<or> (127 \<le> (of_char c :: nat) \<and> (of_char c :: nat) < 160))) v"

definition check_labels :: "(string \<times> string) list \<Rightarrow> err + (string \<times> string) list" where
  "check_labels ls =
    (if list_all (\<lambda>kv. label_key (fst kv) \<and> label_value (snd kv)) ls then Inr ls else Inl ValueError)"

text \<open>\<^verbatim>\<open>^res_[0-9a-f]{32}$\<close>.\<close>

definition resource_id_ok :: "string \<Rightarrow> bool" where
  "resource_id_ok s \<longleftrightarrow> take 4 s = ''res_'' \<and> length (drop 4 s) = 32 \<and> list_all is_hex (drop 4 s)"

record intent =
  i_action :: action
  i_resource_id :: "string option"
  i_pattern :: string
  i_version :: "string option"
  i_expected_commit :: "string option"
  i_business_unit :: "string option"
  i_environment :: "string option"
  i_size :: "string option"
  i_inputs :: "(string \<times> json) list"
  i_labels :: "(string \<times> string) list option"
  i_input_refs :: "(string \<times> input_ref) list option"

fun finite_json :: "json \<Rightarrow> bool" where
  "finite_json (JNonFinite k) = False"
| "finite_json (JList xs) = list_all finite_json xs"
| "finite_json (JObj kvs) = list_all (\<lambda>kv. finite_json (snd kv)) kvs"
| "finite_json _ = True"

definition check_inputs :: "(string \<times> json) list \<Rightarrow> err + (string \<times> json) list" where
  "check_inputs v = (if list_all (\<lambda>kv. finite_json (snd kv)) v then Inr v else Inl ValueError)"

definition output_name_ok :: "string \<Rightarrow> bool" where
  "output_name_ok s = (case s of
      [] \<Rightarrow> False
    | c # cs \<Rightarrow>
       (is_lower c \<or> (CHR ''A'' \<le> c \<and> c \<le> CHR ''Z'') \<or> c = CHR ''_'') \<and> length cs \<le> 63 \<and>
       list_all (\<lambda>x. is_lower x \<or> (CHR ''A'' \<le> x \<and> x \<le> CHR ''Z'') \<or> is_digit x \<or> x \<in> set ''_-'') cs)"

definition commit_ok :: "string \<Rightarrow> bool" where
  "commit_ok s \<longleftrightarrow> length s = 40 \<and> list_all is_hex s"

text \<open>The validation of the \<^verbatim>\<open>Intent\<close> model: field patterns, field validators and the model
  validator (destroy needs a target).\<close>

definition intent_ok :: "intent \<Rightarrow> bool" where
  "intent_ok i \<longleftrightarrow>
     i_action i \<in> {Deploy, Destroy} \<and>
     pred_option resource_id_ok (i_resource_id i) \<and>
     i_pattern i \<noteq> [] \<and>
     pred_option commit_ok (i_expected_commit i) \<and>
     check_inputs (i_inputs i) = Inr (i_inputs i) \<and>
     pred_option (\<lambda>ls. length ls \<le> 16 \<and> check_labels ls = Inr ls) (i_labels i) \<and>
     pred_option (\<lambda>rs. length rs \<le> 16 \<and>
        list_all (\<lambda>kv. resource_id_ok (ref_resource_id (snd kv)) \<and> output_name_ok (ref_output (snd kv))) rs)
       (i_input_refs i) \<and>
     (i_action i = Destroy \<longrightarrow> i_resource_id i \<noteq> None)"

definition action_json :: "action \<Rightarrow> json" where
  "action_json a = JStr (case a of Deploy \<Rightarrow> ''deploy'' | Destroy \<Rightarrow> ''destroy'' | Drift_check \<Rightarrow> ''drift_check'')"

definition opt_json :: "string option \<Rightarrow> json" where
  "opt_json x = (case x of None \<Rightarrow> JNull | Some s \<Rightarrow> JStr s)"

definition refs_json :: "(string \<times> input_ref) list \<Rightarrow> json" where
  "refs_json rs = JObj (map (\<lambda>(k, r).
     (k, JObj [(''resource_id'', JStr (ref_resource_id r)), (''output'', JStr (ref_output r))])) rs)"

text \<open>\<^verbatim>\<open>canonical_intent\<close>: every field, but \<^verbatim>\<open>labels\<close> and \<^verbatim>\<open>input_refs\<close> only when they are set.\<close>

definition canonical_intent :: "intent \<Rightarrow> json" where
  "canonical_intent i = JObj
    ([(''action'', action_json (i_action i)), (''resource_id'', opt_json (i_resource_id i)),
      (''pattern'', JStr (i_pattern i)), (''version'', opt_json (i_version i)),
      (''expected_commit'', opt_json (i_expected_commit i)),
      (''business_unit'', opt_json (i_business_unit i)),
      (''environment'', opt_json (i_environment i)), (''size'', opt_json (i_size i)),
      (''inputs'', JObj (i_inputs i))]
     @ (case i_labels i of None \<Rightarrow> [] | Some ls \<Rightarrow> [(''labels'', JObj (map (\<lambda>(k, v). (k, JStr v)) ls))])
     @ (case i_input_refs i of None \<Rightarrow> [] | Some rs \<Rightarrow> [(''input_refs'', refs_json rs)]))"

text \<open>What \<^verbatim>\<open>ledger.accept\<close> reads of a request: \<^verbatim>\<open>intent["action"]\<close> and
  \<^verbatim>\<open>intent.get("resource_id")\<close>.\<close>

definition intent_action :: "json \<Rightarrow> action" where
  "intent_action j = (if jget j ''action'' = JStr ''destroy'' then Destroy
     else if jget j ''action'' = JStr ''drift_check'' then Drift_check else Deploy)"

definition intent_resource_id :: "json \<Rightarrow> string option" where
  "intent_resource_id j = jstr (jget j ''resource_id'')"

text \<open>The idempotency fingerprint. SHA-256 is taken as collision free, so the digest of a text is
  represented by what the text prints: the key-sorted value.\<close>

definition fingerprint :: "json \<Rightarrow> json" where
  "fingerprint body = canon body"

section \<open>Facts\<close>

lemma busy_state_simps [simp]:
  "busy_state Queued" "busy_state Planning" "busy_state Planned" "busy_state Apply_queued"
  "busy_state Applying" "busy_state Uncertain" "\<not> busy_state Succeeded" "\<not> busy_state Failed"
  by (simp_all add: busy_state_def)

lemma intent_action_canonical [simp]: "intent_action (canonical_intent i) = i_action i"
  by (cases "i_action i") (simp_all add: intent_action_def canonical_intent_def action_json_def)

lemma intent_resource_id_canonical [simp]:
  "intent_resource_id (canonical_intent i) = i_resource_id i"
  by (cases "i_resource_id i")
    (simp_all add: intent_resource_id_def canonical_intent_def opt_json_def)

lemma plan_expires_atD:
  "plan_expires_at age op = Some t \<Longrightarrow> age \<noteq> None \<and> d_state op = Some Planned"
  by (auto simp: plan_expires_at_def split: option.splits if_splits)

definition total_changes :: "change_summary \<Rightarrow> nat" where
  "total_changes s = n_create s + n_update s + n_delete s + n_replace s"

lemma classify_total:
  "total_changes (classify c s) =
     total_changes s + (if set (c_actions c) \<inter> {''create'', ''delete'', ''update''} = {} then 0 else 1)"
  by (auto simp: classify_def total_changes_def)

lemma classify_fold_total:
  "total_changes (fold classify cs s) =
     total_changes s +
     length (filter (\<lambda>c. set (c_actions c) \<inter> {''create'', ''delete'', ''update''} \<noteq> {}) cs)"
  by (induction cs arbitrary: s) (auto simp: classify_total)

lemma classify_deletes:
  "n_delete (classify c s) + n_replace (classify c s) =
     n_delete s + n_replace s + (if ''delete'' \<in> set (c_actions c) then 1 else 0)"
  by (auto simp: classify_def)

lemma classify_fold_deletes:
  "n_delete (fold classify cs s) + n_replace (fold classify cs s) =
     n_delete s + n_replace s + length (filter (\<lambda>c. ''delete'' \<in> set (c_actions c)) cs)"
  by (induction cs arbitrary: s) (auto simp: classify_deletes)

end
