(* ===== verification/Store.thy ===== *)
theory Store
  imports Contracts
begin

text \<open>
  The SQLite file of \<^verbatim>\<open>app/ledger.py\<close> (\<^verbatim>\<open>SCHEMA\<close>) as a record of tables, the settings the
  code reads, and \<^verbatim>\<open>connect\<close>: a transaction commits every table or, when its body raises,
  restores all of them. The saved plan files on disk (\<^verbatim>\<open>deployments/<resource>/work/tfplan\<close>)
  are part of the state but are no table: a rollback does not bring a removed file back.
  Rows are kept in rowid order.
\<close>

section \<open>Tables\<close>

record op_row =
  r_id :: string
  r_resource_id :: string
  r_actor :: string
  r_request_key :: string
  r_fingerprint :: json
  r_state :: state
  r_body :: doc

datatype ev_action =
    Ev_create | Ev_execute | Ev_expire | Ev_discard | Ev_reconcile | Ev_state
  | Ev_app_create | Ev_app_router | Ev_app_state | Ev_app_failover | Ev_app_destroy
  | Ev_app_approve | Ev_app_discard | Ev_app_teardown
  | Ev_team string string nat | Ev_request string

datatype ev_outcome = Accepted | Refused | To_state state

record event_row =
  e_seq :: nat
  e_operation_id :: "string option"
  e_actor :: string
  e_action :: ev_action
  e_outcome :: ev_outcome
  e_timestamp :: nat

text \<open>The app row: who asked, what for, and which operations are its members.\<close>

record replica_ref =
  rr_replica :: nat
  rr_output :: string

record member_spec =
  sp_pattern :: string
  sp_version :: "string option"
  sp_size :: "string option"
  sp_inputs :: "(string \<times> json) list"
  sp_labels :: "(string \<times> string) list option"
  sp_replica_refs :: "(string \<times> replica_ref) list"

record member =
  m_index :: nat
  m_operation_id :: string
  m_resource_id :: string

record failover_entry =
  fo_operation_id :: string
  fo_primary :: nat
  fo_key :: string
  fo_fingerprint :: json

record teardown_entry =
  te_key :: string
  te_fingerprint :: json
  te_router :: "string option"

record teardown =
  td_key :: string
  td_fingerprint :: json
  td_actor :: string
  td_caller_groups :: "string list"
  td_router :: "string option"
  td_replicas :: "string list option"
  td_error :: "string option"

record app =
  ap_id :: string
  ap_name :: string
  ap_actor :: string
  ap_labels :: "(string \<times> string) list"
  ap_business_unit_request :: "string option"
  ap_environment_request :: "string option"
  ap_caller_groups :: "string list"
  ap_router_spec :: member_spec
  ap_primary :: nat
  ap_business_unit :: "string option"
  ap_environment :: "string option"
  ap_members :: "member list"
  ap_router_operation_id :: "string option"
  ap_router_resource_id :: "string option"
  ap_router_operations :: "string list"
  ap_failovers :: "failover_entry list"
  ap_teardown :: "teardown option"
  ap_teardowns :: nat
  ap_teardown_history :: "teardown_entry list"
  ap_error :: "string option"
  ap_created_at :: nat
  ap_updated_at :: nat

record app_row =
  a_id :: string
  a_actor :: string
  a_request_key :: string
  a_fingerprint :: json
  a_body :: app

datatype team_state = Active | Archived

record team_row =
  t_name :: string
  t_revision :: nat
  t_state :: team_state
  t_doc :: json
  t_created_at :: nat
  t_created_by :: string
  t_updated_at :: nat
  t_updated_by :: string

record team_summary =
  ts_action :: string
  ts_added :: "string list"
  ts_removed :: "string list"
  ts_changed :: "string list"

record team_revision =
  tr_name :: string
  tr_revision :: nat
  tr_actor :: string
  tr_at :: nat
  tr_reason :: string
  tr_state :: team_state
  tr_doc :: json
  tr_summary :: team_summary

text \<open>The settings of \<^verbatim>\<open>app/settings.py\<close> the modelled code reads. \<open>tenants_file\<close> is the parsed
  YAML mapping, \<open>None\<close> when neither \<^verbatim>\<open>tenants_yaml\<close> nor \<^verbatim>\<open>tenants_path\<close> is set; the durations are
  in the unit of the timestamps.\<close>

record settings =
  db_sqlite :: bool
  tenants_source_db :: bool
  tenants_file :: "json option"
  operator_groups :: string
  auditor_groups :: string
  plan_max_age :: "nat option"
  drift_sweep_interval :: nat
  live_group_checks :: bool
  auth_entra :: bool
  azure_subscription_id :: "string option"

record world =
  operations :: "op_row list"
  resources :: "(string \<times> doc) list"
  apps :: "app_row list"
  events :: "event_row list"
  teams :: "team_row list"
  team_revisions :: "team_revision list"
  plans :: "string \<Rightarrow> string option"
  cfg :: settings

text \<open>A ledger whose tables are empty (\<^verbatim>\<open>CREATE TABLE IF NOT EXISTS\<close>).\<close>

definition empty_world :: "settings \<Rightarrow> world" where
  "empty_world c = \<lparr>operations = [], resources = [], apps = [], events = [], teams = [],
     team_revisions = [], plans = (\<lambda>_. None), cfg = c\<rparr>"

section \<open>Transactions\<close>

type_synonym 'a tx = "world \<Rightarrow> (err + 'a) \<times> world"

definition rollback :: "world \<Rightarrow> world \<Rightarrow> world" where
  "rollback w w' = w\<lparr>plans := plans w'\<rparr>"

definition connect :: "'a tx \<Rightarrow> 'a tx" where
  "connect body w =
    (if \<not> db_sqlite (cfg w) then (Inl (HTTPException 503), w)
     else case body w of
            (Inl e, w') \<Rightarrow> (Inl e, rollback w w')
          | (Inr x, w') \<Rightarrow> (Inr x, w'))"

section \<open>Statements\<close>

definition op_find :: "string \<Rightarrow> world \<Rightarrow> op_row option" where
  "op_find i w = row_find r_id i (operations w)"

definition op_body :: "string \<Rightarrow> world \<Rightarrow> doc option" where
  "op_body i w = map_option r_body (op_find i w)"

definition res_find :: "string \<Rightarrow> world \<Rightarrow> doc option" where
  "res_find i w = map_option snd (row_find fst i (resources w))"

definition app_find :: "string \<Rightarrow> world \<Rightarrow> app option" where
  "app_find i w = map_option a_body (row_find a_id i (apps w))"

text \<open>\<^verbatim>\<open>event\<close>: one INSERT; \<open>AUTOINCREMENT\<close> numbers the rows of an append-only table 1, 2, ...\<close>

definition event :: "string option \<Rightarrow> string \<Rightarrow> ev_action \<Rightarrow> ev_outcome \<Rightarrow> nat \<Rightarrow> world \<Rightarrow> world" where
  "event operation_id who act out t w =
     w\<lparr>events := events w @ [\<lparr>e_seq = Suc (length (events w)), e_operation_id = operation_id,
        e_actor = who, e_action = act, e_outcome = out, e_timestamp = t\<rparr>]\<rparr>"

text \<open>\<^verbatim>\<open>_save\<close>: stamp the body and write its state and text to the row of its id.\<close>

definition stamp :: "nat \<Rightarrow> doc \<Rightarrow> doc" where
  "stamp t op = op\<lparr>d_updated_at := t\<rparr>"

definition save_op :: "doc \<Rightarrow> world \<Rightarrow> world" where
  "save_op op w = w\<lparr>operations := row_update r_id (d_id op)
     (\<lambda>r. r\<lparr>r_state := the (d_state op), r_body := op\<rparr>) (operations w)\<rparr>"

text \<open>\<^verbatim>\<open>UPDATE resources SET body=? WHERE id=?\<close> and \<^verbatim>\<open>INSERT OR REPLACE INTO resources\<close>.\<close>

definition update_resource :: "string \<Rightarrow> doc \<Rightarrow> world \<Rightarrow> world" where
  "update_resource i d w = w\<lparr>resources := row_update fst i (\<lambda>r. (fst r, d)) (resources w)\<rparr>"

definition put_resource :: "string \<Rightarrow> doc \<Rightarrow> world \<Rightarrow> world" where
  "put_resource i d w = w\<lparr>resources := row_replace fst (i, d) (resources w)\<rparr>"

text \<open>\<^verbatim>\<open>INSERT INTO operations\<close>: the primary key, \<^verbatim>\<open>UNIQUE(actor, request_key)\<close> and the partial
  unique index \<^verbatim>\<open>resource_busy\<close> make it fail.\<close>

definition op_conflict :: "op_row \<Rightarrow> op_row \<Rightarrow> bool" where
  "op_conflict a b \<longleftrightarrow> r_id a = r_id b \<or>
     (r_actor a = r_actor b \<and> r_request_key a = r_request_key b) \<or>
     (busy_state (r_state a) \<and> busy_state (r_state b) \<and> r_resource_id a = r_resource_id b)"

definition insert_op :: "op_row \<Rightarrow> unit tx" where
  "insert_op r w = (if list_ex (op_conflict r) (operations w) then (Inl IntegrityError, w)
     else (Inr (), w\<lparr>operations := operations w @ [r]\<rparr>))"

definition insert_app :: "app_row \<Rightarrow> unit tx" where
  "insert_app r w =
    (if list_ex (\<lambda>x. a_id x = a_id r \<or> (a_actor x = a_actor r \<and> a_request_key x = a_request_key r)) (apps w)
     then (Inl IntegrityError, w)
     else (Inr (), w\<lparr>apps := apps w @ [r]\<rparr>))"

text \<open>\<^verbatim>\<open>_unlink_plan\<close>; a missing file is not an error.\<close>

definition unlink_plan :: "string \<Rightarrow> world \<Rightarrow> world" where
  "unlink_plan resource_id w = w\<lparr>plans := (plans w)(resource_id := None)\<rparr>"

text \<open>\<^verbatim>\<open>refused\<close>: the audit row of a refused request, in a transaction of its own.\<close>

definition refused :: "string \<Rightarrow> ev_action \<Rightarrow> nat \<Rightarrow> unit tx" where
  "refused who act t = connect (\<lambda>w. (Inr (), event None who act Refused t w))"

section \<open>Laws\<close>

interpretation op_table: keyed_table r_id "row_find r_id" "row_update r_id"
  "\<lambda>f. \<forall>r. r_id (f r) = r_id r"
  by unfold_locales (auto simp: row_find_update dest: row_find_SomeD)

interpretation res_table: keyed_table fst "row_find fst" "row_update fst"
  "\<lambda>f. \<forall>r :: string \<times> doc. fst (f r) = fst r"
  by unfold_locales (auto simp: row_find_update simp del: split_paired_All dest: row_find_SomeD)

interpretation app_table: keyed_table a_id "row_find a_id" "row_update a_id"
  "\<lambda>f. \<forall>r. a_id (f r) = a_id r"
  by unfold_locales (auto simp: row_find_update dest: row_find_SomeD)

lemma res_find_update [table_simps]:
  "res_find j (update_resource i d w) =
     (if j = i then map_option (\<lambda>_. d) (res_find i w) else res_find j w)"
  by (auto simp: res_find_def update_resource_def res_table.get_upd option.map_comp o_def)

lemma res_find_put [table_simps]:
  "res_find j (put_resource i d w) = (if j = i then Some d else res_find j w)"
  by (simp add: res_find_def put_resource_def row_find_replace)

lemma op_find_save [table_simps]:
  "op_find j (save_op op w) =
     (if j = d_id op then map_option (\<lambda>r. r\<lparr>r_state := the (d_state op), r_body := op\<rparr>) (op_find j w)
      else op_find j w)"
  by (simp add: op_find_def save_op_def op_table.get_upd)

lemma save_op_frame [frame_simps]:
  "resources (save_op op w) = resources w" "apps (save_op op w) = apps w"
  "events (save_op op w) = events w" "teams (save_op op w) = teams w"
  "team_revisions (save_op op w) = team_revisions w" "plans (save_op op w) = plans w"
  "cfg (save_op op w) = cfg w" "res_find i (save_op op w) = res_find i w"
  "app_find i (save_op op w) = app_find i w"
  by (simp_all add: save_op_def res_find_def app_find_def)

lemma event_frame [frame_simps]:
  "operations (event a b c d t w) = operations w" "resources (event a b c d t w) = resources w"
  "apps (event a b c d t w) = apps w" "teams (event a b c d t w) = teams w"
  "team_revisions (event a b c d t w) = team_revisions w" "plans (event a b c d t w) = plans w"
  "cfg (event a b c d t w) = cfg w" "res_find i (event a b c d t w) = res_find i w"
  "op_find i (event a b c d t w) = op_find i w" "app_find i (event a b c d t w) = app_find i w"
  by (simp_all add: event_def res_find_def op_find_def app_find_def)

lemma update_resource_frame [frame_simps]:
  "operations (update_resource i d w) = operations w" "apps (update_resource i d w) = apps w"
  "events (update_resource i d w) = events w" "teams (update_resource i d w) = teams w"
  "team_revisions (update_resource i d w) = team_revisions w"
  "plans (update_resource i d w) = plans w" "cfg (update_resource i d w) = cfg w"
  "op_find j (update_resource i d w) = op_find j w" "app_find j (update_resource i d w) = app_find j w"
  by (simp_all add: update_resource_def op_find_def app_find_def)

lemma put_resource_frame [frame_simps]:
  "operations (put_resource i d w) = operations w" "apps (put_resource i d w) = apps w"
  "events (put_resource i d w) = events w" "teams (put_resource i d w) = teams w"
  "team_revisions (put_resource i d w) = team_revisions w"
  "plans (put_resource i d w) = plans w" "cfg (put_resource i d w) = cfg w"
  "op_find j (put_resource i d w) = op_find j w" "app_find j (put_resource i d w) = app_find j w"
  by (simp_all add: put_resource_def op_find_def app_find_def)

lemma unlink_plan_frame [frame_simps]:
  "operations (unlink_plan r w) = operations w" "resources (unlink_plan r w) = resources w"
  "apps (unlink_plan r w) = apps w" "events (unlink_plan r w) = events w"
  "teams (unlink_plan r w) = teams w" "team_revisions (unlink_plan r w) = team_revisions w"
  "cfg (unlink_plan r w) = cfg w" "res_find i (unlink_plan r w) = res_find i w"
  "op_find i (unlink_plan r w) = op_find i w" "app_find i (unlink_plan r w) = app_find i w"
  by (simp_all add: unlink_plan_def res_find_def op_find_def app_find_def)

lemma rollback_frame [frame_simps]:
  "operations (rollback w w') = operations w" "resources (rollback w w') = resources w"
  "apps (rollback w w') = apps w" "events (rollback w w') = events w"
  "teams (rollback w w') = teams w" "team_revisions (rollback w w') = team_revisions w"
  "cfg (rollback w w') = cfg w" "res_find i (rollback w w') = res_find i w"
  "op_find i (rollback w w') = op_find i w" "app_find i (rollback w w') = app_find i w"
  by (simp_all add: rollback_def res_find_def op_find_def app_find_def)

lemma rollback_same [simp]: "plans w' = plans w \<Longrightarrow> rollback w w' = w"
  by (simp add: rollback_def)

text \<open>What two worlds share when only files differ.\<close>

definition same_tables :: "world \<Rightarrow> world \<Rightarrow> bool" where
  "same_tables w w' \<longleftrightarrow> w'\<lparr>plans := plans w\<rparr> = w"

lemma same_tables_rollback [simp]: "same_tables w (rollback w w')"
  by (simp add: same_tables_def rollback_def)

lemma same_tables_refl [simp]: "same_tables w w"
  by (simp add: same_tables_def)

lemma same_tables_trans: "same_tables u v \<Longrightarrow> same_tables v w \<Longrightarrow> same_tables u w"
  by (cases u; cases v; cases w) (auto simp: same_tables_def)

lemma connect_error_keeps_tables:
  assumes "connect f w = (Inl e, w')"
  shows "same_tables w w'"
  using assms by (auto simp: connect_def split: if_splits prod.splits sum.splits)

lemma connect_InrD: "connect f w = (Inr x, w') \<Longrightarrow> f w = (Inr x, w') \<and> db_sqlite (cfg w)"
  by (auto simp: connect_def split: if_splits prod.splits sum.splits)

end
