(* ===== verification/Tenants.thy ===== *)
theory Tenants
  imports Store
begin

text \<open>
  Business units and placement: \<^verbatim>\<open>app/tenants.py\<close>, \<^verbatim>\<open>app/cloud_targets.py\<close> and the reads of
  \<^verbatim>\<open>app/team_store.py\<close> that the mapping needs. A unit document is the JSON value stored in the
  \<^verbatim>\<open>teams\<close> table or parsed from the file; \<open>build_unit\<close> reads it the way the code does on a document
  of the checked shape (a value of another type reads as absent). Python's frozensets are lists
  read only through membership, dicts association lists.
\<close>

section \<open>Business units\<close>

record caller =
  caller_id :: string
  caller_groups :: "string list"

record environment =
  env_name :: string
  env_subscription_id :: "string option"
  env_groups :: "string list"
  env_network :: "(string \<times> json) list"
  env_budget_monthly :: json
  env_targets :: "(string \<times> json) list"
  env_protected :: "string list"
  env_allow_destroy :: bool

record business_unit =
  u_name :: string
  u_groups :: "string list"
  u_inject :: "(string \<times> json) list"
  u_patterns :: "string list"
  u_regions_allowed :: "string list"
  u_region_default :: "string option"
  u_environments :: "(string \<times> environment) list"
  u_archived :: bool
  u_revision :: "nat option"

record placement =
  pl_unit :: business_unit
  pl_environment :: environment

definition overlap :: "string list \<Rightarrow> string list \<Rightarrow> bool" where
  "overlap xs ys \<longleftrightarrow> list_ex (\<lambda>x. List.member ys x) xs"

lemma overlap_iff: "overlap xs ys \<longleftrightarrow> set xs \<inter> set ys \<noteq> {}"
  by (auto simp: overlap_def list_ex_iff)

definition unit_includes :: "business_unit \<Rightarrow> caller \<Rightarrow> bool" where
  "unit_includes u c \<longleftrightarrow>
     overlap (caller_groups c) (u_groups u @ concat (map (\<lambda>(n, e). env_groups e) (u_environments u)))"

definition can_deploy :: "business_unit \<Rightarrow> caller \<Rightarrow> environment \<Rightarrow> bool" where
  "can_deploy u c e \<longleftrightarrow>
     overlap (caller_groups c) (if env_groups e \<noteq> [] then env_groups e else u_groups u)"

definition build_environment :: "string \<Rightarrow> json \<Rightarrow> environment" where
  "build_environment n e = \<lparr>env_name = n,
     env_subscription_id = jstr (jget e ''subscription_id''),
     env_groups = jstrings (jget e ''groups''),
     env_network = jitems (jget e ''network''),
     env_budget_monthly = jget e ''budget_monthly'',
     env_targets = jitems (jget e ''targets''),
     env_protected = jstrings (jget e ''protected_resource_types''),
     env_allow_destroy = (if jhas e ''allow_destroy'' then truthy (jget e ''allow_destroy'') else True)\<rparr>"

definition build_unit :: "string \<Rightarrow> json \<Rightarrow> bool \<Rightarrow> nat option \<Rightarrow> business_unit" where
  "build_unit n spec archived rvn =
    (let regions = jget spec ''regions'' in
     \<lparr>u_name = n,
      u_groups = jstrings (jget spec ''groups''),
      u_inject = jitems (jget spec ''inject''),
      u_patterns = jstrings (jget spec ''patterns''),
      u_regions_allowed = jstrings (jget regions ''allowed''),
      u_region_default = jstr (jget regions ''default''),
      u_environments =
        map (\<lambda>(env, e). (env, build_environment env e)) (jitems (jget spec ''environments'')),
      u_archived = archived,
      u_revision = rvn\<rparr>)"

section \<open>The mapping in force\<close>

definition db_source :: "world \<Rightarrow> bool" where
  "db_source w = tenants_source_db (cfg w)"

definition enabled :: "world \<Rightarrow> bool" where
  "enabled w \<longleftrightarrow> db_source w \<or> tenants_file (cfg w) \<noteq> None"

definition raw_mapping :: "world \<Rightarrow> json" where
  "raw_mapping w = (case tenants_file (cfg w) of None \<Rightarrow> JObj [] | Some m \<Rightarrow> m)"

text \<open>\<^verbatim>\<open>team_store.get\<close> and \<^verbatim>\<open>team_store.all_docs\<close>.\<close>

definition team_get :: "string \<Rightarrow> world \<Rightarrow> team_row option" where
  "team_get n w = row_find t_name n (teams w)"

definition list_all_teams :: "world \<Rightarrow> team_row list" where
  "list_all_teams w = sort_key t_name (teams w)"

definition unit_of_row :: "team_row \<Rightarrow> business_unit" where
  "unit_of_row r = build_unit (t_name r) (t_doc r) (t_state r = Archived) (Some (t_revision r))"

definition load :: "world \<Rightarrow> (string \<times> business_unit) list" where
  "load w =
    (if db_source w then map (\<lambda>r. (t_name r, unit_of_row r)) (list_all_teams w)
     else map (\<lambda>(n, spec). (n, build_unit n spec False None)) (jitems (jget (raw_mapping w) ''business_units'')))"

definition load_unit :: "world \<Rightarrow> string option \<Rightarrow> business_unit option" where
  "load_unit w n = (case n of None \<Rightarrow> None | Some x \<Rightarrow> map_of (load w) x)"

definition unit_env :: "business_unit \<Rightarrow> string option \<Rightarrow> environment option" where
  "unit_env u e = (case e of None \<Rightarrow> None | Some x \<Rightarrow> map_of (u_environments u) x)"

definition is_space :: "char \<Rightarrow> bool" where
  "is_space c \<longleftrightarrow> (let n = (of_char c :: nat) in (9 \<le> n \<and> n \<le> 13) \<or> (28 \<le> n \<and> n \<le> 32) \<or> n = 133 \<or> n = 160)"

definition strip :: "string \<Rightarrow> string" where
  "strip s = rev (dropWhile is_space (rev (dropWhile is_space s)))"

fun split_on :: "char \<Rightarrow> string \<Rightarrow> string list" where
  "split_on d [] = [[]]"
| "split_on d (c # cs) =
    (if c = d then [] # split_on d cs
     else case split_on d cs of [] \<Rightarrow> [[c]] | p # ps \<Rightarrow> (c # p) # ps)"

definition setting_groups :: "string \<Rightarrow> string list" where
  "setting_groups text = filter (\<lambda>g. g \<noteq> []) (map strip (split_on (CHR '','') text))"

definition is_auditor :: "world \<Rightarrow> caller \<Rightarrow> bool" where
  "is_auditor w c =
    (if db_source w then overlap (caller_groups c) (setting_groups (auditor_groups (cfg w)))
     else if \<not> enabled w then False
     else overlap (caller_groups c) (jstrings (jget (raw_mapping w) ''auditors'')))"

definition is_operator :: "world \<Rightarrow> caller \<Rightarrow> bool" where
  "is_operator w c =
    (if db_source w then overlap (caller_groups c) (setting_groups (operator_groups (cfg w)))
     else if \<not> enabled w then False
     else overlap (caller_groups c) (jstrings (jget (raw_mapping w) ''operators'')))"

definition units_for :: "world \<Rightarrow> caller \<Rightarrow> business_unit list" where
  "units_for w c = filter (\<lambda>u. unit_includes u c) (map snd (load w))"

text \<open>\<^verbatim>\<open>select_unit\<close>; the dict of the caller's units is keyed by name.\<close>

definition select_unit :: "world \<Rightarrow> caller \<Rightarrow> string option \<Rightarrow> err + business_unit" where
  "select_unit w c requested =
    (let mine = map (\<lambda>u. (u_name u, u)) (units_for w c) in
     if mine = [] then Inl (TenancyError 403)
     else case requested of
       None \<Rightarrow> (if 1 < length mine then Inl (TenancyError 422) else Inr (snd (hd mine)))
     | Some n \<Rightarrow> (case map_of mine n of None \<Rightarrow> Inl (TenancyError 403) | Some u \<Rightarrow> Inr u))"

definition place :: "caller \<Rightarrow> business_unit \<Rightarrow> string option \<Rightarrow> string \<Rightarrow> bool \<Rightarrow> err + placement" where
  "place c u env_opt pattern allow_archived =
    (if u_archived u \<and> \<not> allow_archived then Inl (TenancyError 409)
     else if \<not> List.member (u_patterns u) pattern then Inl (TenancyError 403)
     else case env_opt of
       None \<Rightarrow> Inl (TenancyError 422)
     | Some e \<Rightarrow>
        (case map_of (u_environments u) e of
           None \<Rightarrow> Inl (TenancyError 422)
         | Some env \<Rightarrow>
             if \<not> can_deploy u c env then Inl (TenancyError 403)
             else Inr \<lparr>pl_unit = u, pl_environment = env\<rparr>))"

section \<open>Cloud targets\<close>

definition identifiers :: "string \<Rightarrow> string option" where
  "identifiers cloud =
    (if cloud = ''azure'' then Some ''subscription_id''
     else if cloud = ''aws'' then Some ''aws_account_id''
     else if cloud = ''gcp'' then Some ''project_id'' else None)"

definition blank :: "string \<Rightarrow> bool" where
  "blank s \<longleftrightarrow> list_all is_space s"

fun target_text :: "json \<Rightarrow> string option" where
  "target_text (JStr s) = (if blank s then None else Some s)"
| "target_text _ = None"

definition well_formed_target :: "string \<Rightarrow> json \<Rightarrow> (string \<times> string) list option" where
  "well_formed_target ident target = (case target of
      JObj kvs \<Rightarrow>
        (if set (map fst kvs) = {ident, ''region''} \<and> list_all (\<lambda>kv. target_text (snd kv) \<noteq> None) kvs
         then Some (map (\<lambda>kv. (fst kv, the (target_text (snd kv)))) kvs) else None)
    | _ \<Rightarrow> None)"

text \<open>\<^verbatim>\<open>cloud_targets.select\<close>.\<close>

definition select_target :: "placement \<Rightarrow> string option \<Rightarrow> err + (string \<times> string) list option" where
  "select_target pl cloud = (case cloud of
      None \<Rightarrow> (if env_targets (pl_environment pl) \<noteq> [] then Inl (TenancyError 503) else Inr None)
    | Some c \<Rightarrow>
       (case map_of (env_targets (pl_environment pl)) c of
          None \<Rightarrow> Inl (OperationError 422 Cloud_not_available None)
        | Some target \<Rightarrow>
           (case identifiers c of
              None \<Rightarrow> Inl KeyError
            | Some ident \<Rightarrow>
               (case well_formed_target ident target of
                  None \<Rightarrow> Inl (TenancyError 503)
                | Some kvs \<Rightarrow> Inr (Some kvs)))))"

definition deployable :: "environment \<Rightarrow> string option \<Rightarrow> bool" where
  "deployable env cloud = (case cloud of
      None \<Rightarrow> env_targets env = []
    | Some c \<Rightarrow> map_of (env_targets env) c \<noteq> None)"

text \<open>Two dicts of strings are equal when they have the same entries in any order.\<close>

definition same_dict :: "(string \<times> string) list \<Rightarrow> (string \<times> string) list \<Rightarrow> bool" where
  "same_dict a b \<longleftrightarrow> list_all (\<lambda>k. map_of a k = map_of b k) (map fst a @ map fst b)"

definition same_target :: "(string \<times> string) list option \<Rightarrow> (string \<times> string) list option \<Rightarrow> bool" where
  "same_target a b = (case (a, b) of
      (None, None) \<Rightarrow> True | (Some x, Some y) \<Rightarrow> same_dict x y | _ \<Rightarrow> False)"

text \<open>\<^verbatim>\<open>target or None\<close>: an empty dict counts as no target.\<close>

definition target_or_none :: "(string \<times> string) list option \<Rightarrow> (string \<times> string) list option" where
  "target_or_none t = (if t = Some [] then None else t)"

definition unchanged :: "doc \<Rightarrow> string option \<Rightarrow> (string \<times> string) list option \<Rightarrow> string option \<Rightarrow> err + unit" where
  "unchanged rcd cloud target subscription =
    (if p_cloud (d_def rcd) \<noteq> cloud
        \<or> \<not> same_target (p_cloud_target (d_def rcd)) target
        \<or> (target_or_none target = None \<and> p_subscription_id (d_def rcd) \<noteq> subscription)
     then Inl (OperationError 409 Placement_changed None) else Inr ())"

text \<open>The subscription an environment's placement uses: the target's own, else the environment's.\<close>

definition placed_subscription :: "(string \<times> string) list option \<Rightarrow> environment \<Rightarrow> string option" where
  "placed_subscription target env = (case target_or_none target of
      Some kvs \<Rightarrow> map_of kvs ''subscription_id''
    | None \<Rightarrow> env_subscription_id env)"

section \<open>Facts\<close>

lemma same_dict_iff: "same_dict a b \<longleftrightarrow> map_of a = map_of b"
proof
  assume h: "same_dict a b"
  show "map_of a = map_of b"
  proof
    fix k
    show "map_of a k = map_of b k"
    proof (cases "k \<in> set (map fst a @ map fst b)")
      case True
      with h show ?thesis by (auto simp: same_dict_def list_all_iff)
    next
      case False
      then have "map_of a k = None" "map_of b k = None"
        by (auto simp: map_of_eq_None_iff)
      then show ?thesis by simp
    qed
  qed
qed (simp add: same_dict_def list_all_iff)

lemma same_target_refl [simp]: "same_target t t"
  by (auto simp: same_target_def same_dict_iff split: option.splits)

lemma placeD:
  assumes "place c u e pat aa = Inr pl"
  shows "pl_unit pl = u" and "can_deploy u c (pl_environment pl)" and "pat \<in> set (u_patterns u)"
    and "u_archived u \<Longrightarrow> aa" and "unit_env u e = Some (pl_environment pl)"
  using assms by (auto simp: place_def unit_env_def split: if_splits option.splits)

lemma select_unitD:
  assumes "select_unit w c r = Inr u"
  shows "unit_includes u c" and "u \<in> set (map snd (load w))" and "\<And>n. r = Some n \<Longrightarrow> u_name u = n"
proof -
  let ?mine = "map (\<lambda>u. (u_name u, u)) (units_for w c)"
  have ne: "?mine \<noteq> []" using assms by (auto simp: select_unit_def Let_def split: if_splits)
  have "u \<in> set (units_for w c) \<and> (\<forall>n. r = Some n \<longrightarrow> u_name u = n)"
  proof (cases r)
    case None
    have "snd (hd ?mine) = u"
      using assms None ne by (auto simp: select_unit_def Let_def split: if_splits)
    moreover have "hd ?mine \<in> set ?mine" using ne by (rule hd_in_set)
    ultimately show ?thesis using None by auto
  next
    case (Some n)
    then have "map_of ?mine n = Some u"
      using assms ne by (auto simp: select_unit_def Let_def split: if_splits option.splits)
    then have "(n, u) \<in> set ?mine" by (rule map_of_SomeD)
    then show ?thesis using Some by auto
  qed
  then show "unit_includes u c" and "u \<in> set (map snd (load w))" and "\<And>n. r = Some n \<Longrightarrow> u_name u = n"
    by (auto simp: units_for_def)
qed

lemma load_frame:
  "teams w' = teams w \<Longrightarrow> cfg w' = cfg w \<Longrightarrow> load w' = load w"
  by (simp add: load_def db_source_def raw_mapping_def list_all_teams_def)

end
