(* ===== verification/Ledger.thy ===== *)
theory Ledger
  imports Tenants
begin

text \<open>
  The operation ledger, \<^verbatim>\<open>app/ledger.py\<close>: acceptance, execution, discard, expiry, the worker's
  claim and finish, reconciliation and interruption. Each function takes the instant of its
  transaction (the code's \<^verbatim>\<open>now()\<close> readings inside one transaction are one instant) and, where it
  calls \<^verbatim>\<open>uuid4\<close>, the identifiers drawn. A function whose name ends in \<open>_tx\<close> runs inside the
  caller's transaction; the others open their own with \<open>connect\<close>.
\<close>

section \<open>Amounts\<close>

definition accounting_amount :: "json \<Rightarrow> err + rat" where
  "accounting_amount v = (case v of
      JNull \<Rightarrow> Inr 0
    | JNum q \<Rightarrow> (if 0 \<le> q \<and> q < float_limit then Inr q else Inl (HTTPException 503))
    | _ \<Rightarrow> Inl (HTTPException 503))"

text \<open>The rows \<^verbatim>\<open>_reserved\<close> adds up, and their checked sum.\<close>

definition counted :: "string option \<Rightarrow> string option \<Rightarrow> string option \<Rightarrow> string \<times> doc \<Rightarrow> bool" where
  "counted bu env exclude_id r \<longleftrightarrow>
     p_business_unit (d_def (snd r)) = bu \<and> p_environment (d_def (snd r)) = env \<and>
     Some (d_id (snd r)) \<noteq> exclude_id \<and> d_state (snd r) \<noteq> Some Destroyed"

definition reserved_tx :: "string option \<Rightarrow> string option \<Rightarrow> string option \<Rightarrow> world \<Rightarrow> err + rat" where
  "reserved_tx bu env exclude_id w =
     sbind (smap (\<lambda>r. accounting_amount (d_cost (snd r)))
              (filter (counted bu env exclude_id) (resources w)))
       (\<lambda>xs. accounting_amount (JNum (sum_list xs)))"

definition reserved :: "string option \<Rightarrow> string option \<Rightarrow> rat tx" where
  "reserved bu env = connect (\<lambda>w. (reserved_tx bu env None w, w))"

section \<open>Idempotency\<close>

definition replay_tx :: "string \<Rightarrow> string \<Rightarrow> json \<Rightarrow> world \<Rightarrow> err + doc option" where
  "replay_tx who key digest w =
    (case find (\<lambda>r. r_actor r = who \<and> r_request_key r = key) (operations w) of
       None \<Rightarrow> Inr None
     | Some r \<Rightarrow> (if r_fingerprint r \<noteq> digest then Inl (OperationError 409 Idempotency_key_reused None)
                 else Inr (Some (r_body r))))"

definition replay :: "string \<Rightarrow> string \<Rightarrow> json \<Rightarrow> doc option tx" where
  "replay who key body = connect (\<lambda>w. (replay_tx who key (fingerprint body) w, w))"

section \<open>Expiry, release and references\<close>

definition expired :: "nat \<Rightarrow> world \<Rightarrow> doc \<Rightarrow> bool" where
  "expired t w op = (case plan_expires_at (plan_max_age (cfg w)) op of None \<Rightarrow> False | Some e \<Rightarrow> e < t)"

definition restore_reservation :: "doc \<Rightarrow> world \<Rightarrow> world" where
  "restore_reservation op w =
    (if d_action op = Destroy \<or> d_action op = Drift_check then w
     else case d_previous_cost op of
       None \<Rightarrow> w
     | Some q \<Rightarrow>
        (case res_find (d_resource_id op) w of
           None \<Rightarrow> w
         | Some r \<Rightarrow> update_resource (d_resource_id op) (r\<lparr>d_cost := JNum q\<rparr>) w))"

datatype release_flag = Flag_discarded | Flag_expired

definition set_flag :: "release_flag \<Rightarrow> doc \<Rightarrow> doc" where
  "set_flag f op = (case f of Flag_discarded \<Rightarrow> op\<lparr>d_discarded := True\<rparr> | Flag_expired \<Rightarrow> op\<lparr>d_expired := True\<rparr>)"

definition released :: "string \<Rightarrow> release_flag \<Rightarrow> nat \<Rightarrow> doc \<Rightarrow> doc" where
  "released msg f t op = stamp t (set_flag f (op\<lparr>d_state := Some Failed, d_error := Some msg\<rparr>))"

definition release_plan :: "doc \<Rightarrow> string \<Rightarrow> ev_action \<Rightarrow> string \<Rightarrow> release_flag \<Rightarrow> bool \<Rightarrow> nat \<Rightarrow> world \<Rightarrow> doc \<times> world" where
  "release_plan op who act msg f unlink t w =
    (let w1 = event (Some (d_id op)) who act Accepted t w;
         op' = released msg f t op;
         w2 = save_op op' w1;
         w3 = (if unlink then unlink_plan (d_resource_id op) w2 else w2)
     in (op', restore_reservation op' w3))"

definition msg_expired :: string where
  "msg_expired = ''plan expired before execution; submit a new intent''"

definition msg_discarded :: string where
  "msg_discarded = ''plan discarded before execution''"

definition msg_interrupted :: string where
  "msg_interrupted = ''activity interrupted; operator reconciliation required''"

definition msg_check_interrupted :: string where
  "msg_check_interrupted = ''drift check interrupted; run it again''"

definition msg_reconciled_failed :: string where
  "msg_reconciled_failed = ''reconciled as failed by an operator''"

definition expire :: "doc \<Rightarrow> string \<Rightarrow> bool \<Rightarrow> nat \<Rightarrow> world \<Rightarrow> doc \<times> world" where
  "expire op who unlink t w = release_plan op who Ev_expire msg_expired Flag_expired unlink t w"

datatype ref_problem = Not_ready | Being_destroyed

definition reference_error :: "string \<Rightarrow> world \<Rightarrow> err + ref_problem option" where
  "reference_error resource_id w =
    (case res_find resource_id w of
       None \<Rightarrow> Inr (Some Not_ready)
     | Some source \<Rightarrow>
        if d_state source \<noteq> Some Ready then Inr (Some Not_ready)
        else case d_operation_id source of
               None \<Rightarrow> Inl KeyError
             | Some oid \<Rightarrow>
                (case op_body oid w of
                   None \<Rightarrow> Inr None
                 | Some latest \<Rightarrow>
                    if d_action latest = Destroy \<and> d_state latest \<notin> {Some Succeeded, Some Failed}
                    then Inr (Some Being_destroyed) else Inr None))"

definition is_referenced :: "string \<Rightarrow> world \<Rightarrow> bool" where
  "is_referenced resource_id w =
     list_ex (\<lambda>(i, d). i \<noteq> resource_id \<and> d_state d = Some Ready \<and>
        list_ex (\<lambda>(n, ref). ref_resource_id ref = resource_id) (p_input_refs (d_def d))) (resources w)"

text \<open>The loop over \<^verbatim>\<open>input_refs.values()\<close> that raises at the first problem.\<close>

fun check_refs :: "(string \<times> input_ref) list \<Rightarrow> world \<Rightarrow> err + unit" where
  "check_refs [] w = Inr ()"
| "check_refs ((n, ref) # rest) w =
    (case reference_error (ref_resource_id ref) w of
       Inl e \<Rightarrow> Inl e
     | Inr (Some problem) \<Rightarrow> Inl (OperationError 409 Reference_not_ready None)
     | Inr None \<Rightarrow> check_refs rest w)"

section \<open>Acceptance\<close>

text \<open>\<^verbatim>\<open>_check_placement\<close>: inside the acceptance transaction the unit is read again.\<close>

definition placement_unit :: "string \<Rightarrow> nat option \<Rightarrow> world \<Rightarrow> business_unit option \<times> bool" where
  "placement_unit unit_name team_stamp w =
    (if db_source w then
       (case team_get unit_name w of
          None \<Rightarrow> (None, False)
        | Some row \<Rightarrow> (Some (unit_of_row row), team_stamp \<noteq> None \<and> team_stamp \<noteq> Some (t_revision row)))
     else (load_unit w (Some unit_name), False))"

definition target_stale :: "business_unit \<Rightarrow> environment \<Rightarrow> doc \<Rightarrow> err + bool" where
  "target_stale bu env resolved =
    (case select_target \<lparr>pl_unit = bu, pl_environment = env\<rparr> (p_cloud (d_def resolved)) of
       Inl (TenancyError n) \<Rightarrow> Inr True
     | Inl (OperationError n r i) \<Rightarrow> Inr True
     | Inl e \<Rightarrow> Inl e
     | Inr target \<Rightarrow>
        Inr (\<not> same_target (target_or_none target) (target_or_none (p_cloud_target (d_def resolved)))
             \<or> placed_subscription target env \<noteq> p_subscription_id (d_def resolved)))"

definition check_placement :: "json \<Rightarrow> doc \<Rightarrow> nat option \<Rightarrow> string list option \<Rightarrow> world \<Rightarrow> err + unit" where
  "check_placement intent resolved team_stamp groups w =
    (case p_business_unit (d_def resolved) of
       None \<Rightarrow> Inr ()
     | Some unit_name \<Rightarrow>
        if \<not> enabled w \<or> unit_name = [] \<or> intent_action intent \<in> {Destroy, Drift_check} then Inr ()
        else
          let (unit_opt, moved) = placement_unit unit_name team_stamp w in
          (case unit_opt of
             None \<Rightarrow> Inl (OperationError 409 Placement_stale None)
           | Some bu \<Rightarrow>
              (case unit_env bu (p_environment (d_def resolved)) of
                 None \<Rightarrow> Inl (OperationError 409 Placement_stale None)
               | Some env \<Rightarrow>
                  if u_archived bu \<or> moved then Inl (OperationError 409 Placement_stale None)
                  else if (case groups of None \<Rightarrow> False
                           | Some gs \<Rightarrow> \<not> can_deploy bu \<lparr>caller_id = '''', caller_groups = gs\<rparr> env)
                  then Inl (OperationError 409 Placement_stale None)
                  else (case target_stale bu env resolved of
                          Inl e \<Rightarrow> Inl e
                        | Inr True \<Rightarrow> Inl (OperationError 409 Placement_stale None)
                        | Inr False \<Rightarrow> Inr ()))))"

record budget =
  b_limit :: rat
  b_legacy_committed :: json

definition busy_row :: "string \<Rightarrow> world \<Rightarrow> op_row option" where
  "busy_row resource_id w =
     find (\<lambda>r. r_resource_id r = resource_id \<and> busy_state (r_state r)) (operations w)"

text \<open>A blocker whose plan has expired is failed on the spot; any other one refuses.\<close>

definition clear_blocker :: "string \<Rightarrow> string \<Rightarrow> nat \<Rightarrow> doc option tx" where
  "clear_blocker resource_id who t w =
    (case busy_row resource_id w of
       None \<Rightarrow> (Inr None, w)
     | Some b \<Rightarrow>
        if expired t w (r_body b)
        then (Inr (Some (fst (expire (r_body b) who False t w))), snd (expire (r_body b) who False t w))
        else (Inl (OperationError 409 Resource_busy (Some (r_id b))), w))"

text \<open>The refusals that follow, in the code's order; the result is the previous and the requested
  cost, which only a deploy reads.\<close>

definition deploy_costs :: "action \<Rightarrow> doc option \<Rightarrow> doc \<Rightarrow> err + (rat \<times> rat) option" where
  "deploy_costs act previous resolved =
    (if act = Destroy \<or> act = Drift_check then Inr None
     else sbind (accounting_amount (case previous of None \<Rightarrow> JNull | Some p \<Rightarrow> d_cost p)) (\<lambda>prev.
          sbind (accounting_amount (d_cost resolved)) (\<lambda>req. Inr (Some (prev, req)))))"

definition budget_check :: "budget option \<Rightarrow> (rat \<times> rat) option \<Rightarrow> doc \<Rightarrow> string \<Rightarrow> world \<Rightarrow> err + unit" where
  "budget_check budget costs resolved resource_id w =
    (case budget of
       None \<Rightarrow> Inr ()
     | Some b \<Rightarrow>
        sbind (reserved_tx (p_business_unit (d_def resolved)) (p_environment (d_def resolved))
                 (Some resource_id) w) (\<lambda>used.
        case costs of
          None \<Rightarrow> Inl UnboundLocalError
        | Some (prev, req) \<Rightarrow>
          sbind (accounting_amount (b_legacy_committed b)) (\<lambda>legacy.
          sbind (accounting_amount (JNum (used + legacy + max prev req))) (\<lambda>total.
          if b_limit b < total then Inl (OperationError 403 Budget_exceeded None) else Inr ()))))"

definition admission :: "action \<Rightarrow> doc \<Rightarrow> budget option \<Rightarrow> string \<Rightarrow> world \<Rightarrow> err + (rat \<times> rat) option" where
  "admission act resolved budget resource_id w =
    (let previous = res_find resource_id w in
     if previous \<noteq> None \<and> d_operation_id (the previous) \<noteq> d_previous_operation_id resolved
     then Inl (OperationError 409 Resource_changed None)
     else if act = Drift_check \<and> (previous = None \<or> d_state (the previous) \<noteq> Some Ready)
     then Inl (OperationError 409 Resource_not_ready None)
     else sbind (deploy_costs act previous resolved) (\<lambda>costs.
          sbind (budget_check budget costs resolved resource_id w) (\<lambda>_.
          if act = Destroy \<and> is_referenced resource_id w
          then Inl (OperationError 409 Resource_referenced None)
          else sbind (check_refs (p_input_refs (d_def resolved)) w) (\<lambda>_. Inr costs))))"

text \<open>The operation's body: \<^verbatim>\<open>{**resolved, "id": ..., ...}\<close>. Every key the request's definition
  brings stays, except the ones listed.\<close>

definition new_op :: "string \<Rightarrow> string \<Rightarrow> string \<Rightarrow> action \<Rightarrow> (rat \<times> rat) option \<Rightarrow> doc \<Rightarrow> nat \<Rightarrow> doc" where
  "new_op op_id resource_id who act costs resolved t =
    (let op = resolved\<lparr>d_id := op_id, d_resource_id := resource_id, d_actor := who,
                d_action := act, d_state := Some Queued, d_created_at := t, d_updated_at := t,
                d_plan_digest := None, d_changes := None, d_outputs := None,
                d_withheld_outputs := None, d_error := None\<rparr>
     in case costs of None \<Rightarrow> op | Some (prev, req) \<Rightarrow> op\<lparr>d_previous_cost := Some prev\<rparr>)"

definition resource_after_accept :: "string \<Rightarrow> string \<Rightarrow> string \<Rightarrow> (rat \<times> rat) option \<Rightarrow> doc \<Rightarrow> nat \<Rightarrow> world \<Rightarrow> doc" where
  "resource_after_accept op_id resource_id who costs resolved t w =
    (let base = (case res_find resource_id w of
                   Some r \<Rightarrow> r
                 | None \<Rightarrow> resolved\<lparr>d_id := resource_id, d_actor := who, d_resource_created_at := Some t\<rparr>);
         priced = (case costs of None \<Rightarrow> base | Some (prev, req) \<Rightarrow> base\<lparr>d_cost := JNum (max prev req)\<rparr>)
     in priced\<lparr>d_operation_id := Some op_id\<rparr>)"

definition write_acceptance ::
  "string \<Rightarrow> string \<Rightarrow> json \<Rightarrow> string \<Rightarrow> string \<Rightarrow> (rat \<times> rat) option \<Rightarrow> doc \<Rightarrow> nat \<Rightarrow> doc tx" where
  "write_acceptance who key intent op_id resource_id costs resolved t w =
    (let act = intent_action intent;
         op = new_op op_id resource_id who act costs resolved t;
         w1 = event (Some op_id) who Ev_create Accepted t w
     in case insert_op \<lparr>r_id = op_id, r_resource_id = resource_id, r_actor = who,
                r_request_key = key, r_fingerprint = fingerprint intent, r_state = Queued,
                r_body = op\<rparr> w1 of
          (Inl e, w2) \<Rightarrow> (Inl e, w2)
        | (Inr _, w2) \<Rightarrow>
           (Inr op,
            if act = Drift_check then w2
            else put_resource resource_id
                   (resource_after_accept op_id resource_id who costs resolved t w2) w2))"

definition target_resource :: "json \<Rightarrow> string \<times> string \<Rightarrow> string" where
  "target_resource intent fresh = (case intent_resource_id intent of
      Some i \<Rightarrow> (if i = [] then fst fresh else i)
    | None \<Rightarrow> fst fresh)"

text \<open>\<^verbatim>\<open>_accept\<close>. \<open>fresh\<close> holds the two identifiers \<^verbatim>\<open>uuid4\<close> would draw: a resource's, used when the
  intent names none, and the operation's.\<close>

definition accept_tx ::
  "string \<Rightarrow> string \<Rightarrow> json \<Rightarrow> doc \<Rightarrow> budget option \<Rightarrow> string list option \<Rightarrow> nat \<Rightarrow> string \<times> string
     \<Rightarrow> (doc \<times> doc option) tx" where
  "accept_tx who key intent resolved0 budget groups t fresh w =
    (case replay_tx who key (fingerprint intent) w of
       Inl e \<Rightarrow> (Inl e, w)
     | Inr (Some existing) \<Rightarrow> (Inr (existing, None), w)
     | Inr None \<Rightarrow>
        let resolved = resolved0\<lparr>d_team_revision := None\<rparr> in
        (case check_placement intent resolved (d_team_revision resolved0) groups w of
           Inl e \<Rightarrow> (Inl e, w)
         | Inr _ \<Rightarrow>
            let resource_id = target_resource intent fresh in
            (case clear_blocker resource_id who t w of
               (Inl e, w1) \<Rightarrow> (Inl e, w1)
             | (Inr blocker, w1) \<Rightarrow>
                (case admission (intent_action intent) resolved budget resource_id w1 of
                   Inl e \<Rightarrow> (Inl e, w1)
                 | Inr costs \<Rightarrow>
                    (case write_acceptance who key intent (snd fresh) resource_id costs resolved t w1 of
                       (Inl e, w2) \<Rightarrow> (Inl e, w2)
                     | (Inr op, w2) \<Rightarrow> (Inr (op, blocker), w2))))))"

definition unlink_blocker :: "doc option \<Rightarrow> world \<Rightarrow> world" where
  "unlink_blocker blocker w = (case blocker of None \<Rightarrow> w | Some b \<Rightarrow> unlink_plan (d_resource_id b) w)"

text \<open>\<^verbatim>\<open>accept\<close>: the plan file of an expired blocker goes only after the commit.\<close>

definition accept ::
  "string \<Rightarrow> string \<Rightarrow> json \<Rightarrow> doc \<Rightarrow> budget option \<Rightarrow> string list option \<Rightarrow> nat \<Rightarrow> string \<times> string \<Rightarrow> doc tx" where
  "accept who key intent resolved budget groups t fresh w =
    (case connect (accept_tx who key intent resolved budget groups t fresh) w of
       (Inl e, w1) \<Rightarrow> (Inl e, w1)
     | (Inr (op, blocker), w1) \<Rightarrow> (Inr op, unlink_blocker blocker w1))"

end
