(* ===== verification/Lifecycle.thy ===== *)
theory Lifecycle
  imports Ledger
begin

text \<open>
  The rest of an operation's life in \<^verbatim>\<open>app/ledger.py\<close>: execute (one or several at once), discard,
  the worker's claim and finish, reconcile, interrupted, and the drift verdicts written on the
  resource.
\<close>

section \<open>Execution\<close>

text \<open>\<^verbatim>\<open>_execute\<close>: the operation and whether it was found expired (and has just been failed).\<close>

definition execute_tx :: "string \<Rightarrow> string \<Rightarrow> string \<Rightarrow> nat \<Rightarrow> (doc \<times> bool) tx" where
  "execute_tx operation_id digest who t w =
    (case op_body operation_id w of
       None \<Rightarrow> (Inl TypeError, w)
     | Some op \<Rightarrow>
        if d_plan_digest op \<noteq> Some digest then (Inl (OperationError 409 Plan_digest_mismatch None), w)
        else if d_state op \<in> {Some Apply_queued, Some Applying, Some Succeeded} then (Inr (op, False), w)
        else if d_state op = Some Planned \<and> expired t w op
        then (Inr (fst (expire op who True t w), True), snd (expire op who True t w))
        else if d_state op \<noteq> Some Planned then (Inl (OperationError 409 Operation_not_planned None), w)
        else
          (case (if d_action op \<noteq> Destroy then check_refs (p_input_refs (d_def op)) w else Inr ()) of
             Inl e \<Rightarrow> (Inl e, w)
           | Inr _ \<Rightarrow>
              let op' = stamp t (op\<lparr>d_state := Some Apply_queued\<rparr>)
              in (Inr (op', False), save_op op' (event (Some operation_id) who Ev_execute Accepted t w))))"

text \<open>\<^verbatim>\<open>execute\<close>: the expiry commits although the request is refused.\<close>

definition execute :: "string \<Rightarrow> string \<Rightarrow> string \<Rightarrow> nat \<Rightarrow> doc tx" where
  "execute operation_id digest who t w =
    (case connect (execute_tx operation_id digest who t) w of
       (Inl e, w1) \<Rightarrow> (Inl e, w1)
     | (Inr (op, was_expired), w1) \<Rightarrow>
        if was_expired then (Inl (OperationError 409 Plan_expired (Some (d_id op))), w1) else (Inr op, w1))"

fun execute_all :: "(string \<times> string) list \<Rightarrow> string \<Rightarrow> nat \<Rightarrow> doc list tx" where
  "execute_all [] who t w = (Inr [], w)"
| "execute_all ((operation_id, digest) # items) who t w =
    (case execute_tx operation_id digest who t w of
       (Inl e, w1) \<Rightarrow> (Inl e, w1)
     | (Inr (op, True), w1) \<Rightarrow> (Inl (Expired_abort operation_id), w1)
     | (Inr (op, False), w1) \<Rightarrow>
        (case execute_all items who t w1 of
           (Inl e, w2) \<Rightarrow> (Inl e, w2)
         | (Inr ops, w2) \<Rightarrow> (Inr (op # ops), w2)))"

definition execute_batch :: "(string \<times> string) list \<Rightarrow> string \<Rightarrow> string option \<Rightarrow> nat \<Rightarrow> doc list tx" where
  "execute_batch items who app_id t w =
    (case execute_all items who t w of
       (Inl e, w1) \<Rightarrow> (Inl e, w1)
     | (Inr ops, w1) \<Rightarrow>
        (Inr ops, case app_id of None \<Rightarrow> w1 | Some a \<Rightarrow> event (Some a) who Ev_app_approve Accepted t w1))"

text \<open>\<^verbatim>\<open>execute_many\<close>: all or none. A plan that turned out to be expired rolls the batch back and is
  then failed on its own.\<close>

definition execute_many :: "(string \<times> string) list \<Rightarrow> string \<Rightarrow> string option \<Rightarrow> nat \<Rightarrow> doc list tx" where
  "execute_many items who app_id t w =
    (case connect (execute_batch items who app_id t) w of
       (Inl (Expired_abort i), w1) \<Rightarrow>
         (case map_of items i of
            None \<Rightarrow> (Inl KeyError, w1)
          | Some digest \<Rightarrow>
             (case execute i digest who t w1 of
                (Inl e, w2) \<Rightarrow> (Inl e, w2)
              | (Inr _, w2) \<Rightarrow> (Inl (OperationError 409 Plan_expired None), w2)))
     | (Inl e, w1) \<Rightarrow> (Inl e, w1)
     | (Inr ops, w1) \<Rightarrow> (Inr ops, w1))"

definition discard_tx :: "string \<Rightarrow> string \<Rightarrow> nat \<Rightarrow> doc tx" where
  "discard_tx operation_id who t w =
    (case op_body operation_id w of
       None \<Rightarrow> (Inl TypeError, w)
     | Some op \<Rightarrow>
        if d_discarded op then (Inr op, w)
        else if d_state op \<noteq> Some Planned then (Inl (OperationError 409 Operation_not_planned None), w)
        else (Inr (fst (release_plan op who Ev_discard msg_discarded Flag_discarded True t w)),
              snd (release_plan op who Ev_discard msg_discarded Flag_discarded True t w)))"

definition discard :: "string \<Rightarrow> string \<Rightarrow> nat \<Rightarrow> doc tx" where
  "discard operation_id who t = connect (discard_tx operation_id who t)"

section \<open>The worker\<close>

datatype phase = Plan_phase | Apply_phase

definition phase_states :: "phase \<Rightarrow> state \<times> state" where
  "phase_states p = (case p of Plan_phase \<Rightarrow> (Queued, Planning) | Apply_phase \<Rightarrow> (Apply_queued, Applying))"

definition worker_actor :: string where
  "worker_actor = ''temporal-worker''"

definition claim_tx :: "string \<Rightarrow> phase \<Rightarrow> nat \<Rightarrow> doc option tx" where
  "claim_tx operation_id p t w =
    (case op_find operation_id w of
       None \<Rightarrow> (Inr None, w)
     | Some r \<Rightarrow>
        if r_state r \<noteq> fst (phase_states p) then (Inr None, w)
        else
          let op = stamp t ((r_body r)\<lparr>d_state := Some (snd (phase_states p))\<rparr>)
          in (Inr (Some op),
              event (Some (d_id op)) worker_actor Ev_state (To_state (snd (phase_states p))) t (save_op op w)))"

definition claim :: "string \<Rightarrow> phase \<Rightarrow> nat \<Rightarrow> doc option tx" where
  "claim operation_id p t = connect (claim_tx operation_id p t)"

text \<open>\<^verbatim>\<open>_record_drift_check\<close>.\<close>

definition drift_verdict :: "doc \<Rightarrow> state \<Rightarrow> nat \<Rightarrow> doc \<Rightarrow> doc" where
  "drift_verdict op s t resource =
    (let found = (case d_drift op of None \<Rightarrow> [] | Some d \<Rightarrow> d) in
     (if s = Succeeded
      then resource\<lparr>d_drift_status := Some (if found \<noteq> [] then Drifted else In_sync),
             d_drift := Some found, d_drift_error := None\<rparr>
      else resource\<lparr>d_drift_status := Some Unknown, d_drift := None\<rparr>)
     \<lparr>d_drift_checked_at := Some t\<rparr>)"

definition record_drift_check :: "doc \<Rightarrow> state \<Rightarrow> nat \<Rightarrow> world \<Rightarrow> world" where
  "record_drift_check op s t w =
    (case res_find (d_resource_id op) w of
       None \<Rightarrow> w
     | Some resource \<Rightarrow> update_resource (d_resource_id op) (drift_verdict op s t resource) w)"

text \<open>\<^verbatim>\<open>_mark_succeeded_resource\<close>: \<^verbatim>\<open>{**op, ...}\<close> with the keys listed replaced.\<close>

definition succeeded_resource :: "doc \<Rightarrow> doc option \<Rightarrow> drift_status \<Rightarrow> nat \<Rightarrow> doc" where
  "succeeded_resource op previous ds t =
    (let gone = (d_action op = Destroy);
         resource = op\<lparr>d_id := d_resource_id op, d_operation_id := Some (d_id op),
           d_state := Some (if gone then Destroyed else Ready),
           d_resource_created_at := (case previous of None \<Rightarrow> None | Some p \<Rightarrow> d_resource_created_at p),
           d_managed_objects := (if gone then Some [] else d_planned_objects op),
           d_drift_status := (if gone then None else Some ds),
           d_drift_checked_at := (if gone then None else Some t),
           d_drift := (if gone then None else Some [])\<rparr>;
         origin = (case previous of None \<Rightarrow> None | Some p \<Rightarrow> d_promoted_from p)
     in if d_promoted_from op = None \<and> origin \<noteq> None
        then resource\<lparr>d_promoted_from := origin\<rparr> else resource)"

definition mark_succeeded_resource :: "doc \<Rightarrow> drift_status \<Rightarrow> nat \<Rightarrow> world \<Rightarrow> world" where
  "mark_succeeded_resource op ds t w =
     update_resource (d_resource_id op)
       (succeeded_resource op (res_find (d_resource_id op) w) ds t) w"

text \<open>The keyword arguments of \<^verbatim>\<open>finish\<close>; \<open>None\<close> is a key not given.\<close>

record finish_result =
  fr_plan_digest :: "string option"
  fr_changes :: "change list option"
  fr_drift :: "change list option"
  fr_planned_objects :: "(string \<times> string) list option"
  fr_outputs :: "(string \<times> json) list option"
  fr_withheld_outputs :: "string list option"
  fr_error :: "string option"
  fr_diagnostic :: "string option option"

definition no_result :: finish_result where
  "no_result = \<lparr>fr_plan_digest = None, fr_changes = None, fr_drift = None, fr_planned_objects = None,
     fr_outputs = None, fr_withheld_outputs = None, fr_error = None, fr_diagnostic = None\<rparr>"

definition override :: "'a option \<Rightarrow> 'a option \<Rightarrow> 'a option" where
  "override new old = (case new of None \<Rightarrow> old | Some x \<Rightarrow> Some x)"

definition apply_result :: "finish_result \<Rightarrow> doc \<Rightarrow> doc" where
  "apply_result fr op = op
     \<lparr>d_plan_digest := override (fr_plan_digest fr) (d_plan_digest op),
      d_changes := override (fr_changes fr) (d_changes op),
      d_drift := override (fr_drift fr) (d_drift op),
      d_planned_objects := override (fr_planned_objects fr) (d_planned_objects op),
      d_outputs := override (fr_outputs fr) (d_outputs op),
      d_withheld_outputs := override (fr_withheld_outputs fr) (d_withheld_outputs op),
      d_error := override (fr_error fr) (d_error op),
      d_diagnostic := (case fr_diagnostic fr of None \<Rightarrow> d_diagnostic op | Some x \<Rightarrow> x)\<rparr>"

definition finished :: "doc \<Rightarrow> state \<Rightarrow> finish_result \<Rightarrow> nat \<Rightarrow> doc" where
  "finished op s fr t =
    (let op1 = apply_result fr (op\<lparr>d_state := Some s\<rparr>);
         op2 = (if s = Planned then op1\<lparr>d_planned_at := Some t\<rparr> else op1)
     in stamp t op2)"

definition finish_tx :: "doc \<Rightarrow> state \<Rightarrow> finish_result \<Rightarrow> nat \<Rightarrow> unit tx" where
  "finish_tx op s fr t w =
    (case op_find (d_id op) w of
       None \<Rightarrow> (Inr (), w)
     | Some r \<Rightarrow>
        if Some (r_state r) \<noteq> d_state op then (Inr (), w)
        else
          let op' = finished op s fr t;
              w1 = event (Some (d_id op')) worker_actor Ev_state (To_state s) t (save_op op' w)
          in (Inr (),
              if d_action op' = Drift_check
              then (if s = Succeeded \<or> s = Failed then record_drift_check op' s t w1 else w1)
              else if s = Succeeded then mark_succeeded_resource op' In_sync t w1
              else if s = Failed then restore_reservation op' w1
              else w1))"

definition finish :: "doc \<Rightarrow> state \<Rightarrow> finish_result \<Rightarrow> nat \<Rightarrow> unit tx" where
  "finish op s fr t = connect (finish_tx op s fr t)"

section \<open>Reconciliation and interruption\<close>

definition outcome_state :: "outcome \<Rightarrow> state" where
  "outcome_state oc = (case oc of O_succeeded \<Rightarrow> Succeeded | O_failed \<Rightarrow> Failed)"

definition reconciled :: "doc \<Rightarrow> string \<Rightarrow> outcome \<Rightarrow> string \<Rightarrow> nat \<Rightarrow> doc" where
  "reconciled op who outc why t = stamp t
     (op\<lparr>d_state := Some (outcome_state outc),
         d_error := (if outc = O_succeeded then None else Some msg_reconciled_failed),
         d_reconciliation := Some \<lparr>rec_outcome = outc, rec_actor = who, rec_reason = why, rec_at = t\<rparr>\<rparr>)"

definition reconcile_tx :: "string \<Rightarrow> string \<Rightarrow> outcome \<Rightarrow> string \<Rightarrow> nat \<Rightarrow> doc tx" where
  "reconcile_tx operation_id who outc why t w =
    (case op_body operation_id w of
       None \<Rightarrow> (Inl TypeError, w)
     | Some op \<Rightarrow>
        (case d_reconciliation op of
           Some existing \<Rightarrow>
             if rec_outcome existing = outc then (Inr op, w) else (Inl (HTTPException 409), w)
         | None \<Rightarrow>
            if d_state op \<noteq> Some Uncertain then (Inl (OperationError 409 Operation_not_uncertain None), w)
            else if outc = O_succeeded \<and> (d_plan_digest op = None \<or> d_plan_digest op = Some [])
            then (Inl (HTTPException 409), w)
            else
              let w1 = event (Some operation_id) who Ev_reconcile Accepted t w;
                  op' = reconciled op who outc why t;
                  w2 = event (Some (d_id op')) who Ev_state (To_state (outcome_state outc)) t (save_op op' w1)
              in (Inr op', if outc = O_succeeded then mark_succeeded_resource op' Unknown t w2
                           else restore_reservation op' w2)))"

definition reconcile :: "string \<Rightarrow> string \<Rightarrow> outcome \<Rightarrow> string \<Rightarrow> nat \<Rightarrow> doc tx" where
  "reconcile operation_id who outc why t = connect (reconcile_tx operation_id who outc why t)"

definition interrupted_tx :: "string \<Rightarrow> phase \<Rightarrow> nat \<Rightarrow> unit tx" where
  "interrupted_tx operation_id p t w =
    (case op_find operation_id w of
       None \<Rightarrow> (Inr (), w)
     | Some r \<Rightarrow>
        if r_state r \<noteq> fst (phase_states p) \<and> r_state r \<noteq> snd (phase_states p) then (Inr (), w)
        else if d_action (r_body r) = Drift_check
        then
          let op = stamp t ((r_body r)\<lparr>d_state := Some Failed, d_error := Some msg_check_interrupted\<rparr>)
          in (Inr (), record_drift_check op Failed t
                (event (Some operation_id) worker_actor Ev_state (To_state Failed) t (save_op op w)))
        else
          let op = stamp t ((r_body r)\<lparr>d_state := Some Uncertain, d_error := Some msg_interrupted\<rparr>)
          in (Inr (), event (Some operation_id) worker_actor Ev_state (To_state Uncertain) t (save_op op w)))"

definition interrupted :: "string \<Rightarrow> phase \<Rightarrow> nat \<Rightarrow> unit tx" where
  "interrupted operation_id p t = connect (interrupted_tx operation_id p t)"

text \<open>\<^verbatim>\<open>stamp_drift_refusal\<close>.\<close>

definition stamp_drift_refusal :: "string \<Rightarrow> string \<Rightarrow> bool \<Rightarrow> nat \<Rightarrow> unit tx" where
  "stamp_drift_refusal resource_id why unknown t = connect (\<lambda>w.
     case res_find resource_id w of
       None \<Rightarrow> (Inr (), w)
     | Some r \<Rightarrow>
        let r1 = (if unknown then r\<lparr>d_drift_status := Some Unknown, d_drift := None\<rparr> else r)
        in (Inr (), update_resource resource_id
              (r1\<lparr>d_drift_checked_at := Some t, d_drift_error := Some why\<rparr>) w))"

end
