(* ===== verification/Catalog.thy ===== *)
theory Catalog
  imports Tenants
begin

text \<open>
  The pattern catalog, \<^verbatim>\<open>app/catalog.py\<close>: catalog entries, semver tags of a pattern's repository,
  version resolution and the variables a pattern declares. What git, the HCL parser, YAML and the
  JSON schema validator answer are the fields of \<open>ext\<close>; a version's variables and configuration
  are a function of the resolved commit, which is what the code's cache by commit relies on.
\<close>

section \<open>Patterns\<close>

record pattern =
  pt_name :: string
  pt_repo :: "string option"
  pt_path :: string
  pt_default_version :: "string option"
  pt_local :: "string option"
  pt_cloud :: "string option"

record resolved =
  rs_pattern :: pattern
  rs_version :: "string option"
  rs_commit :: "string option"

record variable =
  v_name :: string
  v_type :: string
  v_required :: bool
  v_default :: json
  v_description :: string
  v_sensitive :: bool
  v_conditions :: "string list"

text \<open>A row of the legacy deployments database, as far as budgets read it.\<close>

record legacy_row =
  lr_business_unit :: string
  lr_environment :: string
  lr_destroyed :: bool
  lr_cost :: json

text \<open>The outside world: the parsed catalog file, \<^verbatim>\<open>git ls-remote --tags\<close> of a URL, the HCL
  documents and the parsed \<^verbatim>\<open>config.yaml\<close> of a resolved version (a checkout may fail), \<^verbatim>\<open>json.loads\<close>,
  whether \<^verbatim>\<open>re.compile\<close> takes a pattern, the schema validator (the fields of the problems it finds), the absolute path of a local pattern,
  the legacy database (\<open>None\<close> when there is none with budget columns), and the current group
  membership of a caller (\<open>None\<close> when the directory does not answer).\<close>

record ext =
  x_catalog :: "(string \<times> json) list"
  x_tags :: "string \<Rightarrow> err + string list"
  x_documents :: "resolved \<Rightarrow> err + json list"
  x_config :: "resolved \<Rightarrow> err + json"
  x_json :: "string \<Rightarrow> json option"
  x_regex_ok :: "string \<Rightarrow> bool"
  x_validator :: "json \<Rightarrow> (string \<times> json) list \<Rightarrow> string option list"
  x_absolute :: "string \<Rightarrow> string"
  x_legacy :: "legacy_row list option"
  x_member_groups :: "string \<Rightarrow> string list option"

definition has_prefix :: "string \<Rightarrow> string \<Rightarrow> bool" where
  "has_prefix p s \<longleftrightarrow> take (length p) s = p"

definition removeprefix :: "string \<Rightarrow> string \<Rightarrow> string" where
  "removeprefix p s = (if has_prefix p s then drop (length p) s else s)"

definition has_suffix :: "string \<Rightarrow> string \<Rightarrow> bool" where
  "has_suffix p s \<longleftrightarrow> length p \<le> length s \<and> drop (length s - length p) s = p"

definition removesuffix :: "string \<Rightarrow> string \<Rightarrow> string" where
  "removesuffix p s = (if has_suffix p s then take (length s - length p) s else s)"

fun contains_text :: "string \<Rightarrow> string \<Rightarrow> bool" where
  "contains_text p [] = (p = [])"
| "contains_text p (c # s) = (has_prefix p (c # s) \<or> contains_text p s)"

definition git_url :: "pattern \<Rightarrow> string" where
  "git_url p = (let repo = (case pt_repo p of None \<Rightarrow> [] | Some r \<Rightarrow> r) in
     if contains_text ''://'' repo then repo else ''https://'' @ repo @ ''.git'')"

definition is_local :: "pattern \<Rightarrow> bool" where
  "is_local p = (case pt_local p of None \<Rightarrow> False | Some l \<Rightarrow> l \<noteq> [])"

definition or_empty :: "string option \<Rightarrow> string" where
  "or_empty x = (case x of None \<Rightarrow> [] | Some s \<Rightarrow> s)"

text \<open>\<^verbatim>\<open>Resolved.terraform_source\<close>.\<close>

definition terraform_source :: "ext \<Rightarrow> resolved \<Rightarrow> string" where
  "terraform_source x r = (let p = rs_pattern r in
     if is_local p then x_absolute x (or_empty (pt_local p))
     else ''git::'' @ git_url p @ (if pt_path p \<noteq> [] then ''//'' @ pt_path p else []) @ ''?ref='' @ or_empty (rs_commit r))"

definition entry_keys :: "string list" where
  "entry_keys = [''repo'', ''path'', ''default_version'', ''local'', ''cloud'']"

text \<open>\<^verbatim>\<open>_entry\<close> and \<^verbatim>\<open>Pattern.__post_init__\<close>.\<close>

definition catalog_entry :: "string \<Rightarrow> json \<Rightarrow> err + pattern" where
  "catalog_entry n spec = (case spec of
      JObj kvs \<Rightarrow>
        if list_ex (\<lambda>kv. \<not> List.member entry_keys (fst kv)) kvs then Inl CatalogError
        else let cloud = jstr (jget spec ''cloud'') in
          if cloud \<noteq> None \<and> identifiers (the cloud) = None then Inl CatalogError
          else Inr \<lparr>pt_name = n, pt_repo = jstr (jget spec ''repo''),
                 pt_path = or_empty (jstr (jget spec ''path'')),
                 pt_default_version = jstr (jget spec ''default_version''),
                 pt_local = jstr (jget spec ''local''), pt_cloud = cloud\<rparr>
    | _ \<Rightarrow> Inl CatalogError)"

definition catalog_load :: "ext \<Rightarrow> err + (string \<times> pattern) list" where
  "catalog_load x = smap (\<lambda>(n, spec). sbind (catalog_entry n spec) (\<lambda>p. Inr (n, p))) (x_catalog x)"

definition catalog_get :: "ext \<Rightarrow> string \<Rightarrow> err + pattern" where
  "catalog_get x n = sbind (catalog_load x) (\<lambda>ps.
     case map_of ps n of None \<Rightarrow> Inl CatalogError | Some p \<Rightarrow> Inr p)"

section \<open>Versions\<close>

definition decimal :: "string \<Rightarrow> nat" where
  "decimal s = fold (\<lambda>c n. n * 10 + (of_char c - 48)) s 0"

definition number_text :: "string \<Rightarrow> bool" where
  "number_text s \<longleftrightarrow> s \<noteq> [] \<and> list_all is_digit s"

text \<open>\<^verbatim>\<open>_SEMVER = ^v?(\d+)\.(\d+)\.(\d+)$\<close> with the integers of its groups (\<^verbatim>\<open>_key\<close>).\<close>

definition semver :: "string \<Rightarrow> nat list option" where
  "semver s = (let parts = split_on (CHR ''.'') (removeprefix ''v'' s) in
     if length parts = 3 \<and> list_all number_text parts then Some (map decimal parts) else None)"

text \<open>One line of \<^verbatim>\<open>ls-remote\<close>: the commit, a tab, the ref. \<^verbatim>\<open>found\<close> is a dict in insertion order.\<close>

definition tag_line :: "string \<Rightarrow> (string \<times> string \<times> bool) option" where
  "tag_line line = (case split_on (CHR 0x09) line of
      [sha, ref] \<Rightarrow>
        (let tag = removeprefix ''refs/tags/'' ref
         in Some (removesuffix ''^{}'' tag, sha, has_suffix ''^{}'' tag))
    | _ \<Rightarrow> None)"

fun dict_set :: "'k \<Rightarrow> 'v \<Rightarrow> ('k \<times> 'v) list \<Rightarrow> ('k \<times> 'v) list" where
  "dict_set k v [] = [(k, v)]"
| "dict_set k v ((k', v') # d) = (if k' = k then (k, v) # d else (k', v') # dict_set k v d)"

definition dict_setdefault :: "'k \<Rightarrow> 'v \<Rightarrow> ('k \<times> 'v) list \<Rightarrow> ('k \<times> 'v) list" where
  "dict_setdefault k v d = (if map_of d k = None then d @ [(k, v)] else d)"

definition dict_merge :: "('k \<times> 'v) list \<Rightarrow> ('k \<times> 'v) list \<Rightarrow> ('k \<times> 'v) list" where
  "dict_merge a b = fold (\<lambda>(k, v). dict_set k v) b a"

fun collect_tags :: "string list \<Rightarrow> (string \<times> string) list \<Rightarrow> err + (string \<times> string) list" where
  "collect_tags [] found = Inr found"
| "collect_tags (line # rest) found =
    (case tag_line line of
       None \<Rightarrow> Inl ValueError
     | Some (tag, sha, peeled) \<Rightarrow>
        if semver tag = None then collect_tags rest found
        else collect_tags rest (if peeled then dict_set tag sha found else dict_setdefault tag sha found))"

text \<open>Newest first; Python's \<^verbatim>\<open>sorted(reverse=True)\<close> keeps equal elements in their order.\<close>

definition newest_first :: "string list \<Rightarrow> string list" where
  "newest_first tags = rev (sort_key (\<lambda>t. the (semver t)) (rev tags))"

definition versions :: "ext \<Rightarrow> pattern \<Rightarrow> err + (string \<times> string) list" where
  "versions x p =
    (if is_local p then Inr []
     else sbind (x_tags x (git_url p)) (\<lambda>lines.
          sbind (collect_tags lines []) (\<lambda>found.
          Inr (map (\<lambda>tag. (tag, the (map_of found tag))) (newest_first (map fst found))))))"

definition catalog_resolve :: "ext \<Rightarrow> string \<Rightarrow> string option \<Rightarrow> err + resolved" where
  "catalog_resolve x n version = sbind (catalog_get x n) (\<lambda>p.
     if is_local p then Inr \<lparr>rs_pattern = p, rs_version = None, rs_commit = None\<rparr>
     else sbind (versions x p) (\<lambda>available.
       if available = [] then Inl UnknownVersion
       else let v = (case version of Some v \<Rightarrow> v
                     | None \<Rightarrow> (if or_empty (pt_default_version p) \<noteq> [] then or_empty (pt_default_version p)
                               else fst (hd available)))
            in case map_of available v of
                 None \<Rightarrow> Inl UnknownVersion
               | Some commit \<Rightarrow> Inr \<lparr>rs_pattern = p, rs_version = Some v, rs_commit = Some commit\<rparr>))"

text \<open>\<^verbatim>\<open>upgrade_available\<close>, given the newest tag (\<^verbatim>\<open>latest_version\<close>, whose cache is not modelled).\<close>

definition upgrade_available :: "string \<Rightarrow> string option \<Rightarrow> string list \<Rightarrow> string option \<Rightarrow> (string \<times> bool) option" where
  "upgrade_available n applied allowed latest =
    (case semver (or_empty applied) of
       None \<Rightarrow> None
     | Some cur \<Rightarrow>
        if \<not> List.member allowed n then None
        else case latest of
          None \<Rightarrow> None
        | Some l \<Rightarrow> Some (l, cur < the (semver l)))"

section \<open>Variables\<close>

fun strip_quotes :: "string \<Rightarrow> string" where
  "strip_quotes s = rev (dropWhile (\<lambda>c. c = CHR 0x22) (rev (dropWhile (\<lambda>c. c = CHR 0x22) s)))"

definition unquote_text :: "json \<Rightarrow> string" where
  "unquote_text v = strip_quotes (or_empty (jstr v))"

definition parse_variable :: "ext \<Rightarrow> string \<Rightarrow> json \<Rightarrow> variable" where
  "parse_variable x n body =
    \<lparr>v_name = strip_quotes n,
     v_type = (if jhas body ''type'' then removesuffix ''}'' (removeprefix ''${'' (or_empty (jstr (jget body ''type''))))
               else ''any''),
     v_required = (\<not> jhas body ''default''),
     v_default = (case jget body ''default'' of
         JStr s \<Rightarrow> (case x_json x s of Some v \<Rightarrow> v | None \<Rightarrow> JStr (strip_quotes s))
       | v \<Rightarrow> v),
     v_description = unquote_text (jget body ''description''),
     v_sensitive = (jget body ''sensitive'' = JBool True),
     v_conditions = map (\<lambda>v. or_empty (jstr (jget v ''condition''))) (jlist (jget body ''validation''))\<rparr>"

definition parse_variables :: "ext \<Rightarrow> json list \<Rightarrow> variable list" where
  "parse_variables x docs = concat (map (\<lambda>doc. concat (map (\<lambda>block.
     map (\<lambda>(n, body). parse_variable x n body) (jitems block)) (jlist (jget doc ''variable'')))) docs)"

definition variables :: "ext \<Rightarrow> resolved \<Rightarrow> err + variable list" where
  "variables x r = sbind (x_documents x r) (\<lambda>docs. Inr (parse_variables x docs))"

section \<open>Facts\<close>

lemma dict_set_map_of: "map_of (dict_set k v d) = (map_of d)(k \<mapsto> v)"
  by (induction k v d rule: dict_set.induct) auto

lemma dict_set_keys: "fst ` set (dict_set k v d) = insert k (fst ` set d)"
  by (induction k v d rule: dict_set.induct) auto

lemma dict_set_distinct: "distinct (map fst d) \<Longrightarrow> distinct (map fst (dict_set k v d))"
  by (induction k v d rule: dict_set.induct) (auto simp: dict_set_keys)

lemma dict_setdefault_distinct: "distinct (map fst d) \<Longrightarrow> distinct (map fst (dict_setdefault k v d))"
  by (auto simp: dict_setdefault_def map_of_eq_None_iff)

lemma dict_merge_map_of: "map_of (dict_merge a b) k = (case map_of (rev b) k of None \<Rightarrow> map_of a k | Some v \<Rightarrow> Some v)"
proof (induction b arbitrary: a)
  case (Cons kv b)
  obtain k' v where kv: "kv = (k', v)" by fastforce
  have "dict_merge a (kv # b) = dict_merge (dict_set k' v a) b" by (simp add: dict_merge_def kv)
  then show ?case using Cons by (auto simp: kv dict_set_map_of map_of_append map_add_def split: option.splits)
qed (simp add: dict_merge_def)

lemma newest_first_set [simp]: "set (newest_first tags) = set tags"
  by (simp add: newest_first_def)

lemma newest_first_sorted:
  "sorted_wrt (\<lambda>a b. the (semver b) \<le> the (semver a)) (newest_first tags)"
proof -
  have "sorted (map (\<lambda>t. the (semver t)) (sort_key (\<lambda>t. the (semver t)) (rev tags)))" by simp
  then show ?thesis by (simp add: newest_first_def sorted_wrt_rev sorted_wrt_map)
qed

lemma collect_tags_ok:
  "collect_tags lines found = Inr out \<Longrightarrow> distinct (map fst found) \<Longrightarrow> \<forall>t \<in> set (map fst found). semver t \<noteq> None \<Longrightarrow>
     distinct (map fst out) \<and> (\<forall>t \<in> set (map fst out). semver t \<noteq> None)"
proof (induction lines found rule: collect_tags.induct)
  case (2 line rest found)
  obtain tag sha peeled where line: "tag_line line = Some (tag, sha, peeled)"
    using "2.prems"(1) by (auto split: option.splits)
  let ?found = "if peeled then dict_set tag sha found else dict_setdefault tag sha found"
  show ?case
  proof (cases "semver tag = None")
    case True
    with 2 line show ?thesis by simp
  next
    case False
    have "distinct (map fst ?found)"
      using "2.prems"(2) by (simp add: dict_set_distinct dict_setdefault_distinct)
    moreover have "\<forall>t \<in> set (map fst ?found). semver t \<noteq> None"
    proof
      fix x assume "x \<in> set (map fst ?found)"
      then have "x = tag \<or> x \<in> set (map fst found)"
        by (auto simp: dict_setdefault_def split: if_splits)
          (metis dict_set_keys image_eqI insertE fst_conv)
      with "2.prems"(3) False show "semver x \<noteq> None" by blast
    qed
    moreover have "collect_tags rest ?found = Inr out"
      using "2.prems"(1) line False by simp
    ultimately show ?thesis using "2.IH"(2) [OF line refl refl False] by blast
  qed
qed simp

lemma dict_merge_key_set: "set (map fst (dict_merge d kvs)) = set (map fst d) \<union> set (map fst kvs)"
proof (induction kvs arbitrary: d)
  case (Cons kv kvs)
  obtain k v where "kv = (k, v)" by fastforce
  with Cons [of "dict_set k v d"] show ?case
    by (auto simp: dict_merge_def) (metis dict_set_keys image_eqI insert_iff fst_conv)+
qed (simp add: dict_merge_def)

lemma dict_merge_distinct: "distinct (map fst d) \<Longrightarrow> distinct (map fst (dict_merge d kvs))"
proof (induction kvs arbitrary: d)
  case (Cons kv kvs)
  obtain k v where "kv = (k, v)" by fastforce
  with Cons.IH [of "dict_set k v d"] Cons.prems show ?case by (simp add: dict_merge_def dict_set_distinct)
qed (simp add: dict_merge_def)

end
