(* ===== verification/TeamCheck.thy ===== *)
theory TeamCheck
  imports Catalog
begin

text \<open>
  Checks of a team (business unit) document before it is stored, \<^verbatim>\<open>app/team_check.py\<close>. A finding keeps
  its level, code, team and path; its message is dropped. Documents are JSON values whose objects have
  string keys without repetition. What the Python code does on a value of an unexpected type (it raises)
  is an error value, because the documents of other teams and the previous document are read without a
  check of their shape (only the order of a list of items that are no strings is left out). The parsed files of a local pattern and the parse of a YAML text are parameters.
\<close>

section \<open>Python values\<close>

text \<open>Iteration over a value: the items of a list, the characters of a string, the keys of a dict.\<close>

fun py_iter :: "json \<Rightarrow> err + json list" where
  "py_iter (JList xs) = Inr xs"
| "py_iter (JStr s) = Inr (map (\<lambda>c. JStr [c]) s)"
| "py_iter (JObj kvs) = Inr (map (\<lambda>kv. JStr (fst kv)) kvs)"
| "py_iter _ = Inl TypeError"

definition hashable :: "json \<Rightarrow> bool" where
  "hashable v = (case v of JList _ \<Rightarrow> False | JObj _ \<Rightarrow> False | _ \<Rightarrow> True)"

text \<open>Equality of values: \<^verbatim>\<open>True == 1\<close>, and dicts are equal in any order of their entries.\<close>

fun unbool :: "json \<Rightarrow> json" where
  "unbool (JBool b) = JNum (if b then 1 else 0)"
| "unbool (JList xs) = JList (map unbool xs)"
| "unbool (JObj kvs) = JObj (map (\<lambda>kv. (fst kv, unbool (snd kv))) kvs)"
| "unbool v = v"

definition py_same :: "json \<Rightarrow> json \<Rightarrow> bool" where
  "py_same a b \<longleftrightarrow> canon (unbool a) = canon (unbool b)"

text \<open>\<^verbatim>\<open>x or []\<close> and \<^verbatim>\<open>set(x or [])\<close>.\<close>

definition or_list :: "json \<Rightarrow> json" where
  "or_list v = (if truthy v then v else JList [])"

definition py_set :: "json \<Rightarrow> err + json list" where
  "py_set v = sbind (py_iter (or_list v)) (\<lambda>xs.
     if list_all hashable xs then Inr (remdups (map unbool xs)) else Inl TypeError)"

text \<open>\<^verbatim>\<open>(x or {}).items()\<close> and \<^verbatim>\<open>.values()\<close>.\<close>

definition py_items :: "json \<Rightarrow> err + (string \<times> json) list" where
  "py_items v = (if \<not> truthy v then Inr []
     else case v of JObj kvs \<Rightarrow> Inr kvs | _ \<Rightarrow> Inl AttributeError)"

text \<open>\<^verbatim>\<open>_ok\<close>.\<close>

definition ok_dict :: "json \<Rightarrow> json" where
  "ok_dict v = (case v of JObj _ \<Rightarrow> v | _ \<Rightarrow> JObj [])"

text \<open>\<^verbatim>\<open>sorted\<close> of a set of strings, and the keys of one dict that another does not have.\<close>

definition sorted_keys :: "string list \<Rightarrow> string list" where
  "sorted_keys ks = sort (remdups ks)"

definition keys_minus :: "string list \<Rightarrow> string list \<Rightarrow> string list" where
  "keys_minus ks ds = sorted_keys (filter (\<lambda>k. \<not> List.member ds k) ks)"

definition by_name :: "(string \<times> 'a) list \<Rightarrow> (string \<times> 'a) list" where
  "by_name kvs = sort_key fst kvs"

section \<open>Findings\<close>

datatype level = L_error | L_warning | L_info

record finding =
  f_level :: level
  f_code :: string
  f_team :: "string option"
  f_path :: "string option"

definition mk :: "level \<Rightarrow> string \<Rightarrow> string option \<Rightarrow> string option \<Rightarrow> finding" where
  "mk l c t p = \<lparr>f_level = l, f_code = c, f_team = t, f_path = p\<rparr>"

definition has_level :: "level \<Rightarrow> finding list \<Rightarrow> finding list" where
  "has_level l fs = filter (\<lambda>f. f_level f = l) fs"

text \<open>\<^verbatim>\<open>counts\<close>: errors and warnings.\<close>

definition counts :: "finding list \<Rightarrow> nat \<times> nat" where
  "counts fs = (length (has_level L_error fs), length (has_level L_warning fs))"

record pattern_facts =
  pf_resource_types :: "string list"
  pf_variables :: "string list"
  pf_has_estimates :: bool

section \<open>Names and shape\<close>

definition team_name_ok :: "string \<Rightarrow> bool" where
  "team_name_ok n = (case n of
      [] \<Rightarrow> False
    | c # cs \<Rightarrow> is_lower c \<and> 1 \<le> length cs \<and> length cs \<le> 40 \<and>
        list_all (\<lambda>x. is_lower x \<or> is_digit x \<or> x = CHR ''-'') cs)"

definition RESERVED_NAMES :: "string list" where
  "RESERVED_NAMES = [''import'', ''new'']"

definition valid_name :: "string \<Rightarrow> bool" where
  "valid_name n \<longleftrightarrow> team_name_ok n \<and> \<not> List.member RESERVED_NAMES n"

definition UNIT_KEYS :: "string list" where
  "UNIT_KEYS = [''groups'', ''inject'', ''patterns'', ''regions'', ''environments'']"

definition ENV_KEYS :: "string list" where
  "ENV_KEYS = [''subscription_id'', ''groups'', ''network'', ''budget_monthly'', ''targets'',
     ''protected_resource_types'', ''allow_destroy'']"

definition FILE_KEYS :: "string list" where
  "FILE_KEYS = [''business_units'', ''operators'', ''auditors'']"

definition COMMON_INJECT_KEYS :: "string list" where
  "COMMON_INJECT_KEYS = [''business_unit'', ''cost_center'']"

fun is_text :: "json \<Rightarrow> bool" where
  "is_text (JStr s) = (\<not> blank s)"
| "is_text _ = False"

fun is_scalar :: "json \<Rightarrow> bool" where
  "is_scalar (JStr _) = True"
| "is_scalar (JNum _) = True"
| "is_scalar (JBool _) = True"
| "is_scalar _ = False"

fun text_list :: "json \<Rightarrow> bool" where
  "text_list (JList xs) = list_all is_text xs"
| "text_list _ = False"

fun scalar_dict :: "json \<Rightarrow> bool" where
  "scalar_dict (JObj kvs) = list_all (\<lambda>kv. is_scalar (snd kv)) kvs"
| "scalar_dict _ = False"

fun dict_value :: "json \<Rightarrow> bool" where
  "dict_value (JObj _) = True"
| "dict_value _ = False"

fun number_value_ok :: "json \<Rightarrow> bool" where
  "number_value_ok (JNum _) = True"
| "number_value_ok (JNonFinite _) = True"
| "number_value_ok _ = False"

definition dotted :: "string list \<Rightarrow> string" where
  "dotted ps = concat (case ps of [] \<Rightarrow> [] | p # rest \<Rightarrow> p # map (\<lambda>s. CHR ''.'' # s) rest)"

text \<open>\<open>wrong v ok\<close>: the key is there and its value is not of the required type; \<open>wrong_or_null\<close> lets null pass.\<close>

definition bad :: "string option \<Rightarrow> string list \<Rightarrow> string \<Rightarrow> finding" where
  "bad team path code = mk L_error code team (Some (dotted path))"

definition wrong :: "json \<Rightarrow> string \<Rightarrow> (json \<Rightarrow> bool) \<Rightarrow> bool" where
  "wrong d k good \<longleftrightarrow> jhas d k \<and> \<not> good (jget d k)"

definition only_if :: "bool \<Rightarrow> 'a \<Rightarrow> 'a list" where
  "only_if b x = (if b then [x] else [])"

definition unknown_keys :: "string option \<Rightarrow> string list \<Rightarrow> json \<Rightarrow> string list \<Rightarrow> finding list" where
  "unknown_keys team path d allowed =
     map (\<lambda>k. bad team (path @ [k]) ''schema_unknown_key'') (keys_minus (map fst (jitems d)) allowed)"

definition regions_shape :: "string option \<Rightarrow> json \<Rightarrow> finding list" where
  "regions_shape team d =
    (let r = jget d ''regions'' in
     if \<not> jhas d ''regions'' then []
     else if \<not> dict_value r then [bad team [''regions''] ''schema'']
     else unknown_keys team [''regions''] r [''allowed'', ''default''] @
       only_if (wrong r ''allowed'' text_list) (bad team [''regions'', ''allowed''] ''schema'') @
       only_if (jget r ''default'' \<noteq> JNull \<and> \<not> is_text (jget r ''default''))
         (bad team [''regions'', ''default''] ''schema''))"

definition environment_shape :: "string option \<Rightarrow> string \<times> json \<Rightarrow> finding list" where
  "environment_shape team kv =
    (let env = fst kv; spec = snd kv; here = (\<lambda>k. [''environments'', env, k]) in
     if \<not> is_text (JStr env) \<or> \<not> dict_value spec then [bad team [''environments'', env] ''schema'']
     else unknown_keys team [''environments'', env] spec ENV_KEYS @
       only_if (jget spec ''subscription_id'' \<noteq> JNull \<and> \<not> is_text (jget spec ''subscription_id''))
         (bad team (here ''subscription_id'') ''schema'') @
       only_if (wrong spec ''groups'' text_list) (bad team (here ''groups'') ''schema'') @
       only_if (wrong spec ''network'' scalar_dict) (bad team (here ''network'') ''schema'') @
       only_if (wrong spec ''protected_resource_types'' text_list)
         (bad team (here ''protected_resource_types'') ''schema'') @
       only_if (wrong spec ''allow_destroy'' (\<lambda>v. case v of JBool _ \<Rightarrow> True | _ \<Rightarrow> False))
         (bad team (here ''allow_destroy'') ''schema'') @
       only_if (wrong spec ''targets'' dict_value) (bad team (here ''targets'') ''schema'') @
       only_if (jget spec ''budget_monthly'' \<noteq> JNull \<and> \<not> number_value_ok (jget spec ''budget_monthly''))
         (bad team (here ''budget_monthly'') ''schema''))"

text \<open>\<^verbatim>\<open>_shape\<close>.\<close>

definition team_shape :: "json \<Rightarrow> string option \<Rightarrow> finding list" where
  "team_shape d team =
    (if \<not> dict_value d then [bad team [''team''] ''schema'']
     else if \<not> finite_json d then [bad team [''team''] ''schema'']
     else unknown_keys team [] d UNIT_KEYS @
       only_if (wrong d ''groups'' text_list) (bad team [''groups''] ''schema'') @
       only_if (wrong d ''inject'' scalar_dict) (bad team [''inject''] ''schema'') @
       only_if (wrong d ''patterns'' text_list) (bad team [''patterns''] ''schema'') @
       regions_shape team d @
       only_if (wrong d ''environments'' dict_value) (bad team [''environments''] ''schema'') @
       concat (map (environment_shape team) (jitems (jget d ''environments''))))"

text \<open>\<^verbatim>\<open>_targets\<close>, on a specification of the checked shape.\<close>

definition target_findings :: "string option \<Rightarrow> string \<times> json \<Rightarrow> finding list" where
  "target_findings team kv = concat (map (\<lambda>(cloud, target).
     only_if (case identifiers cloud of None \<Rightarrow> True | Some ident \<Rightarrow> well_formed_target ident target = None)
       (mk L_error ''target_malformed'' team (Some (dotted [''environments'', fst kv, ''targets'', cloud]))))
     (jitems (jget (snd kv) ''targets'')))"

section \<open>Local patterns\<close>

text \<open>\<^verbatim>\<open>local_facts\<close>. \<open>directory\<close> gives the parsed \<^verbatim>\<open>*.tf\<close> documents of a directory in the order of their
  names and its parsed \<^verbatim>\<open>config.yaml\<close> (\<open>JNull\<close> when there is no such file); it is \<open>None\<close> when a read or
  a parse raises.\<close>

definition block_names :: "json \<Rightarrow> string \<Rightarrow> err + string list" where
  "block_names document k = (case document of
      JObj _ \<Rightarrow>
        sbind (py_iter (if jhas document k then jget document k else JList [])) (\<lambda>blocks.
        sbind (smap (\<lambda>b. sbind (py_iter b) (smap (\<lambda>t. case t of
            JStr s \<Rightarrow> Inr (strip_quotes s) | _ \<Rightarrow> Inl AttributeError))) blocks) (\<lambda>ns.
        Inr (concat ns)))
    | _ \<Rightarrow> Inl AttributeError)"

definition local_facts :: "(string \<Rightarrow> (json list \<times> json) option) \<Rightarrow> pattern \<Rightarrow> pattern_facts option" where
  "local_facts directory p =
    (if \<not> is_local p then None
     else case directory (or_empty (pt_local p)) of
       None \<Rightarrow> None
     | Some (documents, config) \<Rightarrow>
        (case (smap (\<lambda>d. block_names d ''resource'') documents, smap (\<lambda>d. block_names d ''variable'') documents) of
           (Inr ts, Inr vs) \<Rightarrow> Some \<lparr>pf_resource_types = remdups (concat ts), pf_variables = remdups (concat vs),
              pf_has_estimates = jhas config ''estimated_costs''\<rparr>
         | _ \<Rightarrow> None))"

text \<open>What a check is given of the outside: the catalog (\<open>None\<close>: unavailable), the directories of local
  patterns, the levels of the contract findings already known of a pattern, and what \<^verbatim>\<open>load_yaml\<close> gives for a
  text (\<open>None\<close> when it raises).\<close>

record check_env =
  ce_catalog :: "(string \<times> pattern) list option"
  ce_directory :: "string \<Rightarrow> (json list \<times> json) option"
  ce_contract :: "string \<Rightarrow> level list"
  ce_yaml :: "string \<Rightarrow> json option"

section \<open>The checks of a team\<close>

text \<open>\<^verbatim>\<open>_group_sets\<close>.\<close>

definition group_sets :: "json \<Rightarrow> err + json list" where
  "group_sets d =
    sbind (py_set (jget d ''groups'')) (\<lambda>own.
    sbind (py_items (jget d ''environments'')) (\<lambda>envs.
    sbind (smap (\<lambda>kv. py_set (jget (ok_dict (snd kv)) ''groups'')) envs) (\<lambda>gs.
    Inr (remdups (own @ concat gs)))))"

definition common :: "'a list \<Rightarrow> 'a list \<Rightarrow> 'a list" where
  "common xs ys = filter (\<lambda>x. List.member ys x) xs"

definition overlap_findings ::
  "string \<Rightarrow> json \<Rightarrow> (string \<times> json) list \<Rightarrow> err + finding list" where
  "overlap_findings name d others =
    sbind (smap (\<lambda>(other, other_doc). if other = name then Inr []
      else sbind (group_sets d) (\<lambda>mine. sbind (group_sets (ok_dict other_doc)) (\<lambda>theirs.
        Inr (only_if (common mine theirs \<noteq> []) (mk L_warning ''groups_overlap'' (Some name) None)))))
      (by_name others)) (\<lambda>fs. Inr (concat fs))"

text \<open>\<^verbatim>\<open>math.isfinite\<close> of an int that no float can hold raises.\<close>

definition budget_findings :: "string \<Rightarrow> string \<times> json \<Rightarrow> err + finding list" where
  "budget_findings name kv = (let f = [mk L_error ''budget_invalid'' (Some name)
       (Some (dotted [''environments'', fst kv, ''budget_monthly'']))] in
     case jget (snd kv) ''budget_monthly'' of
       JNum q \<Rightarrow> if float_limit \<le> \<bar>q\<bar> then Inl OverflowError else Inr (if q < 0 then f else [])
     | JNonFinite k \<Rightarrow> Inr f
     | _ \<Rightarrow> Inr [])"

definition region_findings :: "string \<Rightarrow> json \<Rightarrow> finding list" where
  "region_findings name d =
    (let r = ok_dict (jget d ''regions'') in
     only_if (jget r ''default'' \<noteq> JNull \<and> \<not> List.member (jlist (jget r ''allowed'')) (jget r ''default''))
       (mk L_error ''region_default_not_allowed'' (Some name) (Some ''regions.default'')))"

definition cloud_finding :: "string \<Rightarrow> string option \<Rightarrow> string \<times> json \<Rightarrow> finding list" where
  "cloud_finding name cloud kv =
    (let path = Some (dotted [''environments'', fst kv, ''targets'']); targets = jget (snd kv) ''targets'' in
     if or_empty cloud = [] then []
     else if \<not> truthy targets then [mk L_error ''env_missing_cloud_target'' (Some name) path]
     else if \<not> jhas targets (or_empty cloud) then [mk L_info ''cloud_not_offered'' (Some name) path]
     else [])"

definition pattern_findings ::
  "check_env \<Rightarrow> (string \<times> pattern) list \<Rightarrow> string \<Rightarrow> (string \<times> json) list \<Rightarrow> string \<Rightarrow> finding list" where
  "pattern_findings e known name envs pat = (case map_of known pat of
      None \<Rightarrow> [mk L_error ''pattern_unknown'' (Some name) (Some ''patterns'')]
    | Some p \<Rightarrow>
        only_if (List.member (ce_contract e pat) L_error) (mk L_warning ''pattern_contract_failing'' (Some name) None) @
        concat (map (cloud_finding name (pt_cloud p)) (by_name envs)))"

text \<open>\<^verbatim>\<open>_inspect\<close>. \<open>inspected\<close> is the dict of the inspected patterns in the order of their names.\<close>

definition unused_types :: "string \<Rightarrow> json \<Rightarrow> (string \<times> json) list \<Rightarrow> (string \<times> pattern_facts) list \<Rightarrow> finding list" where
  "unused_types name d envs inspected =
    (if inspected = [] \<or> length inspected \<noteq> length (jlist (jget d ''patterns'')) then []
     else let types = concat (map (pf_resource_types \<circ> snd) inspected) in
       concat (map (\<lambda>(env, spec). map (\<lambda>_. mk L_warning ''protected_type_unused'' (Some name)
           (Some (dotted [''environments'', env, ''protected_resource_types''])))
         (keys_minus (jstrings (jget spec ''protected_resource_types'')) types)) (by_name envs)))"

definition network_keys :: "json \<Rightarrow> string list" where
  "network_keys spec = map fst (jitems (jget (ok_dict spec) ''network''))"

definition other_network :: "string \<Rightarrow> (string \<times> json) list \<Rightarrow> err + string list" where
  "other_network name others =
    sbind (smap (\<lambda>(other, other_doc). if other = name then Inr []
      else sbind (py_items (jget (ok_dict other_doc) ''environments'')) (\<lambda>envs.
        Inr (concat (map (network_keys \<circ> snd) envs)))) others) (\<lambda>ks. Inr (concat ks))"

definition inspect_env ::
  "string \<Rightarrow> string list \<Rightarrow> string list \<Rightarrow> pattern_facts \<Rightarrow> string \<times> json \<Rightarrow> finding list" where
  "inspect_env name inject network facts kv =
    map (\<lambda>_. mk L_warning ''inject_key_missing'' (Some name) (Some (dotted [''environments'', fst kv, ''network''])))
      (keys_minus (common (pf_variables facts) network) (inject @ network_keys (snd kv))) @
    only_if (jget (snd kv) ''budget_monthly'' \<noteq> JNull \<and> \<not> pf_has_estimates facts)
      (mk L_warning ''pattern_unpriced'' (Some name) (Some (dotted [''environments'', fst kv, ''budget_monthly''])))"

definition inspect ::
  "string \<Rightarrow> json \<Rightarrow> (string \<times> json) list \<Rightarrow> (string \<times> pattern_facts) list \<Rightarrow> (string \<times> json) list \<Rightarrow>
   err + finding list" where
  "inspect name d envs inspected others =
    sbind (other_network name others) (\<lambda>network.
      (let inject = map fst (jitems (jget d ''inject'')) in
       Inr (unused_types name d envs inspected @ concat (map (\<lambda>(_, facts).
         concat (map (\<lambda>k. only_if (List.member (pf_variables facts) k \<and> \<not> List.member inject k)
           (mk L_warning ''inject_key_missing'' (Some name) (Some ''inject''))) COMMON_INJECT_KEYS) @
         concat (map (inspect_env name inject network facts) (by_name envs))) inspected))))"

text \<open>\<^verbatim>\<open>_cost\<close> and \<^verbatim>\<open>_reserved\<close>; a stored cost is never infinite or NaN (\<^verbatim>\<open>accounting_amount\<close>).\<close>

definition resource_cost :: "doc \<Rightarrow> err + rat" where
  "resource_cost r = (case d_cost r of
      JNum q \<Rightarrow> if float_limit \<le> \<bar>q\<bar> then Inl OverflowError else Inr q
    | _ \<Rightarrow> Inr 0)"

definition env_resources :: "doc list \<Rightarrow> string \<Rightarrow> doc list" where
  "env_resources rs env = filter (\<lambda>r. p_environment (d_def r) = Some env) rs"

definition env_reserved :: "doc list \<Rightarrow> string \<Rightarrow> err + rat" where
  "env_reserved rs env = sbind (smap resource_cost (env_resources rs env)) (\<lambda>qs. Inr (sum_list qs))"

section \<open>Impact of a change\<close>

text \<open>\<^verbatim>\<open>impact_findings\<close>. \<open>sorted\<close> of a set of clouds raises when \<^verbatim>\<open>None\<close> and a cloud are both in it.\<close>

definition sorted_clouds :: "string option list \<Rightarrow> err + string option list" where
  "sorted_clouds cs =
    (let named = sorted_keys (List.map_filter (\<lambda>c. c) cs) in
     if List.member cs None then (if named = [] then Inr [None] else Inl TypeError)
     else Inr (map Some named))"

definition same_placement :: "string option \<Rightarrow> json \<Rightarrow> json \<Rightarrow> bool" where
  "same_placement cloud old_spec new_spec = (case cloud of
      None \<Rightarrow> py_same (jget old_spec ''subscription_id'') (jget new_spec ''subscription_id'')
    | Some c \<Rightarrow> py_same (jget (ok_dict (jget old_spec ''targets'')) c) (jget (ok_dict (jget new_spec ''targets'')) c))"

definition spec_of :: "(string \<times> json) list \<Rightarrow> string \<Rightarrow> json" where
  "spec_of envs env = ok_dict (case map_of envs env of None \<Rightarrow> JNull | Some s \<Rightarrow> s)"

definition placement_findings ::
  "string \<Rightarrow> (string \<times> json) list \<Rightarrow> (string \<times> json) list \<Rightarrow> doc list \<Rightarrow> string \<Rightarrow> err + finding list" where
  "placement_findings name old_envs new_envs rs env =
    sbind (sorted_clouds (map (\<lambda>r. p_cloud (d_def r)) (env_resources rs env))) (\<lambda>clouds.
      Inr (concat (map (\<lambda>c. only_if (\<not> same_placement c (spec_of old_envs env) (spec_of new_envs env))
        (mk L_error ''placement_change_with_resources'' (Some name) (Some (dotted [''environments'', env])))) clouds)))"

definition below_reserved :: "string \<Rightarrow> doc list \<Rightarrow> string \<times> json \<Rightarrow> err + finding list" where
  "below_reserved name rs kv =
    sbind (env_reserved rs (fst kv)) (\<lambda>reserved.
      case jget (snd kv) ''budget_monthly'' of
        JNum q \<Rightarrow> if float_limit \<le> \<bar>q\<bar> then Inl OverflowError
          else Inr (only_if (q < reserved) (mk L_warning ''budget_below_reserved'' (Some name)
            (Some (dotted [''environments'', fst kv, ''budget_monthly'']))))
      | _ \<Rightarrow> Inr [])"

definition removed_items :: "json \<Rightarrow> json \<Rightarrow> err + json list" where
  "removed_items old_v new_v = sbind (py_set old_v) (\<lambda>a. sbind (py_set new_v) (\<lambda>b.
     Inr (filter (\<lambda>x. \<not> List.member b x) a)))"

definition impact_findings :: "string \<Rightarrow> json \<Rightarrow> json \<Rightarrow> doc list \<Rightarrow> err + finding list" where
  "impact_findings name old_d new_d rs =
    sbind (py_items (jget old_d ''environments'')) (\<lambda>old_envs.
    sbind (py_items (jget new_d ''environments'')) (\<lambda>new_envs.
    (let kept = sorted_keys (common (map fst old_envs) (map fst new_envs)) in
    sbind (smap (placement_findings name old_envs new_envs rs) kept) (\<lambda>moved.
    sbind (removed_items (jget old_d ''patterns'') (jget new_d ''patterns'')) (\<lambda>pats.
    sbind (smap (below_reserved name rs) (by_name (map (\<lambda>kv. (fst kv, ok_dict (snd kv))) new_envs))) (\<lambda>over.
    sbind (removed_items (jget old_d ''groups'') (jget new_d ''groups'')) (\<lambda>gone.
    sbind (smap (\<lambda>env. removed_items (jget (spec_of old_envs env) ''groups'') (jget (spec_of new_envs env) ''groups'')) kept)
      (\<lambda>env_gone.
    Inr (concat (map (\<lambda>env. only_if (env_resources rs env \<noteq> []) (mk L_error ''env_has_resources'' (Some name)
          (Some (dotted [''environments'', env])))) (keys_minus (map fst old_envs) (map fst new_envs))) @
      concat moved @
      concat (map (\<lambda>p. only_if (list_ex (\<lambda>r. p_pattern (d_def r) = p) rs)
          (mk L_warning ''pattern_in_use'' (Some name) (Some ''patterns'')))
        (sort (List.map_filter jstr pats))) @
      concat over @
      only_if (gone \<noteq> [] \<or> concat env_gone \<noteq> []) (mk L_warning ''access_removed'' (Some name) (Some ''groups'')))))))))))"

text \<open>\<^verbatim>\<open>impact\<close>: for every environment of either document, its resources and its budgets. Unlike the
  findings it reads \<^verbatim>\<open>.get("environments", {}).items()\<close>, without \<^verbatim>\<open>or {}\<close>.\<close>

record env_impact =
  ei_resources :: nat
  ei_reserved :: rat
  ei_current_budget :: json
  ei_new_budget :: json

definition bare_items :: "json \<Rightarrow> string \<Rightarrow> err + (string \<times> json) list" where
  "bare_items d k = (if \<not> jhas d k then Inr []
     else case jget d k of JObj kvs \<Rightarrow> Inr kvs | _ \<Rightarrow> Inl AttributeError)"

definition impact :: "json option \<Rightarrow> json \<Rightarrow> doc list \<Rightarrow> err + (string \<times> env_impact) list" where
  "impact old_d new_d rs =
    sbind (bare_items (case old_d of None \<Rightarrow> JObj [] | Some d \<Rightarrow> ok_dict d) ''environments'') (\<lambda>old_envs.
    sbind (bare_items (ok_dict new_d) ''environments'') (\<lambda>new_envs.
      smap (\<lambda>env. sbind (env_reserved rs env) (\<lambda>reserved.
        Inr (env, \<lparr>ei_resources = length (env_resources rs env), ei_reserved = reserved,
          ei_current_budget = jget (spec_of old_envs env) ''budget_monthly'',
          ei_new_budget = jget (spec_of new_envs env) ''budget_monthly''\<rparr>)))
        (sorted_keys (map fst old_envs @ map fst new_envs))))"

section \<open>All findings of a team\<close>

text \<open>\<^verbatim>\<open>check_team\<close>: the checks that need the document's meaning run only on a document of the right shape.\<close>

definition allowed_findings ::
  "check_env \<Rightarrow> string \<Rightarrow> json \<Rightarrow> (string \<times> json) list \<Rightarrow> (string \<times> json) list \<Rightarrow> err + finding list" where
  "allowed_findings e name d envs others = (case ce_catalog e of
      None \<Rightarrow> Inr [mk L_info ''catalog_unavailable'' (Some name) None]
    | Some known \<Rightarrow>
       (let allowed = sort (jstrings (jget d ''patterns''));
            facts = List.map_filter (\<lambda>p. map_option (\<lambda>pt. (p, local_facts (ce_directory e) pt)) (map_of known p)) allowed;
            inspected = remdups (List.map_filter (\<lambda>(p, f). map_option (Pair p) f) facts) in
        sbind (inspect name d envs inspected others) (\<lambda>fs.
        Inr (concat (map (pattern_findings e known name envs) allowed) @ fs @
          only_if (list_ex (\<lambda>(p, f). f = None) facts) (mk L_info ''pattern_inspection_skipped'' (Some name) None)))))"

definition content_findings :: "check_env \<Rightarrow> string \<Rightarrow> json \<Rightarrow> (string \<times> json) list \<Rightarrow> err + finding list" where
  "content_findings e name d others =
    (let envs = jitems (jget d ''environments'') in
     sbind (overlap_findings name d others) (\<lambda>shared.
     sbind (smap (\<lambda>kv. sbind (budget_findings name kv) (\<lambda>b. Inr (target_findings (Some name) kv @ b))) envs) (\<lambda>per_env.
     sbind (allowed_findings e name d envs others) (\<lambda>pats.
     Inr (only_if (\<not> truthy (jget d ''groups'') \<and> \<not> list_ex (\<lambda>kv. truthy (jget (snd kv) ''groups'')) envs)
            (mk L_error ''no_groups'' (Some name) None) @
       shared @ region_findings name d @ concat per_env @ pats)))))"

definition check_team ::
  "check_env \<Rightarrow> string \<Rightarrow> json \<Rightarrow> doc list \<Rightarrow> json option \<Rightarrow> (string \<times> json) list \<Rightarrow> err + finding list" where
  "check_team e name d rs previous others =
    (let named = only_if (\<not> valid_name name) (mk L_error ''name_invalid'' (Some name) None);
         shape = team_shape d (Some name) in
     if has_level L_error shape \<noteq> [] then Inr (named @ shape)
     else sbind (content_findings e name d others) (\<lambda>content.
       sbind (case previous of None \<Rightarrow> Inr [] | Some old_d \<Rightarrow> impact_findings name (ok_dict old_d) d rs) (\<lambda>imp.
       Inr (named @ shape @ content @ imp))))"

section \<open>A whole mapping\<close>

text \<open>\<^verbatim>\<open>parse_mapping\<close>. \<open>parsed\<close> is what the YAML parser gives for the text, \<open>None\<close> when it refuses it.\<close>

definition group_list_finding :: "json \<Rightarrow> string \<Rightarrow> finding list" where
  "group_list_finding raw k =
    (if \<not> jhas raw k then []
     else if \<not> text_list (jget raw k) then [mk L_error ''schema'' None None]
     else [mk L_info ''top_level_ignored'' None None])"

definition parse_mapping :: "json option \<Rightarrow> (string \<times> json) list \<times> finding list" where
  "parse_mapping parsed = (case parsed of
      None \<Rightarrow> ([], [mk L_error ''yaml_invalid'' None None])
    | Some v \<Rightarrow>
       (let raw = (if v = JNull then JObj [] else v) in
        if \<not> dict_value raw then ([], [mk L_error ''schema'' None None])
        else let units = jget raw ''business_units'' in
          (jitems units,
           map (\<lambda>_. mk L_error ''schema_unknown_key'' None None) (keys_minus (map fst (jitems raw)) FILE_KEYS) @
           concat (map (group_list_finding raw) [''operators'', ''auditors'']) @
           only_if (units \<noteq> JNull \<and> \<not> dict_value units) (mk L_error ''schema'' None None))))"

text \<open>\<^verbatim>\<open>check_mapping\<close>.\<close>

definition check_mapping :: "check_env \<Rightarrow> string \<Rightarrow> err + finding list" where
  "check_mapping e yaml_text = (let (units, fs) = parse_mapping (ce_yaml e yaml_text) in
     sbind (smap (\<lambda>(name, d). check_team e name d [] None units) units) (\<lambda>rest. Inr (fs @ concat rest)))"

end
