(* ===== verification/Shaping.thy ===== *)
theory Shaping
  imports Catalog
begin

text \<open>
  What a placement does to a pattern's variables: \<^verbatim>\<open>app/placement.py\<close> (sizes and injected values),
  \<^verbatim>\<open>cloud_targets.inject\<close>, \<^verbatim>\<open>budgets.estimated_cost\<close> and the JSON schema of \<^verbatim>\<open>app/schema.py\<close>
  against which the caller's inputs are checked. Configuration documents are read at their checked
  shape: a value of another type reads as absent.
\<close>

section \<open>Sizes and costs\<close>

definition is_dict :: "json \<Rightarrow> bool" where
  "is_dict j = (case j of JObj kvs \<Rightarrow> True | _ \<Rightarrow> False)"

text \<open>\<^verbatim>\<open>sizes_for\<close>.\<close>

definition sizes_for :: "json \<Rightarrow> string \<Rightarrow> (string \<times> (string \<times> json) list) list" where
  "sizes_for config env =
     map (\<lambda>(sz, per_env). (sz, jitems (jget per_env env)))
       (filter (\<lambda>(sz, per_env). is_dict per_env \<and> is_dict (jget per_env env)) (jitems (jget config ''sizing'')))"

definition is_number :: "json \<Rightarrow> bool" where
  "is_number j = (case j of JNum q \<Rightarrow> True | JNonFinite k \<Rightarrow> True | _ \<Rightarrow> False)"

text \<open>\<^verbatim>\<open>estimated_cost\<close>; the number is checked to be a finite float by its caller.\<close>

definition estimated_cost :: "json \<Rightarrow> string \<Rightarrow> string option \<Rightarrow> err + json option" where
  "estimated_cost config env sz =
    (let costs = jget config ''estimated_costs'';
         sized = (or_empty sz \<noteq> [] \<and> jhas costs (or_empty sz))
     in if sized \<and> \<not> is_dict (jget costs (or_empty sz)) then Inl (TenancyError 503)
        else let selected = (if sized then jget (jget costs (or_empty sz)) env else JNull)
             in Inr (find is_number [selected, (if is_dict costs then jget costs env else JNull), costs]))"

section \<open>Injected values\<close>

text \<open>\<^verbatim>\<open>json.dumps\<close> of a list of strings.\<close>

definition hex_digit :: "nat \<Rightarrow> char" where
  "hex_digit n = char_of (if n < 10 then 48 + n else 87 + n)"

definition json_char :: "char \<Rightarrow> string" where
  "json_char c = (let n = (of_char c :: nat) in
     if n = 34 then [CHR 0x5C, CHR 0x22] else if n = 92 then [CHR 0x5C, CHR 0x5C]
     else if n = 10 then [CHR 0x5C, CHR ''n''] else if n = 13 then [CHR 0x5C, CHR ''r'']
     else if n = 9 then [CHR 0x5C, CHR ''t''] else if n = 8 then [CHR 0x5C, CHR ''b'']
     else if n = 12 then [CHR 0x5C, CHR ''f'']
     else if n < 32 \<or> 126 < n then CHR 0x5C # ''u00'' @ [hex_digit (n div 16), hex_digit (n mod 16)]
     else [c])"

definition json_quote :: "string \<Rightarrow> string" where
  "json_quote s = CHR 0x22 # concat (map json_char s) @ [CHR 0x22]"

fun comma_join :: "string list \<Rightarrow> string" where
  "comma_join [] = []"
| "comma_join [x] = x"
| "comma_join (x # y # xs) = x @ '', '' @ comma_join (y # xs)"

definition dumps_strings :: "string list \<Rightarrow> string" where
  "dumps_strings xs = ''['' @ comma_join (map json_quote xs) @ '']''"

text \<open>The sized values: those of the size asked for, or (no size yet, or an empty one) every sized
  variable with no value.\<close>

definition sized_values :: "(string \<times> (string \<times> json) list) list \<Rightarrow> string option \<Rightarrow> (string \<times> json) list" where
  "sized_values available sz =
    (let every = dict_merge [] (concat (map (\<lambda>(s, kvs). map (\<lambda>kv. (fst kv, JNull)) kvs) available))
     in case sz of None \<Rightarrow> every
        | Some s \<Rightarrow> (case map_of available s of None \<Rightarrow> every | Some kvs \<Rightarrow> (if kvs = [] then every else kvs)))"

definition restrict_region :: "business_unit \<Rightarrow> variable \<Rightarrow> variable" where
  "restrict_region u v =
    (if v_name v = ''location'' \<and> u_regions_allowed u \<noteq> []
     then v\<lparr>v_required := (v_required v \<and> u_region_default u = None),
            v_default := (if or_empty (u_region_default u) \<noteq> [] then JStr (or_empty (u_region_default u)) else v_default v),
            v_conditions := v_conditions v @ [''contains('' @ dumps_strings (u_regions_allowed u) @ '', var.location)'']\<rparr>
     else v)"

definition candidates :: "placement \<Rightarrow> (string \<times> json) list \<Rightarrow> (string \<times> json) list" where
  "candidates pl sized =
     dict_merge (dict_set ''environment'' (JStr (env_name (pl_environment pl)))
                  (dict_merge (u_inject (pl_unit pl)) (env_network (pl_environment pl)))) sized"

definition shape :: "variable list \<Rightarrow> placement \<Rightarrow> json \<Rightarrow> string option \<Rightarrow> bool \<Rightarrow>
    err + variable list \<times> (string \<times> json) list" where
  "shape vars pl config sz require_size =
    (let available = sizes_for config (env_name (pl_environment pl)) in
     if truthy (jget config ''sizing'') \<and> sz = None \<and> require_size then Inl (TenancyError 422)
     else if sz \<noteq> None \<and> map_of available (or_empty sz) = None then Inl SizeNotOffered
     else
       let injected = filter (\<lambda>kv. fst kv \<in> set (map v_name vars)) (candidates pl (sized_values available sz))
       in Inr (map (restrict_region (pl_unit pl)) (filter (\<lambda>v. map_of injected (v_name v) = None) vars), injected))"

text \<open>\<^verbatim>\<open>cloud_targets.inject\<close>.\<close>

definition inject_target :: "variable list \<Rightarrow> (string \<times> string) list option \<Rightarrow>
    err + variable list \<times> (string \<times> json) list" where
  "inject_target vars target = (case target of
      None \<Rightarrow> Inr (vars, [])
    | Some kvs \<Rightarrow>
       if \<not> list_all (\<lambda>kv. fst kv \<in> set (map v_name vars)) kvs then Inl (TenancyError 503)
       else Inr (filter (\<lambda>v. map_of kvs (v_name v) = None) vars, map (\<lambda>kv. (fst kv, JStr (snd kv))) kvs))"

section \<open>Lifted validation rules\<close>

datatype cmp = Ge | Le | Gt | Lt | Eq

text \<open>\<^verbatim>\<open>_bound\<close>.\<close>

definition bound :: "cmp \<Rightarrow> rat \<Rightarrow> string \<Rightarrow> string \<Rightarrow> bool \<Rightarrow> (string \<times> json) list \<Rightarrow> (string \<times> json) list" where
  "bound opr value low high whole found =
    (let (o1, v1) = (if whole \<and> opr = Gt then (Ge, value + 1) else (opr, value));
         (o2, v2) = (if whole \<and> o1 = Lt then (Le, v1 - 1) else (o1, v1));
         f1 = (if o2 = Ge \<or> o2 = Eq then dict_set low (JNum v2) found else found);
         f2 = (if o2 = Le \<or> o2 = Eq then dict_set high (JNum v2) f1 else f1);
         f3 = (if o2 = Gt then dict_set ''exclusiveMinimum'' (JNum v2) f2 else f2)
     in if o2 = Lt then dict_set ''exclusiveMaximum'' (JNum v2) f3 else f3)"

text \<open>\<^verbatim>\<open>_mask_strings\<close>: the length of a string literal's body after its opening quote, if it closes.\<close>

fun literal_body :: "string \<Rightarrow> nat option" where
  "literal_body [] = None"
| "literal_body (c # cs) =
    (if c = CHR 0x22 then Some 0
     else if c = CHR 0x5C then
       (case cs of [] \<Rightarrow> None
        | d # ds \<Rightarrow> (if d = CHR 0x0A then None else map_option (\<lambda>n. n + 2) (literal_body ds)))
     else map_option Suc (literal_body cs))"

function mask_strings :: "string \<Rightarrow> string" where
  "mask_strings [] = []"
| "mask_strings (c # cs) =
    (if c = CHR 0x22 then
       (case literal_body cs of
          None \<Rightarrow> c # mask_strings cs
        | Some n \<Rightarrow> c # replicate n (CHR '' '') @ c # mask_strings (drop (Suc n) cs))
     else c # mask_strings cs)"
  by pat_completeness auto
termination by (relation "measure length") auto

text \<open>The parts between the top-level \<^verbatim>\<open>&&\<close> of the masked text, cut from the original.\<close>

fun cut_and :: "string \<Rightarrow> string \<Rightarrow> string list" where
  "cut_and (m # n # ms) (c # d # cs) =
    (if m = CHR ''&'' \<and> n = CHR ''&'' then [] # cut_and ms cs
     else case cut_and (n # ms) (d # cs) of [] \<Rightarrow> [[c]] | p # ps \<Rightarrow> (c # p) # ps)"
| "cut_and ms cs = [cs]"

definition split_and :: "string \<Rightarrow> string list" where
  "split_and condition = (let masked = mask_strings condition in
     if contains_text ''||'' masked \<or> contains_text ''?'' masked then []
     else map strip (cut_and masked condition))"

text \<open>The four shapes of a condition that \<^verbatim>\<open>lift\<close> recognises (its regular expressions are
  unambiguous, so each is a deterministic scan).\<close>

definition after :: "string \<Rightarrow> string \<Rightarrow> string option" where
  "after p s = (if has_prefix p s then Some (drop (length p) s) else None)"

definition before :: "string \<Rightarrow> string \<Rightarrow> string option" where
  "before p s = (if has_suffix p s then Some (take (length s - length p) s) else None)"

definition rstrip :: "string \<Rightarrow> string" where
  "rstrip s = rev (dropWhile is_space (rev s))"

definition call_shape :: "string \<Rightarrow> string \<Rightarrow> string \<Rightarrow> string \<Rightarrow> string option" where
  "call_shape opening closing var part =
     Option.bind (after opening part) (\<lambda>s. Option.bind (before closing s) (\<lambda>s.
     Option.bind (before var s) (\<lambda>s. before '','' (rstrip s))))"

definition contains_shape :: "string \<Rightarrow> string \<Rightarrow> string option" where
  "contains_shape var part = Option.bind (call_shape ''contains('' '')'' var part) (\<lambda>s.
     if 2 \<le> length s \<and> has_prefix ''['' s \<and> has_suffix '']'' s then Some s else None)"

definition regex_shape :: "string \<Rightarrow> string \<Rightarrow> string option" where
  "regex_shape var part =
     Option.bind (call_shape (''can(regex('' @ [CHR 0x22]) ''))'' var part) (\<lambda>s. before [CHR 0x22] s)"

definition operator_at :: "string \<Rightarrow> (cmp \<times> string) option" where
  "operator_at s =
    (if has_prefix ''>='' s then Some (Ge, drop 2 s) else if has_prefix ''<='' s then Some (Le, drop 2 s)
     else if has_prefix ''>'' s then Some (Gt, drop 1 s) else if has_prefix ''<'' s then Some (Lt, drop 1 s)
     else if has_prefix ''=='' s then Some (Eq, drop 2 s) else None)"

definition number_value :: "string \<Rightarrow> rat option" where
  "number_value s =
    (let neg = has_prefix ''-'' s;
         parts = split_on (CHR ''.'') (removeprefix ''-'' s);
         sign = (if neg then -1 else 1 :: rat)
     in case parts of
          [a] \<Rightarrow> (if number_text a then Some (sign * of_nat (decimal a)) else None)
        | [a, b] \<Rightarrow> (if number_text a \<and> number_text b
                   then Some (sign * (of_nat (decimal a) + of_nat (decimal b) / 10 ^ length b)) else None)
        | _ \<Rightarrow> None)"

definition length_value :: "string \<Rightarrow> rat option" where
  "length_value s = (if number_text s then Some (of_nat (decimal s)) else None)"

definition compare_shape :: "string \<Rightarrow> (string \<Rightarrow> rat option) \<Rightarrow> string \<Rightarrow> (cmp \<times> rat) option" where
  "compare_shape subject num part =
     Option.bind (after subject part) (\<lambda>s. Option.bind (operator_at (dropWhile is_space s)) (\<lambda>(opr, s).
     map_option (\<lambda>v. (opr, v)) (num (dropWhile is_space s))))"

fun unescape :: "string \<Rightarrow> string" where
  "unescape (c # d # cs) = (if c = CHR 0x5C \<and> d = CHR 0x5C then c # unescape cs else c # unescape (d # cs))"
| "unescape cs = cs"

definition lift_part :: "ext \<Rightarrow> string \<Rightarrow> string \<Rightarrow> string \<Rightarrow> (string \<times> json) list \<Rightarrow> (string \<times> json) list" where
  "lift_part x n tf_type part found =
    (let var = ''var.'' @ n; kind = (if tf_type = ''string'' then ''Length'' else ''Items'') in
     case contains_shape var part of
       Some s \<Rightarrow> (case x_json x s of None \<Rightarrow> found | Some v \<Rightarrow> dict_set ''enum'' v found)
     | None \<Rightarrow>
       (case regex_shape var part of
          Some s \<Rightarrow> (if x_regex_ok x (unescape s) then dict_set ''pattern'' (JStr (unescape s)) found else found)
        | None \<Rightarrow>
          (case compare_shape var number_value part of
             Some (opr, v) \<Rightarrow> bound opr v ''minimum'' ''maximum'' False found
           | None \<Rightarrow>
             (case compare_shape (''length('' @ var @ '')'') length_value part of
                Some (opr, v) \<Rightarrow> bound opr v (''min'' @ kind) (''max'' @ kind) True found
              | None \<Rightarrow> found))))"

definition lift_rule :: "ext \<Rightarrow> string \<Rightarrow> string \<Rightarrow> string \<Rightarrow> (string \<times> json) list" where
  "lift_rule x n tf_type condition =
     fold (lift_part x n tf_type) (split_and (removesuffix ''}'' (removeprefix ''${'' (strip condition)))) []"

section \<open>The schema of a pattern's inputs\<close>

definition jtype :: "string \<Rightarrow> (string \<times> json) list" where
  "jtype t = [(''type'', JStr t)]"

definition schema_types :: "(string \<times> (string \<times> json) list) list" where
  "schema_types =
    [(''string'', jtype ''string''), (''number'', jtype ''number''), (''bool'', jtype ''boolean''),
     (''list(string)'', jtype ''array'' @ [(''items'', JObj (jtype ''string''))]),
     (''set(string)'', jtype ''array'' @ [(''items'', JObj (jtype ''string'')), (''uniqueItems'', JBool True)]),
     (''list(number)'', jtype ''array'' @ [(''items'', JObj (jtype ''number''))]),
     (''map(string)'', jtype ''object'' @ [(''additionalProperties'', JObj (jtype ''string''))])]"

definition schema_property :: "ext \<Rightarrow> variable \<Rightarrow> (string \<times> json) list" where
  "schema_property x v =
    (let p0 = (case map_of schema_types (v_type v) of None \<Rightarrow> [] | Some t \<Rightarrow> t);
         p1 = (if v_description v \<noteq> [] then dict_set ''description'' (JStr (v_description v)) p0 else p0);
         p2 = (if \<not> v_required v \<and> v_default v \<noteq> JNull then dict_set ''default'' (v_default v) p1 else p1)
     in fold (\<lambda>c p. dict_merge p (lift_rule x (v_name v) (v_type v) c)) (v_conditions v) p2)"

definition json_schema :: "ext \<Rightarrow> string \<Rightarrow> variable list \<Rightarrow> json" where
  "json_schema x n vars = JObj
    [(''$schema'', JStr ''https://json-schema.org/draft/2020-12/schema''),
     (''title'', JStr (n @ '' inputs'')), (''type'', JStr ''object''),
     (''properties'', JObj (fold (\<lambda>v ps. dict_set (v_name v) (JObj (schema_property x v)) ps) vars [])),
     (''required'', JList (map (\<lambda>v. JStr (v_name v)) (filter v_required vars))),
     (''additionalProperties'', JBool False)]"

text \<open>\<^verbatim>\<open>schema.errors\<close>: the fields of the problems (their texts are dropped).\<close>

definition schema_errors :: "ext \<Rightarrow> string \<Rightarrow> variable list \<Rightarrow> (string \<times> json) list \<Rightarrow> string option list" where
  "schema_errors x n vars inputs = x_validator x (json_schema x n vars) inputs"

end
