(* ===== verification/Policy.thy ===== *)
theory Policy
  imports Shaping Lifecycle
begin

text \<open>
  \<^verbatim>\<open>app/policy.py\<close>: who may see and change what, the guardrails on plans, and \<^verbatim>\<open>validate\<close>, which
  turns a caller's intent into the definition the ledger accepts. The checks read the world and
  the catalog and write nothing.
\<close>

section \<open>Reads\<close>

text \<open>\<^verbatim>\<open>ledger.resource\<close>, \<^verbatim>\<open>ledger.get\<close>, \<^verbatim>\<open>ledger.referenced\<close>: one read transaction each.\<close>

definition reading :: "world \<Rightarrow> 'a \<Rightarrow> err + 'a" where
  "reading w v = (if db_sqlite (cfg w) then Inr v else Inl (HTTPException 503))"

definition resource :: "string \<Rightarrow> world \<Rightarrow> err + doc option" where
  "resource i w = reading w (res_find i w)"

definition get_operation :: "string \<Rightarrow> world \<Rightarrow> err + doc option" where
  "get_operation i w = reading w (op_body i w)"

definition referenced :: "string \<Rightarrow> world \<Rightarrow> err + bool" where
  "referenced i w = reading w (is_referenced i w)"

text \<open>\<^verbatim>\<open>team_store.archived_since\<close>: the instant of the first archived revision after the last
  active one.\<close>

definition team_history :: "string \<Rightarrow> world \<Rightarrow> team_revision list" where
  "team_history n w = filter (\<lambda>r. tr_name r = n) (team_revisions w)"

definition last_active :: "string \<Rightarrow> world \<Rightarrow> nat" where
  "last_active n w = foldl max 0 (map tr_revision (filter (\<lambda>r. tr_state r \<noteq> Archived) (team_history n w)))"

definition archived_since :: "string \<Rightarrow> world \<Rightarrow> nat option" where
  "archived_since n w =
    (case team_get n w of
       None \<Rightarrow> None
     | Some row \<Rightarrow>
        if t_state row \<noteq> Archived then None
        else (case map tr_at (filter (\<lambda>r. last_active n w < tr_revision r) (team_history n w)) of
                [] \<Rightarrow> None
              | a # as \<Rightarrow> Some (foldl min a as)))"

section \<open>Rights\<close>

definition visible :: "world \<Rightarrow> string \<Rightarrow> string option \<Rightarrow> caller \<Rightarrow> bool" where
  "visible w actor bu c =
    (if \<not> enabled w then actor = caller_id c
     else case load_unit w bu of None \<Rightarrow> False | Some u \<Rightarrow> unit_includes u c)"

text \<open>Whether the dict has an \<^verbatim>\<open>action\<close>: every operation has one; a resource gets one from the first
  operation that succeeded on it, which also gives it its \<^verbatim>\<open>state\<close>.\<close>

definition has_action :: "doc \<Rightarrow> bool" where
  "has_action d \<longleftrightarrow> d_state d \<noteq> None"

definition refuse_new_work_on_archived :: "business_unit \<Rightarrow> doc \<Rightarrow> world \<Rightarrow> err + unit" where
  "refuse_new_work_on_archived u d w =
    (if \<not> (u_archived u \<and> db_source w) \<or> \<not> has_action d then Inr ()
     else if d_action d = Destroy \<or> d_action d = Drift_check then Inr ()
     else case archived_since (u_name u) w of
            None \<Rightarrow> Inr ()
          | Some since \<Rightarrow>
              if since \<le> d_created_at d then Inl (OperationError 409 Team_archived None) else Inr ())"

definition check_change :: "ext \<Rightarrow> world \<Rightarrow> business_unit \<Rightarrow> doc \<Rightarrow> caller \<Rightarrow> err + unit" where
  "check_change x w u d c =
    sbind (place c u (p_environment (d_def d)) (p_pattern (d_def d)) True) (\<lambda>pl.
    sbind (catalog_get x (p_pattern (d_def d))) (\<lambda>pat.
    sbind (select_target pl (pt_cloud pat)) (\<lambda>target.
    sbind (unchanged d (pt_cloud pat) target (env_subscription_id (pl_environment pl))) (\<lambda>_.
    refuse_new_work_on_archived u d w))))"

definition authorize :: "ext \<Rightarrow> world \<Rightarrow> doc option \<Rightarrow> caller \<Rightarrow> bool \<Rightarrow> err + doc" where
  "authorize x w rcd c change =
    (case rcd of
       None \<Rightarrow> Inl (HTTPException 404)
     | Some d \<Rightarrow>
        if \<not> visible w (d_actor d) (p_business_unit (d_def d)) c then Inl (HTTPException 404)
        else if enabled w \<and> change
        then (case load_unit w (p_business_unit (d_def d)) of
                None \<Rightarrow> Inl (HTTPException 404)
              | Some u \<Rightarrow> sbind (check_change x w u d c) (\<lambda>_. Inr d))
        else Inr d)"

text \<open>\<^verbatim>\<open>authorize\<close> on an app row.\<close>

definition authorize_app :: "world \<Rightarrow> app option \<Rightarrow> caller \<Rightarrow> err + app" where
  "authorize_app w a c =
    (case a of
       None \<Rightarrow> Inl (HTTPException 404)
     | Some a \<Rightarrow> if visible w (ap_actor a) (ap_business_unit a) c then Inr a else Inl (HTTPException 404))"

definition authorize_reconcile :: "ext \<Rightarrow> world \<Rightarrow> doc option \<Rightarrow> caller \<Rightarrow> err + doc" where
  "authorize_reconcile x w rcd c =
    (if \<not> enabled w then authorize x w rcd c False
     else case rcd of
       None \<Rightarrow> Inl (HTTPException 404)
     | Some d \<Rightarrow>
        if is_operator w c then Inr d
        else if visible w (d_actor d) (p_business_unit (d_def d)) c then Inl (HTTPException 403)
        else Inl (HTTPException 404))"

section \<open>Guardrails\<close>

definition offending :: "environment \<Rightarrow> change list option \<Rightarrow> change list" where
  "offending env changes = filter (\<lambda>ch. List.member (env_protected env) (c_type ch) \<and> ''delete'' \<in> set (c_actions ch))
     (case changes of None \<Rightarrow> [] | Some cs \<Rightarrow> cs)"

definition check_guardrails ::
  "world \<Rightarrow> string option \<Rightarrow> string option \<Rightarrow> action \<Rightarrow> change list option \<Rightarrow> err + unit" where
  "check_guardrails w bu env act changes =
    (if \<not> enabled w then Inr ()
     else case Option.bind (load_unit w bu) (\<lambda>u. unit_env u env) of
       None \<Rightarrow> Inr ()
     | Some e \<Rightarrow>
        if act = Destroy \<and> \<not> env_allow_destroy e then Inl (OperationError 403 Policy_denied None)
        else if env_protected e \<noteq> [] \<and> offending e changes \<noteq> [] then Inl (OperationError 403 Policy_denied None)
        else Inr ())"

definition check_op_guardrails :: "world \<Rightarrow> doc \<Rightarrow> err + unit" where
  "check_op_guardrails w op = check_guardrails w (p_business_unit (d_def op)) (p_environment (d_def op)) (d_action op) (d_changes op)"

section \<open>Patterns\<close>

text \<open>Sets of names are lists; \<^verbatim>\<open>sorted(...)\<close> of a set is a sorted list without repetitions.\<close>

definition sorted_set :: "string list \<Rightarrow> string list" where
  "sorted_set xs = remdups (sort xs)"

definition available :: "ext \<Rightarrow> world \<Rightarrow> caller \<Rightarrow> err + string list" where
  "available x w c = sbind (catalog_load x) (\<lambda>ps.
     Inr (sorted_set (filter (\<lambda>n. \<not> enabled w \<or> list_ex (\<lambda>u. List.member (u_patterns u) n) (units_for w c))
                        (map fst ps))))"

definition deployable_in :: "ext \<Rightarrow> business_unit \<Rightarrow> environment \<Rightarrow> err + string list" where
  "deployable_in x u env = sbind (catalog_load x) (\<lambda>ps.
     Inr (sorted_set (filter (\<lambda>n. case map_of ps n of None \<Rightarrow> False | Some p \<Rightarrow> deployable env (pt_cloud p)) (u_patterns u))))"

definition deployable_patterns :: "ext \<Rightarrow> world \<Rightarrow> caller \<Rightarrow> string \<Rightarrow> err + string list" where
  "deployable_patterns x w c env =
     sbind (smap (\<lambda>u. case map_of (u_environments u) env of
         None \<Rightarrow> Inr []
       | Some e \<Rightarrow> (if can_deploy u c e then deployable_in x u e else Inr [])) (units_for w c))
       (\<lambda>ns. Inr (remdups (concat ns)))"

definition resolve :: "ext \<Rightarrow> world \<Rightarrow> string \<Rightarrow> string option \<Rightarrow> caller \<Rightarrow> err + resolved" where
  "resolve x w n version c = sbind (available x w c) (\<lambda>names.
     if n \<notin> set names then Inl (HTTPException 404)
     else case catalog_resolve x n version of
       Inl UnknownVersion \<Rightarrow> Inl (HTTPException 422)
     | Inl CatalogError \<Rightarrow> Inl (HTTPException 502)
     | Inl e \<Rightarrow> Inl e
     | Inr r \<Rightarrow> Inr r)"

section \<open>Validation\<close>

definition legacy_committed :: "ext \<Rightarrow> string \<Rightarrow> string \<Rightarrow> err + rat" where
  "legacy_committed x bu env =
    (case x_legacy x of
       None \<Rightarrow> Inr 0
     | Some rows \<Rightarrow>
        sbind (smap (\<lambda>r. accounting_amount (lr_cost r))
                 (filter (\<lambda>r. lr_business_unit r = bu \<and> lr_environment r = env \<and> \<not> lr_destroyed r) rows))
          (\<lambda>xs. accounting_amount (JNum (sum_list xs))))"

text \<open>\<^verbatim>\<open>resolve_refs\<close>: the loop over the references, in order.\<close>

fun resolve_refs ::
  "ext \<Rightarrow> world \<Rightarrow> (string \<times> json) list \<Rightarrow> caller \<Rightarrow> (string option \<times> string option) \<Rightarrow> (string \<times> input_ref) list
     \<Rightarrow> err + (string \<times> json) list" where
  "resolve_refs x w inputs c where_at [] = Inr []"
| "resolve_refs x w inputs c where_at ((n, ref) # rest) =
    (if map_of inputs n \<noteq> None then Inl (HTTPException 422)
     else sbind (resource (ref_resource_id ref) w) (\<lambda>rcd.
          sbind (authorize x w rcd c False) (\<lambda>source.
          sbind (reference_error (ref_resource_id ref) w) (\<lambda>problem.
          if problem \<noteq> None then Inl (OperationError 409 Reference_not_ready None)
          else if enabled w \<and> (p_business_unit (d_def source), p_environment (d_def source)) \<noteq> where_at
          then Inl (HTTPException 422)
          else case map_of (case d_outputs source of None \<Rightarrow> [] | Some vs \<Rightarrow> vs) (ref_output ref) of
                 None \<Rightarrow> Inl (HTTPException 422)
               | Some v \<Rightarrow> sbind (resolve_refs x w inputs c where_at rest) (\<lambda>vs. Inr ((n, v) # vs))))))"

text \<open>A body with no keys but the definition's.\<close>

definition blank_doc :: "defn \<Rightarrow> doc" where
  "blank_doc p = \<lparr>d_def = p, d_id = [], d_resource_id = [], d_actor = [], d_action = Deploy,
     d_state = None, d_created_at = 0, d_updated_at = 0, d_plan_digest = None, d_changes = None,
     d_outputs = None, d_withheld_outputs = None, d_error = None, d_diagnostic = None,
     d_cost = JNull, d_previous_cost = None, d_planned_at = None, d_drift = None,
     d_planned_objects = None, d_discarded = False, d_expired = False, d_reconciliation = None,
     d_operation_id = None, d_previous_operation_id = None, d_resource_created_at = None,
     d_managed_objects = None, d_drift_status = None, d_drift_checked_at = None,
     d_drift_error = None, d_promoted_from = None, d_team_revision = None\<rparr>"

text \<open>What an update or destroy must agree with: the resource it names.\<close>

definition check_previous :: "ext \<Rightarrow> world \<Rightarrow> intent \<Rightarrow> caller \<Rightarrow> string \<Rightarrow> err + doc" where
  "check_previous x w i c rid =
    sbind (resource rid w) (\<lambda>rcd.
    sbind (authorize x w rcd c True) (\<lambda>previous.
    if d_state previous = Some Destroyed then Inl (OperationError 409 Resource_destroyed None)
    else if i_pattern i \<noteq> p_pattern (d_def previous) then Inl (OperationError 409 Pattern_change_not_supported None)
    else if i_business_unit i \<notin> {None, p_business_unit (d_def previous)} \<or>
            i_environment i \<notin> {None, p_environment (d_def previous)}
    then Inl (OperationError 409 Placement_changed None)
    else Inr previous))"

definition validate_destroy :: "world \<Rightarrow> string \<Rightarrow> doc \<Rightarrow> err + doc" where
  "validate_destroy w rid previous =
    sbind (check_guardrails w (p_business_unit (d_def previous)) (p_environment (d_def previous)) Destroy None) (\<lambda>_.
    sbind (referenced rid w) (\<lambda>used.
    if used then Inl (OperationError 409 Resource_referenced None)
    else Inr (previous\<lparr>d_previous_operation_id := d_operation_id previous\<rparr>)))"

definition with_previous :: "intent \<Rightarrow> doc option \<Rightarrow> intent" where
  "with_previous i previous = (case previous of
      None \<Rightarrow> i
    | Some p \<Rightarrow> i\<lparr>i_business_unit := p_business_unit (d_def p), i_environment := p_environment (d_def p),
        i_version := (if or_empty (i_version i) \<noteq> [] then i_version i else p_version (d_def p))\<rparr>)"

definition deploy_def :: "ext \<Rightarrow> intent \<Rightarrow> resolved \<Rightarrow> doc option \<Rightarrow> defn" where
  "deploy_def x i r previous = \<lparr>p_pattern = i_pattern i, p_version = rs_version r, p_commit = rs_commit r,
     p_source = terraform_source x r, p_inputs = i_inputs i,
     p_labels = (case i_labels i of
         Some ls \<Rightarrow> ls | None \<Rightarrow> (case previous of None \<Rightarrow> [] | Some p \<Rightarrow> p_labels (d_def p))),
     p_input_refs = (case i_input_refs i of None \<Rightarrow> [] | Some rs \<Rightarrow> rs),
     p_cloud = pt_cloud (rs_pattern r), p_business_unit = None, p_environment = None,
     p_subscription_id = None, p_cloud_target = None, p_size = None, p_injected = []\<rparr>"

definition with_region :: "business_unit \<Rightarrow> intent \<Rightarrow> variable list \<Rightarrow> (string \<times> json) list \<Rightarrow> (string \<times> json) list" where
  "with_region u i vars injected =
    (if list_ex (\<lambda>v. v_name v = ''location'') vars \<and> map_of (i_inputs i) ''location'' = None \<and>
        map_of (case i_input_refs i of None \<Rightarrow> [] | Some rs \<Rightarrow> rs) ''location'' = None \<and>
        or_empty (u_region_default u) \<noteq> []
     then dict_set ''location'' (JStr (or_empty (u_region_default u))) injected else injected)"

definition finite_amount :: "json \<Rightarrow> rat option" where
  "finite_amount j = (case j of JNum q \<Rightarrow> (if 0 \<le> q \<and> q < float_limit then Some q else None) | _ \<Rightarrow> None)"

definition budget_of :: "ext \<Rightarrow> business_unit \<Rightarrow> environment \<Rightarrow> json option \<Rightarrow> err + budget option" where
  "budget_of x u e cost =
    (if env_budget_monthly e = JNull then Inr None
     else case finite_amount (env_budget_monthly e) of
       None \<Rightarrow> Inl (HTTPException 503)
     | Some limit \<Rightarrow>
        if cost = None then Inl (HTTPException 403)
        else sbind (legacy_committed x (u_name u) (env_name e)) (\<lambda>legacy.
             Inr (Some \<lparr>b_limit = limit, b_legacy_committed = JNum legacy\<rparr>)))"

text \<open>The part of \<^verbatim>\<open>validate\<close> under tenancy: placement, injected values, cost and budget.\<close>

definition place_deploy ::
  "ext \<Rightarrow> world \<Rightarrow> intent \<Rightarrow> caller \<Rightarrow> resolved \<Rightarrow> variable list \<Rightarrow> json \<Rightarrow> doc
     \<Rightarrow> err + (doc \<times> variable list \<times> budget option)" where
  "place_deploy x w i c r vars config result =
    sbind (select_unit w c (i_business_unit i)) (\<lambda>u.
    sbind (place c u (i_environment i) (i_pattern i) False) (\<lambda>pl.
    sbind (select_target pl (pt_cloud (rs_pattern r))) (\<lambda>target.
    sbind (inject_target vars target) (\<lambda>(vars1, target_inputs).
    sbind (shape vars1 pl config (i_size i) True) (\<lambda>(vars2, shaped).
    sbind (estimated_cost config (env_name (pl_environment pl)) (i_size i)) (\<lambda>cost.
    if cost \<noteq> None \<and> finite_amount (the cost) = None then Inl (HTTPException 503)
    else sbind (budget_of x u (pl_environment pl) cost) (\<lambda>budget.
      let injected = with_region u i vars2 (dict_merge shaped target_inputs)
      in Inr (result
           \<lparr>d_def := (d_def result)\<lparr>p_business_unit := Some (u_name u),
               p_environment := Some (env_name (pl_environment pl)),
               p_subscription_id := placed_subscription target (pl_environment pl),
               p_cloud_target := target, p_size := i_size i, p_injected := injected\<rparr>,
            d_cost := (case cost of None \<Rightarrow> JNull | Some j \<Rightarrow> j),
            d_team_revision := (if db_source w then u_revision u else None)\<rparr>,
          vars2, budget))))))))"

definition deploy_result :: "ext \<Rightarrow> intent \<Rightarrow> resolved \<Rightarrow> doc option \<Rightarrow> doc" where
  "deploy_result x i r previous = (blank_doc (deploy_def x i r previous))
     \<lparr>d_previous_operation_id := (case previous of None \<Rightarrow> None | Some p \<Rightarrow> d_operation_id p)\<rparr>"

definition place_result ::
  "ext \<Rightarrow> world \<Rightarrow> intent \<Rightarrow> caller \<Rightarrow> resolved \<Rightarrow> variable list \<Rightarrow> json \<Rightarrow> doc
     \<Rightarrow> err + (doc \<times> variable list \<times> budget option)" where
  "place_result x w i c r vars config result =
    (if enabled w then place_deploy x w i c r vars config result
     else if or_empty (i_business_unit i) \<noteq> [] \<or> or_empty (i_environment i) \<noteq> [] \<or> or_empty (i_size i) \<noteq> []
     then Inl (HTTPException 422) else Inr (result, vars, None))"

text \<open>The end of \<^verbatim>\<open>validate\<close>: references, the schema of the inputs, sensitive variables.\<close>

definition check_deploy :: "ext \<Rightarrow> world \<Rightarrow> intent \<Rightarrow> caller \<Rightarrow> doc \<Rightarrow> variable list \<Rightarrow> err + doc" where
  "check_deploy x w i c placed vars =
    sbind (resolve_refs x w (i_inputs i) c (p_business_unit (d_def placed), p_environment (d_def placed))
             (case i_input_refs i of None \<Rightarrow> [] | Some rs \<Rightarrow> rs)) (\<lambda>vals.
    let inputs = dict_merge (i_inputs i) vals in
    if schema_errors x (i_pattern i) vars inputs \<noteq> [] then Inl (HTTPException 422)
    else if list_ex v_sensitive vars then Inl (HTTPException 422)
    else Inr (placed\<lparr>d_def := (d_def placed)\<lparr>p_inputs := inputs\<rparr>\<rparr>))"

definition validate_deploy :: "ext \<Rightarrow> world \<Rightarrow> intent \<Rightarrow> caller \<Rightarrow> doc option \<Rightarrow> err + (doc \<times> budget option)" where
  "validate_deploy x w i0 c previous =
    (let i = with_previous i0 previous in
     sbind (resolve x w (i_pattern i) (i_version i) c) (\<lambda>r.
     if or_empty (i_expected_commit i) \<noteq> [] \<and> i_expected_commit i \<noteq> rs_commit r
     then Inl (OperationError 409 Revision_moved None)
     else
       sbind (variables x r) (\<lambda>vars.
       sbind (x_config x r) (\<lambda>config.
       sbind (place_result x w i c r vars config (deploy_result x i r previous)) (\<lambda>(placed, vars1, budget).
       sbind (check_deploy x w i c placed vars1) (\<lambda>d. Inr (d, budget)))))))"

definition validate :: "ext \<Rightarrow> world \<Rightarrow> intent \<Rightarrow> caller \<Rightarrow> err + (doc \<times> budget option)" where
  "validate x w i c =
    (if i_action i = Destroy \<and> (i_labels i \<noteq> None \<or> i_input_refs i \<noteq> None) then Inl (HTTPException 422)
     else if or_empty (i_resource_id i) \<noteq> []
     then sbind (check_previous x w i c (or_empty (i_resource_id i))) (\<lambda>previous.
          if i_action i = Destroy
          then sbind (validate_destroy w (or_empty (i_resource_id i)) previous) (\<lambda>d. Inr (d, None))
          else validate_deploy x w i c (Some previous))
     else validate_deploy x w i c None)"

section \<open>Facts\<close>

lemma with_previous_same [simp]:
  "i_inputs (with_previous i p) = i_inputs i" "i_input_refs (with_previous i p) = i_input_refs i"
  "i_pattern (with_previous i p) = i_pattern i" "i_expected_commit (with_previous i p) = i_expected_commit i"
  by (simp_all add: with_previous_def split: option.split)

lemma validate_deployD:
  assumes "validate_deploy x w i c previous = Inr (d, b)"
  obtains r vars config placed vars1 where
    "resolve x w (i_pattern i) (i_version (with_previous i previous)) c = Inr r"
    "or_empty (i_expected_commit i) \<noteq> [] \<longrightarrow> i_expected_commit i = rs_commit r"
    "variables x r = Inr vars" "x_config x r = Inr config"
    "place_result x w (with_previous i previous) c r vars config (deploy_result x (with_previous i previous) r previous) = Inr (placed, vars1, b)"
    "check_deploy x w (with_previous i previous) c placed vars1 = Inr d"
  using assms unfolding validate_deploy_def Let_def by (auto elim!: sbind_InrE if_InlE intro: that)

lemma check_deployD:
  assumes "check_deploy x w i c placed vars1 = Inr d"
  obtains vals where
    "resolve_refs x w (i_inputs i) c (p_business_unit (d_def placed), p_environment (d_def placed))
       (case i_input_refs i of None \<Rightarrow> [] | Some rs \<Rightarrow> rs) = Inr vals"
    "schema_errors x (i_pattern i) vars1 (dict_merge (i_inputs i) vals) = []"
    "\<not> list_ex v_sensitive vars1"
    "d = placed\<lparr>d_def := (d_def placed)\<lparr>p_inputs := dict_merge (i_inputs i) vals\<rparr>\<rparr>"
  using assms unfolding check_deploy_def Let_def by (auto elim!: sbind_InrE if_InlE intro: that)

end
