(* ===== verification/TeamAdmin.thy ===== *)
theory TeamAdmin
  imports TeamCheck Policy
begin

text \<open>
  Administration of the teams stored in the database: \<^verbatim>\<open>app/team_admin.py\<close> and the writes of
  \<^verbatim>\<open>app/team_store.py\<close>. Every write is one transaction (\<open>connect\<close>): the revision is checked, the document is
  reviewed against the current resources and the other teams, the \<open>accepted\<close> event is recorded, then the
  row and its revision are written. The texts and findings a refusal carries are dropped.
\<close>

section \<open>Request bodies\<close>

definition MAX_REASON :: nat where
  "MAX_REASON = 500"

definition reason_ok :: "string \<Rightarrow> bool" where
  "reason_ok s \<longleftrightarrow> 1 \<le> length s \<and> length s \<le> MAX_REASON"

record team_validate =
  vd_name :: string
  vd_team :: json
  vd_reason :: "string option"

definition team_validate_ok :: "team_validate \<Rightarrow> bool" where
  "team_validate_ok b \<longleftrightarrow> team_name_ok (vd_name b) \<and> dict_value (vd_team b) \<and>
     (case vd_reason b of None \<Rightarrow> True | Some s \<Rightarrow> length s \<le> MAX_REASON)"

record team_create =
  cr_name :: string
  cr_team :: json
  cr_reason :: string

definition team_create_ok :: "team_create \<Rightarrow> bool" where
  "team_create_ok b \<longleftrightarrow> team_name_ok (cr_name b) \<and> dict_value (cr_team b) \<and> reason_ok (cr_reason b)"

record team_replace =
  rp_team :: json
  rp_reason :: string
  rp_acknowledge :: "string list"

definition team_replace_ok :: "team_replace \<Rightarrow> bool" where
  "team_replace_ok b \<longleftrightarrow> dict_value (rp_team b) \<and> reason_ok (rp_reason b)"

record team_revert =
  rv_revision :: nat
  rv_reason :: string
  rv_acknowledge :: "string list"

definition team_revert_ok :: "team_revert \<Rightarrow> bool" where
  "team_revert_ok b \<longleftrightarrow> 1 \<le> rv_revision b \<and> reason_ok (rv_reason b)"

record team_archive =
  ar_reason :: string
  ar_force :: bool

record team_import =
  im_yaml :: string
  im_apply :: bool
  im_reason :: string
  im_acknowledge :: "string list"
  im_expected :: "(string \<times> int option) list"

definition team_import_ok :: "team_import \<Rightarrow> bool" where
  "team_import_ok b \<longleftrightarrow> length (im_yaml b) \<le> 500000 \<and> length (im_reason b) \<le> MAX_REASON"

section \<open>Differences of two documents\<close>

text \<open>\<^verbatim>\<open>_flatten\<close>: the assignments to the dict of dotted paths in the order they are made; a later one to the
  same path wins (\<open>flat_dict\<close>).\<close>

definition is_jstr :: "json \<Rightarrow> bool" where
  "is_jstr v \<longleftrightarrow> jstr v \<noteq> None"

definition sub_path :: "string \<Rightarrow> string \<Rightarrow> string" where
  "sub_path pre k = (if pre \<noteq> [] then pre @ ''.'' @ k else k)"

fun flatten :: "string \<Rightarrow> json \<Rightarrow> (string \<times> json) list" where
  "flatten pre (JObj kvs) =
     (if kvs = [] \<and> pre \<noteq> [] then [(pre, JObj [])] else []) @
     concat (map (\<lambda>kv. flatten (sub_path pre (fst kv)) (snd kv)) kvs)"
| "flatten pre (JList xs) =
     (if list_all is_jstr xs
      then (pre, JObj []) # map (\<lambda>x. (pre @ ''['' @ or_empty (jstr x) @ '']'', JBool True)) xs
      else [(pre, JList xs)])"
| "flatten pre v = [(pre, v)]"

definition flat_dict :: "json \<Rightarrow> (string \<times> json) list" where
  "flat_dict d = dict_merge [] (flatten [] d)"

record path_diff =
  df_added :: "string list"
  df_removed :: "string list"
  df_changed :: "string list"

definition diff :: "json option \<Rightarrow> json \<Rightarrow> path_diff" where
  "diff old_d new_d =
    (let a = flat_dict (case old_d of None \<Rightarrow> JObj [] | Some d \<Rightarrow> d); b = flat_dict new_d in
     \<lparr>df_added = keys_minus (map fst b) (map fst a),
      df_removed = keys_minus (map fst a) (map fst b),
      df_changed = sorted_keys (filter (\<lambda>k. \<not> py_same (the (map_of a k)) (the (map_of b k)))
        (common (map fst a) (map fst b)))\<rparr>)"

section \<open>The store\<close>

text \<open>\<^verbatim>\<open>team_store.all_resources\<close> and \<^verbatim>\<open>team_store.resources\<close>: what still exists.\<close>

definition all_resources :: "world \<Rightarrow> doc list" where
  "all_resources w = filter (\<lambda>d. d_state d \<noteq> Some Destroyed) (map snd (resources w))"

definition team_resources :: "string \<Rightarrow> world \<Rightarrow> doc list" where
  "team_resources name w = filter (\<lambda>d. p_business_unit (d_def d) = Some name) (all_resources w)"

text \<open>\<^verbatim>\<open>team_store.revision\<close> and \<^verbatim>\<open>team_store.revisions\<close>; \<^verbatim>\<open>1 << 62\<close> stands for no bound.\<close>

definition find_revision :: "string \<Rightarrow> nat \<Rightarrow> world \<Rightarrow> team_revision option" where
  "find_revision name n w = find (\<lambda>r. tr_name r = name \<and> tr_revision r = n) (team_revisions w)"

definition team_page :: "string \<Rightarrow> int option \<Rightarrow> nat \<Rightarrow> world \<Rightarrow> team_revision list" where
  "team_page name below maxn w = take maxn (rev (sort_key tr_revision
     (filter (\<lambda>r. int (tr_revision r) < (case below of None \<Rightarrow> 2 ^ 62 | Some b \<Rightarrow> b)) (team_history name w))))"

text \<open>\<^verbatim>\<open>team_store.write\<close>: the event, the current row, the revision row. \<^verbatim>\<open>dump\<close> sorts the keys and refuses
  NaN and infinity; the primary keys of both tables are checked.\<close>

definition insert_team :: "team_row \<Rightarrow> unit tx" where
  "insert_team r w = (if team_get (t_name r) w \<noteq> None then (Inl IntegrityError, w)
     else (Inr (), w\<lparr>teams := teams w @ [r]\<rparr>))"

definition update_team :: "string \<Rightarrow> (team_row \<Rightarrow> team_row) \<Rightarrow> world \<Rightarrow> world" where
  "update_team name f w = w\<lparr>teams := row_update t_name name f (teams w)\<rparr>"

definition insert_revision :: "team_revision \<Rightarrow> unit tx" where
  "insert_revision r w = (if find_revision (tr_name r) (tr_revision r) w \<noteq> None then (Inl IntegrityError, w)
     else (Inr (), w\<lparr>team_revisions := team_revisions w @ [r]\<rparr>))"

definition next_number :: "team_row option \<Rightarrow> nat" where
  "next_number previous = (case previous of None \<Rightarrow> 0 | Some p \<Rightarrow> t_revision p) + 1"

definition put_team :: "string \<Rightarrow> string \<Rightarrow> json \<Rightarrow> team_state \<Rightarrow> team_row option \<Rightarrow> nat \<Rightarrow> unit tx" where
  "put_team who name d st previous t w = (let n = next_number previous in case previous of
      Some _ \<Rightarrow> (Inr (), update_team name (\<lambda>r. r\<lparr>t_revision := n, t_state := st, t_doc := canon d,
        t_updated_at := t, t_updated_by := who\<rparr>) w)
    | None \<Rightarrow> insert_team \<lparr>t_name = name, t_revision = n, t_state = st, t_doc = canon d,
        t_created_at = t, t_created_by = who, t_updated_at = t, t_updated_by = who\<rparr> w)"

definition write_team ::
  "string \<Rightarrow> string \<Rightarrow> json \<Rightarrow> team_state \<Rightarrow> string \<Rightarrow> team_summary \<Rightarrow> team_row option \<Rightarrow> nat \<Rightarrow> team_row tx" where
  "write_team who name d st why summary previous t w =
    (let n = next_number previous; w1 = event None who (Ev_team (ts_action summary) name n) Accepted t w in
     if \<not> finite_json d then (Inl ValueError, w1)
     else case put_team who name d st previous t w1 of
       (Inl e, w2) \<Rightarrow> (Inl e, w2)
     | (Inr _, w2) \<Rightarrow>
        (case insert_revision \<lparr>tr_name = name, tr_revision = n, tr_actor = who, tr_at = t, tr_reason = why,
             tr_state = st, tr_doc = canon d, tr_summary = summary\<rparr> w2 of
           (Inl e, w3) \<Rightarrow> (Inl e, w3)
         | (Inr _, w3) \<Rightarrow> (case team_get name w3 of None \<Rightarrow> (Inl TypeError, w3) | Some r \<Rightarrow> (Inr r, w3))))"

section \<open>Review and gates\<close>

definition after_check :: "err + 'a \<Rightarrow> ('a \<Rightarrow> 'b tx) \<Rightarrow> 'b tx" where
  "after_check m f w = (case m of Inl e \<Rightarrow> (Inl e, w) | Inr v \<Rightarrow> f v w)"

definition require_db :: "world \<Rightarrow> err + unit" where
  "require_db w = (if db_source w then Inr () else Inl (OperationError 409 Tenants_source_file None))"

text \<open>\<^verbatim>\<open>_catalog\<close>: an unreadable catalog reads as none.\<close>

definition current_catalog :: "ext \<Rightarrow> (string \<times> pattern) list option" where
  "current_catalog x = (case catalog_load x of Inl _ \<Rightarrow> None | Inr ps \<Rightarrow> Some ps)"

definition admin_env :: "ext \<Rightarrow> check_env \<Rightarrow> check_env" where
  "admin_env x e = e\<lparr>ce_catalog := current_catalog x\<rparr>"

definition other_docs :: "string \<Rightarrow> world \<Rightarrow> (string \<times> json) list" where
  "other_docs name w = map (\<lambda>r. (t_name r, t_doc r)) (filter (\<lambda>r. t_name r \<noteq> name) (list_all_teams w))"

text \<open>\<^verbatim>\<open>_review\<close>: the findings and the impact of a document as the team's next one.\<close>

definition review ::
  "ext \<Rightarrow> check_env \<Rightarrow> string \<Rightarrow> json \<Rightarrow> team_row option \<Rightarrow> (string \<times> json) list option \<Rightarrow> world \<Rightarrow>
   err + finding list \<times> (string \<times> env_impact) list" where
  "review x e name d stored others w =
    (let rs = team_resources name w; previous = map_option t_doc stored in
     sbind (check_team (admin_env x e) name d rs previous
       (case others of None \<Rightarrow> other_docs name w | Some os \<Rightarrow> os)) (\<lambda>fs.
     sbind (impact previous (if dict_value d then d else (case previous of None \<Rightarrow> JObj [] | Some p \<Rightarrow> p)) rs)
       (\<lambda>imp. Inr (fs, imp))))"

definition warning_codes :: "finding list \<Rightarrow> string list" where
  "warning_codes fs = sorted_keys (map f_code (has_level L_warning fs))"

definition gate_findings :: "finding list \<Rightarrow> string list \<Rightarrow> err + unit" where
  "gate_findings fs acknowledged =
    (if has_level L_error fs \<noteq> [] then Inl (OperationError 422 Team_invalid None)
     else if filter (\<lambda>c. \<not> List.member acknowledged c) (warning_codes fs) \<noteq> []
     then Inl (OperationError 409 Warnings_not_acknowledged None)
     else Inr ())"

definition gate_errors_only :: "finding list \<Rightarrow> err + unit" where
  "gate_errors_only fs = gate_findings (filter (\<lambda>f. f_level f \<noteq> L_warning) fs) []"

text \<open>\<^verbatim>\<open>_revision_number\<close> of the \<^verbatim>\<open>If-Match\<close> header; \<open>None\<close> stands for -1. \<^verbatim>\<open>isdigit\<close> lets the superscripts
  of Latin-1 pass, which \<^verbatim>\<open>int\<close> refuses, as it refuses more than 4300 digits.\<close>

definition isdigit_char :: "char \<Rightarrow> bool" where
  "isdigit_char c \<longleftrightarrow> is_digit c \<or> List.member [178, 179, 185] (of_char c :: nat)"

definition revision_number :: "string option \<Rightarrow> err + nat option" where
  "revision_number if_match = (case if_match of
      None \<Rightarrow> Inl (OperationError 428 If_match_required None)
    | Some h \<Rightarrow>
       (let text = strip_quotes (removeprefix ''W/'' (strip h)) in
        if text = [] \<or> \<not> list_all isdigit_char text then Inr None
        else if \<not> list_all is_digit text \<or> 4300 < length text then Inl ValueError
        else Inr (Some (decimal text))))"

definition stored_team :: "string \<Rightarrow> string option \<Rightarrow> world \<Rightarrow> err + team_row" where
  "stored_team name if_match w = (case team_get name w of
      None \<Rightarrow> Inl (HTTPException 404)
    | Some r \<Rightarrow> sbind (revision_number if_match) (\<lambda>n.
        if n \<noteq> Some (t_revision r) then Inl (OperationError 412 Revision_stale None) else Inr r))"

definition require_team_change :: "team_row \<Rightarrow> json \<Rightarrow> err + unit" where
  "require_team_change stored d =
    (if py_same (t_doc stored) d then Inl (OperationError 409 Team_unchanged None) else Inr ())"

section \<open>Views\<close>

text \<open>A row of the active source: the file source has revision 0 and no dates.\<close>

record team_item =
  ti_name :: string
  ti_revision :: nat
  ti_state :: team_state
  ti_doc :: json
  ti_created :: "(nat \<times> string) option"
  ti_updated :: "(nat \<times> string) option"

definition item_of_row :: "team_row \<Rightarrow> team_item" where
  "item_of_row r = \<lparr>ti_name = t_name r, ti_revision = t_revision r, ti_state = t_state r, ti_doc = t_doc r,
     ti_created = Some (t_created_at r, t_created_by r), ti_updated = Some (t_updated_at r, t_updated_by r)\<rparr>"

record team_view =
  tv_item :: team_item
  tv_source_db :: bool
  tv_findings :: "finding list option"
  tv_impact :: "(string \<times> env_impact) list option"

definition team_view_of ::
  "team_item \<Rightarrow> bool \<Rightarrow> finding list option \<Rightarrow> (string \<times> env_impact) list option \<Rightarrow> team_view" where
  "team_view_of r db fs imp = \<lparr>tv_item = r, tv_source_db = db, tv_findings = fs, tv_impact = imp\<rparr>"

text \<open>\<^verbatim>\<open>_write\<close>: the summary of a revision is the action and the difference to the document it replaces.\<close>

definition write_doc ::
  "string \<Rightarrow> string \<Rightarrow> json \<Rightarrow> team_state \<Rightarrow> string \<Rightarrow> string \<Rightarrow> team_row option \<Rightarrow>
   (finding list \<times> (string \<times> env_impact) list) option \<Rightarrow> nat \<Rightarrow> team_view tx" where
  "write_doc who name d st why act stored rv t w =
    (let change = diff (map_option t_doc stored) d in
     case write_team who name d st why \<lparr>ts_action = act, ts_added = df_added change,
         ts_removed = df_removed change, ts_changed = df_changed change\<rparr> stored t w of
       (Inl e, w') \<Rightarrow> (Inl e, w')
     | (Inr r, w') \<Rightarrow> (Inr (team_view_of (item_of_row r) True (map_option fst rv) (map_option snd rv)), w'))"

section \<open>Writes\<close>

text \<open>\<^verbatim>\<open>create\<close>.\<close>

definition create_tx :: "ext \<Rightarrow> check_env \<Rightarrow> string \<Rightarrow> team_create \<Rightarrow> nat \<Rightarrow> team_view tx" where
  "create_tx x e who b t w =
    (if team_get (cr_name b) w \<noteq> None then (Inl (OperationError 409 Team_exists None), w)
     else after_check (sbind (review x e (cr_name b) (cr_team b) None None w) (\<lambda>rv.
         sbind (gate_errors_only (fst rv)) (\<lambda>_. Inr rv)))
       (\<lambda>rv. write_doc who (cr_name b) (cr_team b) Active (cr_reason b) ''create'' None (Some rv) t) w)"

definition create_team :: "ext \<Rightarrow> check_env \<Rightarrow> string \<Rightarrow> team_create \<Rightarrow> nat \<Rightarrow> team_view tx" where
  "create_team x e who b t w = after_check (require_db w) (\<lambda>_. connect (create_tx x e who b t)) w"

text \<open>What \<^verbatim>\<open>replace\<close> and \<^verbatim>\<open>revert\<close> check of the document that becomes current.\<close>

definition reviewed_change ::
  "ext \<Rightarrow> check_env \<Rightarrow> string \<Rightarrow> json \<Rightarrow> string list \<Rightarrow> team_row \<Rightarrow> world \<Rightarrow>
   err + finding list \<times> (string \<times> env_impact) list" where
  "reviewed_change x e name d acknowledged stored w =
    sbind (review x e name d (Some stored) None w) (\<lambda>rv.
    sbind (gate_findings (fst rv) acknowledged) (\<lambda>_.
    sbind (require_team_change stored d) (\<lambda>_. Inr rv)))"

definition replace_tx :: "ext \<Rightarrow> check_env \<Rightarrow> string \<Rightarrow> string \<Rightarrow> team_replace \<Rightarrow> string option \<Rightarrow> nat \<Rightarrow> team_view tx" where
  "replace_tx x e who name b if_match t w =
    after_check (sbind (stored_team name if_match w) (\<lambda>stored.
        sbind (reviewed_change x e name (rp_team b) (rp_acknowledge b) stored w) (\<lambda>rv. Inr (stored, rv))))
      (\<lambda>(stored, rv). write_doc who name (rp_team b) (t_state stored) (rp_reason b) ''update'' (Some stored) (Some rv) t) w"

definition in_revision :: "string option \<Rightarrow> 'a tx \<Rightarrow> 'a tx" where
  "in_revision if_match body w =
    after_check (sbind (require_db w) (\<lambda>_. revision_number if_match)) (\<lambda>_. connect body) w"

definition replace_team :: "ext \<Rightarrow> check_env \<Rightarrow> string \<Rightarrow> string \<Rightarrow> team_replace \<Rightarrow> string option \<Rightarrow> nat \<Rightarrow> team_view tx" where
  "replace_team x e who name b if_match t = in_revision if_match (replace_tx x e who name b if_match t)"

definition revert_tx :: "ext \<Rightarrow> check_env \<Rightarrow> string \<Rightarrow> string \<Rightarrow> team_revert \<Rightarrow> string option \<Rightarrow> nat \<Rightarrow> team_view tx" where
  "revert_tx x e who name b if_match t w =
    after_check (sbind (stored_team name if_match w) (\<lambda>stored.
        case find_revision name (rv_revision b) w of
          None \<Rightarrow> Inl (HTTPException 404)
        | Some target \<Rightarrow> sbind (reviewed_change x e name (tr_doc target) (rv_acknowledge b) stored w)
            (\<lambda>rv. Inr (stored, tr_doc target, rv))))
      (\<lambda>(stored, d, rv). write_doc who name d (t_state stored) (rv_reason b) ''revert'' (Some stored) (Some rv) t) w"

definition revert_team :: "ext \<Rightarrow> check_env \<Rightarrow> string \<Rightarrow> string \<Rightarrow> team_revert \<Rightarrow> string option \<Rightarrow> nat \<Rightarrow> team_view tx" where
  "revert_team x e who name b if_match t = in_revision if_match (revert_tx x e who name b if_match t)"

definition archive_tx :: "string \<Rightarrow> string \<Rightarrow> team_archive \<Rightarrow> string option \<Rightarrow> nat \<Rightarrow> team_view tx" where
  "archive_tx who name b if_match t w =
    after_check (sbind (stored_team name if_match w) (\<lambda>stored.
        if t_state stored = Archived then Inl (OperationError 409 Team_archived None)
        else if team_resources name w \<noteq> [] \<and> \<not> ar_force b then Inl (OperationError 409 Team_has_resources None)
        else Inr stored))
      (\<lambda>stored. write_doc who name (t_doc stored) Archived (ar_reason b) ''archive'' (Some stored) None t) w"

definition archive_team :: "string \<Rightarrow> string \<Rightarrow> team_archive \<Rightarrow> string option \<Rightarrow> nat \<Rightarrow> team_view tx" where
  "archive_team who name b if_match t = in_revision if_match (archive_tx who name b if_match t)"

definition unarchive_tx :: "ext \<Rightarrow> check_env \<Rightarrow> string \<Rightarrow> string \<Rightarrow> string \<Rightarrow> string option \<Rightarrow> nat \<Rightarrow> team_view tx" where
  "unarchive_tx x e who name why if_match t w =
    after_check (sbind (stored_team name if_match w) (\<lambda>stored.
        if t_state stored \<noteq> Archived then Inl (OperationError 409 Team_not_archived None)
        else sbind (review x e name (t_doc stored) (Some stored) None w) (\<lambda>rv.
          sbind (gate_errors_only (fst rv)) (\<lambda>_. Inr (stored, rv)))))
      (\<lambda>(stored, rv). write_doc who name (t_doc stored) Active why ''unarchive'' (Some stored) (Some rv) t) w"

definition unarchive_team :: "ext \<Rightarrow> check_env \<Rightarrow> string \<Rightarrow> string \<Rightarrow> string \<Rightarrow> string option \<Rightarrow> nat \<Rightarrow> team_view tx" where
  "unarchive_team x e who name why if_match t = in_revision if_match (unarchive_tx x e who name why if_match t)"

section \<open>Import\<close>

record import_entry =
  ie_name :: string
  ie_action :: string
  ie_revision :: "nat option"
  ie_findings :: "finding list"
  ie_impact :: "(string \<times> env_impact) list option"
  ie_doc :: json
  ie_stored :: "team_row option"

definition ie_current :: "import_entry \<Rightarrow> nat option" where
  "ie_current en = map_option t_revision (ie_stored en)"

definition ie_changes :: "import_entry \<Rightarrow> bool" where
  "ie_changes en \<longleftrightarrow> ie_action en \<noteq> ''unchanged''"

text \<open>\<^verbatim>\<open>_plan_import\<close>: every team of the text, reviewed against the other teams as they would be after the import.\<close>

definition final_docs :: "(string \<times> json) list \<Rightarrow> world \<Rightarrow> (string \<times> json) list" where
  "final_docs units w = dict_merge (map (\<lambda>r. (t_name r, t_doc r)) (list_all_teams w))
     (filter (\<lambda>kv. dict_value (snd kv)) units)"

definition plan_entry ::
  "ext \<Rightarrow> check_env \<Rightarrow> (string \<times> json) list \<Rightarrow> world \<Rightarrow> string \<times> json \<Rightarrow> err + import_entry" where
  "plan_entry x e final w kv =
    (let current = team_get (fst kv) w in
     sbind (review x e (fst kv) (snd kv) current (Some final) w) (\<lambda>(fs, imp).
     Inr \<lparr>ie_name = fst kv,
       ie_action = (case current of None \<Rightarrow> ''create''
         | Some r \<Rightarrow> if py_same (t_doc r) (snd kv) then ''unchanged'' else ''update''),
       ie_revision = None, ie_findings = fs,
       ie_impact = (if current = None then None else Some imp),
       ie_doc = snd kv, ie_stored = current\<rparr>))"

definition plan_import :: "ext \<Rightarrow> check_env \<Rightarrow> (string \<times> json) list \<Rightarrow> world \<Rightarrow> err + import_entry list" where
  "plan_import x e units w = smap (plan_entry x e (final_docs units w) w) (by_name units)"

record import_report =
  ir_apply :: bool
  ir_applied :: bool
  ir_teams :: "import_entry list"
  ir_findings :: "finding list"
  ir_errors :: nat
  ir_warnings :: nat

definition import_report_of :: "import_entry list \<Rightarrow> finding list \<Rightarrow> bool \<Rightarrow> bool \<Rightarrow> import_report" where
  "import_report_of plan ffs applied app =
    (let n = (\<lambda>get. sum_list (map (\<lambda>en. get (counts (ie_findings en))) plan) + get (counts ffs)) in
     \<lparr>ir_apply = app, ir_applied = applied, ir_teams = plan, ir_findings = ffs,
      ir_errors = n fst, ir_warnings = n snd\<rparr>)"

text \<open>\<^verbatim>\<open>_check_expected\<close>.\<close>

fun check_expected :: "import_entry list \<Rightarrow> (string \<times> int option) list \<Rightarrow> err + unit" where
  "check_expected [] expected = Inr ()"
| "check_expected (en # plan) expected = (case ie_current en of
      None \<Rightarrow> check_expected plan expected
    | Some current \<Rightarrow>
       (case map_of expected (ie_name en) of
          None \<Rightarrow> (if ie_changes en then Inl (OperationError 428 Expected_revisions_required None)
            else check_expected plan expected)
        | Some v \<Rightarrow> (if v \<noteq> Some (int current) then Inl (OperationError 412 Revision_stale None)
            else check_expected plan expected)))"

definition import_gate :: "import_entry list \<Rightarrow> finding list \<Rightarrow> team_import \<Rightarrow> err + unit" where
  "import_gate plan ffs b =
    (let changing = filter ie_changes plan in
     sbind (check_expected plan (im_expected b)) (\<lambda>_.
     if has_level L_error ffs \<noteq> [] \<or> list_ex (\<lambda>en. has_level L_error (ie_findings en) \<noteq> []) changing
     then Inl (OperationError 422 Team_invalid None)
     else if filter (\<lambda>c. \<not> List.member (im_acknowledge b) c)
         (warning_codes (concat (map ie_findings changing) @ ffs)) \<noteq> []
     then Inl (OperationError 409 Warnings_not_acknowledged None)
     else Inr ()))"

fun write_plan :: "string \<Rightarrow> string \<Rightarrow> import_entry list \<Rightarrow> nat \<Rightarrow> import_entry list tx" where
  "write_plan who why [] t w = (Inr [], w)"
| "write_plan who why (en # plan) t w =
    (case (if ie_changes en
           then (case write_doc who (ie_name en) (ie_doc en)
                   (case ie_stored en of None \<Rightarrow> Active | Some r \<Rightarrow> t_state r) why ''import'' (ie_stored en) None t w of
                   (Inl err, w') \<Rightarrow> (Inl err, w')
                 | (Inr v, w') \<Rightarrow> (Inr (en\<lparr>ie_revision := Some (ti_revision (tv_item v))\<rparr>), w'))
           else (Inr en, w)) of
       (Inl err, w') \<Rightarrow> (Inl err, w')
     | (Inr en', w') \<Rightarrow> (case write_plan who why plan t w' of
          (Inl err, w'') \<Rightarrow> (Inl err, w'')
        | (Inr rest, w'') \<Rightarrow> (Inr (en' # rest), w'')))"

definition import_tx ::
  "ext \<Rightarrow> check_env \<Rightarrow> string \<Rightarrow> team_import \<Rightarrow> (string \<times> json) list \<Rightarrow> finding list \<Rightarrow> nat \<Rightarrow> import_report tx" where
  "import_tx x e who b units ffs t w =
    after_check (sbind (plan_import x e units w) (\<lambda>plan. sbind (import_gate plan ffs b) (\<lambda>_. Inr plan)))
      (\<lambda>plan w. case write_plan who (im_reason b) plan t w of
         (Inl err, w') \<Rightarrow> (Inl err, w')
       | (Inr plan', w') \<Rightarrow> (Inr (import_report_of plan' ffs (list_ex ie_changes plan') True), w')) w"

text \<open>\<^verbatim>\<open>import_teams\<close>: a dry run only reports.\<close>

definition import_units :: "(string \<times> json) list \<times> finding list \<Rightarrow> (string \<times> json) list \<times> finding list" where
  "import_units parsed =
    (filter (\<lambda>kv. valid_name (fst kv)) (fst parsed),
     snd parsed @ map (\<lambda>kv. mk L_error ''name_invalid'' (Some (fst kv)) None)
       (filter (\<lambda>kv. \<not> valid_name (fst kv)) (fst parsed)))"

definition import_teams :: "ext \<Rightarrow> check_env \<Rightarrow> string \<Rightarrow> team_import \<Rightarrow> nat \<Rightarrow> import_report tx" where
  "import_teams x e who b t w =
    (let (units, ffs) = import_units (parse_mapping (ce_yaml e (im_yaml b))) in
     if \<not> im_apply b then connect (\<lambda>w. (sbind (plan_import x e units w)
         (\<lambda>plan. Inr (import_report_of plan ffs False False)), w)) w
     else after_check (require_db w) (\<lambda>_.
       if blank (im_reason b) then (\<lambda>w. (Inl (HTTPException 422), w))
       else connect (import_tx x e who b units ffs t)) w)"

section \<open>Reads\<close>

text \<open>\<^verbatim>\<open>_docs\<close>: the teams of the active source.\<close>

definition team_docs :: "world \<Rightarrow> err + team_item list" where
  "team_docs w =
    (if db_source w then Inr (map item_of_row (list_all_teams w))
     else sbind (py_items (jget (raw_mapping w) ''business_units'')) (\<lambda>units.
       Inr (map (\<lambda>(n, d). \<lparr>ti_name = n, ti_revision = 0, ti_state = Active, ti_doc = ok_dict d,
         ti_created = None, ti_updated = None\<rparr>) (by_name units))))"

definition docs_of :: "team_item list \<Rightarrow> (string \<times> json) list" where
  "docs_of rows = map (\<lambda>r. (ti_name r, ti_doc r)) rows"

record team_line =
  tl_item :: team_item
  tl_groups :: nat
  tl_environments :: "string list"
  tl_resources :: nat
  tl_budgets :: "(string \<times> rat \<times> json) list"
  tl_findings :: "nat \<times> nat"

definition env_budget :: "doc list \<Rightarrow> string \<times> json \<Rightarrow> err + string \<times> rat \<times> json" where
  "env_budget rs kv = sbind (env_reserved rs (fst kv)) (\<lambda>reserved.
     if truthy (snd kv) \<and> \<not> dict_value (snd kv) then Inl AttributeError
     else Inr (fst kv, reserved, jget (snd kv) ''budget_monthly''))"

definition team_line_of :: "ext \<Rightarrow> check_env \<Rightarrow> (string \<times> json) list \<Rightarrow> world \<Rightarrow> team_item \<Rightarrow> err + team_line" where
  "team_line_of x e others w r =
    (let rs = team_resources (ti_name r) w in
     sbind (check_team (admin_env x e) (ti_name r) (ti_doc r) [] None others) (\<lambda>fs.
     sbind (py_items (jget (ti_doc r) ''environments'')) (\<lambda>envs.
     sbind (group_sets (ti_doc r)) (\<lambda>groups.
     sbind (smap (env_budget rs) (by_name envs)) (\<lambda>budgets.
     Inr \<lparr>tl_item = r, tl_groups = length groups, tl_environments = map fst (by_name envs),
       tl_resources = length rs, tl_budgets = budgets, tl_findings = counts fs\<rparr>)))))"

definition list_teams :: "ext \<Rightarrow> check_env \<Rightarrow> world \<Rightarrow> err + team_line list" where
  "list_teams x e w = sbind (reading w ()) (\<lambda>_. sbind (team_docs w) (\<lambda>rows.
     smap (team_line_of x e (docs_of rows) w) rows))"

definition get_team :: "ext \<Rightarrow> check_env \<Rightarrow> string \<Rightarrow> world \<Rightarrow> err + team_view" where
  "get_team x e name w = sbind (reading w ()) (\<lambda>_. sbind (team_docs w) (\<lambda>rows.
     case find (\<lambda>r. ti_name r = name) rows of
       None \<Rightarrow> Inl (HTTPException 404)
     | Some r \<Rightarrow> sbind (check_team (admin_env x e) name (ti_doc r) [] None (docs_of rows)) (\<lambda>fs.
         Inr (team_view_of r (db_source w) (Some fs) None))))"

record validation_report =
  vr_update :: bool
  vr_valid :: bool
  vr_current_revision :: "nat option"
  vr_findings :: "finding list"
  vr_errors :: nat
  vr_warnings :: nat
  vr_impact :: "(string \<times> env_impact) list"

definition validate_team :: "ext \<Rightarrow> check_env \<Rightarrow> team_validate \<Rightarrow> world \<Rightarrow> err + validation_report" where
  "validate_team x e b w = sbind (reading w ()) (\<lambda>_.
    (let stored = (if db_source w then team_get (vd_name b) w else None) in
     sbind (review x e (vd_name b) (vd_team b) stored None w) (\<lambda>(fs, imp).
     Inr \<lparr>vr_update = (stored \<noteq> None), vr_valid = (fst (counts fs) = 0),
       vr_current_revision = map_option t_revision stored, vr_findings = fs,
       vr_errors = fst (counts fs), vr_warnings = snd (counts fs), vr_impact = imp\<rparr>)))"

record revision_page =
  rp_items :: "team_revision list"
  rp_next :: "nat option"

definition list_revisions :: "string \<Rightarrow> int option \<Rightarrow> nat \<Rightarrow> world \<Rightarrow> err + revision_page" where
  "list_revisions name below maxn w = sbind (reading w ()) (\<lambda>_.
    if team_get name w = None then Inl (HTTPException 404)
    else let rows = team_page name below (maxn + 1) w; page = take maxn rows in
      Inr \<lparr>rp_items = page, rp_next = (if maxn < length rows then Some (tr_revision (last page)) else None)\<rparr>)"

definition get_revision :: "string \<Rightarrow> nat \<Rightarrow> world \<Rightarrow> err + team_revision" where
  "get_revision name n w = sbind (reading w ()) (\<lambda>_. case find_revision name n w of
     None \<Rightarrow> Inl (HTTPException 404) | Some r \<Rightarrow> Inr r)"

end
