(* ===== verification/TeamSteps.thy ===== *)
theory TeamSteps
  imports TeamAdmin
begin

text \<open>
  Every administration operation of \<^verbatim>\<open>TeamAdmin\<close> is a run of single team writes (\<open>team_write\<close>), each of a
  document of the right shape under a valid name, or changes nothing. The versions of a team (its
  revision rows in order) are the abstract state; \<open>teams_ok\<close> ties the current row to them.
\<close>

section \<open>Sorted keys change no lookup\<close>

declare map_of_sort_key [simp]

lemma map_of_map_snd: "map_of (map (\<lambda>kv. (fst kv, f (snd kv))) kvs) k = map_option f (map_of kvs k)"
  by (induction kvs) auto

lemma jget_canon [simp]: "jget (canon d) k = canon (jget d k)"
  by (cases d) (auto simp: map_of_map_snd split: option.splits)

lemma jhas_canon [simp]: "jhas (canon d) k = jhas d k"
  by (cases d) (auto simp: map_of_map_snd)

lemma set_jitems_canon [simp]: "set (jitems (canon d)) = (\<lambda>kv. (fst kv, canon (snd kv))) ` set (jitems d)"
  by (cases d) auto

lemma canon_kind [simp]:
  "dict_value (canon d) = dict_value d" "is_text (canon d) = is_text d" "is_scalar (canon d) = is_scalar d"
  "number_value_ok (canon d) = number_value_ok d" "(canon d = JNull) = (d = JNull)"
  "(canon d = JBool b) = (d = JBool b)"
  by (cases d; simp)+

lemma text_list_canon [simp]: "text_list (canon d) = text_list d"
  by (cases d) (auto simp: list_all_iff)

lemma scalar_dict_canon [simp]: "scalar_dict (canon d) = scalar_dict d"
  by (cases d) (auto simp: list_all_iff)

lemma finite_canon [simp]: "finite_json (canon d) = finite_json d"
proof (induction d)
  case (JObj kvs)
  then show ?case by (fastforce simp: list_all_iff)
qed (auto simp: list_all_iff)

lemma canon_idem [simp]: "canon (canon d) = canon d"
proof (induction d)
  case (JObj kvs)
  let ?g = "\<lambda>kv :: string \<times> json. (fst kv, canon (snd kv))"
  have "map ?g (sort_key fst (map ?g kvs)) = sort_key fst (map ?g kvs)"
    by (rule map_idI) (use JObj in \<open>force\<close>)
  then show ?case by (simp add: sort_key_id_if_sorted)
qed simp_all

section \<open>Documents of the right shape\<close>

definition clean :: "json \<Rightarrow> bool" where
  "clean d \<longleftrightarrow> team_shape d None = []"

lemma only_if_Nil [simp]: "(only_if b x = []) = (\<not> b)"
  by (simp add: only_if_def)

lemma sort_Nil_iff [simp]: "(sort_key f xs = []) = (xs = [])"
  by (metis length_0_conv length_sort)

lemma unknown_keys_Nil: "unknown_keys team path d allowed = [] \<longleftrightarrow> fst ` set (jitems d) \<subseteq> set allowed"
  by (auto simp: unknown_keys_def keys_minus_def sorted_keys_def filter_empty_conv)

lemma environment_shape_Nil: "environment_shape team kv = [] \<longleftrightarrow> environment_shape None kv = []"
  by (simp add: environment_shape_def Let_def unknown_keys_Nil)

lemma team_shape_Nil: "team_shape d team = [] \<longleftrightarrow> clean d"
  by (auto simp: team_shape_def clean_def regions_shape_def Let_def unknown_keys_Nil
      environment_shape_Nil [of team])

lemma team_shape_errors [simp]: "has_level L_error (team_shape d team) = team_shape d team"
  unfolding has_level_def
  by (rule filter_True)
    (auto simp: team_shape_def regions_shape_def environment_shape_def Let_def bad_def mk_def only_if_def
      unknown_keys_def split: if_splits)

lemma clean_canon: "clean d \<Longrightarrow> clean (canon d)"
proof -
  have env: "environment_shape None (env, canon spec) = [] \<longleftrightarrow> environment_shape None (env, spec) = []" for env spec
  proof -
    have "(case canon v of JBool _ \<Rightarrow> True | _ \<Rightarrow> False) = (case v of JBool _ \<Rightarrow> True | _ \<Rightarrow> False)" for v
      by (cases v) auto
    then show ?thesis
      by (simp add: environment_shape_def Let_def unknown_keys_Nil wrong_def image_image)
  qed
  show "clean d \<Longrightarrow> clean (canon d)"
    by (auto simp: clean_def team_shape_def regions_shape_def Let_def unknown_keys_Nil wrong_def image_image
        env split: if_splits)
qed

lemma check_team_clean:
  assumes "check_team e name d rs previous others = Inr fs" "has_level L_error fs = []"
  shows "clean d" and "valid_name name"
proof -
  have named: "has_level L_error (only_if b (mk L_error c t p)) = [] \<longleftrightarrow> \<not> b" for b c t p
    by (simp add: only_if_def has_level_def mk_def)
  have app: "has_level l (xs @ ys) = has_level l xs @ has_level l ys" for l xs ys
    by (simp add: has_level_def)
  show "clean d" and "valid_name name"
    using assms
    by (auto simp: check_team_def Let_def app named team_shape_Nil sbind_Inr_iff split: if_splits)
qed

section \<open>One team write\<close>

inductive team_write :: "world \<Rightarrow> world \<Rightarrow> bool" where
  team_write: "write_team who name d st why sm (team_get name w) t w = (Inr r, w') \<Longrightarrow> clean d \<Longrightarrow>
     valid_name name \<Longrightarrow> team_write w w'"

text \<open>What a successful write leaves: the team's row and one more revision with the same content, and the
  event that announces it.\<close>

definition written_row ::
  "string \<Rightarrow> string \<Rightarrow> json \<Rightarrow> team_state \<Rightarrow> team_row option \<Rightarrow> nat \<Rightarrow> team_row" where
  "written_row who name d st previous t = (case previous of
      None \<Rightarrow> \<lparr>t_name = name, t_revision = 1, t_state = st, t_doc = canon d, t_created_at = t,
        t_created_by = who, t_updated_at = t, t_updated_by = who\<rparr>
    | Some p \<Rightarrow> p\<lparr>t_revision := t_revision p + 1, t_state := st, t_doc := canon d, t_updated_at := t,
        t_updated_by := who\<rparr>)"

definition written_revision ::
  "string \<Rightarrow> string \<Rightarrow> json \<Rightarrow> team_state \<Rightarrow> string \<Rightarrow> team_summary \<Rightarrow> team_row option \<Rightarrow> nat \<Rightarrow> team_revision" where
  "written_revision who name d st why sm previous t =
     \<lparr>tr_name = name, tr_revision = next_number previous, tr_actor = who, tr_at = t, tr_reason = why,
      tr_state = st, tr_doc = canon d, tr_summary = sm\<rparr>"

lemma team_get_name: "team_get n w = Some r \<Longrightarrow> t_name r = n"
  by (auto simp: team_get_def dest: row_find_SomeD)

lemma team_get_frame: "teams w' = teams w \<Longrightarrow> team_get n w' = team_get n w"
  by (simp add: team_get_def)

lemma find_revision_frame: "team_revisions w' = team_revisions w \<Longrightarrow> find_revision n k w' = find_revision n k w"
  by (simp add: find_revision_def)

lemma put_teamD:
  assumes "put_team who name d st (team_get name w) t w = (Inr (), w')"
  shows "w' = w\<lparr>teams := teams w'\<rparr>"
    and "team_get k w' = (if k = name then Some (written_row who name d st (team_get name w) t) else team_get k w)"
    and "team_get name w = None \<Longrightarrow> map t_name (teams w') = map t_name (teams w) @ [name]"
    and "team_get name w \<noteq> None \<Longrightarrow> map t_name (teams w') = map t_name (teams w)"
proof -
  show "w' = w\<lparr>teams := teams w'\<rparr>"
    using assms by (auto simp: put_team_def Let_def insert_team_def update_team_def split: option.splits if_splits)
  show "team_get k w' = (if k = name then Some (written_row who name d st (team_get name w) t) else team_get k w)"
    using assms
    by (auto simp: put_team_def Let_def insert_team_def update_team_def written_row_def next_number_def team_get_def
        row_find_update row_find_append row_find_Cons split: option.splits if_splits)
  show "team_get name w = None \<Longrightarrow> map t_name (teams w') = map t_name (teams w) @ [name]"
    using assms by (auto simp: put_team_def Let_def insert_team_def split: if_splits)
  show "team_get name w \<noteq> None \<Longrightarrow> map t_name (teams w') = map t_name (teams w)"
    using assms by (auto simp: put_team_def Let_def update_team_def map_key_row_update)
qed

lemma write_teamD:
  assumes "write_team who name d st why sm (team_get name w) t w = (Inr r, w')"
  defines "row \<equiv> written_row who name d st (team_get name w) t"
  shows "finite_json d" and "r = row"
    and "w' = w\<lparr>teams := teams w', events := events w', team_revisions := team_revisions w'\<rparr>"
    and "team_get k w' = (if k = name then Some row else team_get k w)"
    and "team_get name w = None \<Longrightarrow> map t_name (teams w') = map t_name (teams w) @ [name]"
    and "team_get name w \<noteq> None \<Longrightarrow> map t_name (teams w') = map t_name (teams w)"
    and "team_revisions w' = team_revisions w @ [written_revision who name d st why sm (team_get name w) t]"
    and "find_revision name (next_number (team_get name w)) w = None"
    and "events w' = events (event None who (Ev_team (ts_action sm) name (next_number (team_get name w))) Accepted t w)"
proof -
  let ?w1 = "event None who (Ev_team (ts_action sm) name (next_number (team_get name w))) Accepted t w"
  have get1: "team_get k ?w1 = team_get k w" for k
    by (simp add: team_get_def frame_simps)
  have rev1: "find_revision k n ?w1 = find_revision k n w" for k n
    by (simp add: find_revision_def frame_simps)
  from assms(1) obtain w2 where fin: "finite_json d"
    and put: "put_team who name d st (team_get name ?w1) t ?w1 = (Inr (), w2)"
    and ins: "insert_revision (written_revision who name d st why sm (team_get name w) t) w2 = (Inr (), w')"
    and r: "team_get name w' = Some r"
    by (auto simp: write_team_def Let_def get1 written_revision_def split: if_splits prod.splits sum.splits option.splits)
  note p = put_teamD [OF put, unfolded get1]
  have w': "w' = w2\<lparr>team_revisions := team_revisions w2 @ [written_revision who name d st why sm (team_get name w) t]\<rparr>"
    and none: "find_revision name (next_number (team_get name w)) w2 = None"
    using ins by (auto simp: insert_revision_def written_revision_def split: if_splits)
  obtain T where w2: "w2 = ?w1\<lparr>teams := T\<rparr>" using p(1) by blast
  have t': "teams w' = teams w2" by (simp add: w')
  have get': "team_get k w' = team_get k w2" for k by (rule team_get_frame) (rule t')
  show "finite_json d" by (rule fin)
  show g: "team_get k w' = (if k = name then Some row else team_get k w)" for k
    by (simp add: get' p(2) row_def)
  show "r = row" using r g [of name] by simp
  show "team_get name w = None \<Longrightarrow> map t_name (teams w') = map t_name (teams w) @ [name]"
    using p(3) by (simp add: t' frame_simps)
  show "team_get name w \<noteq> None \<Longrightarrow> map t_name (teams w') = map t_name (teams w)"
    using p(4) by (simp add: t' frame_simps)
  have "team_revisions w2 = team_revisions w" by (simp add: w2 frame_simps)
  then show "team_revisions w' = team_revisions w @ [written_revision who name d st why sm (team_get name w) t]"
    and "find_revision name (next_number (team_get name w)) w = None"
    using none find_revision_frame [of w2 w] by (simp_all add: w')
  show "events w' = events ?w1" by (simp add: w' w2)
  show "w' = w\<lparr>teams := teams w', events := events w', team_revisions := team_revisions w'\<rparr>"
    by (simp add: w' w2 event_def)
qed

section \<open>Versions and the invariant of the team tables\<close>

definition team_versions :: "string \<Rightarrow> world \<Rightarrow> (json \<times> team_state) list" where
  "team_versions name w = map (\<lambda>r. (tr_doc r, tr_state r)) (team_history name w)"

definition announced :: "event_row list \<Rightarrow> team_revision \<Rightarrow> bool" where
  "announced es rv \<longleftrightarrow> (\<exists>ev \<in> set es. e_actor ev = tr_actor rv \<and> e_outcome ev = Accepted \<and>
     e_action ev = Ev_team (ts_action (tr_summary rv)) (tr_name rv) (tr_revision rv))"

definition team_ok :: "string \<Rightarrow> world \<Rightarrow> bool" where
  "team_ok n w = (case team_get n w of
      None \<Rightarrow> team_history n w = []
    | Some r \<Rightarrow> valid_name n \<and> clean (t_doc r) \<and> t_revision r \<noteq> 0 \<and>
        map tr_revision (team_history n w) = [1..<Suc (t_revision r)] \<and>
        last (team_versions n w) = (t_doc r, t_state r))"

definition teams_ok :: "world \<Rightarrow> bool" where
  "teams_ok w \<longleftrightarrow> distinct (map t_name (teams w)) \<and> (\<forall>n. team_ok n w) \<and>
     (\<forall>rv \<in> set (team_revisions w). clean (tr_doc rv) \<and> canon (tr_doc rv) = tr_doc rv \<and> announced (events w) rv)"

definition team_evolves :: "world \<Rightarrow> world \<Rightarrow> bool" where
  "team_evolves w w' \<longleftrightarrow> Sublist.prefix (team_revisions w) (team_revisions w') \<and>
     (\<forall>n r. team_get n w = Some r \<longrightarrow> (\<exists>r'. team_get n w' = Some r' \<and>
        (r' = r \<or> t_revision r < t_revision r')))"

lemma team_history_append:
  "team_revisions w' = team_revisions w @ [rv] \<Longrightarrow>
   team_history n w' = (if tr_name rv = n then team_history n w @ [rv] else team_history n w)"
  by (simp add: team_history_def)

lemma team_okD:
  assumes "team_ok n w" "team_get n w = Some r"
  shows "valid_name n" and "clean (t_doc r)" and "t_revision r \<noteq> 0"
    and "map tr_revision (team_history n w) = [1..<Suc (t_revision r)]"
    and "last (team_versions n w) = (t_doc r, t_state r)"
  using assms by (simp_all add: team_ok_def)

lemma team_get_mem: "team_get n w = None \<longleftrightarrow> n \<notin> set (map t_name (teams w))"
  by (auto simp: team_get_def row_find_None_iff)

lemma announced_append: "announced es rv \<Longrightarrow> announced (es @ es') rv"
  by (auto simp: announced_def)

lemma upt_Suc_snoc: "[1..<Suc (Suc n)] = [1..<Suc n] @ [Suc n]"
  by simp

lemma team_write_cases:
  assumes "team_write w w'"
  obtains name who d st why sm t where
    "write_team who name d st why sm (team_get name w) t w = (Inr (written_row who name d st (team_get name w) t), w')"
    "clean d" "valid_name name"
  using assms by (cases rule: team_write.cases) (metis write_teamD(2))

lemma team_write_ok:
  assumes "team_write w w'" and ok: "teams_ok w"
  shows "teams_ok w'"
proof -
  obtain name who d st why sm t where
    wr: "write_team who name d st why sm (team_get name w) t w = (Inr (written_row who name d st (team_get name w) t), w')"
    and cl: "clean d" and vn: "valid_name name"
    using assms(1) by (rule team_write_cases)
  let ?rv = "written_revision who name d st why sm (team_get name w) t"
  note D = write_teamD [OF wr]
  have hist: "team_history n w' = (if n = name then team_history n w @ [?rv] else team_history n w)" for n
    using team_history_append [OF D(7), of n] by (auto simp: written_revision_def)
  have "distinct (map t_name (teams w'))"
    using ok D(5) D(6) by (cases "team_get name w") (auto simp: teams_ok_def team_get_mem)
  moreover have "team_ok n w'" for n
  proof (cases "n = name")
    case False
    have "team_versions n w' = team_versions n w" using False by (simp add: team_versions_def hist)
    moreover have "team_get n w' = team_get n w" using D(4) [of n] False by simp
    moreover have "team_ok n w" using ok by (simp add: teams_ok_def)
    moreover have "team_history n w' = team_history n w" using False by (simp add: hist)
    ultimately show ?thesis by (cases "team_get n w") (simp_all add: team_ok_def)
  next
    case True
    have ok': "team_ok name w" using ok by (simp add: teams_ok_def)
    have revs: "map tr_revision (team_history name w') =
        [1..<Suc (t_revision (written_row who name d st (team_get name w) t))]"
    proof (cases "team_get name w")
      case None
      then have "team_history name w = []" using ok' by (simp add: team_ok_def)
      then show ?thesis by (simp add: hist None written_row_def written_revision_def next_number_def)
    next
      case (Some r)
      from team_okD(4) [OF ok' Some] show ?thesis
        by (simp add: hist Some written_row_def written_revision_def next_number_def)
    qed
    have "last (team_versions name w') = (canon d, st)"
      by (simp add: team_versions_def hist written_revision_def)
    moreover have "t_doc (written_row who name d st (team_get name w) t) = canon d"
      "t_state (written_row who name d st (team_get name w) t) = st"
      "t_revision (written_row who name d st (team_get name w) t) \<noteq> 0"
      by (simp_all add: written_row_def split: option.splits)
    ultimately show ?thesis
      using True D(4) [of name] revs vn clean_canon [OF cl] by (simp add: team_ok_def)
  qed
  moreover have "clean (tr_doc rv) \<and> canon (tr_doc rv) = tr_doc rv \<and> announced (events w') rv" if "rv \<in> set (team_revisions w')" for rv
  proof (cases "rv = ?rv")
    case True
    then show ?thesis
      using clean_canon [OF cl] D(9) by (auto simp: announced_def written_revision_def event_def)
  next
    case False
    with that D(7) have "rv \<in> set (team_revisions w)" by simp
    then have "clean (tr_doc rv) \<and> canon (tr_doc rv) = tr_doc rv \<and> announced (events w) rv" using ok by (simp add: teams_ok_def)
    then show ?thesis using announced_append D(9) by (simp add: event_def)
  qed
  ultimately show ?thesis by (simp add: teams_ok_def)
qed

lemma team_write_evolves:
  assumes "team_write w w'"
  shows "team_evolves w w'"
proof -
  obtain name who d st why sm t where
    wr: "write_team who name d st why sm (team_get name w) t w = (Inr (written_row who name d st (team_get name w) t), w')"
    using assms by (rule team_write_cases)
  have "\<exists>r'. team_get n w' = Some r' \<and> (r' = r \<or> t_revision r < t_revision r')" if "team_get n w = Some r" for n r
    using that write_teamD(4) [OF wr, of n] by (auto simp: written_row_def)
  then show ?thesis using write_teamD(7) [OF wr] by (auto simp: team_evolves_def)
qed

lemma team_evolves_refl [simp]: "team_evolves w w"
  by (auto simp: team_evolves_def)

lemma team_evolvesD:
  "team_evolves w w' \<Longrightarrow> team_get n w = Some r \<Longrightarrow>
   \<exists>r'. team_get n w' = Some r' \<and> (r' = r \<or> t_revision r < t_revision r')"
  unfolding team_evolves_def by blast

lemma team_evolves_trans:
  assumes "team_evolves u v" "team_evolves v w"
  shows "team_evolves u w"
proof -
  have "\<exists>r'. team_get n w = Some r' \<and> (r' = r \<or> t_revision r < t_revision r')" if h: "team_get n u = Some r" for n r
  proof -
    obtain r1 where r1: "team_get n v = Some r1" "r1 = r \<or> t_revision r < t_revision r1"
      using team_evolvesD [OF assms(1) h] by blast
    obtain r2 where "team_get n w = Some r2" "r2 = r1 \<or> t_revision r1 < t_revision r2"
      using team_evolvesD [OF assms(2) r1(1)] by blast
    then show ?thesis using r1(2) by auto
  qed
  then show ?thesis using assms by (auto simp: team_evolves_def)
qed

lemma team_write_frame:
  assumes "team_write w w'"
  shows "cfg w' = cfg w" and "plans w' = plans w" and "operations w' = operations w"
    and "resources w' = resources w" and "apps w' = apps w"
    and "\<exists>who act t. events w' = events (event None who act Accepted t w)"
proof -
  obtain name who d st why sm t where
    wr: "write_team who name d st why sm (team_get name w) t w = (Inr (written_row who name d st (team_get name w) t), w')"
    using assms by (rule team_write_cases)
  note eq = write_teamD(3) [OF wr]
  show "cfg w' = cfg w" "plans w' = plans w" "operations w' = operations w" "resources w' = resources w"
    "apps w' = apps w" by (subst eq, simp)+
  show "\<exists>who act t. events w' = events (event None who act Accepted t w)"
    using write_teamD(9) [OF wr] by blast
qed

lemma teams_ok_frame:
  assumes "teams_ok w" "teams w' = teams w" "team_revisions w' = team_revisions w"
    "\<exists>new. events w' = events w @ new"
  shows "teams_ok w'"
proof -
  have "team_get n w' = team_get n w" "team_history n w' = team_history n w" for n
    by (simp_all add: team_get_def team_history_def assms)
  then have "team_ok n w' = team_ok n w" for n
    by (cases "team_get n w") (simp_all add: team_ok_def team_versions_def)
  moreover have "announced (events w') rv" if "announced (events w) rv" for rv
    using announced_append [OF that] assms(4) by auto
  ultimately show ?thesis using assms by (auto simp: teams_ok_def)
qed

lemma team_evolves_frame:
  "teams w' = teams w \<Longrightarrow> team_revisions w' = team_revisions w \<Longrightarrow> team_evolves w w'"
  by (simp add: team_evolves_def team_get_def)

lemma teams_ok_empty: "teams_ok (empty_world c)"
  by (simp add: teams_ok_def team_ok_def empty_world_def team_get_def team_history_def)

section \<open>The operations\<close>

lemma after_check_cases:
  "after_check m f w = (case m of Inl e \<Rightarrow> (Inl e, w) | Inr v \<Rightarrow> f v w)"
  by (simp add: after_check_def)

lemma after_check_InrD: "after_check m f w = (Inr v, w') \<Longrightarrow> \<exists>x. m = Inr x \<and> f x w = (Inr v, w')"
  by (auto simp: after_check_def split: sum.splits)

lemma plans_after_check: "(\<And>x. plans (snd (f x w)) = plans w) \<Longrightarrow> plans (snd (after_check m f w)) = plans w"
  by (simp add: after_check_def split: sum.splits)

lemma plans_write_team: "plans (snd (write_team who name d st why sm previous t w)) = plans w"
proof -
  have put: "plans (snd (put_team who name d st previous t v)) = plans v" for v
    by (simp add: put_team_def Let_def insert_team_def update_team_def split: option.splits)
  have ins: "plans (snd (insert_revision rv v)) = plans v" for rv v
    by (simp add: insert_revision_def)
  have fstD: "plans v' = plans v" if "g v = (x, v')" "plans (snd (g v)) = plans v" for x v' v and g :: "unit tx"
    using that by simp
  show ?thesis
    by (auto simp: write_team_def Let_def frame_simps split: prod.splits sum.splits option.splits
        dest!: fstD [OF _ put] fstD [OF _ ins])
qed

lemma write_doc_eq:
  "write_doc who name d st why act stored rv t w =
    (case write_team who name d st why \<lparr>ts_action = act, ts_added = df_added (diff (map_option t_doc stored) d),
         ts_removed = df_removed (diff (map_option t_doc stored) d),
         ts_changed = df_changed (diff (map_option t_doc stored) d)\<rparr> stored t w of
       (Inl e, w') \<Rightarrow> (Inl e, w')
     | (Inr r, w') \<Rightarrow> (Inr (team_view_of (item_of_row r) True (map_option fst rv) (map_option snd rv)), w'))"
  by (simp add: write_doc_def Let_def)

lemma plans_write_doc: "plans (snd (write_doc who name d st why act stored rv t w)) = plans w"
  using plans_write_team by (auto simp: write_doc_eq split: prod.splits sum.splits) (metis snd_conv)+

lemma write_docD:
  assumes "write_doc who name d st why act (team_get name w) rv t w = (Inr v, w')"
  obtains sm where
    "write_team who name d st why sm (team_get name w) t w = (Inr (written_row who name d st (team_get name w) t), w')"
    "ts_action sm = act" "tv_item v = item_of_row (written_row who name d st (team_get name w) t)"
    "tv_findings v = map_option fst rv"
proof -
  let ?sm = "\<lparr>ts_action = act, ts_added = df_added (diff (map_option t_doc (team_get name w)) d),
     ts_removed = df_removed (diff (map_option t_doc (team_get name w)) d),
     ts_changed = df_changed (diff (map_option t_doc (team_get name w)) d)\<rparr>"
  obtain r where wr: "write_team who name d st why ?sm (team_get name w) t w = (Inr r, w')"
    and v: "v = team_view_of (item_of_row r) True (map_option fst rv) (map_option snd rv)"
    using assms by (auto simp: write_doc_eq split: prod.splits sum.splits)
  have "r = written_row who name d st (team_get name w) t" by (rule write_teamD(2) [OF wr])
  with wr v that show ?thesis by (simp add: team_view_of_def)
qed

lemma write_doc_step:
  "write_doc who name d st why act (team_get name w) rv t w = (Inr v, w') \<Longrightarrow> clean d \<Longrightarrow> valid_name name \<Longrightarrow>
   team_write w w'"
  by (erule write_docD) (rule team_write)

lemma gate_findingsD:
  "gate_findings fs ack = Inr u \<Longrightarrow> has_level L_error fs = [] \<and> set (warning_codes fs) \<subseteq> set ack"
  by (auto simp: gate_findings_def filter_empty_conv split: if_splits)

lemma gate_errors_onlyD: "gate_errors_only fs = Inr u \<Longrightarrow> has_level L_error fs = []"
proof -
  have "has_level L_error (filter (\<lambda>f. f_level f \<noteq> L_warning) fs) = has_level L_error fs"
    by (auto simp: has_level_def intro: filter_cong)
  then show "gate_errors_only fs = Inr u \<Longrightarrow> has_level L_error fs = []"
    using gate_findingsD [of "filter (\<lambda>f. f_level f \<noteq> L_warning) fs"] by (simp add: gate_errors_only_def)
qed

lemma reviewD:
  assumes "review x e name d stored others w = Inr rv" "has_level L_error (fst rv) = []"
  shows "clean d" and "valid_name name"
  using assms check_team_clean by (auto simp: review_def Let_def sbind_Inr_iff)

lemma stored_teamD:
  "stored_team name h w = Inr r \<Longrightarrow> team_get name w = Some r \<and> revision_number h = Inr (Some (t_revision r))"
  by (auto simp: stored_team_def sbind_Inr_iff split: option.splits if_splits)

lemma reviewed_changeD:
  assumes "reviewed_change x e name d ack stored w = Inr rv"
  shows "review x e name d (Some stored) None w = Inr rv" and "has_level L_error (fst rv) = []"
    and "set (warning_codes (fst rv)) \<subseteq> set ack" and "\<not> py_same (t_doc stored) d"
    and "clean d" and "valid_name name"
proof -
  show r: "review x e name d (Some stored) None w = Inr rv" and "\<not> py_same (t_doc stored) d"
    using assms by (auto simp: reviewed_change_def sbind_Inr_iff require_team_change_def split: if_splits)
  have "gate_findings (fst rv) ack = Inr ()"
    using assms by (auto simp: reviewed_change_def sbind_Inr_iff)
  then show l: "has_level L_error (fst rv) = []" and "set (warning_codes (fst rv)) \<subseteq> set ack"
    by (blast dest: gate_findingsD)+
  show "clean d" and "valid_name name" by (rule reviewD [OF r l])+
qed

lemma create_txD:
  assumes "create_tx x e who b t w = (Inr v, w')"
  obtains rv where "team_get (cr_name b) w = None" "review x e (cr_name b) (cr_team b) None None w = Inr rv"
    "has_level L_error (fst rv) = []" "clean (cr_team b)" "valid_name (cr_name b)"
    "write_doc who (cr_name b) (cr_team b) Active (cr_reason b) ''create'' (team_get (cr_name b) w) (Some rv) t w
       = (Inr v, w')"
  using assms reviewD gate_errors_onlyD
  by (fastforce simp: create_tx_def sbind_Inr_iff dest!: after_check_InrD split: if_splits)

lemma replace_txD:
  assumes "replace_tx x e who name b h t w = (Inr v, w')"
  obtains stored rv where "team_get name w = Some stored" "revision_number h = Inr (Some (t_revision stored))"
    "reviewed_change x e name (rp_team b) (rp_acknowledge b) stored w = Inr rv"
    "write_doc who name (rp_team b) (t_state stored) (rp_reason b) ''update'' (team_get name w) (Some rv) t w = (Inr v, w')"
  using assms stored_teamD by (fastforce simp: replace_tx_def sbind_Inr_iff dest!: after_check_InrD)

lemma revert_txD:
  assumes "revert_tx x e who name b h t w = (Inr v, w')"
  obtains stored target rv where "team_get name w = Some stored" "revision_number h = Inr (Some (t_revision stored))"
    "find_revision name (rv_revision b) w = Some target"
    "reviewed_change x e name (tr_doc target) (rv_acknowledge b) stored w = Inr rv"
    "write_doc who name (tr_doc target) (t_state stored) (rv_reason b) ''revert'' (team_get name w) (Some rv) t w = (Inr v, w')"
proof -
  obtain stored target rv where "stored_team name h w = Inr stored"
    "find_revision name (rv_revision b) w = Some target"
    "reviewed_change x e name (tr_doc target) (rv_acknowledge b) stored w = Inr rv"
    "write_doc who name (tr_doc target) (t_state stored) (rv_reason b) ''revert'' (Some stored) (Some rv) t w = (Inr v, w')"
    using assms by (auto simp: revert_tx_def sbind_Inr_iff dest!: after_check_InrD split: option.splits)
  then show ?thesis using that stored_teamD by metis
qed

lemma archive_txD:
  assumes "archive_tx who name b h t w = (Inr v, w')"
  obtains stored where "team_get name w = Some stored" "revision_number h = Inr (Some (t_revision stored))"
    "t_state stored \<noteq> Archived" "team_resources name w = [] \<or> ar_force b"
    "write_doc who name (t_doc stored) Archived (ar_reason b) ''archive'' (team_get name w) None t w = (Inr v, w')"
proof -
  obtain stored where "stored_team name h w = Inr stored" "t_state stored \<noteq> Archived"
    "team_resources name w = [] \<or> ar_force b"
    "write_doc who name (t_doc stored) Archived (ar_reason b) ''archive'' (Some stored) None t w = (Inr v, w')"
    using assms by (auto simp: archive_tx_def sbind_Inr_iff dest!: after_check_InrD split: if_splits)
  then show ?thesis using that stored_teamD by metis
qed

lemma unarchive_txD:
  assumes "unarchive_tx x e who name why h t w = (Inr v, w')"
  obtains stored rv where "team_get name w = Some stored" "revision_number h = Inr (Some (t_revision stored))"
    "t_state stored = Archived" "review x e name (t_doc stored) (Some stored) None w = Inr rv"
    "has_level L_error (fst rv) = []"
    "write_doc who name (t_doc stored) Active why ''unarchive'' (team_get name w) (Some rv) t w = (Inr v, w')"
proof -
  obtain stored rv where g: "sbind (stored_team name h w) (\<lambda>stored.
        if t_state stored \<noteq> Archived then Inl (OperationError 409 Team_not_archived None)
        else sbind (review x e name (t_doc stored) (Some stored) None w) (\<lambda>rv.
          sbind (gate_errors_only (fst rv)) (\<lambda>_. Inr (stored, rv)))) = Inr (stored, rv)"
    and wr: "write_doc who name (t_doc stored) Active why ''unarchive'' (Some stored) (Some rv) t w = (Inr v, w')"
    using after_check_InrD [OF assms [unfolded unarchive_tx_def]] by auto
  from g have st: "stored_team name h w = Inr stored" and "t_state stored = Archived"
    and "review x e name (t_doc stored) (Some stored) None w = Inr rv" and "has_level L_error (fst rv) = []"
    by (auto elim!: sbind_InrE if_InlE dest!: gate_errors_onlyD)
  with wr that stored_teamD [OF st] show ?thesis by simp
qed

section \<open>Runs of writes\<close>

abbreviation team_writes :: "world \<Rightarrow> world \<Rightarrow> bool" where
  "team_writes \<equiv> steps team_write"

lemma connect_writes:
  assumes "\<And>v w'. body w = (Inr v, w') \<Longrightarrow> team_writes w w'" and "plans (snd (body w)) = plans w"
  shows "team_writes w (snd (connect body w))"
proof (cases "body w")
  case (Pair r w')
  show ?thesis
  proof (cases r)
    case (Inl e)
    with Pair assms(2) show ?thesis by (auto simp: connect_def intro: steps_refl)
  next
    case (Inr v)
    with Pair assms(1) show ?thesis by (auto simp: connect_def intro: steps_refl)
  qed
qed

lemma after_check_writes:
  "(\<And>x. m = Inr x \<Longrightarrow> team_writes w (snd (f x w))) \<Longrightarrow> team_writes w (snd (after_check m f w))"
  by (auto simp: after_check_def intro: steps_refl split: sum.splits)

lemma plans_txs:
  "plans (snd (create_tx x e who b t w)) = plans w"
  "plans (snd (replace_tx x e who name rb h t w)) = plans w"
  "plans (snd (revert_tx x e who name vb h t w)) = plans w"
  "plans (snd (archive_tx who name ab h t w)) = plans w"
  "plans (snd (unarchive_tx x e who name why h t w)) = plans w"
  unfolding create_tx_def replace_tx_def revert_tx_def archive_tx_def unarchive_tx_def
  by (auto intro!: plans_after_check simp: plans_write_doc)

lemma create_writes: "team_writes w (snd (create_team x e who b t w))"
  unfolding create_team_def
  by (intro after_check_writes connect_writes plans_txs)
    (blast elim: create_txD intro: steps_single write_doc_step)

lemma in_revision_writes:
  "(\<And>v w'. body w = (Inr v, w') \<Longrightarrow> team_write w w') \<Longrightarrow> plans (snd (body w)) = plans w \<Longrightarrow>
   team_writes w (snd (in_revision h body w))"
  unfolding in_revision_def by (intro after_check_writes connect_writes) (auto intro: steps_single)

lemma replace_writes: "team_writes w (snd (replace_team x e who name b h t w))"
  unfolding replace_team_def
  by (rule in_revision_writes [OF _ plans_txs(2)], elim replace_txD) (blast intro: write_doc_step dest: reviewed_changeD(5,6))

lemma revert_writes: "team_writes w (snd (revert_team x e who name b h t w))"
  unfolding revert_team_def
  by (rule in_revision_writes [OF _ plans_txs(3)], elim revert_txD) (blast intro: write_doc_step dest: reviewed_changeD(5,6))

lemma teams_ok_row: "teams_ok w \<Longrightarrow> team_get n w = Some r \<Longrightarrow> clean (t_doc r) \<and> valid_name n"
  unfolding teams_ok_def by (blast dest: team_okD(1,2))

lemma archive_writes: "teams_ok w \<Longrightarrow> team_writes w (snd (archive_team who name b h t w))"
  unfolding archive_team_def
  by (rule in_revision_writes [OF _ plans_txs(4)], elim archive_txD) (blast intro: write_doc_step dest: teams_ok_row)

lemma unarchive_writes: "team_writes w (snd (unarchive_team x e who name why h t w))"
  unfolding unarchive_team_def
  by (rule in_revision_writes [OF _ plans_txs(5)], elim unarchive_txD) (blast intro: write_doc_step dest: reviewD)

text \<open>The plan of an import names each team once, with the row it was made for.\<close>

definition entry_ok :: "world \<Rightarrow> import_entry \<Rightarrow> bool" where
  "entry_ok w en \<longleftrightarrow> ie_stored en = team_get (ie_name en) w \<and>
     (ie_changes en \<longrightarrow> clean (ie_doc en) \<and> valid_name (ie_name en))"

definition entry_state :: "import_entry \<Rightarrow> team_state" where
  "entry_state en = (case ie_stored en of None \<Rightarrow> Active | Some r \<Rightarrow> t_state r)"

definition entry_row :: "string \<Rightarrow> nat \<Rightarrow> import_entry \<Rightarrow> team_row" where
  "entry_row who t en = written_row who (ie_name en) (ie_doc en) (entry_state en) (ie_stored en) t"

lemma write_plan_skip:
  "\<not> ie_changes en \<Longrightarrow> write_plan who why (en # plan) t w = (Inr out, w') \<Longrightarrow>
   \<exists>rest. write_plan who why plan t w = (Inr rest, w') \<and> out = en # rest"
  by (auto split: prod.splits sum.splits)

lemma write_plan_change:
  assumes "ie_changes en" "write_plan who why (en # plan) t w = (Inr out, w')"
  obtains v w1 rest where
    "write_doc who (ie_name en) (ie_doc en) (entry_state en) why ''import'' (ie_stored en) None t w = (Inr v, w1)"
    "write_plan who why plan t w1 = (Inr rest, w')"
    "out = en\<lparr>ie_revision := Some (ti_revision (tv_item v))\<rparr> # rest"
  using assms by (auto simp: entry_state_def split: prod.splits sum.splits)

lemma plans_write_plan: "plans (snd (write_plan who why plan t w)) = plans w"
proof (induction plan arbitrary: w)
  case (Cons en plan)
  have d: "plans w' = plans v" if "write_doc who (ie_name en) (ie_doc en) st why ''import'' (ie_stored en) None t v = (r, w')"
    for st v r w' using plans_write_doc [of who "ie_name en" "ie_doc en" st why "''import''" "ie_stored en" None t v] that by simp
  have p: "plans w' = plans v" if "write_plan who why plan t v = (r, w')" for v r w'
    using Cons [of v] that by simp
  show ?case by (auto split: prod.splits sum.splits dest!: d p)
qed simp

lemma write_plan_result:
  assumes "write_plan who why plan t w = (Inr out, w')" "distinct (map ie_name plan)" "list_all (entry_ok w) plan"
  shows "team_writes w w'"
    and "team_get n w' = (case find (\<lambda>en. ie_name en = n \<and> ie_changes en) plan of
       None \<Rightarrow> team_get n w | Some en \<Rightarrow> Some (entry_row who t en))"
    and "map ie_name out = map ie_name plan" and "map ie_changes out = map ie_changes plan"
  using assms
proof (induction plan arbitrary: w out)
  case Nil
  { case 1 then show ?case by (auto intro: steps_refl) next
    case 2 then show ?case by simp next
    case 3 then show ?case by simp next
    case 4 then show ?case by simp }
next
  case (Cons en plan)
  have main: "team_writes w w' \<and> team_get n w' = (case find (\<lambda>en. ie_name en = n \<and> ie_changes en) (en # plan) of
       None \<Rightarrow> team_get n w | Some en \<Rightarrow> Some (entry_row who t en)) \<and>
       map ie_name out = map ie_name (en # plan) \<and> map ie_changes out = map ie_changes (en # plan)"
    if wp: "write_plan who why (en # plan) t w = (Inr out, w')" and dist: "distinct (map ie_name (en # plan))"
      and ok: "list_all (entry_ok w) (en # plan)" for w out
  proof (cases "ie_changes en")
    case False
    then obtain rest where r: "write_plan who why plan t w = (Inr rest, w')" "out = en # rest"
      using write_plan_skip wp by blast
    have "distinct (map ie_name plan)" "list_all (entry_ok w) plan" using dist ok by auto
    note IH = Cons.IH(1) [OF r(1) this] Cons.IH(2) [OF r(1) this] Cons.IH(3) [OF r(1) this] Cons.IH(4) [OF r(1) this]
    show ?thesis using IH False r(2) by simp
  next
    case True
    have ne: "ie_name x \<noteq> ie_name en" if "x \<in> set plan" for x
      using dist imageI [OF that, of ie_name] by auto
    have en: "ie_stored en = team_get (ie_name en) w" "clean (ie_doc en)" "valid_name (ie_name en)"
      using ok True by (auto simp: entry_ok_def)
    obtain v w1 rest where wd:
        "write_doc who (ie_name en) (ie_doc en) (entry_state en) why ''import'' (team_get (ie_name en) w) None t w = (Inr v, w1)"
      and r: "write_plan who why plan t w1 = (Inr rest, w')"
      and out: "out = en\<lparr>ie_revision := Some (ti_revision (tv_item v))\<rparr> # rest"
      using write_plan_change [OF True wp] en(1) by metis
    obtain sm where wt: "write_team who (ie_name en) (ie_doc en) (entry_state en) why sm (team_get (ie_name en) w) t w =
        (Inr (written_row who (ie_name en) (ie_doc en) (entry_state en) (team_get (ie_name en) w) t), w1)"
      by (rule write_docD [OF wd])
    have get1: "team_get k w1 = (if k = ie_name en then Some (entry_row who t en) else team_get k w)" for k
      using write_teamD(4) [OF wt, of k] by (simp add: entry_row_def en(1))
    have step: "team_write w w1" by (rule team_write [OF wt en(2,3)])
    have "distinct (map ie_name plan)" using dist by simp
    moreover have "list_all (entry_ok w1) plan"
      using ok ne by (auto simp: list_all_iff entry_ok_def get1)
    ultimately have IH: "team_writes w1 w'" "team_get n w' = (case find (\<lambda>en. ie_name en = n \<and> ie_changes en) plan of
       None \<Rightarrow> team_get n w1 | Some en \<Rightarrow> Some (entry_row who t en))"
      "map ie_name rest = map ie_name plan" "map ie_changes rest = map ie_changes plan"
      using Cons.IH r by blast+
    have none: "find (\<lambda>e. ie_name e = ie_name en \<and> ie_changes e) plan = None"
      using ne by (auto simp: find_None_iff)
    have "team_writes w w'" by (rule steps_trans [OF IH(1) steps_single]) (rule step)
    moreover have "team_get n w' = (case find (\<lambda>en. ie_name en = n \<and> ie_changes en) (en # plan) of
       None \<Rightarrow> team_get n w | Some en \<Rightarrow> Some (entry_row who t en))"
      using IH(2) none True by (cases "n = ie_name en") (auto simp: get1 split: option.splits)
    moreover have "ie_changes (en\<lparr>ie_revision := u\<rparr>) = ie_changes en" for u by (simp add: ie_changes_def)
    ultimately show ?thesis using IH(3,4) out by simp
  qed
  { case 1 then show ?case using main by blast next
    case 2 then show ?case using main by blast next
    case 3 then show ?case using main by blast next
    case 4 then show ?case using main by blast }
qed

text \<open>The plan itself.\<close>

lemma smap_map: "smap f xs = Inr ys \<Longrightarrow> (\<And>x y. f x = Inr y \<Longrightarrow> g y = h x) \<Longrightarrow> map g ys = map h xs"
  by (induction xs arbitrary: ys) (auto simp: sbind_Inr_iff)

lemma smap_list_all: "smap f xs = Inr ys \<Longrightarrow> (\<And>x y. f x = Inr y \<Longrightarrow> P y) \<Longrightarrow> list_all P ys"
  by (induction xs arbitrary: ys) (auto simp: sbind_Inr_iff)

lemma plan_entryD:
  assumes "plan_entry x e final w kv = Inr en"
  shows "ie_name en = fst kv" and "ie_doc en = snd kv" and "ie_stored en = team_get (fst kv) w"
    and "ie_changes en \<longleftrightarrow> (case team_get (fst kv) w of None \<Rightarrow> True | Some r \<Rightarrow> \<not> py_same (t_doc r) (snd kv))"
    and "has_level L_error (ie_findings en) = [] \<Longrightarrow> clean (ie_doc en) \<and> valid_name (ie_name en)"
proof -
  obtain fs imp where r: "review x e (fst kv) (snd kv) (team_get (fst kv) w) (Some final) w = Inr (fs, imp)"
    and en: "ie_name en = fst kv" "ie_doc en = snd kv" "ie_stored en = team_get (fst kv) w" "ie_findings en = fs"
    "ie_action en = (case team_get (fst kv) w of None \<Rightarrow> ''create''
         | Some r \<Rightarrow> if py_same (t_doc r) (snd kv) then ''unchanged'' else ''update'')"
    using assms by (auto simp: plan_entry_def Let_def sbind_Inr_iff)
  show "ie_name en = fst kv" "ie_doc en = snd kv" "ie_stored en = team_get (fst kv) w" by (rule en)+
  show "ie_changes en \<longleftrightarrow> (case team_get (fst kv) w of None \<Rightarrow> True | Some r \<Rightarrow> \<not> py_same (t_doc r) (snd kv))"
    using en(5) by (simp add: ie_changes_def split: option.splits)
  show "has_level L_error (ie_findings en) = [] \<Longrightarrow> clean (ie_doc en) \<and> valid_name (ie_name en)"
    using reviewD [OF r] en by simp
qed

lemma import_gateD:
  assumes "import_gate plan ffs b = Inr u"
  shows "list_all (\<lambda>en. ie_changes en \<longrightarrow> has_level L_error (ie_findings en) = []) plan"
    and "has_level L_error ffs = []" and "check_expected plan (im_expected b) = Inr ()"
    and "set (warning_codes (concat (map ie_findings (filter ie_changes plan)) @ ffs)) \<subseteq> set (im_acknowledge b)"
  using assms
  by (auto simp: import_gate_def Let_def sbind_Inr_iff list_all_iff list_ex_iff filter_empty_conv split: if_splits)

lemma import_txD:
  assumes "import_tx x e who b units ffs t w = (Inr rep, w')" and dist: "distinct (map fst units)"
  obtains plan out where "plan_import x e units w = Inr plan" "import_gate plan ffs b = Inr ()"
    "distinct (map ie_name plan)" "list_all (entry_ok w) plan" "map ie_name plan = map fst (by_name units)"
    "write_plan who (im_reason b) plan t w = (Inr out, w')"
    "rep = import_report_of out ffs (list_ex ie_changes out) True"
proof -
  obtain plan where g: "sbind (plan_import x e units w) (\<lambda>plan. sbind (import_gate plan ffs b) (\<lambda>_. Inr plan)) = Inr plan"
    and wr: "(case write_plan who (im_reason b) plan t w of
         (Inl err, w') \<Rightarrow> (Inl err, w')
       | (Inr plan', w') \<Rightarrow> (Inr (import_report_of plan' ffs (list_ex ie_changes plan') True), w')) = (Inr rep, w')"
    using after_check_InrD [OF assms(1) [unfolded import_tx_def]] by blast
  from g have p: "plan_import x e units w = Inr plan" and gate: "import_gate plan ffs b = Inr ()"
    by (auto simp: sbind_Inr_iff)
  note sm = p [unfolded plan_import_def]
  have names: "map ie_name plan = map fst (by_name units)"
    by (rule smap_map [OF sm]) (rule plan_entryD(1))
  have "distinct (map fst (by_name units))"
    using dist by (simp add: by_name_def distinct_map inj_on_def)
  then have d: "distinct (map ie_name plan)" by (simp only: names)
  have "list_all (\<lambda>en. ie_stored en = team_get (ie_name en) w \<and>
      (has_level L_error (ie_findings en) = [] \<longrightarrow> clean (ie_doc en) \<and> valid_name (ie_name en))) plan"
    by (rule smap_list_all [OF sm]) (use plan_entryD in metis)
  then have "list_all (entry_ok w) plan"
    using import_gateD(1) [OF gate] by (auto simp: list_all_iff entry_ok_def)
  moreover obtain out where "write_plan who (im_reason b) plan t w = (Inr out, w')"
    "rep = import_report_of out ffs (list_ex ie_changes out) True"
    using wr by (auto split: prod.splits sum.splits)
  ultimately show ?thesis using that p gate d names by blast
qed

lemma import_units_distinct: "distinct (map fst (fst parsed)) \<Longrightarrow> distinct (map fst (fst (import_units parsed)))"
  by (auto simp: import_units_def distinct_map inj_on_def)

lemma plans_import_tx: "plans (snd (import_tx x e who b units ffs t w)) = plans w"
proof -
  have p: "plans w' = plans v" if "write_plan who (im_reason b) plan t v = (r, w')" for plan v r w'
    using plans_write_plan [of who "im_reason b" plan t v] that by simp
  show ?thesis
    unfolding import_tx_def
    by (rule plans_after_check) (auto split: prod.splits sum.splits dest!: p)
qed

lemma import_writes:
  assumes "distinct (map fst (fst (parse_mapping (ce_yaml e (im_yaml b)))))"
  shows "team_writes w (snd (import_teams x e who b t w))"
proof -
  obtain units ffs where u: "import_units (parse_mapping (ce_yaml e (im_yaml b))) = (units, ffs)"
    by (cases "import_units (parse_mapping (ce_yaml e (im_yaml b)))")
  have dist: "distinct (map fst units)" using import_units_distinct [OF assms] u by simp
  have "team_writes w (snd (connect (import_tx x e who b units ffs t) w))"
    by (rule connect_writes) (use dist in \<open>auto intro: write_plan_result(1) simp: plans_import_tx elim: import_txD\<close>)
  moreover have "team_writes w (snd (connect (\<lambda>w. (g w, w)) w))" for g :: "world \<Rightarrow> err + import_report"
    by (auto simp: connect_def intro: steps_refl split: sum.splits)
  ultimately show ?thesis
    by (auto simp: import_teams_def u after_check_def intro: steps_refl split: sum.splits)
qed

lemma team_writes_frame: "team_writes w w' \<Longrightarrow> apps w' = apps w"
  by (induction rule: steps.induct) (auto dest: team_write_frame)

lemmas team_ops_writes = create_writes replace_writes revert_writes archive_writes unarchive_writes import_writes
lemmas team_ops_frame = team_ops_writes [THEN team_writes_frame]

end
