(* ===== verification/Invariants.thy ===== *)
theory Invariants
  imports Lifecycle TeamSteps
begin

text \<open>
  What every write of the ledger keeps. \<open>micro\<close> is the alphabet of single writes with the
  obligations the code discharges at each (an operation's state only moves forward along
  \<open>next_state\<close>, an insert passes the table's constraints, an apply is queued only with its plan
  digest and its accepted event in place; with \<open>q = False\<close> no write moves an \<open>Uncertain\<close> row); every transaction is a run of such writes, so one
  proof per write gives the invariant \<open>wf\<close> and the history relation \<open>evolves\<close> for all of them.
\<close>

section \<open>The state machine of an operation\<close>

fun next_states :: "state \<Rightarrow> state list" where
  "next_states Queued = [Planning, Failed, Uncertain]"
| "next_states Planning = [Planned, Succeeded, Failed, Uncertain]"
| "next_states Planned = [Apply_queued, Failed]"
| "next_states Apply_queued = [Applying, Failed, Uncertain]"
| "next_states Applying = [Succeeded, Failed, Uncertain]"
| "next_states Uncertain = [Succeeded, Failed]"
| "next_states _ = []"

definition next_state :: "state \<Rightarrow> state \<Rightarrow> bool" where
  "next_state a b \<longleftrightarrow> b \<in> set (next_states a)"

fun rank :: "state \<Rightarrow> nat" where
  "rank Queued = 0" | "rank Planning = 1" | "rank Planned = 2" | "rank Apply_queued = 3"
| "rank Applying = 4" | "rank Uncertain = 5" | "rank _ = 6"

lemma next_state_rank: "next_state a b \<Longrightarrow> rank a < rank b"
  by (cases a) (auto simp: next_state_def)

lemma next_state_busy: "next_state a b \<Longrightarrow> busy_state a"
  by (cases a) (auto simp: next_state_def busy_state_def)

lemma next_states_proper: "next_state a b \<Longrightarrow> b \<notin> {Ready, Destroyed, Queued}"
  by (cases a) (auto simp: next_state_def)

section \<open>Well-formed ledgers\<close>

definition row_ok :: "op_row \<Rightarrow> bool" where
  "row_ok r \<longleftrightarrow> d_id (r_body r) = r_id r \<and> d_resource_id (r_body r) = r_resource_id r \<and>
     d_state (r_body r) = Some (r_state r) \<and> r_state r \<notin> {Ready, Destroyed} \<and>
     (r_state r \<in> {Apply_queued, Applying} \<longrightarrow> d_plan_digest (r_body r) \<noteq> None)"

definition busy_rows :: "op_row list \<Rightarrow> op_row list" where
  "busy_rows rows = filter (\<lambda>r. busy_state (r_state r)) rows"

definition ops_ok :: "op_row list \<Rightarrow> bool" where
  "ops_ok rows \<longleftrightarrow> distinct (map r_id rows) \<and>
     distinct (map (\<lambda>r. (r_actor r, r_request_key r)) rows) \<and>
     distinct (map r_resource_id (busy_rows rows)) \<and> (\<forall>r \<in> set rows. row_ok r)"

definition res_ok :: "(string \<times> doc) list \<Rightarrow> bool" where
  "res_ok rs \<longleftrightarrow> distinct (map fst rs) \<and> (\<forall>r \<in> set rs. d_id (snd r) = fst r)"

definition executed :: "string \<Rightarrow> event_row list \<Rightarrow> bool" where
  "executed i es \<longleftrightarrow>
     (\<exists>e \<in> set es. e_operation_id e = Some i \<and> e_action e = Ev_execute \<and> e_outcome e = Accepted)"

definition exec_ok :: "world \<Rightarrow> bool" where
  "exec_ok w \<longleftrightarrow>
     (\<forall>r \<in> set (operations w). r_state r \<in> {Apply_queued, Applying} \<longrightarrow> executed (r_id r) (events w))"

definition seq_ok :: "event_row list \<Rightarrow> bool" where
  "seq_ok es \<longleftrightarrow> map e_seq es = [1..<Suc (length es)]"

definition wf :: "world \<Rightarrow> bool" where
  "wf w \<longleftrightarrow> ops_ok (operations w) \<and> res_ok (resources w) \<and> exec_ok w \<and> seq_ok (events w)"

lemma wf_empty: "wf (empty_world c)"
  by (simp add: wf_def empty_world_def ops_ok_def res_ok_def exec_ok_def busy_rows_def seq_ok_def)

lemma executed_mono: "executed i es \<Longrightarrow> prefix es es' \<Longrightarrow> executed i es'"
  unfolding executed_def by (meson set_mono_prefix subsetD)

lemma op_find_wf:
  assumes "wf w"
  shows "op_find i w = Some r \<longleftrightarrow> r \<in> set (operations w) \<and> r_id r = i"
  using assms by (simp add: wf_def ops_ok_def op_find_def row_find_Some_iff)

lemma op_find_row_ok: "wf w \<Longrightarrow> op_find i w = Some r \<Longrightarrow> row_ok r \<and> r_id r = i"
  by (auto simp: op_find_wf wf_def ops_ok_def)

lemma op_body_wf:
  "wf w \<Longrightarrow> op_body i w = Some op \<Longrightarrow> \<exists>r. op_find i w = Some r \<and> r_body r = op \<and> row_ok r \<and>
     d_id op = i \<and> d_state op = Some (r_state r)"
  unfolding op_body_def by (auto dest: op_find_row_ok simp: row_ok_def)

lemma res_find_id: "res_ok (resources w) \<Longrightarrow> res_find i w = Some d \<Longrightarrow> d_id d = i"
  by (auto simp: res_find_def res_ok_def dest!: row_find_SomeD)

section \<open>Single writes\<close>

inductive micro :: "bool \<Rightarrow> world \<Rightarrow> world \<Rightarrow> bool" for q where
  m_save: "\<lbrakk>op_find (d_id op) w = Some r; d_resource_id op = d_resource_id (r_body r);
     d_state op = Some s; next_state (r_state r) s; r_state r \<noteq> Uncertain \<or> q;
     s \<in> {Apply_queued, Applying} \<Longrightarrow> d_plan_digest op \<noteq> None;
     s \<in> {Apply_queued, Applying} \<Longrightarrow> executed (d_id op) (events w)\<rbrakk>
     \<Longrightarrow> micro q w (save_op op w)"
| m_insert: "\<lbrakk>insert_op r w = (Inr (), w'); row_ok r; r_state r = Queued\<rbrakk> \<Longrightarrow> micro q w w'"
| m_event: "micro q w (event a b c d t w)"
| m_res: "\<lbrakk>operations w' = operations w; events w' = events w; cfg w' = cfg w;
     teams w' = teams w; team_revisions w' = team_revisions w;
     res_ok (resources w) \<Longrightarrow> res_ok (resources w')\<rbrakk> \<Longrightarrow> micro q w w'"
| m_team: "team_write w w' \<Longrightarrow> micro q w w'"

lemma ops_ok_save:
  assumes ok: "ops_ok rows" and mem: "r \<in> set rows" and id: "d_id op = r_id r"
    and res: "d_resource_id op = d_resource_id (r_body r)" and st: "d_state op = Some s"
    and nxt: "next_state (r_state r) s"
    and dig: "s \<in> {Apply_queued, Applying} \<Longrightarrow> d_plan_digest op \<noteq> None"
  shows "ops_ok (row_update r_id (d_id op) (\<lambda>r. r\<lparr>r_state := s, r_body := op\<rparr>) rows)" (is "ops_ok ?rows")
proof -
  let ?f = "\<lambda>x. if r_id x = d_id op then x\<lparr>r_state := s, r_body := op\<rparr> else x"
  have rows: "?rows = map ?f rows" by (simp add: row_update_def)
  have rok: "row_ok r" using ok mem by (simp add: ops_ok_def)
  have "map r_id ?rows = map r_id rows" by (simp add: rows)
  moreover have "map (\<lambda>r. (r_actor r, r_request_key r)) ?rows = map (\<lambda>r. (r_actor r, r_request_key r)) rows"
    by (simp add: rows)
  moreover have same: "x = r" if "x \<in> set rows" "r_id x = d_id op" for x
    using ok mem id that by (metis ops_ok_def distinct_map inj_onD)
  have "distinct (map r_resource_id (busy_rows ?rows))"
  proof -
    have d: "distinct (map r_resource_id (busy_rows rows))" using ok by (simp add: ops_ok_def)
    have sub: "subseq (map r_resource_id (busy_rows (map ?f xs))) (map r_resource_id (busy_rows xs))"
      if "set xs \<subseteq> set rows" for xs
      using that
    proof (induction xs)
      case (Cons a xs)
      have "busy_state (r_state a)" if "r_id a = d_id op"
        using same [of a] Cons.prems that nxt next_state_busy by auto
      with Cons show ?case by (auto simp: busy_rows_def)
    qed (simp add: busy_rows_def)
    show ?thesis using subseq_distinct [OF sub [OF subset_refl]] d rows by simp
  qed
  moreover have "\<forall>x \<in> set ?rows. row_ok x"
  proof
    fix x assume "x \<in> set ?rows"
    then obtain y where y: "y \<in> set rows" "x = ?f y" by (auto simp: rows)
    show "row_ok x"
    proof (cases "r_id y = d_id op")
      case True
      with same y have "y = r" by simp
      with y True id res st dig rok nxt next_states_proper [OF nxt] show ?thesis
        by (auto simp: row_ok_def)
    next
      case False
      with y ok show ?thesis by (simp add: ops_ok_def)
    qed
  qed
  ultimately show ?thesis using ok by (simp add: ops_ok_def)
qed

lemma ops_ok_insert:
  assumes "ops_ok rows" "\<not> list_ex (op_conflict r) rows" "row_ok r"
  shows "ops_ok (rows @ [r])"
  using assms by (fastforce simp: ops_ok_def busy_rows_def op_conflict_def list_ex_iff distinct_append)

lemma insert_opD:
  "insert_op r w = (Inr (), w') \<Longrightarrow>
     \<not> list_ex (op_conflict r) (operations w) \<and> w' = w\<lparr>operations := operations w @ [r]\<rparr>"
  by (auto simp: insert_op_def split: if_splits)

lemma insert_op_errD: "insert_op r w = (Inl e, w') \<Longrightarrow> w' = w \<and> e = IntegrityError"
  by (auto simp: insert_op_def split: if_splits)

lemma seq_ok_event: "seq_ok (events w) \<Longrightarrow> seq_ok (events (event a b c d t w))"
  by (simp add: seq_ok_def event_def)

lemma executed_event: "executed i (events w) \<Longrightarrow> executed i (events (event a b c d t w))"
  by (auto simp: executed_def event_def)

lemma micro_wf: "micro q w w' \<Longrightarrow> wf w \<Longrightarrow> wf w'"
proof (induction rule: micro.induct)
  case (m_save op w r s)
  have r: "r \<in> set (operations w)" "r_id r = d_id op"
    using m_save.hyps(1) m_save.prems by (simp_all add: op_find_wf)
  have "ops_ok (operations (save_op op w))"
    using ops_ok_save [of "operations w" r op s] m_save r by (simp add: wf_def save_op_def)
  moreover have "exec_ok (save_op op w)"
    unfolding exec_ok_def
  proof (intro ballI impI)
    fix x assume x: "x \<in> set (operations (save_op op w))" and xs: "r_state x \<in> {Apply_queued, Applying}"
    from x obtain y where y: "y \<in> set (operations w)"
      and xy: "x = (if r_id y = d_id op then y\<lparr>r_state := s, r_body := op\<rparr> else y)"
      using m_save.hyps(3) by (auto simp: save_op_def set_row_update)
    show "executed (r_id x) (events (save_op op w))"
    proof (cases "r_id y = d_id op")
      case True
      with xy xs m_save.hyps(7) show ?thesis by (auto simp: save_op_def)
    next
      case False
      with xy xs y m_save.prems show ?thesis by (auto simp: wf_def exec_ok_def save_op_def)
    qed
  qed
  ultimately show ?case using m_save.prems by (simp add: wf_def frame_simps)
next
  case (m_insert r w w')
  have w': "w' = w\<lparr>operations := operations w @ [r]\<rparr>" and c: "\<not> list_ex (op_conflict r) (operations w)"
    using insert_opD [OF m_insert.hyps(1)] by auto
  have "ops_ok (operations w @ [r])"
    using m_insert c by (auto simp: wf_def intro: ops_ok_insert)
  then show ?case using m_insert w' by (auto simp: wf_def exec_ok_def)
next
  case (m_event w a b c d t)
  then show ?case by (auto simp: wf_def exec_ok_def frame_simps executed_event seq_ok_event)
next
  case (m_res w' w)
  then show ?case by (auto simp: wf_def exec_ok_def)
next
  case (m_team w w')
  from team_write_frame [OF m_team.hyps] obtain who act t where
    "events w' = events (event None who act Accepted t w)" "operations w' = operations w" "resources w' = resources w"
    by blast
  then show ?case using m_team.prems by (simp add: wf_def exec_ok_def executed_event seq_ok_event)
qed

section \<open>Histories\<close>

text \<open>\<open>evolves\<close>: the audit trail only grows; every operation row stays, keeps its identity and its
  request, and its state is reached from the old one along the state machine; a row in a final
  state is not written again.\<close>

definition row_evolves :: "op_row \<Rightarrow> op_row \<Rightarrow> bool" where
  "row_evolves r r' \<longleftrightarrow> r_id r' = r_id r \<and> r_resource_id r' = r_resource_id r \<and>
     r_actor r' = r_actor r \<and> r_request_key r' = r_request_key r \<and>
     r_fingerprint r' = r_fingerprint r \<and> next_state\<^sup>*\<^sup>* (r_state r) (r_state r') \<and>
     (r_state r' = r_state r \<longrightarrow> r' = r)"

definition evolves :: "world \<Rightarrow> world \<Rightarrow> bool" where
  "evolves w w' \<longleftrightarrow> prefix (events w) (events w') \<and> cfg w' = cfg w \<and>
     (\<forall>i r. op_find i w = Some r \<longrightarrow> (\<exists>r'. op_find i w' = Some r' \<and> row_evolves r r'))"

lemma row_evolves_refl [simp]: "row_evolves r r"
  by (simp add: row_evolves_def)

lemma next_state_rtrancl_rank: "next_state\<^sup>*\<^sup>* a b \<Longrightarrow> rank a \<le> rank b"
  by (induction rule: rtranclp.induct) (auto dest: next_state_rank)

lemma next_state_acyclic: "next_state\<^sup>*\<^sup>* a b \<Longrightarrow> next_state\<^sup>*\<^sup>* b a \<Longrightarrow> a = b"
  by (metis converse_rtranclpE next_state_rank next_state_rtrancl_rank not_less order.strict_trans2)

lemma final_stuck: "next_state\<^sup>*\<^sup>* a b \<Longrightarrow> \<not> busy_state a \<Longrightarrow> b = a"
  by (erule converse_rtranclpE) (auto dest: next_state_busy)

lemma row_evolves_trans: "row_evolves a b \<Longrightarrow> row_evolves b c \<Longrightarrow> row_evolves a c"
  unfolding row_evolves_def by (metis rtranclp_trans next_state_acyclic)

lemma row_evolves_final: "row_evolves r r' \<Longrightarrow> \<not> busy_state (r_state r) \<Longrightarrow> r' = r"
  unfolding row_evolves_def using final_stuck by blast

lemma evolves_refl [simp]: "evolves w w"
  by (auto simp: evolves_def)

lemma evolves_trans: "evolves u v \<Longrightarrow> evolves v w \<Longrightarrow> evolves u w"
  unfolding evolves_def by (metis prefix_order.trans row_evolves_trans)

lemma evolves_same:
  "operations w' = operations w \<Longrightarrow> prefix (events w) (events w') \<Longrightarrow> cfg w' = cfg w \<Longrightarrow> evolves w w'"
  by (auto simp: evolves_def op_find_def)

lemma micro_evolves: "micro q w w' \<Longrightarrow> wf w \<Longrightarrow> evolves w w'"
proof (induction rule: micro.induct)
  case (m_save op w r s)
  have "row_evolves r (r\<lparr>r_state := s, r_body := op\<rparr>)"
    using m_save.hyps(4) next_state_rank [OF m_save.hyps(4)] by (auto simp: row_evolves_def)
  with m_save show ?case
    by (auto simp: evolves_def frame_simps table_simps)
next
  case (m_insert r w w')
  have w': "w' = w\<lparr>operations := operations w @ [r]\<rparr>"
    using insert_opD [OF m_insert.hyps(1)] by simp
  show ?case by (auto simp: w' evolves_def op_find_def row_find_append)
next
  case (m_event w a b c d t)
  show ?case by (rule evolves_same) (auto simp: frame_simps, auto simp: event_def)
next
  case (m_res w' w)
  then show ?case by (auto intro: evolves_same)
next
  case (m_team w w')
  from team_write_frame [OF m_team.hyps] show ?case by (auto intro!: evolves_same simp: event_def)
qed

interpretation micro_sys: monotone_system "\<lambda>w. \<exists>c. w = empty_world c" "micro q" wf evolves for q
  by unfold_locales (auto intro: wf_empty micro_wf micro_evolves evolves_trans)

lemma micro_teams:
  "micro q w w' \<Longrightarrow> team_write w w' \<or> teams w' = teams w \<and> team_revisions w' = team_revisions w"
  by (induction rule: micro.induct) (auto simp: frame_simps dest: insert_opD)

lemma micro_teams_ok: "micro q w w' \<Longrightarrow> wf w \<Longrightarrow> teams_ok w \<Longrightarrow> teams_ok w'"
  using micro_teams micro_evolves team_write_ok teams_ok_frame unfolding evolves_def prefix_def by metis

lemma micro_team_evolves: "micro q w w' \<Longrightarrow> team_evolves w w'"
  using micro_teams team_write_evolves team_evolves_frame by blast

abbreviation micros :: "bool \<Rightarrow> world \<Rightarrow> world \<Rightarrow> bool" where
  "micros q \<equiv> steps (micro q)"

lemmas micros_wf = micro_sys.steps_inv
lemmas micros_evolves = micro_sys.steps_rel

lemma micros_teams_ok: "micros q w w' \<Longrightarrow> wf w \<Longrightarrow> teams_ok w \<Longrightarrow> teams_ok w'"
proof (induction rule: steps.induct)
  case (steps_step s t u)
  then show ?case using micros_wf [OF steps_step.hyps(1)] micro_teams_ok by blast
qed

lemma micros_team_evolves: "micros q w w' \<Longrightarrow> team_evolves w w'"
  by (induction rule: steps.induct) (auto intro: micro_team_evolves team_evolves_trans)

lemma team_writes_micros: "team_writes w w' \<Longrightarrow> micros q w w'"
  by (induction rule: steps.induct) (auto intro: steps.intros m_team)

lemma micro_keeps_uncertain:
  "micro False w w' \<Longrightarrow> op_find i w = Some r \<Longrightarrow> r_state r = Uncertain \<Longrightarrow> op_find i w' = Some r"
proof (induction rule: micro.induct)
  case (m_save op w r' s)
  then show ?case by (cases "i = d_id op") (auto simp: table_simps)
next
  case (m_insert r' w w')
  then show ?case by (auto simp: op_find_def row_find_append dest!: insert_opD)
next
  case (m_event w a b c d t)
  then show ?case by (simp add: frame_simps)
next
  case (m_res w' w)
  then show ?case by (simp add: op_find_def)
next
  case (m_team w w')
  from team_write_frame [OF m_team.hyps] m_team.prems show ?case by (simp add: op_find_def)
qed

lemma micros_keep_uncertain:
  "micros False w w' \<Longrightarrow> op_find i w = Some r \<Longrightarrow> r_state r = Uncertain \<Longrightarrow> op_find i w' = Some r"
  by (induction rule: steps.induct) (auto intro: micro_keeps_uncertain)

end
