(* ===== verification/LedgerSteps.thy ===== *)
theory LedgerSteps
  imports Invariants
begin

text \<open>
  Every transaction of the ledger is a run of the single writes of \<^verbatim>\<open>Invariants\<close>: accept, execute
  (one or many), discard, claim, finish, reconcile, interrupted and the drift stamps. The lemmas
  are collected in \<open>ledger_micros\<close>; \<open>micros_wf\<close> and \<open>micros_evolves\<close> then apply to each.
\<close>

named_theorems ledger_micros

lemma micros_wf_trans: "wf w \<Longrightarrow> micros q w v \<Longrightarrow> (wf v \<Longrightarrow> micros q v u) \<Longrightarrow> micros q w u"
  by (blast intro: steps_trans micros_wf)

lemma micro_quiet:
  "operations w' = operations w \<Longrightarrow> resources w' = resources w \<Longrightarrow> events w' = events w \<Longrightarrow>
   cfg w' = cfg w \<Longrightarrow> teams w' = teams w \<Longrightarrow> team_revisions w' = team_revisions w \<Longrightarrow> micros q w w'"
  by (rule steps_single, rule m_res) auto

lemma micros_unlink [ledger_micros]: "micros q w (unlink_plan r w)"
  by (rule micro_quiet) (simp_all add: frame_simps)

lemma micros_rollback: "micros q w (rollback w w')"
  by (rule micro_quiet) (simp_all add: frame_simps)

lemma micros_event [ledger_micros]: "micros q w (event a b c d t w)"
  by (rule steps_single) (rule m_event)

lemma micros_connect [ledger_micros]: "micros q w (snd (f w)) \<Longrightarrow> micros q w (snd (connect f w))"
  by (auto simp: connect_def micros_rollback steps_refl split: prod.splits sum.splits)

lemma res_ok_update: "res_ok (resources w) \<Longrightarrow> d_id d = i \<Longrightarrow> res_ok (resources (update_resource i d w))"
  by (auto simp: res_ok_def update_resource_def set_row_update map_key_row_update)

lemma res_ok_put: "res_ok (resources w) \<Longrightarrow> d_id d = i \<Longrightarrow> res_ok (resources (put_resource i d w))"
  using distinct_row_replace [of fst "resources w" "(i, d)"]
  by (auto simp: res_ok_def put_resource_def row_replace_def)

lemma micros_update_resource: "d_id d = i \<Longrightarrow> micros q w (update_resource i d w)"
  by (rule steps_single, rule m_res) (auto simp: frame_simps res_ok_update)

lemma micros_put_resource: "d_id d = i \<Longrightarrow> micros q w (put_resource i d w)"
  by (rule steps_single, rule m_res) (auto simp: frame_simps res_ok_put)

lemma micros_restore: "wf w \<Longrightarrow> micros q w (restore_reservation op w)"
  by (auto simp: restore_reservation_def wf_def steps_refl res_find_id
      split: option.splits intro!: micros_update_resource)

lemma micros_record_drift: "wf w \<Longrightarrow> micros q w (record_drift_check op s t w)"
  by (auto simp: record_drift_check_def drift_verdict_def wf_def steps_refl res_find_id Let_def
      split: option.splits intro!: micros_update_resource)

lemma micros_mark_succeeded: "micros q w (mark_succeeded_resource op ds t w)"
  by (auto simp: mark_succeeded_resource_def succeeded_resource_def Let_def
      intro!: micros_update_resource)

text \<open>An event followed by the save of a forward move, in either order.\<close>

lemma micros_save:
  assumes "op_find (d_id op) w = Some r" "d_resource_id op = d_resource_id (r_body r)"
    "d_state op = Some s" "next_state (r_state r) s" "r_state r \<noteq> Uncertain \<or> q"
    "s \<in> {Apply_queued, Applying} \<Longrightarrow> d_plan_digest op \<noteq> None"
    "s \<in> {Apply_queued, Applying} \<Longrightarrow> executed (d_id op) (events w)"
  shows "micros q w (save_op op w)"
  using assms by (intro steps_single m_save)

lemma micros_event_save:
  assumes "op_find (d_id op) w = Some r" "d_resource_id op = d_resource_id (r_body r)"
    "d_state op = Some s" "next_state (r_state r) s" "r_state r \<noteq> Uncertain \<or> q"
    "s \<in> {Apply_queued, Applying} \<Longrightarrow> d_plan_digest op \<noteq> None"
    "s \<in> {Apply_queued, Applying} \<Longrightarrow> executed (d_id op) (events (event a b c d t w))"
  shows "micros q w (save_op op (event a b c d t w))"
  by (rule steps_trans [OF micros_save micros_event]) (use assms in \<open>auto simp: frame_simps\<close>)

lemma micros_save_event:
  assumes "op_find (d_id op) w = Some r" "d_resource_id op = d_resource_id (r_body r)"
    "d_state op = Some s" "next_state (r_state r) s" "r_state r \<noteq> Uncertain \<or> q"
    "s \<in> {Apply_queued, Applying} \<Longrightarrow> d_plan_digest op \<noteq> None"
    "s \<in> {Apply_queued, Applying} \<Longrightarrow> executed (d_id op) (events w)"
  shows "micros q w (event a b c d t (save_op op w))"
  by (rule steps_trans [OF micros_event micros_save]) (use assms in auto)

lemma released_simps [simp]:
  "d_id (released m f t op) = d_id op" "d_resource_id (released m f t op) = d_resource_id op"
  "d_state (released m f t op) = Some Failed" "d_action (released m f t op) = d_action op"
  "d_previous_cost (released m f t op) = d_previous_cost op" "d_def (released m f t op) = d_def op"
  "d_plan_digest (released m f t op) = d_plan_digest op"
  by (cases f; simp add: released_def set_flag_def stamp_def)+

lemma micros_release:
  assumes wf: "wf w" and r: "op_find (d_id op) w = Some r" "r_body r = op" "r_state r = Planned"
  shows "micros q w (snd (release_plan op who act msg f u t w))"
proof -
  let ?w2 = "save_op (released msg f t op) (event (Some (d_id op)) who act Accepted t w)"
  have s: "micros q w ?w2"
    by (rule micros_event_save [where r = r and s = Failed]) (use r in \<open>simp_all add: next_state_def\<close>)
  let ?w3 = "if u then unlink_plan (d_resource_id op) ?w2 else ?w2"
  have u: "micros q ?w2 ?w3"
    by (auto simp: micros_unlink steps_refl)
  have "micros q w ?w3" by (rule steps_trans [OF u s])
  moreover have "micros q ?w3 (restore_reservation (released msg f t op) ?w3)"
    by (rule micros_restore) (rule micros_wf [OF \<open>micros q w ?w3\<close> wf])
  ultimately show ?thesis
    by (auto simp: release_plan_def Let_def intro: steps_trans)
qed

lemma expired_planned: "expired t w op \<Longrightarrow> d_state op = Some Planned"
  by (auto simp: expired_def dest: plan_expires_atD split: option.splits)

lemma micros_expire:
  assumes "wf w" "op_body i w = Some op" "expired t w op"
  shows "micros q w (snd (expire op who u t w))"
proof -
  from op_body_wf [OF assms(1,2)] obtain r where r: "op_find i w = Some r" "r_body r = op" "d_id op = i"
    and "d_state op = Some (r_state r)" by blast
  with expired_planned [OF assms(3)] have "r_state r = Planned" by simp
  then show ?thesis unfolding expire_def
    by (intro micros_release [where r = r]) (use assms r in auto)
qed

section \<open>Acceptance\<close>

lemma busy_rowD: "busy_row rid w = Some b \<Longrightarrow> b \<in> set (operations w) \<and> r_resource_id b = rid \<and> busy_state (r_state b)"
  by (auto simp: busy_row_def find_Some_iff)

lemma op_body_of_row: "wf w \<Longrightarrow> b \<in> set (operations w) \<Longrightarrow> op_body (r_id b) w = Some (r_body b)"
  by (simp add: op_body_def op_find_wf [of w "r_id b" b, THEN iffD2])

lemma micros_clear_blocker:
  assumes "wf w"
  shows "micros q w (snd (clear_blocker rid who t w))"
proof (cases "busy_row rid w")
  case (Some b)
  with assms have "op_body (r_id b) w = Some (r_body b)"
    by (auto dest: busy_rowD op_body_of_row)
  with assms Some show ?thesis
    by (auto simp: clear_blocker_def steps_refl intro: micros_expire)
qed (simp add: clear_blocker_def steps_refl)

lemma new_op_simps [simp]:
  "d_id (new_op i rid who act costs res t) = i"
  "d_resource_id (new_op i rid who act costs res t) = rid"
  "d_state (new_op i rid who act costs res t) = Some Queued"
  "d_action (new_op i rid who act costs res t) = act"
  "d_actor (new_op i rid who act costs res t) = who"
  "d_plan_digest (new_op i rid who act costs res t) = None"
  "d_def (new_op i rid who act costs res t) = d_def res"
  "d_reconciliation (new_op i rid who act costs res t) = d_reconciliation res"
  by (auto simp: new_op_def Let_def split: option.splits)

lemma resource_after_accept_id:
  "res_ok (resources w) \<Longrightarrow> d_id (resource_after_accept oid rid who costs res t w) = rid"
  by (auto simp: resource_after_accept_def Let_def res_find_id split: option.splits)

lemma micros_write_acceptance:
  assumes "wf w"
  shows "micros q w (snd (write_acceptance who key intent oid rid costs res t w))"
proof -
  let ?act = "intent_action intent" and ?w1 = "event (Some oid) who Ev_create Accepted t w"
  let ?row = "\<lparr>r_id = oid, r_resource_id = rid, r_actor = who, r_request_key = key,
    r_fingerprint = fingerprint intent, r_state = Queued,
    r_body = new_op oid rid who ?act costs res t\<rparr>"
  have w1: "micros q w ?w1" by (rule micros_event)
  show ?thesis
  proof (cases "insert_op ?row ?w1")
    case (Pair x w2)
    show ?thesis
    proof (cases x)
      case (Inl e)
      with Pair w1 show ?thesis
        by (auto simp: write_acceptance_def Let_def dest: insert_op_errD)
    next
      case (Inr u)
      with Pair have ins: "insert_op ?row ?w1 = (Inr (), w2)" by simp
      have "row_ok ?row" by (simp add: row_ok_def)
      with ins have "micro q ?w1 w2" by (intro m_insert) auto
      with w1 have w2: "micros q w w2" by (rule steps_step)
      then have "wf w2" using assms by (rule micros_wf)
      then show ?thesis using ins w2
        by (auto simp: write_acceptance_def Let_def wf_def
            intro!: steps_trans [OF micros_put_resource] resource_after_accept_id)
    qed
  qed
qed

lemma micros_pair: "micros q w (snd p) \<Longrightarrow> p = (x, w') \<Longrightarrow> micros q w w'"
  by simp

lemma micros_connect_pair: "connect f w = (x, w') \<Longrightarrow> micros q w (snd (f w)) \<Longrightarrow> micros q w w'"
  by (metis micros_connect snd_conv)

lemma micros_accept_tx [ledger_micros]:
  assumes wf: "wf w"
  shows "micros q w (snd (accept_tx who key intent res0 b gs t fresh w))"
proof -
  let ?rid = "target_resource intent fresh"
  let ?res = "res0\<lparr>d_team_revision := None\<rparr>"
  obtain x1 w1 where c: "clear_blocker ?rid who t w = (x1, w1)" by fastforce
  from micros_clear_blocker [OF wf] c have w1: "micros q w w1" by (rule micros_pair)
  with wf have wf1: "wf w1" by (rule micros_wf [rotated])
  have w2: "micros q w (snd (write_acceptance who key intent (snd fresh) ?rid costs ?res t w1))" for costs
    by (rule steps_trans [OF micros_write_acceptance [OF wf1] w1])
  show ?thesis
    using w1 w2
    by (auto simp: accept_tx_def Let_def c steps_refl
        split: sum.splits option.splits prod.splits)
      (metis snd_conv)+
qed

lemma micros_accept [ledger_micros]:
  assumes "wf w"
  shows "micros q w (snd (accept who key intent res0 b gs t fresh w))"
proof -
  obtain x w1 where c: "connect (accept_tx who key intent res0 b gs t fresh) w = (x, w1)" by fastforce
  have "micros q w w1"
    by (rule micros_connect_pair [OF c micros_accept_tx [OF assms]])
  then show ?thesis
    by (auto simp: accept_def c unlink_blocker_def split: sum.splits option.splits prod.splits
        intro: steps_trans [OF micros_unlink])
qed

section \<open>Execution\<close>

lemma micros_execute_tx [ledger_micros]:
  assumes wf: "wf w"
  shows "micros q w (snd (execute_tx i digest who t w))"
proof (cases "op_body i w")
  case (Some op)
  from op_body_wf [OF wf this] obtain r where r: "op_find i w = Some r" "r_body r = op" "d_id op = i"
    "row_ok r" and st: "d_state op = Some (r_state r)" by blast
  let ?op = "stamp t (op\<lparr>d_state := Some Apply_queued\<rparr>)"
  have save: "micros q w (save_op ?op (event (Some i) who Ev_execute Accepted t w))"
    if "d_plan_digest op = Some digest" "r_state r = Planned"
    by (rule micros_event_save [where r = r and s = Apply_queued])
      (use that r in \<open>auto simp: stamp_def next_state_def row_ok_def executed_def event_def\<close>)
  show ?thesis
    using wf Some st save micros_expire [OF wf Some]
    by (auto simp: execute_tx_def Let_def steps_refl split: sum.splits)
qed (simp add: execute_tx_def steps_refl)

lemma micros_execute [ledger_micros]:
  assumes "wf w"
  shows "micros q w (snd (execute i digest who t w))"
proof -
  obtain x w1 where c: "connect (execute_tx i digest who t) w = (x, w1)" by fastforce
  have "micros q w w1"
    by (rule micros_connect_pair [OF c micros_execute_tx [OF assms]])
  then show ?thesis by (auto simp: execute_def c split: sum.splits prod.splits)
qed

lemma micros_execute_all: "wf w \<Longrightarrow> micros q w (snd (execute_all items who t w))"
proof (induction items arbitrary: w)
  case Nil
  show ?case by (simp add: steps_refl)
next
  case (Cons a items)
  obtain i digest where a: "a = (i, digest)" by fastforce
  obtain x w1 where c: "execute_tx i digest who t w = (x, w1)" by fastforce
  have w1: "micros q w w1"
    by (rule micros_pair [OF micros_execute_tx [OF Cons.prems] c])
  have rest: "micros q w (snd (execute_all items who t w1))"
    by (rule steps_trans [OF Cons.IH w1]) (rule micros_wf [OF w1 Cons.prems])
  show ?case
    using w1 rest by (auto simp: a c split: sum.splits prod.splits bool.splits)
qed

lemma micros_execute_batch: "wf w \<Longrightarrow> micros q w (snd (execute_batch items who a t w))"
  using micros_execute_all [where q = q and w = w and items = items and who = who and t = t]
  by (auto simp: execute_batch_def split: sum.splits prod.splits option.splits
      intro: steps_trans [OF micros_event])

lemma micros_execute_many [ledger_micros]:
  assumes "wf w"
  shows "micros q w (snd (execute_many items who a t w))"
proof -
  obtain x w1 where c: "connect (execute_batch items who a t) w = (x, w1)" by fastforce
  have w1: "micros q w w1"
    by (rule micros_connect_pair [OF c micros_execute_batch [OF assms]])
  have ex: "micros q w (snd (execute i d who t w1))" for i d
    by (rule steps_trans [OF micros_execute w1]) (rule micros_wf [OF w1 assms])
  show ?thesis
    using w1 ex by (auto simp: execute_many_def c split: sum.splits err.splits option.splits prod.splits)
      (metis snd_conv)+
qed

section \<open>Discard, claim, finish, reconcile, interrupted\<close>

lemma micros_discard [ledger_micros]:
  assumes wf: "wf w"
  shows "micros q w (snd (discard i who t w))"
proof -
  have "micros q w (snd (discard_tx i who t w))"
  proof (cases "op_body i w")
    case (Some op)
    from op_body_wf [OF wf this] obtain r where r: "op_find i w = Some r" "r_body r = op" "d_id op = i"
      and st: "d_state op = Some (r_state r)" by blast
    have "micros q w (snd (release_plan op who Ev_discard msg_discarded Flag_discarded True t w))"
      if "r_state r = Planned"
      by (rule micros_release [where r = r]) (use r that wf in auto)
    with st show ?thesis by (auto simp: discard_tx_def Some steps_refl)
  qed (simp add: discard_tx_def steps_refl)
  then show ?thesis unfolding discard_def by (rule micros_connect)
qed

lemma micros_claim [ledger_micros]:
  assumes wf: "wf w"
  shows "micros q w (snd (claim i p t w))"
proof -
  have "micros q w (snd (claim_tx i p t w))"
  proof (cases "op_find i w")
    case (Some r)
    with wf have rok: "row_ok r" "r_id r = i" by (auto dest: op_find_row_ok)
    let ?op = "stamp t ((r_body r)\<lparr>d_state := Some (snd (phase_states p))\<rparr>)"
    have "micros q w (event (Some (d_id ?op)) worker_actor Ev_state (To_state (snd (phase_states p))) t (save_op ?op w))"
      if st: "r_state r = fst (phase_states p)"
    proof (rule micros_save_event [where r = r])
      show "executed (d_id ?op) (events w)"
        if "snd (phase_states p) \<in> {Apply_queued, Applying}"
      proof -
        from that st have "r_state r = Apply_queued" by (cases p) (auto simp: phase_states_def)
        moreover have "r \<in> set (operations w)" using Some wf by (simp add: op_find_wf)
        ultimately show ?thesis using wf rok by (auto simp: wf_def exec_ok_def row_ok_def stamp_def)
      qed
    qed (use Some rok st in \<open>cases p; auto simp: phase_states_def next_state_def row_ok_def stamp_def\<close>)+
    then show ?thesis by (auto simp: claim_tx_def Some Let_def steps_refl)
  qed (simp add: claim_tx_def steps_refl)
  then show ?thesis unfolding claim_def by (rule micros_connect)
qed

lemma finished_simps [simp]:
  "d_id (finished op s fr t) = d_id op" "d_resource_id (finished op s fr t) = d_resource_id op"
  "d_state (finished op s fr t) = Some s" "d_action (finished op s fr t) = d_action op"
  "d_previous_cost (finished op s fr t) = d_previous_cost op"
  "d_reconciliation (finished op s fr t) = d_reconciliation op"
  "d_def (finished op s fr t) = d_def op" "d_cost (finished op s fr t) = d_cost op"
  by (auto simp: finished_def apply_result_def stamp_def Let_def)

text \<open>What the worker may report: a plan phase ends planned or failed (a drift check, succeeded or
  failed), an apply phase succeeded, failed or uncertain.\<close>

definition worker_outcome :: "doc \<Rightarrow> state \<Rightarrow> bool" where
  "worker_outcome op s \<longleftrightarrow>
     (d_state op = Some Planning \<and>
        s \<in> (if d_action op = Drift_check then {Succeeded, Failed} else {Planned, Failed})) \<or>
     (d_state op = Some Applying \<and> s \<in> {Succeeded, Failed, Uncertain})"

lemma micros_finish [ledger_micros]:
  assumes wf: "wf w" and out: "worker_outcome op s"
    and cl: "\<And>r. op_find (d_id op) w = Some r \<Longrightarrow> Some (r_state r) = d_state op \<Longrightarrow> r_body r = op"
  shows "micros q w (snd (finish op s fr t w))"
proof -
  have "micros q w (snd (finish_tx op s fr t w))"
  proof (cases "op_find (d_id op) w")
    case (Some r)
    let ?op = "finished op s fr t"
    let ?w1 = "event (Some (d_id ?op)) worker_actor Ev_state (To_state s) t (save_op ?op w)"
    have w1: "micros q w ?w1" if st: "Some (r_state r) = d_state op"
      by (rule micros_save_event [where r = r and s = s])
        (use Some st cl [OF Some st] out in \<open>auto simp: worker_outcome_def next_state_def split: if_splits\<close>)
    have "micros q ?w1 (record_drift_check ?op s t ?w1)" "micros q ?w1 (restore_reservation ?op ?w1)"
      if "Some (r_state r) = d_state op"
      using micros_wf [OF w1 [OF that] wf] by (auto intro: micros_record_drift micros_restore)
    with w1 show ?thesis
      by (auto simp: finish_tx_def Some Let_def steps_refl
          intro: steps_trans steps_trans [OF micros_mark_succeeded])
  qed (simp add: finish_tx_def steps_refl)
  then show ?thesis unfolding finish_def by (rule micros_connect)
qed

lemma micros_reconcile [ledger_micros]:
  assumes wf: "wf w"
  shows "micros True w (snd (reconcile i who outc why t w))"
proof -
  have "micros True w (snd (reconcile_tx i who outc why t w))"
  proof (cases "op_body i w")
    case (Some op)
    from op_body_wf [OF wf this] obtain r where r: "op_find i w = Some r" "r_body r = op" "d_id op = i"
      and st: "d_state op = Some (r_state r)" by blast
    let ?op = "reconciled op who outc why t"
    let ?w1 = "event (Some i) who Ev_reconcile Accepted t w"
    let ?w2 = "event (Some (d_id ?op)) who Ev_state (To_state (outcome_state outc)) t (save_op ?op ?w1)"
    have w2: "micros True w ?w2" if "r_state r = Uncertain"
      by (rule steps_trans [OF micros_event micros_event_save [where r = r and s = "outcome_state outc"]])
        (use r that in \<open>cases outc; auto simp: reconciled_def stamp_def next_state_def outcome_state_def\<close>)+
    have "micros True w (restore_reservation ?op ?w2)" if "r_state r = Uncertain"
      using micros_wf [OF w2 [OF that] wf] w2 [OF that] by (auto intro: steps_trans [OF micros_restore])
    with w2 st show ?thesis
      by (auto simp: reconcile_tx_def Some Let_def steps_refl split: option.splits
          intro: steps_trans [OF micros_mark_succeeded])
  qed (simp add: reconcile_tx_def steps_refl)
  then show ?thesis unfolding reconcile_def by (rule micros_connect)
qed

lemma micros_interrupted [ledger_micros]:
  assumes wf: "wf w"
  shows "micros q w (snd (interrupted i p t w))"
proof -
  have "micros q w (snd (interrupted_tx i p t w))"
  proof (cases "op_find i w")
    case (Some r)
    with wf have rok: "row_ok r" "r_id r = i" by (auto dest: op_find_row_ok)
    have "micros q w (event (Some i) worker_actor Ev_state (To_state s) t
            (save_op (stamp t ((r_body r)\<lparr>d_state := Some s, d_error := m\<rparr>)) w))" (is "micros q w (?w1 s m)")
      if "r_state r = fst (phase_states p) \<or> r_state r = snd (phase_states p)" "s \<in> {Failed, Uncertain}" for s m
      by (rule micros_save_event [where r = r and s = s])
        (use Some rok that in \<open>cases p; auto simp: stamp_def row_ok_def next_state_def phase_states_def\<close>)+
    note w1 = this
    have "micros q w (record_drift_check op Failed t (?w1 Failed m))"
      if "r_state r = fst (phase_states p) \<or> r_state r = snd (phase_states p)" for op m
      by (rule steps_trans [OF micros_record_drift w1]) (rule micros_wf [OF w1 wf], use that in auto)
    with w1 show ?thesis
      by (auto simp: interrupted_tx_def Some Let_def steps_refl)
  qed (simp add: interrupted_tx_def steps_refl)
  then show ?thesis unfolding interrupted_def by (rule micros_connect)
qed

lemma micros_stamp_drift_refusal [ledger_micros]:
  "wf w \<Longrightarrow> micros q w (snd (stamp_drift_refusal rid why u t w))"
  unfolding stamp_drift_refusal_def
  by (rule micros_connect)
    (auto simp: Let_def wf_def steps_refl res_find_id split: option.splits intro!: micros_update_resource)

lemma micros_refused [ledger_micros]: "micros q w (snd (refused who act t w))"
  unfolding refused_def by (rule micros_connect) (simp add: micros_event)

end
