(* ===== verification/AppLedger.thy ===== *)
theory AppLedger
  imports LedgerSteps
begin

text \<open>
  App rollouts in the ledger (\<^verbatim>\<open>app/ledger.py\<close> from \<^verbatim>\<open>system_key\<close> on): an app is accepted with all
  its replicas in one transaction or not at all; its router, failovers and teardown are accepted
  and linked to the app row in one transaction each. Rows carry what cannot be derived; the app's
  state is computed in \<^verbatim>\<open>Apps\<close>.
\<close>

section \<open>Keys\<close>

definition system_key :: "string list \<Rightarrow> string" where
  "system_key parts = join ''|'' parts"

definition caller_key :: "string \<Rightarrow> string \<Rightarrow> string" where
  "caller_key who key = who @ '':'' @ key"

definition set_text :: "string option \<Rightarrow> bool" where
  "set_text x = (case x of None \<Rightarrow> False | Some s \<Rightarrow> s \<noteq> [])"

section \<open>App rows\<close>

definition save_app :: "app \<Rightarrow> world \<Rightarrow> world" where
  "save_app a w = w\<lparr>apps := row_update a_id (ap_id a) (\<lambda>r. r\<lparr>a_body := a\<rparr>) (apps w)\<rparr>"

definition stamp_app :: "nat \<Rightarrow> app \<Rightarrow> app" where
  "stamp_app t a = a\<lparr>ap_updated_at := t\<rparr>"

definition replay_app_tx :: "string \<Rightarrow> string \<Rightarrow> json \<Rightarrow> world \<Rightarrow> err + app option" where
  "replay_app_tx who key digest w =
    (case find (\<lambda>r. a_actor r = who \<and> a_request_key r = key) (apps w) of
       None \<Rightarrow> Inr None
     | Some r \<Rightarrow> (if a_fingerprint r \<noteq> digest then Inl (OperationError 409 Idempotency_key_reused None)
                 else Inr (Some (a_body r))))"

definition replay_app :: "string \<Rightarrow> string \<Rightarrow> json \<Rightarrow> app option tx" where
  "replay_app who key body = connect (\<lambda>w. (replay_app_tx who key (fingerprint body) w, w))"

text \<open>One intent of a batch: its index, idempotency key, intent, definition, budget and the
  identifiers drawn for it.\<close>

record item =
  it_index :: nat
  it_key :: string
  it_intent :: json
  it_resolved :: doc
  it_budget :: "budget option"
  it_fresh :: "string \<times> string"

text \<open>The loop of \<^verbatim>\<open>_accept\<close> calls inside one transaction: operations and expired blockers.\<close>

fun accept_items :: "string \<Rightarrow> item list \<Rightarrow> nat \<Rightarrow> ((nat \<times> doc) list \<times> doc list) tx" where
  "accept_items who [] t w = (Inr ([], []), w)"
| "accept_items who (it # its) t w =
    (case accept_tx who (it_key it) (it_intent it) (it_resolved it) (it_budget it) None t (it_fresh it) w of
       (Inl e, w1) \<Rightarrow> (Inl e, w1)
     | (Inr (op, blocker), w1) \<Rightarrow>
        (case accept_items who its t w1 of
           (Inl e, w2) \<Rightarrow> (Inl e, w2)
         | (Inr (ops, blockers), w2) \<Rightarrow>
             (Inr ((it_index it, op) # ops,
                   (case blocker of None \<Rightarrow> blockers | Some b \<Rightarrow> b # blockers)), w2)))"

definition member_of :: "nat \<times> doc \<Rightarrow> member" where
  "member_of x = \<lparr>m_index = fst x, m_operation_id = d_id (snd x), m_resource_id = d_resource_id (snd x)\<rparr>"

text \<open>The replicas as \<^verbatim>\<open>accept_app\<close> numbers and keys them.\<close>

definition replica_items :: "string \<Rightarrow> (json \<times> doc \<times> budget option) list \<Rightarrow> (string \<times> string) list \<Rightarrow> item list" where
  "replica_items app_id replicas fresh =
     map (\<lambda>(i, (intent, resolved, budget), f).
            \<lparr>it_index = i, it_key = system_key [app_id, ''replica'', nat_str i], it_intent = intent,
             it_resolved = resolved, it_budget = budget, it_fresh = f\<rparr>)
       (zip [0..<length replicas] (zip replicas fresh))"

definition new_app :: "app \<Rightarrow> string \<Rightarrow> string \<Rightarrow> member list \<Rightarrow> nat \<Rightarrow> app" where
  "new_app base app_id who members t = base\<lparr>ap_id := app_id, ap_actor := who, ap_members := members,
     ap_router_operation_id := None, ap_router_resource_id := None, ap_error := None,
     ap_created_at := t, ap_updated_at := t\<rparr>"

definition accept_app_tx ::
  "string \<Rightarrow> string \<Rightarrow> json \<Rightarrow> (json \<times> doc \<times> budget option) list \<Rightarrow> app \<Rightarrow> nat \<Rightarrow> string \<Rightarrow> (string \<times> string) list
     \<Rightarrow> (app \<times> doc list) tx" where
  "accept_app_tx who key material replicas base t app_id fresh w =
    (case replay_app_tx who key (fingerprint material) w of
       Inl e \<Rightarrow> (Inl e, w)
     | Inr (Some existing) \<Rightarrow> (Inr (existing, []), w)
     | Inr None \<Rightarrow>
        (case accept_items who (replica_items app_id replicas fresh) t w of
           (Inl e, w1) \<Rightarrow> (Inl e, w1)
         | (Inr (ops, blockers), w1) \<Rightarrow>
             let a = new_app base app_id who (map member_of ops) t;
                 w2 = event (Some app_id) who Ev_app_create Accepted t w1
             in (case insert_app \<lparr>a_id = app_id, a_actor = who, a_request_key = key,
                        a_fingerprint = fingerprint material, a_body = a\<rparr> w2 of
                   (Inl e, w3) \<Rightarrow> (Inl e, w3)
                 | (Inr _, w3) \<Rightarrow> (Inr (a, blockers), w3))))"

definition unlink_blockers :: "doc list \<Rightarrow> world \<Rightarrow> world" where
  "unlink_blockers bs w = fold (\<lambda>b. unlink_plan (d_resource_id b)) bs w"

definition accept_app ::
  "string \<Rightarrow> string \<Rightarrow> json \<Rightarrow> (json \<times> doc \<times> budget option) list \<Rightarrow> app \<Rightarrow> nat \<Rightarrow> string \<Rightarrow> (string \<times> string) list
     \<Rightarrow> app tx" where
  "accept_app who key material replicas base t app_id fresh w =
    (case connect (accept_app_tx who key material replicas base t app_id fresh) w of
       (Inl e, w1) \<Rightarrow> (Inl e, w1)
     | (Inr (a, blockers), w1) \<Rightarrow> (Inr a, unlink_blockers blockers w1))"

definition get_app :: "string \<Rightarrow> app option tx" where
  "get_app app_id = connect (\<lambda>w. (Inr (app_find app_id w), w))"

text \<open>\<^verbatim>\<open>operations_by_id\<close>: the dict of the operations that exist.\<close>

definition operations_by_id :: "string list \<Rightarrow> world \<Rightarrow> string \<Rightarrow> doc option" where
  "operations_by_id ids w i = (if i \<in> set ids then op_body i w else None)"

definition list_apps :: "string \<Rightarrow> string list option \<Rightarrow> string option \<Rightarrow> nat \<Rightarrow> world \<Rightarrow> app list" where
  "list_apps who units start limit w =
     take limit (map a_body (sort_key a_id (filter (\<lambda>r.
        (case units of None \<Rightarrow> a_actor r = who
         | Some us \<Rightarrow> (case ap_business_unit (a_body r) of None \<Rightarrow> False | Some u \<Rightarrow> List.member us u)) \<and>
        (case start of None \<Rightarrow> True | Some x \<Rightarrow> x < a_id r)) (apps w))))"

section \<open>Router, failure, failover\<close>

definition accept_router_tx ::
  "string \<Rightarrow> json \<Rightarrow> doc \<Rightarrow> budget option \<Rightarrow> nat \<Rightarrow> string \<times> string \<Rightarrow> (app \<times> doc option) tx" where
  "accept_router_tx app_id intent resolved budget t fresh w =
    (case app_find app_id w of
       None \<Rightarrow> (Inl TypeError, w)
     | Some a \<Rightarrow>
        if set_text (ap_router_operation_id a) \<or> set_text (ap_error a) then (Inr (a, None), w)
        else
          (case accept_tx (ap_actor a) (system_key [app_id, ''router'']) intent resolved budget None t fresh w of
             (Inl e, w1) \<Rightarrow> (Inl e, w1)
           | (Inr (op, blocker), w1) \<Rightarrow>
              let a' = stamp_app t (a\<lparr>ap_router_operation_id := Some (d_id op),
                                      ap_router_resource_id := Some (d_resource_id op)\<rparr>)
              in (Inr (a', blocker), save_app a' w1)))"

definition accept_router ::
  "string \<Rightarrow> json \<Rightarrow> doc \<Rightarrow> budget option \<Rightarrow> nat \<Rightarrow> string \<times> string \<Rightarrow> app tx" where
  "accept_router app_id intent resolved budget t fresh w =
    (case connect (accept_router_tx app_id intent resolved budget t fresh) w of
       (Inl e, w1) \<Rightarrow> (Inl e, w1)
     | (Inr (a, blocker), w1) \<Rightarrow> (Inr a, unlink_blocker blocker w1))"

text \<open>\<^verbatim>\<open>fail_app\<close>; \<^verbatim>\<open>first\<close> is the rollout's own router.\<close>

definition first_router :: "app \<Rightarrow> string option" where
  "first_router a = (case ap_router_operations a of [] \<Rightarrow> ap_router_operation_id a | i # _ \<Rightarrow> Some i)"

definition rollout_done :: "app \<Rightarrow> world \<Rightarrow> bool" where
  "rollout_done a w = (case first_router a of
      None \<Rightarrow> False
    | Some i \<Rightarrow> (case op_find i w of None \<Rightarrow> False | Some r \<Rightarrow> r_state r = Succeeded))"

definition fail_app :: "string \<Rightarrow> string \<Rightarrow> bool \<Rightarrow> nat \<Rightarrow> app tx" where
  "fail_app app_id why was_refused t = connect (\<lambda>w.
     case app_find app_id w of
       None \<Rightarrow> (Inl TypeError, w)
     | Some a \<Rightarrow>
        if set_text (ap_error a) \<or> ap_teardown a \<noteq> None then (Inr a, w)
        else if rollout_done a w then (Inr a, w)
        else
          let a' = stamp_app t (a\<lparr>ap_error := Some why\<rparr>);
              w1 = save_app a' w;
              w2 = (if was_refused then event (Some app_id) worker_actor Ev_app_router Refused t w1 else w1)
          in (Inr a', event (Some app_id) worker_actor Ev_app_state (To_state Failed) t w2))"

definition app_for_update :: "string \<Rightarrow> nat \<Rightarrow> world \<Rightarrow> err + app" where
  "app_for_update app_id updated_at w =
    (case app_find app_id w of
       None \<Rightarrow> Inl TypeError
     | Some a \<Rightarrow> (if ap_updated_at a \<noteq> updated_at then Inl (OperationError 409 Resource_changed None) else Inr a))"

text \<open>The routers accepted so far, oldest first. A row without any router never gets here: a
  failover needs a ready app, which the unchanged \<open>updated_at\<close> confirms (the code would list
  \<^verbatim>\<open>None\<close> as the first router).\<close>

definition router_history :: "app \<Rightarrow> err + string list" where
  "router_history a = (if ap_router_operations a \<noteq> [] then Inr (ap_router_operations a)
     else case ap_router_operation_id a of None \<Rightarrow> Inl TypeError | Some i \<Rightarrow> Inr [i])"

definition with_failover :: "app \<Rightarrow> string list \<Rightarrow> string \<Rightarrow> nat \<Rightarrow> string \<Rightarrow> json \<Rightarrow> nat \<Rightarrow> app" where
  "with_failover a history op_id primary key material t =
     stamp_app t (a\<lparr>ap_router_operations := history @ [op_id], ap_router_operation_id := Some op_id,
       ap_primary := primary,
       ap_failovers := ap_failovers a @ [\<lparr>fo_operation_id = op_id, fo_primary = primary, fo_key = key,
                                         fo_fingerprint = fingerprint material\<rparr>]\<rparr>)"

text \<open>The part after the replay and freshness checks.\<close>

definition link_failover ::
  "string \<Rightarrow> string \<Rightarrow> string \<Rightarrow> json \<Rightarrow> json \<times> doc \<times> budget option \<Rightarrow> nat \<Rightarrow> app \<Rightarrow> string list \<Rightarrow> nat
     \<Rightarrow> string \<times> string \<Rightarrow> (app \<times> string \<times> doc option) tx" where
  "link_failover who app_id key material router primary a history t fresh w =
    (case accept_tx who (system_key [app_id, ''router'', nat_str (length history)]) (fst router)
            (fst (snd router)) (snd (snd router)) None t fresh w of
       (Inl e, w1) \<Rightarrow> (Inl e, w1)
     | (Inr (op, blocker), w1) \<Rightarrow>
        let a' = with_failover a history (d_id op) primary (caller_key who key) material t
        in (Inr (a', d_id op, blocker),
            save_app a' (event (Some app_id) who Ev_app_failover Accepted t w1)))"

definition accept_failover_tx ::
  "string \<Rightarrow> string \<Rightarrow> string \<Rightarrow> json \<Rightarrow> json \<times> doc \<times> budget option \<Rightarrow> nat \<Rightarrow> nat \<Rightarrow> nat \<Rightarrow> string \<times> string
     \<Rightarrow> (app \<times> string \<times> doc option) tx" where
  "accept_failover_tx who app_id key material router primary updated_at t fresh w =
    (case app_find app_id w of
       None \<Rightarrow> (Inl TypeError, w)
     | Some a0 \<Rightarrow>
        (case find (\<lambda>e. fo_key e = caller_key who key) (ap_failovers a0) of
           Some entry \<Rightarrow>
             if fo_fingerprint entry \<noteq> fingerprint material
             then (Inl (OperationError 409 Idempotency_key_reused None), w)
             else (Inr (a0, fo_operation_id entry, None), w)
         | None \<Rightarrow>
            (case app_for_update app_id updated_at w of
               Inl e \<Rightarrow> (Inl e, w)
             | Inr a \<Rightarrow>
                (case router_history a of
                   Inl e \<Rightarrow> (Inl e, w)
                 | Inr history \<Rightarrow> link_failover who app_id key material router primary a history t fresh w))))"

definition accept_failover ::
  "string \<Rightarrow> string \<Rightarrow> string \<Rightarrow> json \<Rightarrow> json \<times> doc \<times> budget option \<Rightarrow> nat \<Rightarrow> nat \<Rightarrow> nat \<Rightarrow> string \<times> string
     \<Rightarrow> (app \<times> string) tx" where
  "accept_failover who app_id key material router primary updated_at t fresh w =
    (case connect (accept_failover_tx who app_id key material router primary updated_at t fresh) w of
       (Inl e, w1) \<Rightarrow> (Inl e, w1)
     | (Inr (a, op_id, blocker), w1) \<Rightarrow> (Inr (a, op_id), unlink_blocker blocker w1))"

section \<open>Teardown\<close>

definition teardown_entry_of :: "teardown \<Rightarrow> teardown_entry" where
  "teardown_entry_of td = \<lparr>te_key = td_key td, te_fingerprint = td_fingerprint td, te_router = td_router td\<rparr>"

text \<open>Every teardown request the app remembers.\<close>

definition teardown_entries :: "app \<Rightarrow> teardown_entry list" where
  "teardown_entries a = ap_teardown_history a @
     (case ap_teardown a of None \<Rightarrow> [] | Some td \<Rightarrow> [teardown_entry_of td])"

definition with_teardown :: "app \<Rightarrow> caller \<Rightarrow> string \<Rightarrow> json \<Rightarrow> string option \<Rightarrow> nat \<Rightarrow> app" where
  "with_teardown a c key material router_id t =
    (let k = caller_key (caller_id c) key in
     stamp_app t (a\<lparr>ap_teardowns := ap_teardowns a + 1,
       ap_teardown := Some \<lparr>td_key = k, td_fingerprint = fingerprint material, td_actor = caller_id c,
          td_caller_groups = sort (caller_groups c), td_router = router_id, td_replicas = None,
          td_error = None\<rparr>,
       ap_teardown_history := ap_teardown_history a @
         [\<lparr>te_key = k, te_fingerprint = fingerprint material, te_router = router_id\<rparr>]\<rparr>))"

text \<open>The router's destroy, when there is a router to destroy.\<close>

definition teardown_router ::
  "caller \<Rightarrow> string \<Rightarrow> nat \<Rightarrow> (json \<times> doc \<times> budget option) option \<Rightarrow> nat \<Rightarrow> string \<times> string
     \<Rightarrow> (string option \<times> doc option) tx" where
  "teardown_router c app_id attempt router t fresh w =
    (case router of
       None \<Rightarrow> (Inr (None, None), w)
     | Some (intent, resolved, budget) \<Rightarrow>
        (case accept_tx (caller_id c) (system_key [app_id, ''teardown'', nat_str attempt, ''router''])
                intent resolved budget None t fresh w of
           (Inl e, w1) \<Rightarrow> (Inl e, w1)
         | (Inr (op, blocker), w1) \<Rightarrow> (Inr (Some (d_id op), blocker), w1)))"

definition link_teardown ::
  "caller \<Rightarrow> string \<Rightarrow> string \<Rightarrow> json \<Rightarrow> (json \<times> doc \<times> budget option) option \<Rightarrow> app \<Rightarrow> nat \<Rightarrow> string \<times> string
     \<Rightarrow> (app \<times> string option \<times> doc option) tx" where
  "link_teardown c app_id key material router a t fresh w =
    (case teardown_router c app_id (ap_teardowns a + 1) router t fresh w of
       (Inl e, w1) \<Rightarrow> (Inl e, w1)
     | (Inr (router_id, blocker), w1) \<Rightarrow>
        let a' = with_teardown a c key material router_id t
        in (Inr (a', router_id, blocker),
            save_app a' (event (Some app_id) (caller_id c) Ev_app_destroy Accepted t w1)))"

definition accept_teardown_tx ::
  "caller \<Rightarrow> string \<Rightarrow> string \<Rightarrow> json \<Rightarrow> (json \<times> doc \<times> budget option) option \<Rightarrow> nat \<Rightarrow> nat \<Rightarrow> string \<times> string
     \<Rightarrow> (app \<times> string option \<times> doc option) tx" where
  "accept_teardown_tx c app_id key material router updated_at t fresh w =
    (case app_find app_id w of
       None \<Rightarrow> (Inl TypeError, w)
     | Some a0 \<Rightarrow>
        (case find (\<lambda>e. te_key e = caller_key (caller_id c) key) (teardown_entries a0) of
           Some entry \<Rightarrow>
             if te_fingerprint entry \<noteq> fingerprint material
             then (Inl (OperationError 409 Idempotency_key_reused None), w)
             else (Inr (a0, te_router entry, None), w)
         | None \<Rightarrow>
            (case app_for_update app_id updated_at w of
               Inl e \<Rightarrow> (Inl e, w)
             | Inr a \<Rightarrow> link_teardown c app_id key material router a t fresh w)))"

definition accept_teardown ::
  "caller \<Rightarrow> string \<Rightarrow> string \<Rightarrow> json \<Rightarrow> (json \<times> doc \<times> budget option) option \<Rightarrow> nat \<Rightarrow> nat \<Rightarrow> string \<times> string
     \<Rightarrow> (app \<times> string option) tx" where
  "accept_teardown c app_id key material router updated_at t fresh w =
    (case connect (accept_teardown_tx c app_id key material router updated_at t fresh) w of
       (Inl e, w1) \<Rightarrow> (Inl e, w1)
     | (Inr (a, router_id, blocker), w1) \<Rightarrow> (Inr (a, router_id), unlink_blocker blocker w1))"

definition teardown_items ::
  "string \<Rightarrow> nat \<Rightarrow> (nat \<times> json \<times> doc \<times> budget option) list \<Rightarrow> (string \<times> string) list \<Rightarrow> item list" where
  "teardown_items app_id attempt items fresh =
     map (\<lambda>((i, intent, resolved, budget), f).
            \<lparr>it_index = i,
             it_key = system_key [app_id, ''teardown'', nat_str attempt, ''replica'', nat_str i],
             it_intent = intent, it_resolved = resolved, it_budget = budget, it_fresh = f\<rparr>)
       (zip items fresh)"

definition accept_teardown_replicas_tx ::
  "string \<Rightarrow> (nat \<times> json \<times> doc \<times> budget option) list \<Rightarrow> nat \<Rightarrow> (string \<times> string) list \<Rightarrow> (app \<times> doc list) tx" where
  "accept_teardown_replicas_tx app_id items t fresh w =
    (case app_find app_id w of
       None \<Rightarrow> (Inl TypeError, w)
     | Some a \<Rightarrow>
        (case ap_teardown a of
           None \<Rightarrow> (Inl KeyError, w)
         | Some td \<Rightarrow>
            if td_replicas td \<noteq> None \<or> set_text (td_error td) then (Inr (a, []), w)
            else
              (case accept_items (td_actor td) (teardown_items app_id (ap_teardowns a) items fresh) t w of
                 (Inl e, w1) \<Rightarrow> (Inl e, w1)
               | (Inr (ops, blockers), w1) \<Rightarrow>
                  let a' = stamp_app t (a\<lparr>ap_teardown :=
                             Some (td\<lparr>td_replicas := Some (map (\<lambda>x. d_id (snd x)) ops)\<rparr>)\<rparr>)
                  in (Inr (a', blockers), save_app a' w1))))"

definition accept_teardown_replicas ::
  "string \<Rightarrow> (nat \<times> json \<times> doc \<times> budget option) list \<Rightarrow> nat \<Rightarrow> (string \<times> string) list \<Rightarrow> app tx" where
  "accept_teardown_replicas app_id items t fresh w =
    (case connect (accept_teardown_replicas_tx app_id items t fresh) w of
       (Inl e, w1) \<Rightarrow> (Inl e, w1)
     | (Inr (a, blockers), w1) \<Rightarrow> (Inr a, unlink_blockers blockers w1))"

definition app_for_resource :: "string \<Rightarrow> world \<Rightarrow> app option" where
  "app_for_resource resource_id w = map_option a_body (find (\<lambda>r.
     ap_router_resource_id (a_body r) = Some resource_id \<or>
     list_ex (\<lambda>m. m_resource_id m = resource_id) (ap_members (a_body r))) (apps w))"

definition record_app_event :: "string \<Rightarrow> string \<Rightarrow> ev_action \<Rightarrow> ev_outcome \<Rightarrow> nat \<Rightarrow> unit tx" where
  "record_app_event app_id who act out t = connect (\<lambda>w. (Inr (), event (Some app_id) who act out t w))"

definition fail_teardown :: "string \<Rightarrow> string \<Rightarrow> bool \<Rightarrow> nat \<Rightarrow> app tx" where
  "fail_teardown app_id why was_refused t = connect (\<lambda>w.
     case app_find app_id w of
       None \<Rightarrow> (Inl TypeError, w)
     | Some a \<Rightarrow>
        (case ap_teardown a of
           None \<Rightarrow> (Inr a, w)
         | Some td \<Rightarrow>
            if set_text (td_error td) then (Inr a, w)
            else
              let a' = stamp_app t (a\<lparr>ap_teardown := Some (td\<lparr>td_error := Some why\<rparr>)\<rparr>);
                  w1 = save_app a' w;
                  w2 = (if was_refused then event (Some app_id) worker_actor Ev_app_teardown Refused t w1 else w1)
              in (Inr a', event (Some app_id) worker_actor Ev_app_state (To_state Failed) t w2)))"

end
