(* ===== verification/AppSteps.thy ===== *)
theory AppSteps
  imports AppLedger
begin

text \<open>
  The app transactions are runs of the same single writes, so they keep the ledger's invariant;
  and each is all or nothing, because it runs in one \<open>connect\<close>.
\<close>

lemma save_app_frame [frame_simps]:
  "operations (save_app a w) = operations w" "resources (save_app a w) = resources w"
  "events (save_app a w) = events w" "teams (save_app a w) = teams w"
  "team_revisions (save_app a w) = team_revisions w" "plans (save_app a w) = plans w"
  "cfg (save_app a w) = cfg w" "op_find i (save_app a w) = op_find i w"
  "res_find i (save_app a w) = res_find i w"
  by (simp_all add: save_app_def op_find_def res_find_def)

lemma app_find_save [table_simps]:
  "app_find j (save_app a w) = (if j = ap_id a then map_option (\<lambda>_. a) (app_find j w) else app_find j w)"
  by (auto simp: app_find_def save_app_def app_table.get_upd option.map_comp o_def)

lemma micros_save_app: "micros q w (save_app a w)"
  by (rule micro_quiet) (simp_all add: frame_simps)

lemma micros_insert_app: "micros q w (snd (insert_app r w))"
  by (auto simp: insert_app_def steps_refl intro: micro_quiet)

lemma micros_unlink_blocker: "micros q w (unlink_blocker b w)"
  by (cases b) (auto simp: unlink_blocker_def steps_refl intro: micros_unlink)

lemma micros_unlink_blockers: "micros q w (unlink_blockers bs w)"
proof (induction bs arbitrary: w)
  case Nil
  show ?case by (simp add: unlink_blockers_def steps_refl)
next
  case (Cons b bs)
  have "micros q w (unlink_blockers bs (unlink_plan (d_resource_id b) w))"
    by (rule steps_trans [OF Cons micros_unlink])
  then show ?case by (simp add: unlink_blockers_def)
qed

lemma micros_accept_items: "wf w \<Longrightarrow> micros q w (snd (accept_items who its t w))"
proof (induction its arbitrary: w)
  case Nil
  show ?case by (simp add: steps_refl)
next
  case (Cons it its)
  obtain x w1 where c: "accept_tx who (it_key it) (it_intent it) (it_resolved it) (it_budget it) None t
      (it_fresh it) w = (x, w1)" by fastforce
  have w1: "micros q w w1"
    by (rule micros_pair [OF micros_accept_tx [OF Cons.prems] c])
  have rest: "micros q w (snd (accept_items who its t w1))"
    by (rule steps_trans [OF Cons.IH w1]) (rule micros_wf [OF w1 Cons.prems])
  show ?case
    using w1 rest by (auto simp: c split: sum.splits prod.splits)
qed

lemma micros_accept_app [ledger_micros]:
  assumes wf: "wf w"
  shows "micros q w (snd (accept_app who key m rs base t i fresh w))"
proof -
  have tx: "micros q w (snd (accept_app_tx who key m rs base t i fresh w))"
  proof -
    obtain x w1 where c: "accept_items who (replica_items i rs fresh) t w = (x, w1)" by fastforce
    have w1: "micros q w w1" by (rule micros_pair [OF micros_accept_items [OF wf] c])
    have "micros q w (snd (insert_app r (event a b d e t w1)))" for r a b d e
      by (rule steps_trans [OF micros_insert_app steps_trans [OF micros_event w1]])
    with w1 show ?thesis
      by (auto simp: accept_app_tx_def c Let_def steps_refl split: sum.splits option.splits prod.splits)
        (metis snd_conv)+
  qed
  obtain x w1 where c: "connect (accept_app_tx who key m rs base t i fresh) w = (x, w1)" by fastforce
  have "micros q w w1" by (rule micros_connect_pair [OF c tx])
  then show ?thesis
    by (auto simp: accept_app_def c split: sum.splits prod.splits intro: steps_trans [OF micros_unlink_blockers])
qed

lemma micros_accept_router [ledger_micros]:
  assumes wf: "wf w"
  shows "micros q w (snd (accept_router i intent res b t fresh w))"
proof -
  have tx: "micros q w (snd (accept_router_tx i intent res b t fresh w))"
  proof (cases "app_find i w")
    case None
    then show ?thesis by (simp add: accept_router_tx_def steps_refl)
  next
    case (Some a)
    obtain x w1 where c: "accept_tx (ap_actor a) (system_key [i, ''router'']) intent res b None t fresh w
       = (x, w1)" by fastforce
    have w1: "micros q w w1" by (rule micros_pair [OF micros_accept_tx [OF wf] c])
    then have "micros q w (save_app a' w1)" for a' by (rule steps_trans [OF micros_save_app])
    with w1 show ?thesis
      by (auto simp: accept_router_tx_def Some c Let_def steps_refl split: sum.splits prod.splits)
  qed
  obtain x w1 where c: "connect (accept_router_tx i intent res b t fresh) w = (x, w1)" by fastforce
  have "micros q w w1" by (rule micros_connect_pair [OF c tx])
  then show ?thesis
    by (auto simp: accept_router_def c split: sum.splits prod.splits
        intro: steps_trans [OF micros_unlink_blocker])
qed

lemma micros_link_failover:
  assumes wf: "wf w"
  shows "micros q w (snd (link_failover who i key m router p a h t fresh w))"
proof -
  obtain x w1 where c: "accept_tx who (system_key [i, ''router'', nat_str (length h)]) (fst router)
            (fst (snd router)) (snd (snd router)) None t fresh w = (x, w1)" by fastforce
  have w1: "micros q w w1" by (rule micros_pair [OF micros_accept_tx [OF wf] c])
  have "micros q w (save_app a' (event e1 e2 e3 e4 t w1))" for a' e1 e2 e3 e4
    by (rule steps_trans [OF micros_save_app steps_trans [OF micros_event w1]])
  with w1 show ?thesis
    by (auto simp: link_failover_def c Let_def split: sum.splits prod.splits)
qed

lemma micros_accept_failover [ledger_micros]:
  assumes wf: "wf w"
  shows "micros q w (snd (accept_failover who i key m router p u t fresh w))"
proof -
  have tx: "micros q w (snd (accept_failover_tx who i key m router p u t fresh w))"
    using micros_link_failover [OF wf]
    by (auto simp: accept_failover_tx_def steps_refl split: sum.splits option.splits)
  obtain x w1 where c: "connect (accept_failover_tx who i key m router p u t fresh) w = (x, w1)" by fastforce
  have "micros q w w1" by (rule micros_connect_pair [OF c tx])
  then show ?thesis
    by (auto simp: accept_failover_def c split: sum.splits prod.splits
        intro: steps_trans [OF micros_unlink_blocker])
qed

lemma micros_teardown_router:
  assumes wf: "wf w"
  shows "micros q w (snd (teardown_router cl i n router t fresh w))"
proof (cases router)
  case None
  then show ?thesis by (simp add: teardown_router_def steps_refl)
next
  case (Some x)
  obtain intent res b where x: "x = (intent, res, b)" by (cases x)
  obtain y w1 where c: "accept_tx (caller_id cl) (system_key [i, ''teardown'', nat_str n, ''router''])
     intent res b None t fresh w = (y, w1)" by fastforce
  have "micros q w w1" by (rule micros_pair [OF micros_accept_tx [OF wf] c])
  then show ?thesis by (auto simp: teardown_router_def Some x c split: sum.splits prod.splits)
qed

lemma micros_link_teardown:
  assumes wf: "wf w"
  shows "micros q w (snd (link_teardown cl i key m router a t fresh w))"
proof -
  obtain x w1 where c: "teardown_router cl i (ap_teardowns a + 1) router t fresh w = (x, w1)" by fastforce
  have w1: "micros q w w1" by (rule micros_pair [OF micros_teardown_router [OF wf] c])
  have "micros q w (save_app a' (event e1 e2 e3 e4 t w1))" for a' e1 e2 e3 e4
    by (rule steps_trans [OF micros_save_app steps_trans [OF micros_event w1]])
  with w1 c show ?thesis
    by (auto simp: link_teardown_def Let_def split: sum.splits prod.splits)
qed

lemma micros_accept_teardown [ledger_micros]:
  assumes wf: "wf w"
  shows "micros q w (snd (accept_teardown cl i key m router u t fresh w))"
proof -
  have tx: "micros q w (snd (accept_teardown_tx cl i key m router u t fresh w))"
    using micros_link_teardown [OF wf]
    by (auto simp: accept_teardown_tx_def steps_refl split: sum.splits option.splits)
  obtain x w1 where c: "connect (accept_teardown_tx cl i key m router u t fresh) w = (x, w1)" by fastforce
  have "micros q w w1" by (rule micros_connect_pair [OF c tx])
  then show ?thesis
    by (auto simp: accept_teardown_def c split: sum.splits prod.splits
        intro: steps_trans [OF micros_unlink_blocker])
qed

lemma micros_accept_teardown_replicas [ledger_micros]:
  assumes wf: "wf w"
  shows "micros q w (snd (accept_teardown_replicas i items t fresh w))"
proof -
  have tx: "micros q w (snd (accept_teardown_replicas_tx i items t fresh w))"
  proof (cases "\<exists>a td. app_find i w = Some a \<and> ap_teardown a = Some td")
    case True
    then obtain a td where a: "app_find i w = Some a" "ap_teardown a = Some td" by blast
    obtain x w1 where c: "accept_items (td_actor td) (teardown_items i (ap_teardowns a) items fresh) t w
       = (x, w1)" by fastforce
    have w1: "micros q w w1" by (rule micros_pair [OF micros_accept_items [OF wf] c])
    then have "micros q w (save_app a' w1)" for a' by (rule steps_trans [OF micros_save_app])
    with w1 show ?thesis
      by (auto simp: accept_teardown_replicas_tx_def a c Let_def steps_refl split: sum.splits prod.splits)
  qed (auto simp: accept_teardown_replicas_tx_def steps_refl split: option.splits)
  obtain x w1 where c: "connect (accept_teardown_replicas_tx i items t fresh) w = (x, w1)" by fastforce
  have "micros q w w1" by (rule micros_connect_pair [OF c tx])
  then show ?thesis
    by (auto simp: accept_teardown_replicas_def c split: sum.splits prod.splits
        intro: steps_trans [OF micros_unlink_blockers])
qed

lemma micros_fail_app [ledger_micros]: "micros q w (snd (fail_app i why r t w))"
  unfolding fail_app_def
  by (rule micros_connect)
    (auto simp: Let_def steps_refl split: option.splits
      intro!: steps_trans [OF micros_event] micros_save_app)

lemma micros_fail_teardown [ledger_micros]: "micros q w (snd (fail_teardown i why r t w))"
  unfolding fail_teardown_def
  by (rule micros_connect)
    (auto simp: Let_def steps_refl split: option.splits
      intro!: steps_trans [OF micros_event] micros_save_app)

lemma micros_record_app_event [ledger_micros]: "micros q w (snd (record_app_event i who a out t w))"
  unfolding record_app_event_def by (rule micros_connect) (simp add: micros_event)

end
