(* ===== verification/LedgerSystem.thy ===== *)
theory LedgerSystem
  imports AppSteps
begin

text \<open>
  The ledger as a system of concurrent clients: API requests, workers and workflows run the
  transactions of \<^verbatim>\<open>app/ledger.py\<close> in any order and with any arguments (SQLite's
  \<^verbatim>\<open>BEGIN IMMEDIATE\<close> makes each one atomic). A worker finishes only with an operation it was
  handed by \<^verbatim>\<open>claim\<close>, kept in \<open>s_claims\<close>, and reports one of the outcomes
  \<open>worker_outcome\<close> lists, at any later time and any number of times; its Terraform runs write and
  remove saved plan files. Operators change the teams meanwhile (\<^verbatim>\<open>app/team_admin.py\<close>).
\<close>

record sys =
  s_world :: world
  s_claims :: "doc list"

definition claimed :: "err + doc option \<Rightarrow> doc list \<Rightarrow> doc list" where
  "claimed r C = (case r of Inr (Some op) \<Rightarrow> op # C | _ \<Rightarrow> C)"

text \<open>An app row before acceptance names no operation (\<^verbatim>\<open>base\<close> in \<^verbatim>\<open>apps.accept\<close>).\<close>

definition unlinked :: "app \<Rightarrow> bool" where
  "unlinked a \<longleftrightarrow> ap_router_operations a = [] \<and> ap_teardown a = None"

inductive ledger_step :: "sys \<Rightarrow> sys \<Rightarrow> bool" where
  ls_accept: "ledger_step s (s\<lparr>s_world := snd (accept who key intent res b gs t fresh (s_world s))\<rparr>)"
| ls_execute: "ledger_step s (s\<lparr>s_world := snd (execute i digest who t (s_world s))\<rparr>)"
| ls_execute_many: "ledger_step s (s\<lparr>s_world := snd (execute_many items who a t (s_world s))\<rparr>)"
| ls_discard: "ledger_step s (s\<lparr>s_world := snd (discard i who t (s_world s))\<rparr>)"
| ls_claim: "claim i p t (s_world s) = (r, w') \<Longrightarrow>
     ledger_step s (s\<lparr>s_world := w', s_claims := claimed r (s_claims s)\<rparr>)"
| ls_finish: "op \<in> set (s_claims s) \<Longrightarrow> worker_outcome op st \<Longrightarrow>
     ledger_step s (s\<lparr>s_world := snd (finish op st fr t (s_world s))\<rparr>)"
| ls_reconcile: "ledger_step s (s\<lparr>s_world := snd (reconcile i who outc why t (s_world s))\<rparr>)"
| ls_interrupted: "ledger_step s (s\<lparr>s_world := snd (interrupted i p t (s_world s))\<rparr>)"
| ls_stamp: "ledger_step s (s\<lparr>s_world := snd (stamp_drift_refusal rid why u t (s_world s))\<rparr>)"
| ls_refused: "ledger_step s (s\<lparr>s_world := snd (refused who act t (s_world s))\<rparr>)"
| ls_accept_app: "unlinked base \<Longrightarrow> ledger_step s (s\<lparr>s_world := snd (accept_app who key m rs base t i fr' (s_world s))\<rparr>)"
| ls_accept_router: "ledger_step s (s\<lparr>s_world := snd (accept_router i intent res b t fresh (s_world s))\<rparr>)"
| ls_fail_app: "ledger_step s (s\<lparr>s_world := snd (fail_app i why rf t (s_world s))\<rparr>)"
| ls_failover: "ledger_step s (s\<lparr>s_world := snd (accept_failover who i key m router pr u' t fresh (s_world s))\<rparr>)"
| ls_teardown: "ledger_step s (s\<lparr>s_world := snd (accept_teardown cl i key m router' u' t fresh (s_world s))\<rparr>)"
| ls_teardown_replicas: "ledger_step s (s\<lparr>s_world := snd (accept_teardown_replicas i its t fr' (s_world s))\<rparr>)"
| ls_fail_teardown: "ledger_step s (s\<lparr>s_world := snd (fail_teardown i why rf t (s_world s))\<rparr>)"
| ls_app_event: "ledger_step s (s\<lparr>s_world := snd (record_app_event i who act out t (s_world s))\<rparr>)"
| ls_create_team: "ledger_step s (s\<lparr>s_world := snd (create_team x e who cb t (s_world s))\<rparr>)"
| ls_replace_team: "ledger_step s (s\<lparr>s_world := snd (replace_team x e who n rb h t (s_world s))\<rparr>)"
| ls_revert_team: "ledger_step s (s\<lparr>s_world := snd (revert_team x e who n vb h t (s_world s))\<rparr>)"
| ls_archive_team: "ledger_step s (s\<lparr>s_world := snd (archive_team who n ab h t (s_world s))\<rparr>)"
| ls_unarchive_team: "ledger_step s (s\<lparr>s_world := snd (unarchive_team x e who n why h t (s_world s))\<rparr>)"
| ls_import_teams: "distinct (map fst (fst (parse_mapping (ce_yaml e (im_yaml ib))))) \<Longrightarrow>
     ledger_step s (s\<lparr>s_world := snd (import_teams x e who ib t (s_world s))\<rparr>)"
| ls_plan_files: "ledger_step s (s\<lparr>s_world := (s_world s)\<lparr>plans := f\<rparr>\<rparr>)"

definition initial :: "sys \<Rightarrow> bool" where
  "initial s \<longleftrightarrow> (\<exists>c. s_world s = empty_world c) \<and> s_claims s = []"

text \<open>A claimed operation's row has not gone back: it is still as claimed or has moved on.\<close>

definition claim_ok :: "world \<Rightarrow> doc \<Rightarrow> bool" where
  "claim_ok w op \<longleftrightarrow> (\<exists>st r. d_state op = Some st \<and> st \<in> {Planning, Applying} \<and>
     op_find (d_id op) w = Some r \<and> next_state\<^sup>*\<^sup>* st (r_state r) \<and> (r_state r = st \<longrightarrow> r_body r = op))"

definition sys_inv :: "sys \<Rightarrow> bool" where
  "sys_inv s \<longleftrightarrow> wf (s_world s) \<and> teams_ok (s_world s) \<and> (\<forall>op \<in> set (s_claims s). claim_ok (s_world s) op)"

lemma claim_ok_evolves: "claim_ok w op \<Longrightarrow> evolves w w' \<Longrightarrow> claim_ok w' op"
  unfolding claim_ok_def evolves_def row_evolves_def
  by (metis next_state_acyclic rtranclp_trans)

lemma claim_ok_fence: "claim_ok w op \<Longrightarrow> op_find (d_id op) w = Some r \<Longrightarrow> Some (r_state r) = d_state op \<Longrightarrow> r_body r = op"
  by (auto simp: claim_ok_def)

lemma claim_tx_row:
  assumes "claim_tx i p t w = (Inr (Some op), w')" "wf w"
  shows "claim_ok w' op"
proof -
  from assms obtain r where r: "op_find i w = Some r" "r_state r = fst (phase_states p)"
    and op: "op = stamp t ((r_body r)\<lparr>d_state := Some (snd (phase_states p))\<rparr>)"
    and w': "w' = event (Some (d_id op)) worker_actor Ev_state (To_state (snd (phase_states p))) t (save_op op w)"
    by (auto simp: claim_tx_def Let_def split: option.splits if_splits)
  have "d_id op = i" using op op_find_row_ok [OF assms(2) r(1)] by (simp add: row_ok_def stamp_def)
  with r op w' show ?thesis
    by (cases p) (auto simp: claim_ok_def frame_simps table_simps phase_states_def stamp_def)
qed

text \<open>The transactions of \<open>ledger_step\<close>, as runs of single writes.\<close>

lemma micros_plan_files [ledger_micros]: "micros q w (w\<lparr>plans := f\<rparr>)"
  by (rule micro_quiet) simp_all

lemmas micros_team_ops [ledger_micros] = team_ops_writes [THEN team_writes_micros]

lemma ledger_step_micros: "ledger_step s s' \<Longrightarrow> sys_inv s \<Longrightarrow> micros True (s_world s) (s_world s')"
proof (induction rule: ledger_step.induct)
  case (ls_claim i p t s r w')
  then show ?case using micros_claim [of "s_world s" True i p t] by (simp add: sys_inv_def)
next
  case (ls_finish op s st fr t)
  then show ?case
    by (auto simp: sys_inv_def intro!: micros_finish dest: claim_ok_fence)
qed (simp_all add: sys_inv_def ledger_micros)

lemma ledger_step_claims:
  assumes "ledger_step s s'" "sys_inv s" "op \<in> set (s_claims s')"
  shows "op \<in> set (s_claims s) \<or> claim_ok (s_world s') op"
  using assms
proof (induction rule: ledger_step.induct)
  case (ls_claim i p t s r w')
  show ?case
  proof (cases "op \<in> set (s_claims s)")
    case False
    with ls_claim have "r = Inr (Some op)" by (auto simp: claimed_def split: sum.splits option.splits)
    with ls_claim have "claim_tx i p t (s_world s) = (Inr (Some op), w')"
      by (auto simp: claim_def dest: connect_InrD)
    with ls_claim show ?thesis by (auto simp: sys_inv_def dest: claim_tx_row)
  qed simp
qed auto

lemma ledger_step_inv: "sys_inv s \<Longrightarrow> ledger_step s s' \<Longrightarrow> sys_inv s'"
proof -
  assume inv: "sys_inv s" and step: "ledger_step s s'"
  have m: "micros True (s_world s) (s_world s')" using step inv by (rule ledger_step_micros)
  have w: "wf (s_world s)" using inv by (simp add: sys_inv_def)
  have ev: "evolves (s_world s) (s_world s')" using m w by (rule micros_evolves)
  show "sys_inv s'"
    unfolding sys_inv_def
  proof (intro conjI ballI)
    show "wf (s_world s')" using m w by (rule micros_wf)
    show "teams_ok (s_world s')" using micros_teams_ok [OF m w] inv by (simp add: sys_inv_def)
    fix op assume "op \<in> set (s_claims s')"
    with ledger_step_claims [OF step inv] inv ev show "claim_ok (s_world s') op"
      by (auto simp: sys_inv_def intro: claim_ok_evolves)
  qed
qed

interpretation ledger: monotone_system initial ledger_step sys_inv "\<lambda>s s'. evolves (s_world s) (s_world s')"
proof unfold_locales
  fix s assume "initial s"
  then show "sys_inv s" by (auto simp: initial_def sys_inv_def wf_empty teams_ok_empty)
next
  fix s t u assume "evolves (s_world s) (s_world t)" "evolves (s_world t) (s_world u)"
  then show "evolves (s_world s) (s_world u)" by (rule evolves_trans)
next
  fix s t assume "sys_inv s" "ledger_step s t"
  then show "evolves (s_world s) (s_world t)"
    using micros_evolves [OF ledger_step_micros] sys_inv_def by blast
qed (auto intro: ledger_step_inv)

abbreviation reachable :: "sys \<Rightarrow> bool" where
  "reachable \<equiv> reach initial ledger_step"

lemma reachable_wf: "reachable s \<Longrightarrow> wf (s_world s)"
  using ledger.reach_inv by (simp add: sys_inv_def)

text \<open>Nothing but a reconciliation of that operation moves an operation out of \<open>Uncertain\<close>.\<close>

lemma micros_uncertain_step:
  assumes "ledger_step s s'" "sys_inv s"
    and "\<And>j who outc why t. s_world s' \<noteq> snd (reconcile j who outc why t (s_world s))"
  shows "micros False (s_world s) (s_world s')"
  using assms
proof (induction rule: ledger_step.induct)
  case (ls_claim i p t s r w')
  then show ?case using micros_claim [of "s_world s" False i p t] by (simp add: sys_inv_def)
next
  case (ls_finish op s st fr t)
  then show ?case
    by (auto simp: sys_inv_def intro!: micros_finish dest: claim_ok_fence)
qed (simp_all add: sys_inv_def ledger_micros, blast)

lemma op_find_restore [simp]: "op_find i (restore_reservation op w) = op_find i w"
  by (simp add: restore_reservation_def frame_simps split: option.splits)

lemma op_find_mark [simp]: "op_find i (mark_succeeded_resource op ds t w) = op_find i w"
  by (simp add: mark_succeeded_resource_def frame_simps)

lemma reconciled_id [simp]: "d_id (reconciled op who outc why t) = d_id op"
  by (simp add: reconciled_def stamp_def)

lemma op_find_connect: "op_find i (snd (f w)) = op_find i w \<Longrightarrow> op_find i (snd (connect f w)) = op_find i w"
  by (auto simp: connect_def frame_simps split: prod.splits sum.splits)

lemma reconcile_other:
  assumes "wf w" "i \<noteq> j"
  shows "op_find i (snd (reconcile j who outc why t w)) = op_find i w"
proof -
  have "op_find i (snd (reconcile_tx j who outc why t w)) = op_find i w"
  proof (cases "op_body j w")
    case (Some op)
    then have "d_id op = j" using op_body_wf [OF assms(1)] by blast
    with assms(2) show ?thesis
      by (cases "d_reconciliation op") (simp_all add: reconcile_tx_def Some Let_def frame_simps table_simps)
  qed (simp add: reconcile_tx_def)
  then show ?thesis unfolding reconcile_def by (rule op_find_connect)
qed

lemma reconcile_error_same: "reconcile j who outc why t w = (Inl e, w') \<Longrightarrow> op_find i w' = op_find i w"
  by (auto simp: reconcile_def connect_def frame_simps split: if_splits prod.splits sum.splits)

lemma ledger_step_uncertain:
  assumes step: "ledger_step s s'" and inv: "sys_inv s"
    and r: "op_find i (s_world s) = Some r" "r_state r = Uncertain"
  shows "op_find i (s_world s') = Some r \<or>
    (\<exists>who outc why t op. reconcile i who outc why t (s_world s) = (Inr op, s_world s'))"
proof (cases "\<exists>j who outc why t. s_world s' = snd (reconcile j who outc why t (s_world s))")
  case False
  then have "micros False (s_world s) (s_world s')"
    by (intro micros_uncertain_step [OF step inv]) blast
  with r show ?thesis by (auto intro: micros_keep_uncertain)
next
  case True
  then obtain j who outc why t where s': "s_world s' = snd (reconcile j who outc why t (s_world s))" by blast
  obtain x w' where c: "reconcile j who outc why t (s_world s) = (x, w')" by fastforce
  have wf: "wf (s_world s)" using inv by (simp add: sys_inv_def)
  show ?thesis
  proof (cases "i = j")
    case False
    with r s' show ?thesis by (simp add: reconcile_other [OF wf False])
  next
    case True
    show ?thesis
    proof (cases x)
      case (Inl e)
      with c r s' show ?thesis by (simp add: reconcile_error_same)
    next
      case (Inr op)
      with c s' True show ?thesis by auto
    qed
  qed
qed

end
