(* ===== verification/Scenario.thy ===== *)
theory Scenario
  imports LedgerSystem
begin

text \<open>
  One concrete run of the ledger, evaluated step by step: a database is requested, planned,
  executed, applied and later destroyed. The properties are instantiated on its worlds.
\<close>

definition demo_settings :: settings where
  "demo_settings = \<lparr>db_sqlite = True, tenants_source_db = False, tenants_file = None,
     operator_groups = [], auditor_groups = [], plan_max_age = Some 100, drift_sweep_interval = 50,
     live_group_checks = False, auth_entra = False, azure_subscription_id = None\<rparr>"

definition demo_defn :: defn where
  "demo_defn = \<lparr>p_pattern = ''postgresql'', p_version = Some ''v1.0.0'', p_commit = Some ''c1'',
     p_source = ''git'', p_inputs = [], p_labels = [], p_input_refs = [], p_cloud = None,
     p_business_unit = Some ''retail'', p_environment = Some ''dev'', p_subscription_id = None,
     p_cloud_target = None, p_size = Some ''small'', p_injected = []\<rparr>"

definition demo_request :: doc where
  "demo_request = \<lparr>d_def = demo_defn, d_id = [], d_resource_id = [], d_actor = [], d_action = Deploy,
     d_state = None, d_created_at = 0, d_updated_at = 0, d_plan_digest = None, d_changes = None,
     d_outputs = None, d_withheld_outputs = None, d_error = None, d_diagnostic = None,
     d_cost = JNum 30, d_previous_cost = None, d_planned_at = None, d_drift = None,
     d_planned_objects = None, d_discarded = False, d_expired = False, d_reconciliation = None,
     d_operation_id = None, d_previous_operation_id = None, d_resource_created_at = None,
     d_managed_objects = None, d_drift_status = None, d_drift_checked_at = None,
     d_drift_error = None, d_promoted_from = None, d_team_revision = None\<rparr>"

definition demo_intent :: intent where
  "demo_intent = \<lparr>i_action = Deploy, i_resource_id = None, i_pattern = ''postgresql'', i_version = None,
     i_expected_commit = None, i_business_unit = None, i_environment = None, i_size = Some ''small'',
     i_inputs = [], i_labels = None, i_input_refs = None\<rparr>"

definition demo_body :: json where
  "demo_body = canonical_intent demo_intent"

definition demo_budget :: budget where
  "demo_budget = \<lparr>b_limit = 100, b_legacy_committed = JNum 20\<rparr>"

definition demo_fresh :: "string \<times> string" where
  "demo_fresh = (''res_1'', ''op_1'')"

definition demo_planned :: finish_result where
  "demo_planned = no_result\<lparr>fr_plan_digest := Some ''d1'', fr_changes := Some [],
     fr_planned_objects := Some [(''azurerm_postgresql'', ''db'')], fr_diagnostic := Some None\<rparr>"

text \<open>The operation at each stage, and the worlds.\<close>

definition demo_op :: doc where
  "demo_op = demo_request\<lparr>d_id := ''op_1'', d_resource_id := ''res_1'', d_actor := ''amy'',
     d_state := Some Queued, d_created_at := 10, d_updated_at := 10, d_previous_cost := Some 0\<rparr>"

definition demo_resource :: doc where
  "demo_resource = demo_request\<lparr>d_id := ''res_1'', d_actor := ''amy'', d_resource_created_at := Some 10,
     d_operation_id := Some ''op_1''\<rparr>"

definition demo_planning :: doc where
  "demo_planning = demo_op\<lparr>d_state := Some Planning, d_updated_at := 20\<rparr>"

definition demo_plan :: doc where
  "demo_plan = demo_planning\<lparr>d_state := Some Planned, d_updated_at := 30, d_planned_at := Some 30,
     d_plan_digest := Some ''d1'', d_changes := Some [],
     d_planned_objects := Some [(''azurerm_postgresql'', ''db'')]\<rparr>"

definition demo_approved :: doc where
  "demo_approved = demo_plan\<lparr>d_state := Some Apply_queued, d_updated_at := 40\<rparr>"

definition demo_applying :: doc where
  "demo_applying = demo_plan\<lparr>d_state := Some Applying, d_updated_at := 50\<rparr>"

definition demo_applied :: doc where
  "demo_applied = demo_plan\<lparr>d_state := Some Succeeded, d_updated_at := 60\<rparr>"

definition demo_ready :: doc where
  "demo_ready = demo_applied\<lparr>d_id := ''res_1'', d_operation_id := Some ''op_1'', d_state := Some Ready,
     d_resource_created_at := Some 10, d_managed_objects := Some [(''azurerm_postgresql'', ''db'')],
     d_drift_status := Some In_sync, d_drift_checked_at := Some 60, d_drift := Some []\<rparr>"

definition demo_row :: "doc \<Rightarrow> op_row" where
  "demo_row op = \<lparr>r_id = ''op_1'', r_resource_id = ''res_1'', r_actor = ''amy'', r_request_key = ''k1'',
     r_fingerprint = fingerprint demo_body, r_state = the (d_state op), r_body = op\<rparr>"

definition demo_event :: "nat \<Rightarrow> string \<Rightarrow> ev_action \<Rightarrow> ev_outcome \<Rightarrow> nat \<Rightarrow> event_row" where
  "demo_event n who act out t = \<lparr>e_seq = n, e_operation_id = Some ''op_1'', e_actor = who,
     e_action = act, e_outcome = out, e_timestamp = t\<rparr>"

definition demo_events :: "event_row list" where
  "demo_events = [demo_event 1 ''amy'' Ev_create Accepted 10,
     demo_event 2 worker_actor Ev_state (To_state Planning) 20,
     demo_event 3 worker_actor Ev_state (To_state Planned) 30,
     demo_event 4 ''bob'' Ev_execute Accepted 40,
     demo_event 5 worker_actor Ev_state (To_state Applying) 50,
     demo_event 6 worker_actor Ev_state (To_state Succeeded) 60]"

definition demo0 :: world where
  "demo0 = empty_world demo_settings"

definition demo_world :: "doc \<Rightarrow> doc \<Rightarrow> nat \<Rightarrow> world" where
  "demo_world op rcd n = demo0\<lparr>operations := [demo_row op], resources := [(''res_1'', rcd)],
     events := take n demo_events\<rparr>"

lemmas demo_defs = demo_settings_def demo_defn_def demo_request_def demo_budget_def demo_fresh_def
  demo_planned_def no_result_def demo_op_def demo_resource_def demo_planning_def demo_plan_def
  demo_approved_def demo_applying_def demo_applied_def demo_ready_def demo_row_def demo_event_def
  demo_events_def demo0_def demo_world_def empty_world_def

lemmas demo_ops = connect_def Let_def event_def save_op_def row_update_def op_find_def op_body_def
  row_find_Cons stamp_def numeral_eq_Suc

lemma demo_intent_simps: "intent_action demo_body = Deploy" "intent_resource_id demo_body = None"
  by (simp_all add: demo_body_def) (simp_all add: demo_intent_def)

lemma demo_accept:
  "accept ''amy'' ''k1'' demo_body demo_request (Some demo_budget) None 10 demo_fresh demo0 =
     (Inr demo_op, demo_world demo_op demo_resource 1)"
  by (simp add: accept_def connect_def accept_tx_def replay_tx_def check_placement_def enabled_def
      db_source_def demo_defs demo_intent_simps target_resource_def clear_blocker_def busy_row_def
      admission_def deploy_costs_def accounting_amount_def float_limit_def budget_check_def
      reserved_tx_def res_find_def write_acceptance_def insert_op_def Let_def event_def new_op_def
      unlink_blocker_def put_resource_def row_replace_def resource_after_accept_def)

lemma demo_claim:
  "claim ''op_1'' Plan_phase 20 (demo_world demo_op demo_resource 1) =
     (Inr (Some demo_planning), demo_world demo_planning demo_resource 2)"
  by (simp add: claim_def claim_tx_def demo_ops demo_defs phase_states_def worker_actor_def)

lemma demo_finish_plan:
  "finish demo_planning Planned demo_planned 30 (demo_world demo_planning demo_resource 2) =
     (Inr (), demo_world demo_plan demo_resource 3)"
  by (simp add: finish_def finish_tx_def finished_def apply_result_def override_def demo_ops demo_defs
      worker_actor_def)

lemma demo_execute:
  "execute ''op_1'' ''d1'' ''bob'' 40 (demo_world demo_plan demo_resource 3) =
     (Inr demo_approved, demo_world demo_approved demo_resource 4)"
  by (simp add: execute_def execute_tx_def expired_def plan_expires_at_def demo_ops demo_defs)

lemma demo_claim_apply:
  "claim ''op_1'' Apply_phase 50 (demo_world demo_approved demo_resource 4) =
     (Inr (Some demo_applying), demo_world demo_applying demo_resource 5)"
  by (simp add: claim_def claim_tx_def demo_ops demo_defs phase_states_def worker_actor_def)

lemma demo_finish_apply:
  "finish demo_applying Succeeded no_result 60 (demo_world demo_applying demo_resource 5) =
     (Inr (), demo_world demo_applied demo_ready 6)"
  by (simp add: finish_def finish_tx_def finished_def apply_result_def override_def demo_ops demo_defs
      worker_actor_def mark_succeeded_resource_def succeeded_resource_def update_resource_def res_find_def)

text \<open>Each world is reachable.\<close>

definition demo_sys :: "world \<Rightarrow> doc list \<Rightarrow> sys" where
  "demo_sys w C = \<lparr>s_world = w, s_claims = C\<rparr>"

lemma demo_reachable0: "reachable (demo_sys demo0 [])"
  by (rule reach_init) (auto simp: initial_def demo_sys_def demo0_def)

lemma demo_step_accept:
  assumes "reachable (demo_sys w C)" "accept who key body req b gs t fresh w = (x, w')"
  shows "reachable (demo_sys w' C)"
proof -
  have "ledger_step (demo_sys w C)
      ((demo_sys w C)\<lparr>s_world := snd (accept who key body req b gs t fresh (s_world (demo_sys w C)))\<rparr>)"
    by (rule ls_accept)
  with assms show ?thesis by (auto simp: demo_sys_def intro: reach_step)
qed

lemma demo_step_claim:
  assumes "reachable (demo_sys w C)" "claim i p t w = (Inr (Some op), w')"
  shows "reachable (demo_sys w' (op # C))"
proof -
  have "ledger_step (demo_sys w C)
      ((demo_sys w C)\<lparr>s_world := w', s_claims := claimed (Inr (Some op)) (s_claims (demo_sys w C))\<rparr>)"
    by (rule ls_claim) (use assms(2) in \<open>simp add: demo_sys_def\<close>)
  with assms show ?thesis by (auto simp: demo_sys_def claimed_def intro: reach_step)
qed

lemma demo_step_finish:
  assumes "reachable (demo_sys w C)" "op \<in> set C" "worker_outcome op st" "finish op st fr t w = (x, w')"
  shows "reachable (demo_sys w' C)"
proof -
  have "ledger_step (demo_sys w C)
      ((demo_sys w C)\<lparr>s_world := snd (finish op st fr t (s_world (demo_sys w C)))\<rparr>)"
    by (rule ls_finish) (use assms in \<open>simp_all add: demo_sys_def\<close>)
  with assms show ?thesis by (auto simp: demo_sys_def intro: reach_step)
qed

lemma demo_step_execute:
  assumes "reachable (demo_sys w C)" "execute i digest who t w = (x, w')"
  shows "reachable (demo_sys w' C)"
proof -
  have "ledger_step (demo_sys w C)
      ((demo_sys w C)\<lparr>s_world := snd (execute i digest who t (s_world (demo_sys w C)))\<rparr>)"
    by (rule ls_execute)
  with assms show ?thesis by (auto simp: demo_sys_def intro: reach_step)
qed

lemmas demo_reachable1 = demo_step_accept [OF demo_reachable0 demo_accept]
lemmas demo_reachable2 = demo_step_claim [OF demo_reachable1 demo_claim]

lemma demo_outcomes: "worker_outcome demo_planning Planned" "worker_outcome demo_applying Succeeded"
  by (simp_all add: worker_outcome_def demo_defs)

lemmas demo_reachable3 =
  demo_step_finish [OF demo_reachable2 _ demo_outcomes(1) demo_finish_plan, simplified]
lemmas demo_reachable4 = demo_step_execute [OF demo_reachable3 demo_execute]
lemmas demo_reachable5 = demo_step_claim [OF demo_reachable4 demo_claim_apply]
lemmas demo_reachable6 =
  demo_step_finish [OF demo_reachable5 _ demo_outcomes(2) demo_finish_apply, simplified]

lemma demo_world_simps:
  "operations (demo_world op rcd n) = [demo_row op]" "events (demo_world op rcd n) = take n demo_events"
  "resources (demo_world op rcd n) = [(''res_1'', rcd)]" "s_world (demo_sys w C) = w"
  "r_state (demo_row op) = the (d_state op)" "r_id (demo_row op) = ''op_1''"
  "r_body (demo_row op) = op" "r_resource_id (demo_row op) = ''res_1''"
  "cfg (demo_world op rcd n) = demo_settings"
  by (simp_all add: demo_world_def demo_sys_def demo_row_def demo0_def empty_world_def)

lemma demo_op_find [simp]: "op_find ''op_1'' (demo_world op rcd n) = Some (demo_row op)"
  by (simp add: op_find_def demo_world_simps row_find_Cons)

lemma demo_body_states [simp]:
  "d_state demo_op = Some Queued" "d_state demo_planning = Some Planning" "d_state demo_plan = Some Planned"
  "d_state demo_approved = Some Apply_queued" "d_state demo_applying = Some Applying"
  "d_state demo_applied = Some Succeeded" "d_state demo_ready = Some Ready"
  by (simp_all add: demo_defs)

text \<open>The worker is lost while it applies.\<close>

definition demo_lost :: doc where
  "demo_lost = demo_applying\<lparr>d_state := Some Uncertain, d_updated_at := 55, d_error := Some msg_interrupted\<rparr>"

definition demo_lost_world :: world where
  "demo_lost_world = (demo_world demo_lost demo_resource 5)
     \<lparr>events := take 5 demo_events @ [demo_event 6 worker_actor Ev_state (To_state Uncertain) 55]\<rparr>"

lemma demo_interrupted:
  "interrupted ''op_1'' Apply_phase 55 (demo_world demo_applying demo_resource 5) = (Inr (), demo_lost_world)"
  by (simp add: interrupted_def interrupted_tx_def demo_ops demo_defs phase_states_def demo_lost_world_def
      demo_lost_def worker_actor_def)

lemma demo_reachable_lost: "reachable (demo_sys demo_lost_world [demo_applying, demo_planning])"
proof -
  let ?s = "demo_sys (demo_world demo_applying demo_resource 5) [demo_applying, demo_planning]"
  have "ledger_step ?s (?s\<lparr>s_world := snd (interrupted ''op_1'' Apply_phase 55 (s_world ?s))\<rparr>)"
    by (rule ls_interrupted)
  then have "ledger_step ?s (demo_sys demo_lost_world [demo_applying, demo_planning])"
    by (simp add: demo_world_simps demo_interrupted) (simp add: demo_sys_def)
  with demo_reachable5 show ?thesis by (rule reach_step)
qed

end
