(* ===== verification/Acceptance.thy ===== *)
theory Acceptance
  imports Scenario
begin

text \<open>
  What an accepted request did, taken apart once: \<open>accept_tx_cases\<close> and \<open>write_acceptanceD\<close> name
  the checks it passed and the rows it wrote, and the properties of acceptance follow from them.
\<close>

lemma write_acceptanceD:
  assumes "write_acceptance who key intent oid rid costs res t w = (Inr op, w')"
  shows "op = new_op oid rid who (intent_action intent) costs res t"
    and "\<exists>w2. insert_op \<lparr>r_id = oid, r_resource_id = rid, r_actor = who, r_request_key = key,
                r_fingerprint = fingerprint intent, r_state = Queued, r_body = op\<rparr>
                (event (Some oid) who Ev_create Accepted t w) = (Inr (), w2) \<and>
           w' = (if intent_action intent = Drift_check then w2
                 else put_resource rid (resource_after_accept oid rid who costs res t w2) w2)"
  using assms by (auto simp: write_acceptance_def Let_def split: prod.splits sum.splits)

lemma accept_tx_cases:
  assumes "accept_tx who key intent res b gs t fresh w = (Inr (op, bl), w')"
  obtains (replayed) "replay_tx who key (fingerprint intent) w = Inr (Some op)" "bl = None" "w' = w"
  | (fresh) w1 costs where "replay_tx who key (fingerprint intent) w = Inr None"
      "check_placement intent (res\<lparr>d_team_revision := None\<rparr>) (d_team_revision res) gs w = Inr ()"
      "clear_blocker (target_resource intent fresh) who t w = (Inr bl, w1)"
      "admission (intent_action intent) (res\<lparr>d_team_revision := None\<rparr>) b (target_resource intent fresh) w1 = Inr costs"
      "write_acceptance who key intent (snd fresh) (target_resource intent fresh) costs
         (res\<lparr>d_team_revision := None\<rparr>) t w1 = (Inr op, w')"
  using assms that
  by (simp add: accept_tx_def Let_def split: sum.splits option.splits prod.splits)

lemma acceptD:
  assumes "accept who key intent res b gs t fresh w = (Inr op, w')"
  obtains bl w1 where "accept_tx who key intent res b gs t fresh w = (Inr (op, bl), w1)"
    "w' = unlink_blocker bl w1" "db_sqlite (cfg w)"
  using assms that
  by (auto simp: accept_def split: sum.splits prod.splits dest!: connect_InrD)

lemma unlink_blocker_frame [frame_simps]:
  "operations (unlink_blocker b w) = operations w" "resources (unlink_blocker b w) = resources w"
  "events (unlink_blocker b w) = events w" "apps (unlink_blocker b w) = apps w"
  "cfg (unlink_blocker b w) = cfg w" "teams (unlink_blocker b w) = teams w"
  "op_find i (unlink_blocker b w) = op_find i w" "res_find i (unlink_blocker b w) = res_find i w"
  by (simp_all add: unlink_blocker_def frame_simps split: option.splits)

lemma insert_op_frame:
  assumes "insert_op r w = (Inr (), w')"
  shows "resources w' = resources w" "operations w' = operations w @ [r]" "events w' = events w"
    "cfg w' = cfg w" "apps w' = apps w"
  using insert_opD [OF assms] by auto

section \<open>Idempotency\<close>

lemma replay_tx_row:
  assumes "wf w" "r \<in> set (operations w)" "r_actor r = who" "r_request_key r = key"
  shows "replay_tx who key d w =
    (if r_fingerprint r \<noteq> d then Inl (OperationError 409 Idempotency_key_reused None) else Inr (Some (r_body r)))"
proof -
  have d: "distinct (map (\<lambda>r. (r_actor r, r_request_key r)) (operations w))"
    using assms(1) by (simp add: wf_def ops_ok_def)
  have "\<exists>x \<in> set (operations w). r_actor x = who \<and> r_request_key x = key" using assms by blast
  then obtain x where x: "find (\<lambda>r. r_actor r = who \<and> r_request_key r = key) (operations w) = Some x"
    by (cases "find (\<lambda>r. r_actor r = who \<and> r_request_key r = key) (operations w)")
      (auto simp: find_None_iff)
  then have "x \<in> set (operations w) \<and> r_actor x = who \<and> r_request_key x = key"
    by (auto simp: find_Some_iff)
  with d assms have "x = r" by (auto simp: distinct_map dest: inj_onD)
  with x show ?thesis by (simp add: replay_tx_def)
qed

lemma replay_tx_SomeD:
  "replay_tx who key d w = Inr (Some op) \<Longrightarrow>
     \<exists>r \<in> set (operations w). r_actor r = who \<and> r_request_key r = key \<and> r_fingerprint r = d \<and> r_body r = op"
  by (auto simp: replay_tx_def find_Some_iff split: option.splits if_splits)

lemma accept_row:
  assumes wf: "wf w" and acc: "accept who key intent res b gs t fresh w = (Inr op, w')"
  shows "\<exists>r \<in> set (operations w'). r_actor r = who \<and> r_request_key r = key \<and>
     r_fingerprint r = fingerprint intent \<and> r_id r = d_id op \<and> r_body r = op"
  using acc
proof (rule acceptD)
  fix bl w1
  assume tx: "accept_tx who key intent res b gs t fresh w = (Inr (op, bl), w1)"
    and w': "w' = unlink_blocker bl w1"
  from tx show ?thesis
  proof (cases rule: accept_tx_cases)
    case replayed
    then obtain r where "r \<in> set (operations w)" "r_actor r = who" "r_request_key r = key"
      "r_fingerprint r = fingerprint intent" "r_body r = op"
      by (auto dest: replay_tx_SomeD)
    moreover from this have "d_id op = r_id r" using wf by (auto simp: wf_def ops_ok_def row_ok_def)
    ultimately show ?thesis using replayed w' by (auto simp: frame_simps)
  next
    case (fresh w0 costs)
    from write_acceptanceD [OF fresh(5)] w' show ?thesis
      by (auto simp: frame_simps dest!: insert_op_frame(2))
  qed
qed

lemma accept_again:
  assumes "wf w" "db_sqlite (cfg w)" "r \<in> set (operations w)" "r_actor r = who" "r_request_key r = key"
  shows "accept who key intent res b gs t fresh w =
    (if r_fingerprint r \<noteq> fingerprint intent then (Inl (OperationError 409 Idempotency_key_reused None), w)
     else (Inr (r_body r), w))"
  using assms
  by (simp add: accept_def connect_def accept_tx_def replay_tx_row unlink_blocker_def)

section \<open>Budgets\<close>

lemma accounting_amount_Inr: "accounting_amount v = Inr q \<Longrightarrow> 0 \<le> q"
  by (auto simp: accounting_amount_def split: json.splits if_splits)

lemma accounting_amount_num: "accounting_amount (JNum q) = Inr q' \<longleftrightarrow> q' = q \<and> 0 \<le> q \<and> q < float_limit"
  by (auto simp: accounting_amount_def)

lemma smap_accounting_nonneg:
  "smap (\<lambda>r. accounting_amount (f r)) rs = Inr xs \<Longrightarrow> 0 \<le> sum_list xs"
  by (induction rs arbitrary: xs) (auto simp: sbind_Inr_iff dest: accounting_amount_Inr)

lemma counted_other_rows:
  assumes "res_ok rs"
  shows "filter (counted u e None) (filter (\<lambda>x. fst x \<noteq> rid) rs) = filter (counted u e (Some rid)) rs"
  unfolding filter_filter using assms
  by (intro filter_cong) (auto simp: counted_def res_ok_def)

lemma reserved_after_put:
  assumes ok: "res_ok (resources w)" and used: "reserved_tx u e (Some rid) w = Inr used"
    and c: "accounting_amount (d_cost d) = Inr c" and lim: "used + c < float_limit"
  shows "\<exists>total. reserved_tx u e None (put_resource rid d w) = Inr total \<and> total \<le> used + c"
proof -
  let ?f = "\<lambda>r :: string \<times> doc. accounting_amount (d_cost (snd r))"
  let ?row = "(rid, d)"
  obtain xs where xs: "smap ?f (filter (counted u e (Some rid)) (resources w)) = Inr xs" "used = sum_list xs"
    using used by (auto simp: reserved_tx_def sbind_Inr_iff accounting_amount_num)
  have nn: "0 \<le> sum_list xs" using smap_accounting_nonneg [OF xs(1)] .
  have c0: "0 \<le> c" using accounting_amount_Inr [OF c] .
  have rows: "filter (counted u e None) (resources (put_resource rid d w)) =
      filter (counted u e (Some rid)) (resources w) @ (if counted u e None ?row then [?row] else [])"
    using counted_other_rows [OF ok, of u e rid] by (simp add: put_resource_def row_replace_def)
  show ?thesis
    using xs c lim nn c0
    by (auto simp: reserved_tx_def rows smap_append accounting_amount_def)
qed

lemma budget_checkD:
  assumes "budget_check (Some b) (Some (prev, req)) res rid w = Inr ()"
  obtains used legacy where
    "reserved_tx (p_business_unit (d_def res)) (p_environment (d_def res)) (Some rid) w = Inr used"
    "accounting_amount (b_legacy_committed b) = Inr legacy"
    "used + legacy + max prev req < float_limit" "used + legacy + max prev req \<le> b_limit b"
  using assms that
  by (auto simp: budget_check_def sbind_Inr_iff accounting_amount_num split: if_splits)

lemma deploy_costsD:
  assumes "deploy_costs Deploy previous res = Inr costs"
  obtains prev req where "costs = Some (prev, req)" "0 \<le> prev" "0 \<le> req" "prev < float_limit" "req < float_limit"
proof -
  from assms obtain prev req where c: "costs = Some (prev, req)"
    "accounting_amount (case previous of None \<Rightarrow> JNull | Some p \<Rightarrow> d_cost p) = Inr prev"
    "accounting_amount (d_cost res) = Inr req"
    by (auto simp: deploy_costs_def sbind_Inr_iff)
  moreover have "0 \<le> q \<and> q < float_limit" if "accounting_amount v = Inr q" for v q
    using that by (auto simp: accounting_amount_def split: json.splits if_splits)
  ultimately show ?thesis using that by blast
qed

lemma admission_parts:
  assumes "admission act res b rid w = Inr costs"
  shows "deploy_costs act (res_find rid w) res = Inr costs" "budget_check b costs res rid w = Inr ()"
    "act = Destroy \<Longrightarrow> \<not> is_referenced rid w" "check_refs (p_input_refs (d_def res)) w = Inr ()"
    "act = Drift_check \<Longrightarrow> \<exists>d. res_find rid w = Some d \<and> d_state d = Some Ready"
    "\<And>d. res_find rid w = Some d \<Longrightarrow> d_operation_id d = d_previous_operation_id res"
  using assms by (auto simp: admission_def Let_def sbind_Inr_iff split: if_splits)

lemma resource_after_accept_cost:
  "d_cost (resource_after_accept oid rid who (Some (prev, req)) res t w) = JNum (max prev req)"
  by (simp add: resource_after_accept_def Let_def)

lemma accept_within_budget:
  assumes wf: "wf w" and acc: "accept who key intent res (Some b) gs t fresh w = (Inr op, w')"
    and new: "replay_tx who key (fingerprint intent) w = Inr None" and dep: "intent_action intent = Deploy"
  shows "\<exists>total legacy. reserved_tx (p_business_unit (d_def res)) (p_environment (d_def res)) None w' = Inr total \<and>
     accounting_amount (b_legacy_committed b) = Inr legacy \<and> total + legacy \<le> b_limit b"
  using acc
proof (rule acceptD)
  fix bl w1
  let ?res = "res\<lparr>d_team_revision := None\<rparr>" and ?rid = "target_resource intent fresh"
  assume tx: "accept_tx who key intent res (Some b) gs t fresh w = (Inr (op, bl), w1)"
    and w': "w' = unlink_blocker bl w1"
  from tx show ?thesis
  proof (cases rule: accept_tx_cases)
    case replayed
    with new show ?thesis by simp
  next
    case (fresh w0 costs)
    have wf0: "wf w0"
      by (rule micros_wf [OF micros_pair [OF micros_clear_blocker [OF wf] fresh(3)] wf])
    note adm = admission_parts [OF fresh(4)]
    from adm(1) dep obtain prev req where costs: "costs = Some (prev, req)" and nn: "0 \<le> prev" "0 \<le> req"
      "prev < float_limit" "req < float_limit"
      by (auto elim: deploy_costsD)
    from adm(2) obtain used legacy where b: "reserved_tx (p_business_unit (d_def res)) (p_environment (d_def res)) (Some ?rid) w0 = Inr used"
      "accounting_amount (b_legacy_committed b) = Inr legacy"
      "used + legacy + max prev req < float_limit" "used + legacy + max prev req \<le> b_limit b"
      by (auto simp: costs elim: budget_checkD)
    from write_acceptanceD(2) [OF fresh(5)] dep obtain w2 where w2: "resources w2 = resources w0"
      and w1: "w1 = put_resource ?rid (resource_after_accept (snd fresh) ?rid who costs ?res t w2) w2"
      by (auto simp: frame_simps dest!: insert_op_frame(1))
    let ?d = "resource_after_accept (snd fresh) ?rid who costs ?res t w2"
    have leg: "0 \<le> legacy" using accounting_amount_Inr [OF b(2)] .
    have c: "accounting_amount (d_cost ?d) = Inr (max prev req)"
      using nn by (simp add: costs resource_after_accept_cost accounting_amount_num)
    have u2: "reserved_tx (p_business_unit (d_def res)) (p_environment (d_def res)) (Some ?rid) w2 = Inr used"
      using b(1) by (simp add: reserved_tx_def w2)
    have ok2: "res_ok (resources w2)" using wf0 by (simp add: wf_def w2)
    have "used + max prev req < float_limit" using b(3) leg by linarith
    from reserved_after_put [OF ok2 u2 c this] obtain total where
      total: "reserved_tx (p_business_unit (d_def res)) (p_environment (d_def res)) None w1 = Inr total"
        "total \<le> used + max prev req" by (auto simp: w1)
    have "reserved_tx (p_business_unit (d_def res)) (p_environment (d_def res)) None w' = Inr total"
      using total(1) by (simp add: w' reserved_tx_def frame_simps)
    moreover have "total + legacy \<le> b_limit b" using total(2) b(4) by linarith
    ultimately show ?thesis using b(2) by blast
  qed
qed

end
