(* ===== verification/LedgerProperties.thy ===== *)
theory LedgerProperties
  imports Acceptance
begin

text \<open>
  What the ledger guarantees about operations, whatever the interleaving of requests, workers and
  workflows: one active operation per resource, final results that never change, an append-only
  audit trail, no apply without an approved plan, and idempotent requests.
\<close>

section \<open>Invariants of every reachable ledger\<close>

text \<open>C1. In every reachable ledger a resource has at most one operation that is not finished:
  two unfinished rows of one resource are the same row.\<close>

theorem one_active_operation:
  assumes "reachable s" and "r1 \<in> set (operations (s_world s))" "r2 \<in> set (operations (s_world s))"
    and "busy_state (r_state r1)" "busy_state (r_state r2)" and "r_resource_id r1 = r_resource_id r2"
  shows "r1 = r2"
proof -
  have "distinct (map r_resource_id (busy_rows (operations (s_world s))))"
    using reachable_wf [OF assms(1)] by (simp add: wf_def ops_ok_def)
  moreover have "r1 \<in> set (busy_rows (operations (s_world s)))" "r2 \<in> set (busy_rows (operations (s_world s)))"
    using assms by (simp_all add: busy_rows_def)
  ultimately show ?thesis using assms(6) by (metis distinct_map inj_onD)
qed

theorem one_active_operation_witness:
  "list_all (\<lambda>r. busy_state (r_state r) \<and> r = demo_row demo_plan) (operations (demo_world demo_plan demo_resource 3))"
  using one_active_operation [OF demo_reachable3, of _ "demo_row demo_plan"]
  by (simp add: demo_world_simps list_all_iff)

text \<open>C2. An operation is being applied, or is queued to be, only when it carries the digest of a
  saved plan and the audit trail holds the accepted execute request for it.\<close>

theorem apply_only_approved_plans:
  assumes "reachable s" and "r \<in> set (operations (s_world s))"
    and "r_state r = Apply_queued \<or> r_state r = Applying"
  shows "d_plan_digest (r_body r) \<noteq> None \<and>
     (\<exists>e \<in> set (events (s_world s)). e_operation_id e = Some (r_id r) \<and> e_action e = Ev_execute \<and>
        e_outcome e = Accepted)"
  using reachable_wf [OF assms(1)] assms(2,3)
  by (auto simp: wf_def ops_ok_def row_ok_def exec_ok_def executed_def)

theorem apply_only_approved_plans_witness:
  "d_plan_digest demo_applying \<noteq> None \<and> (\<exists>e \<in> set (take 5 demo_events). e_action e = Ev_execute)"
  using apply_only_approved_plans [OF demo_reachable5, of "demo_row demo_applying"]
  by (auto simp: demo_world_simps)

lemma operations_forward:
  assumes "reachable s" and "steps ledger_step s s'" and "op_find i (s_world s) = Some r"
  shows "\<exists>r'. op_find i (s_world s') = Some r' \<and> row_evolves r r'"
  using ledger.steps_rel [OF assms(2) ledger.reach_inv [OF assms(1)]] assms(3)
  by (auto simp: evolves_def)

text \<open>C12. Along every run an operation row is never lost; it keeps its identity, its requester and its
  fingerprint; its state moves only along the state machine; and once it has succeeded or failed
  the row never changes again.\<close>

theorem operations_move_forward:
  assumes "reachable s" and "steps ledger_step s s'" and "op_find i (s_world s) = Some r"
  shows "\<exists>r'. op_find i (s_world s') = Some r' \<and> r_id r' = i \<and> r_resource_id r' = r_resource_id r \<and>
     r_actor r' = r_actor r \<and> r_request_key r' = r_request_key r \<and> r_fingerprint r' = r_fingerprint r \<and>
     next_state\<^sup>*\<^sup>* (r_state r) (r_state r') \<and>
     (r_state r = Succeeded \<or> r_state r = Failed \<longrightarrow> r' = r)"
proof -
  obtain r' where r': "op_find i (s_world s') = Some r'" "row_evolves r r'"
    using operations_forward [OF assms] by blast
  have "r_state r = Succeeded \<or> r_state r = Failed \<longrightarrow> r' = r"
    using row_evolves_final [OF r'(2)] by (auto simp: busy_state_def)
  moreover have "r_id r' = i" using r'(1) by (auto simp: op_find_def dest: row_find_SomeD)
  ultimately show ?thesis using r' by (auto simp: row_evolves_def)
qed

lemma demo_run23:
  "steps ledger_step (demo_sys (demo_world demo_planning demo_resource 2) [demo_planning])
     (demo_sys (demo_world demo_plan demo_resource 3) [demo_planning])"
proof -
  have "ledger_step (demo_sys (demo_world demo_planning demo_resource 2) [demo_planning])
      ((demo_sys (demo_world demo_planning demo_resource 2) [demo_planning])
        \<lparr>s_world := snd (finish demo_planning Planned demo_planned 30
           (s_world (demo_sys (demo_world demo_planning demo_resource 2) [demo_planning])))\<rparr>)"
    by (rule ls_finish) (simp_all add: demo_sys_def demo_outcomes)
  then show ?thesis
    by (auto simp: demo_sys_def demo_finish_plan intro: steps_single)
qed

theorem operations_move_forward_witness: "next_state\<^sup>*\<^sup>* Planning Planned"
  using operations_move_forward [OF demo_reachable2 demo_run23, of "''op_1''" "demo_row demo_planning"]
  by (auto simp: demo_world_simps)

text \<open>The audit trail is append-only: along every run the earlier entries stay as they were,
  and the entries are numbered 1, 2, 3 and so on without a gap.\<close>

theorem audit_append_only:
  assumes "reachable s" and "steps ledger_step s s'"
  shows "prefix (events (s_world s)) (events (s_world s')) \<and>
     map e_seq (events (s_world s')) = [1..<Suc (length (events (s_world s')))]"
proof -
  have "evolves (s_world s) (s_world s')"
    using ledger.steps_rel [OF assms(2) ledger.reach_inv [OF assms(1)]] .
  moreover have "wf (s_world s')"
    using reachable_wf [OF ledger.reach_steps [OF assms]] .
  ultimately show ?thesis by (simp add: evolves_def wf_def seq_ok_def)
qed

theorem audit_append_only_witness:
  "prefix (take 2 demo_events) (take 3 demo_events) \<and> map e_seq (take 3 demo_events) = [1, 2, 3]"
proof -
  have "length (take 3 demo_events) = 3" by (simp add: demo_events_def)
  then show ?thesis
    using audit_append_only [OF demo_reachable2 demo_run23]
    by (simp add: demo_world_simps upt_rec)
qed

text \<open>C11. An operation whose outcome is unknown (\<open>Uncertain\<close>) keeps exactly its row under every step
  of the system except an accepted reconciliation of that very operation: no worker report, retry,
  expiry, discard or new request touches it.\<close>

theorem uncertain_waits_for_operator:
  assumes "reachable s" and "ledger_step s s'" and "op_find i (s_world s) = Some r"
    and "r_state r = Uncertain"
  shows "op_find i (s_world s') = Some r \<or>
    (\<exists>who outc why t op. reconcile i who outc why t (s_world s) = (Inr op, s_world s'))"
  using ledger_step_uncertain [OF assms(2) ledger.reach_inv [OF assms(1)] assms(3,4)] .

text \<open>A worker that comes back after the interruption reports success; nothing happens.\<close>

theorem uncertain_waits_for_operator_witness:
  "op_find ''op_1'' (snd (finish demo_applying Succeeded no_result 60 demo_lost_world)) = Some (demo_row demo_lost) \<or>
   (\<exists>who outc why t op. reconcile ''op_1'' who outc why t demo_lost_world =
      (Inr op, snd (finish demo_applying Succeeded no_result 60 demo_lost_world)))"
proof -
  let ?s = "demo_sys demo_lost_world [demo_applying, demo_planning]"
  let ?s' = "?s\<lparr>s_world := snd (finish demo_applying Succeeded no_result 60 (s_world ?s))\<rparr>"
  have step: "ledger_step ?s ?s'"
    by (rule ls_finish) (simp_all add: demo_sys_def demo_outcomes)
  have "op_find ''op_1'' demo_lost_world = Some (demo_row demo_lost)"
    by (simp add: demo_lost_world_def op_find_def demo_world_simps row_find_Cons)
  then show ?thesis
    using uncertain_waits_for_operator [OF demo_reachable_lost step, of "''op_1''" "demo_row demo_lost"]
    by (simp add: demo_world_simps demo_lost_def demo_sys_def)
qed

section \<open>Requests\<close>

text \<open>A request is answered once. After an accepted request, at any later time and whatever has
  happened since, the same caller's key with the same intent returns that operation and changes
  nothing, and with another intent it is refused and changes nothing.\<close>

theorem request_is_idempotent:
  assumes "reachable s" and "accept who key intent res b gs t fresh (s_world s) = (Inr op, w1)"
    and "steps ledger_step (s\<lparr>s_world := w1\<rparr>) s2"
  shows "if fingerprint intent' = fingerprint intent
    then \<exists>op2. accept who key intent' res' b' gs' t' fresh' (s_world s2) = (Inr op2, s_world s2) \<and> d_id op2 = d_id op
    else accept who key intent' res' b' gs' t' fresh' (s_world s2) =
      (Inl (OperationError 409 Idempotency_key_reused None), s_world s2)"
proof -
  let ?s1 = "s\<lparr>s_world := w1\<rparr>"
  have wf: "wf (s_world s)" using assms(1) by (rule reachable_wf)
  have "ledger_step s (s\<lparr>s_world := snd (accept who key intent res b gs t fresh (s_world s))\<rparr>)"
    by (rule ls_accept)
  with assms(1,2) have r1: "reachable ?s1" by (auto intro: reach_step)
  have wf1: "wf w1" using reachable_wf [OF r1] by simp
  have wf2: "wf (s_world s2)" using reachable_wf [OF ledger.reach_steps [OF r1 assms(3)]] .
  from accept_row [OF wf assms(2)] obtain r where r: "r \<in> set (operations w1)" "r_actor r = who"
    "r_request_key r = key" "r_fingerprint r = fingerprint intent" "r_id r = d_id op" by blast
  have "op_find (d_id op) w1 = Some r" using wf1 r by (simp add: op_find_wf)
  then obtain r2 where r2: "op_find (d_id op) (s_world s2) = Some r2" "r_actor r2 = who"
    "r_request_key r2 = key" "r_fingerprint r2 = fingerprint intent"
    using operations_forward [OF r1, of s2] assms(3) r by (fastforce simp: row_evolves_def)
  have in2: "r2 \<in> set (operations (s_world s2))" "d_id (r_body r2) = d_id op"
    using wf2 r2(1) op_find_row_ok [OF wf2 r2(1)] by (auto simp: op_find_wf row_ok_def)
  have "cfg w1 = cfg (s_world s)"
    using micros_evolves [OF micros_pair [OF micros_accept [OF wf] assms(2)] wf] by (simp add: evolves_def)
  moreover have "cfg (s_world s2) = cfg w1"
    using ledger.steps_rel [OF assms(3) ledger.reach_inv [OF r1]] by (simp add: evolves_def)
  moreover have "db_sqlite (cfg (s_world s))" using assms(2) by (rule acceptD)
  ultimately show ?thesis
    using accept_again [OF wf2 _ in2(1) r2(2,3)] r2(4) in2(2) by auto
qed

theorem request_is_idempotent_witness:
  "\<exists>op2. accept ''amy'' ''k1'' demo_body demo_request None None 99 (''a'', ''b'') (demo_world demo_op demo_resource 1) =
     (Inr op2, demo_world demo_op demo_resource 1) \<and> d_id op2 = ''op_1''"
proof -
  have acc: "accept ''amy'' ''k1'' demo_body demo_request (Some demo_budget) None 10 demo_fresh
      (s_world (demo_sys demo0 [])) = (Inr demo_op, demo_world demo_op demo_resource 1)"
    by (simp add: demo_sys_def demo_accept)
  have "d_id demo_op = ''op_1''" by (simp add: demo_defs)
  with request_is_idempotent [OF demo_reachable0 acc steps_refl, of demo_body demo_request None None 99 "(''a'', ''b'')"]
  show ?thesis by simp
qed

text \<open>C10. Budgets hold. When a new deploy is accepted under a budget, what its environment has reserved
  afterwards (everything not destroyed, planned and failed work included), together with the
  legacy commitments, is at most the limit.\<close>

theorem accepted_deploy_within_budget:
  assumes "reachable s" and "accept who key intent res (Some b) gs t fresh (s_world s) = (Inr op, w')"
    and "replay_tx who key (fingerprint intent) (s_world s) = Inr None" and "intent_action intent = Deploy"
  shows "\<exists>total legacy. reserved_tx (p_business_unit (d_def res)) (p_environment (d_def res)) None w' = Inr total \<and>
     accounting_amount (b_legacy_committed b) = Inr legacy \<and> total + legacy \<le> b_limit b"
  using accept_within_budget [OF reachable_wf [OF assms(1)] assms(2-4)] .

theorem accepted_deploy_within_budget_witness:
  "\<exists>total legacy. reserved_tx (Some ''retail'') (Some ''dev'') None (demo_world demo_op demo_resource 1) = Inr total \<and>
     accounting_amount (JNum 20) = Inr legacy \<and> total + legacy \<le> 100"
proof -
  have "replay_tx ''amy'' ''k1'' (fingerprint demo_body) demo0 = Inr None"
    by (simp add: replay_tx_def demo0_def empty_world_def)
  with accepted_deploy_within_budget [OF demo_reachable0, of "''amy''" "''k1''" demo_body demo_request demo_budget
      None 10 demo_fresh demo_op]
  show ?thesis by (simp add: demo_accept demo_intent_simps demo_sys_def) (simp add: demo_defs)
qed

end
