(* ===== verification/LifecycleProperties.thy ===== *)
theory LifecycleProperties
  imports Acceptance
begin

text \<open>
  What the transactions of an operation's life do, outcome by outcome: discard gives the
  reservation back, a batch of executions is all or nothing, a late worker report changes nothing,
  a drift check leaves everything but the drift verdict alone, and reconciliation settles an
  uncertain operation.
\<close>

section \<open>Lemmas\<close>

lemma claimD:
  assumes "wf w" "claim i p t w = (Inr (Some op), w')"
  obtains r where "op_find i w = Some r" "r_state r = fst (phase_states p)"
    "op = stamp t ((r_body r)\<lparr>d_state := Some (snd (phase_states p))\<rparr>)" "d_id op = i"
    "w' = event (Some i) worker_actor Ev_state (To_state (snd (phase_states p))) t (save_op op w)"
proof -
  from assms(2) have tx: "claim_tx i p t w = (Inr (Some op), w')"
    by (auto simp: claim_def dest: connect_InrD)
  then obtain r where r: "op_find i w = Some r" "r_state r = fst (phase_states p)"
    and op: "op = stamp t ((r_body r)\<lparr>d_state := Some (snd (phase_states p))\<rparr>)"
    and w': "w' = event (Some (d_id op)) worker_actor Ev_state (To_state (snd (phase_states p))) t (save_op op w)"
    by (auto simp: claim_tx_def Let_def split: option.splits if_splits)
  moreover have "d_id op = i" using op op_find_row_ok [OF assms(1) r(1)] by (simp add: row_ok_def stamp_def)
  ultimately show ?thesis using that by simp
qed

lemma discardD:
  assumes "discard i who t w = (Inr op, w')" "\<And>op0. op_body i w = Some op0 \<Longrightarrow> \<not> d_discarded op0"
  obtains op0 where "op_body i w = Some op0" "d_state op0 = Some Planned"
    "op = released msg_discarded Flag_discarded t op0"
    "w' = snd (release_plan op0 who Ev_discard msg_discarded Flag_discarded True t w)"
  using assms that
  by (auto simp: discard_def discard_tx_def release_plan_def Let_def split: option.splits if_splits
      dest!: connect_InrD)

lemma released_resource:
  assumes "d_action op = Deploy" "d_previous_cost op = Some q"
  shows "res_find j (snd (release_plan op who act msg f u t w)) =
    (if j = d_resource_id op then map_option (\<lambda>r. r\<lparr>d_cost := JNum q\<rparr>) (res_find j w) else res_find j w)"
  using assms
  by (auto simp: release_plan_def Let_def restore_reservation_def frame_simps table_simps
      split: option.splits)

lemma released_plan_file: "plans (snd (release_plan op who act msg f True t w)) (d_resource_id op) = None"
  by (auto simp: release_plan_def Let_def restore_reservation_def frame_simps split: option.splits)
     (auto simp: unlink_plan_def)

lemma released_row:
  "op_find (d_id op) (snd (release_plan op who act msg f u t w)) =
     map_option (\<lambda>r. r\<lparr>r_state := Failed, r_body := released msg f t op\<rparr>) (op_find (d_id op) w)"
  by (simp add: release_plan_def Let_def frame_simps table_simps restore_reservation_def
      split: option.splits)

text \<open>A new deploy of an existing resource whose way is free: its operation and what its resource
  becomes.\<close>

lemma accept_new_deploy:
  assumes acc: "accept who key intent res b gs t fresh w = (Inr op, w')" and rid: "d_resource_id op = rid"
    and dep: "intent_action intent = Deploy" and new: "replay_tx who key (fingerprint intent) w = Inr None"
    and free: "busy_row rid w = None" and d: "res_find rid w = Some d"
  obtains prev req where "accounting_amount (d_cost d) = Inr prev"
    "op = new_op (snd fresh) rid who Deploy (Some (prev, req)) (res\<lparr>d_team_revision := None\<rparr>) t"
    "\<And>j. res_find j w' = (if j = rid then Some (d\<lparr>d_cost := JNum (max prev req), d_operation_id := Some (d_id op)\<rparr>)
        else res_find j w)"
  using acc
proof (rule acceptD)
  fix bl w1
  let ?res = "res\<lparr>d_team_revision := None\<rparr>"
  assume tx: "accept_tx who key intent res b gs t fresh w = (Inr (op, bl), w1)" and w': "w' = unlink_blocker bl w1"
  from tx show ?thesis
  proof (cases rule: accept_tx_cases)
    case replayed
    with new show ?thesis by simp
  next
    case (fresh w0 costs)
    note wa = write_acceptanceD [OF fresh(5)]
    have target: "target_resource intent fresh = rid" using wa(1) rid by simp
    have w0: "w0 = w" using fresh(3) free by (simp add: target clear_blocker_def)
    from admission_parts(1) [OF fresh(4)] obtain prev req where costs: "costs = Some (prev, req)"
      and prev: "accounting_amount (d_cost d) = Inr prev"
      by (auto simp: w0 target d dep deploy_costs_def sbind_Inr_iff)
    from wa(2) dep obtain w2 where w2: "resources w2 = resources w"
      and w1: "w1 = put_resource rid (resource_after_accept (snd fresh) rid who costs ?res t w2) w2"
      by (auto simp: w0 target frame_simps dest!: insert_op_frame(1))
    have find2: "res_find j w2 = res_find j w" for j by (simp add: res_find_def w2)
    have "res_find j w' = (if j = rid then Some (d\<lparr>d_cost := JNum (max prev req), d_operation_id := Some (d_id op)\<rparr>)
        else res_find j w)" for j
      by (simp add: w' w1 frame_simps table_simps find2 resource_after_accept_def d costs wa(1) Let_def)
    with prev wa(1) show ?thesis using that [of prev req] by (simp add: target costs dep)
  qed
qed

lemma finish_planned_frame:
  assumes "finish op Planned fr t w = (Inr (), w')" "d_action op = Deploy"
  shows "res_find j w' = res_find j w" "resources w' = resources w"
  using assms
  by (auto simp: finish_def finish_tx_def Let_def frame_simps split: option.splits if_splits dest!: connect_InrD)

lemma finish_row:
  assumes "finish op s fr t w = (Inr (), w')" "op_find (d_id op) w = Some r" "Some (r_state r) = d_state op"
  shows "op_body (d_id op) w' = Some (finished op s fr t)"
  using assms
  by (auto simp: finish_def finish_tx_def Let_def frame_simps table_simps op_body_def record_drift_check_def
      restore_reservation_def mark_succeeded_resource_def split: option.splits if_splits dest!: connect_InrD)

lemma finished_kept:
  "d_discarded (finished op s fr t) = d_discarded op" "d_actor (finished op s fr t) = d_actor op"
  by (auto simp: finished_def apply_result_def stamp_def Let_def)

lemma new_op_costs:
  "d_previous_cost (new_op i rid who act (Some (prev, req)) res t) = Some prev"
  "d_discarded (new_op i rid who act costs res t) = d_discarded res"
  by (auto simp: new_op_def Let_def split: option.splits)

lemma released_flag: "d_discarded (released m Flag_discarded t op)"
  by (simp add: released_def set_flag_def stamp_def)

text \<open>Discarding gives back exactly what acceptance reserved. A deploy of an existing resource is
  accepted, planned and discarded, by whoever and whenever: the resource is again as it was, but for
  the pointer to the latest operation and a cost that is the amount it counted for before; every other
  resource is untouched, the operation has failed as discarded, and the plan file is gone.\<close>

theorem discard_restores_reservation:
  assumes "reachable s" "s_world s = w" and "res_find rid w = Some d" and "\<not> d_discarded res"
    and "accept who key intent res b gs t0 fresh w = (Inr op, w1)" "d_resource_id op = rid"
    and "intent_action intent = Deploy" "replay_tx who key (fingerprint intent) w = Inr None" "busy_row rid w = None"
    and "claim (d_id op) Plan_phase t1 w1 = (Inr (Some op1), w2)"
    and "finish op1 Planned fr t2 w2 = (Inr (), w3)"
    and "discard (d_id op) who3 t3 w3 = (Inr op3, w4)"
  shows "\<exists>q. accounting_amount (d_cost d) = Inr q \<and>
     res_find rid w4 = Some (d\<lparr>d_cost := JNum q, d_operation_id := Some (d_id op)\<rparr>) \<and>
     (\<forall>j. j \<noteq> rid \<longrightarrow> res_find j w4 = res_find j w) \<and>
     d_state op3 = Some Failed \<and> d_discarded op3 \<and> plans w4 rid = None"
proof -
  have wf: "wf w" using reachable_wf [OF assms(1)] assms(2) by simp
  obtain prev req where prev: "accounting_amount (d_cost d) = Inr prev"
    and op: "op = new_op (snd fresh) rid who Deploy (Some (prev, req)) (res\<lparr>d_team_revision := None\<rparr>) t0"
    and res1: "\<And>j. res_find j w1 = (if j = rid
        then Some (d\<lparr>d_cost := JNum (max prev req), d_operation_id := Some (d_id op)\<rparr>) else res_find j w)"
    by (rule accept_new_deploy [OF assms(5-9,3)]) blast
  have wf1: "wf w1" by (rule micros_wf [OF micros_pair [OF micros_accept [OF wf] assms(5)] wf])
  obtain r0 where r0: "r0 \<in> set (operations w1)" "r_id r0 = d_id op" "r_body r0 = op"
    using accept_row [OF wf assms(5)] by blast
  then have find1: "op_find (d_id op) w1 = Some r0" using wf1 by (simp add: op_find_wf)
  obtain r where r: "op_find (d_id op) w1 = Some r" "op1 = stamp t1 ((r_body r)\<lparr>d_state := Some Planning\<rparr>)"
    "d_id op1 = d_id op"
    and w2: "w2 = event (Some (d_id op)) worker_actor Ev_state (To_state Planning) t1 (save_op op1 w1)"
    by (rule claimD [OF wf1 assms(10)]) (simp add: phase_states_def)
  have op1: "op1 = stamp t1 (op\<lparr>d_state := Some Planning\<rparr>)" using r find1 r0 by simp
  have dep1: "d_action op1 = Deploy" by (simp add: op1 op stamp_def)
  have find2: "op_find (d_id op1) w2 = Some (r0\<lparr>r_state := Planning, r_body := op1\<rparr>)"
    using find1 by (simp add: w2 frame_simps table_simps r(3)) (simp add: op1 stamp_def)
  have body3: "op_body (d_id op) w3 = Some (finished op1 Planned fr t2)"
    using finish_row [OF assms(11) find2] by (simp add: r(3)) (simp add: op1 stamp_def)
  have disc: "\<not> d_discarded (finished op1 Planned fr t2)"
    using assms(4) by (simp add: finished_kept op1 op new_op_costs stamp_def)
  obtain op0 where op0: "op_body (d_id op) w3 = Some op0" and op3: "op3 = released msg_discarded Flag_discarded t3 op0"
    and w4: "w4 = snd (release_plan op0 who3 Ev_discard msg_discarded Flag_discarded True t3 w3)"
    by (rule discardD [OF assms(12)]) (use body3 disc in auto)
  have op0': "op0 = finished op1 Planned fr t2" using op0 body3 by simp
  have rid: "d_resource_id op0 = rid" and act: "d_action op0 = Deploy" and pc: "d_previous_cost op0 = Some prev"
    by (simp_all add: op0' op1 op stamp_def new_op_costs)
  have res3: "res_find j w3 = res_find j w1" for j
    using finish_planned_frame(1) [OF assms(11) dep1, of j] by (simp add: w2 frame_simps)
  have "res_find j w4 = (if j = rid then Some (d\<lparr>d_cost := JNum prev, d_operation_id := Some (d_id op)\<rparr>)
      else res_find j w)" for j
    unfolding w4 released_resource [OF act pc] by (simp add: rid res3 res1)
  moreover have "plans w4 rid = None" unfolding w4 using released_plan_file [of op0] by (simp add: rid)
  ultimately show ?thesis using prev by (simp add: op3 released_flag)
qed

text \<open>An update of the database of the demo run, planned and then discarded.\<close>

definition upd_body :: json where
  "upd_body = canonical_intent (demo_intent\<lparr>i_resource_id := Some ''res_1''\<rparr>)"

definition upd_request :: doc where
  "upd_request = demo_request\<lparr>d_cost := JNum 50, d_previous_operation_id := Some ''op_1''\<rparr>"

definition upd_op :: doc where
  "upd_op = upd_request\<lparr>d_id := ''op_2'', d_resource_id := ''res_1'', d_actor := ''amy'',
     d_state := Some Queued, d_created_at := 70, d_updated_at := 70, d_previous_cost := Some 30\<rparr>"

definition upd_row :: "doc \<Rightarrow> op_row" where
  "upd_row op = \<lparr>r_id = ''op_2'', r_resource_id = ''res_1'', r_actor = ''amy'', r_request_key = ''k2'',
     r_fingerprint = fingerprint upd_body, r_state = the (d_state op), r_body = op\<rparr>"

definition upd_world :: "doc \<Rightarrow> event_row list \<Rightarrow> world" where
  "upd_world op es = (demo_world demo_applied demo_ready 6)
     \<lparr>operations := [demo_row demo_applied, upd_row op],
      resources := [(''res_1'', demo_ready\<lparr>d_cost := JNum 50, d_operation_id := Some ''op_2''\<rparr>)],
      events := es\<rparr>"

definition upd_event :: "nat \<Rightarrow> string \<Rightarrow> ev_action \<Rightarrow> ev_outcome \<Rightarrow> nat \<Rightarrow> event_row" where
  "upd_event n who act out t = (demo_event n who act out t)\<lparr>e_operation_id := Some ''op_2''\<rparr>"

definition upd_events :: "event_row list" where
  "upd_events = demo_events @ [upd_event 7 ''amy'' Ev_create Accepted 70]"

definition upd_planning :: doc where
  "upd_planning = upd_op\<lparr>d_state := Some Planning, d_updated_at := 80\<rparr>"

lemmas upd_defs = upd_request_def upd_op_def upd_row_def upd_world_def upd_event_def upd_events_def
  upd_planning_def

lemma upd_intent_simps: "intent_action upd_body = Deploy" "intent_resource_id upd_body = Some ''res_1''"
  by (simp_all add: upd_body_def) (simp_all add: demo_intent_def)

lemma upd_accept:
  "accept ''amy'' ''k2'' upd_body upd_request (Some demo_budget) None 70 (''x'', ''op_2'')
     (demo_world demo_applied demo_ready 6) = (Inr upd_op, upd_world upd_op upd_events)"
  by (simp add: accept_def connect_def accept_tx_def replay_tx_def check_placement_def enabled_def
      db_source_def demo_defs upd_defs upd_intent_simps target_resource_def clear_blocker_def busy_row_def
      admission_def deploy_costs_def accounting_amount_def float_limit_def budget_check_def
      reserved_tx_def counted_def row_find_Cons op_conflict_def
      res_find_def write_acceptance_def insert_op_def Let_def event_def new_op_def
      unlink_blocker_def put_resource_def row_replace_def resource_after_accept_def)

definition upd_plan :: doc where
  "upd_plan = upd_planning\<lparr>d_state := Some Planned, d_updated_at := 90, d_planned_at := Some 90,
     d_plan_digest := Some ''d1'', d_changes := Some [],
     d_planned_objects := Some [(''azurerm_postgresql'', ''db'')]\<rparr>"

definition upd_events3 :: "event_row list" where
  "upd_events3 = upd_events @ [upd_event 8 worker_actor Ev_state (To_state Planning) 80,
     upd_event 9 worker_actor Ev_state (To_state Planned) 90]"

lemma upd_claim:
  "claim ''op_2'' Plan_phase 80 (upd_world upd_op upd_events) =
     (Inr (Some upd_planning), upd_world upd_planning (take 8 upd_events3))"
  by (simp add: claim_def claim_tx_def demo_ops demo_defs upd_defs phase_states_def worker_actor_def
      upd_events3_def)

lemma upd_finish:
  "finish upd_planning Planned demo_planned 90 (upd_world upd_planning (take 8 upd_events3)) =
     (Inr (), upd_world upd_plan upd_events3)"
  by (simp add: finish_def finish_tx_def finished_def apply_result_def override_def demo_ops demo_defs
      upd_defs worker_actor_def upd_events3_def upd_plan_def)

theorem discard_restores_reservation_witness:
  "\<exists>op3 w4. discard ''op_2'' ''amy'' 95 (upd_world upd_plan upd_events3) = (Inr op3, w4) \<and>
     res_find ''res_1'' w4 = Some (demo_ready\<lparr>d_cost := JNum 30, d_operation_id := Some ''op_2''\<rparr>) \<and>
     d_discarded op3"
proof -
  let ?w = "demo_world demo_applied demo_ready 6"
  have w: "s_world (demo_sys ?w [demo_applying, demo_planning]) = ?w" by (simp add: demo_sys_def)
  have ready: "res_find ''res_1'' ?w = Some demo_ready"
    by (simp add: res_find_def demo_world_simps row_find_Cons)
  have free: "busy_row ''res_1'' ?w = None"
    by (simp add: busy_row_def demo_world_simps)
  have nd: "\<not> d_discarded upd_request" and rid: "d_resource_id upd_op = ''res_1''" and oid: "d_id upd_op = ''op_2''"
    by (simp_all add: demo_defs upd_defs)
  have new: "replay_tx ''amy'' ''k2'' (fingerprint upd_body) ?w = Inr None"
    by (simp add: replay_tx_def demo_defs)
  obtain op3 w4 where disc: "discard ''op_2'' ''amy'' 95 (upd_world upd_plan upd_events3) = (Inr op3, w4)"
    by (simp add: discard_def discard_tx_def release_plan_def demo_ops demo_defs upd_defs upd_plan_def)
  have cost: "accounting_amount (d_cost demo_ready) = Inr 30"
    by (simp add: demo_defs accounting_amount_def float_limit_def)
  show ?thesis
    using discard_restores_reservation [OF demo_reachable6 w ready nd upd_accept rid upd_intent_simps(1) new free
        _ upd_finish] upd_claim disc oid
    by (simp add: cost)
qed

section \<open>Batches\<close>

definition executing :: "doc \<Rightarrow> bool" where
  "executing op \<longleftrightarrow> d_state op \<in> {Some Apply_queued, Some Applying, Some Succeeded}"

lemma execute_tx_ok:
  assumes "wf w" "execute_tx i digest who t w = (Inr (op, False), w')"
  shows "op_body i w' = Some op \<and> executing op \<and> d_plan_digest op = Some digest \<and>
     (\<forall>j. j \<noteq> i \<longrightarrow> op_body j w' = op_body j w)"
proof -
  from assms(2) obtain op0 where op0: "op_body i w = Some op0"
    by (auto simp: execute_tx_def split: option.splits)
  obtain r where r: "op_find i w = Some r" "r_body r = op0" "d_id op0 = i"
    using op_body_wf [OF assms(1) op0] by blast
  show ?thesis
    using assms(2) op0 r
    by (auto simp: execute_tx_def Let_def executing_def op_body_def frame_simps table_simps stamp_def
        split: if_splits sum.splits)
qed

lemma execute_all_ok:
  assumes "wf w" "execute_all items who t w = (Inr ops, w')" "distinct (map fst items)"
  shows "list_all2 (\<lambda>x op. op_body (fst x) w' = Some op \<and> executing op \<and> d_plan_digest op = Some (snd x)) items ops \<and>
     (\<forall>j. j \<notin> fst ` set items \<longrightarrow> op_body j w' = op_body j w)"
  using assms
proof (induction items arbitrary: w ops)
  case Nil
  then show ?case by simp
next
  case (Cons a items)
  obtain i digest where a: "a = (i, digest)" by fastforce
  obtain x w1 where c: "execute_tx i digest who t w = (x, w1)" by fastforce
  from Cons.prems(2) c obtain op ops' where x: "x = Inr (op, False)" and rest: "execute_all items who t w1 = (Inr ops', w')"
    and ops: "ops = op # ops'"
    by (auto simp: a split: sum.splits prod.splits bool.splits)
  have wf1: "wf w1" by (rule micros_wf [OF micros_pair [OF micros_execute_tx [OF Cons.prems(1)] c] Cons.prems(1)])
  note one = execute_tx_ok [OF Cons.prems(1) c [unfolded x]]
  from Cons.IH [OF wf1 rest] Cons.prems(3) one show ?case
    by (auto simp: a ops)
qed

lemma execute_batchD:
  "execute_batch items who a t w = (Inr ops, w') \<Longrightarrow>
     \<exists>w1. execute_all items who t w = (Inr ops, w1) \<and> (\<forall>j. op_body j w' = op_body j w1)"
  by (auto simp: execute_batch_def op_body_def frame_simps split: prod.splits sum.splits option.splits)

lemma check_refs_no_abort: "check_refs rs w \<noteq> Inl (Expired_abort i)"
  by (induction rs w rule: check_refs.induct)
    (auto simp: reference_error_def split: option.splits sum.splits if_splits)

definition stale_plan :: "nat \<Rightarrow> world \<Rightarrow> string \<Rightarrow> string \<Rightarrow> bool" where
  "stale_plan t w i digest \<longleftrightarrow> (\<exists>op. op_body i w = Some op \<and> d_plan_digest op = Some digest \<and>
     d_state op = Some Planned \<and> expired t w op)"

lemma execute_tx_stale:
  "execute_tx i digest who t w = (Inr (op, True), w') \<Longrightarrow> stale_plan t w i digest"
  "fst (execute_tx i digest who t w) \<noteq> Inl (Expired_abort j)"
  by (auto simp: execute_tx_def Let_def stale_plan_def check_refs_no_abort
      split: option.splits sum.splits if_splits)

lemma execute_all_stale:
  assumes "wf w" "execute_all items who t w = (Inl (Expired_abort i), w')" "distinct (map fst items)"
  shows "\<exists>digest. (i, digest) \<in> set items \<and> stale_plan t w i digest"
  using assms
proof (induction items arbitrary: w)
  case (Cons a items)
  obtain j digest where a: "a = (j, digest)" by fastforce
  obtain x w1 where c: "execute_tx j digest who t w = (x, w1)" by fastforce
  show ?case
  proof (cases x)
    case (Inl e)
    with Cons.prems(2) c show ?thesis
      using execute_tx_stale(2) [of j digest who t w i] by (simp add: a)
  next
    case (Inr y)
    obtain op late where y: "y = (op, late)" by fastforce
    show ?thesis
    proof (cases late)
      case True
      with Cons.prems(2) c Inr y have "i = j" by (simp add: a)
      with execute_tx_stale(1) c Inr y True show ?thesis by (auto simp: a)
    next
      case False
      have m: "micros True w w1" by (rule micros_pair [OF micros_execute_tx [OF Cons.prems(1)] c])
      have rest: "execute_all items who t w1 = (Inl (Expired_abort i), w')"
        using Cons.prems(2) c Inr y False by (auto simp: a split: sum.splits prod.splits)
      obtain d where d: "(i, d) \<in> set items" "stale_plan t w1 i d"
        using Cons.IH [OF micros_wf [OF m Cons.prems(1)] rest] Cons.prems(3) by auto
      have "execute_tx j digest who t w = (Inr (op, False), w1)" using c Inr y False by simp
      note one = execute_tx_ok [OF Cons.prems(1) this]
      have "i \<noteq> j" using d(1) Cons.prems(3) by (auto simp: a rev_image_eqI)
      moreover have "cfg w1 = cfg w" using micros_evolves [OF m Cons.prems(1)] by (simp add: evolves_def)
      ultimately have "stale_plan t w i d"
        using d(2) one
        by (auto simp: stale_plan_def expired_def)
      with d(1) show ?thesis by auto
    qed
  qed
qed simp

lemma same_tables_cfg: "same_tables w w' \<Longrightarrow> cfg w' = cfg w"
  by (cases w; cases w') (auto simp: same_tables_def)

lemma execute_stale:
  assumes "wf w" "stale_plan t w i digest" "execute i digest who t w = (x, w')" "db_sqlite (cfg w)"
  shows "x = Inl (OperationError 409 Plan_expired (Some i)) \<and>
    (\<exists>op. op_body i w' = Some op \<and> d_state op = Some Failed \<and> d_expired op)"
proof -
  obtain op where op: "op_body i w = Some op" "d_plan_digest op = Some digest" "d_state op = Some Planned" "expired t w op"
    using assms(2) by (auto simp: stale_plan_def)
  obtain r where r: "op_find i w = Some r" "r_body r = op" "d_id op = i"
    using op_body_wf [OF assms(1) op(1)] by blast
  have "x = Inl (OperationError 409 Plan_expired (Some i))"
    and w': "w' = snd (release_plan op who Ev_expire msg_expired Flag_expired True t w)"
    using assms(3,4) op r(3) by (auto simp: execute_def connect_def execute_tx_def expire_def release_plan_def Let_def)
  moreover have "op_body i w' = Some (released msg_expired Flag_expired t op)"
    using released_row [of op] r by (simp add: w' op_body_def)
  ultimately show ?thesis by (simp add: released_def set_flag_def stamp_def)
qed

lemma same_tables_find:
  "same_tables w w' \<Longrightarrow> op_find i w' = op_find i w \<and> res_find i w' = res_find i w \<and> events w' = events w"
  by (cases w; cases w') (auto simp: same_tables_def op_find_def res_find_def)

lemma execute_many_ok:
  assumes "wf w" "distinct (map fst items)" "execute_many items who a t w = (Inr ops, w')"
  shows "list_all2 (\<lambda>x op. op_body (fst x) w' = Some op \<and> executing op \<and> d_plan_digest op = Some (snd x)) items ops \<and>
    (\<forall>j. j \<notin> fst ` set items \<longrightarrow> op_body j w' = op_body j w)"
proof -
  have "connect (execute_batch items who a t) w = (Inr ops, w')"
    using assms(3) by (auto simp: execute_many_def split: sum.splits prod.splits err.splits option.splits)
  then have "execute_batch items who a t w = (Inr ops, w')" by (auto dest: connect_InrD)
  from execute_batchD [OF this] execute_all_ok [OF assms(1) _ assms(2)] show ?thesis by auto
qed

lemma wf_same_tables: "same_tables w w' \<Longrightarrow> wf w \<Longrightarrow> wf w'"
  by (cases w; cases w') (auto simp: same_tables_def wf_def exec_ok_def)

text \<open>Approving a batch of plans is all or nothing. When it is accepted, every operation named is
  queued to apply (or already past that) with exactly the digest the request named, and no other
  operation has changed. When it is refused no table has changed, except that a plan of the batch found
  expired is then failed on its own.\<close>

theorem execute_many_all_or_nothing:
  assumes "reachable s" "s_world s = w" and "distinct (map fst items)"
  shows "case execute_many items who a t w of
    (Inr ops, w') \<Rightarrow> list_all2 (\<lambda>x op. op_body (fst x) w' = Some op \<and> executing op \<and> d_plan_digest op = Some (snd x)) items ops \<and>
       (\<forall>j. j \<notin> fst ` set items \<longrightarrow> op_body j w' = op_body j w)
  | (Inl e, w') \<Rightarrow> same_tables w w' \<or>
       (\<exists>i op. i \<in> fst ` set items \<and> e = OperationError 409 Plan_expired (Some i) \<and>
          op_body i w' = Some op \<and> d_state op = Some Failed \<and> d_expired op)"
proof -
  have wf: "wf w" using reachable_wf [OF assms(1)] assms(2) by simp
  obtain x w1 where c: "connect (execute_batch items who a t) w = (x, w1)" by fastforce
  show ?thesis
  proof (cases x)
    case (Inr ops)
    with c have "execute_batch items who a t w = (Inr ops, w1)" by (auto dest: connect_InrD)
    from execute_batchD [OF this] execute_all_ok [OF wf _ assms(3)] c Inr show ?thesis
      by (auto simp: execute_many_def)
  next
    case (Inl e)
    with c have same: "same_tables w w1" by (auto intro: connect_error_keeps_tables)
    show ?thesis
    proof (cases "\<exists>i. e = Expired_abort i")
      case False
      with same c Inl show ?thesis by (cases e) (auto simp: execute_many_def)
    next
      case True
      then obtain i where e: "e = Expired_abort i" by blast
      have db: "db_sqlite (cfg w)" and "\<exists>w2. execute_all items who t w = (Inl (Expired_abort i), w2)"
        using c Inl e by (auto simp: connect_def execute_batch_def split: if_splits prod.splits sum.splits)
      then obtain digest where d: "(i, digest) \<in> set items" "stale_plan t w i digest"
        using execute_all_stale [OF wf _ assms(3)] by blast
      have map: "map_of items i = Some digest" using d(1) assms(3) by simp
      have stale: "stale_plan t w1 i digest"
        using d(2) same_tables_find [OF same] same_tables_cfg [OF same]
        by (simp add: stale_plan_def op_body_def expired_def)
      obtain y w2 where y: "execute i digest who t w1 = (y, w2)" by fastforce
      have i: "i \<in> fst ` set items" using d(1) by (auto simp: rev_image_eqI)
      have "y = Inl (OperationError 409 Plan_expired (Some i)) \<and>
          (\<exists>op. op_body i w2 = Some op \<and> d_state op = Some Failed \<and> d_expired op)"
        by (rule execute_stale [OF wf_same_tables [OF same wf] stale y]) (use db same_tables_cfg [OF same] in simp)
      then show ?thesis using c Inl e map y i by (auto simp: execute_many_def)
    qed
  qed
qed

theorem execute_many_all_or_nothing_witness:
  "list_all2 (\<lambda>x op. executing op \<and> d_plan_digest op = Some (snd x)) [(''op_1'', ''d1'')] [demo_approved]"
proof -
  let ?w = "demo_world demo_plan demo_resource 3"
  have w: "s_world (demo_sys ?w [demo_planning]) = ?w" by (simp add: demo_sys_def)
  obtain w' where "execute_many [(''op_1'', ''d1'')] ''bob'' None 40 ?w = (Inr [demo_approved], w')"
    by (simp add: execute_many_def execute_batch_def execute_tx_def expired_def plan_expires_at_def demo_ops demo_defs)
  with execute_many_all_or_nothing [OF demo_reachable3 w, of "[(''op_1'', ''d1'')]" "''bob''" None 40]
  show ?thesis by simp
qed

end
