(* ===== verification/WorkerProperties.thy ===== *)
theory WorkerProperties
  imports LifecycleProperties
begin

text \<open>
  Worker reports, drift checks and reconciliation: a report counts once, a drift check is read-only
  but for its verdict, and an operator settles an uncertain operation once.
\<close>

section \<open>Worker reports\<close>

lemma finish_stale:
  assumes "\<And>r. op_find (d_id op) w = Some r \<Longrightarrow> Some (r_state r) \<noteq> d_state op"
  shows "snd (finish op st fr t w) = w"
  using assms by (auto simp: finish_def finish_tx_def connect_def split: option.splits)

lemma finish_moves:
  assumes "finish op st fr t w = (x, w1)" "op_find (d_id op) w = Some r" "Some (r_state r) = d_state op"
    "db_sqlite (cfg w)"
  shows "\<exists>r1. op_find (d_id op) w1 = Some r1 \<and> r_state r1 = st"
  using assms
  by (auto simp: finish_def finish_tx_def connect_def Let_def frame_simps table_simps record_drift_check_def
      restore_reservation_def mark_succeeded_resource_def split: option.splits if_splits)

lemma worker_outcome_next: "worker_outcome op st \<Longrightarrow> \<exists>s0. d_state op = Some s0 \<and> next_state s0 st"
  by (auto simp: worker_outcome_def next_state_def split: if_splits)

lemma next_state_neq: "next_state a b \<Longrightarrow> next_state\<^sup>*\<^sup>* b c \<Longrightarrow> c \<noteq> a"
  using next_state_rank next_state_rtrancl_rank by fastforce

lemma moved_on:
  assumes "next_state\<^sup>*\<^sup>* a b" "b \<noteq> a" "next_state\<^sup>*\<^sup>* b c"
  shows "c \<noteq> a"
  using assms next_state_acyclic by blast

text \<open>After one report of a claimed operation its row is no longer in the state the worker claimed.\<close>

lemma finish_fence:
  assumes s: "reachable s" and op: "op \<in> set (s_claims s)" and out: "worker_outcome op st"
    and fin: "finish op st fr t (s_world s) = (x, w1)" and db: "db_sqlite (cfg (s_world s))"
  shows "\<exists>r1 s0. d_state op = Some s0 \<and> op_find (d_id op) w1 = Some r1 \<and> next_state\<^sup>*\<^sup>* s0 (r_state r1) \<and> r_state r1 \<noteq> s0"
proof -
  have "claim_ok (s_world s) op" using ledger.reach_inv [OF s] op by (simp add: sys_inv_def)
  then obtain s0 r where c: "d_state op = Some s0" "op_find (d_id op) (s_world s) = Some r" "next_state\<^sup>*\<^sup>* s0 (r_state r)"
    by (auto simp: claim_ok_def)
  show ?thesis
  proof (cases "r_state r = s0")
    case True
    obtain r1 where r1: "op_find (d_id op) w1 = Some r1" "r_state r1 = st"
      using finish_moves [OF fin c(2) _ db] True c(1) by auto
    moreover have "next_state s0 st" using worker_outcome_next [OF out] c(1) by simp
    ultimately show ?thesis using c(1) next_state_neq by blast
  next
    case False
    with fin c have "w1 = s_world s" using finish_stale [of op "s_world s" st fr t] by simp
    with c False show ?thesis by auto
  qed
qed

text \<open>C19. A worker's report counts once. After a worker has reported on an operation it claimed, no
  later report on that claim changes anything, whatever has happened in between and whatever the
  report says: a retried or late activity cannot overwrite a result, a reconciliation or an
  interruption.\<close>

theorem report_counts_once:
  assumes "reachable s" "op \<in> set (s_claims s)" "worker_outcome op st"
    and "finish op st fr t (s_world s) = (x, w1)" and "steps ledger_step (s\<lparr>s_world := w1\<rparr>) s2"
  shows "snd (finish op st' fr' t' (s_world s2)) = s_world s2"
proof (cases "db_sqlite (cfg (s_world s))")
  case True
  let ?s1 = "s\<lparr>s_world := w1\<rparr>"
  have "ledger_step s (s\<lparr>s_world := snd (finish op st fr t (s_world s))\<rparr>)"
    using assms(2,3) by (rule ls_finish)
  with assms(1,4) have r1: "reachable ?s1" by (auto intro: reach_step)
  from finish_fence [OF assms(1-4) True] obtain r s0 where r: "d_state op = Some s0" "op_find (d_id op) w1 = Some r"
    "next_state\<^sup>*\<^sup>* s0 (r_state r)" "r_state r \<noteq> s0" by blast
  have "evolves w1 (s_world s2)" using ledger.steps_rel [OF assms(5) ledger.reach_inv [OF r1]] by simp
  with r(2) obtain r2 where r2: "op_find (d_id op) (s_world s2) = Some r2" "next_state\<^sup>*\<^sup>* (r_state r) (r_state r2)"
    by (auto simp: evolves_def row_evolves_def)
  have "r_state r2 \<noteq> s0" using moved_on [OF r(3,4) r2(2)] .
  with r(1) r2(1) show ?thesis by (intro finish_stale) auto
next
  case False
  then have w1: "w1 = s_world s" using assms(4) by (simp add: finish_def connect_def)
  have "cfg (s_world s2) = cfg w1"
    using ledger.steps_rel [OF assms(5)] ledger.reach_inv [OF assms(1)] w1 by (simp add: evolves_def)
  with False w1 show ?thesis by (simp add: finish_def connect_def)
qed

theorem report_counts_once_witness:
  "snd (finish demo_planning Failed no_result 35 (demo_world demo_plan demo_resource 3)) =
     demo_world demo_plan demo_resource 3"
proof -
  let ?s = "demo_sys (demo_world demo_planning demo_resource 2) [demo_planning]"
  have "demo_planning \<in> set (s_claims ?s)" by (simp add: demo_sys_def)
  from report_counts_once [OF demo_reachable2 this demo_outcomes(1), of demo_planned 30 "Inr ()"
      "demo_world demo_plan demo_resource 3" _ Failed no_result 35] steps_refl
  show ?thesis by (fastforce simp: demo_sys_def demo_finish_plan)
qed

section \<open>Drift checks\<close>

text \<open>A resource without its drift verdict.\<close>

definition drift_free :: "doc \<Rightarrow> doc" where
  "drift_free d = d\<lparr>d_drift_status := None, d_drift_checked_at := None, d_drift := None, d_drift_error := None\<rparr>"

definition only_drift :: "world \<Rightarrow> world \<Rightarrow> bool" where
  "only_drift w w' \<longleftrightarrow> (\<forall>j. map_option drift_free (res_find j w') = map_option drift_free (res_find j w))"

lemma only_drift_refl [simp]: "only_drift w w"
  by (simp add: only_drift_def)

lemma only_drift_same_resources: "resources w' = resources w \<Longrightarrow> only_drift w w'"
  by (simp add: only_drift_def res_find_def)

lemma drift_free_verdict [simp]: "drift_free (drift_verdict op s t d) = drift_free d"
  by (simp add: drift_free_def drift_verdict_def Let_def split: if_splits)

lemma only_drift_record: "only_drift w (record_drift_check op s t w)"
  by (auto simp: only_drift_def record_drift_check_def table_simps split: option.splits)

lemma only_drift_trans: "only_drift u v \<Longrightarrow> only_drift v w \<Longrightarrow> only_drift u w"
  by (simp add: only_drift_def)

lemma only_drift_connect: "only_drift w (snd (f w)) \<Longrightarrow> only_drift w (snd (connect f w))"
  by (auto simp: connect_def only_drift_def frame_simps split: prod.splits sum.splits)

lemma only_drift_record_after: "resources v = resources w \<Longrightarrow> only_drift w (record_drift_check op s t v)"
  using only_drift_trans [OF only_drift_same_resources only_drift_record] .

lemma accept_drift_resources:
  assumes "accept who key intent res b gs t fresh w = (Inr op, w')" "intent_action intent = Drift_check"
    "busy_row (target_resource intent fresh) w = None"
  shows "resources w' = resources w"
  using assms(1)
proof (rule acceptD)
  fix bl w1
  assume tx: "accept_tx who key intent res b gs t fresh w = (Inr (op, bl), w1)" and w': "w' = unlink_blocker bl w1"
  from tx show ?thesis
  proof (cases rule: accept_tx_cases)
    case replayed
    with w' show ?thesis by (simp add: frame_simps)
  next
    case (fresh w0 costs)
    from fresh(3) assms(3) have "w0 = w" by (simp add: clear_blocker_def)
    with write_acceptanceD(2) [OF fresh(5)] assms(2) w' show ?thesis
      by (auto simp: frame_simps dest!: insert_op_frame(1))
  qed
qed

lemma only_drift_finish: "d_action op = Drift_check \<Longrightarrow> only_drift w (snd (finish op st fr t w))"
  unfolding finish_def
  by (intro only_drift_connect)
    (auto simp: finish_tx_def Let_def frame_simps split: option.splits
      intro!: only_drift_record_after intro: only_drift_same_resources)

lemma only_drift_interrupted:
  "d_action op = Drift_check \<Longrightarrow> op_body i w = Some op \<Longrightarrow> only_drift w (snd (interrupted i p t w))"
  unfolding interrupted_def
  by (intro only_drift_connect)
    (auto simp: interrupted_tx_def Let_def op_body_def frame_simps split: option.splits
      intro!: only_drift_record_after intro: only_drift_same_resources)

lemma only_drift_claim: "only_drift w (snd (claim i p t w))"
  unfolding claim_def
  by (intro only_drift_connect)
    (auto simp: claim_tx_def Let_def frame_simps split: option.splits intro: only_drift_same_resources)

text \<open>A drift check is read-only. Requesting one (on a resource whose way is free) writes no
  resource; claiming it, finishing it with any result or interrupting it changes nothing of any
  resource but the drift verdict: state, definition, outputs, cost and latest operation stay.\<close>

theorem drift_check_read_only:
  assumes "op_body i w = Some op" "d_action op = Drift_check"
    and "intent_action intent = Drift_check" "busy_row (target_resource intent fresh) w' = None"
    and "accept who key intent res b gs t0 fresh w' = (Inr op', w'')"
  shows "only_drift w' w'' \<and> only_drift w (snd (claim i p t1 w)) \<and> only_drift w (snd (finish op st fr t2 w)) \<and>
    only_drift w (snd (interrupted i p t3 w))"
  using only_drift_same_resources [OF accept_drift_resources [OF assms(5,3,4)]] only_drift_claim
    only_drift_finish [OF assms(2)] only_drift_interrupted [OF assms(2,1)] by blast

text \<open>A drift check of the demo database.\<close>

definition chk_body :: json where
  "chk_body = JObj [(''action'', JStr ''drift_check''), (''resource_id'', JStr ''res_1'')]"

definition chk_request :: doc where
  "chk_request = demo_request\<lparr>d_previous_operation_id := Some ''op_1''\<rparr>"

lemma chk_accept:
  "\<exists>op w'. accept ''amy'' ''k3'' chk_body chk_request None None 70 (''x'', ''op_3'')
     (demo_world demo_applied demo_ready 6) = (Inr op, w') \<and> d_action op = Drift_check \<and> op_body ''op_3'' w' = Some op"
  by (simp add: accept_def connect_def accept_tx_def replay_tx_def check_placement_def enabled_def
      db_source_def demo_defs chk_request_def chk_body_def intent_action_def intent_resource_id_def
      target_resource_def clear_blocker_def busy_row_def admission_def deploy_costs_def budget_check_def
      row_find_Cons op_conflict_def res_find_def write_acceptance_def insert_op_def Let_def event_def
      new_op_def unlink_blocker_def op_body_def op_find_def)

theorem drift_check_read_only_witness:
  "\<exists>op w'. op_body ''op_3'' w' = Some op \<and> only_drift (demo_world demo_applied demo_ready 6) w' \<and>
     only_drift w' (snd (finish op Succeeded no_result 80 w'))"
proof -
  let ?w = "demo_world demo_applied demo_ready 6"
  obtain op w' where a: "accept ''amy'' ''k3'' chk_body chk_request None None 70 (''x'', ''op_3'') ?w = (Inr op, w')"
    "d_action op = Drift_check" "op_body ''op_3'' w' = Some op" using chk_accept by blast
  have i: "intent_action chk_body = Drift_check" "target_resource chk_body (''x'', ''op_3'') = ''res_1''"
    by (simp_all add: chk_body_def intent_action_def target_resource_def intent_resource_id_def)
  have "busy_row (target_resource chk_body (''x'', ''op_3'')) ?w = None"
    by (simp add: busy_row_def demo_world_simps)
  from drift_check_read_only [OF a(3,2) i(1) this a(1), of _ _ Succeeded no_result 80] a(3) show ?thesis by blast
qed

section \<open>Reconciliation\<close>

lemma reconciled_simps [simp]:
  "d_reconciliation (reconciled op who outc why t) =
     Some \<lparr>rec_outcome = outc, rec_actor = who, rec_reason = why, rec_at = t\<rparr>"
  "d_resource_id (reconciled op who outc why t) = d_resource_id op"
  "d_action (reconciled op who outc why t) = d_action op"
  "d_previous_cost (reconciled op who outc why t) = d_previous_cost op"
  by (simp_all add: reconciled_def stamp_def)

lemma succeeded_resource_simps:
  "d_state (succeeded_resource op prev ds t) = Some (if d_action op = Destroy then Destroyed else Ready)"
  "d_drift_status (succeeded_resource op prev ds t) = (if d_action op = Destroy then None else Some ds)"
  "d_id (succeeded_resource op prev ds t) = d_resource_id op"
  "d_reconciliation (succeeded_resource op prev ds t) = d_reconciliation op"
  "d_operation_id (succeeded_resource op prev ds t) = Some (d_id op)"
  by (simp_all add: succeeded_resource_def Let_def)

text \<open>An operator settles an uncertain operation. A reconciliation as failed fails the operation
  and gives its reservation back; as succeeded it marks the resource deployed (or destroyed) with its
  drift unknown, and is refused when no plan was ever saved. Either way who, why and when are
  recorded, and repeating it with the same outcome changes nothing while the other one is refused.\<close>

theorem reconcile_settles:
  assumes "reachable s" "s_world s = w" and "db_sqlite (cfg w)" and "op_body i w = Some op"
    and "d_state op = Some Uncertain" "d_reconciliation op = None"
  shows "if outc = O_succeeded \<and> (d_plan_digest op = None \<or> d_plan_digest op = Some [])
    then reconcile i who outc why t w = (Inl (HTTPException 409), w)
    else \<exists>w'. reconcile i who outc why t w = (Inr (reconciled op who outc why t), w') \<and>
      op_body i w' = Some (reconciled op who outc why t) \<and>
      (\<forall>d. res_find (d_resource_id op) w = Some d \<longrightarrow> (\<exists>d'. res_find (d_resource_id op) w' = Some d' \<and>
         (if outc = O_succeeded
          then d_state d' = Some (if d_action op = Destroy then Destroyed else Ready) \<and>
            d_drift_status d' = (if d_action op = Destroy then None else Some Unknown)
          else d_state d' = d_state d \<and> (d_action op = Deploy \<longrightarrow>
            (\<forall>q. d_previous_cost op = Some q \<longrightarrow> d_cost d' = JNum q))))) \<and>
      reconcile i who2 outc why2 t2 w' = (Inr (reconciled op who outc why t), w') \<and>
      (\<forall>outc2. outc2 \<noteq> outc \<longrightarrow> reconcile i who2 outc2 why2 t2 w' = (Inl (HTTPException 409), w'))"
proof -
  have wf: "wf w" using reachable_wf [OF assms(1)] assms(2) by simp
  obtain r where r: "op_find i w = Some r" "r_body r = op" "d_id op = i"
    using op_body_wf [OF wf assms(4)] by blast
  show ?thesis
  proof (cases "outc = O_succeeded \<and> (d_plan_digest op = None \<or> d_plan_digest op = Some [])")
    case True
    with assms(3-6) show ?thesis by (auto simp: reconcile_def connect_def reconcile_tx_def)
  next
    case False
    let ?op = "reconciled op who outc why t"
    let ?w2 = "event (Some i) who Ev_state (To_state (outcome_state outc)) t
      (save_op ?op (event (Some i) who Ev_reconcile Accepted t w))"
    let ?w' = "if outc = O_succeeded then mark_succeeded_resource ?op Unknown t ?w2 else restore_reservation ?op ?w2"
    have res: "reconcile i who outc why t w = (Inr ?op, ?w')"
      using assms(3-6) False r(3) by (auto simp: reconcile_def connect_def reconcile_tx_def Let_def)
    have cfg': "cfg ?w' = cfg w"
      by (simp add: mark_succeeded_resource_def restore_reservation_def frame_simps split: option.splits)
    have body: "op_body i ?w' = Some ?op"
      using r by (simp add: op_body_def frame_simps table_simps)
    have again: "reconcile i who2 outc2 why2 t2 ?w' =
        (if outc2 = outc then Inr ?op else Inl (HTTPException 409), ?w')" for outc2
      using assms(3) cfg' unfolding reconcile_def connect_def reconcile_tx_def body
      by simp
    have resource: "\<exists>d'. res_find (d_resource_id op) ?w' = Some d' \<and>
         (if outc = O_succeeded
          then d_state d' = Some (if d_action op = Destroy then Destroyed else Ready) \<and>
            d_drift_status d' = (if d_action op = Destroy then None else Some Unknown)
          else d_state d' = d_state d \<and> (d_action op = Deploy \<longrightarrow>
            (\<forall>q. d_previous_cost op = Some q \<longrightarrow> d_cost d' = JNum q)))"
      if d: "res_find (d_resource_id op) w = Some d" for d
    proof (cases "outc = O_succeeded")
      case True
      with d show ?thesis
        by (simp add: mark_succeeded_resource_def frame_simps table_simps succeeded_resource_simps)
    next
      case False
      with d show ?thesis
        by (simp add: restore_reservation_def frame_simps table_simps split: option.splits)
    qed
    have both: "reconcile i who2 outc why2 t2 ?w' = (Inr ?op, ?w')"
      "\<forall>outc2. outc2 \<noteq> outc \<longrightarrow> reconcile i who2 outc2 why2 t2 ?w' = (Inl (HTTPException 409), ?w')"
      using again by simp_all
    show ?thesis unfolding if_not_P [OF False]
      by (rule exI [of _ ?w'], intro conjI allI impI res body resource both(1) both(2) [rule_format])
  qed
qed

definition lost_failed :: doc where
  "lost_failed = demo_lost\<lparr>d_state := Some Failed, d_updated_at := 90, d_error := Some msg_reconciled_failed,
     d_reconciliation := Some \<lparr>rec_outcome = O_failed, rec_actor = ''ops'', rec_reason = ''checked'', rec_at = 90\<rparr>\<rparr>"

theorem reconcile_settles_witness:
  "\<exists>w'. reconcile ''op_1'' ''ops'' O_failed ''checked'' 90 demo_lost_world = (Inr lost_failed, w') \<and>
     reconcile ''op_1'' ''ops'' O_failed ''checked'' 91 w' = (Inr lost_failed, w')"
proof -
  have w: "s_world (demo_sys demo_lost_world [demo_applying, demo_planning]) = demo_lost_world"
    by (simp add: demo_sys_def)
  have db: "db_sqlite (cfg demo_lost_world)"
    by (simp add: demo_lost_world_def demo_defs)
  have body: "op_body ''op_1'' demo_lost_world = Some demo_lost"
    by (simp add: demo_lost_world_def op_body_def op_find_def demo_world_simps row_find_Cons)
  have st: "d_state demo_lost = Some Uncertain" "d_reconciliation demo_lost = None"
    by (simp_all add: demo_lost_def demo_defs)
  have "reconciled demo_lost ''ops'' O_failed ''checked'' 90 = lost_failed"
    by (simp add: reconciled_def stamp_def lost_failed_def outcome_state_def demo_lost_def)
  with reconcile_settles [OF demo_reachable_lost w db body st, of O_failed "''ops''" "''checked''" 90 "''ops''" "''checked''" 91]
  show ?thesis by auto
qed

end
