(* ===== verification/AppLedgerProperties.thy ===== *)
theory AppLedgerProperties
  imports Acceptance
begin

text \<open>
  App rollouts in the ledger: an app is accepted with every replica or not at all, and its later
  requests answer once.
\<close>

text \<open>The rows an acceptance leaves behind stay, whatever the same transaction accepts next.\<close>

definition has_request :: "string \<Rightarrow> string \<Rightarrow> json \<Rightarrow> doc \<Rightarrow> world \<Rightarrow> bool" where
  "has_request who key intent op w \<longleftrightarrow> (\<exists>r. op_find (d_id op) w = Some r \<and> r_actor r = who \<and>
     r_request_key r = key \<and> r_fingerprint r = fingerprint intent \<and> r_resource_id r = d_resource_id op)"

lemma has_request_evolves: "has_request who key intent op w \<Longrightarrow> evolves w w' \<Longrightarrow> has_request who key intent op w'"
  by (fastforce simp: has_request_def evolves_def row_evolves_def)

lemma accept_tx_request:
  assumes wf: "wf w" and tx: "accept_tx who key intent res b gs t fresh w = (Inr (op, bl), w')"
  shows "has_request who key intent op w'"
  using tx
proof (cases rule: accept_tx_cases)
  case replayed
  then obtain r where "r \<in> set (operations w)" "r_actor r = who" "r_request_key r = key"
    "r_fingerprint r = fingerprint intent" "r_body r = op"
    by (auto dest: replay_tx_SomeD)
  moreover from this have "d_id op = r_id r" "d_resource_id op = r_resource_id r"
    using wf by (auto simp: wf_def ops_ok_def row_ok_def)
  ultimately show ?thesis using replayed wf by (auto simp: has_request_def op_find_wf)
next
  case (fresh w0 costs)
  have wf': "wf w'" by (rule micros_wf [OF micros_pair [OF micros_accept_tx [OF wf] tx] wf])
  let ?r = "\<lparr>r_id = snd fresh, r_resource_id = target_resource intent fresh, r_actor = who,
    r_request_key = key, r_fingerprint = fingerprint intent, r_state = Queued, r_body = op\<rparr>"
  from write_acceptanceD(2) [OF fresh(5)] have "?r \<in> set (operations w')"
    by (auto simp: frame_simps dest!: insert_op_frame(2))
  then have "op_find (r_id ?r) w' = Some ?r" using wf' op_find_wf by blast
  then show ?thesis using write_acceptanceD(1) [OF fresh(5)] by (auto simp: has_request_def)
qed

lemma accept_items_requests:
  assumes "wf w" "accept_items who its t w = (Inr (ops, bls), w')"
  shows "list_all2 (\<lambda>it x. fst x = it_index it \<and> has_request who (it_key it) (it_intent it) (snd x) w') its ops"
  using assms
proof (induction its arbitrary: w ops bls)
  case Nil
  then show ?case by simp
next
  case (Cons it its)
  obtain x w1 where c: "accept_tx who (it_key it) (it_intent it) (it_resolved it) (it_budget it) None t (it_fresh it) w = (x, w1)"
    by fastforce
  with Cons.prems(2) obtain op bl where x: "x = Inr (op, bl)" by (auto split: sum.splits)
  with Cons.prems(2) c obtain ops' bls' where rest: "accept_items who its t w1 = (Inr (ops', bls'), w')"
    and ops: "ops = (it_index it, op) # ops'"
    by (auto split: sum.splits prod.splits)
  have wf1: "wf w1" by (rule micros_wf [OF micros_pair [OF micros_accept_tx [OF Cons.prems(1)] c] Cons.prems(1)])
  have "has_request who (it_key it) (it_intent it) op w1"
    using accept_tx_request [OF Cons.prems(1)] c x by simp
  moreover have "evolves w1 w'" by (rule micros_evolves [OF micros_pair [OF micros_accept_items [OF wf1] rest] wf1])
  ultimately have "has_request who (it_key it) (it_intent it) op w'" by (rule has_request_evolves)
  with Cons.IH [OF wf1 rest] show ?case by (simp add: ops)
qed

lemma insert_appD:
  assumes "insert_app r w = (Inr u, w')"
  shows "w' = w\<lparr>apps := apps w @ [r]\<rparr>" "app_find (a_id r) w' = Some (a_body r)"
proof -
  from assms show w': "w' = w\<lparr>apps := apps w @ [r]\<rparr>" by (simp add: insert_app_def split: if_splits)
  have "row_find a_id (a_id r) (apps w) = None"
    using assms by (auto simp: insert_app_def row_find_None_iff list_ex_iff split: if_splits)
  then show "app_find (a_id r) w' = Some (a_body r)"
    by (simp add: w' app_find_def row_find_append row_find_Cons)
qed

lemma app_find_unlink_blockers [simp]: "app_find i (unlink_blockers bs w) = app_find i w"
  by (induction bs arbitrary: w) (auto simp: unlink_blockers_def frame_simps)

lemma op_find_unlink_blockers [simp]: "op_find i (unlink_blockers bs w) = op_find i w"
  by (induction bs arbitrary: w) (auto simp: unlink_blockers_def frame_simps)

lemma has_request_same: "\<forall>i. op_find i w' = op_find i w \<Longrightarrow> has_request who key intent op w' = has_request who key intent op w"
  by (simp add: has_request_def)

lemma replica_items_nth:
  assumes "length fresh = length replicas" "k < length replicas"
  shows "it_index (replica_items app_id replicas fresh ! k) = k \<and>
     it_key (replica_items app_id replicas fresh ! k) = system_key [app_id, ''replica'', nat_str k] \<and>
     it_intent (replica_items app_id replicas fresh ! k) = fst (replicas ! k)"
  using assms by (simp add: replica_items_def split: prod.splits)

lemma replica_items_length: "length fresh = length replicas \<Longrightarrow> length (replica_items app_id replicas fresh) = length replicas"
  by (simp add: replica_items_def)

text \<open>The outcome of an operation that keeps every table when it raises.\<close>

definition atomic_result :: "world \<Rightarrow> (err + 'a) \<times> world \<Rightarrow> bool" where
  "atomic_result w r = (case r of (Inl e, w') \<Rightarrow> same_tables w w' | (Inr x, w') \<Rightarrow> True)"

lemma atomic_connect: "atomic_result w (connect f w)"
  by (cases "connect f w"; cases "fst (connect f w)") (auto simp: atomic_result_def dest: connect_error_keeps_tables)

lemma atomic_then:
  "(\<And>e w'. g (Inl e, w') = (Inl e, w')) \<Longrightarrow> (\<And>x w'. \<exists>y w''. g (Inr x, w') = (Inr y, w'')) \<Longrightarrow>
     atomic_result w (g (connect f w))"
proof -
  assume a: "\<And>e w'. g (Inl e, w') = (Inl e, w')" and b: "\<And>x w'. \<exists>y w''. g (Inr x, w') = (Inr y, w'')"
  obtain r w' where c: "connect f w = (r, w')" by fastforce
  show ?thesis
  proof (cases r)
    case (Inl e)
    with c a show ?thesis by (auto simp: atomic_result_def intro: connect_error_keeps_tables)
  next
    case (Inr x)
    obtain y w'' where "g (Inr x, w') = (Inr y, w'')" using b by blast
    with c Inr show ?thesis by (simp add: atomic_result_def)
  qed
qed

text \<open>An app is accepted entirely or not at all. A refused request changes no table, so no replica
  of it exists. An accepted one is either the app already recorded for that key, with nothing changed,
  or a new app row without a router whose members are, in order, one operation per replica, each
  recorded under the replica's own key and intent.\<close>

theorem accept_app_all_or_nothing:
  assumes "reachable s" "s_world s = w" and "length fresh = length replicas"
  shows "case accept_app who key material replicas base t app_id fresh w of
    (Inl e, w') \<Rightarrow> same_tables w w'
  | (Inr a, w') \<Rightarrow> (w' = w \<and> replay_app_tx who key (fingerprint material) w = Inr (Some a)) \<or>
      (app_find app_id w' = Some a \<and> length (ap_members a) = length replicas \<and> ap_router_operation_id a = None \<and>
       (\<forall>k < length replicas. m_index (ap_members a ! k) = k \<and>
          (\<exists>op. m_operation_id (ap_members a ! k) = d_id op \<and> m_resource_id (ap_members a ! k) = d_resource_id op \<and>
             has_request who (system_key [app_id, ''replica'', nat_str k]) (fst (replicas ! k)) op w')))"
proof -
  have wf: "wf w" using reachable_wf [OF assms(1)] assms(2) by simp
  obtain x w1 where c: "connect (accept_app_tx who key material replicas base t app_id fresh) w = (x, w1)" by fastforce
  show ?thesis
  proof (cases x)
    case (Inl e)
    with c show ?thesis by (auto simp: accept_app_def intro: connect_error_keeps_tables)
  next
    case (Inr y)
    obtain a bls where y: "y = (a, bls)" by fastforce
    let ?its = "replica_items app_id replicas fresh"
    from c Inr y have tx: "accept_app_tx who key material replicas base t app_id fresh w = (Inr (a, bls), w1)"
      by (auto dest: connect_InrD)
    have out: "accept_app who key material replicas base t app_id fresh w = (Inr a, unlink_blockers bls w1)"
      using c Inr y by (simp add: accept_app_def)
    show ?thesis
    proof (cases "replay_app_tx who key (fingerprint material) w = Inr None")
      case False
      with tx have "bls = []" "w1 = w" "replay_app_tx who key (fingerprint material) w = Inr (Some a)"
        by (auto simp: accept_app_tx_def split: sum.splits option.splits)
      then show ?thesis by (simp add: out unlink_blockers_def)
    next
      case True
      obtain z w2 where items: "accept_items who ?its t w = (z, w2)" by fastforce
      with tx True obtain ops where z: "z = Inr (ops, bls)" and a: "a = new_app base app_id who (map member_of ops) t"
        and ins: "insert_app \<lparr>a_id = app_id, a_actor = who, a_request_key = key, a_fingerprint = fingerprint material, a_body = a\<rparr>
            (event (Some app_id) who Ev_app_create Accepted t w2) = (Inr (), w1)"
        by (auto simp: accept_app_tx_def Let_def split: sum.splits prod.splits)
      have reqs: "list_all2 (\<lambda>it x. fst x = it_index it \<and> has_request who (it_key it) (it_intent it) (snd x) w2) ?its ops"
        using accept_items_requests [OF wf] items z by simp
      have find: "\<forall>i. op_find i (unlink_blockers bls w1) = op_find i w2"
        by (simp add: insert_appD(1) [OF ins]) (simp add: op_find_def event_def)
      have len: "length ops = length replicas"
        using list_all2_lengthD [OF reqs] replica_items_length [OF assms(3)] by simp
      have "m_index (ap_members a ! k) = k \<and>
          (\<exists>op. m_operation_id (ap_members a ! k) = d_id op \<and> m_resource_id (ap_members a ! k) = d_resource_id op \<and>
             has_request who (system_key [app_id, ''replica'', nat_str k]) (fst (replicas ! k)) op (unlink_blockers bls w1))"
        if k: "k < length replicas" for k
        using list_all2_nthD2 [OF reqs, of k] k len replica_items_nth [OF assms(3) k, of app_id]
        by (auto simp: a new_app_def member_of_def has_request_same [OF find])
      then show ?thesis
        using insert_appD(2) [OF ins] len by (simp add: out) (simp add: a new_app_def)
    qed
  qed
qed

definition demo_router :: member_spec where
  "demo_router = \<lparr>sp_pattern = ''front-door'', sp_version = None, sp_size = None, sp_inputs = [],
     sp_labels = None, sp_replica_refs = [(''origin'', \<lparr>rr_replica = 0, rr_output = ''host''\<rparr>)]\<rparr>"

definition demo_app :: app where
  "demo_app = \<lparr>ap_id = [], ap_name = ''shop'', ap_actor = [], ap_labels = [],
     ap_business_unit_request = None, ap_environment_request = None, ap_caller_groups = [],
     ap_router_spec = demo_router, ap_primary = 0, ap_business_unit = Some ''retail'',
     ap_environment = Some ''dev'', ap_members = [], ap_router_operation_id = None,
     ap_router_resource_id = None, ap_router_operations = [], ap_failovers = [], ap_teardown = None,
     ap_teardowns = 0, ap_teardown_history = [], ap_error = None, ap_created_at = 0, ap_updated_at = 0\<rparr>"

definition demo_app_row :: app where
  "demo_app_row = demo_app\<lparr>ap_id := ''app_1'', ap_actor := ''amy'', ap_created_at := 10, ap_updated_at := 10,
     ap_members := [\<lparr>m_index = 0, m_operation_id = ''op_1'', m_resource_id = ''res_1''\<rparr>]\<rparr>"

lemma nat_str_0: "nat_str 0 = ''0''"
  by code_simp

text \<open>The demo database as the only replica of an app: accepted, then planned.\<close>

definition app_event :: "nat \<Rightarrow> string \<Rightarrow> ev_action \<Rightarrow> ev_outcome \<Rightarrow> nat \<Rightarrow> event_row" where
  "app_event n who act out t = (demo_event n who act out t)\<lparr>e_operation_id := Some ''app_1''\<rparr>"

definition app_events :: "event_row list" where
  "app_events = [demo_event 1 ''amy'' Ev_create Accepted 10, app_event 2 ''amy'' Ev_app_create Accepted 10,
     demo_event 3 worker_actor Ev_state (To_state Planning) 20,
     demo_event 4 worker_actor Ev_state (To_state Planned) 30]"

definition app_world :: "doc \<Rightarrow> nat \<Rightarrow> world" where
  "app_world op n = demo0\<lparr>operations := [(demo_row op)\<lparr>r_request_key := ''app_1|replica|0''\<rparr>],
     resources := [(''res_1'', demo_resource)], events := take n app_events,
     apps := [\<lparr>a_id = ''app_1'', a_actor = ''amy'', a_request_key = ''a1'',
                a_fingerprint = fingerprint (JStr ''shop''), a_body = demo_app_row\<rparr>]\<rparr>"

lemmas app_defs = app_event_def app_events_def app_world_def demo_app_row_def demo_app_def

lemma replica_key_0: "system_key [''app_1'', ''replica'', nat_str 0] = ''app_1|replica|0''"
  by (simp add: system_key_def nat_str_0)

lemma demo_accept_app:
  "accept_app ''amy'' ''a1'' (JStr ''shop'') [(demo_body, demo_request, Some demo_budget)] demo_app 10 ''app_1''
     [demo_fresh] demo0 = (Inr demo_app_row, app_world demo_op 2)"
  by (simp add: accept_app_def accept_app_tx_def replay_app_tx_def replica_items_def new_app_def member_of_def
      replica_key_0 insert_app_def unlink_blockers_def connect_def accept_tx_def replay_tx_def check_placement_def
      enabled_def db_source_def demo_defs app_defs demo_intent_simps target_resource_def clear_blocker_def
      busy_row_def admission_def deploy_costs_def accounting_amount_def float_limit_def budget_check_def
      reserved_tx_def res_find_def write_acceptance_def insert_op_def Let_def event_def new_op_def
      put_resource_def row_replace_def resource_after_accept_def numeral_eq_Suc)

lemma app_claim:
  "claim ''op_1'' Plan_phase 20 (app_world demo_op 2) = (Inr (Some demo_planning), app_world demo_planning 3)"
  by (simp add: claim_def claim_tx_def demo_ops demo_defs app_defs phase_states_def worker_actor_def)

lemma app_finish_plan:
  "finish demo_planning Planned demo_planned 30 (app_world demo_planning 3) = (Inr (), app_world demo_plan 4)"
  by (simp add: finish_def finish_tx_def finished_def apply_result_def override_def demo_ops demo_defs
      app_defs worker_actor_def)

lemma app_reachable1: "reachable (demo_sys (app_world demo_op 2) [])"
proof -
  have "ledger_step (demo_sys demo0 []) ((demo_sys demo0 [])\<lparr>s_world := snd (accept_app ''amy'' ''a1'' (JStr ''shop'')
      [(demo_body, demo_request, Some demo_budget)] demo_app 10 ''app_1'' [demo_fresh] (s_world (demo_sys demo0 [])))\<rparr>)"
    by (rule ls_accept_app) (simp add: unlinked_def demo_app_def)
  with demo_reachable0 show ?thesis
    by (auto simp: demo_sys_def demo_accept_app intro: reach_step)
qed

lemmas app_reachable2 = demo_step_claim [OF app_reachable1 app_claim]
lemmas app_reachable3 =
  demo_step_finish [OF app_reachable2 _ demo_outcomes(1) app_finish_plan, simplified]

lemma app_find_demo: "app_find ''app_1'' (app_world op n) = Some demo_app_row"
  by (simp add: app_find_def app_world_def row_find_Cons)

theorem accept_app_all_or_nothing_witness:
  "app_find ''app_1'' (app_world demo_op 2) = Some demo_app_row \<and>
     (\<exists>op. d_id op = ''op_1'' \<and> has_request ''amy'' ''app_1|replica|0'' demo_body op (app_world demo_op 2))"
proof -
  have w: "s_world (demo_sys demo0 []) = demo0" by (simp add: demo_sys_def)
  have new: "replay_app_tx ''amy'' ''a1'' (fingerprint (JStr ''shop'')) demo0 = Inr None"
    by (simp add: replay_app_tx_def demo0_def empty_world_def)
  have mem: "ap_members demo_app_row ! 0 = \<lparr>m_index = 0, m_operation_id = ''op_1'', m_resource_id = ''res_1''\<rparr>"
    by (simp add: demo_app_row_def)
  from accept_app_all_or_nothing [OF demo_reachable0 w, where fresh = "[demo_fresh]" and
      replicas = "[(demo_body, demo_request, Some demo_budget)]" and who = "''amy''" and key = "''a1''" and
      material = "JStr ''shop''" and base = demo_app and t = 10 and app_id = "''app_1''"]
  show ?thesis by (auto simp: demo_accept_app new replica_key_0 mem)
qed

text \<open>A refused request changes no table. Whatever goes wrong inside a transaction of the ledger,
  every table is as it was before, so no refusal leaves half an operation, half an app or an audit entry
  behind (a plan file may be gone).\<close>

theorem refused_request_changes_nothing:
  "atomic_result w (accept who key intent res b gs t fresh w) \<and> atomic_result w (discard i who t w) \<and>
   atomic_result w (claim i p t w) \<and> atomic_result w (finish op st fr t w) \<and>
   atomic_result w (reconcile i who outc why t w) \<and> atomic_result w (interrupted i p t w) \<and>
   atomic_result w (accept_app who key material replicas base t i fr' w) \<and>
   atomic_result w (accept_router i intent res b t fresh w) \<and>
   atomic_result w (accept_failover who i key material router primary upd t fresh w) \<and>
   atomic_result w (accept_teardown c i key material router' upd t fresh w) \<and>
   atomic_result w (accept_teardown_replicas i its t fr' w) \<and> atomic_result w (fail_app i why rf t w) \<and>
   atomic_result w (fail_teardown i why rf t w)"
proof -
  have "atomic_result w (accept who key intent res b gs t fresh w)"
    unfolding accept_def by (rule atomic_then) auto
  moreover have "atomic_result w (accept_app who key material replicas base t i fr' w)"
    unfolding accept_app_def by (rule atomic_then) auto
  moreover have "atomic_result w (accept_router i intent res b t fresh w)"
    unfolding accept_router_def by (rule atomic_then) auto
  moreover have "atomic_result w (accept_failover who i key material router primary upd t fresh w)"
    unfolding accept_failover_def by (rule atomic_then) auto
  moreover have "atomic_result w (accept_teardown c i key material router' upd t fresh w)"
    unfolding accept_teardown_def by (rule atomic_then) auto
  moreover have "atomic_result w (accept_teardown_replicas i its t fr' w)"
    unfolding accept_teardown_replicas_def by (rule atomic_then) auto
  ultimately show ?thesis
    by (simp add: discard_def claim_def finish_def reconcile_def interrupted_def fail_app_def fail_teardown_def
        atomic_connect)
qed

end
