(* ===== verification/AppLinks.thy ===== *)
theory AppLinks
  imports AppLedgerProperties
begin

text \<open>
  The links of an app row: every operation it names exists in the ledger, in every reachable state.
  Only the app transactions write app rows, and each names operations it has just accepted or that the row named
  before; operations never vanish.
\<close>

definition router_links :: "app \<Rightarrow> string list" where
  "router_links a = ap_router_operations a @ (case ap_router_operation_id a of None \<Rightarrow> [] | Some i \<Rightarrow> [i])"

definition teardown_links :: "app \<Rightarrow> string list" where
  "teardown_links a = (case ap_teardown a of None \<Rightarrow> []
     | Some td \<Rightarrow> (case td_router td of None \<Rightarrow> [] | Some i \<Rightarrow> [i]) @
        (case td_replicas td of None \<Rightarrow> [] | Some is \<Rightarrow> is))"

definition app_links :: "app \<Rightarrow> string list" where
  "app_links a = map m_operation_id (ap_members a) @ router_links a @ teardown_links a"

definition links_exist :: "world \<Rightarrow> app \<Rightarrow> bool" where
  "links_exist w a \<longleftrightarrow> (\<forall>i \<in> set (app_links a). op_find i w \<noteq> None)"

definition linked :: "world \<Rightarrow> bool" where
  "linked w \<longleftrightarrow> (\<forall>r \<in> set (apps w). links_exist w (a_body r))"

lemma links_exist_evolves: "links_exist w a \<Longrightarrow> evolves w w' \<Longrightarrow> links_exist w' a"
  by (fastforce simp: links_exist_def evolves_def)

lemma linked_evolves: "linked w \<Longrightarrow> evolves w w' \<Longrightarrow> apps w' = apps w \<Longrightarrow> linked w'"
  by (auto simp: linked_def intro: links_exist_evolves)

lemma linked_save: "linked w \<Longrightarrow> links_exist w a \<Longrightarrow> linked (save_app a w)"
  by (auto simp: linked_def save_app_def set_row_update links_exist_def op_find_def)

lemma linked_find: "linked w \<Longrightarrow> app_find i w = Some a \<Longrightarrow> links_exist w a"
  by (auto simp: linked_def app_find_def dest!: row_find_SomeD)

section \<open>Transactions that write no app row\<close>

lemma apps_restore [simp]: "apps (restore_reservation op w) = apps w"
  by (simp add: restore_reservation_def frame_simps split: option.splits)

lemma apps_mark [simp]: "apps (mark_succeeded_resource op ds t w) = apps w"
  by (simp add: mark_succeeded_resource_def frame_simps)

lemma apps_drift [simp]: "apps (record_drift_check op s t w) = apps w"
  by (simp add: record_drift_check_def frame_simps split: option.splits)

lemma apps_release [simp]: "apps (snd (release_plan op who act m f u t w)) = apps w"
  by (simp add: release_plan_def Let_def frame_simps)

lemma apps_expire [simp]: "apps (snd (expire op who u t w)) = apps w"
  by (simp add: expire_def)

lemma apps_connect: "apps (snd (f w)) = apps w \<Longrightarrow> apps (snd (connect f w)) = apps w"
  by (auto simp: connect_def frame_simps split: prod.splits sum.splits)

lemma apps_unlink_blocker [simp]: "apps (unlink_blocker b w) = apps w"
  by (simp add: unlink_blocker_def frame_simps split: option.splits)

lemma apps_clear [simp]: "apps (snd (clear_blocker rid who t w)) = apps w"
  by (simp add: clear_blocker_def split: option.splits)

lemma apps_write [simp]: "apps (snd (write_acceptance who key i oid rid costs res t w)) = apps w"
  by (auto simp: write_acceptance_def Let_def insert_op_def frame_simps)

lemma apps_accept_tx [simp]: "apps (snd (accept_tx who key i res b gs t fresh w)) = apps w"
proof -
  obtain x w1 where c: "clear_blocker (target_resource i fresh) who t w = (x, w1)" by fastforce
  have w1: "apps w1 = apps w" using apps_clear [of "target_resource i fresh" who t w] c by simp
  have "apps w2 = apps w1" if "write_acceptance who key i oid rid costs res t w1 = (y, w2)" for oid rid costs res y w2
    using apps_write [of who key i oid rid costs res t w1] that by simp
  with w1 c show ?thesis
    by (auto simp: accept_tx_def Let_def split: sum.splits option.splits prod.splits)
qed

lemma apps_accept [simp]: "apps (snd (accept who key i res b gs t fresh w)) = apps w"
proof -
  obtain x w1 where c: "connect (accept_tx who key i res b gs t fresh) w = (x, w1)" by fastforce
  have "apps (snd (connect (accept_tx who key i res b gs t fresh) w)) = apps w"
    by (rule apps_connect) simp
  with c show ?thesis by (auto simp: accept_def split: sum.splits prod.splits)
qed

lemma apps_execute_tx [simp]: "apps (snd (execute_tx i d who t w)) = apps w"
  by (simp add: execute_tx_def Let_def frame_simps split: option.splits sum.splits)

lemma apps_execute [simp]: "apps (snd (execute i d who t w)) = apps w"
proof -
  obtain x w1 where c: "connect (execute_tx i d who t) w = (x, w1)" by fastforce
  have "apps (snd (connect (execute_tx i d who t) w)) = apps w" by (rule apps_connect) simp
  with c show ?thesis by (auto simp: execute_def split: sum.splits prod.splits)
qed

lemma apps_execute_all [simp]: "apps (snd (execute_all items who t w)) = apps w"
proof (induction items arbitrary: w)
  case (Cons a items)
  obtain i d where a: "a = (i, d)" by fastforce
  obtain x w1 where c: "execute_tx i d who t w = (x, w1)" by fastforce
  have w1: "apps w1 = apps w" using apps_execute_tx [of i d who t w] c by simp
  have rest: "apps w2 = apps w1" if "execute_all items who t w1 = (y, w2)" for y w2
    using Cons.IH [of w1] that by simp
  show ?case using w1 rest by (auto simp: a c split: sum.splits prod.splits bool.splits)
qed simp

lemma apps_execute_batch [simp]: "apps (snd (execute_batch items who a t w)) = apps w"
proof -
  obtain x w1 where c: "execute_all items who t w = (x, w1)" by fastforce
  with apps_execute_all [of items who t w] have "apps w1 = apps w" by simp
  with c show ?thesis
    by (auto simp: execute_batch_def frame_simps split: sum.splits option.splits)
qed

lemma apps_execute_many [simp]: "apps (snd (execute_many items who a t w)) = apps w"
proof -
  obtain x w1 where c: "connect (execute_batch items who a t) w = (x, w1)" by fastforce
  have "apps (snd (connect (execute_batch items who a t) w)) = apps w" by (rule apps_connect) simp
  with c have w1: "apps w1 = apps w" by simp
  have "apps w2 = apps w1" if "execute i d who t w1 = (y, w2)" for i d y w2
    using apps_execute [of i d who t w1] that by simp
  with w1 c show ?thesis
    by (auto simp: execute_many_def split: sum.splits prod.splits err.splits option.splits)
qed

lemma apps_discard [simp]: "apps (snd (discard i who t w)) = apps w"
  unfolding discard_def by (rule apps_connect) (simp add: discard_tx_def split: option.splits)

lemma apps_claim [simp]: "apps (snd (claim i p t w)) = apps w"
  unfolding claim_def by (rule apps_connect) (simp add: claim_tx_def Let_def frame_simps split: option.splits)

lemma apps_finish [simp]: "apps (snd (finish op s fr t w)) = apps w"
  unfolding finish_def by (rule apps_connect) (simp add: finish_tx_def Let_def frame_simps split: option.splits)

lemma apps_reconcile [simp]: "apps (snd (reconcile i who outc why t w)) = apps w"
  unfolding reconcile_def by (rule apps_connect) (simp add: reconcile_tx_def Let_def frame_simps split: option.splits)

lemma apps_interrupted [simp]: "apps (snd (interrupted i p t w)) = apps w"
  unfolding interrupted_def by (rule apps_connect) (simp add: interrupted_tx_def Let_def frame_simps split: option.splits)

lemma apps_stamp [simp]: "apps (snd (stamp_drift_refusal rid why u t w)) = apps w"
  unfolding stamp_drift_refusal_def by (rule apps_connect) (simp add: Let_def frame_simps split: option.splits)

lemma apps_refused [simp]: "apps (snd (refused who act t w)) = apps w"
  unfolding refused_def by (rule apps_connect) (simp add: frame_simps)

lemma apps_app_event [simp]: "apps (snd (record_app_event i who act out t w)) = apps w"
  unfolding record_app_event_def by (rule apps_connect) (simp add: frame_simps)

section \<open>App transactions\<close>

lemma linked_rollback [simp]: "linked (rollback w w') = linked w"
  by (simp add: linked_def links_exist_def frame_simps)

lemma linked_connect: "linked w \<Longrightarrow> linked (snd (f w)) \<Longrightarrow> linked (snd (connect f w))"
  by (auto simp: connect_def split: prod.splits sum.splits)

lemma linked_quiet: "apps w' = apps w \<Longrightarrow> operations w' = operations w \<Longrightarrow> linked w' = linked w"
  by (simp add: linked_def links_exist_def op_find_def)

lemma linked_unlink_blocker [simp]: "linked (unlink_blocker b w) = linked w"
  by (rule linked_quiet) (simp_all add: frame_simps)

lemma linked_unlink_blockers [simp]: "linked (unlink_blockers bs w) = linked w"
  by (induction bs arbitrary: w) (simp_all add: unlink_blockers_def linked_quiet [OF unlink_plan_frame(3) unlink_plan_frame(1)])

lemma linked_event [simp]: "linked (event a b c d t w) = linked w"
  by (rule linked_quiet) (simp_all add: frame_simps)

lemma links_event [simp]: "links_exist (event a b c d t w) x = links_exist w x"
  by (simp add: links_exist_def frame_simps)

lemma op_find_save_app [simp]: "op_find i (save_app a w) = op_find i w"
  by (simp add: save_app_def op_find_def)

text \<open>One acceptance inside a transaction: the app rows stay, the links stay good, and the new
  operation exists.\<close>

lemma linked_accept_tx:
  assumes "wf w" "linked w" "accept_tx who key i res b gs t fresh w = (x, w')"
  shows "linked w'" "\<And>a. links_exist w a \<Longrightarrow> links_exist w' a"
    "x = Inr (op, bl) \<Longrightarrow> op_find (d_id op) w' \<noteq> None" "wf w'"
proof -
  have m: "micros True w w'" by (rule micros_pair [OF micros_accept_tx [OF assms(1)] assms(3)])
  have ev: "evolves w w'" by (rule micros_evolves [OF m assms(1)])
  show "linked w'" using linked_evolves [OF assms(2) ev] apps_accept_tx assms(3) by (metis snd_conv)
  show "links_exist w' a" if "links_exist w a" for a using links_exist_evolves [OF that ev] .
  show "op_find (d_id op) w' \<noteq> None" if "x = Inr (op, bl)"
    using accept_tx_request [OF assms(1) assms(3) [unfolded that]] by (auto simp: has_request_def)
  show "wf w'" by (rule micros_wf [OF m assms(1)])
qed

lemma apps_accept_items: "accept_items who its t w = (x, w') \<Longrightarrow> apps w' = apps w"
proof (induction its arbitrary: w x)
  case (Cons it its)
  obtain y w1 where c: "accept_tx who (it_key it) (it_intent it) (it_resolved it) (it_budget it) None t (it_fresh it) w = (y, w1)"
    by fastforce
  have w1: "apps w1 = apps w"
    using apps_accept_tx [of who "it_key it" "it_intent it" "it_resolved it" "it_budget it" None t "it_fresh it" w] c by simp
  obtain z w2 where d: "accept_items who its t w1 = (z, w2)" by fastforce
  with Cons.IH w1 Cons.prems c show ?case by (auto split: sum.splits prod.splits)
qed simp

lemma linked_accept_items:
  assumes "wf w" "linked w" "accept_items who its t w = (x, w')"
  shows "linked w'" "\<And>a. links_exist w a \<Longrightarrow> links_exist w' a"
    "x = Inr (ops, bls) \<Longrightarrow> \<forall>y \<in> set ops. op_find (d_id (snd y)) w' \<noteq> None"
proof -
  have m: "micros True w w'" by (rule micros_pair [OF micros_accept_items [OF assms(1)] assms(3)])
  have ev: "evolves w w'" by (rule micros_evolves [OF m assms(1)])
  show "linked w'" using linked_evolves [OF assms(2) ev apps_accept_items [OF assms(3)]] .
  show "links_exist w' a" if "links_exist w a" for a using links_exist_evolves [OF that ev] .
  show "\<forall>y \<in> set ops. op_find (d_id (snd y)) w' \<noteq> None" if "x = Inr (ops, bls)"
    using accept_items_requests [OF assms(1)] assms(3) that
    by (fastforce simp: list_all2_conv_all_nth in_set_conv_nth has_request_def)
qed

lemma linked_accept_app:
  assumes wf: "wf w" and l: "linked w" and u: "unlinked base"
  shows "linked (snd (accept_app who key m rs base t i fr w))"
proof -
  obtain x w1 where c: "connect (accept_app_tx who key m rs base t i fr) w = (x, w1)" by fastforce
  have "linked (snd (accept_app_tx who key m rs base t i fr w))"
  proof -
    obtain y w2 where items: "accept_items who (replica_items i rs fr) t w = (y, w2)" by fastforce
    note li = linked_accept_items [OF wf l items]
    have "linked w3" if y: "y = Inr (ops, bls)" and ins: "insert_app r (event (Some i) who Ev_app_create Accepted t w2) = (Inr q, w3)"
      and r: "a_body r = new_app base i who (map member_of ops) t" for ops bls r q w3
    proof -
      have "links_exist w2 (a_body r)"
        using li(3) [OF y] u
        by (auto simp: r links_exist_def app_links_def router_links_def teardown_links_def new_app_def unlinked_def member_of_def)
      moreover have "apps w3 = apps w2 @ [r] \<and> operations w3 = operations w2"
        using insert_appD(1) [OF ins] by (simp add: event_def)
      ultimately show ?thesis using li(1) by (auto simp: linked_def links_exist_def op_find_def)
    qed
    moreover have "linked w3" if "y = Inr z" and "insert_app r (event (Some i) who Ev_app_create Accepted t w2) = (Inl e, w3)"
      for z r e w3 using that li(1) by (auto simp: insert_app_def split: if_splits)
    ultimately show ?thesis using l li(1) items
      by (auto simp: accept_app_tx_def Let_def split: sum.splits option.splits prod.splits)
  qed
  with c l have "linked w1" using linked_connect [of w "accept_app_tx who key m rs base t i fr"] by simp
  with c show ?thesis by (auto simp: accept_app_def split: sum.splits prod.splits)
qed

lemma linked_accept_router:
  assumes wf: "wf w" and l: "linked w"
  shows "linked (snd (accept_router i intent res b t fresh w))"
proof -
  obtain x w1 where c: "connect (accept_router_tx i intent res b t fresh) w = (x, w1)" by fastforce
  have "linked (snd (accept_router_tx i intent res b t fresh w))"
  proof (cases "app_find i w")
    case (Some a)
    obtain y w2 where acc: "accept_tx (ap_actor a) (system_key [i, ''router'']) intent res b None t fresh w = (y, w2)" by fastforce
    note la = linked_accept_tx [OF wf l acc]
    have "links_exist w2 (stamp_app t (a\<lparr>ap_router_operation_id := Some (d_id op), ap_router_resource_id := rr\<rparr>))"
      if "y = Inr (op, bl)" for op bl rr
      using la(2) [OF linked_find [OF l Some]] la(3) [OF that]
      by (auto simp: links_exist_def app_links_def router_links_def teardown_links_def stamp_app_def)
    with la(1) l show ?thesis
      by (auto simp: accept_router_tx_def Some acc Let_def split: sum.splits prod.splits intro!: linked_save)
  qed (simp add: accept_router_tx_def l)
  with c l have "linked w1" using linked_connect [of w "accept_router_tx i intent res b t fresh"] by simp
  with c show ?thesis by (auto simp: accept_router_def split: sum.splits prod.splits)
qed

lemma linked_link_failover:
  assumes wf: "wf w" and l: "linked w" and a: "links_exist w a" and h: "router_history a = Inr h"
  shows "linked (snd (link_failover who i key m router p a h t fresh w))"
proof -
  obtain y w2 where acc: "accept_tx who (system_key [i, ''router'', nat_str (length h)]) (fst router)
      (fst (snd router)) (snd (snd router)) None t fresh w = (y, w2)" by fastforce
  note la = linked_accept_tx [OF wf l acc]
  have "set h \<subseteq> set (app_links a)"
    using h by (auto simp: router_history_def app_links_def router_links_def split: if_splits option.splits)
  then have "links_exist w2 (with_failover a h (d_id op) p k mm t)" if "y = Inr (op, bl)" for op bl k mm
    using la(2) [OF a] la(3) [OF that]
    by (auto simp: links_exist_def app_links_def router_links_def teardown_links_def with_failover_def stamp_app_def)
  with la(1) show ?thesis
    by (auto simp: link_failover_def acc Let_def split: sum.splits prod.splits intro!: linked_save)
qed

lemma linked_accept_failover:
  assumes wf: "wf w" and l: "linked w"
  shows "linked (snd (accept_failover who i key m router p u t fresh w))"
proof -
  obtain x w1 where c: "connect (accept_failover_tx who i key m router p u t fresh) w = (x, w1)" by fastforce
  have "linked (snd (accept_failover_tx who i key m router p u t fresh w))"
  proof (cases "app_find i w")
    case (Some a)
    then show ?thesis
      using l linked_link_failover [OF wf l linked_find [OF l Some]]
      by (auto simp: accept_failover_tx_def app_for_update_def split: option.splits sum.splits)
  qed (simp add: accept_failover_tx_def l)
  with c l have "linked w1" using linked_connect [of w "accept_failover_tx who i key m router p u t fresh"] by simp
  with c show ?thesis by (auto simp: accept_failover_def split: sum.splits prod.splits)
qed

lemma linked_link_teardown:
  assumes wf: "wf w" and l: "linked w" and a: "links_exist w a"
  shows "linked (snd (link_teardown cl i key m router a t fresh w))"
proof (cases router)
  case None
  have "links_exist w (with_teardown a cl key m None t)"
    using a by (auto simp: links_exist_def app_links_def router_links_def teardown_links_def with_teardown_def
        stamp_app_def Let_def)
  with l None show ?thesis
    by (auto simp: link_teardown_def teardown_router_def Let_def intro!: linked_save)
next
  case (Some rt)
  obtain ii res b where rt: "rt = (ii, res, b)" using prod_cases3 by blast
  obtain y w2 where acc: "accept_tx (caller_id cl) (system_key [i, ''teardown'', nat_str (ap_teardowns a + 1), ''router''])
      ii res b None t fresh w = (y, w2)" by fastforce
  note la = linked_accept_tx [OF wf l acc]
  have "links_exist w2 (with_teardown a cl key m (Some (d_id op)) t)" if "y = Inr (op, bl)" for op bl
    using la(2) [OF a] la(3) [OF that]
    by (auto simp: links_exist_def app_links_def router_links_def teardown_links_def with_teardown_def
        stamp_app_def Let_def)
  with la(1) acc show ?thesis
    by (auto simp: link_teardown_def teardown_router_def Some rt Let_def split: sum.splits prod.splits
        intro!: linked_save)
qed

lemma linked_accept_teardown:
  assumes wf: "wf w" and l: "linked w"
  shows "linked (snd (accept_teardown cl i key m router u t fresh w))"
proof -
  obtain x w1 where c: "connect (accept_teardown_tx cl i key m router u t fresh) w = (x, w1)" by fastforce
  have "linked (snd (accept_teardown_tx cl i key m router u t fresh w))"
  proof (cases "app_find i w")
    case (Some a)
    then show ?thesis
      using l linked_link_teardown [OF wf l linked_find [OF l Some]]
      by (auto simp: accept_teardown_tx_def app_for_update_def split: option.splits sum.splits)
  qed (simp add: accept_teardown_tx_def l)
  with c l have "linked w1" using linked_connect [of w "accept_teardown_tx cl i key m router u t fresh"] by simp
  with c show ?thesis by (auto simp: accept_teardown_def split: sum.splits prod.splits)
qed

lemma linked_accept_teardown_replicas:
  assumes wf: "wf w" and l: "linked w"
  shows "linked (snd (accept_teardown_replicas i its t fr w))"
proof -
  obtain x w1 where c: "connect (accept_teardown_replicas_tx i its t fr) w = (x, w1)" by fastforce
  have "linked (snd (accept_teardown_replicas_tx i its t fr w))"
  proof (cases "app_find i w")
    case (Some a)
    show ?thesis
    proof (cases "ap_teardown a")
      case td: (Some td)
      obtain y w2 where items: "accept_items (td_actor td) (teardown_items i (ap_teardowns a) its fr) t w = (y, w2)" by fastforce
      note li = linked_accept_items [OF wf l items]
      have "links_exist w2 (stamp_app t (a\<lparr>ap_teardown := Some (td\<lparr>td_replicas := Some (map (\<lambda>x. d_id (snd x)) ops)\<rparr>)\<rparr>))"
        if "y = Inr (ops, bls)" for ops bls
        using li(2) [OF linked_find [OF l Some]] li(3) [OF that]
        by (auto simp: links_exist_def app_links_def router_links_def teardown_links_def stamp_app_def td)
      with li(1) l show ?thesis
        by (auto simp: accept_teardown_replicas_tx_def Some td items Let_def split: sum.splits prod.splits
            intro!: linked_save)
    qed (simp add: accept_teardown_replicas_tx_def l Some)
  qed (simp add: accept_teardown_replicas_tx_def l)
  with c l have "linked w1" using linked_connect [of w "accept_teardown_replicas_tx i its t fr"] by simp
  with c show ?thesis by (auto simp: accept_teardown_replicas_def split: sum.splits prod.splits)
qed

lemma links_error:
  "links_exist w a \<Longrightarrow> links_exist w (stamp_app t (a\<lparr>ap_error := e\<rparr>))"
  by (simp add: links_exist_def app_links_def router_links_def teardown_links_def stamp_app_def)

lemma links_td_error:
  "links_exist w a \<Longrightarrow> ap_teardown a = Some td \<Longrightarrow>
     links_exist w (stamp_app t (a\<lparr>ap_teardown := Some (td\<lparr>td_error := e\<rparr>)\<rparr>))"
  by (simp add: links_exist_def app_links_def router_links_def teardown_links_def stamp_app_def)

lemma linked_fail_app: "linked w \<Longrightarrow> linked (snd (fail_app i why r t w))"
  unfolding fail_app_def
  by (rule linked_connect) (simp_all add: Let_def linked_save links_error linked_find split: option.splits)

lemma linked_fail_teardown: "linked w \<Longrightarrow> linked (snd (fail_teardown i why r t w))"
  unfolding fail_teardown_def
  by (rule linked_connect) (simp_all add: Let_def linked_save links_td_error linked_find split: option.splits)

section \<open>Every reachable ledger\<close>

lemma ledger_step_linked:
  assumes step: "ledger_step s s'" and inv: "sys_inv s" and l: "linked (s_world s)"
  shows "linked (s_world s')"
proof -
  have ev: "evolves (s_world s) (s_world s')" by (rule micros_evolves [OF ledger_step_micros [OF step inv]]) (use inv in \<open>simp add: sys_inv_def\<close>)
  have wf: "wf (s_world s)" using inv by (simp add: sys_inv_def)
  from step show ?thesis
  proof cases
    case (ls_claim i p t r w')
    then have "apps w' = apps (s_world s)" using apps_claim [of i p t "s_world s"] by simp
    with ls_claim ev l show ?thesis by (auto intro: linked_evolves)
  qed (use ev l wf team_ops_frame inv in \<open>auto simp: sys_inv_def intro: linked_evolves linked_accept_app linked_accept_router linked_accept_failover
      linked_accept_teardown linked_accept_teardown_replicas linked_fail_app linked_fail_teardown\<close>)
qed

interpretation linked_ledger: invariant_system initial ledger_step "\<lambda>s. sys_inv s \<and> linked (s_world s)"
proof unfold_locales
  fix s assume "initial s"
  then show "sys_inv s \<and> linked (s_world s)"
    by (auto simp: ledger.inv_init initial_def empty_world_def linked_def)
next
  fix s t assume "sys_inv s \<and> linked (s_world s)" "ledger_step s t"
  then show "sys_inv t \<and> linked (s_world t)"
    by (auto intro: ledger_step_inv ledger_step_linked)
qed

lemma reachable_links: "reachable s \<Longrightarrow> app_find i (s_world s) = Some a \<Longrightarrow> links_exist (s_world s) a"
  using linked_ledger.reach_inv linked_find by blast

end
