(* ===== verification/Apps.thy ===== *)
theory Apps
  imports Policy AppSteps
begin

text \<open>
  \<^verbatim>\<open>app/apps.py\<close>: an app's state is derived from the operations of its members, router, failovers
  and teardown; approvals are gated on that state; failover, destroy and discard build ordinary
  requests. \<open>ops\<close> is the dict \<^verbatim>\<open>load\<close> returns: a missing operation is a \<open>KeyError\<close>.
\<close>

section \<open>Which operations belong to an app\<close>

type_synonym ops = "string \<Rightarrow> doc option"

definition op_state :: "ops \<Rightarrow> string \<Rightarrow> err + state" where
  "op_state ops i = (case ops i of
      None \<Rightarrow> Inl KeyError
    | Some d \<Rightarrow> (case d_state d of None \<Rightarrow> Inl KeyError | Some s \<Rightarrow> Inr s))"

definition router_ops :: "app \<Rightarrow> string list" where
  "router_ops a =
    (if ap_router_operations a \<noteq> [] then ap_router_operations a
     else if or_empty (ap_router_operation_id a) \<noteq> [] then [or_empty (ap_router_operation_id a)] else [])"

definition replica_op_ids :: "app \<Rightarrow> string list" where
  "replica_op_ids a = map m_operation_id (ap_members a)"

definition td_router_id :: "teardown \<Rightarrow> string option" where
  "td_router_id td = (if or_empty (td_router td) \<noteq> [] then td_router td else None)"

definition teardown_ids :: "app \<Rightarrow> string list" where
  "teardown_ids a = (case ap_teardown a of
      None \<Rightarrow> []
    | Some td \<Rightarrow> (case td_router_id td of None \<Rightarrow> [] | Some i \<Rightarrow> [i]) @
        (case td_replicas td of None \<Rightarrow> [] | Some is \<Rightarrow> is))"

definition app_op_ids :: "app \<Rightarrow> string list" where
  "app_op_ids a = replica_op_ids a @ router_ops a @ teardown_ids a"

definition load_ops :: "app \<Rightarrow> world \<Rightarrow> ops" where
  "load_ops a w = operations_by_id (app_op_ids a) w"

text \<open>A loop that looks each operation up and keeps those in a state.\<close>

fun ids_in_state :: "state \<Rightarrow> ops \<Rightarrow> string list \<Rightarrow> err + string list" where
  "ids_in_state s ops [] = Inr []"
| "ids_in_state s ops (i # is) =
     sbind (op_state ops i) (\<lambda>st. sbind (ids_in_state s ops is) (\<lambda>rest.
       Inr (if st = s then i # rest else rest)))"

definition queued_ids :: "app \<Rightarrow> ops \<Rightarrow> err + string list" where
  "queued_ids a ops = ids_in_state Queued ops (app_op_ids a)"

definition planned_ids :: "app \<Rightarrow> ops \<Rightarrow> err + string list" where
  "planned_ids a ops = ids_in_state Planned ops (app_op_ids a)"

text \<open>\<^verbatim>\<open>current_router\<close>: the newest router operation that has not failed; the first is never skipped.\<close>

fun newest_live :: "ops \<Rightarrow> string list \<Rightarrow> err + string option" where
  "newest_live ops [] = Inr None"
| "newest_live ops (i # is) =
     sbind (op_state ops i) (\<lambda>s. if s \<noteq> Failed then Inr (Some i) else newest_live ops is)"

definition current_router :: "app \<Rightarrow> ops \<Rightarrow> err + string option" where
  "current_router a ops = (case router_ops a of
      [] \<Rightarrow> Inr None
    | first # later \<Rightarrow> sbind (newest_live ops (rev later)) (\<lambda>r. Inr (case r of None \<Rightarrow> Some first | Some i \<Rightarrow> Some i)))"

definition initial_primary :: "member_spec \<Rightarrow> nat" where
  "initial_primary spec = (case find (\<lambda>r. has_prefix ''primary_'' (fst r)) (sp_replica_refs spec) of
      None \<Rightarrow> 0 | Some r \<Rightarrow> rr_replica (snd r))"

fun newest_succeeded :: "ops \<Rightarrow> string list \<Rightarrow> err + string option" where
  "newest_succeeded ops [] = Inr None"
| "newest_succeeded ops (i # is) =
     sbind (op_state ops i) (\<lambda>s. if s = Succeeded then Inr (Some i) else newest_succeeded ops is)"

text \<open>\<^verbatim>\<open>{f["operation_id"]: f["primary"] for f in ...}\<close>: a later entry replaces an earlier one.\<close>

definition failover_targets :: "app \<Rightarrow> (string \<times> nat) list" where
  "failover_targets a = dict_merge [] (map (\<lambda>f. (fo_operation_id f, fo_primary f)) (ap_failovers a))"

definition primary_of :: "app \<Rightarrow> ops \<Rightarrow> err + nat" where
  "primary_of a ops = sbind (newest_succeeded ops (rev (router_ops a))) (\<lambda>r.
     Inr (case r of
            None \<Rightarrow> initial_primary (ap_router_spec a)
          | Some i \<Rightarrow> (case map_of (failover_targets a) i of
                        None \<Rightarrow> initial_primary (ap_router_spec a) | Some p \<Rightarrow> p)))"

section \<open>The derived state\<close>

datatype app_state =
    A_uncertain | A_failed | A_destroyed | Destroying_replicas | Awaiting_replica_destroy_approval
  | Planning_replica_destroy | Planning_router_destroy | Awaiting_router_destroy_approval
  | Destroying_router | Planning_router | Awaiting_router_approval | Applying_router | A_ready
  | Applying_replicas | Awaiting_replica_approval | Planning_replicas

definition ACTIVE :: "state list" where
  "ACTIVE = [Apply_queued, Applying, Succeeded]"

definition router_destroy_state :: "state \<Rightarrow> err + app_state" where
  "router_destroy_state s = (case s of
      Queued \<Rightarrow> Inr Planning_router_destroy | Planning \<Rightarrow> Inr Planning_router_destroy
    | Planned \<Rightarrow> Inr Awaiting_router_destroy_approval
    | Apply_queued \<Rightarrow> Inr Destroying_router | Applying \<Rightarrow> Inr Destroying_router
    | _ \<Rightarrow> Inl KeyError)"

definition router_state :: "state \<Rightarrow> err + app_state" where
  "router_state s = (case s of
      Queued \<Rightarrow> Inr Planning_router | Planning \<Rightarrow> Inr Planning_router
    | Planned \<Rightarrow> Inr Awaiting_router_approval
    | Apply_queued \<Rightarrow> Inr Applying_router | Applying \<Rightarrow> Inr Applying_router
    | Succeeded \<Rightarrow> Inr A_ready
    | _ \<Rightarrow> Inl KeyError)"

definition optional_state :: "ops \<Rightarrow> string option \<Rightarrow> err + state option" where
  "optional_state ops i = (case i of None \<Rightarrow> Inr None | Some j \<Rightarrow> sbind (op_state ops j) (\<lambda>s. Inr (Some s)))"

definition teardown_replica_states :: "teardown \<Rightarrow> ops \<Rightarrow> err + state list option" where
  "teardown_replica_states td ops = (case td_replicas td of
      None \<Rightarrow> Inr None | Some is \<Rightarrow> sbind (smap (op_state ops) is) (\<lambda>ss. Inr (Some ss)))"

definition teardown_state :: "string option \<Rightarrow> state option \<Rightarrow> state list option \<Rightarrow> err + app_state" where
  "teardown_state why router replicas =
    (let states = (case router of None \<Rightarrow> [] | Some s \<Rightarrow> [s]) @ (case replicas of None \<Rightarrow> [] | Some ss \<Rightarrow> ss) in
     if Uncertain \<in> set states then Inr A_uncertain
     else if Failed \<in> set states \<or> or_empty why \<noteq> [] then Inr A_failed
     else case replicas of
       Some ss \<Rightarrow>
         if list_all (\<lambda>s. s = Succeeded) ss then Inr A_destroyed
         else if list_ex (\<lambda>s. List.member ACTIVE s) ss then Inr Destroying_replicas
         else if list_all (\<lambda>s. s = Planned) ss then Inr Awaiting_replica_destroy_approval
         else Inr Planning_replica_destroy
     | None \<Rightarrow>
        (case router of
           Some s \<Rightarrow> (if s \<noteq> Succeeded then router_destroy_state s else Inr Planning_replica_destroy)
         | None \<Rightarrow> Inr Planning_replica_destroy))"

definition derive_teardown_state :: "teardown \<Rightarrow> ops \<Rightarrow> err + app_state" where
  "derive_teardown_state td ops =
    sbind (optional_state ops (td_router_id td)) (\<lambda>router.
    sbind (teardown_replica_states td ops) (\<lambda>replicas.
    teardown_state (td_error td) router replicas))"

definition rollout_state :: "string option \<Rightarrow> state list \<Rightarrow> state option \<Rightarrow> err + app_state" where
  "rollout_state why replicas router =
    (let states = replicas @ (case router of None \<Rightarrow> [] | Some s \<Rightarrow> [s]) in
     if Uncertain \<in> set states then Inr A_uncertain
     else if Failed \<in> set states \<or> or_empty why \<noteq> [] then Inr A_failed
     else case router of
       Some s \<Rightarrow> router_state s
     | None \<Rightarrow>
        if list_all (\<lambda>s. s = Succeeded) replicas then Inr Planning_router
        else if list_ex (\<lambda>s. List.member ACTIVE s) replicas then Inr Applying_replicas
        else if list_all (\<lambda>s. s = Planned) replicas then Inr Awaiting_replica_approval
        else Inr Planning_replicas)"

definition derive_state :: "app \<Rightarrow> ops \<Rightarrow> err + app_state" where
  "derive_state a ops = (case ap_teardown a of
      Some td \<Rightarrow> derive_teardown_state td ops
    | None \<Rightarrow>
       sbind (smap (op_state ops) (replica_op_ids a)) (\<lambda>replicas.
       sbind (current_router a ops) (\<lambda>rid.
       sbind (optional_state ops rid) (\<lambda>router.
       rollout_state (ap_error a) replicas router))))"

section \<open>Approval\<close>

definition opt_key :: "string option \<Rightarrow> err + string list" where
  "opt_key x = (case x of None \<Rightarrow> Inl TypeError | Some i \<Rightarrow> Inr [i])"

text \<open>\<^verbatim>\<open>gate\<close>: the operations the current approval names.\<close>

definition gate :: "app \<Rightarrow> ops \<Rightarrow> err + string list" where
  "gate a ops = sbind (derive_state a ops) (\<lambda>s.
     if s = Awaiting_replica_approval \<or> s = Applying_replicas then Inr (replica_op_ids a)
     else if s = Awaiting_router_approval \<or> s = Applying_router
     then sbind (current_router a ops) opt_key
     else if s = Awaiting_router_destroy_approval \<or> s = Destroying_router
     then (case ap_teardown a of None \<Rightarrow> Inl KeyError | Some td \<Rightarrow> opt_key (td_router td))
     else if s = Awaiting_replica_destroy_approval \<or> s = Destroying_replicas
     then (case ap_teardown a of
             None \<Rightarrow> Inl KeyError
           | Some td \<Rightarrow> (case td_replicas td of None \<Rightarrow> Inl TypeError | Some is \<Rightarrow> Inr is))
     else Inl (OperationError 409 App_gate_mismatch None))"

text \<open>Each operation of the gate must be changeable by the caller and pass the guardrails.\<close>

fun check_approval :: "ext \<Rightarrow> world \<Rightarrow> ops \<Rightarrow> caller \<Rightarrow> string list \<Rightarrow> err + unit" where
  "check_approval x w ops c [] = Inr ()"
| "check_approval x w ops c (i # is) =
    (case ops i of
       None \<Rightarrow> Inl KeyError
     | Some d \<Rightarrow> sbind (authorize x w (Some d) c True) (\<lambda>op.
         sbind (check_op_guardrails w op) (\<lambda>_. check_approval x w ops c is)))"

definition same_set :: "string list \<Rightarrow> string list \<Rightarrow> bool" where
  "same_set xs ys \<longleftrightarrow> set xs = set ys"

definition approve :: "ext \<Rightarrow> app \<Rightarrow> (string \<times> string) list \<Rightarrow> caller \<Rightarrow> nat \<Rightarrow> doc list tx" where
  "approve x a digests c t w =
    (let ops = load_ops a w in
     case gate a ops of
       Inl e \<Rightarrow> (Inl e, w)
     | Inr wanted \<Rightarrow>
        if \<not> same_set (map fst digests) wanted then (Inl (OperationError 409 App_gate_mismatch None), w)
        else (case check_approval x w ops c wanted of
                Inl e \<Rightarrow> (Inl e, w)
              | Inr _ \<Rightarrow> execute_many (dict_merge [] (map (\<lambda>i. (i, the (map_of digests i))) wanted))
                          (caller_id c) (Some (ap_id a)) t w))"

end
