(* ===== verification/AppRequests.thy ===== *)
theory AppRequests
  imports Apps
begin

text \<open>
  The requests of \<^verbatim>\<open>app/apps.py\<close>: accepting an app and its router, failover, teardown and discard,
  each built from ordinary intents that go through \<open>validate\<close> and the ledger, and the public view of an
  app. A handler reads one world; the ledger's own transaction checks again whatever may have changed.
\<close>

section \<open>The request\<close>

record app_intent =
  ai_name :: string
  ai_business_unit :: "string option"
  ai_environment :: "string option"
  ai_labels :: "(string \<times> string) list option"
  ai_replicas :: "member_spec list"
  ai_router :: member_spec

text \<open>\<^verbatim>\<open>APP_NAME\<close>: \<^verbatim>\<open>^[a-z][a-z0-9-]{1,40}$\<close>.\<close>

definition app_name_ok :: "string \<Rightarrow> bool" where
  "app_name_ok s = (case s of
      [] \<Rightarrow> False
    | c # cs \<Rightarrow> is_lower c \<and> 1 \<le> length cs \<and> length cs \<le> 40 \<and>
        list_all (\<lambda>x. is_lower x \<or> is_digit x \<or> x = CHR ''-'') cs)"

definition spec_ok :: "member_spec \<Rightarrow> bool" where
  "spec_ok s \<longleftrightarrow> sp_pattern s \<noteq> [] \<and> check_inputs (sp_inputs s) = Inr (sp_inputs s) \<and>
     pred_option (\<lambda>ls. length ls \<le> 16 \<and> check_labels ls = Inr ls) (sp_labels s)"

definition router_spec_ok :: "member_spec \<Rightarrow> bool" where
  "router_spec_ok s \<longleftrightarrow> spec_ok s \<and> 1 \<le> length (sp_replica_refs s) \<and> length (sp_replica_refs s) \<le> 16 \<and>
     list_all (\<lambda>(n, r). rr_replica r \<le> 3 \<and> output_name_ok (rr_output r)) (sp_replica_refs s)"

definition app_intent_ok :: "app_intent \<Rightarrow> bool" where
  "app_intent_ok i \<longleftrightarrow> app_name_ok (ai_name i) \<and>
     pred_option (\<lambda>ls. length ls \<le> 16 \<and> check_labels ls = Inr ls) (ai_labels i) \<and>
     2 \<le> length (ai_replicas i) \<and> length (ai_replicas i) \<le> 4 \<and> list_all spec_ok (ai_replicas i) \<and>
     router_spec_ok (ai_router i) \<and>
     list_all (\<lambda>(n, r). rr_replica r < length (ai_replicas i) \<and> map_of (sp_inputs (ai_router i)) n = None)
       (sp_replica_refs (ai_router i))"

definition labels_json :: "(string \<times> string) list option \<Rightarrow> json" where
  "labels_json ls = (case ls of None \<Rightarrow> JNull | Some kvs \<Rightarrow> JObj (map (\<lambda>(k, v). (k, JStr v)) kvs))"

definition spec_fields :: "member_spec \<Rightarrow> (string \<times> json) list" where
  "spec_fields s = [(''pattern'', JStr (sp_pattern s)), (''version'', opt_json (sp_version s)),
     (''size'', opt_json (sp_size s)), (''inputs'', JObj (sp_inputs s)), (''labels'', labels_json (sp_labels s))]"

definition router_json :: "member_spec \<Rightarrow> json" where
  "router_json s = JObj (spec_fields s @ [(''replica_refs'', JObj (map (\<lambda>(n, r).
     (n, JObj [(''replica'', JNum (of_nat (rr_replica r))), (''output'', JStr (rr_output r))])) (sp_replica_refs s)))])"

text \<open>\<^verbatim>\<open>body.model_dump(mode="json")\<close>: what the app's idempotency key binds to.\<close>

definition app_material :: "app_intent \<Rightarrow> json" where
  "app_material i = JObj [(''name'', JStr (ai_name i)), (''business_unit'', opt_json (ai_business_unit i)),
     (''environment'', opt_json (ai_environment i)), (''labels'', labels_json (ai_labels i)),
     (''replicas'', JList (map (\<lambda>s. JObj (spec_fields s)) (ai_replicas i))), (''router'', router_json (ai_router i))]"

section \<open>Member intents\<close>

definition dict_of :: "('k \<times> 'v) list option \<Rightarrow> ('k \<times> 'v) list" where
  "dict_of x = (case x of None \<Rightarrow> [] | Some d \<Rightarrow> d)"

text \<open>\<^verbatim>\<open>member_intent\<close>: the platform's \<^verbatim>\<open>app\<close> and \<^verbatim>\<open>app_role\<close> labels win.\<close>

definition member_labels :: "app \<Rightarrow> member_spec \<Rightarrow> string \<Rightarrow> (string \<times> string) list" where
  "member_labels a spec role = dict_merge (dict_merge (ap_labels a) (dict_of (sp_labels spec)))
     [(''app'', ap_name a), (''app_role'', role)]"

definition member_intent :: "app \<Rightarrow> member_spec \<Rightarrow> string \<Rightarrow> (string \<times> input_ref) list option \<Rightarrow> err + intent" where
  "member_intent a spec role refs =
    (let i = \<lparr>i_action = Deploy, i_resource_id = None, i_pattern = sp_pattern spec,
          i_version = sp_version spec, i_expected_commit = None,
          i_business_unit = ap_business_unit_request a, i_environment = ap_environment_request a,
          i_size = sp_size spec, i_inputs = sp_inputs spec, i_labels = Some (member_labels a spec role),
          i_input_refs = refs\<rparr>
     in if intent_ok i then Inr i else Inl (HTTPException 422))"

text \<open>The app row before acceptance.\<close>

definition app_base :: "app_intent \<Rightarrow> caller \<Rightarrow> app" where
  "app_base body c = \<lparr>ap_id = [], ap_name = ai_name body, ap_actor = [], ap_labels = dict_of (ai_labels body),
     ap_business_unit_request = ai_business_unit body, ap_environment_request = ai_environment body,
     ap_caller_groups = sort (caller_groups c), ap_router_spec = ai_router body,
     ap_primary = initial_primary (ai_router body), ap_business_unit = None, ap_environment = None,
     ap_members = [], ap_router_operation_id = None, ap_router_resource_id = None,
     ap_router_operations = [], ap_failovers = [], ap_teardown = None, ap_teardowns = 0,
     ap_teardown_history = [], ap_error = None, ap_created_at = 0, ap_updated_at = 0\<rparr>"

definition validated :: "ext \<Rightarrow> world \<Rightarrow> caller \<Rightarrow> intent \<Rightarrow> err + (json \<times> doc \<times> budget option)" where
  "validated x w c i = sbind (validate x w i c) (\<lambda>(d, b). Inr (canonical_intent i, d, b))"

definition validate_replicas :: "ext \<Rightarrow> world \<Rightarrow> app \<Rightarrow> caller \<Rightarrow> member_spec list \<Rightarrow> err + (json \<times> doc \<times> budget option) list" where
  "validate_replicas x w base c specs =
     smap (\<lambda>spec. sbind (member_intent base spec ''replica'' None) (validated x w c)) specs"

text \<open>\<^verbatim>\<open>check_router\<close>: what can be checked of the router before the replicas exist.\<close>

definition check_router :: "ext \<Rightarrow> world \<Rightarrow> app \<Rightarrow> caller \<Rightarrow> err + unit" where
  "check_router x w base c =
    (let spec = ap_router_spec base in
     sbind (resolve x w (sp_pattern spec) (sp_version spec) c) (\<lambda>r.
     if \<not> enabled w then Inr ()
     else sbind (select_unit w c (ap_business_unit_request base)) (\<lambda>u.
          sbind (place c u (ap_environment_request base) (sp_pattern spec) False) (\<lambda>pl.
          sbind (select_target pl (pt_cloud (rs_pattern r))) (\<lambda>_. Inr ())))))"

definition prepare_app :: "ext \<Rightarrow> world \<Rightarrow> app_intent \<Rightarrow> caller \<Rightarrow> err + (app \<times> (json \<times> doc \<times> budget option) list)" where
  "prepare_app x w body c =
    (let base = app_base body c in
     sbind (validate_replicas x w base c (ai_replicas body)) (\<lambda>replicas.
     sbind (check_router x w base c) (\<lambda>_.
     case replicas of
       [] \<Rightarrow> Inl TypeError
     | (i, d, b) # rest \<Rightarrow>
        Inr (base\<lparr>ap_business_unit := p_business_unit (d_def d), ap_environment := p_environment (d_def d)\<rparr>, replicas))))"

definition apps_accept ::
  "ext \<Rightarrow> app_intent \<Rightarrow> caller \<Rightarrow> string \<Rightarrow> nat \<Rightarrow> string \<Rightarrow> (string \<times> string) list \<Rightarrow> app tx" where
  "apps_accept x body c key t app_id fresh w =
    (case replay_app_tx (caller_id c) key (fingerprint (app_material body)) w of
       Inl e \<Rightarrow> (Inl e, w)
     | Inr (Some existing) \<Rightarrow> (authorize_app w (Some existing) c, w)
     | Inr None \<Rightarrow>
        (case prepare_app x w body c of
           Inl e \<Rightarrow> (Inl e, w)
         | Inr (base, replicas) \<Rightarrow>
             accept_app (caller_id c) key (app_material body) replicas base t app_id fresh w))"

section \<open>The requester's access\<close>

text \<open>\<^verbatim>\<open>current_caller\<close>: with live checks, the groups asked with that still hold.\<close>

definition current_caller :: "ext \<Rightarrow> world \<Rightarrow> string \<Rightarrow> string list \<Rightarrow> err + caller" where
  "current_caller x w actor groups =
    (if \<not> (live_group_checks (cfg w) \<and> auth_entra (cfg w)) then Inr \<lparr>caller_id = actor, caller_groups = groups\<rparr>
     else case x_member_groups x actor of
       None \<Rightarrow> Inl (OperationError 503 Group_check_unavailable None)
     | Some live \<Rightarrow> Inr \<lparr>caller_id = actor, caller_groups = filter (List.member live) groups\<rparr>)"

definition ensure_access :: "world \<Rightarrow> app \<Rightarrow> caller \<Rightarrow> err + unit" where
  "ensure_access w a c =
    (if \<not> enabled w \<or> or_empty (ap_business_unit a) = [] then Inr ()
     else case load_unit w (ap_business_unit a) of
       None \<Rightarrow> Inl (OperationError 403 Requester_access_revoked None)
     | Some u \<Rightarrow>
        (case unit_env u (ap_environment a) of
           None \<Rightarrow> Inl (OperationError 403 Requester_access_revoked None)
         | Some e \<Rightarrow> (if can_deploy u c e then Inr () else Inl (OperationError 403 Requester_access_revoked None))))"

definition require_change :: "ext \<Rightarrow> world \<Rightarrow> app \<Rightarrow> ops \<Rightarrow> caller \<Rightarrow> err + doc" where
  "require_change x w a ops c = (case ap_members a of
      [] \<Rightarrow> Inl KeyError
    | m # ms \<Rightarrow> (case ops (m_operation_id m) of
        None \<Rightarrow> Inl KeyError | Some d \<Rightarrow> authorize x w (Some d) c True))"

text \<open>\<^verbatim>\<open>refuse_member_change\<close>.\<close>

definition refuse_member_change :: "ext \<Rightarrow> world \<Rightarrow> string \<Rightarrow> caller \<Rightarrow> err + unit" where
  "refuse_member_change x w rid c =
    sbind (resource rid w) (\<lambda>rcd.
    sbind (authorize x w rcd c False) (\<lambda>_.
    case app_for_resource rid w of
      None \<Rightarrow> Inr ()
    | Some owner \<Rightarrow> sbind (derive_state owner (load_ops owner w)) (\<lambda>s.
        if s \<noteq> A_destroyed then Inl (OperationError 409 App_member None) else Inr ())))"

section \<open>The router\<close>

definition member_at :: "app \<Rightarrow> nat \<Rightarrow> err + member" where
  "member_at a n = (if n < length (ap_members a) then Inr (ap_members a ! n) else Inl KeyError)"

definition rollout_refs :: "app \<Rightarrow> ops \<Rightarrow> err + (string \<times> input_ref) list" where
  "rollout_refs a ops = smap (\<lambda>(n, ref). sbind (member_at a (rr_replica ref)) (\<lambda>m.
      case ops (m_operation_id m) of
        None \<Rightarrow> Inl KeyError
      | Some d \<Rightarrow> Inr (n, \<lparr>ref_resource_id = d_resource_id d, ref_output = rr_output ref\<rparr>)))
     (sp_replica_refs (ap_router_spec a))"

definition prepare_router :: "ext \<Rightarrow> world \<Rightarrow> app \<Rightarrow> err + (json \<times> doc \<times> budget option)" where
  "prepare_router x w a =
    sbind (current_caller x w (ap_actor a) (ap_caller_groups a)) (\<lambda>c.
    sbind (ensure_access w a c) (\<lambda>_.
    sbind (rollout_refs a (operations_by_id (replica_op_ids a) w)) (\<lambda>refs.
    sbind (member_intent a (ap_router_spec a) ''router'' (Some refs)) (\<lambda>i. validated x w c i))))"

definition apps_accept_router :: "ext \<Rightarrow> app \<Rightarrow> nat \<Rightarrow> string \<times> string \<Rightarrow> app tx" where
  "apps_accept_router x a t fresh w =
    (case prepare_router x w a of
       Inl e \<Rightarrow> (Inl e, w)
     | Inr (i, d, b) \<Rightarrow> accept_router (ap_id a) i d b t fresh w)"

section \<open>Failover\<close>

text \<open>\<^verbatim>\<open>known_request\<close>, over entries that carry a key and a fingerprint.\<close>

definition known_request :: "('e \<Rightarrow> string) \<Rightarrow> ('e \<Rightarrow> json) \<Rightarrow> 'e list \<Rightarrow> string \<Rightarrow> string \<Rightarrow> json \<Rightarrow> err + 'e option" where
  "known_request ekey efp entries actor key material =
    (case find (\<lambda>e. ekey e = caller_key actor key) entries of
       None \<Rightarrow> Inr None
     | Some e \<Rightarrow> (if efp e \<noteq> fingerprint material then Inl (OperationError 409 Idempotency_key_reused None)
                 else Inr (Some e)))"

definition resource_or_none :: "string option \<Rightarrow> world \<Rightarrow> doc option" where
  "resource_or_none i w = (case i of None \<Rightarrow> None | Some j \<Rightarrow> res_find j w)"

fun failover_step :: "app \<Rightarrow> nat \<Rightarrow> nat \<Rightarrow> (string \<times> replica_ref) list \<Rightarrow> (string \<times> input_ref) list
    \<Rightarrow> err + (string \<times> input_ref) list" where
  "failover_step a cur target [] refs = Inr refs"
| "failover_step a cur target ((n, ref) # rest) refs =
    (if has_prefix ''primary_'' n
     then sbind (member_at a target) (\<lambda>m. failover_step a cur target rest
            (dict_set n \<lparr>ref_resource_id = m_resource_id m, ref_output = rr_output ref\<rparr> refs))
     else if has_prefix ''secondary_'' n
     then sbind (member_at a cur) (\<lambda>m. failover_step a cur target rest
            (dict_set n \<lparr>ref_resource_id = m_resource_id m, ref_output = rr_output ref\<rparr> refs))
     else failover_step a cur target rest refs)"

definition failover_refs :: "app \<Rightarrow> world \<Rightarrow> nat \<Rightarrow> nat \<Rightarrow> err + (string \<times> input_ref) list" where
  "failover_refs a w cur target =
     failover_step a cur target (sp_replica_refs (ap_router_spec a))
       (case resource_or_none (ap_router_resource_id a) w of None \<Rightarrow> [] | Some r \<Rightarrow> p_input_refs (d_def r))"

definition failover_material :: "string \<Rightarrow> nat \<Rightarrow> json" where
  "failover_material app_id primary = JObj [(''app_id'', JStr app_id), (''primary'', JNum (of_nat primary))]"

definition is_ready :: "doc option \<Rightarrow> bool" where
  "is_ready d = (case d of None \<Rightarrow> False | Some r \<Rightarrow> d_state r = Some Ready)"

text \<open>The checks of \<^verbatim>\<open>failover\<close> after the replay, in order; the current primary.\<close>

definition check_failover :: "app \<Rightarrow> world \<Rightarrow> nat \<Rightarrow> err + nat" where
  "check_failover a w primary =
    (let ops = load_ops a w in
     if length (ap_members a) \<le> primary then Inl (HTTPException 422)
     else sbind (derive_state a ops) (\<lambda>s.
     if s \<noteq> A_ready then Inl (OperationError 409 App_not_ready None)
     else if \<not> list_ex (\<lambda>r. has_prefix ''primary_'' (fst r)) (sp_replica_refs (ap_router_spec a))
     then Inl (OperationError 409 App_failover_unsupported None)
     else if list_ex (\<lambda>m. \<not> is_ready (res_find (m_resource_id m) w)) (ap_members a)
     then Inl (OperationError 409 App_replica_not_ready None)
     else sbind (primary_of a ops) (\<lambda>cur.
     if primary = cur then Inl (OperationError 409 App_failover_noop None) else Inr cur)))"

definition failover_intent :: "app \<Rightarrow> world \<Rightarrow> nat \<Rightarrow> nat \<Rightarrow> err + intent" where
  "failover_intent a w cur primary =
    sbind (failover_refs a w cur primary) (\<lambda>refs.
    sbind (member_intent a (ap_router_spec a) ''router'' (Some refs)) (\<lambda>i.
    case resource_or_none (ap_router_resource_id a) w of
      None \<Rightarrow> Inl KeyError
    | Some previous \<Rightarrow>
        Inr (i\<lparr>i_resource_id := ap_router_resource_id a, i_version := p_version (d_def previous)\<rparr>)))"

definition failover :: "ext \<Rightarrow> string \<Rightarrow> nat \<Rightarrow> caller \<Rightarrow> string \<Rightarrow> nat \<Rightarrow> string \<times> string \<Rightarrow> (app \<times> string) tx" where
  "failover x app_id primary c key t fresh w =
    (case authorize_app w (app_find app_id w) c of
       Inl e \<Rightarrow> (Inl e, w)
     | Inr a \<Rightarrow>
        (case known_request fo_key fo_fingerprint (ap_failovers a) (caller_id c) key (failover_material app_id primary) of
           Inl e \<Rightarrow> (Inl e, w)
         | Inr (Some entry) \<Rightarrow> (Inr (a, fo_operation_id entry), w)
         | Inr None \<Rightarrow>
            (case sbind (check_failover a w primary) (\<lambda>cur. sbind (failover_intent a w cur primary) (validated x w c)) of
               Inl e \<Rightarrow> (Inl e, w)
             | Inr router \<Rightarrow> accept_failover (caller_id c) app_id key (failover_material app_id primary) router
                               primary (ap_updated_at a) t fresh w)))"

section \<open>Teardown\<close>

definition destroy_intent :: "string \<Rightarrow> doc \<Rightarrow> intent" where
  "destroy_intent rid d = \<lparr>i_action = Destroy, i_resource_id = Some rid, i_pattern = p_pattern (d_def d),
     i_version = None, i_expected_commit = None, i_business_unit = None, i_environment = None,
     i_size = None, i_inputs = [], i_labels = None, i_input_refs = None\<rparr>"

definition destroy_material :: "string \<Rightarrow> json" where
  "destroy_material app_id = JObj [(''app_id'', JStr app_id), (''action'', JStr ''destroy'')]"

definition finished_op :: "doc option \<Rightarrow> bool" where
  "finished_op d = (case d of None \<Rightarrow> True | Some op \<Rightarrow> d_state op \<in> {Some Succeeded, Some Failed})"

text \<open>Whether a new teardown may start, and the router's destroy if there is a router to destroy.\<close>

definition prepare_teardown :: "ext \<Rightarrow> world \<Rightarrow> app \<Rightarrow> app_state \<Rightarrow> caller \<Rightarrow> err + (json \<times> doc \<times> budget option) option" where
  "prepare_teardown x w a s c =
    (let ops = load_ops a w in
     if (s \<noteq> A_ready \<and> s \<noteq> A_failed) \<or> \<not> list_all (\<lambda>i. finished_op (ops i)) (app_op_ids a)
     then Inl (OperationError 409 App_destroy_unavailable None)
     else sbind (check_guardrails w (ap_business_unit a) (ap_environment a) Destroy None) (\<lambda>_.
       if or_empty (ap_router_resource_id a) \<noteq> [] \<and> is_ready (resource_or_none (ap_router_resource_id a) w)
       then sbind (validated x w c (destroy_intent (or_empty (ap_router_resource_id a))
                     (the (resource_or_none (ap_router_resource_id a) w)))) (\<lambda>v. Inr (Some v))
       else Inr None))"

definition start_teardown :: "ext \<Rightarrow> string \<Rightarrow> app \<Rightarrow> caller \<Rightarrow> string \<Rightarrow> nat \<Rightarrow> string \<times> string \<Rightarrow> (app \<times> string option) tx" where
  "start_teardown x app_id a c key t fresh w =
    (case derive_state a (load_ops a w) of
       Inl e \<Rightarrow> (Inl e, w)
     | Inr s \<Rightarrow>
        if ap_teardown a \<noteq> None \<and> s \<noteq> A_destroyed \<and> s \<noteq> A_failed
        then (Inr (a, td_router (the (ap_teardown a))), w)
        else (case prepare_teardown x w a s c of
                Inl e \<Rightarrow> (Inl e, w)
              | Inr router \<Rightarrow> accept_teardown c app_id key (destroy_material app_id) router (ap_updated_at a) t fresh w))"

definition app_destroy :: "ext \<Rightarrow> string \<Rightarrow> caller \<Rightarrow> string \<Rightarrow> nat \<Rightarrow> string \<times> string \<Rightarrow> (app \<times> string option) tx" where
  "app_destroy x app_id c key t fresh w =
    (case authorize_app w (app_find app_id w) c of
       Inl e \<Rightarrow> (Inl e, w)
     | Inr a \<Rightarrow>
        (case require_change x w a (load_ops a w) c of
           Inl e \<Rightarrow> (Inl e, w)
         | Inr _ \<Rightarrow>
            (case known_request te_key te_fingerprint (teardown_entries a) (caller_id c) key (destroy_material app_id) of
               Inl e \<Rightarrow> (Inl e, w)
             | Inr (Some entry) \<Rightarrow> (Inr (a, te_router entry), w)
             | Inr None \<Rightarrow> start_teardown x app_id a c key t fresh w)))"

fun discard_all :: "string list \<Rightarrow> string \<Rightarrow> nat \<Rightarrow> unit tx" where
  "discard_all [] who t w = (Inr (), w)"
| "discard_all (i # is) who t w =
    (case discard i who t w of
       (Inl e, w1) \<Rightarrow> (Inl e, w1)
     | (Inr _, w1) \<Rightarrow> discard_all is who t w1)"

definition discard_planned :: "string \<Rightarrow> string list \<Rightarrow> string \<Rightarrow> nat \<Rightarrow> unit tx" where
  "discard_planned app_id planned who t w =
    (if planned = [] then (Inr (), w)
     else case record_app_event app_id who Ev_app_discard Accepted t w of
       (Inl e, w1) \<Rightarrow> (Inl e, w1)
     | (Inr _, w1) \<Rightarrow> discard_all planned who t w1)"

definition app_discard :: "ext \<Rightarrow> string \<Rightarrow> caller \<Rightarrow> nat \<Rightarrow> (app \<times> string list) tx" where
  "app_discard x app_id c t w =
    (case authorize_app w (app_find app_id w) c of
       Inl e \<Rightarrow> (Inl e, w)
     | Inr a \<Rightarrow>
        (let ops = load_ops a w in
         case sbind (require_change x w a ops c) (\<lambda>_. sbind (derive_state a ops) (\<lambda>s.
                if s \<noteq> A_failed then Inl (OperationError 409 App_discard_unavailable None) else planned_ids a ops)) of
           Inl e \<Rightarrow> (Inl e, w)
         | Inr planned \<Rightarrow>
            (case discard_planned app_id planned (caller_id c) t w of
               (Inl e, w1) \<Rightarrow> (Inl e, w1)
             | (Inr _, w1) \<Rightarrow> (Inr (a, planned), w1))))"

definition teardown_targets :: "ext \<Rightarrow> world \<Rightarrow> app \<Rightarrow> caller \<Rightarrow> err + (nat \<times> json \<times> doc \<times> budget option) list" where
  "teardown_targets x w a c =
     smap (\<lambda>m. sbind (validated x w c (destroy_intent (m_resource_id m) (the (res_find (m_resource_id m) w))))
                 (\<lambda>v. Inr (m_index m, v)))
       (filter (\<lambda>m. is_ready (res_find (m_resource_id m) w)) (ap_members a))"

definition prepare_teardown_replicas :: "ext \<Rightarrow> world \<Rightarrow> app \<Rightarrow> err + (nat \<times> json \<times> doc \<times> budget option) list" where
  "prepare_teardown_replicas x w a = (case ap_teardown a of
      None \<Rightarrow> Inl KeyError
    | Some td \<Rightarrow>
       sbind (current_caller x w (td_actor td) (td_caller_groups td)) (\<lambda>c.
       sbind (ensure_access w a c) (\<lambda>_. teardown_targets x w a c)))"

definition apps_accept_teardown_replicas :: "ext \<Rightarrow> app \<Rightarrow> nat \<Rightarrow> (string \<times> string) list \<Rightarrow> app tx" where
  "apps_accept_teardown_replicas x a t fresh w =
    (case prepare_teardown_replicas x w a of
       Inl e \<Rightarrow> (Inl e, w)
     | Inr items \<Rightarrow> accept_teardown_replicas (ap_id a) items t fresh w)"

end
