(* ===== verification/AppActivities.thy ===== *)
theory AppActivities
  imports AppRequests
begin

text \<open>
  The public view of an app (\<^verbatim>\<open>apps.public_app\<close>) and the activities the app workflows run
  (\<^verbatim>\<open>app/app_activities.py\<close>): reading the derived state, accepting the router and the replicas'
  destroys, and turning a refusal into a retry, a re-raise or a recorded failure.
\<close>

section \<open>The public view\<close>

definition app_next_action :: "app_state \<Rightarrow> next_action" where
  "app_next_action s = (case s of
      Awaiting_replica_approval \<Rightarrow> Approve_with_plan_digests
    | Awaiting_router_approval \<Rightarrow> Approve_with_plan_digests
    | Awaiting_router_destroy_approval \<Rightarrow> Approve_with_plan_digests
    | Awaiting_replica_destroy_approval \<Rightarrow> Approve_with_plan_digests
    | A_ready \<Rightarrow> Done | A_destroyed \<Rightarrow> Done
    | A_failed \<Rightarrow> Inspect_failure | A_uncertain \<Rightarrow> Reconcile_with_operator
    | _ \<Rightarrow> Poll)"

datatype role = Replica | Router | Router_destroy | Replica_destroy

record member_view =
  mv_role :: role
  mv_index :: "nat option"
  mv_operation_id :: string
  mv_resource_id :: "string option"
  mv_state :: state
  mv_plan_digest :: "string option"

record app_view =
  av_id :: string
  av_name :: string
  av_state :: app_state
  av_primary :: nat
  av_business_unit :: "string option"
  av_environment :: "string option"
  av_members :: "member_view list"
  av_router :: "member_view option"
  av_teardown :: "member_view list option"
  av_error :: "string option \<times> string list"
  av_next_action :: next_action
  av_poll_after_seconds :: "nat option"
  av_discard_link :: bool

definition view_member :: "ops \<Rightarrow> role \<Rightarrow> nat option \<Rightarrow> string \<Rightarrow> string option \<Rightarrow> err + member_view" where
  "view_member ops rl idx i rid = (case ops i of
      None \<Rightarrow> Inl KeyError
    | Some d \<Rightarrow> sbind (op_state ops i) (\<lambda>s. Inr \<lparr>mv_role = rl, mv_index = idx, mv_operation_id = i,
        mv_resource_id = rid, mv_state = s, mv_plan_digest = d_plan_digest d\<rparr>))"

text \<open>\<^verbatim>\<open>error_text\<close>: the recorded reason and the plans that still reserve budget.\<close>

definition app_error_text :: "app \<Rightarrow> ops \<Rightarrow> app_state \<Rightarrow> err + string option \<times> string list" where
  "app_error_text a ops s =
    (let why = (case ap_teardown a of Some td \<Rightarrow> td_error td | None \<Rightarrow> ap_error a) in
     if s = A_failed then sbind (planned_ids a ops) (\<lambda>planned. Inr (why, planned)) else Inr (why, []))"

text \<open>A replica's destroy, with the index of the member whose resource it destroys.\<close>

definition view_destroyed :: "app \<Rightarrow> ops \<Rightarrow> string \<Rightarrow> err + member_view" where
  "view_destroyed a ops i = (case ops i of
      None \<Rightarrow> Inl KeyError
    | Some d \<Rightarrow> view_member ops Replica_destroy
        (map_of (rev (map (\<lambda>m. (m_resource_id m, m_index m)) (ap_members a))) (d_resource_id d))
        i (Some (d_resource_id d)))"

definition view_teardown :: "app \<Rightarrow> ops \<Rightarrow> err + member_view list option" where
  "view_teardown a ops = (case ap_teardown a of
      None \<Rightarrow> Inr None
    | Some td \<Rightarrow>
       sbind (smap (\<lambda>i. view_member ops Router_destroy None i (ap_router_resource_id a))
                (case td_router_id td of None \<Rightarrow> [] | Some i \<Rightarrow> [i])) (\<lambda>rs.
       sbind (smap (view_destroyed a ops)
          (case td_replicas td of None \<Rightarrow> [] | Some is \<Rightarrow> is)) (\<lambda>vs. Inr (Some (rs @ vs)))))"

definition public_app :: "app \<Rightarrow> ops \<Rightarrow> err + app_view" where
  "public_app a ops =
    sbind (derive_state a ops) (\<lambda>s.
    sbind (if s = A_failed then planned_ids a ops else Inr []) (\<lambda>planned.
    let next = (if planned \<noteq> [] then Discard_planned_operations else app_next_action s) in
    sbind (current_router a ops) (\<lambda>rid.
    sbind (view_teardown a ops) (\<lambda>td.
    sbind (primary_of a ops) (\<lambda>primary.
    sbind (smap (\<lambda>m. view_member ops Replica (Some (m_index m)) (m_operation_id m) (Some (m_resource_id m)))
             (ap_members a)) (\<lambda>members.
    sbind (case rid of None \<Rightarrow> Inr None
           | Some i \<Rightarrow> sbind (view_member ops Router None i (ap_router_resource_id a)) (\<lambda>v. Inr (Some v))) (\<lambda>router.
    sbind (app_error_text a ops s) (\<lambda>why.
    Inr \<lparr>av_id = ap_id a, av_name = ap_name a, av_state = s, av_primary = primary,
         av_business_unit = ap_business_unit a, av_environment = ap_environment a,
         av_members = members, av_router = router, av_teardown = td, av_error = why,
         av_next_action = next, av_poll_after_seconds = (if next = Poll then Some 5 else None),
         av_discard_link = (next = Discard_planned_operations)\<rparr>))))))))"

section \<open>Checks\<close>

datatype rollout_check = Superseded | Rollout_ready | Router_needed | Rollout_state app_state

text \<open>\<^verbatim>\<open>check_app\<close>.\<close>

definition check_app :: "app \<Rightarrow> ops \<Rightarrow> err + rollout_check" where
  "check_app a ops =
    (if ap_teardown a \<noteq> None then Inr Superseded
     else sbind (case router_ops a of [] \<Rightarrow> Inr False
                 | first # _ \<Rightarrow> sbind (op_state ops first) (\<lambda>s. Inr (s = Succeeded))) (\<lambda>deployed.
     if deployed then Inr Rollout_ready
     else sbind (derive_state a ops) (\<lambda>s.
       Inr (if s = Planning_router \<and> or_empty (ap_router_operation_id a) = [] then Router_needed
            else Rollout_state s))))"

datatype teardown_check = Replicas_needed | Teardown_state app_state

definition check_teardown :: "app \<Rightarrow> ops \<Rightarrow> err + teardown_check" where
  "check_teardown a ops = sbind (derive_state a ops) (\<lambda>s.
     if s = Planning_replica_destroy
     then (case ap_teardown a of
             None \<Rightarrow> Inl TypeError
           | Some td \<Rightarrow> Inr (if td_replicas td = None then Replicas_needed else Teardown_state s))
     else Inr (Teardown_state s))"

section \<open>Refusals\<close>

definition TRANSIENT :: "reason list" where
  "TRANSIENT = [Resource_busy, Resource_changed, Group_check_unavailable]"

definition transient :: "err \<Rightarrow> bool" where
  "transient e = (case e of OperationError n r i \<Rightarrow> List.member TRANSIENT r | _ \<Rightarrow> False)"

text \<open>The errors the activities catch (\<^verbatim>\<open>HTTPException\<close> and its subclass, \<^verbatim>\<open>TenancyError\<close>) with their
  status.\<close>

definition caught_status :: "err \<Rightarrow> nat option" where
  "caught_status e = (case e of
      HTTPException n \<Rightarrow> Some n | OperationError n r i \<Rightarrow> Some n | TenancyError n \<Rightarrow> Some n
    | SizeNotOffered \<Rightarrow> Some 422 | _ \<Rightarrow> None)"

datatype verdict = Retry | Raise | Refuse

definition judge :: "err \<Rightarrow> verdict" where
  "judge e = (case caught_status e of
      None \<Rightarrow> Raise
    | Some n \<Rightarrow> (if transient e then Retry else if 500 \<le> n then Raise else Refuse))"

section \<open>Accepting the router and the replicas' destroys\<close>

datatype router_answer = Accepted_router string | No_router | Retry_router

text \<open>\<^verbatim>\<open>accept_app_router\<close>; \<open>why\<close> is the text \<^verbatim>\<open>refusal_text\<close> gives the refusal.\<close>

definition accept_app_router :: "ext \<Rightarrow> string \<Rightarrow> (err \<Rightarrow> string) \<Rightarrow> nat \<Rightarrow> string \<times> string \<Rightarrow> router_answer tx" where
  "accept_app_router x app_id why t fresh w =
    (case app_find app_id w of
       None \<Rightarrow> (Inl TypeError, w)
     | Some a \<Rightarrow>
        if or_empty (ap_router_operation_id a) \<noteq> [] then (Inr (Accepted_router (or_empty (ap_router_operation_id a))), w)
        else
          (case apps_accept_router x a t fresh w of
             (Inr a', w1) \<Rightarrow>
               (Inr (if or_empty (ap_router_operation_id a') \<noteq> [] then Accepted_router (or_empty (ap_router_operation_id a'))
                     else No_router), w1)
           | (Inl e, w1) \<Rightarrow>
               (case judge e of
                  Retry \<Rightarrow> (Inr Retry_router, w1)
                | Raise \<Rightarrow> (Inl e, w1)
                | Refuse \<Rightarrow>
                   (case fail_app app_id (why e) True t w1 of
                      (Inl e', w2) \<Rightarrow> (Inl e', w2)
                    | (Inr _, w2) \<Rightarrow> (Inr No_router, w2)))))"

record destroy_answer =
  da_operations :: "string list"
  da_refused :: bool
  da_retry :: bool

definition accept_teardown_replica_destroys ::
  "ext \<Rightarrow> string \<Rightarrow> (err \<Rightarrow> string) \<Rightarrow> nat \<Rightarrow> (string \<times> string) list \<Rightarrow> destroy_answer tx" where
  "accept_teardown_replica_destroys x app_id why t fresh w =
    (case app_find app_id w of
       None \<Rightarrow> (Inl TypeError, w)
     | Some a \<Rightarrow>
        (case apps_accept_teardown_replicas x a t fresh w of
           (Inr a', w1) \<Rightarrow>
             (Inr \<lparr>da_operations = (case Option.bind (ap_teardown a') td_replicas of None \<Rightarrow> [] | Some is \<Rightarrow> is),
                   da_refused = False, da_retry = False\<rparr>, w1)
         | (Inl e, w1) \<Rightarrow>
             (case judge e of
                Retry \<Rightarrow> (Inr \<lparr>da_operations = [], da_refused = False, da_retry = True\<rparr>, w1)
              | Raise \<Rightarrow> (Inl e, w1)
              | Refuse \<Rightarrow>
                 (case fail_teardown app_id (why e) True t w1 of
                    (Inl e', w2) \<Rightarrow> (Inl e', w2)
                  | (Inr _, w2) \<Rightarrow> (Inr \<lparr>da_operations = [], da_refused = True, da_retry = False\<rparr>, w2)))))"

end
