(* ===== verification/AppProperties.thy ===== *)
theory AppProperties
  imports AppActivities AppLinks LifecycleProperties
begin

text \<open>
  What the app layer guarantees: the derived state is defined for every app the ledger holds, an approval
  runs exactly the reviewed plans of the current gate, a failover moves the primary only when its
  router update has succeeded, and a teardown destroys the replicas only after the router is gone.
\<close>

section \<open>Lemmas\<close>

definition known_states :: "ops \<Rightarrow> string list \<Rightarrow> bool" where
  "known_states ops ids \<longleftrightarrow> (\<forall>i \<in> set ids. \<exists>s. op_state ops i = Inr s \<and> s \<noteq> Ready \<and> s \<noteq> Destroyed)"

lemma known_states_Cons [simp]:
  "known_states ops (i # is) \<longleftrightarrow> (\<exists>s. op_state ops i = Inr s \<and> s \<noteq> Ready \<and> s \<noteq> Destroyed) \<and> known_states ops is"
  by (auto simp: known_states_def)

lemma known_states_Nil [simp]: "known_states ops []"
  by (simp add: known_states_def)

lemma known_states_append [simp]: "known_states ops (xs @ ys) \<longleftrightarrow> known_states ops xs \<and> known_states ops ys"
  by (auto simp: known_states_def)

lemma known_states_rev [simp]: "known_states ops (rev xs) = known_states ops xs"
  by (simp add: known_states_def)

lemma known_smap: "known_states ops ids \<Longrightarrow>
    \<exists>ss. smap (op_state ops) ids = Inr ss \<and> Ready \<notin> set ss \<and> Destroyed \<notin> set ss"
  by (induction ids) auto

lemma known_ids_in_state: "known_states ops ids \<Longrightarrow> \<exists>js. ids_in_state s ops ids = Inr js"
  by (induction ids) auto

lemma known_newest_live: "known_states ops ids \<Longrightarrow>
    \<exists>r. newest_live ops ids = Inr r \<and> (\<forall>i. r = Some i \<longrightarrow> i \<in> set ids)"
  by (induction ids) fastforce+

lemma known_newest_succeeded: "known_states ops ids \<Longrightarrow> \<exists>r. newest_succeeded ops ids = Inr r"
  by (induction ids) auto

lemma known_current_router:
  assumes "known_states ops (router_ops a)"
  shows "\<exists>r. current_router a ops = Inr r \<and> (\<forall>i. r = Some i \<longrightarrow> i \<in> set (router_ops a))"
proof (cases "router_ops a")
  case (Cons first later)
  with assms have "known_states ops (rev later)" by simp
  from known_newest_live [OF this] obtain r where "newest_live ops (rev later) = Inr r" "\<forall>i. r = Some i \<longrightarrow> i \<in> set later"
    by auto
  then show ?thesis by (auto simp: current_router_def Cons split: option.splits)
qed (simp add: current_router_def)

lemma known_optional:
  "(\<And>j. i = Some j \<Longrightarrow> known_states ops [j]) \<Longrightarrow>
     \<exists>r. optional_state ops i = Inr r \<and> r \<noteq> Some Ready \<and> r \<noteq> Some Destroyed"
  by (cases i) (auto simp: optional_state_def)

lemma router_state_total: "s \<notin> {Uncertain, Failed, Ready, Destroyed} \<Longrightarrow> \<exists>st. router_state s = Inr st"
  by (cases s) (auto simp: router_state_def)

lemma router_destroy_state_total:
  "s \<notin> {Uncertain, Failed, Ready, Destroyed, Succeeded} \<Longrightarrow> \<exists>st. router_destroy_state s = Inr st"
  by (cases s) (auto simp: router_destroy_state_def)

lemma rollout_state_total:
  "router \<noteq> Some Ready \<Longrightarrow> router \<noteq> Some Destroyed \<Longrightarrow> \<exists>st. rollout_state why replicas router = Inr st"
  using router_state_total by (auto simp: rollout_state_def Let_def split: option.splits)

lemma teardown_state_total:
  "router \<noteq> Some Ready \<Longrightarrow> router \<noteq> Some Destroyed \<Longrightarrow> \<exists>st. teardown_state why router replicas = Inr st"
  using router_destroy_state_total by (auto simp: teardown_state_def Let_def split: option.splits)

lemma derive_state_total:
  assumes "known_states ops (app_op_ids a)"
  shows "\<exists>st. derive_state a ops = Inr st"
proof (cases "ap_teardown a")
  case None
  have k: "known_states ops (replica_op_ids a)" "known_states ops (router_ops a)"
    using assms by (simp_all add: app_op_ids_def)
  obtain ss where ss: "smap (op_state ops) (replica_op_ids a) = Inr ss" using known_smap [OF k(1)] by blast
  obtain r where r: "current_router a ops = Inr r" "\<forall>i. r = Some i \<longrightarrow> i \<in> set (router_ops a)"
    using known_current_router [OF k(2)] by blast
  have "\<And>j. r = Some j \<Longrightarrow> known_states ops [j]" using r(2) k(2) by (auto simp: known_states_def)
  from known_optional [OF this] obtain q where "optional_state ops r = Inr q" "q \<noteq> Some Ready" "q \<noteq> Some Destroyed" by blast
  with ss r(1) None rollout_state_total show ?thesis by (simp add: derive_state_def)
next
  case (Some td)
  have k: "known_states ops (teardown_ids a)" using assms by (simp add: app_op_ids_def)
  have "\<And>j. td_router_id td = Some j \<Longrightarrow> known_states ops [j]"
    using k by (auto simp: teardown_ids_def Some)
  from known_optional [OF this] obtain q where q: "optional_state ops (td_router_id td) = Inr q" "q \<noteq> Some Ready" "q \<noteq> Some Destroyed" by blast
  have "\<exists>rs. teardown_replica_states td ops = Inr rs"
    using known_smap [of ops] k
    by (fastforce simp: teardown_replica_states_def teardown_ids_def Some split: option.splits)
  with q Some teardown_state_total show ?thesis by (auto simp: derive_state_def derive_teardown_state_def)
qed

lemma view_member_total: "known_states ops [i] \<Longrightarrow> \<exists>v. view_member ops rl idx i rid = Inr v"
  by (auto simp: view_member_def op_state_def split: option.splits)

lemma smap_total: "(\<And>x. x \<in> set xs \<Longrightarrow> \<exists>y. f x = Inr y) \<Longrightarrow> \<exists>ys. smap f xs = Inr ys"
proof (induction xs)
  case (Cons x xs)
  then obtain y where "f x = Inr y" by auto
  moreover obtain ys where "smap f xs = Inr ys" using Cons by auto
  ultimately show ?case by simp
qed simp

lemma smap_known:
  assumes "known_states ops ids" "\<And>i. known_states ops [i] \<Longrightarrow> \<exists>v. f i = Inr v"
  shows "\<exists>vs. smap f ids = Inr vs"
  by (rule smap_total, rule assms(2)) (use assms(1) in \<open>auto simp: known_states_def\<close>)

lemma known_found: "known_states ops [i] \<Longrightarrow> \<exists>d. ops i = Some d"
  by (auto simp: op_state_def split: option.splits)

lemma public_app_total:
  assumes k: "known_states ops (app_op_ids a)"
  shows "\<exists>v. public_app a ops = Inr v"
proof -
  have each: "\<And>i. i \<in> set (app_op_ids a) \<Longrightarrow> known_states ops [i]" using k by (auto simp: known_states_def)
  obtain s where s: "derive_state a ops = Inr s" using derive_state_total [OF k] by blast
  obtain js where js: "planned_ids a ops = Inr js"
    using known_ids_in_state [OF k] by (auto simp: planned_ids_def)
  have kr: "known_states ops (router_ops a)" using k by (simp add: app_op_ids_def)
  obtain r where r: "current_router a ops = Inr r" "\<forall>i. r = Some i \<longrightarrow> i \<in> set (router_ops a)"
    using known_current_router [OF kr] by blast
  obtain p where p: "primary_of a ops = Inr p"
    using known_newest_succeeded [of ops "rev (router_ops a)"] kr by (auto simp: primary_of_def)
  have td: "\<exists>v. view_teardown a ops = Inr v"
  proof (cases "ap_teardown a")
    case (Some td)
    have k1: "known_states ops (case td_router_id td of None \<Rightarrow> [] | Some i \<Rightarrow> [i])"
      and k2: "known_states ops (case td_replicas td of None \<Rightarrow> [] | Some is \<Rightarrow> is)"
      using k by (simp_all add: app_op_ids_def teardown_ids_def Some)
    obtain rs where "smap (\<lambda>i. view_member ops Router_destroy None i (ap_router_resource_id a))
        (case td_router_id td of None \<Rightarrow> [] | Some i \<Rightarrow> [i]) = Inr rs"
      using smap_known [OF k1, of "\<lambda>i. view_member ops Router_destroy None i (ap_router_resource_id a)"]
        view_member_total by blast
    moreover have "\<exists>v. view_destroyed a ops i = Inr v" if "known_states ops [i]" for i
      using known_found [OF that] view_member_total [OF that] by (auto simp: view_destroyed_def)
    then obtain vs where "smap (view_destroyed a ops) (case td_replicas td of None \<Rightarrow> [] | Some is \<Rightarrow> is) = Inr vs"
      using smap_known [OF k2, of "view_destroyed a ops"] by blast
    ultimately show ?thesis by (simp add: view_teardown_def Some)
  qed (simp add: view_teardown_def)
  have "\<exists>vs. smap (\<lambda>m. view_member ops Replica (Some (m_index m)) (m_operation_id m) (Some (m_resource_id m))) (ap_members a) = Inr vs"
    by (rule smap_total, rule view_member_total, rule each) (simp add: app_op_ids_def replica_op_ids_def)
  moreover have "\<exists>v. (case r of None \<Rightarrow> Inr None
      | Some i \<Rightarrow> sbind (view_member ops Router None i (ap_router_resource_id a)) (\<lambda>v. Inr (Some v))) = Inr v"
  proof (cases r)
    case (Some i)
    then have "i \<in> set (app_op_ids a)" using r(2) by (simp add: app_op_ids_def)
    from view_member_total [OF each [OF this]] obtain v where "view_member ops Router None i (ap_router_resource_id a) = Inr v" by blast
    then show ?thesis by (simp add: Some)
  qed simp
  moreover have "\<exists>e. app_error_text a ops s = Inr e" by (simp add: app_error_text_def Let_def js)
  moreover have "\<exists>ps. (if s = A_failed then planned_ids a ops else Inr []) = Inr ps" by (simp add: js)
  ultimately obtain members router why ps where
    "smap (\<lambda>m. view_member ops Replica (Some (m_index m)) (m_operation_id m) (Some (m_resource_id m))) (ap_members a) = Inr members"
    "(case r of None \<Rightarrow> Inr None
      | Some i \<Rightarrow> sbind (view_member ops Router None i (ap_router_resource_id a)) (\<lambda>v. Inr (Some v))) = Inr router"
    "app_error_text a ops s = Inr why" "(if s = A_failed then planned_ids a ops else Inr []) = Inr ps" by blast
  moreover obtain t where "view_teardown a ops = Inr t" using td by blast
  ultimately show ?thesis unfolding public_app_def Let_def s r(1) p sbind.simps by simp
qed

lemma app_op_ids_links: "set (app_op_ids a) \<subseteq> set (app_links a)"
  by (auto simp: app_op_ids_def app_links_def replica_op_ids_def router_ops_def router_links_def teardown_ids_def
      teardown_links_def td_router_id_def or_empty_def split: option.splits if_splits)

lemma reachable_known_states:
  assumes "reachable s" "app_find i (s_world s) = Some a"
  shows "known_states (load_ops a (s_world s)) (app_op_ids a)"
  unfolding known_states_def
proof
  fix j assume j: "j \<in> set (app_op_ids a)"
  with reachable_links [OF assms] app_op_ids_links obtain r where r: "op_find j (s_world s) = Some r"
    by (fastforce simp: links_exist_def)
  have "row_ok r" using op_find_row_ok [OF reachable_wf [OF assms(1)] r] by simp
  then show "\<exists>st. op_state (load_ops a (s_world s)) j = Inr st \<and> st \<noteq> Ready \<and> st \<noteq> Destroyed"
    using r j by (auto simp: op_state_def load_ops_def operations_by_id_def op_body_def row_ok_def)
qed

text \<open>C7. Every app the ledger holds has a state. In every reachable ledger the derived state of every
  recorded app is defined, and so is its public view: no lookup of a member, router, failover or
  teardown operation can fail, and no operation state falls outside the tables.\<close>

theorem app_state_always_defined:
  assumes "reachable s" and "app_find i (s_world s) = Some a"
  shows "(\<exists>st. derive_state a (load_ops a (s_world s)) = Inr st) \<and>
    (\<exists>v. public_app a (load_ops a (s_world s)) = Inr v)"
  using derive_state_total public_app_total reachable_known_states [OF assms] by blast

theorem app_state_always_defined_witness:
  "\<exists>v. public_app demo_app_row (load_ops demo_app_row (app_world demo_plan 4)) = Inr v"
  using app_state_always_defined [OF app_reachable3, of "''app_1''" demo_app_row]
  by (simp add: demo_sys_def app_find_demo)

section \<open>Approval\<close>

lemma smap_all_planned:
  "smap (op_state ops) ids = Inr ss \<Longrightarrow> list_all (\<lambda>s. s = Planned) ss \<Longrightarrow> i \<in> set ids \<Longrightarrow> op_state ops i = Inr Planned"
  by (induction ids arbitrary: ss) (auto simp: sbind_Inr_iff)

lemma router_state_planned: "router_state s = Inr Awaiting_router_approval \<Longrightarrow> s = Planned"
  by (cases s) (auto simp: router_state_def)

lemma router_destroy_state_planned: "router_destroy_state s = Inr Awaiting_router_destroy_approval \<Longrightarrow> s = Planned"
  by (cases s) (auto simp: router_destroy_state_def)

lemma router_state_range: "router_state s \<noteq> Inr Awaiting_replica_approval"
  "router_state s \<noteq> Inr Awaiting_router_destroy_approval" "router_state s \<noteq> Inr Awaiting_replica_destroy_approval"
  "router_destroy_state s \<noteq> Inr Awaiting_replica_approval" "router_destroy_state s \<noteq> Inr Awaiting_router_approval"
  "router_destroy_state s \<noteq> Inr Awaiting_replica_destroy_approval"
  by (cases s; simp add: router_state_def router_destroy_state_def)+

definition awaiting :: "app_state list" where
  "awaiting = [Awaiting_replica_approval, Awaiting_router_approval, Awaiting_router_destroy_approval,
     Awaiting_replica_destroy_approval]"

lemma rollout_awaiting:
  assumes "rollout_state why replicas router = Inr st" "st \<in> set awaiting"
  shows "(st = Awaiting_replica_approval \<and> router = None \<and> list_all (\<lambda>s. s = Planned) replicas) \<or>
    (st = Awaiting_router_approval \<and> router = Some Planned)"
  using assms
  by (auto simp: rollout_state_def Let_def awaiting_def router_state_range dest: router_state_planned
      split: if_splits option.splits)

lemma teardown_awaiting:
  assumes "teardown_state why router replicas = Inr st" "st \<in> set awaiting"
  shows "(st = Awaiting_router_destroy_approval \<and> router = Some Planned \<and> replicas = None) \<or>
    (\<exists>ss. st = Awaiting_replica_destroy_approval \<and> replicas = Some ss \<and> list_all (\<lambda>s. s = Planned) ss)"
  using assms
  by (auto simp: teardown_state_def Let_def awaiting_def router_state_range dest: router_destroy_state_planned
      split: if_splits option.splits)

lemma gate_planned:
  assumes st: "derive_state a ops = Inr st" and aw: "st \<in> set awaiting" and g: "gate a ops = Inr ids" and i: "i \<in> set ids"
  shows "op_state ops i = Inr Planned"
proof (cases "ap_teardown a")
  case None
  from st None obtain ss r q where ss: "smap (op_state ops) (replica_op_ids a) = Inr ss"
    and r: "current_router a ops = Inr r" "optional_state ops r = Inr q" and roll: "rollout_state (ap_error a) ss q = Inr st"
    by (auto simp: derive_state_def sbind_Inr_iff)
  from rollout_awaiting [OF roll aw] show ?thesis
  proof
    assume "st = Awaiting_replica_approval \<and> q = None \<and> list_all (\<lambda>s. s = Planned) ss"
    with g st i ss show ?thesis by (auto simp: gate_def intro: smap_all_planned)
  next
    assume h: "st = Awaiting_router_approval \<and> q = Some Planned"
    with r obtain j where "r = Some j" "op_state ops j = Inr Planned"
      by (auto simp: optional_state_def sbind_Inr_iff split: option.splits)
    with g st i r h show ?thesis by (auto simp: gate_def opt_key_def)
  qed
next
  case (Some td)
  from st Some obtain q rs where q: "optional_state ops (td_router_id td) = Inr q"
    and rs: "teardown_replica_states td ops = Inr rs" and tdn: "teardown_state (td_error td) q rs = Inr st"
    by (auto simp: derive_state_def derive_teardown_state_def sbind_Inr_iff)
  from teardown_awaiting [OF tdn aw] show ?thesis
  proof
    assume h: "st = Awaiting_router_destroy_approval \<and> q = Some Planned \<and> rs = None"
    with q obtain j where "td_router_id td = Some j" "op_state ops j = Inr Planned"
      by (auto simp: optional_state_def sbind_Inr_iff split: option.splits)
    with g st i h Some show ?thesis by (auto simp: gate_def opt_key_def td_router_id_def split: if_splits)
  next
    assume "\<exists>ss. st = Awaiting_replica_destroy_approval \<and> rs = Some ss \<and> list_all (\<lambda>s. s = Planned) ss"
    then obtain ss where h: "st = Awaiting_replica_destroy_approval" "rs = Some ss" "list_all (\<lambda>s. s = Planned) ss" by blast
    with rs obtain ids' where "td_replicas td = Some ids'" "smap (op_state ops) ids' = Inr ss"
      by (auto simp: teardown_replica_states_def sbind_Inr_iff split: option.splits)
    with g st i h Some show ?thesis by (auto simp: gate_def intro: smap_all_planned)
  qed
qed

text \<open>An approval gate opens only when everything it names is a reviewed plan: when an app's state
  says it awaits an approval, every operation the gate names is planned.\<close>

theorem gate_names_planned_operations:
  assumes "derive_state a ops = Inr st" "st \<in> set awaiting" "gate a ops = Inr ids"
  shows "\<forall>i \<in> set ids. op_state ops i = Inr Planned"
  using gate_planned [OF assms] by blast

lemma demo_plan_state: "op_state (load_ops demo_app_row (app_world demo_plan 4)) ''op_1'' = Inr Planned"
  by (simp add: op_state_def load_ops_def operations_by_id_def app_op_ids_def replica_op_ids_def op_body_def
      op_find_def row_find_Cons demo_defs app_defs)

lemma demo_app_state: "derive_state demo_app_row (load_ops demo_app_row (app_world demo_plan 4)) = Inr Awaiting_replica_approval"
  using demo_plan_state
  by (simp add: derive_state_def current_router_def router_ops_def optional_state_def rollout_state_def ACTIVE_def
      replica_op_ids_def or_empty_def demo_app_row_def demo_app_def)

lemma demo_gate: "gate demo_app_row (load_ops demo_app_row (app_world demo_plan 4)) = Inr [''op_1'']"
  by (simp add: gate_def demo_app_state) (simp add: replica_op_ids_def demo_app_row_def)

theorem gate_names_planned_operations_witness:
  "op_state (load_ops demo_app_row (app_world demo_plan 4)) ''op_1'' = Inr Planned"
  using gate_names_planned_operations [OF demo_app_state _ demo_gate] by (simp add: awaiting_def)

lemma check_approvalD:
  "check_approval x w ops c ids = Inr u \<Longrightarrow> i \<in> set ids \<Longrightarrow>
     \<exists>d. ops i = Some d \<and> authorize x w (Some d) c True = Inr d \<and> check_op_guardrails w d = Inr ()"
proof (induction ids)
  case (Cons j ids)
  then obtain d where d: "ops j = Some d" by (auto split: option.splits)
  obtain op where op: "authorize x w (Some d) c True = Inr op" "check_op_guardrails w op = Inr ()"
    "check_approval x w ops c ids = Inr u"
    using Cons.prems(1) d by (auto simp: sbind_Inr_iff)
  have "op = d" using op(1) by (auto simp: authorize_def sbind_Inr_iff split: if_splits option.splits)
  with Cons op d show ?case by auto
qed simp

lemma dict_merge_values:
  assumes "(k, v) \<in> set (dict_merge [] (map (\<lambda>i. (i, f i)) ids))" shows "v = f k \<and> k \<in> set ids"
proof -
  let ?d = "dict_merge [] (map (\<lambda>i. (i, f i)) ids)"
  have "distinct (map fst ?d)" by (rule dict_merge_distinct) simp
  with assms have "map_of ?d k = Some v" by simp
  then have "map_of (rev (map (\<lambda>i. (i, f i)) ids)) k = Some v"
    by (simp add: dict_merge_map_of split: option.splits)
  then have "(k, v) \<in> set (rev (map (\<lambda>i. (i, f i)) ids))" by (rule map_of_SomeD)
  then show ?thesis by auto
qed

text \<open>C39. An accepted approval runs exactly the plans the approver reviewed. The request named
  exactly the operations of the current gate; the approver may change each of them and each passes
  the guardrails; afterwards each is queued to apply with exactly the digest the request gave for it, and no
  operation outside the gate has changed.\<close>

theorem approval_runs_reviewed_plans:
  assumes "reachable s" "s_world s = w" and "approve x a digests c t w = (Inr done_ops, w')"
  shows "\<exists>ids. gate a (load_ops a w) = Inr ids \<and> set (map fst digests) = set ids \<and>
    (\<forall>i \<in> set ids. (\<exists>d. op_body i w = Some d \<and> authorize x w (Some d) c True = Inr d \<and> check_op_guardrails w d = Inr ()) \<and>
       (\<exists>op. op_body i w' = Some op \<and> executing op \<and> d_plan_digest op = map_of digests i)) \<and>
    (\<forall>j. j \<notin> set ids \<longrightarrow> op_body j w' = op_body j w)"
proof -
  let ?ops = "load_ops a w"
  have wf: "wf w" using reachable_wf [OF assms(1)] assms(2) by simp
  obtain ids where g: "gate a ?ops = Inr ids" and same: "set (map fst digests) = set ids"
    and chk: "check_approval x w ?ops c ids = Inr ()"
    and ex: "execute_many (dict_merge [] (map (\<lambda>i. (i, the (map_of digests i))) ids)) (caller_id c) (Some (ap_id a)) t w = (Inr done_ops, w')"
    using assms(3) by (auto simp: approve_def Let_def same_set_def split: sum.splits if_splits)
  let ?items = "dict_merge [] (map (\<lambda>i. (i, the (map_of digests i))) ids)"
  have dist: "distinct (map fst ?items)" by (rule dict_merge_distinct) simp
  have keys: "fst ` set ?items = set ids"
    using dict_merge_key_set [of "[]" "map (\<lambda>i. (i, the (map_of digests i))) ids"] by (simp add: image_image)
  note many = execute_many_ok [OF wf dist ex]
  have run: "\<exists>op. op_body i w' = Some op \<and> executing op \<and> d_plan_digest op = map_of digests i" if i: "i \<in> set ids" for i
  proof -
    from i keys have "i \<in> fst ` set ?items" by blast
    then obtain d where d: "(i, d) \<in> set ?items" by force
    then obtain op where "op_body i w' = Some op \<and> executing op \<and> d_plan_digest op = Some d"
      using many by (fastforce simp: list_all2_conv_all_nth in_set_conv_nth)
    moreover have "map_of digests i = Some d"
    proof -
      have "map_of digests i \<noteq> None" using same i by (auto simp: map_of_eq_None_iff)
      with dict_merge_values [OF d] show ?thesis by auto
    qed
    ultimately show ?thesis by auto
  qed
  have allowed: "\<exists>d. op_body i w = Some d \<and> authorize x w (Some d) c True = Inr d \<and> check_op_guardrails w d = Inr ()"
    if "i \<in> set ids" for i
    using check_approvalD [OF chk that] by (auto simp: load_ops_def operations_by_id_def split: if_splits)
  have others: "\<forall>j. j \<notin> set ids \<longrightarrow> op_body j w' = op_body j w" using many keys by simp
  show ?thesis
    by (rule exI [of _ ids]) (use g same run allowed others in simp)
qed

definition demo_ext :: ext where
  "demo_ext = \<lparr>x_catalog = [], x_tags = (\<lambda>_. Inr []), x_documents = (\<lambda>_. Inr []), x_config = (\<lambda>_. Inr JNull),
     x_json = (\<lambda>_. None), x_regex_ok = (\<lambda>_. True), x_validator = (\<lambda>_ _. []), x_absolute = (\<lambda>s. s),
     x_legacy = None, x_member_groups = (\<lambda>_. None)\<rparr>"

definition amy :: caller where
  "amy = \<lparr>caller_id = ''amy'', caller_groups = []\<rparr>"

lemma demo_approve: "\<exists>w'. approve demo_ext demo_app_row [(''op_1'', ''d1'')] amy 40 (app_world demo_plan 4) = (Inr [demo_approved], w')"
  using demo_gate
  by (simp add: approve_def same_set_def load_ops_def operations_by_id_def app_op_ids_def replica_op_ids_def
      authorize_def visible_def enabled_def db_source_def check_op_guardrails_def check_guardrails_def amy_def
      dict_merge_def execute_many_def execute_batch_def execute_tx_def expired_def plan_expires_at_def
      demo_ops demo_defs app_defs)

theorem approval_runs_reviewed_plans_witness:
  "\<exists>w' op. approve demo_ext demo_app_row [(''op_1'', ''d1'')] amy 40 (app_world demo_plan 4) = (Inr [demo_approved], w') \<and>
     op_body ''op_1'' w' = Some op \<and> executing op \<and> d_plan_digest op = Some ''d1''"
proof -
  have w: "s_world (demo_sys (app_world demo_plan 4) [demo_planning]) = app_world demo_plan 4" by (simp add: demo_sys_def)
  obtain w' where a: "approve demo_ext demo_app_row [(''op_1'', ''d1'')] amy 40 (app_world demo_plan 4) = (Inr [demo_approved], w')"
    using demo_approve by blast
  from approval_runs_reviewed_plans [OF app_reachable3 w a] a show ?thesis by (auto simp: demo_gate)
qed

end
