(* ===== verification/FailoverProperties.thy ===== *)
theory FailoverProperties
  imports AppProperties
begin

text \<open>
  Failover and teardown of an app: which replica the router's inputs follow, when the recorded
  primary takes effect, and in which order a teardown destroys.
\<close>

section \<open>Failover\<close>

lemma failover_step_other:
  "failover_step a cur target rr refs = Inr out \<Longrightarrow> n \<notin> fst ` set rr \<Longrightarrow> map_of out n = map_of refs n"
proof (induction a cur target rr refs rule: failover_step.induct)
  case (2 a cur target n' ref rest refs)
  then show ?case by (auto simp: sbind_Inr_iff dict_set_map_of split: if_splits)
qed simp

lemma failover_step_entry:
  assumes "failover_step a cur target rr refs = Inr out" "distinct (map fst rr)" "(n, ref) \<in> set rr"
  shows "if has_prefix ''primary_'' n
    then target < length (ap_members a) \<and>
      map_of out n = Some \<lparr>ref_resource_id = m_resource_id (ap_members a ! target), ref_output = rr_output ref\<rparr>
    else if has_prefix ''secondary_'' n
    then cur < length (ap_members a) \<and>
      map_of out n = Some \<lparr>ref_resource_id = m_resource_id (ap_members a ! cur), ref_output = rr_output ref\<rparr>
    else map_of out n = map_of refs n"
  using assms
proof (induction a cur target rr refs rule: failover_step.induct)
  case (2 a cur target n' ref' rest refs)
  show ?case
  proof (cases "(n, ref) = (n', ref')")
    case True
    with "2.prems" have fresh: "n \<notin> fst ` set rest" by simp
    from "2.prems"(1) True show ?thesis
      by (auto simp: sbind_Inr_iff member_at_def dict_set_map_of split: if_splits
          dest!: failover_step_other [OF _ fresh])
  next
    case False
    with "2.prems"(3) have mem: "(n, ref) \<in> set rest" by auto
    with "2.prems"(2) have neq: "n' \<noteq> n" by (auto simp: rev_image_eqI)
    have d: "distinct (map fst rest)" using "2.prems"(2) by simp
    show ?thesis
    proof (cases "has_prefix ''primary_'' n'")
      case True
      with "2.prems"(1) obtain m where m: "member_at a target = Inr m"
        "failover_step a cur target rest (dict_set n' \<lparr>ref_resource_id = m_resource_id m, ref_output = rr_output ref'\<rparr> refs) = Inr out"
        by (auto simp: sbind_Inr_iff)
      from "2.IH"(1) [OF True m(2) d mem] neq show ?thesis by (simp add: dict_set_map_of)
    next
      case np: False
      show ?thesis
      proof (cases "has_prefix ''secondary_'' n'")
        case True
        with np "2.prems"(1) obtain m where m: "member_at a cur = Inr m"
          "failover_step a cur target rest (dict_set n' \<lparr>ref_resource_id = m_resource_id m, ref_output = rr_output ref'\<rparr> refs) = Inr out"
          by (auto simp: sbind_Inr_iff)
        from "2.IH"(2) [OF np True m(2) d mem] neq show ?thesis by (simp add: dict_set_map_of)
      next
        case False
        with np "2.prems"(1) have "failover_step a cur target rest refs = Inr out" by simp
        from "2.IH"(3) [OF np False this d mem] show ?thesis .
      qed
    qed
  qed
qed simp

text \<open>A failover redirects exactly the primary and secondary inputs: every \<open>primary_\<close> input of the
  router reads the new primary's resource, every \<open>secondary_\<close> input the resource that was primary,
  with the output each named before, and every other input keeps its reference.\<close>

theorem failover_redirects_inputs:
  assumes "failover_refs a w cur target = Inr refs" and "distinct (map fst (sp_replica_refs (ap_router_spec a)))"
  shows "\<forall>(n, ref) \<in> set (sp_replica_refs (ap_router_spec a)).
     if has_prefix ''primary_'' n
     then map_of refs n = Some \<lparr>ref_resource_id = m_resource_id (ap_members a ! target), ref_output = rr_output ref\<rparr>
     else if has_prefix ''secondary_'' n
     then map_of refs n = Some \<lparr>ref_resource_id = m_resource_id (ap_members a ! cur), ref_output = rr_output ref\<rparr>
     else map_of refs n = map_of (case resource_or_none (ap_router_resource_id a) w of None \<Rightarrow> [] | Some r \<Rightarrow> p_input_refs (d_def r)) n"
  using failover_step_entry [OF assms(1) [unfolded failover_refs_def] assms(2)] by (auto split: if_splits)

text \<open>Two replicas behind a router with a primary and a secondary input.\<close>

definition pair_app :: app where
  "pair_app = demo_app\<lparr>ap_members := [\<lparr>m_index = 0, m_operation_id = ''op_1'', m_resource_id = ''res_1''\<rparr>,
       \<lparr>m_index = 1, m_operation_id = ''op_2'', m_resource_id = ''res_2''\<rparr>],
     ap_router_operation_id := Some ''op_3'', ap_router_resource_id := Some ''res_3'',
     ap_router_spec := demo_router\<lparr>sp_replica_refs :=
       [(''primary_host'', \<lparr>rr_replica = 0, rr_output = ''host''\<rparr>),
        (''secondary_host'', \<lparr>rr_replica = 1, rr_output = ''host''\<rparr>)]\<rparr>\<rparr>"

theorem failover_redirects_inputs_witness:
  "\<exists>refs. failover_refs pair_app demo0 0 1 = Inr refs \<and>
     map_of refs ''primary_host'' = Some \<lparr>ref_resource_id = ''res_2'', ref_output = ''host''\<rparr> \<and>
     map_of refs ''secondary_host'' = Some \<lparr>ref_resource_id = ''res_1'', ref_output = ''host''\<rparr>"
proof -
  obtain refs where r: "failover_refs pair_app demo0 0 1 = Inr refs"
    by (simp add: failover_refs_def pair_app_def has_prefix_def member_at_def resource_or_none_def res_find_def
        demo0_def empty_world_def)
  have "distinct (map fst (sp_replica_refs (ap_router_spec pair_app)))" by (simp add: pair_app_def)
  from failover_redirects_inputs [OF r this] r show ?thesis by (simp add: pair_app_def has_prefix_def)
qed

lemma router_ops_failover:
  "router_ops (with_failover a h op p k m t) = h @ [op]"
  by (simp add: router_ops_def with_failover_def stamp_app_def)

lemma failover_targets_new:
  "map_of (failover_targets (with_failover a h op p k m t)) j =
     (if j = op then Some p else map_of (failover_targets a) j)"
  by (simp add: failover_targets_def dict_merge_map_of with_failover_def stamp_app_def split: option.splits)

lemma newest_succeeded_mem: "newest_succeeded ops ids = Inr (Some i) \<Longrightarrow> i \<in> set ids"
  by (induction ids) (auto simp: sbind_Inr_iff split: if_splits)

lemma current_router_failover:
  assumes "op_state ops op = Inr s" "h = router_ops a" "h \<noteq> []"
  shows "current_router (with_failover a h op p k m t) ops = (if s = Failed then current_router a ops else Inr (Some op))"
  using assms by (cases "router_ops a") (auto simp: current_router_def router_ops_failover)

lemma primary_of_failover:
  assumes "op_state ops op = Inr s" "op \<notin> set (router_ops a)"
  shows "primary_of (with_failover a (router_ops a) op p k m t) ops = (if s = Succeeded then Inr p else primary_of a ops)"
proof (cases "s = Succeeded")
  case True
  with assms show ?thesis by (simp add: primary_of_def router_ops_failover failover_targets_new)
next
  case False
  have spec: "ap_router_spec (with_failover a (router_ops a) op p k m t) = ap_router_spec a"
    by (simp add: with_failover_def stamp_app_def)
  show ?thesis
  proof (cases "newest_succeeded ops (rev (router_ops a))")
    case (Inl e)
    with False assms show ?thesis by (simp add: primary_of_def router_ops_failover)
  next
    case (Inr r)
    have "r \<noteq> Some op" using newest_succeeded_mem [of ops "rev (router_ops a)" op] Inr assms(2) by auto
    then show ?thesis
      by (cases r) (simp_all add: False assms(1) Inr primary_of_def router_ops_failover failover_targets_new spec split: option.split)
  qed
qed

text \<open>A failover takes effect when its router update has succeeded, not before, and a failed one
  leaves no trace: until then the primary is the one it was; while the update is planned or applied
  the app is described by it; when it fails, the app goes back to the previous router.\<close>

theorem failover_effect:
  assumes "op_state ops op = Inr s" and "router_ops a \<noteq> []" "op \<notin> set (router_ops a)"
  shows "primary_of (with_failover a (router_ops a) op p k m t) ops = (if s = Succeeded then Inr p else primary_of a ops) \<and>
    current_router (with_failover a (router_ops a) op p k m t) ops = (if s = Failed then current_router a ops else Inr (Some op))"
  using primary_of_failover [OF assms(1,3)] current_router_failover [OF assms(1) refl assms(2)] by blast

definition pair_ops :: "state \<Rightarrow> ops" where
  "pair_ops s i = (if i = ''op_4'' then Some (demo_plan\<lparr>d_state := Some s\<rparr>) else Some demo_applied)"

theorem failover_effect_witness:
  "primary_of (with_failover pair_app [''op_3''] ''op_4'' 1 ''amy:k'' JNull 9) (pair_ops Succeeded) = Inr 1 \<and>
   primary_of (with_failover pair_app [''op_3''] ''op_4'' 1 ''amy:k'' JNull 9) (pair_ops Failed) = primary_of pair_app (pair_ops Failed)"
proof -
  have r: "router_ops pair_app = [''op_3'']" by (simp add: router_ops_def pair_app_def or_empty_def demo_app_def)
  have s: "op_state (pair_ops s) ''op_4'' = Inr s" for s by (simp add: op_state_def pair_ops_def)
  show ?thesis
    using failover_effect [OF s [of Succeeded], of pair_app 1 "''amy:k''" JNull 9]
      failover_effect [OF s [of Failed], of pair_app 1 "''amy:k''" JNull 9]
    by (simp add: r)
qed

section \<open>Teardown\<close>

text \<open>A teardown is ordered. The replicas' destroys are asked for only when the teardown has not
  failed, none is recorded yet, and the router's destroy, if there is one, has succeeded; and an app is
  destroyed only when every replica destroy recorded has succeeded.\<close>

theorem teardown_is_ordered:
  assumes "check_teardown a ops = Inr r"
  shows "(r = Replicas_needed \<longrightarrow> (\<exists>td. ap_teardown a = Some td \<and> td_replicas td = None \<and> or_empty (td_error td) = [] \<and>
       (\<forall>i. td_router_id td = Some i \<longrightarrow> op_state ops i = Inr Succeeded))) \<and>
    (r = Teardown_state A_destroyed \<longrightarrow> (\<exists>td ids. ap_teardown a = Some td \<and> td_replicas td = Some ids \<and>
       (\<forall>i \<in> set ids. op_state ops i = Inr Succeeded)))"
proof -
  obtain s where s: "derive_state a ops = Inr s"
    using assms by (auto simp: check_teardown_def sbind_Inr_iff)
  have all: "smap (op_state ops) ids = Inr ss \<Longrightarrow> list_all (\<lambda>s. s = Succeeded) ss \<Longrightarrow> i \<in> set ids \<Longrightarrow>
      op_state ops i = Inr Succeeded" for ids ss i
    by (induction ids arbitrary: ss) (auto simp: sbind_Inr_iff)
  have td: "\<exists>q rs. optional_state ops (td_router_id td) = Inr q \<and> teardown_replica_states td ops = Inr rs \<and>
      teardown_state (td_error td) q rs = Inr s" if "ap_teardown a = Some td" for td
    using s that by (auto simp: derive_state_def derive_teardown_state_def sbind_Inr_iff)
  show ?thesis
  proof (intro conjI impI)
    assume r: "r = Replicas_needed"
    with assms s obtain td where t: "ap_teardown a = Some td" "td_replicas td = None" "s = Planning_replica_destroy"
      by (auto simp: check_teardown_def split: if_splits option.splits)
    from td [OF t(1)] t(2,3) obtain q where q: "optional_state ops (td_router_id td) = Inr q"
      "teardown_state (td_error td) q None = Inr Planning_replica_destroy"
      by (auto simp: teardown_replica_states_def)
    have "router_destroy_state x \<noteq> Inr Planning_replica_destroy" for x
      by (cases x) (auto simp: router_destroy_state_def)
    with q(2) have "or_empty (td_error td) = [] \<and> (\<forall>x. q = Some x \<longrightarrow> x = Succeeded)"
      by (auto simp: teardown_state_def Let_def split: if_splits option.splits)
    with q(1) t show "\<exists>td. ap_teardown a = Some td \<and> td_replicas td = None \<and> or_empty (td_error td) = [] \<and>
       (\<forall>i. td_router_id td = Some i \<longrightarrow> op_state ops i = Inr Succeeded)"
      by (auto simp: optional_state_def sbind_Inr_iff)
  next
    assume r: "r = Teardown_state A_destroyed"
    with assms s have sd: "s = A_destroyed"
      by (auto simp: check_teardown_def split: if_splits option.splits)
    have "router_state x \<noteq> Inr A_destroyed" "router_destroy_state x \<noteq> Inr A_destroyed" for x
      by (cases x; simp add: router_state_def router_destroy_state_def)+
    note no = this
    have "ap_teardown a \<noteq> None"
      using s sd no by (auto simp: derive_state_def sbind_Inr_iff rollout_state_def Let_def split: if_splits option.splits)
    then obtain td0 where t: "ap_teardown a = Some td0" by blast
    from td [OF t] sd obtain q rs where q: "teardown_replica_states td0 ops = Inr rs" "teardown_state (td_error td0) q rs = Inr A_destroyed"
      by blast
    then obtain ss where ss: "rs = Some ss" "list_all (\<lambda>s. s = Succeeded) ss"
      using no by (auto simp: teardown_state_def Let_def split: if_splits option.splits)
    with q(1) obtain ids where "td_replicas td0 = Some ids" "smap (op_state ops) ids = Inr ss"
      by (auto simp: teardown_replica_states_def sbind_Inr_iff split: option.splits)
    with t all ss(2) show "\<exists>td ids. ap_teardown a = Some td \<and> td_replicas td = Some ids \<and>
       (\<forall>i \<in> set ids. op_state ops i = Inr Succeeded)" by blast
  qed
qed

definition torn_app :: app where
  "torn_app = pair_app\<lparr>ap_teardown := Some \<lparr>td_key = ''amy:d'', td_fingerprint = JNull, td_actor = ''amy'',
     td_caller_groups = [], td_router = Some ''op_5'', td_replicas = None, td_error = None\<rparr>\<rparr>"

theorem teardown_is_ordered_witness:
  "check_teardown torn_app (pair_ops Succeeded) = Inr Replicas_needed \<and> op_state (pair_ops Succeeded) ''op_5'' = Inr Succeeded"
proof -
  have c: "check_teardown torn_app (pair_ops Succeeded) = Inr Replicas_needed"
    by (simp add: check_teardown_def derive_state_def derive_teardown_state_def optional_state_def td_router_id_def
        or_empty_def teardown_replica_states_def teardown_state_def op_state_def pair_ops_def torn_app_def)
  from teardown_is_ordered [OF c] c show ?thesis
    by (simp add: torn_app_def td_router_id_def or_empty_def)
qed

section \<open>Refusals\<close>

lemma accept_router_atomic: "atomic_result w (accept_router i intent res b t fresh w)"
  unfolding accept_router_def by (rule atomic_then) auto

lemma apps_accept_router_atomic: "atomic_result w (apps_accept_router x a t fresh w)"
  using accept_router_atomic
  by (auto simp: apps_accept_router_def atomic_result_def split: sum.splits prod.splits)

lemma fail_app_atomic: "atomic_result w (fail_app i why rf t w)"
  unfolding fail_app_def by (rule atomic_connect)

text \<open>A refusal that clears by itself does not fail an app. When the workflow's attempt to accept the
  router ends in a retry or is re-raised (the ledger or the repository unavailable), no table has
  changed, so the next cycle tries again; a refused router fails the app only for an error that is
  neither transient nor the server's.\<close>

theorem transient_refusal_keeps_app:
  "case accept_app_router x app_id why t fresh w of
     (Inl e, w') \<Rightarrow> same_tables w w'
   | (Inr Retry_router, w') \<Rightarrow> same_tables w w' \<and>
       (\<exists>a e. app_find app_id w = Some a \<and> fst (apps_accept_router x a t fresh w) = Inl e \<and> transient e)
   | (Inr No_router, w') \<Rightarrow> (\<exists>a r. app_find app_id w = Some a \<and> apps_accept_router x a t fresh w = r \<and>
       (case fst r of Inl e \<Rightarrow> \<not> transient e \<and> (\<exists>n. caught_status e = Some n \<and> n < 500) | Inr a' \<Rightarrow> or_empty (ap_router_operation_id a') = []))
   | (Inr (Accepted_router i), w') \<Rightarrow> i \<noteq> []"
proof (cases "app_find app_id w")
  case (Some a)
  obtain r w1 where r: "apps_accept_router x a t fresh w = (r, w1)" by fastforce
  show ?thesis
  proof (cases r)
    case (Inl e)
    have same: "same_tables w w1"
      using apps_accept_router_atomic [of w x a t fresh] r Inl by (simp add: atomic_result_def)
    obtain q w2 where q: "fail_app app_id (why e) True t w1 = (q, w2)" by fastforce
    have "same_tables w1 w2" if "q = Inl e'" for e'
      using fail_app_atomic [of w1 app_id "why e" True t] q that by (simp add: atomic_result_def)
    with same have "same_tables w w2" if "q = Inl e'" for e' using that same_tables_trans by blast
    with same r Inl q Some show ?thesis
      by (auto simp: accept_app_router_def judge_def split: option.splits sum.splits)
  qed (use Some r in \<open>auto simp: accept_app_router_def\<close>)
qed (simp add: accept_app_router_def)

end
