(* ===== verification/PolicyProperties.thy ===== *)
theory PolicyProperties
  imports AppProperties
begin

text \<open>
  What \<^verbatim>\<open>app/policy.py\<close> guarantees of a request it lets through: where it is placed, what it may
  reference, what a destroy runs, and what a caller without rights learns.
\<close>

section \<open>Inversions\<close>

lemma place_deployD:
  assumes "place_deploy x w i c r vars config result = Inr (placed, vars2, b)"
  obtains u pl target vars1 target_inputs shaped cost where
    "select_unit w c (i_business_unit i) = Inr u" "place c u (i_environment i) (i_pattern i) False = Inr pl"
    "select_target pl (pt_cloud (rs_pattern r)) = Inr target"
    "inject_target vars target = Inr (vars1, target_inputs)"
    "shape vars1 pl config (i_size i) True = Inr (vars2, shaped)"
    "estimated_cost config (env_name (pl_environment pl)) (i_size i) = Inr cost"
    "budget_of x u (pl_environment pl) cost = Inr b"
    "placed = result
       \<lparr>d_def := (d_def result)\<lparr>p_business_unit := Some (u_name u),
           p_environment := Some (env_name (pl_environment pl)),
           p_subscription_id := placed_subscription target (pl_environment pl),
           p_cloud_target := target, p_size := i_size i,
           p_injected := with_region u i vars2 (dict_merge shaped target_inputs)\<rparr>,
        d_cost := (case cost of None \<Rightarrow> JNull | Some j \<Rightarrow> j),
        d_team_revision := (if db_source w then u_revision u else None)\<rparr>"
proof -
  from assms obtain u where u: "select_unit w c (i_business_unit i) = Inr u" and
    1: "sbind (place c u (i_environment i) (i_pattern i) False) (\<lambda>pl.
    sbind (select_target pl (pt_cloud (rs_pattern r))) (\<lambda>target.
    sbind (inject_target vars target) (\<lambda>(vars1, target_inputs).
    sbind (shape vars1 pl config (i_size i) True) (\<lambda>(vars2, shaped).
    sbind (estimated_cost config (env_name (pl_environment pl)) (i_size i)) (\<lambda>cost.
    if cost \<noteq> None \<and> finite_amount (the cost) = None then Inl (HTTPException 503)
    else sbind (budget_of x u (pl_environment pl) cost) (\<lambda>budget.
      let injected = with_region u i vars2 (dict_merge shaped target_inputs)
      in Inr (result
           \<lparr>d_def := (d_def result)\<lparr>p_business_unit := Some (u_name u),
               p_environment := Some (env_name (pl_environment pl)),
               p_subscription_id := placed_subscription target (pl_environment pl),
               p_cloud_target := target, p_size := i_size i, p_injected := injected\<rparr>,
            d_cost := (case cost of None \<Rightarrow> JNull | Some j \<Rightarrow> j),
            d_team_revision := (if db_source w then u_revision u else None)\<rparr>,
          vars2, budget))))))) = Inr (placed, vars2, b)"
    unfolding place_deploy_def by (rule sbind_InrE)
  obtain pl where pl: "place c u (i_environment i) (i_pattern i) False = Inr pl" using 1 by (rule sbind_InrE)
  obtain target where t: "select_target pl (pt_cloud (rs_pattern r)) = Inr target"
    using 1 unfolding pl sbind.simps by (rule sbind_InrE)
  obtain vars1 ti where ti: "inject_target vars target = Inr (vars1, ti)"
    using 1 unfolding pl t sbind.simps by (rule sbind_InrE) (auto simp: that)
  obtain vars3 sh where sh: "shape vars1 pl config (i_size i) True = Inr (vars3, sh)"
    using 1 unfolding pl t ti sbind.simps prod.case by (rule sbind_InrE) (auto simp: that)
  obtain cost where co: "estimated_cost config (env_name (pl_environment pl)) (i_size i) = Inr cost"
    using 1 unfolding pl t ti sh sbind.simps prod.case by (rule sbind_InrE)
  obtain b' where b': "budget_of x u (pl_environment pl) cost = Inr b'"
    using 1 unfolding pl t ti sh co sbind.simps prod.case by (elim if_InlE sbind_InrE)
  from 1 have "vars3 = vars2 \<and> b' = b \<and> placed = result
       \<lparr>d_def := (d_def result)\<lparr>p_business_unit := Some (u_name u),
           p_environment := Some (env_name (pl_environment pl)),
           p_subscription_id := placed_subscription target (pl_environment pl),
           p_cloud_target := target, p_size := i_size i,
           p_injected := with_region u i vars3 (dict_merge sh ti)\<rparr>,
        d_cost := (case cost of None \<Rightarrow> JNull | Some j \<Rightarrow> j),
        d_team_revision := (if db_source w then u_revision u else None)\<rparr>"
    unfolding pl t ti sh co b' sbind.simps prod.case Let_def
    by (elim if_InlE) (simp only: sum.inject prod.inject, elim conjE, hypsubst, intro conjI refl)
  with u pl t ti sh co b' show ?thesis using that by blast
qed

lemma validate_deploy_placed:
  assumes "validate_deploy x w i0 c previous = Inr (d, b)" "enabled w"
  obtains r vars config placed vars1 vals where
    "variables x r = Inr vars" "x_config x r = Inr config"
    "place_deploy x w (with_previous i0 previous) c r vars config (deploy_result x (with_previous i0 previous) r previous) =
       Inr (placed, vars1, b)"
    "resolve_refs x w (i_inputs i0) c (p_business_unit (d_def d), p_environment (d_def d))
       (case i_input_refs i0 of None \<Rightarrow> [] | Some rs \<Rightarrow> rs) = Inr vals"
    "schema_errors x (i_pattern i0) vars1 (dict_merge (i_inputs i0) vals) = []"
    "d = placed\<lparr>d_def := (d_def placed)\<lparr>p_inputs := dict_merge (i_inputs i0) vals\<rparr>\<rparr>"
  using assms(1)
proof (rule validate_deployD)
  fix r vars config placed vars1
  assume v: "variables x r = Inr vars" "x_config x r = Inr config"
    and p: "place_result x w (with_previous i0 previous) c r vars config (deploy_result x (with_previous i0 previous) r previous) = Inr (placed, vars1, b)"
    and k: "check_deploy x w (with_previous i0 previous) c placed vars1 = Inr d"
  from p assms(2) have p: "place_deploy x w (with_previous i0 previous) c r vars config (deploy_result x (with_previous i0 previous) r previous) = Inr (placed, vars1, b)"
    by (simp add: place_result_def)
  from k show thesis
    by (rule check_deployD) (rule that [OF v p], simp_all)
qed

lemma validate_deploy_action:
  assumes "validate x w i c = Inr (d, b)" "i_action i \<noteq> Destroy"
  shows "\<exists>previous. validate_deploy x w i c previous = Inr (d, b) \<and>
    (\<forall>p. previous = Some p \<longrightarrow> check_previous x w i c (or_empty (i_resource_id i)) = Inr p)"
  using assms by (auto simp: validate_def sbind_Inr_iff split: if_splits)

section \<open>Placement\<close>

lemma dict_set_keys_merge: "fst ` set (dict_merge a b) = fst ` set a \<union> fst ` set b"
proof (induction b arbitrary: a)
  case (Cons kv b)
  obtain k v where kv: "kv = (k, v)" by fastforce
  have "dict_merge a (kv # b) = dict_merge (dict_set k v a) b" by (simp add: dict_merge_def kv)
  then show ?case using Cons by (auto simp: kv dict_set_keys)
qed (simp add: dict_merge_def)

lemma unit_env_name:
  "unit_env (build_unit n spec a rv) (Some e) = Some env \<Longrightarrow> env_name env = e"
  by (auto simp: unit_env_def build_unit_def build_environment_def Let_def dest!: map_of_SomeD)

lemma loaded_env_name:
  assumes "u \<in> set (map snd (load w))" "unit_env u e = Some env"
  shows "e = Some (env_name env)"
proof -
  from assms(1) obtain n spec a rv where "u = build_unit n spec a rv"
    by (auto simp: load_def unit_of_row_def split: if_splits)
  with assms(2) show ?thesis using unit_env_name by (cases e) (auto simp: unit_env_def)
qed

text \<open>C26. A deploy is placed where its caller may deploy. A deploy that \<open>validate\<close> lets through under
  tenancy names a business unit the caller belongs to, that is not archived and lists the pattern, and an
  environment of that unit that the caller may deploy to; its cloud target is the one that environment
  configures for the pattern's cloud, and the budget it will be held to is that environment's.\<close>

theorem deploy_is_placed:
  assumes "validate x w i c = Inr (d, b)" and "i_action i \<noteq> Destroy" and "enabled w"
  shows "\<exists>u env. u \<in> set (map snd (load w)) \<and> unit_includes u c \<and> \<not> u_archived u \<and> i_pattern i \<in> set (u_patterns u) \<and>
     p_business_unit (d_def d) = Some (u_name u) \<and> unit_env u (p_environment (d_def d)) = Some env \<and> can_deploy u c env \<and>
     select_target \<lparr>pl_unit = u, pl_environment = env\<rparr> (p_cloud (d_def d)) = Inr (p_cloud_target (d_def d)) \<and>
     p_subscription_id (d_def d) = placed_subscription (p_cloud_target (d_def d)) env \<and>
     (env_budget_monthly env = JNull \<longrightarrow> b = None) \<and>
     (env_budget_monthly env \<noteq> JNull \<longrightarrow> (\<exists>limit legacy. b = Some \<lparr>b_limit = limit, b_legacy_committed = JNum legacy\<rparr> \<and>
        env_budget_monthly env = JNum limit \<and> legacy_committed x (u_name u) (env_name env) = Inr legacy))"
proof -
  obtain previous where v: "validate_deploy x w i c previous = Inr (d, b)"
    using validate_deploy_action [OF assms(1,2)] by blast
  obtain r vars config placed vars1 vals where
    p: "place_deploy x w (with_previous i previous) c r vars config
        (deploy_result x (with_previous i previous) r previous) = Inr (placed, vars1, b)"
    and d: "d = placed\<lparr>d_def := (d_def placed)\<lparr>p_inputs := dict_merge (i_inputs i) vals\<rparr>\<rparr>"
    by (rule validate_deploy_placed [OF v assms(3)])
  obtain u pl target cost tv ti sh where
    u: "select_unit w c (i_business_unit (with_previous i previous)) = Inr u"
    and pl: "place c u (i_environment (with_previous i previous)) (i_pattern (with_previous i previous)) False = Inr pl"
    and t: "select_target pl (pt_cloud (rs_pattern r)) = Inr target"
    and b: "budget_of x u (pl_environment pl) cost = Inr b"
    and placed: "placed = (deploy_result x (with_previous i previous) r previous)
       \<lparr>d_def := (d_def (deploy_result x (with_previous i previous) r previous))\<lparr>p_business_unit := Some (u_name u),
           p_environment := Some (env_name (pl_environment pl)),
           p_subscription_id := placed_subscription target (pl_environment pl),
           p_cloud_target := target, p_size := i_size (with_previous i previous),
           p_injected := with_region u (with_previous i previous) vars1 (dict_merge sh ti)\<rparr>,
        d_cost := (case cost of None \<Rightarrow> JNull | Some j \<Rightarrow> j),
        d_team_revision := (if db_source w then u_revision u else None)\<rparr>"
    using p by (rule place_deployD) simp
  have pat: "i_pattern (with_previous i previous) = i_pattern i"
    by (simp add: with_previous_def split: option.split)
  have du: "p_business_unit (d_def d) = Some (u_name u)" "p_environment (d_def d) = Some (env_name (pl_environment pl))"
    "p_cloud (d_def d) = pt_cloud (rs_pattern r)" "p_cloud_target (d_def d) = target"
    "p_subscription_id (d_def d) = placed_subscription target (pl_environment pl)"
    by (simp_all add: d placed deploy_result_def blank_doc_def deploy_def_def)
  have env: "unit_env u (Some (env_name (pl_environment pl))) = Some (pl_environment pl)"
    using placeD(5) [OF pl] loaded_env_name [OF select_unitD(2) [OF u] placeD(5) [OF pl]] by simp
  have plu: "\<lparr>pl_unit = u, pl_environment = pl_environment pl\<rparr> = pl" using placeD(1) [OF pl] by (cases pl) simp
  have bud: "(env_budget_monthly (pl_environment pl) = JNull \<longrightarrow> b = None) \<and>
     (env_budget_monthly (pl_environment pl) \<noteq> JNull \<longrightarrow> (\<exists>limit legacy. b = Some \<lparr>b_limit = limit, b_legacy_committed = JNum legacy\<rparr> \<and>
        env_budget_monthly (pl_environment pl) = JNum limit \<and> legacy_committed x (u_name u) (env_name (pl_environment pl)) = Inr legacy))"
    using b by (auto simp: budget_of_def finite_amount_def sbind_Inr_iff split: if_splits option.splits json.splits)
  show ?thesis
    using select_unitD(1,2) [OF u] placeD(2,3,4) [OF pl] t bud du env plu pat
    by (intro exI [of _ u] exI [of _ "pl_environment pl"]) auto
qed

text \<open>A tenancy of one unit with one environment, and a local pattern with two variables, one of which
  the platform fills. The validator reports undeclared names.\<close>

definition undeclared :: "json \<Rightarrow> (string \<times> json) list \<Rightarrow> string option list" where
  "undeclared sch inputs =
     map (\<lambda>kv. Some (fst kv)) (filter (\<lambda>kv. \<not> jhas (jget sch ''properties'') (fst kv)) inputs)"

definition shop_mapping :: json where
  "shop_mapping = JObj [(''business_units'', JObj [(''retail'', JObj [(''groups'', JList [JStr ''g1'']),
     (''patterns'', JList [JStr ''postgresql'']),
     (''environments'', JObj [(''dev'', JObj [(''budget_monthly'', JNum 100), (''subscription_id'', JStr ''s1'')])])])])]"

definition shop_world :: world where
  "shop_world = empty_world (demo_settings\<lparr>tenants_file := Some shop_mapping\<rparr>)"

definition shop_ext :: ext where
  "shop_ext = demo_ext\<lparr>x_catalog := [(''postgresql'', JObj [(''local'', JStr ''pg'')])],
     x_documents := (\<lambda>_. Inr [JObj [(''variable'', JList [JObj [(''name'', JObj [(''type'', JStr ''string'')])],
        JObj [(''environment'', JObj [(''type'', JStr ''string'')])]])]]),
     x_config := (\<lambda>_. Inr (JObj [(''estimated_costs'', JObj [(''dev'', JNum 30)])])),
     x_validator := undeclared\<rparr>"

definition shop_caller :: caller where
  "shop_caller = \<lparr>caller_id = ''amy'', caller_groups = [''g1'']\<rparr>"

definition shop_intent :: intent where
  "shop_intent = demo_intent\<lparr>i_environment := Some ''dev'', i_size := None, i_inputs := [(''name'', JStr ''db'')]\<rparr>"

definition shop_env :: environment where
  "shop_env = build_environment ''dev'' (JObj [(''budget_monthly'', JNum 100), (''subscription_id'', JStr ''s1'')])"

definition shop_unit :: business_unit where
  "shop_unit = \<lparr>u_name = ''retail'', u_groups = [''g1''], u_inject = [], u_patterns = [''postgresql''],
     u_regions_allowed = [], u_region_default = None, u_environments = [(''dev'', shop_env)], u_archived = False, u_revision = None\<rparr>"

definition shop_pattern :: pattern where
  "shop_pattern = \<lparr>pt_name = ''postgresql'', pt_repo = None, pt_path = [], pt_default_version = None, pt_local = Some ''pg'', pt_cloud = None\<rparr>"

definition shop_variable :: "string \<Rightarrow> variable" where
  "shop_variable n = \<lparr>v_name = n, v_type = ''string'', v_required = True, v_default = JNull, v_description = [],
     v_sensitive = False, v_conditions = []\<rparr>"

text \<open>Any world with that tenancy and any request for a deploy into \<open>dev\<close>.\<close>

definition shop_like :: "world \<Rightarrow> intent \<Rightarrow> bool" where
  "shop_like w i \<longleftrightarrow> cfg w = cfg shop_world \<and> i_action i = Deploy \<and> i_resource_id i = None \<and>
     i_pattern i = ''postgresql'' \<and> i_version i = None \<and> i_expected_commit i = None \<and> i_business_unit i \<in> {None, Some ''retail''} \<and>
     i_environment i = Some ''dev'' \<and> i_size i = None"

lemma shop_load: "cfg w = cfg shop_world \<Longrightarrow> load w = [(''retail'', shop_unit)]"
  by (simp add: load_def db_source_def shop_world_def empty_world_def demo_settings_def raw_mapping_def shop_mapping_def
      build_unit_def Let_def shop_unit_def shop_env_def List.map_filter_def)

lemma shop_enabled: "cfg w = cfg shop_world \<Longrightarrow> enabled w" "cfg w = cfg shop_world \<Longrightarrow> db_source w = False"
  by (simp_all add: enabled_def db_source_def shop_world_def empty_world_def demo_settings_def)

lemma shop_units: "cfg w = cfg shop_world \<Longrightarrow> units_for w shop_caller = [shop_unit]"
  by (simp add: units_for_def shop_load unit_includes_def overlap_def shop_caller_def shop_unit_def)

lemma shop_catalog: "catalog_load shop_ext = Inr [(''postgresql'', shop_pattern)]"
  by (simp add: catalog_load_def shop_ext_def catalog_entry_def entry_keys_def shop_pattern_def or_empty_def)

abbreviation shop_version :: resolved where
  "shop_version \<equiv> \<lparr>rs_pattern = shop_pattern, rs_version = None, rs_commit = None\<rparr>"

abbreviation shop_config :: json where
  "shop_config \<equiv> JObj [(''estimated_costs'', JObj [(''dev'', JNum 30)])]"

abbreviation shop_budget :: budget where
  "shop_budget \<equiv> \<lparr>b_limit = 100, b_legacy_committed = JNum 0\<rparr>"

lemma shop_resolve: "cfg w = cfg shop_world \<Longrightarrow> resolve shop_ext w ''postgresql'' None shop_caller = Inr shop_version"
  by (simp add: resolve_def available_def shop_catalog shop_units shop_unit_def sorted_set_def catalog_resolve_def catalog_get_def
      is_local_def shop_pattern_def)

lemma shop_variables: "variables shop_ext r = Inr [shop_variable ''name'', shop_variable ''environment'']"
  by (simp add: variables_def shop_ext_def parse_variables_def parse_variable_def shop_variable_def or_empty_def
      removesuffix_def removeprefix_def has_suffix_def has_prefix_def unquote_text_def)

lemma shop_place:
  "place shop_caller shop_unit (Some ''dev'') ''postgresql'' False = Inr \<lparr>pl_unit = shop_unit, pl_environment = shop_env\<rparr>"
  by (simp add: place_def shop_unit_def can_deploy_def overlap_def shop_caller_def shop_env_def build_environment_def
      List.map_filter_def)

definition shop_labelled :: "(string \<times> string) list \<Rightarrow> (string \<times> json) list \<Rightarrow> (string \<times> input_ref) list \<Rightarrow> doc" where
  "shop_labelled ls inputs refs = (blank_doc \<lparr>p_pattern = ''postgresql'', p_version = None, p_commit = None, p_source = ''pg'',
       p_inputs = inputs, p_labels = ls, p_input_refs = refs, p_cloud = None,
       p_business_unit = Some ''retail'', p_environment = Some ''dev'', p_subscription_id = Some ''s1'',
       p_cloud_target = None, p_size = None, p_injected = [(''environment'', JStr ''dev'')]\<rparr>)\<lparr>d_cost := JNum 30\<rparr>"

abbreviation shop_placed :: "(string \<times> json) list \<Rightarrow> (string \<times> input_ref) list \<Rightarrow> doc" where
  "shop_placed \<equiv> shop_labelled []"

lemma shop_shape:
  "shape [shop_variable ''name'', shop_variable ''environment''] \<lparr>pl_unit = shop_unit, pl_environment = shop_env\<rparr>
     shop_config None True = Inr ([shop_variable ''name''], [(''environment'', JStr ''dev'')])"
  by (simp add: shape_def sizes_for_def Let_def candidates_def sized_values_def dict_merge_def shop_unit_def shop_env_def
      build_environment_def shop_variable_def restrict_region_def)

lemma shop_placement:
  assumes "shop_like w i"
  shows "place_deploy shop_ext w i shop_caller shop_version
     [shop_variable ''name'', shop_variable ''environment''] shop_config (deploy_result shop_ext i shop_version None) =
   Inr (shop_labelled (dict_of (i_labels i)) (i_inputs i) (case i_input_refs i of None \<Rightarrow> [] | Some rs \<Rightarrow> rs), [shop_variable ''name''], Some shop_budget)"
proof -
  note i = assms [unfolded shop_like_def]
  have s: "select_unit w shop_caller (i_business_unit i) = Inr shop_unit"
    using i by (auto simp: select_unit_def shop_units shop_unit_def)
  have t: "select_target \<lparr>pl_unit = shop_unit, pl_environment = shop_env\<rparr> (pt_cloud shop_pattern) = Inr None"
    by (simp add: select_target_def shop_pattern_def shop_env_def build_environment_def)
  have c: "estimated_cost shop_config ''dev'' None = Inr (Some (JNum 30))"
    by (simp add: estimated_cost_def or_empty_def is_number_def is_dict_def)
  have n: "env_name shop_env = ''dev''" "env_budget_monthly shop_env = JNum 100" "env_subscription_id shop_env = Some ''s1''"
    by (simp_all add: shop_env_def build_environment_def)
  have lim: "(30 :: rat) < float_limit" "(100 :: rat) < float_limit"
    by (simp_all add: float_limit_def)
  have b: "budget_of shop_ext shop_unit shop_env (Some (JNum 30)) = Inr (Some shop_budget)"
    by (simp add: budget_of_def n finite_amount_def lim legacy_committed_def shop_ext_def demo_ext_def)
  have u: "u_name shop_unit = ''retail''" by (simp add: shop_unit_def)
  have d: "deploy_def shop_ext i shop_version None =
      (d_def (shop_labelled (dict_of (i_labels i)) (i_inputs i) (case i_input_refs i of None \<Rightarrow> [] | Some rs \<Rightarrow> rs)))
        \<lparr>p_business_unit := None, p_environment := None, p_subscription_id := None, p_injected := []\<rparr>"
    using i by (simp add: dict_of_def deploy_def_def shop_labelled_def blank_doc_def terraform_source_def shop_pattern_def
        is_local_def or_empty_def shop_ext_def demo_ext_def split: option.split)
  have no: "deploy_result shop_ext i shop_version None = blank_doc (deploy_def shop_ext i shop_version None)"
    by (simp add: deploy_result_def blank_doc_def)
  have wr: "with_region shop_unit i [shop_variable ''name''] v = v" for v
    by (simp add: with_region_def shop_variable_def)
  show ?thesis
    using i by (simp add: place_deploy_def s shop_place t inject_target_def shop_shape n c b lim finite_amount_def no d wr dict_merge_def
        shop_enabled u placed_subscription_def target_or_none_def)
      (simp add: shop_labelled_def blank_doc_def)
qed

lemma shop_validate:
  assumes "shop_like w i"
    and "resolve_refs shop_ext w (i_inputs i) shop_caller (Some ''retail'', Some ''dev'') (case i_input_refs i of None \<Rightarrow> [] | Some rs \<Rightarrow> rs) = Inr vals"
    and "dict_merge (i_inputs i) vals = [(''name'', JStr ''db'')]"
  shows "validate shop_ext w i shop_caller =
    Inr (shop_labelled (dict_of (i_labels i)) [(''name'', JStr ''db'')] (case i_input_refs i of None \<Rightarrow> [] | Some rs \<Rightarrow> rs), Some shop_budget)"
proof -
  note i = assms(1) [unfolded shop_like_def]
  have cf: "x_config shop_ext r = Inr shop_config" for r
    by (simp add: shop_ext_def)
  have se: "schema_errors shop_ext ''postgresql'' [shop_variable ''name''] [(''name'', JStr ''db'')] = []"
    by (simp add: schema_errors_def shop_ext_def undeclared_def json_schema_def shop_variable_def)
  have wh: "p_business_unit (d_def (shop_labelled l a b)) = Some ''retail''" "p_environment (d_def (shop_labelled l a b)) = Some ''dev''" for l a b
    by (simp_all add: shop_labelled_def blank_doc_def)
  show ?thesis
    using i by (simp add: validate_def or_empty_def validate_deploy_def with_previous_def shop_resolve shop_variables cf
        place_result_def check_deploy_def shop_placement [OF assms(1)] shop_enabled wh assms(2,3) se)
      (simp add: shop_variable_def shop_labelled_def blank_doc_def)
qed

lemma shop_typed:
  "validate shop_ext shop_world shop_intent shop_caller = Inr (shop_placed [(''name'', JStr ''db'')] [], Some shop_budget)"
proof -
  have r: "dict_of (i_labels shop_intent) = []" "i_input_refs shop_intent = None" "i_inputs shop_intent = [(''name'', JStr ''db'')]"
    by (simp_all add: shop_intent_def demo_intent_def dict_of_def)
  have l: "shop_like shop_world shop_intent" by (simp add: shop_like_def shop_intent_def demo_intent_def)
  show ?thesis using shop_validate [OF l, of "[]"] by (simp add: r dict_merge_def)
qed

theorem deploy_is_placed_witness:
  "p_business_unit (d_def (shop_placed [(''name'', JStr ''db'')] [])) = Some ''retail'' \<and> can_deploy shop_unit shop_caller shop_env"
proof -
  have a: "i_action shop_intent \<noteq> Destroy" by (simp add: shop_intent_def demo_intent_def)
  obtain u env where u: "u \<in> set (map snd (load shop_world))" "p_business_unit (d_def (shop_placed [(''name'', JStr ''db'')] [])) = Some (u_name u)"
    "unit_env u (p_environment (d_def (shop_placed [(''name'', JStr ''db'')] []))) = Some env" "can_deploy u shop_caller env"
    using deploy_is_placed [OF shop_typed a shop_enabled(1) [OF refl]] by blast
  from u(1) have "u = shop_unit" by (simp add: shop_load [OF refl])
  with u(2-4) show ?thesis
    by (simp add: shop_unit_def unit_env_def shop_labelled_def blank_doc_def)
qed

section \<open>Injected values\<close>

text \<open>What the code relies on of the schema validator: under \<^verbatim>\<open>additionalProperties: false\<close> (and no
  \<^verbatim>\<open>patternProperties\<close>) an instance with no problem has only declared properties.\<close>

definition closed_validator :: "ext \<Rightarrow> bool" where
  "closed_validator x \<longleftrightarrow> (\<forall>sch inputs. jget sch ''additionalProperties'' = JBool False \<longrightarrow>
     \<not> jhas sch ''patternProperties'' \<longrightarrow> x_validator x sch inputs = [] \<longrightarrow>
     (\<forall>n \<in> fst ` set inputs. jhas (jget sch ''properties'') n))"

lemma fold_dict_set_keys:
  "fst ` set (fold (\<lambda>v ps. dict_set (f v) (g v) ps) vars ps) = fst ` set ps \<union> f ` set vars"
  by (induction vars arbitrary: ps) (auto simp: dict_set_keys)

lemma closed_validator_names:
  assumes "closed_validator x" "schema_errors x n vars inputs = []"
  shows "fst ` set inputs \<subseteq> v_name ` set vars"
proof
  fix k assume "k \<in> fst ` set inputs"
  moreover have "jget (json_schema x n vars) ''additionalProperties'' = JBool False"
    "\<not> jhas (json_schema x n vars) ''patternProperties''"
    by (simp_all add: json_schema_def)
  ultimately have "jhas (jget (json_schema x n vars) ''properties'') k"
    using assms unfolding closed_validator_def schema_errors_def by blast
  then have "k \<in> fst ` set (fold (\<lambda>v ps. dict_set (v_name v) (JObj (schema_property x v)) ps) vars [])"
    by (auto simp: json_schema_def map_of_eq_None_iff)
  then show "k \<in> v_name ` set vars" by (simp add: fold_dict_set_keys)
qed

lemma resolve_refs_names: "resolve_refs x w inputs c a refs = Inr vals \<Longrightarrow> map fst vals = map fst refs"
proof (induction refs arbitrary: vals)
  case (Cons nr refs)
  obtain n ref where nr: "nr = (n, ref)" by fastforce
  from Cons.prems Cons.IH show ?case
    unfolding nr by (auto simp: sbind_Inr_iff split: if_splits option.splits)
qed simp

lemma map_of_None_key: "map_of kvs k = None \<longleftrightarrow> k \<notin> fst ` set kvs"
  by (simp add: map_of_eq_None_iff)

lemma shape_hides:
  assumes "shape vars pl config sz q = Inr (vars2, injected)"
  shows "v_name ` set vars2 \<inter> fst ` set injected = {}" and "v_name ` set vars2 \<subseteq> v_name ` set vars"
    and "fst ` set injected \<subseteq> v_name ` set vars"
proof -
  have n: "v_name (restrict_region u v) = v_name v" for u v by (simp add: restrict_region_def)
  from assms obtain sized where i: "injected = filter (\<lambda>kv. fst kv \<in> set (map v_name vars)) (candidates pl sized)"
    and v: "vars2 = map (restrict_region (pl_unit pl)) (filter (\<lambda>v. map_of injected (v_name v) = None) vars)"
    by (auto simp: shape_def Let_def split: if_splits)
  have "map_of injected (v_name v) = None" if "v \<in> set vars2" for v
    using that by (auto simp: v n)
  then show "v_name ` set vars2 \<inter> fst ` set injected = {}" unfolding map_of_None_key by blast
  show "v_name ` set vars2 \<subseteq> v_name ` set vars" by (auto simp: v n)
  show "fst ` set injected \<subseteq> v_name ` set vars" by (auto simp: i)
qed

lemma inject_target_hides:
  assumes "inject_target vars target = Inr (vars1, injected)"
  shows "v_name ` set vars1 \<inter> fst ` set injected = {}"
  using assms by (auto simp: inject_target_def map_of_None_key split: option.splits if_splits; force)

lemma with_region_keys:
  "k \<in> fst ` set (with_region u i vars injected) \<Longrightarrow> k \<in> fst ` set injected \<or>
     (k = ''location'' \<and> k \<notin> fst ` set (i_inputs i) \<and> k \<notin> fst ` set (case i_input_refs i of None \<Rightarrow> [] | Some rs \<Rightarrow> rs))"
  by (auto simp: with_region_def dict_set_keys map_of_None_key split: if_splits)

text \<open>C36. Platform values are the platform's. The inputs of a validated deploy (typed or taken from
  references) never carry a name the platform injects, so the variables Terraform gets
  (\<^verbatim>\<open>{**inputs, **injected}\<close>) override nothing the caller set, and a caller cannot choose a value of
  the unit, the network or the cloud target.\<close>

theorem inputs_avoid_injected:
  assumes "validate x w i c = Inr (d, b)" and "i_action i \<noteq> Destroy" and "enabled w" and "closed_validator x"
  shows "fst ` set (p_inputs (d_def d)) \<inter> fst ` set (p_injected (d_def d)) = {}"
proof -
  obtain previous where v: "validate_deploy x w i c previous = Inr (d, b)"
    using validate_deploy_action [OF assms(1,2)] by blast
  obtain r vars config placed vars2 vals where
    p: "place_deploy x w (with_previous i previous) c r vars config
        (deploy_result x (with_previous i previous) r previous) = Inr (placed, vars2, b)"
    and rf: "resolve_refs x w (i_inputs i) c (p_business_unit (d_def d), p_environment (d_def d))
       (case i_input_refs i of None \<Rightarrow> [] | Some rs \<Rightarrow> rs) = Inr vals"
    and se: "schema_errors x (i_pattern i) vars2 (dict_merge (i_inputs i) vals) = []"
    and d: "d = placed\<lparr>d_def := (d_def placed)\<lparr>p_inputs := dict_merge (i_inputs i) vals\<rparr>\<rparr>"
    by (rule validate_deploy_placed [OF v assms(3)])
  obtain u pl target vars1 ti sh where ti: "inject_target vars target = Inr (vars1, ti)"
    and sh: "shape vars1 pl config (i_size (with_previous i previous)) True = Inr (vars2, sh)"
    and inj: "p_injected (d_def placed) = with_region u (with_previous i previous) vars2 (dict_merge sh ti)"
    using p by (rule place_deployD) simp
  have same: "i_inputs (with_previous i previous) = i_inputs i" "i_input_refs (with_previous i previous) = i_input_refs i"
    by (simp_all add: with_previous_def split: option.split)
  have names: "fst ` set (dict_merge (i_inputs i) vals) \<subseteq> v_name ` set vars2"
    using closed_validator_names [OF assms(4) se] .
  have keys: "fst ` set vals = fst ` set (case i_input_refs i of None \<Rightarrow> [] | Some rs \<Rightarrow> rs)"
    using arg_cong [OF resolve_refs_names [OF rf], of set] by simp
  have "v_name ` set vars2 \<inter> fst ` set (dict_merge sh ti) = {}"
    using shape_hides(1,2) [OF sh] inject_target_hides [OF ti] unfolding dict_set_keys_merge by blast
  with names have "k \<notin> fst ` set (dict_merge sh ti)" if "k \<in> fst ` set (dict_merge (i_inputs i) vals)" for k
    using that by blast
  moreover have "k \<in> fst ` set (i_inputs i) \<or> k \<in> fst ` set (case i_input_refs i of None \<Rightarrow> [] | Some rs \<Rightarrow> rs)"
    if "k \<in> fst ` set (dict_merge (i_inputs i) vals)" for k
    using that keys unfolding dict_set_keys_merge by blast
  ultimately show ?thesis
    using with_region_keys [of _ u "with_previous i previous" vars2 "dict_merge sh ti"] unfolding same
    by (intro equals0I) (simp add: d inj, blast)
qed

theorem inputs_avoid_injected_witness:
  "fst ` set (p_inputs (d_def (shop_placed [(''name'', JStr ''db'')] []))) \<inter> fst ` set (p_injected (d_def (shop_placed [(''name'', JStr ''db'')] []))) = {} \<and>
   p_injected (d_def (shop_placed [(''name'', JStr ''db'')] [])) = [(''environment'', JStr ''dev'')]"
proof -
  have a: "i_action shop_intent \<noteq> Destroy" by (simp add: shop_intent_def demo_intent_def)
  have cv: "closed_validator shop_ext"
    by (auto simp: closed_validator_def shop_ext_def undeclared_def filter_empty_conv)
  from inputs_avoid_injected [OF shop_typed a shop_enabled(1) [OF refl] cv] show ?thesis
    by (simp add: shop_labelled_def blank_doc_def)
qed

section \<open>References\<close>

lemma resolve_refs_entry:
  assumes "resolve_refs x w inputs c a refs = Inr vals" "(n, ref) \<in> set refs" "enabled w"
  shows "\<exists>s v. res_find (ref_resource_id ref) w = Some s \<and> visible w (d_actor s) (p_business_unit (d_def s)) c \<and>
    d_state s = Some Ready \<and> (p_business_unit (d_def s), p_environment (d_def s)) = a \<and> map_of inputs n = None \<and>
    map_of (case d_outputs s of None \<Rightarrow> [] | Some vs \<Rightarrow> vs) (ref_output ref) = Some v \<and> (n, v) \<in> set vals"
  using assms(1,2)
proof (induction refs arbitrary: vals)
  case (Cons nr refs)
  obtain n' ref' where nr: "nr = (n', ref')" by fastforce
  from Cons.prems(1) obtain rcd s problem v rest where
    1: "map_of inputs n' = None" "resource (ref_resource_id ref') w = Inr rcd" "authorize x w rcd c False = Inr s"
    "reference_error (ref_resource_id ref') w = Inr problem" "problem = None"
    "(p_business_unit (d_def s), p_environment (d_def s)) = a"
    "map_of (case d_outputs s of None \<Rightarrow> [] | Some vs \<Rightarrow> vs) (ref_output ref') = Some v"
    "resolve_refs x w inputs c a refs = Inr rest" "vals = (n', v) # rest"
    using assms(3) unfolding nr by (auto simp: sbind_Inr_iff split: if_splits option.splits)
  show ?case
  proof (cases "(n, ref) = (n', ref')")
    case True
    from 1(2,3) have s: "res_find (ref_resource_id ref') w = Some s" "visible w (d_actor s) (p_business_unit (d_def s)) c"
      by (auto simp: resource_def reading_def authorize_def split: if_splits option.splits)
    with 1(4,5) have "d_state s = Some Ready"
      by (auto simp: reference_error_def split: if_splits)
    with s 1 True show ?thesis by auto
  next
    case False
    with Cons.prems(2) nr have "(n, ref) \<in> set refs" by auto
    from Cons.IH [OF 1(8) this] 1(9) show ?thesis by auto
  qed
qed simp

text \<open>A reference stays inside its unit and environment. Every input taken by reference comes from
  a ready resource the caller can see, placed in the same business unit and environment as the deploy;
  it is that resource's recorded output, and no typed input has its name.\<close>

theorem references_stay_in_place:
  assumes "validate x w i c = Inr (d, b)" and "i_action i \<noteq> Destroy" and "enabled w"
    and "i_input_refs i = Some refs" and "distinct (map fst refs)" and "(n, ref) \<in> set refs"
  shows "\<exists>s v. res_find (ref_resource_id ref) w = Some s \<and> visible w (d_actor s) (p_business_unit (d_def s)) c \<and>
    d_state s = Some Ready \<and> p_business_unit (d_def s) = p_business_unit (d_def d) \<and>
    p_environment (d_def s) = p_environment (d_def d) \<and> map_of (i_inputs i) n = None \<and>
    map_of (case d_outputs s of None \<Rightarrow> [] | Some vs \<Rightarrow> vs) (ref_output ref) = Some v \<and>
    map_of (p_inputs (d_def d)) n = Some v"
proof -
  obtain previous where v: "validate_deploy x w i c previous = Inr (d, b)"
    using validate_deploy_action [OF assms(1,2)] by blast
  obtain vals placed where
    rf: "resolve_refs x w (i_inputs i) c (p_business_unit (d_def d), p_environment (d_def d))
       (case i_input_refs i of None \<Rightarrow> [] | Some rs \<Rightarrow> rs) = Inr vals"
    and d: "d = placed\<lparr>d_def := (d_def placed)\<lparr>p_inputs := dict_merge (i_inputs i) vals\<rparr>\<rparr>"
    using validate_deploy_placed [OF v assms(3)] by metis
  from rf assms(4) have rf: "resolve_refs x w (i_inputs i) c (p_business_unit (d_def d), p_environment (d_def d)) refs = Inr vals"
    by simp
  obtain s val where s: "res_find (ref_resource_id ref) w = Some s" "visible w (d_actor s) (p_business_unit (d_def s)) c"
    "d_state s = Some Ready" "(p_business_unit (d_def s), p_environment (d_def s)) = (p_business_unit (d_def d), p_environment (d_def d))"
    "map_of (i_inputs i) n = None"
    "map_of (case d_outputs s of None \<Rightarrow> [] | Some vs \<Rightarrow> vs) (ref_output ref) = Some val" "(n, val) \<in> set vals"
    using resolve_refs_entry [OF rf assms(6,3)] by blast
  have "distinct (map fst (rev vals))"
    using resolve_refs_names [OF rf] assms(5) by (simp flip: rev_map)
  with s(7) have "map_of (rev vals) n = Some val" by (simp add: map_of_eq_Some_iff)
  then have "map_of (p_inputs (d_def d)) n = Some val"
    by (simp add: d dict_merge_map_of)
  with s show ?thesis by auto
qed

text \<open>A ready database with an output, and a second deploy of the pattern that takes its \<open>name\<close> from it.\<close>

definition shop_source :: doc where
  "shop_source = demo_ready\<lparr>d_def := (d_def demo_ready)\<lparr>p_environment := Some ''dev''\<rparr>,
     d_outputs := Some [(''host'', JStr ''db'')]\<rparr>"

definition linked_world :: world where
  "linked_world = shop_world\<lparr>resources := [(''res_1'', shop_source)]\<rparr>"

definition linked_refs :: "(string \<times> input_ref) list" where
  "linked_refs = [(''name'', \<lparr>ref_resource_id = ''res_1'', ref_output = ''host''\<rparr>)]"

definition linked_intent :: intent where
  "linked_intent = shop_intent\<lparr>i_inputs := [], i_input_refs := Some linked_refs\<rparr>"

lemma linked_cfg: "cfg linked_world = cfg shop_world" by (simp add: linked_world_def)

lemma linked_resolve:
  "resolve_refs shop_ext linked_world [] shop_caller (Some ''retail'', Some ''dev'') linked_refs = Inr [(''name'', JStr ''db'')]"
proof -
  have f: "res_find ''res_1'' linked_world = Some shop_source"
    by (simp add: res_find_def linked_world_def row_find_Cons)
  have s: "d_state shop_source = Some Ready" "d_operation_id shop_source = Some ''op_1''"
    "p_business_unit (d_def shop_source) = Some ''retail''" "p_environment (d_def shop_source) = Some ''dev''"
    "d_outputs shop_source = Some [(''host'', JStr ''db'')]"
    by (simp_all add: shop_source_def demo_defs)
  have v: "visible linked_world (d_actor shop_source) (Some ''retail'') shop_caller"
    by (simp add: visible_def shop_enabled [OF linked_cfg] load_unit_def shop_load [OF linked_cfg] unit_includes_def overlap_def
        shop_caller_def shop_unit_def)
  have sq: "db_sqlite (cfg linked_world)" by (simp add: linked_world_def shop_world_def demo_defs)
  have no: "op_body ''op_1'' linked_world = None"
    by (simp add: op_body_def op_find_def linked_world_def shop_world_def empty_world_def)
  show ?thesis
    by (simp add: linked_refs_def resource_def reading_def sq f authorize_def v shop_enabled [OF linked_cfg] s reference_error_def no)
qed

lemma linked_validate:
  "validate shop_ext linked_world linked_intent shop_caller =
     Inr (shop_placed [(''name'', JStr ''db'')] linked_refs, Some shop_budget)"
proof -
  have l: "shop_like linked_world linked_intent"
    by (simp add: shop_like_def linked_cfg linked_intent_def shop_intent_def demo_intent_def)
  have r: "i_input_refs linked_intent = Some linked_refs" "i_inputs linked_intent = []" "dict_of (i_labels linked_intent) = []"
    by (simp_all add: linked_intent_def shop_intent_def demo_intent_def dict_of_def)
  show ?thesis using shop_validate [OF l, of "[(''name'', JStr ''db'')]"] linked_resolve by (simp add: r dict_merge_def)
qed

theorem references_stay_in_place_witness:
  "\<exists>s. res_find ''res_1'' linked_world = Some s \<and> d_state s = Some Ready \<and>
     map_of (p_inputs (d_def (shop_placed [(''name'', JStr ''db'')] linked_refs))) ''name'' =
       map_of (case d_outputs s of None \<Rightarrow> [] | Some vs \<Rightarrow> vs) ''host''"
proof -
  have a: "i_action linked_intent \<noteq> Destroy" "i_input_refs linked_intent = Some linked_refs"
    by (simp_all add: linked_intent_def shop_intent_def demo_intent_def)
  have m: "distinct (map fst linked_refs)" "(''name'', \<lparr>ref_resource_id = ''res_1'', ref_output = ''host''\<rparr>) \<in> set linked_refs"
    by (simp_all add: linked_refs_def)
  obtain s v where "res_find ''res_1'' linked_world = Some s" "d_state s = Some Ready"
    "map_of (case d_outputs s of None \<Rightarrow> [] | Some vs \<Rightarrow> vs) ''host'' = Some v"
    "map_of (p_inputs (d_def (shop_placed [(''name'', JStr ''db'')] linked_refs))) ''name'' = Some v"
    using references_stay_in_place [OF linked_validate a(1) shop_enabled(1) [OF linked_cfg] a(2) m] by auto
  then show ?thesis by (intro exI [of _ s]) simp
qed

section \<open>Destroys\<close>

text \<open>A destroy runs the existing definition. A validated destroy brings no definition of its own and
  no budget: the pattern, the pinned source, the inputs and the placement are the resource's recorded
  ones. It is let through only when nothing ready references the resource and the environment allows
  destroying, and it is tied to the resource's current operation.\<close>

theorem destroy_keeps_definition:
  assumes "validate x w i c = Inr (d, b)" and "i_action i = Destroy" and "or_empty (i_resource_id i) \<noteq> []"
  shows "b = None \<and> (\<exists>p. res_find (or_empty (i_resource_id i)) w = Some p \<and> d_def d = d_def p \<and>
     visible w (d_actor p) (p_business_unit (d_def p)) c \<and> d_state p \<noteq> Some Destroyed \<and>
     d_previous_operation_id d = d_operation_id p \<and> \<not> is_referenced (or_empty (i_resource_id i)) w \<and>
     (enabled w \<longrightarrow> (\<forall>u e. load_unit w (p_business_unit (d_def p)) = Some u \<longrightarrow>
        unit_env u (p_environment (d_def p)) = Some e \<longrightarrow> env_allow_destroy e)))"
proof -
  let ?rid = "or_empty (i_resource_id i)"
  from assms obtain p where p: "check_previous x w i c ?rid = Inr p" and v: "validate_destroy w ?rid p = Inr d" and b: "b = None"
    by (auto simp: validate_def sbind_Inr_iff split: if_splits)
  from p have "res_find ?rid w = Some p" "visible w (d_actor p) (p_business_unit (d_def p)) c" "d_state p \<noteq> Some Destroyed"
    by (auto simp: check_previous_def sbind_Inr_iff resource_def reading_def authorize_def split: if_splits option.splits)
  moreover from v have "d_def d = d_def p" "d_previous_operation_id d = d_operation_id p" "\<not> is_referenced ?rid w"
    by (auto simp: validate_destroy_def sbind_Inr_iff referenced_def reading_def split: if_splits)
  moreover from v have g: "check_guardrails w (p_business_unit (d_def p)) (p_environment (d_def p)) Destroy None = Inr ()"
    by (auto simp: validate_destroy_def sbind_Inr_iff)
  then have "enabled w \<longrightarrow> (\<forall>u e. load_unit w (p_business_unit (d_def p)) = Some u \<longrightarrow>
        unit_env u (p_environment (d_def p)) = Some e \<longrightarrow> env_allow_destroy e)"
    by (auto simp: check_guardrails_def split: if_splits)
  ultimately show ?thesis using b by blast
qed

definition drop_intent :: intent where
  "drop_intent = demo_intent\<lparr>i_action := Destroy, i_resource_id := Some ''res_1''\<rparr>"

lemma destroy_validate: "validate demo_ext (demo_world demo_applied demo_ready 6) drop_intent amy =
   Inr (demo_ready\<lparr>d_previous_operation_id := Some ''op_1''\<rparr>, None)"
  by (simp add: validate_def drop_intent_def demo_intent_def or_empty_def check_previous_def resource_def reading_def
      demo_defs res_find_def row_find_Cons authorize_def visible_def enabled_def db_source_def amy_def validate_destroy_def
      check_guardrails_def referenced_def is_referenced_def)

theorem destroy_keeps_definition_witness:
  "\<exists>p. res_find ''res_1'' (demo_world demo_applied demo_ready 6) = Some p \<and>
     d_def (demo_ready\<lparr>d_previous_operation_id := Some ''op_1''\<rparr>) = d_def p"
proof -
  have i: "i_action drop_intent = Destroy" "or_empty (i_resource_id drop_intent) = ''res_1''"
    by (simp_all add: drop_intent_def or_empty_def)
  then have "or_empty (i_resource_id drop_intent) \<noteq> []" by simp
  from destroy_keeps_definition [OF destroy_validate i(1) this] show ?thesis unfolding i(2) by blast
qed

section \<open>Visibility and rights\<close>

text \<open>What a caller cannot see does not exist for them. For an operation, a resource or an app the
  caller has no rights on, every check answers exactly as it answers when there is no such record;
  whether it exists cannot be told from the answer.\<close>

theorem invisible_is_missing:
  assumes "\<not> visible w (d_actor d) (p_business_unit (d_def d)) c"
    and "\<not> visible w (ap_actor a) (ap_business_unit a) c" and "enabled w \<longrightarrow> \<not> is_operator w c"
  shows "authorize x w (Some d) c change = authorize x w None c change \<and>
    authorize_reconcile x w (Some d) c = authorize_reconcile x w None c \<and>
    authorize_app w (Some a) c = authorize_app w None c"
  using assms by (simp add: authorize_def authorize_reconcile_def authorize_app_def)

theorem invisible_is_missing_witness:
  "authorize shop_ext linked_world (Some shop_source) (shop_caller\<lparr>caller_groups := [''g2'']\<rparr>) True = Inl (HTTPException 404)"
proof -
  let ?c = "shop_caller\<lparr>caller_groups := [''g2'']\<rparr>" and ?a = "demo_app\<lparr>ap_business_unit := Some ''retail''\<rparr>"
  have s: "p_business_unit (d_def shop_source) = Some ''retail''" by (simp add: shop_source_def demo_defs)
  have v: "\<not> visible linked_world who (Some ''retail'') ?c" for who
    by (simp add: visible_def shop_enabled [OF linked_cfg] load_unit_def shop_load [OF linked_cfg] unit_includes_def overlap_def
        shop_unit_def shop_env_def build_environment_def List.map_filter_def)
  have n: "\<not> is_operator linked_world ?c"
    by (simp add: is_operator_def shop_enabled [OF linked_cfg] raw_mapping_def linked_cfg)
      (simp add: shop_world_def empty_world_def shop_mapping_def List.map_filter_def overlap_def)
  have "authorize shop_ext linked_world (Some shop_source) ?c True = authorize shop_ext linked_world None ?c True"
    using invisible_is_missing [of linked_world shop_source ?c ?a shop_ext True] v n by (simp add: s)
  then show ?thesis by (simp add: authorize_def)
qed

text \<open>A change needs today's rights. When \<open>authorize\<close> lets a caller change a resource under tenancy, the
  resource's unit still exists and the caller may deploy to its environment now, the unit still lists
  the pattern, and the cloud target the environment configures is the one the resource was placed with;
  on an archived unit only destroys, drift checks and work that predates the archival go on.\<close>

theorem change_needs_current_rights:
  assumes "authorize x w (Some d) c True = Inr d'" and "enabled w"
  shows "d' = d \<and> (\<exists>u env target. load_unit w (p_business_unit (d_def d)) = Some u \<and>
     unit_env u (p_environment (d_def d)) = Some env \<and> can_deploy u c env \<and> p_pattern (d_def d) \<in> set (u_patterns u) \<and>
     select_target \<lparr>pl_unit = u, pl_environment = env\<rparr> (p_cloud (d_def d)) = Inr target \<and>
     same_target (p_cloud_target (d_def d)) target \<and>
     (target_or_none target = None \<longrightarrow> p_subscription_id (d_def d) = env_subscription_id env) \<and>
     (u_archived u \<and> db_source w \<and> has_action d \<and> d_action d = Deploy \<longrightarrow>
        (\<forall>since. archived_since (u_name u) w = Some since \<longrightarrow> d_created_at d < since)))"
proof -
  from assms obtain u where u: "load_unit w (p_business_unit (d_def d)) = Some u" "check_change x w u d c = Inr ()" "d' = d"
    unfolding authorize_def by (simp split: if_splits option.splits) (elim sbind_InrE, simp)
  from u(2) obtain pl where pl: "place c u (p_environment (d_def d)) (p_pattern (d_def d)) True = Inr pl"
    unfolding check_change_def by (rule sbind_InrE)
  from u(2) obtain pat where pat: "catalog_get x (p_pattern (d_def d)) = Inr pat"
    unfolding check_change_def pl sbind.simps by (rule sbind_InrE)
  from u(2) obtain target where t: "select_target pl (pt_cloud pat) = Inr target"
    unfolding check_change_def pl pat sbind.simps by (rule sbind_InrE)
  from u(2) have un: "unchanged d (pt_cloud pat) target (env_subscription_id (pl_environment pl)) = Inr ()"
    and ar: "refuse_new_work_on_archived u d w = Inr ()"
    unfolding check_change_def pl pat t sbind.simps by (auto elim!: sbind_InrE)
  have plu: "\<lparr>pl_unit = u, pl_environment = pl_environment pl\<rparr> = pl" using placeD(1) [OF pl] by (cases pl) simp
  from un have c: "p_cloud (d_def d) = pt_cloud pat" "same_target (p_cloud_target (d_def d)) target"
    "target_or_none target = None \<longrightarrow> p_subscription_id (d_def d) = env_subscription_id (pl_environment pl)"
    by (auto simp: unchanged_def split: if_splits)
  from ar have "u_archived u \<and> db_source w \<and> has_action d \<and> d_action d = Deploy \<longrightarrow>
        (\<forall>since. archived_since (u_name u) w = Some since \<longrightarrow> d_created_at d < since)"
    by (auto simp: refuse_new_work_on_archived_def split: if_splits)
  with u(1,3) placeD(2,3,5) [OF pl] t c plu show ?thesis
    by (intro conjI exI [of _ u] exI [of _ "pl_environment pl"] exI [of _ target]) simp_all
qed

definition shop_owned :: "doc \<Rightarrow> bool" where
  "shop_owned d \<longleftrightarrow> p_business_unit (d_def d) = Some ''retail'' \<and> p_environment (d_def d) = Some ''dev'' \<and>
     p_pattern (d_def d) = ''postgresql'' \<and> p_cloud (d_def d) = None \<and> p_cloud_target (d_def d) = None \<and>
     p_subscription_id (d_def d) = Some ''s1''"

lemma shop_visible: "cfg w = cfg shop_world \<Longrightarrow> visible w who (Some ''retail'') shop_caller"
  by (simp add: visible_def shop_enabled load_unit_def shop_load unit_includes_def overlap_def shop_caller_def shop_unit_def)

lemma shop_authorized:
  assumes "shop_owned d" "cfg w = cfg shop_world"
  shows "authorize shop_ext w (Some d) shop_caller ch = Inr d"
proof -
  note s = assms(1) [unfolded shop_owned_def]
  have p: "place shop_caller shop_unit (Some ''dev'') ''postgresql'' True = Inr \<lparr>pl_unit = shop_unit, pl_environment = shop_env\<rparr>"
    using shop_place by (simp add: place_def split: if_splits)
  have t: "select_target \<lparr>pl_unit = shop_unit, pl_environment = shop_env\<rparr> None = Inr None"
    by (simp add: select_target_def shop_env_def build_environment_def)
  have u: "unchanged d None None (env_subscription_id shop_env) = Inr ()"
    using s by (simp add: unchanged_def same_target_def shop_env_def build_environment_def)
  have n: "u_archived shop_unit = False" by (simp add: shop_unit_def)
  show ?thesis
    using s by (simp add: authorize_def shop_visible [OF assms(2)] shop_enabled [OF assms(2)] load_unit_def shop_load [OF assms(2)]
        check_change_def p catalog_get_def shop_catalog t u shop_pattern_def refuse_new_work_on_archived_def n)
qed

theorem change_needs_current_rights_witness:
  "\<exists>u env. load_unit linked_world (Some ''retail'') = Some u \<and> can_deploy u shop_caller env"
proof -
  let ?d = "shop_source\<lparr>d_def := (d_def shop_source)\<lparr>p_subscription_id := Some ''s1''\<rparr>\<rparr>"
  have d: "shop_owned ?d" by (simp add: shop_owned_def shop_source_def demo_defs)
  from change_needs_current_rights [OF shop_authorized [OF d linked_cfg] shop_enabled(1) [OF linked_cfg]]
  show ?thesis by (auto simp: shop_source_def demo_defs)
qed

end
