(* ===== verification/LedgerQueries.thy ===== *)
theory LedgerQueries
  imports Policy
begin

text \<open>
  The list and count reads of \<^verbatim>\<open>app/ledger.py\<close>: pages of resources, operations and audit events,
  and the reads of the drift sweep. Rows are in rowid order, so \<^verbatim>\<open>ORDER BY rowid DESC\<close> is a
  reversal; \<^verbatim>\<open>units\<close> is \<open>None\<close> without tenancy.
\<close>

text \<open>\<^verbatim>\<open>x IS NULL OR column=x\<close>: a filter that is not given lets every row pass.\<close>

definition wanted :: "'a option \<Rightarrow> 'a option \<Rightarrow> bool" where
  "wanted x v = (case x of None \<Rightarrow> True | Some y \<Rightarrow> v = Some y)"

definition owned :: "string \<Rightarrow> string list option \<Rightarrow> string \<Rightarrow> string option \<Rightarrow> bool" where
  "owned who units actor bu = (case units of
      None \<Rightarrow> actor = who
    | Some us \<Rightarrow> (case bu of None \<Rightarrow> False | Some b \<Rightarrow> List.member us b))"

section \<open>Resources\<close>

record resource_filter =
  rf_pattern :: "string option"
  rf_environment :: "string option"
  rf_state :: "state option option"
  rf_label :: "(string \<times> string) option"
  rf_drift_status :: "drift_status option"

definition resource_matches :: "resource_filter \<Rightarrow> doc \<Rightarrow> bool" where
  "resource_matches f d \<longleftrightarrow>
     wanted (rf_pattern f) (Some (p_pattern (d_def d))) \<and> wanted (rf_environment f) (p_environment (d_def d)) \<and>
     (case rf_state f of None \<Rightarrow> True | Some s \<Rightarrow> d_state d = s) \<and>
     wanted (rf_drift_status f) (d_drift_status d) \<and>
     (case rf_label f of None \<Rightarrow> True | Some kv \<Rightarrow> List.member (p_labels (d_def d)) kv)"

text \<open>\<^verbatim>\<open>list_resources\<close>: a page in id order, after the id given. The state filter \<^verbatim>\<open>pending\<close> is
  \<open>Some None\<close>: a resource with no state yet.\<close>

definition list_resources ::
  "string \<Rightarrow> string list option \<Rightarrow> string option \<Rightarrow> nat \<Rightarrow> resource_filter \<Rightarrow> world \<Rightarrow> err + doc list" where
  "list_resources who units start maxn f w = reading w (take maxn (map snd (sort_key fst
     (filter (\<lambda>(i, d). owned who units (d_actor d) (p_business_unit (d_def d)) \<and> resource_matches f d \<and>
        (case start of None \<Rightarrow> True | Some a \<Rightarrow> a < i)) (resources w)))))"

section \<open>Operations\<close>

record operation_filter =
  of_resource_id :: "string option"
  of_state :: "state option"
  of_action :: "action option"
  of_include_checks :: bool

definition operation_matches :: "string \<Rightarrow> string list option \<Rightarrow> operation_filter \<Rightarrow> op_row \<Rightarrow> bool" where
  "operation_matches who units f r \<longleftrightarrow>
     owned who units (r_actor r) (p_business_unit (d_def (r_body r))) \<and>
     wanted (of_resource_id f) (Some (r_resource_id r)) \<and> wanted (of_state f) (Some (r_state r)) \<and>
     (case of_action f of
        Some a \<Rightarrow> d_action (r_body r) = a
      | None \<Rightarrow> of_include_checks f \<or> d_action (r_body r) \<noteq> Drift_check)"

text \<open>\<^verbatim>\<open>list_operations\<close>: newest first. \<^verbatim>\<open>before\<close> names an operation of the same filtered list; only
  the rows older than it follow.\<close>

definition list_operations ::
  "string \<Rightarrow> string list option \<Rightarrow> nat \<Rightarrow> nat \<Rightarrow> string option \<Rightarrow> operation_filter \<Rightarrow> world \<Rightarrow> err + doc list" where
  "list_operations who units skip maxn cursor f w = sbind (reading w ()) (\<lambda>_.
     let matching = filter (operation_matches who units f) (operations w) in
     (case cursor of
        None \<Rightarrow> Inr (take maxn (drop skip (map r_body (rev matching))))
      | Some i \<Rightarrow>
         if \<not> list_ex (\<lambda>r. r_id r = i) matching then Inl (HTTPException 404)
         else Inr (take maxn (drop skip (map r_body (rev (takeWhile (\<lambda>r. r_id r \<noteq> i) matching)))))))"

text \<open>The page \<^verbatim>\<open>GET /operations\<close> shows and where the next one starts.\<close>

definition operation_page ::
  "string \<Rightarrow> string list option \<Rightarrow> nat \<Rightarrow> string option \<Rightarrow> operation_filter \<Rightarrow> world \<Rightarrow> err + (doc list \<times> string option)" where
  "operation_page who units maxn cursor f w =
     sbind (list_operations who units 0 (maxn + 1) cursor f w) (\<lambda>items.
     let shown = take maxn items
     in Inr (shown, if maxn < length items then Some (d_id (last shown)) else None))"

section \<open>Audit events\<close>

definition list_events :: "string \<Rightarrow> nat \<Rightarrow> nat \<Rightarrow> world \<Rightarrow> err + event_row list" where
  "list_events i seen maxn w = reading w
     (take maxn (filter (\<lambda>e. e_operation_id e = Some i \<and> seen < e_seq e) (events w)))"

section \<open>The drift sweep's reads\<close>

text \<open>\<^verbatim>\<open>drift_candidates\<close>: the least recently checked first (a resource never checked before any
  other), then by id.\<close>

definition checked_rank :: "doc \<Rightarrow> nat" where
  "checked_rank d = (case d_drift_checked_at d of None \<Rightarrow> 0 | Some t \<Rightarrow> Suc t)"

definition drift_due :: "nat \<Rightarrow> world \<Rightarrow> string \<times> doc \<Rightarrow> bool" where
  "drift_due checked_before w = (\<lambda>(i, d). d_state d = Some Ready \<and>
     (case d_drift_checked_at d of None \<Rightarrow> True | Some t \<Rightarrow> t < checked_before) \<and> busy_row i w = None)"

definition drift_candidates :: "nat \<Rightarrow> nat \<Rightarrow> world \<Rightarrow> err + doc list" where
  "drift_candidates checked_before maxn w = reading w
     (take maxn (map snd (sort_key (\<lambda>r. checked_rank (snd r)) (sort_key fst (filter (drift_due checked_before w) (resources w))))))"

definition queued_operations :: "string \<Rightarrow> action \<Rightarrow> world \<Rightarrow> err + string list" where
  "queued_operations who act w = reading w (map r_id
     (filter (\<lambda>r. r_actor r = who \<and> r_state r = Queued \<and> d_action (r_body r) = act) (operations w)))"

definition waiting :: "string \<Rightarrow> action \<Rightarrow> op_row \<Rightarrow> bool" where
  "waiting who act r \<longleftrightarrow> r_actor r = who \<and> r_state r \<in> {Queued, Planning} \<and> d_action (r_body r) = act"

definition outstanding_count :: "string \<Rightarrow> action \<Rightarrow> world \<Rightarrow> err + nat" where
  "outstanding_count who act w = reading w (length (filter (waiting who act) (operations w)))"

end
