(* ===== verification/Requests.thy ===== *)
theory Requests
  imports AppRequests LedgerQueries
begin

text \<open>
  The requests on single operations and resources: submit, execute, discard and reconcile of
  \<^verbatim>\<open>app/main.py\<close>, promotion and upgrade of \<^verbatim>\<open>app/promotion.py\<close>, drift checks and the drift sweep of
  \<^verbatim>\<open>app/drift.py\<close>, and the audited answer to a refused request. A request first reads (replay,
  authorization, validation) and then runs one ledger transaction, which checks again what other
  requests may have changed in between; here the reads and the transaction see the same world.
\<close>

section \<open>Submit\<close>

text \<open>\<^verbatim>\<open>ledger.replay\<close>, and \<^verbatim>\<open>policy.authorize\<close> of what it found; \<open>None\<close> is a request not seen before.\<close>

definition replayed :: "ext \<Rightarrow> caller \<Rightarrow> string \<Rightarrow> json \<Rightarrow> world \<Rightarrow> err + doc option" where
  "replayed x c key material w =
    sbind (reading w ()) (\<lambda>_.
    sbind (replay_tx (caller_id c) key (fingerprint material) w) (\<lambda>existing.
    case existing of
      None \<Rightarrow> Inr None
    | Some op \<Rightarrow> sbind (authorize x w (Some op) c False) (\<lambda>op. Inr (Some op))))"

text \<open>A request that is replayed, or prepared by reads and then accepted.\<close>

definition submit ::
  "(err + doc option) \<Rightarrow> (err + doc \<times> budget option) \<Rightarrow> string \<Rightarrow> string \<Rightarrow> json \<Rightarrow> string list option \<Rightarrow> nat \<Rightarrow> string \<times> string \<Rightarrow> doc tx" where
  "submit known prepared who key material groups t fresh w =
    (case known of
       Inl e \<Rightarrow> (Inl e, w)
     | Inr (Some op) \<Rightarrow> (Inr op, w)
     | Inr None \<Rightarrow>
        (case prepared of
           Inl e \<Rightarrow> (Inl e, w)
         | Inr (d, b) \<Rightarrow> accept who key material d b groups t fresh w))"

definition prepare_intent :: "ext \<Rightarrow> world \<Rightarrow> intent \<Rightarrow> caller \<Rightarrow> err + doc \<times> budget option" where
  "prepare_intent x w body c =
    sbind (if or_empty (i_resource_id body) \<noteq> [] then refuse_member_change x w (or_empty (i_resource_id body)) c else Inr ())
      (\<lambda>_. validate x w body c)"

definition accept_intent :: "ext \<Rightarrow> intent \<Rightarrow> caller \<Rightarrow> string \<Rightarrow> nat \<Rightarrow> string \<times> string \<Rightarrow> doc tx" where
  "accept_intent x body c key t fresh w =
    submit (replayed x c key (canonical_intent body) w) (prepare_intent x w body c)
      (caller_id c) key (canonical_intent body) (Some (caller_groups c)) t fresh w"

section \<open>Execute, discard, reconcile\<close>

text \<open>\<^verbatim>\<open>accept_execution\<close> in \<^verbatim>\<open>execute_operation\<close>.\<close>

definition accept_execution :: "ext \<Rightarrow> string \<Rightarrow> string \<Rightarrow> caller \<Rightarrow> nat \<Rightarrow> doc tx" where
  "accept_execution x i digest c t w =
    (case sbind (get_operation i w) (\<lambda>rcd. sbind (authorize x w rcd c True) (\<lambda>op. check_op_guardrails w op)) of
       Inl e \<Rightarrow> (Inl e, w)
     | Inr _ \<Rightarrow> execute i digest (caller_id c) t w)"

definition discard_operation :: "ext \<Rightarrow> string \<Rightarrow> caller \<Rightarrow> nat \<Rightarrow> doc tx" where
  "discard_operation x i c t w =
    (case sbind (get_operation i w) (\<lambda>rcd. authorize x w rcd c True) of
       Inl e \<Rightarrow> (Inl e, w)
     | Inr _ \<Rightarrow> discard i (caller_id c) t w)"

definition reconcile_operation :: "ext \<Rightarrow> string \<Rightarrow> outcome \<Rightarrow> string \<Rightarrow> caller \<Rightarrow> nat \<Rightarrow> doc tx" where
  "reconcile_operation x i outc why c t w =
    (case sbind (get_operation i w) (\<lambda>rcd. authorize_reconcile x w rcd c) of
       Inl e \<Rightarrow> (Inl e, w)
     | Inr _ \<Rightarrow> reconcile i (caller_id c) outc why t w)"

section \<open>Promotion\<close>

record promote =
  pm_environment :: string
  pm_business_unit :: "string option"
  pm_size :: "string option"
  pm_inputs :: "(string \<times> json) list"
  pm_input_refs :: "(string \<times> input_ref) list option"
  pm_labels :: "(string \<times> string) list option"

definition opt_field :: "string \<Rightarrow> json option \<Rightarrow> (string \<times> json) list" where
  "opt_field k v = (case v of None \<Rightarrow> [] | Some j \<Rightarrow> [(k, j)])"

text \<open>\<^verbatim>\<open>material\<close>: the request, with the fields that are set.\<close>

definition promote_material :: "string \<Rightarrow> promote \<Rightarrow> json" where
  "promote_material rid body = JObj
    ([(''action'', JStr ''deploy''), (''promote_from'', JStr rid), (''environment'', JStr (pm_environment body))]
     @ opt_field ''business_unit'' (map_option JStr (pm_business_unit body))
     @ opt_field ''size'' (map_option JStr (pm_size body))
     @ [(''inputs'', JObj (pm_inputs body))]
     @ opt_field ''input_refs'' (map_option refs_json (pm_input_refs body))
     @ opt_field ''labels'' (map_option (\<lambda>ls. JObj (map (\<lambda>(k, v). (k, JStr v)) ls)) (pm_labels body)))"

text \<open>\<^verbatim>\<open>rebuild_intent\<close>: the caller's inputs of the stored definition without those taken by reference,
  the fields the request overrides, size and labels. \<^verbatim>\<open>Intent(...)\<close> checks the result.\<close>

definition carried_inputs :: "defn \<Rightarrow> (string \<times> input_ref) list \<Rightarrow> (string \<times> json) list" where
  "carried_inputs p refs =
     filter (\<lambda>kv. fst kv \<notin> fst ` set (p_input_refs p) \<and> fst kv \<notin> fst ` set refs) (p_inputs p)"

definition rebuild_intent ::
  "doc \<Rightarrow> (string \<times> input_ref) list \<Rightarrow> (string \<times> json) list \<Rightarrow> (string \<times> string) list \<Rightarrow> string option \<Rightarrow> intent \<Rightarrow> err + intent" where
  "rebuild_intent source refs inputs labels sz base =
    (let p = d_def source;
         labels' = dict_merge (p_labels p) labels;
         i = base\<lparr>i_action := Deploy, i_pattern := p_pattern p,
               i_size := (if or_empty sz \<noteq> [] then sz else p_size p),
               i_inputs := dict_merge (carried_inputs p refs) inputs,
               i_input_refs := (if refs = [] then None else Some refs), i_labels := Some labels'\<rparr>
     in if 16 < length labels' then Inl (HTTPException 422)
        else if intent_ok i then Inr i else Inl ValueError)"

definition intent_fields :: intent where
  "intent_fields = \<lparr>i_action = Deploy, i_resource_id = None, i_pattern = [], i_version = None, i_expected_commit = None,
     i_business_unit = None, i_environment = None, i_size = None, i_inputs = [], i_labels = None, i_input_refs = None\<rparr>"

definition missing_refs :: "defn \<Rightarrow> promote \<Rightarrow> string list" where
  "missing_refs p body = filter (\<lambda>n. map_of (dict_of (pm_input_refs body)) n = None \<and> map_of (pm_inputs body) n = None)
     (map fst (p_input_refs p))"

definition promotion_intent :: "string \<Rightarrow> doc \<Rightarrow> promote \<Rightarrow> err + intent" where
  "promotion_intent rid source body =
    (if missing_refs (d_def source) body \<noteq> [] then Inl (OperationError 422 Promotion_needs_refs None)
     else rebuild_intent source (dict_of (pm_input_refs body)) (pm_inputs body)
       (dict_merge (dict_of (pm_labels body)) [(''promoted_from'', rid)]) (pm_size body)
       (intent_fields\<lparr>i_version := p_version (d_def source), i_expected_commit := p_commit (d_def source),
          i_business_unit := (if or_empty (pm_business_unit body) \<noteq> [] then pm_business_unit body
                              else p_business_unit (d_def source)),
          i_environment := Some (pm_environment body)\<rparr>))"

text \<open>The refusal of a size the target does not offer names the way out.\<close>

definition explain_size :: "doc \<Rightarrow> promote \<Rightarrow> err \<Rightarrow> err" where
  "explain_size source body e =
    (if e = SizeNotOffered \<and> pm_size body = None \<and> or_empty (p_size (d_def source)) \<noteq> []
     then OperationError 422 Promotion_needs_size None else e)"

definition prepare_promotion :: "ext \<Rightarrow> world \<Rightarrow> string \<Rightarrow> promote \<Rightarrow> caller \<Rightarrow> err + doc \<times> budget option" where
  "prepare_promotion x w rid body c =
    sbind (resource rid w) (\<lambda>rcd.
    sbind (authorize x w rcd c False) (\<lambda>source.
    if d_state source \<noteq> Some Ready then Inl (OperationError 409 Resource_not_ready None)
    else sbind (promotion_intent rid source body) (\<lambda>i.
      if (i_business_unit i, i_environment i) = (p_business_unit (d_def source), p_environment (d_def source))
      then Inl (HTTPException 422)
      else case validate x w i c of
             Inl e \<Rightarrow> Inl (explain_size source body e)
           | Inr (d, b) \<Rightarrow> Inr (d\<lparr>d_promoted_from := Some rid\<rparr>, b))))"

definition promotion_accept :: "ext \<Rightarrow> string \<Rightarrow> promote \<Rightarrow> caller \<Rightarrow> string \<Rightarrow> nat \<Rightarrow> string \<times> string \<Rightarrow> doc tx" where
  "promotion_accept x rid body c key t fresh w =
    submit (replayed x c key (promote_material rid body) w) (prepare_promotion x w rid body c)
      (caller_id c) key (promote_material rid body) None t fresh w"

section \<open>Upgrade\<close>

record upgrade =
  ug_version :: string
  ug_expected_commit :: "string option"
  ug_inputs :: "(string \<times> json) list"
  ug_labels :: "(string \<times> string) list option"

definition upgrade_material :: "string \<Rightarrow> upgrade \<Rightarrow> json" where
  "upgrade_material rid body = JObj
    ([(''action'', JStr ''deploy''), (''resource_id'', JStr rid), (''upgrade'', JBool True),
      (''version'', JStr (ug_version body))]
     @ opt_field ''expected_commit'' (map_option JStr (ug_expected_commit body))
     @ [(''inputs'', JObj (ug_inputs body))]
     @ opt_field ''labels'' (map_option (\<lambda>ls. JObj (map (\<lambda>(k, v). (k, JStr v)) ls)) (ug_labels body)))"

definition prepare_upgrade :: "ext \<Rightarrow> world \<Rightarrow> string \<Rightarrow> upgrade \<Rightarrow> caller \<Rightarrow> err + doc \<times> budget option" where
  "prepare_upgrade x w rid body c =
    sbind (refuse_member_change x w rid c) (\<lambda>_.
    sbind (resource rid w) (\<lambda>rcd.
    sbind (authorize x w rcd c False) (\<lambda>source.
    if d_state source \<noteq> Some Ready then Inl (OperationError 409 Resource_not_ready None)
    else if p_version (d_def source) = Some (ug_version body) then Inl (OperationError 409 Upgrade_noop None)
    else sbind (rebuild_intent source (p_input_refs (d_def source)) (ug_inputs body) (dict_of (ug_labels body)) None
           (intent_fields\<lparr>i_resource_id := Some rid, i_version := Some (ug_version body),
              i_expected_commit := ug_expected_commit body\<rparr>)) (\<lambda>i.
         validate x w i c))))"

definition accept_upgrade :: "ext \<Rightarrow> string \<Rightarrow> upgrade \<Rightarrow> caller \<Rightarrow> string \<Rightarrow> nat \<Rightarrow> string \<times> string \<Rightarrow> doc tx" where
  "accept_upgrade x rid body c key t fresh w =
    submit (replayed x c key (upgrade_material rid body) w) (prepare_upgrade x w rid body c)
      (caller_id c) key (upgrade_material rid body) None t fresh w"

section \<open>Drift checks\<close>

definition SYSTEM_ACTOR :: string where
  "SYSTEM_ACTOR = ''system:drift-sweep''"

definition BATCH :: nat where
  "BATCH = 20"

definition drift_intent :: "string \<Rightarrow> json" where
  "drift_intent rid = JObj [(''action'', JStr ''drift_check''), (''resource_id'', JStr rid)]"

text \<open>\<^verbatim>\<open>resolved\<close>: the fields of \<^verbatim>\<open>_FIELDS\<close> (not labels, references or cost).\<close>

definition drift_resolved :: "doc \<Rightarrow> doc" where
  "drift_resolved rcd = (blank_doc ((d_def rcd)\<lparr>p_labels := [], p_input_refs := []\<rparr>))
     \<lparr>d_previous_operation_id := d_operation_id rcd\<rparr>"

definition drift_accept :: "ext \<Rightarrow> string \<Rightarrow> caller \<Rightarrow> string \<Rightarrow> nat \<Rightarrow> string \<times> string \<Rightarrow> doc tx" where
  "drift_accept x rid c key t fresh w =
    submit (replayed x c key (drift_intent rid) w)
      (sbind (resource rid w) (\<lambda>rcd. sbind (authorize x w rcd c True) (\<lambda>rcd. Inr (drift_resolved rcd, None))))
      (caller_id c) key (drift_intent rid) None t fresh w"

definition accept_system :: "doc \<Rightarrow> string \<Rightarrow> nat \<Rightarrow> string \<times> string \<Rightarrow> doc tx" where
  "accept_system rcd key t fresh w =
    (if enabled w \<and> (case load_unit w (p_business_unit (d_def rcd)) of
          None \<Rightarrow> True | Some u \<Rightarrow> unit_env u (p_environment (d_def rcd)) = None)
     then (Inl (TenancyError 403), w)
     else accept SYSTEM_ACTOR key (drift_intent (d_id rcd)) (drift_resolved rcd) None None t fresh w)"

section \<open>The drift sweep\<close>

text \<open>The errors the loop catches, and the two texts stamped on the resource.\<close>

definition sweep_catches :: "err \<Rightarrow> bool" where
  "sweep_catches e = (case e of
      HTTPException n \<Rightarrow> True | OperationError n r i \<Rightarrow> True | TenancyError n \<Rightarrow> True | SizeNotOffered \<Rightarrow> True | _ \<Rightarrow> False)"

definition is_operation_error :: "err \<Rightarrow> bool" where
  "is_operation_error e = (case e of OperationError n r i \<Rightarrow> True | _ \<Rightarrow> False)"

definition msg_busy :: string where
  "msg_busy = ''resource is busy or not placeable''"

definition msg_unplaced :: string where
  "msg_unplaced = ''resource's placement is no longer configured''"

definition sweep_refusal :: "doc \<Rightarrow> err \<Rightarrow> nat \<Rightarrow> unit tx" where
  "sweep_refusal rcd e t w =
    (case refused SYSTEM_ACTOR (Ev_request ''drift_check'') t w of
       (Inl e', w1) \<Rightarrow> (Inl e', w1)
     | (Inr _, w1) \<Rightarrow> stamp_drift_refusal (d_id rcd) (if is_operation_error e then msg_busy else msg_unplaced)
                        (\<not> is_operation_error e) t w1)"

text \<open>One candidate with the two identifiers drawn for it.\<close>

definition sweep_one :: "(string \<Rightarrow> string) \<Rightarrow> nat \<Rightarrow> doc \<times> string \<times> string \<Rightarrow> unit tx" where
  "sweep_one key_of t = (\<lambda>(rcd, fresh) w.
    (case accept_system rcd (key_of (d_id rcd)) t fresh w of
       (Inr op, w1) \<Rightarrow> (Inr (), w1)
     | (Inl e, w1) \<Rightarrow> (if sweep_catches e then sweep_refusal rcd e t w1 else (Inl e, w1))))"

fun sweep_all :: "(string \<Rightarrow> string) \<Rightarrow> nat \<Rightarrow> (doc \<times> string \<times> string) list \<Rightarrow> unit tx" where
  "sweep_all key_of t [] w = (Inr (), w)"
| "sweep_all key_of t (r # rs) w =
    (case sweep_one key_of t r w of
       (Inl e, w1) \<Rightarrow> (Inl e, w1)
     | (Inr _, w1) \<Rightarrow> sweep_all key_of t rs w1)"

record sweep_answer =
  sw_enabled :: bool
  sw_operations :: "string list"
  sw_sleep :: nat

text \<open>\<^verbatim>\<open>sweep_drift\<close>, durations in the unit of the timestamps; \<open>backlog_sleep\<close> is \<^verbatim>\<open>BACKLOG_SLEEP\<close>. An
  interval of 0 is the sweep turned off. The bucket number is written as \<^verbatim>\<open>str\<close> prints it.\<close>

definition sweep_key :: "nat \<Rightarrow> nat \<Rightarrow> string \<Rightarrow> string" where
  "sweep_key interval t rid = ''drift-sweep:'' @ rid @ '':'' @ nat_str (t div interval)"

definition sweep_drift :: "nat \<Rightarrow> nat \<Rightarrow> (string \<times> string) list \<Rightarrow> sweep_answer tx" where
  "sweep_drift backlog_sleep t fresh w =
    (let interval = drift_sweep_interval (cfg w) in
     if interval = 0 then (Inr \<lparr>sw_enabled = False, sw_operations = [], sw_sleep = 0\<rparr>, w)
     else case outstanding_count SYSTEM_ACTOR Drift_check w of
       Inl e \<Rightarrow> (Inl e, w)
     | Inr outstanding \<Rightarrow>
        let allowed = BATCH - outstanding in
        (case (if allowed = 0 then Inr [] else drift_candidates (t - interval) allowed w) of
           Inl e \<Rightarrow> (Inl e, w)
         | Inr due \<Rightarrow>
            (case sweep_all (sweep_key interval t) t (zip due fresh) w of
               (Inl e, w1) \<Rightarrow> (Inl e, w1)
             | (Inr _, w1) \<Rightarrow>
                (case queued_operations SYSTEM_ACTOR Drift_check w1 of
                   Inl e \<Rightarrow> (Inl e, w1)
                 | Inr queued \<Rightarrow>
                    (Inr \<lparr>sw_enabled = True, sw_operations = queued,
                       sw_sleep = (if BATCH \<le> outstanding \<or> length due = allowed
                                   then min interval backlog_sleep else interval)\<rparr>, w1)))))"

section \<open>Refused requests\<close>

text \<open>The status \<^verbatim>\<open>error_response\<close> answers with; \<open>None\<close> is an exception no handler is registered for.\<close>

definition error_status :: "err \<Rightarrow> nat option" where
  "error_status e = (case e of
      HTTPException n \<Rightarrow> Some n | OperationError n r i \<Rightarrow> Some n | TenancyError n \<Rightarrow> Some n | SizeNotOffered \<Rightarrow> Some 422
    | CatalogError \<Rightarrow> Some 502 | UnknownVersion \<Rightarrow> Some 502 | IntegrityError \<Rightarrow> Some 503 | _ \<Rightarrow> None)"

text \<open>A mutating request: when its handler raises, the refusal is audited; an audit that fails turns
  the answer into 503. \<open>act\<close> is the audited action.\<close>

definition respond :: "string \<Rightarrow> ev_action \<Rightarrow> nat \<Rightarrow> 'a tx \<Rightarrow> world \<Rightarrow> (nat option + 'a) \<times> world" where
  "respond who act t handler w =
    (case handler w of
       (Inr v, w1) \<Rightarrow> (Inr v, w1)
     | (Inl e, w1) \<Rightarrow>
        (case error_status e of
           None \<Rightarrow> (Inl None, w1)
         | Some n \<Rightarrow>
            (case refused who act t w1 of
               (Inr _, w2) \<Rightarrow> (Inl (Some n), w2)
             | (Inl _, w2) \<Rightarrow> (Inl (Some 503), w2))))"

end
