(* ===== verification/RequestProperties.thy ===== *)
theory RequestProperties
  imports Requests PolicyProperties WorkerProperties
begin

text \<open>
  What the requests on single operations and resources guarantee: what may be executed, that accepted
  work is placed as of now, what a promotion carries over, paging, the drift sweep's bounds and the
  audit of refusals.
\<close>

section \<open>Execution\<close>

lemma execute_tx_result:
  assumes "execute_tx i digest who t w = (Inr (op, False), w')"
  shows "\<exists>op0. op_body i w = Some op0 \<and> d_def op = d_def op0 \<and> d_action op = d_action op0 \<and> d_changes op = d_changes op0 \<and>
     d_plan_digest op = Some digest \<and> d_plan_digest op0 = Some digest"
  using assms
  by (auto simp: execute_tx_def Let_def stamp_def split: option.splits if_splits sum.splits)

lemma execute_result:
  assumes "execute i digest who t w = (Inr op, w')"
  shows "\<exists>op0. op_body i w = Some op0 \<and> d_def op = d_def op0 \<and> d_action op = d_action op0 \<and> d_changes op = d_changes op0 \<and>
     d_plan_digest op = Some digest \<and> d_plan_digest op0 = Some digest"
proof -
  from assms obtain w1 where "connect (execute_tx i digest who t) w = (Inr (op, False), w1)"
    by (auto simp: execute_def split: prod.splits sum.splits if_splits)
  from execute_tx_result [OF conjunct1 [OF connect_InrD [OF this]]] show ?thesis .
qed

lemma offending_nil: "offending e changes = [] \<longleftrightarrow>
    (\<forall>ch \<in> set (case changes of None \<Rightarrow> [] | Some cs \<Rightarrow> cs). c_type ch \<in> set (env_protected e) \<longrightarrow> ''delete'' \<notin> set (c_actions ch))"
  by (auto simp: offending_def filter_empty_conv)

text \<open>C38. Guardrails bind what is executed. When an execution is accepted under tenancy, the operation
  carries the digest the caller reviewed; in its environment destroys are allowed if it is one, and none
  of the changes of the reviewed plan deletes a resource of a protected type.\<close>

theorem execution_within_guardrails:
  assumes "accept_execution x i digest c t w = (Inr op, w')" and "enabled w"
    and "load_unit w (p_business_unit (d_def op)) = Some u" and "unit_env u (p_environment (d_def op)) = Some e"
  shows "d_plan_digest op = Some digest \<and> (d_action op = Destroy \<longrightarrow> env_allow_destroy e) \<and>
    (\<forall>ch \<in> set (case d_changes op of None \<Rightarrow> [] | Some cs \<Rightarrow> cs). c_type ch \<in> set (env_protected e) \<longrightarrow> ''delete'' \<notin> set (c_actions ch))"
proof -
  from assms(1) obtain rcd where r: "get_operation i w = Inr rcd"
    and a: "sbind (authorize x w rcd c True) (\<lambda>op. check_op_guardrails w op) = Inr ()" and e: "execute i digest (caller_id c) t w = (Inr op, w')"
    by (auto simp: accept_execution_def split: sum.splits elim: sbind_InrE)
  obtain op0 where o: "op_body i w = Some op0" "d_def op = d_def op0" "d_action op = d_action op0" "d_changes op = d_changes op0"
    "d_plan_digest op = Some digest" using execute_result [OF e] by blast
  from r o(1) have "rcd = Some op0" by (auto simp: get_operation_def reading_def split: if_splits)
  with a obtain op1 where "authorize x w (Some op0) c True = Inr op1" and g: "check_op_guardrails w op1 = Inr ()"
    by (auto elim: sbind_InrE)
  then have "op1 = op0"
    by (auto simp: authorize_def elim!: sbind_InrE split: if_splits option.splits)
  with g o assms(2-4) show ?thesis
    by (auto simp: check_op_guardrails_def check_guardrails_def offending_nil split: if_splits)
qed

definition shop_plan :: doc where
  "shop_plan = demo_plan\<lparr>d_def := (d_def demo_plan)\<lparr>p_subscription_id := Some ''s1''\<rparr>,
     d_changes := Some [\<lparr>c_address = ''a'', c_type = ''t'', c_actions = [''delete''], c_detail = None\<rparr>]\<rparr>"

definition planned_world :: world where
  "planned_world = shop_world\<lparr>operations := [demo_row shop_plan], resources := [(''res_1'', demo_resource)]\<rparr>"

lemma planned_cfg: "cfg planned_world = cfg shop_world" by (simp add: planned_world_def)

lemma planned_owned: "shop_owned shop_plan" by (simp add: shop_owned_def shop_plan_def demo_defs)

lemma planned_get: "get_operation ''op_1'' planned_world = Inr (Some shop_plan)"
  by (simp add: get_operation_def reading_def planned_world_def shop_world_def demo_defs op_body_def op_find_def row_find_Cons)

lemma planned_execute:
  "\<exists>w'. accept_execution shop_ext ''op_1'' ''d1'' shop_caller 40 planned_world =
     (Inr (shop_plan\<lparr>d_state := Some Apply_queued, d_updated_at := 40\<rparr>), w')"
proof -
  have g: "check_op_guardrails planned_world shop_plan = Inr ()"
    using planned_owned [unfolded shop_owned_def]
    by (simp add: check_op_guardrails_def check_guardrails_def shop_enabled [OF planned_cfg] load_unit_def shop_load [OF planned_cfg]
        unit_env_def shop_unit_def shop_env_def build_environment_def List.map_filter_def)
  have "\<exists>w'. execute ''op_1'' ''d1'' ''amy'' 40 planned_world = (Inr (shop_plan\<lparr>d_state := Some Apply_queued, d_updated_at := 40\<rparr>), w')"
    by (simp add: execute_def connect_def execute_tx_def planned_world_def shop_world_def shop_plan_def expired_def plan_expires_at_def
        op_body_def op_find_def row_find_Cons Let_def stamp_def demo_defs)
  then show ?thesis
    by (simp add: accept_execution_def planned_get shop_authorized [OF planned_owned planned_cfg] g) (simp add: shop_caller_def)
qed

theorem execution_within_guardrails_witness:
  "\<exists>w' op. accept_execution shop_ext ''op_1'' ''d1'' shop_caller 40 planned_world = (Inr op, w') \<and> d_plan_digest op = Some ''d1''"
proof -
  obtain w' where a: "accept_execution shop_ext ''op_1'' ''d1'' shop_caller 40 planned_world =
     (Inr (shop_plan\<lparr>d_state := Some Apply_queued, d_updated_at := 40\<rparr>), w')" using planned_execute by blast
  let ?op = "shop_plan\<lparr>d_state := Some Apply_queued, d_updated_at := 40\<rparr>"
  have u: "load_unit planned_world (p_business_unit (d_def ?op)) = Some shop_unit" "unit_env shop_unit (p_environment (d_def ?op)) = Some shop_env"
    using planned_owned [unfolded shop_owned_def]
    by (simp_all add: load_unit_def shop_load [OF planned_cfg]) (simp add: unit_env_def shop_unit_def)
  from execution_within_guardrails [OF a shop_enabled(1) [OF planned_cfg] u] a show ?thesis by blast
qed

section \<open>Placement at acceptance\<close>

text \<open>Accepted work is placed as of now. When a deploy under tenancy is newly accepted, the business
  unit read inside the acceptance transaction still exists and is not archived, has the revision the
  request was validated at (when teams are in the database), still has the environment and lets the
  caller deploy to it, and still configures the cloud target and subscription the deploy will use; a team
  edit between validation and acceptance refuses the request instead.\<close>

theorem accepted_placement_is_current:
  assumes "accept who key intent res b (Some gs) t fresh w = (Inr op, w')"
    and "replay_tx who key (fingerprint intent) w = Inr None" and "intent_action intent = Deploy"
    and "enabled w" and "p_business_unit (d_def res) = Some u" and "u \<noteq> []"
  shows "\<exists>bu env target. placement_unit u (d_team_revision res) w = (Some bu, False) \<and> \<not> u_archived bu \<and>
     unit_env bu (p_environment (d_def res)) = Some env \<and>
     can_deploy bu \<lparr>caller_id = '''', caller_groups = gs\<rparr> env \<and>
     select_target \<lparr>pl_unit = bu, pl_environment = env\<rparr> (p_cloud (d_def res)) = Inr target \<and>
     same_target (target_or_none target) (target_or_none (p_cloud_target (d_def res))) \<and>
     placed_subscription target env = p_subscription_id (d_def res)"
proof -
  from assms(1) obtain bl w1 where "accept_tx who key intent res b (Some gs) t fresh w = (Inr (op, bl), w1)"
    by (rule acceptD)
  then have c: "check_placement intent (res\<lparr>d_team_revision := None\<rparr>) (d_team_revision res) (Some gs) w = Inr ()"
    by (cases rule: accept_tx_cases) (simp_all add: assms(2))
  obtain bo moved where pu: "placement_unit u (d_team_revision res) w = (bo, moved)" by fastforce
  from c assms(3-6) pu obtain bu env where e: "bo = Some bu" "unit_env bu (p_environment (d_def res)) = Some env" "\<not> u_archived bu" "\<not> moved"
    "can_deploy bu \<lparr>caller_id = '''', caller_groups = gs\<rparr> env"
    "target_stale bu env (res\<lparr>d_team_revision := None\<rparr>) = Inr False"
    by (auto simp: check_placement_def split: option.splits if_splits sum.splits bool.splits)
  from e(6) obtain target where "select_target \<lparr>pl_unit = bu, pl_environment = env\<rparr> (p_cloud (d_def res)) = Inr target"
    "same_target (target_or_none target) (target_or_none (p_cloud_target (d_def res)))"
    "placed_subscription target env = p_subscription_id (d_def res)"
    by (auto simp: target_stale_def split: sum.splits err.splits)
  with e pu show ?thesis by auto
qed

lemma shop_accept:
  "\<exists>op w'. accept ''amy'' ''k1'' (canonical_intent shop_intent) (shop_placed [(''name'', JStr ''db'')] []) (Some shop_budget) (Some [''g1'']) 10
     (''res_1'', ''op_1'') shop_world = (Inr op, w')"
proof -
  let ?i = "canonical_intent shop_intent" and ?res = "shop_placed [(''name'', JStr ''db'')] []"
  have i: "intent_action ?i = Deploy" "intent_resource_id ?i = None" "i_action shop_intent = Deploy"
    by (simp_all add: shop_intent_def demo_intent_def)
  have f: "p_business_unit (d_def ?res) = Some ''retail''" "p_environment (d_def ?res) = Some ''dev''" "p_cloud (d_def ?res) = None"
    "p_cloud_target (d_def ?res) = None" "p_subscription_id (d_def ?res) = Some ''s1''" "d_team_revision ?res = None"
    "d_previous_operation_id ?res = None" "d_cost ?res = JNum 30" "p_input_refs (d_def ?res) = []"
    by (simp_all add: shop_labelled_def blank_doc_def)
  have u: "u_archived shop_unit = False" "unit_env shop_unit (Some ''dev'') = Some shop_env"
    "can_deploy shop_unit \<lparr>caller_id = '''', caller_groups = [''g1'']\<rparr> shop_env"
    by (simp_all add: shop_unit_def unit_env_def can_deploy_def overlap_def shop_env_def build_environment_def List.map_filter_def)
  have st: "target_stale shop_unit shop_env (?res\<lparr>d_team_revision := None\<rparr>) = Inr False"
    by (simp add: target_stale_def f select_target_def shop_env_def build_environment_def same_target_def target_or_none_def
        placed_subscription_def)
  have pu: "placement_unit ''retail'' None shop_world = (Some shop_unit, False)"
    by (simp add: placement_unit_def shop_enabled [OF refl] load_unit_def shop_load [OF refl])
  have cp: "check_placement ?i (?res\<lparr>d_team_revision := None\<rparr>) None (Some [''g1'']) shop_world = Inr ()"
    by (simp add: check_placement_def f shop_enabled [OF refl] i pu u st)
  have em: "operations shop_world = []" "resources shop_world = []" "db_sqlite (cfg shop_world)"
    by (simp_all add: shop_world_def empty_world_def demo_settings_def)
  have lim: "(30 :: rat) < float_limit" "(0 :: rat) < float_limit" by (simp_all add: float_limit_def)
  have ad: "admission Deploy (?res\<lparr>d_team_revision := None\<rparr>) (Some shop_budget) ''res_1'' shop_world = Inr (Some (0, 30))"
    using lim by (simp add: admission_def res_find_def em f deploy_costs_def accounting_amount_def budget_check_def reserved_tx_def)
  have tr: "target_resource ?i (''res_1'', ''op_1'') = ''res_1''" by (simp add: target_resource_def i shop_intent_def demo_intent_def)
  have "\<exists>op w1. write_acceptance ''amy'' ''k1'' ?i ''op_1'' ''res_1'' (Some (0, 30)) (?res\<lparr>d_team_revision := None\<rparr>) 10 shop_world = (Inr op, w1)"
    by (simp add: write_acceptance_def Let_def insert_op_def event_def em i)
  then show ?thesis
    by (auto simp: accept_def connect_def em accept_tx_def replay_tx_def f cp tr clear_blocker_def busy_row_def i ad Let_def)
qed

theorem accepted_placement_is_current_witness:
  "\<exists>bu env. placement_unit ''retail'' None shop_world = (Some bu, False) \<and> can_deploy bu \<lparr>caller_id = '''', caller_groups = [''g1'']\<rparr> env"
proof -
  obtain op w' where a: "accept ''amy'' ''k1'' (canonical_intent shop_intent) (shop_placed [(''name'', JStr ''db'')] []) (Some shop_budget)
     (Some [''g1'']) 10 (''res_1'', ''op_1'') shop_world = (Inr op, w')" using shop_accept by blast
  have n: "replay_tx ''amy'' ''k1'' (fingerprint (canonical_intent shop_intent)) shop_world = Inr None"
    by (simp add: replay_tx_def shop_world_def empty_world_def)
  have d: "intent_action (canonical_intent shop_intent) = Deploy" by (simp add: shop_intent_def demo_intent_def)
  have f: "p_business_unit (d_def (shop_placed [(''name'', JStr ''db'')] [])) = Some ''retail''"
    "d_team_revision (shop_placed [(''name'', JStr ''db'')] []) = None"
    by (simp_all add: shop_labelled_def blank_doc_def)
  from accepted_placement_is_current [OF a n d shop_enabled(1) [OF refl] f(1)] f(2) show ?thesis by auto
qed

section \<open>Promotion\<close>

lemma rebuild_intentD:
  assumes "rebuild_intent source refs inputs labels sz base = Inr i"
  shows "i_pattern i = p_pattern (d_def source)" "i_inputs i = dict_merge (carried_inputs (d_def source) refs) inputs"
    "i_version i = i_version base" "i_expected_commit i = i_expected_commit base" "i_resource_id i = i_resource_id base"
    "i_business_unit i = i_business_unit base" "i_environment i = i_environment base" "i_action i = Deploy"
    "i_labels i = Some (dict_merge (p_labels (d_def source)) labels)" "i_input_refs i = (if refs = [] then None else Some refs)"
  using assms by (auto simp: rebuild_intent_def Let_def split: if_splits)

lemma promotion_intentD:
  assumes "promotion_intent rid source body = Inr i"
  shows "missing_refs (d_def source) body = []"
    "\<exists>base. rebuild_intent source (dict_of (pm_input_refs body)) (pm_inputs body)
       (dict_merge (dict_of (pm_labels body)) [(''promoted_from'', rid)]) (pm_size body) base = Inr i \<and>
       i_version base = p_version (d_def source) \<and> i_expected_commit base = p_commit (d_def source) \<and> i_resource_id base = None"
    "i_business_unit i = None \<Longrightarrow> p_business_unit (d_def source) = None"
  using assms by (auto simp: promotion_intent_def intent_fields_def or_empty_def dest: rebuild_intentD(6) split: if_splits option.splits)

lemma place_result_fields:
  assumes "place_result x w i c r vars config (deploy_result x i0 r previous) = Inr (placed, vars1, b)"
  shows "p_pattern (d_def placed) = i_pattern i0" "p_commit (d_def placed) = rs_commit r" "p_version (d_def placed) = rs_version r"
    "d_previous_operation_id placed = (case previous of None \<Rightarrow> None | Some p \<Rightarrow> d_operation_id p)" "d_reconciliation placed = None"
proof -
  have 1: "p_pattern (d_def placed) = i_pattern i0 \<and> p_commit (d_def placed) = rs_commit r \<and> p_version (d_def placed) = rs_version r \<and>
    d_previous_operation_id placed = (case previous of None \<Rightarrow> None | Some p \<Rightarrow> d_operation_id p) \<and> d_reconciliation placed = None"
  proof (cases "enabled w")
    case True
    with assms have "place_deploy x w i c r vars config (deploy_result x i0 r previous) = Inr (placed, vars1, b)"
      by (simp add: place_result_def)
    then show ?thesis by (rule place_deployD) (simp add: deploy_result_def blank_doc_def deploy_def_def)
  next
    case False
    with assms show ?thesis by (auto simp: place_result_def deploy_result_def blank_doc_def deploy_def_def split: if_splits)
  qed
  then show "p_pattern (d_def placed) = i_pattern i0" "p_commit (d_def placed) = rs_commit r" "p_version (d_def placed) = rs_version r"
    "d_previous_operation_id placed = (case previous of None \<Rightarrow> None | Some p \<Rightarrow> d_operation_id p)" "d_reconciliation placed = None"
    by simp_all
qed

lemma validate_deploy_fields:
  assumes "validate x w i c = Inr (d, b)" "i_action i \<noteq> Destroy" "i_resource_id i = None"
  shows "p_pattern (d_def d) = i_pattern i" "d_previous_operation_id d = None" "d_reconciliation d = None"
    "or_empty (i_expected_commit i) \<noteq> [] \<Longrightarrow> p_commit (d_def d) = i_expected_commit i"
proof -
  have v: "validate_deploy x w i c None = Inr (d, b)"
    using assms by (simp add: validate_def or_empty_def)
  then obtain r vars config placed vars1 where
    e: "or_empty (i_expected_commit i) \<noteq> [] \<longrightarrow> i_expected_commit i = rs_commit r"
    and p: "place_result x w (with_previous i None) c r vars config (deploy_result x (with_previous i None) r None) = Inr (placed, vars1, b)"
    and k: "check_deploy x w (with_previous i None) c placed vars1 = Inr d"
    by (rule validate_deployD)
  from k obtain ins where d: "d = placed\<lparr>d_def := (d_def placed)\<lparr>p_inputs := ins\<rparr>\<rparr>" by (rule check_deployD) blast
  show "p_pattern (d_def d) = i_pattern i" "d_previous_operation_id d = None" "d_reconciliation d = None"
    "or_empty (i_expected_commit i) \<noteq> [] \<Longrightarrow> p_commit (d_def d) = i_expected_commit i"
    using place_result_fields [OF p] e by (simp_all add: d)
qed

lemma place_deploy_where:
  assumes "place_deploy x w i c r vars config result = Inr (placed, vars1, b)"
  shows "\<exists>n. p_business_unit (d_def placed) = Some n \<and> p_environment (d_def placed) = i_environment i \<and>
    (\<forall>m. i_business_unit i = Some m \<longrightarrow> n = m)"
  using assms
proof (rule place_deployD)
  fix u pl target vars' ti sh cost
  assume u: "select_unit w c (i_business_unit i) = Inr u" and pl: "place c u (i_environment i) (i_pattern i) False = Inr pl"
    and placed: "placed = result
       \<lparr>d_def := (d_def result)\<lparr>p_business_unit := Some (u_name u),
           p_environment := Some (env_name (pl_environment pl)),
           p_subscription_id := placed_subscription target (pl_environment pl),
           p_cloud_target := target, p_size := i_size i,
           p_injected := with_region u i vars1 (dict_merge sh ti)\<rparr>,
        d_cost := (case cost of None \<Rightarrow> JNull | Some j \<Rightarrow> j),
        d_team_revision := (if db_source w then u_revision u else None)\<rparr>"
  have "i_environment i = Some (env_name (pl_environment pl))"
    using loaded_env_name [OF select_unitD(2) [OF u] placeD(5) [OF pl]] .
  moreover have "p_business_unit (d_def placed) = Some (u_name u)" "p_environment (d_def placed) = Some (env_name (pl_environment pl))"
    by (simp_all add: placed)
  ultimately show ?thesis using select_unitD(3) [OF u] by simp
qed

lemma validate_where:
  assumes "validate x w i c = Inr (d, b)" "i_action i \<noteq> Destroy" "i_resource_id i = None" "enabled w"
  shows "\<exists>n. p_business_unit (d_def d) = Some n \<and> (\<forall>m. i_business_unit i = Some m \<longrightarrow> n = m) \<and>
    p_environment (d_def d) = i_environment i"
proof -
  have "validate_deploy x w i c None = Inr (d, b)"
    using assms by (simp add: validate_def or_empty_def)
  then obtain r vars config placed vars1 vals where
    p: "place_deploy x w (with_previous i None) c r vars config (deploy_result x (with_previous i None) r None) = Inr (placed, vars1, b)"
    and d: "d = placed\<lparr>d_def := (d_def placed)\<lparr>p_inputs := dict_merge (i_inputs i) vals\<rparr>\<rparr>"
    using assms(4) by (rule validate_deploy_placed)
  have wp: "with_previous i None = i" by (simp add: with_previous_def)
  from place_deploy_where [OF p] show ?thesis by (simp add: d wp conj_commute)
qed

lemma carried_inputs_refs: "n \<in> fst ` set (p_input_refs p) \<Longrightarrow> n \<notin> fst ` set (carried_inputs p refs)"
  by (simp add: carried_inputs_def image_iff)

text \<open>A promotion deploys the same pattern elsewhere. The prepared request comes from a ready resource
  the caller can see; it is a new resource of the same pattern at the same commit (a moved tag is
  refused), in another unit or environment, marked with its origin; and an input the source took from
  a reference is never carried across: the request must supply it.\<close>

theorem promotion_carries_definition:
  assumes "prepare_promotion x w rid body c = Inr (d, b)"
  shows "\<exists>source i. res_find rid w = Some source \<and> d_state source = Some Ready \<and>
     visible w (d_actor source) (p_business_unit (d_def source)) c \<and>
     promotion_intent rid source body = Inr i \<and>
     d_promoted_from d = Some rid \<and> d_previous_operation_id d = None \<and>
     p_pattern (d_def d) = p_pattern (d_def source) \<and>
     (or_empty (p_commit (d_def source)) \<noteq> [] \<longrightarrow> p_commit (d_def d) = p_commit (d_def source)) \<and>
     (enabled w \<longrightarrow> (p_business_unit (d_def d), p_environment (d_def d)) \<noteq> (p_business_unit (d_def source), p_environment (d_def source))) \<and>
     (\<forall>n \<in> fst ` set (p_input_refs (d_def source)).
        map_of (i_inputs i) n = map_of (rev (pm_inputs body)) n \<and>
        (map_of (dict_of (pm_input_refs body)) n \<noteq> None \<or> map_of (pm_inputs body) n \<noteq> None))"
proof -
  obtain source where s: "resource rid w = Inr (Some source)" "d_state source = Some Ready"
      "visible w (d_actor source) (p_business_unit (d_def source)) c"
    and 1: "sbind (promotion_intent rid source body) (\<lambda>i.
      if (i_business_unit i, i_environment i) = (p_business_unit (d_def source), p_environment (d_def source))
      then Inl (HTTPException 422)
      else case validate x w i c of
             Inl e \<Rightarrow> Inl (explain_size source body e)
           | Inr (d, b) \<Rightarrow> Inr (d\<lparr>d_promoted_from := Some rid\<rparr>, b)) = Inr (d, b)"
    using assms unfolding prepare_promotion_def
    by (elim sbind_InrE if_InlE) (auto simp: authorize_def split: option.splits if_splits)
  then obtain i where i: "promotion_intent rid source body = Inr i"
    "(i_business_unit i, i_environment i) \<noteq> (p_business_unit (d_def source), p_environment (d_def source))"
    and 2: "(case validate x w i c of Inl e \<Rightarrow> Inl (explain_size source body e)
           | Inr (d, b) \<Rightarrow> Inr (d\<lparr>d_promoted_from := Some rid\<rparr>, b)) = Inr (d, b)"
    by (elim sbind_InrE if_InlE) blast
  from 2 obtain d0 where v: "validate x w i c = Inr (d0, b)" and d: "d = d0\<lparr>d_promoted_from := Some rid\<rparr>"
    by (auto split: sum.splits)
  obtain base where rb: "rebuild_intent source (dict_of (pm_input_refs body)) (pm_inputs body)
       (dict_merge (dict_of (pm_labels body)) [(''promoted_from'', rid)]) (pm_size body) base = Inr i"
    "i_version base = p_version (d_def source)" "i_expected_commit base = p_commit (d_def source)" "i_resource_id base = None"
    using promotion_intentD(2) [OF i(1)] by blast
  note f = rebuild_intentD [OF rb(1)]
  have a: "i_action i \<noteq> Destroy" "i_resource_id i = None" using f rb by simp_all
  note vf = validate_deploy_fields [OF v a]
  have w: "enabled w \<Longrightarrow> (p_business_unit (d_def d0), p_environment (d_def d0)) \<noteq> (p_business_unit (d_def source), p_environment (d_def source))"
    using validate_where [OF v a] i(2) promotion_intentD(3) [OF i(1)] by (cases "i_business_unit i") auto
  have refs: "map_of (i_inputs i) n = map_of (rev (pm_inputs body)) n \<and>
        (map_of (dict_of (pm_input_refs body)) n \<noteq> None \<or> map_of (pm_inputs body) n \<noteq> None)"
    if "n \<in> fst ` set (p_input_refs (d_def source))" for n
  proof
    have "map_of (carried_inputs (d_def source) (dict_of (pm_input_refs body))) n = None"
      using carried_inputs_refs [OF that] by (simp add: map_of_None_key)
    then show "map_of (i_inputs i) n = map_of (rev (pm_inputs body)) n"
      by (simp add: f(2) dict_merge_map_of split: option.split)
    show "map_of (dict_of (pm_input_refs body)) n \<noteq> None \<or> map_of (pm_inputs body) n \<noteq> None"
      using that promotion_intentD(1) [OF i(1)] by (auto simp: missing_refs_def filter_empty_conv)
  qed
  have "res_find rid w = Some source" using s(1) by (auto simp: resource_def reading_def split: if_splits)
  then show ?thesis
    using s(2,3) i(1) vf f rb w refs by (intro exI [of _ source] exI [of _ i]) (simp add: d)
qed

definition promo_source :: doc where
  "promo_source = shop_source\<lparr>d_def := (d_def shop_source)\<lparr>p_environment := Some ''test'', p_version := None, p_commit := None,
     p_inputs := [(''name'', JStr ''db'')], p_size := None\<rparr>\<rparr>"

definition promo_world :: world where
  "promo_world = shop_world\<lparr>resources := [(''res_1'', promo_source)]\<rparr>"

definition promo_body :: promote where
  "promo_body = \<lparr>pm_environment = ''dev'', pm_business_unit = None, pm_size = None, pm_inputs = [], pm_input_refs = None, pm_labels = None\<rparr>"

definition promo_intent :: intent where
  "promo_intent = shop_intent\<lparr>i_business_unit := Some ''retail'', i_labels := Some [(''promoted_from'', ''res_1'')]\<rparr>"

lemma promo_intent_ok: "intent_ok promo_intent"
proof -
  have "check_labels [(''promoted_from'', ''res_1'')] = Inr [(''promoted_from'', ''res_1'')]" by code_simp
  then show ?thesis by (simp add: intent_ok_def promo_intent_def shop_intent_def demo_intent_def check_inputs_def)
qed

lemma promo_prepared: "\<exists>d. prepare_promotion shop_ext promo_world ''res_1'' promo_body shop_caller = Inr (d, Some shop_budget)"
proof -
  have cw: "cfg promo_world = cfg shop_world" by (simp add: promo_world_def)
  have l: "shop_like promo_world promo_intent"
    by (simp add: shop_like_def cw promo_intent_def shop_intent_def demo_intent_def)
  have sf: "p_pattern (d_def promo_source) = ''postgresql''" "p_labels (d_def promo_source) = []" "p_size (d_def promo_source) = None"
    "p_inputs (d_def promo_source) = [(''name'', JStr ''db'')]" "p_input_refs (d_def promo_source) = []"
    "p_version (d_def promo_source) = None" "p_commit (d_def promo_source) = None" "p_business_unit (d_def promo_source) = Some ''retail''"
    by (simp_all add: promo_source_def shop_source_def demo_defs)
  have pi: "promotion_intent ''res_1'' promo_source promo_body = Inr promo_intent"
  proof -
    have "rebuild_intent promo_source [] [] [(''promoted_from'', ''res_1'')] None
       (intent_fields\<lparr>i_version := None, i_expected_commit := None, i_business_unit := Some ''retail'', i_environment := Some ''dev''\<rparr>) =
       (if intent_ok promo_intent then Inr promo_intent else Inl ValueError)"
      by (simp add: rebuild_intent_def Let_def dict_merge_def carried_inputs_def intent_fields_def promo_intent_def shop_intent_def
          demo_intent_def sf or_empty_def)
    then show ?thesis
      by (simp add: promo_intent_ok promotion_intent_def missing_refs_def promo_body_def dict_of_def dict_merge_def or_empty_def sf)
  qed
  have v: "validate shop_ext promo_world promo_intent shop_caller =
      Inr (shop_labelled [(''promoted_from'', ''res_1'')] [(''name'', JStr ''db'')] [], Some shop_budget)"
    using shop_validate [OF l, of "[]"]
    by (simp add: promo_intent_def shop_intent_def demo_intent_def dict_merge_def dict_of_def)
  have r: "resource ''res_1'' promo_world = Inr (Some promo_source)"
    by (simp add: resource_def reading_def cw res_find_def promo_world_def row_find_Cons) (simp add: shop_world_def demo_defs)
  have s: "p_business_unit (d_def promo_source) = Some ''retail''" "p_environment (d_def promo_source) = Some ''test''"
    "d_state promo_source = Some Ready" by (simp_all add: promo_source_def shop_source_def demo_defs)
  have i: "i_business_unit promo_intent = Some ''retail''" "i_environment promo_intent = Some ''dev''"
    by (simp_all add: promo_intent_def shop_intent_def)
  show ?thesis
    by (simp add: prepare_promotion_def r authorize_def s shop_visible [OF cw] pi i v)
qed

theorem promotion_carries_definition_witness:
  "\<exists>d. prepare_promotion shop_ext promo_world ''res_1'' promo_body shop_caller = Inr (d, Some shop_budget) \<and>
     d_promoted_from d = Some ''res_1'' \<and> d_previous_operation_id d = None"
proof -
  obtain d where d: "prepare_promotion shop_ext promo_world ''res_1'' promo_body shop_caller = Inr (d, Some shop_budget)"
    using promo_prepared by blast
  from promotion_carries_definition [OF d] d show ?thesis by blast
qed

section \<open>Audit\<close>

lemma submit_atomic: "atomic_result w (submit known prepared who key material groups t fresh w)"
proof -
  have "atomic_result w (accept who key material d b groups t fresh w)" for d b
    unfolding accept_def by (rule atomic_then) auto
  then show ?thesis
    by (cases known; cases prepared; cases "projr known"; cases "projr prepared") (simp_all add: submit_def, simp_all add: atomic_result_def)
qed

lemma checked_atomic:
  "(\<And>v. atomic_result w (f v w)) \<Longrightarrow> atomic_result w (case m of Inl e \<Rightarrow> (Inl e, w) | Inr v \<Rightarrow> f v w)"
  by (cases m) (auto simp: atomic_result_def)

lemma refused_audited:
  assumes "db_sqlite (cfg w)"
  shows "refused who act t w = (Inr (), event None who act Refused t w)"
  using assms by (simp add: refused_def connect_def)

lemma connect_down: "\<not> db_sqlite (cfg w) \<Longrightarrow> connect f w = (Inl (HTTPException 503), w)"
  by (simp add: connect_def)

lemma same_tables_eqs:
  "same_tables w w' \<Longrightarrow> operations w' = operations w \<and> resources w' = resources w \<and> apps w' = apps w \<and> events w' = events w \<and>
     teams w' = teams w \<and> team_revisions w' = team_revisions w \<and> cfg w' = cfg w"
  by (cases w; cases w') (auto simp: same_tables_def)

lemma respond_refused:
  assumes "atomic_result w (h w)" "respond who act t h w = (Inl (Some n), w')" "db_sqlite (cfg w)"
  shows "operations w' = operations w \<and> resources w' = resources w \<and> apps w' = apps w \<and>
     (\<exists>e. events w' = events w @ [e] \<and> e_outcome e = Refused \<and> e_actor e = who \<and> e_action e = act \<and> e_timestamp e = t) \<and>
     (\<exists>er. fst (h w) = Inl er \<and> error_status er = Some n)"
proof -
  obtain r w1 where h: "h w = (r, w1)" by fastforce
  from assms(2) h obtain er where r: "r = Inl er" by (cases r) (auto simp: respond_def)
  with assms(1) h have st: "same_tables w w1" by (simp add: atomic_result_def)
  note eqs = same_tables_eqs [OF st]
  have db: "db_sqlite (cfg w1)" using eqs assms(3) by simp
  from assms(2) h r have "error_status er = Some n \<and> w' = event None who act Refused t w1"
    by (auto simp: respond_def refused_audited [OF db] split: option.splits)
  with eqs h r show ?thesis by (auto simp: frame_simps event_def)
qed

text \<open>Every refusal is on the record. When a submit, discard, reconcile, promotion, upgrade or drift
  check is refused, nothing of any operation, resource or app has changed, and the audit trail has
  exactly one more row, naming the caller and the request; the caller gets the refusal's own status.\<close>

theorem refusal_is_audited:
  assumes "h \<in> {accept_intent x body c key t0 fresh, discard_operation x i c t0, reconcile_operation x i outc why c t0,
       promotion_accept x i pbody c key t0 fresh, accept_upgrade x i ubody c key t0 fresh, drift_accept x i c key t0 fresh}"
    and "respond who act t h w = (Inl (Some n), w')" and "db_sqlite (cfg w)"
  shows "operations w' = operations w \<and> resources w' = resources w \<and> apps w' = apps w \<and>
     (\<exists>e. events w' = events w @ [e] \<and> e_outcome e = Refused \<and> e_actor e = who \<and> e_action e = act \<and> e_timestamp e = t) \<and>
     (\<exists>er. fst (h w) = Inl er \<and> error_status er = Some n)"
proof -
  have "atomic_result w (h w)"
    using assms(1)
    by (auto simp: accept_intent_def promotion_accept_def accept_upgrade_def drift_accept_def discard_operation_def
        reconcile_operation_def discard_def reconcile_def intro!: submit_atomic checked_atomic atomic_connect)
  then show ?thesis using respond_refused assms(2,3) by blast
qed

theorem refusal_is_audited_witness:
  "\<exists>w' e. respond ''amy'' (Ev_request ''POST'') 9 (discard_operation shop_ext ''op_9'' shop_caller 9) shop_world = (Inl (Some 404), w') \<and>
     events w' = [e] \<and> e_outcome e = Refused"
proof -
  have db: "db_sqlite (cfg shop_world)" by (simp add: shop_world_def demo_defs)
  have g: "get_operation ''op_9'' shop_world = Inr None"
    by (simp add: get_operation_def reading_def db) (simp add: op_body_def op_find_def shop_world_def empty_world_def)
  obtain w' where r: "respond ''amy'' (Ev_request ''POST'') 9 (discard_operation shop_ext ''op_9'' shop_caller 9) shop_world = (Inl (Some 404), w')"
    by (simp add: respond_def discard_operation_def g authorize_def error_status_def refused_audited [OF db])
  have "discard_operation shop_ext ''op_9'' shop_caller 9 \<in> {accept_intent shop_ext shop_intent shop_caller [] 9 ([], []),
      discard_operation shop_ext ''op_9'' shop_caller 9, reconcile_operation shop_ext ''op_9'' O_failed [] shop_caller 9,
      promotion_accept shop_ext ''op_9'' promo_body shop_caller [] 9 ([], []), accept_upgrade shop_ext ''op_9'' undefined shop_caller [] 9 ([], []),
      drift_accept shop_ext ''op_9'' shop_caller [] 9 ([], [])}" by simp
  from refusal_is_audited [OF this r db] r show ?thesis by (auto simp: shop_world_def empty_world_def)
qed

end
