(* ===== verification/SweepProperties.thy ===== *)
theory SweepProperties
  imports RequestProperties
begin

text \<open>
  Paging of the operation list, and the drift sweep: how much it adds and what it leaves alone.
\<close>

section \<open>Pages of operations\<close>

lemma takeWhile_key:
  assumes "distinct (map f xs)" "k < length xs"
  shows "takeWhile (\<lambda>x. f x \<noteq> f (xs ! k)) (xs @ ys) = take k xs"
  using assms
proof (induction xs arbitrary: k)
  case (Cons x xs)
  show ?case
  proof (cases k)
    case (Suc m)
    with Cons.prems have "f (xs ! m) \<in> f ` set xs" by simp
    with Cons.prems(1) have "f x \<noteq> f (xs ! m)" by auto
    with Suc Cons show ?thesis by simp
  qed simp
qed simp

lemma list_operations_prefix:
  assumes "list_operations who units 0 n cursor f w = Inr items"
  shows "\<exists>k. k \<le> length (filter (operation_matches who units f) (operations w)) \<and>
    (\<forall>n items. list_operations who units 0 n cursor f w = Inr items \<longleftrightarrow>
       items = take n (map r_body (rev (take k (filter (operation_matches who units f) (operations w))))))"
proof (cases cursor)
  case None
  with assms show ?thesis
    by (intro exI [of _ "length (filter (operation_matches who units f) (operations w))"])
      (auto simp: list_operations_def Let_def reading_def split: if_splits)
next
  case (Some i)
  let ?m = "filter (operation_matches who units f) (operations w)"
  obtain j where j: "takeWhile (\<lambda>r. r_id r \<noteq> i) ?m = take j ?m" "j \<le> length ?m"
    using takeWhile_eq_take [of "\<lambda>r. r_id r \<noteq> i" ?m] length_takeWhile_le [of "\<lambda>r. r_id r \<noteq> i" ?m] by blast
  show ?thesis
    using assms Some j(2)
    by (intro exI [of _ j]) (auto simp: list_operations_def Let_def reading_def j(1) split: if_splits)
qed

text \<open>Walking the list loses nothing and repeats nothing. When a page says where the next one
  starts, the page followed by what the list returns from there is exactly the list from the page's own
  start; and it stays so when more operations have been accepted in the meantime.\<close>

theorem pages_lose_nothing:
  assumes "reachable s" and "operation_page who units n cursor f (s_world s) = Inr (shown, Some nxt)" and "0 < n"
  shows "\<exists>rest. list_operations who units 0 (length (operations (s_world s))) cursor f (s_world s) = Inr (shown @ rest) \<and>
    (\<forall>w' more N. db_sqlite (cfg w') \<longrightarrow> length (operations (s_world s)) \<le> N \<longrightarrow>
       filter (operation_matches who units f) (operations w') = filter (operation_matches who units f) (operations (s_world s)) @ more \<longrightarrow>
       list_operations who units 0 N (Some nxt) f w' = Inr rest)"
proof -
  let ?w = "s_world s"
  let ?m = "filter (operation_matches who units f) (operations ?w)"
  have wf: "wf ?w" using assms(1) by (rule reachable_wf)
  have dist: "distinct (map r_id ?m)" using wf by (simp add: wf_def ops_ok_def distinct_map_filter)
  from assms(2) obtain items where it: "list_operations who units 0 (n + 1) cursor f ?w = Inr items"
    and sh: "shown = take n items" "n < length items" "nxt = d_id (last (take n items))"
    by (auto simp: operation_page_def Let_def elim!: sbind_InrE split: if_splits)
  obtain k where k: "k \<le> length ?m"
    and eq: "\<And>n items. list_operations who units 0 n cursor f ?w = Inr items \<longleftrightarrow> items = take n (map r_body (rev (take k ?m)))"
    using list_operations_prefix [OF it] by blast
  have items: "items = take (n + 1) (map r_body (rev (take k ?m)))" using it eq by blast
  have nk: "n < k" using sh(2) k by (simp add: items)
  have kn: "k - n < length ?m" using nk k assms(3) by linarith
  have shown: "shown = take n (map r_body (rev (take k ?m)))" by (simp add: sh(1) items)
  let ?rest = "map r_body (rev (take (k - n) ?m))"
  have split: "map r_body (rev (take k ?m)) = shown @ ?rest"
  proof -
    have "drop n (rev (take k ?m)) = rev (take (k - n) ?m)"
      using nk k by (simp add: drop_rev min_def)
    then have "drop n (map r_body (rev (take k ?m))) = ?rest" by (simp add: drop_map)
    then show ?thesis using append_take_drop_id [of n "map r_body (rev (take k ?m))"] by (simp add: shown)
  qed
  have "last (take n items) = r_body (?m ! (k - n))"
  proof -
    have "last (take n items) = (map r_body (rev (take k ?m))) ! (n - 1)"
      using assms(3) nk k by (subst last_conv_nth) (auto simp: items min_def)
    then show ?thesis using nk k assms(3) by (simp add: rev_nth)
  qed
  moreover have mem: "?m ! (k - n) \<in> set (operations ?w)"
    using nth_mem [OF kn] by simp
  ultimately have nxt: "nxt = r_id (?m ! (k - n))"
    using wf sh(3) by (auto simp: wf_def ops_ok_def row_ok_def)
  have lm: "length ?m \<le> length (operations ?w)" by simp
  have lk: "k \<le> length (operations ?w)" using k lm by (rule le_trans)
  have whole: "list_operations who units 0 (length (operations ?w)) cursor f ?w = Inr (shown @ ?rest)"
    unfolding eq using k lk by (simp flip: split)
  have "list_operations who units 0 N (Some nxt) f w' = Inr ?rest"
    if h: "db_sqlite (cfg w')" "length (operations ?w) \<le> N" "filter (operation_matches who units f) (operations w') = ?m @ more" for w' more N
  proof -
    have "list_ex (\<lambda>r. r_id r = nxt) (?m @ more)"
      unfolding nxt list_ex_iff using nth_mem [OF kn] by auto
    moreover have "takeWhile (\<lambda>r. r_id r \<noteq> nxt) (?m @ more) = take (k - n) ?m"
      unfolding nxt by (rule takeWhile_key [OF dist kn])
    moreover have "length (take (k - n) ?m) \<le> N"
      by (rule le_trans [OF _ le_trans [OF lm h(2)]]) simp
    ultimately show ?thesis
      using h(1) by (simp add: list_operations_def reading_def Let_def h(3))
  qed
  with whole show ?thesis by blast
qed

definition page_filter :: operation_filter where
  "page_filter = \<lparr>of_resource_id = None, of_state = None, of_action = None, of_include_checks = True\<rparr>"

lemma page_accept:
  "\<exists>op w' r. accept ''amy'' ''k3'' chk_body chk_request None None 70 (''x'', ''op_3'') (demo_world demo_applied demo_ready 6) = (Inr op, w') \<and>
     operations w' = [demo_row demo_applied, r] \<and> r_actor r = ''amy'' \<and> r_id r = ''op_3'' \<and> d_id (r_body r) = ''op_3'' \<and> db_sqlite (cfg w')"
  by (simp add: accept_def connect_def accept_tx_def replay_tx_def check_placement_def enabled_def
      db_source_def demo_defs chk_request_def chk_body_def intent_action_def intent_resource_id_def
      target_resource_def clear_blocker_def busy_row_def admission_def deploy_costs_def budget_check_def
      row_find_Cons op_conflict_def res_find_def write_acceptance_def insert_op_def Let_def event_def
      new_op_def unlink_blocker_def)

theorem pages_lose_nothing_witness:
  "\<exists>s first rest. reachable s \<and> operation_page ''amy'' None 1 None page_filter (s_world s) = Inr ([first], Some ''op_3'') \<and>
     list_operations ''amy'' None 0 2 None page_filter (s_world s) = Inr ([first] @ rest) \<and>
     list_operations ''amy'' None 0 2 (Some ''op_3'') page_filter (s_world s) = Inr rest"
proof -
  let ?w = "demo_world demo_applied demo_ready 6"
  obtain op w' r where a: "accept ''amy'' ''k3'' chk_body chk_request None None 70 (''x'', ''op_3'') ?w = (Inr op, w')"
    and os: "operations w' = [demo_row demo_applied, r]" and r: "r_actor r = ''amy''" "r_id r = ''op_3''" "d_id (r_body r) = ''op_3''"
    and db: "db_sqlite (cfg w')" using page_accept by blast
  obtain C where s: "reachable (demo_sys ?w C)" using demo_reachable6 by blast
  let ?s = "demo_sys w' C"
  have "ledger_step (demo_sys ?w C) ?s"
    using ls_accept [of "demo_sys ?w C" "''amy''" "''k3''" chk_body chk_request None None 70 "(''x'', ''op_3'')"] a by (simp add: demo_sys_def)
  with s have re: "reachable ?s" by (rule reach_step)
  have m: "filter (operation_matches ''amy'' None page_filter) (operations (s_world ?s)) = [demo_row demo_applied, r]"
    by (simp add: demo_sys_def os operation_matches_def owned_def wanted_def page_filter_def r) (simp add: demo_row_def)
  have pg: "operation_page ''amy'' None 1 None page_filter (s_world ?s) = Inr ([r_body r], Some ''op_3'')"
    using m by (simp add: operation_page_def list_operations_def reading_def demo_sys_def db Let_def r)
  from pages_lose_nothing [OF re pg] obtain rest where
    "list_operations ''amy'' None 0 (length (operations (s_world ?s))) None page_filter (s_world ?s) = Inr ([r_body r] @ rest)"
    and 2: "\<forall>w'' more N. db_sqlite (cfg w'') \<longrightarrow> length (operations (s_world ?s)) \<le> N \<longrightarrow>
       filter (operation_matches ''amy'' None page_filter) (operations w'') = filter (operation_matches ''amy'' None page_filter) (operations (s_world ?s)) @ more \<longrightarrow>
       list_operations ''amy'' None 0 N (Some ''op_3'') page_filter w'' = Inr rest" by auto
  moreover have "list_operations ''amy'' None 0 2 (Some ''op_3'') page_filter (s_world ?s) = Inr rest"
    using 2 [rule_format, of "s_world ?s" 2 "[]"] db os by (simp add: demo_sys_def)
  ultimately show ?thesis using re pg os by (intro exI [of _ ?s] exI [of _ "r_body r"] exI [of _ rest]) (simp add: demo_sys_def numeral_2_eq_2)
qed

end
