(* ===== verification/Settlement.thy ===== *)
theory Settlement
  imports WorkerProperties PolicyProperties
begin

text \<open>
  Whether an operation can be settled: from every reachable ledger an unfinished operation has a run that
  finishes it, unless its body already carries a reconciliation; such an operation stays as it is.
\<close>

section \<open>Operations that can be settled\<close>

definition settled :: "string \<Rightarrow> world \<Rightarrow> bool" where
  "settled i w \<longleftrightarrow> (\<exists>r. op_find i w = Some r \<and> r_state r \<in> {Succeeded, Failed})"

lemma finished_row: "op_find i w = Some r \<Longrightarrow> \<not> busy_state (r_state r) \<Longrightarrow> settled i w"
  by (auto simp: settled_def busy_state_def)

lemma reconcile_failed_settles:
  assumes "wf w" "db_sqlite (cfg w)" "op_find i w = Some r" "r_state r = Uncertain" "d_reconciliation (r_body r) = None"
  shows "settled i (snd (reconcile i who O_failed why t w))"
proof -
  have ok: "d_id (r_body r) = i" "d_state (r_body r) = Some Uncertain"
    using op_find_row_ok [OF assms(1,3)] assms(4) by (auto simp: row_ok_def)
  show ?thesis
    using assms ok
    by (simp add: settled_def reconcile_def connect_def reconcile_tx_def op_body_def Let_def frame_simps table_simps
        outcome_state_def reconciled_def stamp_def)
qed

lemma discard_settles:
  assumes "wf w" "db_sqlite (cfg w)" "op_find i w = Some r" "r_state r = Planned" "\<not> d_discarded (r_body r)"
  shows "settled i (snd (discard i who t w))"
proof -
  have ok: "d_id (r_body r) = i" "d_state (r_body r) = Some Planned"
    using op_find_row_ok [OF assms(1,3)] assms(4) by (auto simp: row_ok_def)
  show ?thesis
    using assms ok
    by (simp add: settled_def discard_def connect_def discard_tx_def op_body_def release_plan_def released_def Let_def
        frame_simps table_simps set_flag_def stamp_def)
qed

lemma interrupted_leaves:
  assumes "wf w" "db_sqlite (cfg w)" "op_find i w = Some r"
    and "r_state r = fst (phase_states p) \<or> r_state r = snd (phase_states p)"
  shows "\<exists>r'. op_find i (snd (interrupted i p t w)) = Some r' \<and> cfg (snd (interrupted i p t w)) = cfg w \<and>
    d_reconciliation (r_body r') = d_reconciliation (r_body r) \<and>
    (r_state r' = Failed \<or> r_state r' = Uncertain)"
proof -
  have ok: "d_id (r_body r) = i" using op_find_row_ok [OF assms(1,3)] by (simp add: row_ok_def)
  show ?thesis
    using assms ok
    by (auto simp: interrupted_def connect_def interrupted_tx_def Let_def frame_simps table_simps stamp_def
        record_drift_check_def split: option.splits)
qed

lemma no_step: "settled i (s_world s) \<Longrightarrow> \<exists>s'. steps ledger_step s s' \<and> settled i (s_world s')"
  using steps_refl [of ledger_step s] by blast

lemma one_step: "ledger_step s t \<Longrightarrow> settled i (s_world t) \<Longrightarrow> \<exists>s'. steps ledger_step s s' \<and> settled i (s_world s')"
  using steps_single [of ledger_step s t] by blast

lemma two_steps: "ledger_step s t \<Longrightarrow> ledger_step t u \<Longrightarrow> settled i (s_world u) \<Longrightarrow>
    \<exists>s'. steps ledger_step s s' \<and> settled i (s_world s')"
  using steps_step [OF steps_single [of ledger_step s t]] by blast

lemma interrupted_then_settled:
  assumes "sys_inv s" "db_sqlite (cfg (s_world s))" "op_find i (s_world s) = Some r"
    and "r_state r = fst (phase_states p) \<or> r_state r = snd (phase_states p)" "d_reconciliation (r_body r) = None"
  shows "\<exists>s'. steps ledger_step s s' \<and> settled i (s_world s')"
proof -
  let ?s1 = "s\<lparr>s_world := snd (interrupted i p 0 (s_world s))\<rparr>"
  have wf: "wf (s_world s)" using assms(1) by (simp add: sys_inv_def)
  have step: "ledger_step s ?s1" by (rule ls_interrupted)
  obtain r' where r': "op_find i (s_world ?s1) = Some r'" "cfg (s_world ?s1) = cfg (s_world s)"
    "d_reconciliation (r_body r') = None" "r_state r' = Failed \<or> r_state r' = Uncertain"
    using interrupted_leaves [OF wf assms(2-4), of 0] assms(5) by auto
  show ?thesis
  proof (cases "r_state r' = Failed")
    case True
    with r'(1) have "settled i (s_world ?s1)" by (simp add: settled_def)
    with step show ?thesis by (rule one_step)
  next
    case False
    let ?s2 = "?s1\<lparr>s_world := snd (reconcile i [] O_failed [] 0 (s_world ?s1))\<rparr>"
    have "wf (s_world ?s1)" using ledger_step_inv [OF assms(1) step] by (simp add: sys_inv_def)
    then have "settled i (s_world ?s2)"
      using reconcile_failed_settles [of "s_world ?s1" i r'] r' False assms(2) by simp
    moreover have "ledger_step ?s1 ?s2" by (rule ls_reconcile)
    ultimately show ?thesis using two_steps [OF step] by blast
  qed
qed

text \<open>C15. An operation is stuck only by what its document inherited. From every reachable ledger on SQLite,
  there is a run after which a given operation has succeeded or failed, so its resource is free again, provided
  that its document carries no reconciliation and that it is not a plan already marked as discarded; the two
  exceptions are the marks by which \<^verbatim>\<open>reconcile\<close> and \<^verbatim>\<open>discard\<close> answer without doing anything.\<close>

theorem every_operation_can_finish:
  assumes "reachable s" and "db_sqlite (cfg (s_world s))" and "op_find i (s_world s) = Some r"
    and "d_reconciliation (r_body r) = None" and "r_state r = Planned \<longrightarrow> \<not> d_discarded (r_body r)"
  shows "\<exists>s' r'. steps ledger_step s s' \<and> op_find i (s_world s') = Some r' \<and> r_state r' \<in> {Succeeded, Failed}"
proof -
  have inv: "sys_inv s" using assms(1) by (rule ledger.reach_inv)
  then have wf: "wf (s_world s)" by (simp add: sys_inv_def)
  have "\<exists>s'. steps ledger_step s s' \<and> settled i (s_world s')"
  proof (cases "r_state r")
    case Planned
    then show ?thesis
      using discard_settles [OF wf assms(2,3), of "[]" 0] assms(5) by (intro one_step [OF ls_discard]) simp
  next
    case Uncertain
    then show ?thesis
      using reconcile_failed_settles [OF wf assms(2,3) _ assms(4), of "[]" "[]" 0]
      by (intro one_step [OF ls_reconcile]) simp
  next
    case Queued
    then show ?thesis using interrupted_then_settled [OF inv assms(2,3), of Plan_phase] assms(4)
      by (simp add: phase_states_def)
  next
    case Planning
    then show ?thesis using interrupted_then_settled [OF inv assms(2,3), of Plan_phase] assms(4)
      by (simp add: phase_states_def)
  next
    case Apply_queued
    then show ?thesis using interrupted_then_settled [OF inv assms(2,3), of Apply_phase] assms(4)
      by (simp add: phase_states_def)
  next
    case Applying
    then show ?thesis using interrupted_then_settled [OF inv assms(2,3), of Apply_phase] assms(4)
      by (simp add: phase_states_def)
  next
    case Succeeded
    with assms(3) show ?thesis by (intro no_step) (simp add: settled_def)
  next
    case Failed
    with assms(3) show ?thesis by (intro no_step) (simp add: settled_def)
  qed (use op_find_row_ok [OF wf assms(3)] in \<open>auto simp: row_ok_def\<close>)
  then show ?thesis by (auto simp: settled_def)
qed

theorem every_operation_can_finish_witness:
  "\<exists>s' r'. steps ledger_step (demo_sys (demo_world demo_applying demo_resource 5) [demo_applying, demo_planning]) s' \<and>
     op_find ''op_1'' (s_world s') = Some r' \<and> r_state r' \<in> {Succeeded, Failed}"
  by (rule every_operation_can_finish [OF demo_reachable5, of _ "demo_row demo_applying"])
    (simp_all add: demo_world_simps, simp_all add: demo_defs)

section \<open>An operation that cannot be settled\<close>

lemma reconcile_again_same:
  assumes "op_find i w = Some r" "d_reconciliation (r_body r) = Some e" "reconcile i who outc why t w = (Inr op, w')"
  shows "w' = w"
  using assms by (auto simp: reconcile_def connect_def reconcile_tx_def op_body_def split: if_splits prod.splits sum.splits)

text \<open>C16. Once settled, never settled again. An operation whose outcome is unknown and whose body already
  carries a reconciliation keeps its row under every run: \<^verbatim>\<open>reconcile\<close> answers from the old record before
  it looks at the state. The body of a deployed resource keeps the reconciliation of the operation that
  deployed it, and a destroy of that resource starts from that body, so such operations are reached.\<close>

theorem stale_reconciliation_blocks:
  assumes "reachable s" and "steps ledger_step s s'" and "op_find i (s_world s) = Some r"
    and "r_state r = Uncertain" and "d_reconciliation (r_body r) \<noteq> None"
  shows "op_find i (s_world s') = Some r"
proof -
  have inv: "sys_inv s" using assms(1) by (rule ledger.reach_inv)
  from assms(2) inv assms(3) show ?thesis
  proof (induction rule: steps.induct)
    case (steps_step s t u)
    have t: "op_find i (s_world t) = Some r" using steps_step.IH steps_step.prems by simp
    have "sys_inv t" using ledger.steps_inv [OF steps_step.hyps(1)] steps_step.prems(1) by simp
    from ledger_step_uncertain [OF steps_step.hyps(2) this t assms(4)] show ?case
    proof (elim disjE exE)
      fix who outc why x op
      assume "reconcile i who outc why x (s_world t) = (Inr op, s_world u)"
      with t assms(5) have "s_world u = s_world t" using reconcile_again_same by blast
      with t show ?thesis by simp
    qed
  qed
qed

text \<open>The run: the worker is lost while it applies, an operator records that the apply succeeded, the
  resource's destroy is accepted, and the worker is lost again.\<close>

definition kept_op :: doc where
  "kept_op = demo_lost\<lparr>d_state := Some Succeeded, d_updated_at := 90, d_error := None,
     d_reconciliation := Some \<lparr>rec_outcome = O_succeeded, rec_actor = ''ops'', rec_reason = ''applied'', rec_at = 90\<rparr>\<rparr>"

definition kept_resource :: doc where
  "kept_resource = succeeded_resource kept_op (Some demo_resource) Unknown 90"

definition kept_world :: world where
  "kept_world = demo_lost_world\<lparr>operations := [demo_row kept_op], resources := [(''res_1'', kept_resource)],
     events := events demo_lost_world @ [demo_event 7 ''ops'' Ev_reconcile Accepted 90,
       demo_event 8 ''ops'' Ev_state (To_state Succeeded) 90]\<rparr>"

definition drop_body :: json where
  "drop_body = canonical_intent (demo_intent\<lparr>i_action := Destroy, i_resource_id := Some ''res_1'', i_size := None\<rparr>)"

definition drop_op :: doc where
  "drop_op = kept_resource\<lparr>d_previous_operation_id := Some ''op_1'', d_id := ''op_9'', d_resource_id := ''res_1'',
     d_actor := ''amy'', d_action := Destroy, d_state := Some Queued, d_created_at := 100, d_updated_at := 100,
     d_plan_digest := None, d_changes := None, d_outputs := None, d_withheld_outputs := None, d_error := None\<rparr>"

lemma kept_reconcile:
  "reconcile ''op_1'' ''ops'' O_succeeded ''applied'' 90 demo_lost_world = (Inr kept_op, kept_world)"
  by (simp add: reconcile_def reconcile_tx_def reconciled_def outcome_state_def demo_ops demo_defs kept_world_def
      kept_resource_def kept_op_def demo_lost_def demo_lost_world_def mark_succeeded_resource_def
      update_resource_def res_find_def)

lemma drop_validated:
  "validate_destroy kept_world ''res_1'' kept_resource = Inr (kept_resource\<lparr>d_previous_operation_id := Some ''op_1''\<rparr>)"
  by (simp add: validate_destroy_def check_guardrails_def enabled_def db_source_def referenced_def reading_def
      is_referenced_def kept_world_def demo_lost_world_def demo_defs kept_resource_def succeeded_resource_def
      kept_op_def demo_lost_def)

definition drop_world :: world where
  "drop_world = kept_world\<lparr>operations := [demo_row kept_op,
       \<lparr>r_id = ''op_9'', r_resource_id = ''res_1'', r_actor = ''amy'', r_request_key = ''k9'',
        r_fingerprint = fingerprint drop_body, r_state = Queued, r_body = drop_op\<rparr>],
     resources := [(''res_1'', kept_resource\<lparr>d_operation_id := Some ''op_9''\<rparr>)],
     events := events kept_world @ [\<lparr>e_seq = 9, e_operation_id = Some ''op_9'', e_actor = ''amy'',
       e_action = Ev_create, e_outcome = Accepted, e_timestamp = 100\<rparr>]\<rparr>"

lemma drop_body_simps: "intent_action drop_body = Destroy" "intent_resource_id drop_body = Some ''res_1''"
  by (simp_all add: drop_body_def)

lemma kept_simps: "d_operation_id kept_resource = Some ''op_1''" "p_input_refs (d_def kept_resource) = []"
  "d_reconciliation kept_resource \<noteq> None"
  by (simp_all add: kept_resource_def succeeded_resource_def kept_op_def demo_lost_def demo_defs)

lemma drop_accept:
  "accept ''amy'' ''k9'' drop_body (kept_resource\<lparr>d_previous_operation_id := Some ''op_1''\<rparr>) None None 100
     (''res_x'', ''op_9'') kept_world = (Inr drop_op, drop_world)"
  by (simp add: accept_def connect_def accept_tx_def replay_tx_def check_placement_def enabled_def db_source_def
      drop_body_simps target_resource_def clear_blocker_def busy_row_def busy_state_def admission_def deploy_costs_def
      budget_check_def res_find_def row_find_Cons write_acceptance_def insert_op_def op_conflict_def Let_def event_def
      new_op_def unlink_blocker_def put_resource_def row_replace_def resource_after_accept_def is_referenced_def
      check_refs.simps drop_world_def drop_op_def kept_world_def demo_lost_world_def demo_defs kept_op_def demo_lost_def
      kept_resource_def succeeded_resource_def numeral_eq_Suc)

definition drop_lost :: doc where
  "drop_lost = drop_op\<lparr>d_state := Some Uncertain, d_updated_at := 110, d_error := Some msg_interrupted\<rparr>"

lemma drop_interrupted:
  "op_find ''op_9'' (snd (interrupted ''op_9'' Plan_phase 110 drop_world)) =
     Some \<lparr>r_id = ''op_9'', r_resource_id = ''res_1'', r_actor = ''amy'', r_request_key = ''k9'',
        r_fingerprint = fingerprint drop_body, r_state = Uncertain, r_body = drop_lost\<rparr>"
  by (simp add: interrupted_def interrupted_tx_def demo_ops phase_states_def drop_world_def drop_lost_def drop_op_def
      kept_world_def demo_lost_world_def demo_defs kept_resource_def succeeded_resource_def kept_op_def demo_lost_def)

lemma drop_reachable:
  "reachable (demo_sys (snd (interrupted ''op_9'' Plan_phase 110 drop_world)) [demo_applying, demo_planning])"
proof -
  let ?C = "[demo_applying, demo_planning]"
  have "ledger_step (demo_sys demo_lost_world ?C) (demo_sys kept_world ?C)"
    using ls_reconcile [of "demo_sys demo_lost_world ?C" "''op_1''" "''ops''" O_succeeded "''applied''" 90]
    by (simp add: demo_sys_def kept_reconcile)
  then have "reachable (demo_sys kept_world ?C)" by (rule reach_step [OF demo_reachable_lost])
  then have r: "reachable (demo_sys drop_world ?C)" using drop_accept by (rule demo_step_accept)
  have "ledger_step (demo_sys drop_world ?C)
      (demo_sys (snd (interrupted ''op_9'' Plan_phase 110 drop_world)) ?C)"
    using ls_interrupted [of "demo_sys drop_world ?C" "''op_9''" Plan_phase 110] by (simp add: demo_sys_def)
  with r show ?thesis by (rule reach_step)
qed

theorem stale_reconciliation_blocks_witness:
  "\<exists>s r. reachable s \<and> op_find ''op_9'' (s_world s) = Some r \<and> r_state r = Uncertain \<and>
     d_action (r_body r) = Destroy \<and>
     op_find ''op_9'' (snd (reconcile ''op_9'' ''ops'' O_failed ''nothing changed'' 120 (s_world s))) = Some r"
proof -
  let ?s = "demo_sys (snd (interrupted ''op_9'' Plan_phase 110 drop_world)) [demo_applying, demo_planning]"
  let ?r = "\<lparr>r_id = ''op_9'', r_resource_id = ''res_1'', r_actor = ''amy'', r_request_key = ''k9'',
        r_fingerprint = fingerprint drop_body, r_state = Uncertain, r_body = drop_lost\<rparr>"
  have w: "s_world ?s = snd (interrupted ''op_9'' Plan_phase 110 drop_world)" by (simp add: demo_sys_def)
  have f: "op_find ''op_9'' (s_world ?s) = Some ?r" unfolding w by (rule drop_interrupted)
  have rec: "d_reconciliation (r_body ?r) \<noteq> None"
    by (simp add: drop_lost_def drop_op_def kept_simps)
  have a: "d_action (r_body ?r) = Destroy" by (simp add: drop_lost_def drop_op_def)
  have st: "r_state ?r = Uncertain" by simp
  have "op_find ''op_9'' (s_world (?s\<lparr>s_world := snd (reconcile ''op_9'' ''ops'' O_failed ''nothing changed'' 120 (s_world ?s))\<rparr>)) = Some ?r"
    by (rule stale_reconciliation_blocks [OF drop_reachable steps_single f st rec]) (rule ls_reconcile)
  then show ?thesis using drop_reachable f a by (intro exI [of _ ?s] exI [of _ ?r]) simp
qed

end
