(* ===== verification/Reservations.thy ===== *)
theory Reservations
  imports LedgerProperties
begin

text \<open>
  What the ledger promises of resources, without its tables: a lock per resource that one operation
  takes and gives back once, and that no operation takes twice. Every transaction of the ledger is a
  run of this machine under \<open>lock_view\<close>.
\<close>

section \<open>The specification\<close>

record locks =
  holders :: "string \<Rightarrow> string set"
  spent :: "string set"

inductive lock_step :: "locks \<Rightarrow> locks \<Rightarrow> bool" where
  take_lock: "\<lbrakk>holders l rid = {}; i \<notin> spent l; \<forall>x. i \<notin> holders l x\<rbrakk>
     \<Longrightarrow> lock_step l (l\<lparr>holders := (holders l)(rid := {i})\<rparr>)"
| give_back: "i \<in> holders l rid
     \<Longrightarrow> lock_step l (l\<lparr>holders := (holders l)(rid := holders l rid - {i}), spent := insert i (spent l)\<rparr>)"

definition no_locks :: locks where
  "no_locks = \<lparr>holders = (\<lambda>_. {}), spent = {}\<rparr>"

text \<open>A resource has one holder at most; an operation holds one resource at a time and is never seen
  again after it gave it back.\<close>

definition locks_ok :: "locks \<Rightarrow> bool" where
  "locks_ok l \<longleftrightarrow> (\<forall>x i j. i \<in> holders l x \<and> j \<in> holders l x \<longrightarrow> i = j) \<and>
     (\<forall>x y i. i \<in> holders l x \<and> i \<in> holders l y \<longrightarrow> x = y) \<and> (\<forall>x. holders l x \<inter> spent l = {})"

interpretation lock_machine: monotone_system "\<lambda>l. l = no_locks" lock_step locks_ok "\<lambda>l l'. spent l \<subseteq> spent l'"
proof unfold_locales
  fix l assume "l = no_locks"
  then show "locks_ok l" by (simp add: locks_ok_def no_locks_def)
next
  fix l l' assume ok: "locks_ok l" and "lock_step l l'"
  from this(2,1) show "locks_ok l'"
  proof cases
    case (take_lock rid i)
    with ok show ?thesis by (simp add: locks_ok_def)
  next
    case (give_back i rid)
    with ok show ?thesis by (simp add: locks_ok_def) blast
  qed
next
  fix l l' assume "lock_step l l'"
  then show "spent l \<subseteq> spent l'" by cases auto
qed auto

section \<open>The view of a ledger\<close>

text \<open>Every unfinished operation of a resource is a holder of it, however many there are.\<close>

definition lock_view :: "world \<Rightarrow> locks" where
  "lock_view w = \<lparr>
     holders = (\<lambda>rid. set (map r_id (filter (\<lambda>r. busy_state (r_state r) \<and> r_resource_id r = rid) (operations w)))),
     spent = set (map r_id (filter (\<lambda>r. \<not> busy_state (r_state r)) (operations w)))\<rparr>"

lemma holder_iff:
  "wf w \<Longrightarrow> i \<in> holders (lock_view w) rid \<longleftrightarrow>
     (\<exists>r. op_find i w = Some r \<and> busy_state (r_state r) \<and> r_resource_id r = rid)"
  by (auto simp: lock_view_def op_find_wf)

lemma spent_iff: "wf w \<Longrightarrow> i \<in> spent (lock_view w) \<longleftrightarrow> (\<exists>r. op_find i w = Some r \<and> \<not> busy_state (r_state r))"
  by (auto simp: lock_view_def op_find_wf)

lemma lock_viewI:
  assumes "\<And>rid i. i \<in> holders (lock_view w) rid \<longleftrightarrow> i \<in> holders l rid"
    and "\<And>i. i \<in> spent (lock_view w) \<longleftrightarrow> i \<in> spent l"
  shows "lock_view w = (l :: locks)"
proof -
  have "holders (lock_view w) = holders l" by (rule ext) (use assms(1) in blast)
  moreover have "spent (lock_view w) = spent l" using assms(2) by blast
  ultimately show ?thesis by simp
qed

section \<open>The refinement\<close>

lemma micro_lock_step:
  assumes "micro q w w'" "wf w"
  shows "lock_view w' = lock_view w \<or> lock_step (lock_view w) (lock_view w')"
  using assms
proof (induction rule: micro.induct)
  case (m_save op w r s)
  have wf': "wf (save_op op w)" using micro.m_save [OF m_save.hyps] m_save.prems by (rule micro_wf)
  have busy: "busy_state (r_state r)" using m_save.hyps(4) by (rule next_state_busy)
  note facts = m_save.hyps m_save.prems busy wf'
  show ?case
  proof (cases "busy_state s")
    case True
    have "lock_view (save_op op w) = lock_view w"
      by (rule lock_viewI) (use facts True in \<open>auto simp: holder_iff spent_iff table_simps\<close>)
    then show ?thesis by blast
  next
    case False
    let ?l = "(lock_view w)\<lparr>holders := (holders (lock_view w))(r_resource_id r := holders (lock_view w) (r_resource_id r) - {d_id op}),
        spent := insert (d_id op) (spent (lock_view w))\<rparr>"
    have r: "d_id op \<in> holders (lock_view w) (r_resource_id r)" using facts by (simp add: holder_iff)
    have "lock_view (save_op op w) = ?l"
    proof (rule lock_viewI)
      fix rid i
      have "i \<in> holders (lock_view (save_op op w)) rid \<longleftrightarrow> i \<noteq> d_id op \<and> i \<in> holders (lock_view w) rid"
        using facts(1) False by (simp add: holder_iff [OF wf'] holder_iff [OF m_save.prems] table_simps m_save.hyps(3))
      also have "\<dots> \<longleftrightarrow> i \<in> holders ?l rid"
        using facts(1) by (auto simp: holder_iff [OF m_save.prems])
      finally show "i \<in> holders (lock_view (save_op op w)) rid \<longleftrightarrow> i \<in> holders ?l rid" .
    qed (use facts False in \<open>auto simp: spent_iff table_simps\<close>)
    with r show ?thesis by (metis give_back)
  qed
next
  case (m_insert r w w')
  have wf': "wf w'" using micro.m_insert [OF m_insert.hyps] m_insert.prems by (rule micro_wf)
  have w': "w' = w\<lparr>operations := operations w @ [r]\<rparr>" and c: "\<not> list_ex (op_conflict r) (operations w)"
    using insert_opD [OF m_insert.hyps(1)] by auto
  have b: "busy_state (r_state r)" using m_insert.hyps(3) by (simp add: busy_state_def)
  have fresh: "op_find (r_id r) w = None"
    using c m_insert.prems by (cases "op_find (r_id r) w") (auto simp: op_find_wf op_conflict_def list_ex_iff)
  have other: "r_resource_id x \<noteq> r_resource_id r" if "op_find i w = Some x" "busy_state (r_state x)" for i x
    using c b m_insert.prems that by (auto simp: op_find_wf op_conflict_def list_ex_iff)
  then have free: "holders (lock_view w) (r_resource_id r) = {}"
    using m_insert.prems by (auto simp: holder_iff)
  have find: "op_find i w' = (if i = r_id r then Some r else op_find i w)" for i
    using fresh by (auto simp: w' op_find_def row_find_append row_find_Cons split: option.splits)
  have "lock_view w' = (lock_view w)\<lparr>holders := (holders (lock_view w))(r_resource_id r := {r_id r})\<rparr>"
    by (rule lock_viewI)
      (use m_insert.prems wf' b fresh other in \<open>auto simp: holder_iff spent_iff find split: if_splits\<close>)
  moreover have "r_id r \<notin> spent (lock_view w)" "\<forall>x. r_id r \<notin> holders (lock_view w) x"
    using fresh m_insert.prems by (auto simp: spent_iff holder_iff)
  ultimately show ?case using free by (metis take_lock)
next
  case (m_event w a b c d t)
  then show ?case by (simp add: lock_view_def frame_simps)
next
  case (m_res w' w)
  then show ?case by (simp add: lock_view_def)
next
  case (m_team w w')
  from team_write_frame [OF m_team.hyps] show ?case by (simp add: lock_view_def)
qed

lemma micros_locks: "micros q w w' \<Longrightarrow> wf w \<Longrightarrow> steps lock_step (lock_view w) (lock_view w')"
proof (induction rule: steps.induct)
  case (steps_refl s)
  show ?case by (rule steps.steps_refl)
next
  case (steps_step s t u)
  then have wf: "wf t" using micros_wf by blast
  from micro_lock_step [OF steps_step.hyps(2) wf] steps_step.IH [OF steps_step.prems] show ?case
    by (auto intro: steps.steps_step)
qed

text \<open>C5. The ledger implements a lock per resource. Every step of the ledger, seen through the sets of all
  unfinished and of all finished operations, is a run of \<open>lock_step\<close>: a resource is taken only while no
  unfinished operation is on it and by an operation never seen before, and given back only by an operation
  that holds it; so the view of a reachable ledger is a reachable state of the lock, with one holder at most
  for each resource.\<close>

theorem ledger_refines_locks:
  assumes "reachable s" and "ledger_step s s'"
  shows "steps lock_step (lock_view (s_world s)) (lock_view (s_world s')) \<and>
    reach (\<lambda>l. l = no_locks) lock_step (lock_view (s_world s')) \<and>
    (\<forall>rid i j. i \<in> holders (lock_view (s_world s')) rid \<and> j \<in> holders (lock_view (s_world s')) rid \<longrightarrow> i = j)"
proof -
  have one: "steps lock_step (lock_view (s_world a)) (lock_view (s_world b))" if "sys_inv a" "ledger_step a b" for a b
    using micros_locks [OF ledger_step_micros [OF that(2,1)]] that(1) by (simp add: sys_inv_def)
  have all: "reach (\<lambda>l. l = no_locks) lock_step (lock_view (s_world a))" if "reachable a" for a
    using that
  proof (induction rule: reach.induct)
    case (reach_init a)
    then have "lock_view (s_world a) = no_locks"
      by (auto simp: initial_def lock_view_def empty_world_def no_locks_def)
    then show ?case by (rule reach.reach_init)
  next
    case (reach_step a b)
    have "sys_inv a" using reach_step.hyps(1) by (rule ledger.reach_inv)
    from lock_machine.reach_steps [OF reach_step.IH one [OF this reach_step.hyps(2)]] show ?case .
  qed
  note view = all [OF reach_step [OF assms]]
  have "locks_ok (lock_view (s_world s'))" using view by (rule lock_machine.reach_inv)
  then show ?thesis
    using one [OF ledger.reach_inv [OF assms(1)] assms(2)] view by (simp add: locks_ok_def)
qed

theorem ledger_refines_locks_witness:
  "holders (lock_view (demo_world demo_op demo_resource 1)) ''res_1'' = {''op_1''} \<and>
   steps lock_step (lock_view demo0) (lock_view (demo_world demo_op demo_resource 1))"
proof -
  have "ledger_step (demo_sys demo0 []) (demo_sys (demo_world demo_op demo_resource 1) [])"
    using ls_accept [of "demo_sys demo0 []" "''amy''" "''k1''" demo_body demo_request "Some demo_budget" None 10 demo_fresh]
    by (simp add: demo_sys_def demo_accept)
  from ledger_refines_locks [OF demo_reachable0 this]
  have "steps lock_step (lock_view demo0) (lock_view (demo_world demo_op demo_resource 1))"
    by (simp add: demo_sys_def)
  moreover have "holders (lock_view (demo_world demo_op demo_resource 1)) ''res_1'' = {''op_1''}"
    by (simp add: lock_view_def demo_world_simps busy_state_def)
  ultimately show ?thesis by blast
qed

end
