(* ===== verification/RecordProperties.thy ===== *)
theory RecordProperties
  imports LifecycleProperties
begin

text \<open>
  The shape of what the ledger stores, the counts shown for a plan, and what discarding does to the saved
  plan file.
\<close>

text \<open>Stored records are well typed. In every reachable ledger an operation's columns agree with its
  body (identifier, resource, state), its state is one of an operation, an operation approved for apply
  carries a plan digest; a resource's body carries its own identifier; and the audit events are numbered
  without gaps.\<close>

theorem stored_records_typed:
  assumes "reachable s"
  shows "(\<forall>i r. op_find i (s_world s) = Some r \<longrightarrow> d_id (r_body r) = i \<and> d_resource_id (r_body r) = r_resource_id r \<and>
      d_state (r_body r) = Some (r_state r) \<and> r_state r \<notin> {Ready, Destroyed} \<and>
      (r_state r \<in> {Apply_queued, Applying} \<longrightarrow> d_plan_digest (r_body r) \<noteq> None)) \<and>
    (\<forall>i d. res_find i (s_world s) = Some d \<longrightarrow> d_id d = i) \<and>
    map e_seq (events (s_world s)) = [1..<Suc (length (events (s_world s)))]"
proof -
  have wf: "wf (s_world s)" using assms by (rule reachable_wf)
  have rows: "d_id (r_body r) = i \<and> d_resource_id (r_body r) = r_resource_id r \<and>
      d_state (r_body r) = Some (r_state r) \<and> r_state r \<notin> {Ready, Destroyed} \<and>
      (r_state r \<in> {Apply_queued, Applying} \<longrightarrow> d_plan_digest (r_body r) \<noteq> None)"
    if "op_find i (s_world s) = Some r" for i r
    using op_find_row_ok [OF wf that] by (simp add: row_ok_def)
  moreover have "d_id d = i" if "res_find i (s_world s) = Some d" for i d
    using that wf by (auto simp: wf_def intro: res_find_id)
  moreover have "map e_seq (events (s_world s)) = [1..<Suc (length (events (s_world s)))]"
    using wf by (simp add: wf_def seq_ok_def)
  ultimately show ?thesis by blast
qed

theorem stored_records_typed_witness:
  "d_state (r_body (demo_row demo_applying)) = Some Applying \<and> d_plan_digest (r_body (demo_row demo_applying)) \<noteq> None \<and>
   map e_seq (take 5 demo_events) = [1, 2, 3, 4, 5]"
proof -
  note typed = stored_records_typed [OF demo_reachable5, unfolded demo_world_simps]
  have "d_state (r_body (demo_row demo_applying)) = Some (r_state (demo_row demo_applying)) \<and>
      (r_state (demo_row demo_applying) \<in> {Apply_queued, Applying} \<longrightarrow> d_plan_digest (r_body (demo_row demo_applying)) \<noteq> None)"
    using typed demo_op_find [of demo_applying demo_resource 5] by blast
  moreover have "map e_seq (take 5 demo_events) = [1..<Suc (length (take 5 demo_events))]" using typed by blast
  ultimately show ?thesis by (simp add: demo_world_simps demo_events_def numeral_eq_Suc)
qed

section \<open>The change summary\<close>

text \<open>What a change does, read off its actions.\<close>

datatype change_kind = Replaces | Creates | Deletes | Updates | No_change

definition kind_of :: "change \<Rightarrow> change_kind" where
  "kind_of c = (let a = set (c_actions c) in
     if {''create'', ''delete''} \<subseteq> a then Replaces else if ''create'' \<in> a then Creates
     else if ''delete'' \<in> a then Deletes else if ''update'' \<in> a then Updates else No_change)"

definition how_many :: "change_kind \<Rightarrow> change list \<Rightarrow> nat" where
  "how_many k cs = length (filter (\<lambda>c. kind_of c = k) cs)"

lemma classify_fold:
  "fold classify cs s = s\<lparr>n_create := n_create s + how_many Creates cs, n_update := n_update s + how_many Updates cs,
     n_delete := n_delete s + how_many Deletes cs, n_replace := n_replace s + how_many Replaces cs\<rparr>"
  by (induction cs arbitrary: s) (auto simp: classify_def how_many_def kind_of_def Let_def)

lemma destructive_iff:
  "how_many Deletes cs \<noteq> 0 \<or> how_many Replaces cs \<noteq> 0 \<longleftrightarrow> (\<exists>c \<in> set cs. ''delete'' \<in> set (c_actions c))"
  by (auto simp: how_many_def kind_of_def Let_def filter_empty_conv)

text \<open>The change summary counts. The loop of \<^verbatim>\<open>_change_summary\<close> equals counting the changes by kind, each
  change in one kind at most, and a plan is called destructive exactly when some change deletes.\<close>

theorem change_summary_counts:
  "change_summary_of (Some cs) = Some \<lparr>n_create = how_many Creates cs, n_update = how_many Updates cs,
      n_delete = how_many Deletes cs, n_replace = how_many Replaces cs,
      n_destructive = list_ex (\<lambda>c. List.member (c_actions c) ''delete'') cs\<rparr> \<and>
   how_many Creates cs + how_many Updates cs + how_many Deletes cs + how_many Replaces cs + how_many No_change cs = length cs"
proof
  show "change_summary_of (Some cs) = Some \<lparr>n_create = how_many Creates cs, n_update = how_many Updates cs,
      n_delete = how_many Deletes cs, n_replace = how_many Replaces cs,
      n_destructive = list_ex (\<lambda>c. List.member (c_actions c) ''delete'') cs\<rparr>"
    using destructive_iff [of cs] by (simp add: change_summary_of_def classify_fold Let_def list_ex_iff)
  show "how_many Creates cs + how_many Updates cs + how_many Deletes cs + how_many Replaces cs + how_many No_change cs = length cs"
  proof (induction cs)
    case (Cons c cs)
    then show ?case by (cases "kind_of c") (auto simp: how_many_def)
  qed (simp add: how_many_def)
qed

section \<open>Discarding and the plan file\<close>

text \<open>Discarding removes the saved plan. A discard that releases a reviewed plan removes the plan file
  saved for its resource, records the discard in the audit trail and leaves every other plan file.\<close>

theorem discard_removes_plan_file:
  assumes "reachable s" and "op_body i (s_world s) = Some op0" "\<not> d_discarded op0"
    and "discard i who t (s_world s) = (Inr op, w')"
  shows "plans w' = (plans (s_world s))(d_resource_id op0 := None) \<and>
    (\<exists>n. events w' = events (s_world s) @ [\<lparr>e_seq = n, e_operation_id = Some i, e_actor = who, e_action = Ev_discard,
       e_outcome = Accepted, e_timestamp = t\<rparr>])"
proof -
  have wf: "wf (s_world s)" using assms(1) by (rule reachable_wf)
  have id: "d_id op0 = i" using op_body_wf [OF wf assms(2)] by blast
  have "w' = snd (release_plan op0 who Ev_discard msg_discarded Flag_discarded True t (s_world s))"
    using assms(2-4) unfolding discard_def
    by (auto dest!: connect_InrD simp: discard_tx_def split: if_splits)
  then show ?thesis
    using id by (auto simp: release_plan_def restore_reservation_def Let_def frame_simps unlink_plan_def released_def
        set_flag_def stamp_def event_def save_op_def update_resource_def split: option.splits)
qed

lemma demo_discard:
  "\<exists>op w'. discard ''op_1'' ''bob'' 40 (demo_world demo_plan demo_resource 3) = (Inr op, w')"
  by (simp add: discard_def connect_def discard_tx_def op_body_def demo_world_simps) (simp add: demo_defs)

theorem discard_removes_plan_file_witness:
  "\<exists>op w'. discard ''op_1'' ''bob'' 40 (demo_world demo_plan demo_resource 3) = (Inr op, w') \<and>
     plans w' ''res_1'' = None \<and> length (events w') = 4"
proof -
  obtain op w' where d: "discard ''op_1'' ''bob'' 40 (demo_world demo_plan demo_resource 3) = (Inr op, w')"
    using demo_discard by blast
  have b: "op_body ''op_1'' (s_world (demo_sys (demo_world demo_plan demo_resource 3) [demo_planning])) = Some demo_plan"
    by (simp add: op_body_def demo_world_simps)
  have n: "\<not> d_discarded demo_plan" and r: "d_resource_id demo_plan = ''res_1''" by (simp_all add: demo_defs)
  have w: "s_world (demo_sys (demo_world demo_plan demo_resource 3) [demo_planning]) = demo_world demo_plan demo_resource 3"
    by (simp add: demo_sys_def)
  from discard_removes_plan_file [OF demo_reachable3 b n, unfolded w, OF d] d r show ?thesis
    by (auto simp: demo_world_simps demo_events_def)
qed

end
