(* ===== verification/Inventory.thy ===== *)
theory Inventory
  imports LedgerQueries
begin

text \<open>
  The resource inventory a caller reads: \<^verbatim>\<open>public_resource\<close> of \<^verbatim>\<open>app/contracts.py\<close> and \<^verbatim>\<open>GET /resources\<close> of
  \<^verbatim>\<open>app/main.py\<close>, whose \<^verbatim>\<open>upgrade_available\<close> filter is computed after the database page in a bounded scan.
  A resource that never succeeded has no \<^verbatim>\<open>state\<close> and no \<^verbatim>\<open>updated_at\<close>. The newest tag of a pattern is the
  parameter \<open>latest\<close> (\<^verbatim>\<open>catalog.latest_version\<close>, \<open>None\<close> when it is unknown).
\<close>

section \<open>The view of one resource\<close>

record resource_view =
  rv_id :: string
  rv_state :: "state option"
  rv_pattern :: string
  rv_version :: "string option"
  rv_commit :: "string option"
  rv_business_unit :: "string option"
  rv_environment :: "string option"
  rv_labels :: "(string \<times> string) list"
  rv_promoted_from :: "string option"
  rv_input_refs :: "(string \<times> input_ref) list"
  rv_outputs :: "(string \<times> json) list option"
  rv_withheld_outputs :: "string list option"
  rv_latest_version :: "string option"
  rv_upgrade_available :: "bool option"
  rv_latest_operation_id :: string
  rv_updated_at :: "nat option"
  rv_cloud :: "string option"
  rv_region :: "string option"
  rv_estimated_monthly_cost :: "rat option"
  rv_owned_by_caller :: bool
  rv_created_at :: "nat option"
  rv_managed_objects :: "(string \<times> string) list option"
  rv_drift_status :: "drift_status option"
  rv_drift_checked_at :: "nat option"
  rv_drift :: "change list option"
  rv_links :: "(string \<times> string) list"

text \<open>\<^verbatim>\<open>_cost\<close>: a finite number, of either sign.\<close>

definition view_cost :: "json \<Rightarrow> rat option" where
  "view_cost j = (case j of JNum q \<Rightarrow> (if - float_limit < q \<and> q < float_limit then Some q else None) | _ \<Rightarrow> None)"

text \<open>\<^verbatim>\<open>_region\<close>: the first truthy of the three values, if it is a text.\<close>

definition region_of :: "doc \<Rightarrow> string option" where
  "region_of d =
    (let tgt = (case p_cloud_target (d_def d) of None \<Rightarrow> [] | Some kvs \<Rightarrow> kvs);
         injected = p_injected (d_def d);
         found = (\<lambda>k. case map_of injected k of None \<Rightarrow> JNull | Some j \<Rightarrow> j);
         v = (case map_of tgt ''region'' of
                Some r \<Rightarrow> (if r \<noteq> [] then JStr r else if truthy (found ''region'') then found ''region'' else found ''location'')
              | None \<Rightarrow> (if truthy (found ''region'') then found ''region'' else found ''location''))
     in case v of JStr s \<Rightarrow> (if s \<noteq> [] then Some s else None) | _ \<Rightarrow> None)"

definition public_resource :: "doc \<Rightarrow> string option \<Rightarrow> string \<Rightarrow> err + resource_view" where
  "public_resource d who pre = (case d_operation_id d of
      None \<Rightarrow> Inl KeyError
    | Some op_id \<Rightarrow>
       Inr \<lparr>rv_id = d_id d, rv_state = d_state d, rv_pattern = p_pattern (d_def d), rv_version = p_version (d_def d),
         rv_commit = p_commit (d_def d), rv_business_unit = p_business_unit (d_def d),
         rv_environment = p_environment (d_def d), rv_labels = p_labels (d_def d),
         rv_promoted_from = d_promoted_from d, rv_input_refs = p_input_refs (d_def d), rv_outputs = d_outputs d,
         rv_withheld_outputs = d_withheld_outputs d, rv_latest_version = None, rv_upgrade_available = None,
         rv_latest_operation_id = op_id, rv_updated_at = (if d_state d = None then None else Some (d_updated_at d)),
         rv_cloud = p_cloud (d_def d), rv_region = region_of d,
         rv_estimated_monthly_cost = (if d_state d = Some Destroyed then None else view_cost (d_cost d)),
         rv_owned_by_caller = (who = Some (d_actor d)), rv_created_at = d_resource_created_at d,
         rv_managed_objects = d_managed_objects d, rv_drift_status = d_drift_status d,
         rv_drift_checked_at = d_drift_checked_at d, rv_drift = d_drift d,
         rv_links = [(''self'', pre @ ''/resources/'' @ d_id d), (''latest_operation'', pre @ ''/operations/'' @ op_id)]\<rparr>)"

text \<open>\<^verbatim>\<open>_resource_view\<close>.\<close>

definition upgrade_hint :: "(string \<Rightarrow> string option) \<Rightarrow> string list \<Rightarrow> doc \<Rightarrow> (string \<times> bool) option" where
  "upgrade_hint latest allowed d =
    (if d_state d = Some Ready
     then upgrade_available (p_pattern (d_def d)) (p_version (d_def d)) allowed (latest (p_pattern (d_def d)))
     else None)"

definition resource_view_of ::
  "(string \<Rightarrow> string option) \<Rightarrow> string list \<Rightarrow> string \<Rightarrow> string \<Rightarrow> doc \<Rightarrow> err + resource_view" where
  "resource_view_of latest allowed who pre d = sbind (public_resource d (Some who) pre) (\<lambda>v.
     Inr (v\<lparr>rv_latest_version := map_option fst (upgrade_hint latest allowed d),
            rv_upgrade_available := map_option snd (upgrade_hint latest allowed d)\<rparr>))"

definition get_resource_view :: "ext \<Rightarrow> (string \<Rightarrow> string option) \<Rightarrow> world \<Rightarrow> string \<Rightarrow> caller \<Rightarrow> string \<Rightarrow> err + resource_view" where
  "get_resource_view x latest w i c pre =
     sbind (resource i w) (\<lambda>rcd. sbind (authorize x w rcd c False) (\<lambda>d. sbind (available x w c) (\<lambda>allowed.
       resource_view_of latest allowed (caller_id c) pre d)))"

section \<open>The scan of the computed filter\<close>

definition UPGRADE_FILTER_SCAN :: nat where
  "UPGRADE_FILTER_SCAN = 500"

text \<open>The loop over one database page: the matches, and how many rows were examined.\<close>

fun scan_page ::
  "(doc \<Rightarrow> err + resource_view) \<Rightarrow> bool \<Rightarrow> nat \<Rightarrow> doc list \<Rightarrow> (string \<times> resource_view) list \<Rightarrow> nat
     \<Rightarrow> err + (string \<times> resource_view) list \<times> nat" where
  "scan_page view want maxn [] matched scanned = Inr (matched, scanned)"
| "scan_page view want maxn (r # rs) matched scanned =
     sbind (view r) (\<lambda>v.
       let matched' = (if rv_upgrade_available v = Some want then matched @ [(d_id r, v)] else matched)
       in if maxn < length matched' then Inr (matched', scanned + 1)
          else scan_page view want maxn rs matched' (scanned + 1))"

lemma scan_page_scanned:
  "scan_page view want maxn rs matched n = Inr (matched', n') \<Longrightarrow> n \<le> n' \<and> n' \<le> n + length rs \<and> (rs \<noteq> [] \<longrightarrow> n < n')"
proof (induction rs arbitrary: matched n)
  case (Cons r rs)
  from Cons.prems obtain v where "view r = Inr v" by (auto elim: sbind_InrE)
  with Cons.prems Cons.IH show ?case by (fastforce simp: Let_def split: if_splits)
qed simp

text \<open>The while loop over pages of 100 (101 rows are read to know whether another page follows): the
  matches, whether the rows ran out, and the last row read.\<close>

function scan_pages ::
  "(string option \<Rightarrow> err + doc list) \<Rightarrow> (doc \<Rightarrow> err + resource_view) \<Rightarrow> bool \<Rightarrow> nat
     \<Rightarrow> (string \<times> resource_view) list \<Rightarrow> nat \<Rightarrow> string option
     \<Rightarrow> err + (string \<times> resource_view) list \<times> bool \<times> string option" where
  "scan_pages rows view want maxn matched scanned cursor =
    (if maxn < length matched \<or> UPGRADE_FILTER_SCAN \<le> scanned then Inr (matched, False, cursor)
     else case rows cursor of
       Inl e \<Rightarrow> Inl e
     | Inr chunk \<Rightarrow>
        (case scan_page view want maxn (take 100 chunk) matched scanned of
           Inl e \<Rightarrow> Inl e
         | Inr (matched', scanned') \<Rightarrow>
            if maxn < length matched' then Inr (matched', False, cursor)
            else if length chunk \<le> 100 then Inr (matched', True, cursor)
            else scan_pages rows view want maxn matched' scanned' (Some (d_id (last (take 100 chunk))))))"
  by pat_completeness auto
termination
proof (relation "measure (\<lambda>(rows, view, want, maxn, matched, scanned, cursor). UPGRADE_FILTER_SCAN - scanned)", goal_cases)
  case (2 rows view want maxn matched scanned cursor chunk p matched' scanned')
  have "take 100 chunk \<noteq> []" using 2(6) by (cases chunk) simp_all
  moreover have "scan_page view want maxn (take 100 chunk) matched scanned = Inr (matched', scanned')" using 2(3,4) by simp
  ultimately have "scanned < scanned'" using scan_page_scanned by blast
  moreover have "scanned < UPGRADE_FILTER_SCAN" using 2(1) by simp
  ultimately show ?case by simp
qed simp

declare scan_pages.simps [simp del]

text \<open>\<^verbatim>\<open>list_resources\<close> of the API: the views and where the next page starts.\<close>

definition plain_page ::
  "(string option \<Rightarrow> nat \<Rightarrow> err + doc list) \<Rightarrow> (doc \<Rightarrow> err + resource_view) \<Rightarrow> nat \<Rightarrow> string option
     \<Rightarrow> err + resource_view list \<times> string option" where
  "plain_page rows view maxn start =
     sbind (rows start (maxn + 1)) (\<lambda>items.
     sbind (smap view (take maxn items)) (\<lambda>views.
     Inr (views, if maxn < length items then Some (d_id (last (take maxn items))) else None)))"

definition filtered_page ::
  "(string option \<Rightarrow> nat \<Rightarrow> err + doc list) \<Rightarrow> (doc \<Rightarrow> err + resource_view) \<Rightarrow> bool \<Rightarrow> nat \<Rightarrow> string option
     \<Rightarrow> err + (string \<times> resource_view) list \<times> string option" where
  "filtered_page rows view want maxn start =
     sbind (scan_pages (\<lambda>cursor. rows cursor 101) view want maxn [] 0 start) (\<lambda>(matched, exhausted, cursor).
     Inr (if maxn < length matched then (take maxn matched, Some (fst (last (take maxn matched))))
          else (matched, if exhausted then None else cursor)))"

definition caller_units :: "world \<Rightarrow> caller \<Rightarrow> string list option" where
  "caller_units w c = (if enabled w then Some (map u_name (units_for w c)) else None)"

definition resource_page ::
  "ext \<Rightarrow> (string \<Rightarrow> string option) \<Rightarrow> caller \<Rightarrow> string \<Rightarrow> resource_filter \<Rightarrow> bool option \<Rightarrow> nat \<Rightarrow> string option \<Rightarrow> world
     \<Rightarrow> err + resource_view list \<times> string option" where
  "resource_page x latest c pre f want maxn start w =
    sbind (available x w c) (\<lambda>allowed.
      let rows = (\<lambda>cursor n. list_resources (caller_id c) (caller_units w c) cursor n f w);
          view = resource_view_of latest allowed (caller_id c) pre
      in case want of
           None \<Rightarrow> plain_page rows view maxn start
         | Some b \<Rightarrow> sbind (filtered_page rows view b maxn start) (\<lambda>(items, nxt). Inr (map snd items, nxt)))"

end
