(* ===== verification/InventoryProperties.thy ===== *)
theory InventoryProperties
  imports Inventory LedgerProperties
begin

text \<open>
  What the inventory shows and how it is paged: the bounded scan of the computed filter skips and repeats
  nothing, and the views show no input, placement identifier or actor.
\<close>

section \<open>The list behind the pages\<close>

definition inventory :: "string \<Rightarrow> string list option \<Rightarrow> string option \<Rightarrow> resource_filter \<Rightarrow> world \<Rightarrow> (string \<times> doc) list" where
  "inventory who units start f w = sort_key fst
     (filter (\<lambda>(i, d). owned who units (d_actor d) (p_business_unit (d_def d)) \<and> resource_matches f d \<and>
        (case start of None \<Rightarrow> True | Some a \<Rightarrow> a < i)) (resources w))"

lemma list_resources_inventory:
  "list_resources who units start n f w = reading w (take n (map snd (inventory who units start f w)))"
  by (simp add: list_resources_def inventory_def)

lemma inventory_start: "inventory who units (Some a) f w = filter (\<lambda>x. a < fst x) (inventory who units None f w)"
  unfolding inventory_def filter_sort filter_filter
  by (intro arg_cong [where f = "sort_key fst"] filter_cong) auto

lemma inventory_strict:
  assumes "wf w"
  shows "sorted_wrt (<) (map fst (inventory who units start f w))"
proof -
  have "distinct (map fst (inventory who units start f w))"
    using assms by (simp add: inventory_def wf_def res_ok_def distinct_map_filter distinct_map inj_on_def)
  moreover have "sorted (map fst (inventory who units start f w))" by (simp add: inventory_def)
  ultimately show ?thesis by (simp add: strict_sorted_iff)
qed

lemma inventory_ids:
  assumes "wf w" "x \<in> set (inventory who units start f w)"
  shows "d_id (snd x) = fst x"
  using assms by (auto simp: inventory_def wf_def res_ok_def)

lemma filter_after:
  fixes xs :: "('k :: linorder \<times> 'v) list"
  shows "sorted_wrt (<) (map fst xs) \<Longrightarrow> k < length xs \<Longrightarrow> filter (\<lambda>x. fst (xs ! k) < fst x) xs = drop (Suc k) xs"
proof (induction xs arbitrary: k)
  case (Cons a xs)
  show ?case
  proof (cases k)
    case 0
    with Cons.prems show ?thesis by (auto intro!: filter_True)
  next
    case (Suc m)
    with Cons.prems have lt: "fst a < fst (xs ! m)" by auto
    then have "\<not> fst (xs ! m) < fst a" by (rule less_not_sym)
    with Suc Cons show ?thesis by simp
  qed
qed simp

text \<open>The list from after the row at position \<open>k\<close>.\<close>

lemma inventory_from:
  assumes "wf w" "k < length (inventory who units None f w)"
  shows "inventory who units (Some (fst (inventory who units None f w ! k))) f w = drop (Suc k) (inventory who units None f w)"
  using filter_after [OF inventory_strict [OF assms(1)] assms(2)]
  by (simp add: inventory_start)

lemma inventory_next:
  assumes "wf w" "k < length (inventory who units start f w)"
  shows "inventory who units (Some (fst (inventory who units start f w ! k))) f w = drop (Suc k) (inventory who units start f w)"
proof (cases start)
  case (Some a)
  let ?all = "inventory who units None f w"
  let ?P = "\<lambda>x. a < fst x"
  have tail: "inventory who units start f w = filter ?P ?all" by (simp add: Some inventory_start)
  let ?x = "inventory who units start f w ! k"
  have "?x \<in> set (filter ?P ?all)" using assms(2) tail by (metis nth_mem)
  then have "a < fst ?x" by simp
  then have "filter (\<lambda>x. fst ?x < fst x) (filter ?P ?all) = filter (\<lambda>x. fst ?x < fst x) ?all"
    by (auto simp: filter_filter intro!: filter_cong)
  then show ?thesis
    using filter_after [OF inventory_strict [OF assms(1)] assms(2)] tail
    by (simp add: inventory_start)
qed (use inventory_from [OF assms(1)] assms(2) in simp)

section \<open>The scan\<close>

text \<open>The rows whose view carries the hint asked for.\<close>

definition hits :: "(doc \<Rightarrow> bool option) \<Rightarrow> bool \<Rightarrow> (string \<times> doc) list \<Rightarrow> string list" where
  "hits hint want rows = map fst (filter (\<lambda>x. hint (snd x) = Some want) rows)"

lemma hits_append: "hits hint want (xs @ ys) = hits hint want xs @ hits hint want ys"
  by (simp add: hits_def)

lemma scan_page_hits:
  assumes "scan_page view want maxn (map snd rows) matched n = Inr (matched', n')"
    and "\<And>r v. view r = Inr v \<Longrightarrow> rv_upgrade_available v = hint r" and "\<And>x. x \<in> set rows \<Longrightarrow> d_id (snd x) = fst x"
    and "length matched \<le> maxn"
  shows "\<exists>k \<le> length rows. map fst matched' = map fst matched @ hits hint want (take k rows) \<and>
    (length matched' \<le> maxn \<longrightarrow> k = length rows) \<and>
    (maxn < length matched' \<longrightarrow> length matched' = Suc maxn \<and> 0 < k \<and> hint (snd (rows ! (k - 1))) = Some want)"
  using assms(1,3,4)
proof (induction rows arbitrary: matched n)
  case (Cons x rows)
  from Cons.prems(1) obtain v where v: "view (snd x) = Inr v" by (auto elim: sbind_InrE)
  have h: "rv_upgrade_available v = hint (snd x)" using v by (rule assms(2))
  let ?m = "if hint (snd x) = Some want then matched @ [(d_id (snd x), v)] else matched"
  show ?case
  proof (cases "maxn < length ?m")
    case True
    with Cons.prems v h have r: "matched' = ?m" "hint (snd x) = Some want" "length matched = maxn"
      by (auto simp: Let_def split: if_splits)
    then show ?thesis
      using Cons.prems(2) by (intro exI [of _ 1]) (auto simp: hits_def)
  next
    case False
    with Cons.prems v h have "scan_page view want maxn (map snd rows) ?m (n + 1) = Inr (matched', n')"
      by (simp add: Let_def split: if_splits)
    from Cons.IH [OF this] Cons.prems(2) False obtain k where k: "k \<le> length rows"
      "map fst matched' = map fst ?m @ hits hint want (take k rows)"
      "length matched' \<le> maxn \<longrightarrow> k = length rows"
      "maxn < length matched' \<longrightarrow> length matched' = Suc maxn \<and> 0 < k \<and> hint (snd (rows ! (k - 1))) = Some want"
      by auto
    then show ?thesis
      using Cons.prems(2) by (intro exI [of _ "Suc k"]) (auto simp: hits_def nth_Cons' split: if_splits)
  qed
qed (simp add: hits_def)

text \<open>The loop: it stops with exactly the hits of a first part of the rows; it says that the rows ran out
  only when that part is all of them, and otherwise names the row after which the rest starts.\<close>

definition scanned_part ::
  "(doc \<Rightarrow> bool option) \<Rightarrow> bool \<Rightarrow> nat \<Rightarrow> (string option \<Rightarrow> (string \<times> doc) list) \<Rightarrow> (string \<times> doc) list
     \<Rightarrow> string list \<Rightarrow> (string \<times> resource_view) list \<times> bool \<times> string option \<Rightarrow> bool" where
  "scanned_part hint want maxn all L ids res = (case res of (matched', exhausted, cursor') \<Rightarrow>
     \<exists>k \<le> length L. map fst matched' = ids @ hits hint want (take k L) \<and>
       (if maxn < length matched'
        then length matched' = Suc maxn \<and> 0 < k \<and> hint (snd (L ! (k - 1))) = Some want
        else if exhausted then k = length L else all cursor' = drop k L))"

lemma scanned_partI:
  "k \<le> length L \<Longrightarrow> map fst m = ids @ hits hint want (take k L) \<Longrightarrow>
   (maxn < length m \<Longrightarrow> length m = Suc maxn \<and> 0 < k \<and> hint (snd (L ! (k - 1))) = Some want) \<Longrightarrow>
   (\<not> maxn < length m \<Longrightarrow> if ex then k = length L else all c = drop k L) \<Longrightarrow>
   scanned_part hint want maxn all L ids (m, ex, c)"
  unfolding scanned_part_def split_conv by (rule exI [of _ k]) simp

lemma scanned_part_later:
  assumes "scanned_part hint want maxn all (drop m L) (ids @ hits hint want (take m L)) res" "m \<le> length L"
  shows "scanned_part hint want maxn all L ids res"
proof -
  obtain matched' exhausted cursor' where res: "res = (matched', exhausted, cursor')" by (cases res) auto
  from assms(1) obtain k where k: "k \<le> length (drop m L)"
    "map fst matched' = (ids @ hits hint want (take m L)) @ hits hint want (take k (drop m L))"
    "if maxn < length matched'
     then length matched' = Suc maxn \<and> 0 < k \<and> hint (snd (drop m L ! (k - 1))) = Some want
     else if exhausted then k = length (drop m L) else all cursor' = drop k (drop m L)"
    by (auto simp: scanned_part_def res)
  show ?thesis unfolding res
  proof (rule scanned_partI [of "m + k"])
    show "m + k \<le> length L" using k(1) assms(2) by simp
    show "map fst matched' = ids @ hits hint want (take (m + k) L)"
      using k(2) by (simp add: take_add hits_append)
    show "length matched' = Suc maxn \<and> 0 < m + k \<and> hint (snd (L ! (m + k - 1))) = Some want" if "maxn < length matched'"
    proof -
      have "length matched' = Suc maxn" "0 < k" "hint (snd (drop m L ! (k - 1))) = Some want"
        using k(3) that by simp_all
      moreover have "m + k - 1 = m + (k - 1)" using \<open>0 < k\<close> by simp
      ultimately show ?thesis using assms(2) by simp
    qed
    show "if exhausted then m + k = length L else all cursor' = drop (m + k) L" if "\<not> maxn < length matched'"
      using k(3) that assms(2) by (simp add: add.commute split: if_splits)
  qed
qed

lemma scan_pages_part:
  assumes "scan_pages rows view want maxn matched n cursor = Inr res"
    and "\<And>c chunk. rows c = Inr chunk \<Longrightarrow> chunk = map snd (take 101 (all c))"
    and "\<And>c k. k < length (all c) \<Longrightarrow> all (Some (fst (all c ! k))) = drop (Suc k) (all c)"
    and "\<And>c x. x \<in> set (all c) \<Longrightarrow> d_id (snd x) = fst x"
    and "\<And>r v. view r = Inr v \<Longrightarrow> rv_upgrade_available v = hint r"
    and "length matched \<le> maxn"
  shows "scanned_part hint want maxn all (all cursor) (map fst matched) res"
  using assms(1,6)
proof (induction "UPGRADE_FILTER_SCAN - n" arbitrary: matched n cursor rule: less_induct)
  case less
  show ?case
  proof (cases "UPGRADE_FILTER_SCAN \<le> n")
    case True
    with less.prems(1) have "res = (matched, False, cursor)"
      by (simp add: scan_pages.simps [of rows view want maxn matched n cursor])
    then show ?thesis
      using less.prems(2) by (simp, intro scanned_partI [of 0]) (simp_all add: hits_def)
  next
    case False
    obtain chunk where chunk: "rows cursor = Inr chunk"
      using less.prems False by (auto simp: scan_pages.simps [of rows view want maxn matched n cursor] split: if_splits sum.splits)
    let ?page = "take 100 (all cursor)"
    have ch: "chunk = map snd (take 101 (all cursor))" using chunk by (rule assms(2))
    then have pg: "take 100 chunk = map snd ?page" by (simp add: take_map)
    obtain m' n' where page: "scan_page view want maxn (take 100 chunk) matched n = Inr (m', n')"
      using less.prems False chunk
      by (auto simp: scan_pages.simps [of rows view want maxn matched n cursor] split: if_splits sum.splits)
    have ids: "d_id (snd x) = fst x" if "x \<in> set ?page" for x
      using that by (intro assms(4)) (rule in_set_takeD)
    from scan_page_hits [where hint = hint, OF page [unfolded pg] assms(5) ids less.prems(2)] obtain k where k: "k \<le> length ?page"
      "map fst m' = map fst matched @ hits hint want (take k ?page)" "length m' \<le> maxn \<longrightarrow> k = length ?page"
      "maxn < length m' \<longrightarrow> length m' = Suc maxn \<and> 0 < k \<and> hint (snd (?page ! (k - 1))) = Some want"
      by blast
    have kl: "k \<le> length (all cursor)" "k \<le> 100" using k(1) by simp_all
    then have kt: "take k ?page = take k (all cursor)" "k \<le> length (all cursor)" "k \<le> 100" by simp_all
    have run: "scan_pages rows view want maxn matched n cursor =
        (if maxn < length m' then Inr (m', False, cursor)
         else if length chunk \<le> 100 then Inr (m', True, cursor)
         else scan_pages rows view want maxn m' n' (Some (d_id (last (take 100 chunk)))))"
      using False less.prems(2) by (subst scan_pages.simps) (simp add: chunk page)
    show ?thesis
    proof (cases "maxn < length m'")
      case True
      with run less.prems(1) have "res = (m', False, cursor)" by simp
      moreover have "hint (snd (all cursor ! (k - 1))) = Some want" "0 < k" "length m' = Suc maxn"
        using k(4) True k(1) by auto
      ultimately show ?thesis using k(2) kt True by (simp, intro scanned_partI [of k]) simp_all
    next
      case le: False
      then have klen: "k = length ?page" using k(3) by simp
      show ?thesis
      proof (cases "length chunk \<le> 100")
        case True
        with run le less.prems(1) have "res = (m', True, cursor)" by simp
        moreover have "length (all cursor) \<le> 100" using True ch by simp
        ultimately show ?thesis
          using le k(2) klen kt by (simp, intro scanned_partI [of k]) simp_all
      next
        case more: False
        then have len: "100 < length (all cursor)" using ch by (simp add: min_def split: if_splits)
        have last: "d_id (last (take 100 chunk)) = fst (all cursor ! 99)"
        proof -
          have "last (take 100 chunk) = snd (all cursor ! 99)"
          proof -
            have ne: "take 100 (all cursor) \<noteq> []" and l: "length (take 100 (all cursor)) = 100" using len by auto
            show ?thesis unfolding pg last_map [OF ne] last_conv_nth [OF ne] l by simp
          qed
          then show ?thesis using assms(4) [of "all cursor ! 99" cursor] len by simp
        qed
        have rest: "all (Some (d_id (last (take 100 chunk)))) = drop 100 (all cursor)"
          using assms(3) [of 99 cursor] len unfolding last by simp
        have "n < n'" using scan_page_scanned [OF page] len by (auto simp: pg)
        then have smaller: "UPGRADE_FILTER_SCAN - n' < UPGRADE_FILTER_SCAN - n" using False by simp
        have "scan_pages rows view want maxn m' n' (Some (d_id (last (take 100 chunk)))) = Inr res"
          using run le more less.prems(1) by simp
        from less.hyps [OF smaller this] le
        have "scanned_part hint want maxn all (drop 100 (all cursor)) (map fst m') res" by (simp add: rest)
        moreover have "map fst m' = map fst matched @ hits hint want (take 100 (all cursor))"
          using k(2) klen len unfolding kt(1) by simp
        ultimately have "scanned_part hint want maxn all (drop 100 (all cursor))
            (map fst matched @ hits hint want (take 100 (all cursor))) res" by (simp only:)
        then show ?thesis using len by (rule scanned_part_later [OF _ less_imp_le])
      qed
    qed
  qed
qed

lemma scan_pages_cursor:
  assumes "scan_pages rows view want maxn matched n cursor = Inr (m, False, c)" and "length m \<le> maxn"
    and "n < UPGRADE_FILTER_SCAN \<or> cursor \<noteq> None"
  shows "c \<noteq> None"
  using assms
proof (induction "UPGRADE_FILTER_SCAN - n" arbitrary: matched n cursor rule: less_induct)
  case less
  note run = scan_pages.simps [of rows view want maxn matched n cursor]
  show ?case
  proof (cases "maxn < length matched \<or> UPGRADE_FILTER_SCAN \<le> n")
    case True
    with less.prems(1) have "m = matched" "c = cursor" by (simp_all add: run)
    with True less.prems(2,3) show ?thesis by auto
  next
    case False
    then obtain chunk where chunk: "rows cursor = Inr chunk"
      using less.prems(1) by (cases "rows cursor") (simp_all add: run)
    obtain m' n' where page: "scan_page view want maxn (take 100 chunk) matched n = Inr (m', n')"
      using less.prems(1) False chunk by (cases "scan_page view want maxn (take 100 chunk) matched n") (auto simp: run)
    let ?c' = "Some (d_id (last (take 100 chunk)))"
    have "\<not> maxn < length m'"
      using less.prems(1,2) False by (auto simp: run chunk page)
    with less.prems(1) False have more: "100 < length chunk"
      and next': "scan_pages rows view want maxn m' n' ?c' = Inr (m, False, c)"
      by (simp_all add: run chunk page split: if_splits)
    have "n < n'" using scan_page_scanned [OF page] more by (cases chunk) simp_all
    with False have "UPGRADE_FILTER_SCAN - n' < UPGRADE_FILTER_SCAN - n" by (auto intro: diff_less_mono2)
    from less.hyps [OF this next' less.prems(2)] show ?thesis by simp
  qed
qed

section \<open>Pages\<close>

text \<open>The computed filter loses nothing. A page of the resources whose upgrade hint is the one asked
  for, followed by what the inventory holds after the page's \<^verbatim>\<open>next_after\<close>, has exactly the matching
  resources from the page's start on, each once; without a \<^verbatim>\<open>next_after\<close> the page has all of them. It holds
  wherever the bounded scan stops.\<close>

theorem filtered_pages_lose_nothing:
  assumes "reachable s" and "0 < n"
    and "filtered_page (\<lambda>c m. list_resources who units c m f (s_world s)) (resource_view_of latest allowed who pre)
      want n start = Inr (items, nxt)"
  shows "length items \<le> n \<and> hits (\<lambda>d. map_option snd (upgrade_hint latest allowed d)) want (inventory who units start f (s_world s)) =
    map fst items @ (case nxt of None \<Rightarrow> []
      | Some c \<Rightarrow> hits (\<lambda>d. map_option snd (upgrade_hint latest allowed d)) want (inventory who units (Some c) f (s_world s)))"
proof -
  let ?w = "s_world s"
  let ?all = "\<lambda>c. inventory who units c f ?w"
  let ?L = "?all start"
  let ?hint = "\<lambda>d. map_option snd (upgrade_hint latest allowed d)"
  have wf: "wf ?w" using assms(1) by (rule reachable_wf)
  from assms(3) obtain m ex c where scan: "scan_pages (\<lambda>cursor. list_resources who units cursor 101 f ?w)
      (resource_view_of latest allowed who pre) want n [] 0 start = Inr (m, ex, c)"
    and out: "(items, nxt) = (if n < length m then (take n m, Some (fst (last (take n m)))) else (m, if ex then None else c))"
    unfolding filtered_page_def by (auto elim!: sbind_InrE)
  have "scanned_part ?hint want n ?all ?L (map fst ([] :: (string \<times> resource_view) list)) (m, ex, c)"
  proof (rule scan_pages_part [OF scan])
    show "\<And>c chunk. list_resources who units c 101 f ?w = Inr chunk \<Longrightarrow> chunk = map snd (take 101 (?all c))"
      by (simp add: list_resources_inventory reading_def take_map split: if_splits)
    show "\<And>c k. k < length (?all c) \<Longrightarrow> ?all (Some (fst (?all c ! k))) = drop (Suc k) (?all c)"
      by (rule inventory_next [OF wf])
    show "\<And>c x. x \<in> set (?all c) \<Longrightarrow> d_id (snd x) = fst x" by (rule inventory_ids [OF wf])
    show "\<And>r v. resource_view_of latest allowed who pre r = Inr v \<Longrightarrow> rv_upgrade_available v = ?hint r"
      by (auto simp: resource_view_of_def elim!: sbind_InrE)
  qed simp
  then obtain k where k: "k \<le> length ?L" "map fst m = hits ?hint want (take k ?L)"
    "if n < length m then length m = Suc n \<and> 0 < k \<and> ?hint (snd (?L ! (k - 1))) = Some want
     else if ex then k = length ?L else ?all c = drop k ?L"
    by (auto simp: scanned_part_def)
  have split: "hits ?hint want ?L = map fst m @ hits ?hint want (drop k ?L)"
    by (metis append_take_drop_id hits_append k(2))
  show ?thesis
  proof (cases "n < length m")
    case False
    then have res: "items = m" "nxt = (if ex then None else c)" "length m \<le> n" using out by simp_all
    show ?thesis
    proof (cases ex)
      case True
      with k False have "drop k ?L = []" by simp
      with res split True show ?thesis by (simp add: hits_def)
    next
      case more: False
      then have "c \<noteq> None" using scan_pages_cursor [of _ _ _ _ _ _ _ m c] scan res(3) by (auto simp: UPGRADE_FILTER_SCAN_def)
      with res split more k False show ?thesis by auto
    qed
  next
    case True
    then have m: "length m = Suc n" using k(3) by simp
    define p where "p = fst (last (take n m))"
    have items: "items = take n m" "nxt = Some p" using out True by (simp_all add: p_def)
    have "p \<in> set (hits ?hint want ?L)"
    proof -
      have "last (take n m) \<in> set (take n m)" using m assms(2) by (intro last_in_set) auto
      then have "p \<in> set (map fst m)" unfolding p_def using in_set_takeD by force
      then show ?thesis unfolding split by simp
    qed
    then obtain x where x: "x \<in> set ?L" "?hint (snd x) = Some want" "fst x = p" by (auto simp: hits_def)
    then obtain j where j: "j < length ?L" "?L ! j = x" by (auto simp: in_set_conv_nth)
    have after: "?all (Some p) = drop (Suc j) ?L" using inventory_next [OF wf j(1)] j(2) x(3) by simp
    have "distinct (map fst ?L)" using inventory_strict [OF wf] strict_sorted_iff by blast
    then have dist: "distinct (hits ?hint want ?L)" by (simp add: hits_def distinct_map_filter)
    have cut: "hits ?hint want ?L = hits ?hint want (take j ?L) @ p # hits ?hint want (drop (Suc j) ?L)"
    proof -
      have "?L = take j ?L @ x # drop (Suc j) ?L" using j id_take_nth_drop by metis
      then have "hits ?hint want ?L = hits ?hint want (take j ?L) @ hits ?hint want (x # drop (Suc j) ?L)"
        by (metis hits_append)
      then show ?thesis using x by (simp add: hits_def)
    qed
    have front: "hits ?hint want ?L = map fst (take n m) @ map fst (drop n m) @ hits ?hint want (drop k ?L)"
      unfolding split by (simp flip: append_assoc map_append)
    have ne: "take n m \<noteq> []" using m assms(2) by auto
    define q where "q = map fst (butlast (take n m))"
    have q: "map fst (take n m) = q @ [p]"
      unfolding p_def q_def using append_butlast_last_id [OF ne] by (metis list.simps(8,9) map_append)
    let ?b = "map fst (drop n m) @ hits ?hint want (drop k ?L)"
    have eq: "hits ?hint want (take j ?L) @ p # hits ?hint want (drop (Suc j) ?L) = q @ p # ?b"
      using front cut q by simp
    have "p \<notin> set (hits ?hint want (take j ?L))" "p \<notin> set (hits ?hint want (drop (Suc j) ?L))"
      using dist unfolding cut by auto
    from append_Cons_eq_iff [OF this] eq have "hits ?hint want (drop (Suc j) ?L) = ?b" by blast
    with front items after m show ?thesis by simp
  qed
qed

text \<open>The resource of the scenario runs \<^verbatim>\<open>v1.0.0\<close>; a newer tag exists.\<close>

definition any_resource :: resource_filter where
  "any_resource = \<lparr>rf_pattern = None, rf_environment = None, rf_state = None, rf_label = None, rf_drift_status = None\<rparr>"

definition demo_newest :: "string \<Rightarrow> string option" where
  "demo_newest n = Some ''v1.1.0''"

lemma demo_versions: "semver ''v1.0.0'' = Some [1, 0, 0]" "semver ''v1.1.0'' = Some [1, 1, 0]"
  by code_simp+

lemma demo_hint: "upgrade_hint demo_newest [''postgresql''] demo_ready = Some (''v1.1.0'', True)"
  by (simp add: upgrade_hint_def upgrade_available_def demo_newest_def demo_defs or_empty_def demo_versions)

lemma demo_view: "\<exists>v. resource_view_of demo_newest [''postgresql''] ''amy'' [] demo_ready = Inr v \<and> rv_upgrade_available v = Some True"
  by (auto simp: resource_view_of_def public_resource_def demo_hint) (simp_all add: demo_defs)

lemma demo_rows:
  "list_resources ''amy'' None None 101 any_resource (demo_world demo_applied demo_ready 6) = Inr [demo_ready]"
  by (simp add: list_resources_def reading_def demo_world_simps owned_def resource_matches_def any_resource_def wanted_def)
    (simp add: demo_defs)

theorem filtered_pages_lose_nothing_witness:
  "\<exists>v. filtered_page (\<lambda>c m. list_resources ''amy'' None c m any_resource (demo_world demo_applied demo_ready 6))
      (resource_view_of demo_newest [''postgresql''] ''amy'' []) True 1 None = Inr ([(''res_1'', v)], None) \<and>
    hits (\<lambda>d. map_option snd (upgrade_hint demo_newest [''postgresql''] d)) True
      (inventory ''amy'' None None any_resource (demo_world demo_applied demo_ready 6)) = [''res_1'']"
proof -
  let ?w = "demo_world demo_applied demo_ready 6"
  obtain v where v: "resource_view_of demo_newest [''postgresql''] ''amy'' [] demo_ready = Inr v"
    "rv_upgrade_available v = Some True" using demo_view by blast
  have id: "d_id demo_ready = ''res_1''" by (simp add: demo_defs)
  have page: "filtered_page (\<lambda>c m. list_resources ''amy'' None c m any_resource ?w)
      (resource_view_of demo_newest [''postgresql''] ''amy'' []) True 1 None = Inr ([(''res_1'', v)], None)"
    by (simp add: filtered_page_def scan_pages.simps [of _ _ _ "Suc 0" "[]" 0 None] UPGRADE_FILTER_SCAN_def demo_rows v id)
  have w: "s_world (demo_sys ?w [demo_applying, demo_planning]) = ?w" by (simp add: demo_sys_def)
  from filtered_pages_lose_nothing [OF demo_reachable6 zero_less_one, unfolded w, OF page] page
  show ?thesis by auto
qed


section \<open>What the views show\<close>

text \<open>The internal part of a body: what to run it with, where exactly it is placed, who asked, and an operator's
  notes.\<close>

definition with_internals ::
  "(string \<times> json) list \<Rightarrow> (string \<times> json) list \<Rightarrow> (string \<times> string) list option \<Rightarrow> string option \<Rightarrow> string
     \<Rightarrow> reconciliation option \<Rightarrow> doc \<Rightarrow> doc" where
  "with_internals inputs injected tgt subscription src rc d = d\<lparr>
     d_def := (d_def d)\<lparr>p_inputs := inputs, p_injected := injected, p_cloud_target := tgt,
       p_subscription_id := subscription, p_source := src\<rparr>,
     d_reconciliation := rc\<rparr>"

text \<open>A view shows no internals. Two bodies that differ only in their inputs, injected values, cloud
  target, subscription, source and reconciliation have the same public operation, and the same public
  resource as long as their regions agree: nothing of a caller's inputs, an account or a project
  identifier, or an operator's note can be read off a view.\<close>

theorem views_hide_internals:
  assumes "region_of (with_internals inputs injected tgt sub src rc d) = region_of d"
  shows "public_resource (with_internals inputs injected tgt sub src rc d) who pre = public_resource d who pre \<and>
    public_operation age (with_internals inputs injected tgt sub src rc d) pre = public_operation age d pre"
  using assms
  by (simp add: public_resource_def public_operation_def with_internals_def plan_expires_at_def Let_def
      split: option.split)

theorem views_hide_internals_witness:
  "public_resource (with_internals [(''password'', JStr ''x'')] [(''environment'', JStr ''prod'')]
       (Some [(''subscription_id'', ''s1''), (''region'', ''westeurope'')]) (Some ''s1'') ''git'' None demo_ready) None [] =
     public_resource (with_internals [] [(''region'', JStr ''westeurope'')] None None [] None demo_ready) None []"
proof -
  let ?a = "with_internals [] [(''region'', JStr ''westeurope'')] None None [] None demo_ready"
  have "with_internals [(''password'', JStr ''x'')] [(''environment'', JStr ''prod'')]
      (Some [(''subscription_id'', ''s1''), (''region'', ''westeurope'')]) (Some ''s1'') ''git'' None demo_ready =
    with_internals [(''password'', JStr ''x'')] [(''environment'', JStr ''prod'')]
      (Some [(''subscription_id'', ''s1''), (''region'', ''westeurope'')]) (Some ''s1'') ''git'' None ?a"
    by (simp add: with_internals_def)
  moreover have "region_of (with_internals [(''password'', JStr ''x'')] [(''environment'', JStr ''prod'')]
      (Some [(''subscription_id'', ''s1''), (''region'', ''westeurope'')]) (Some ''s1'') ''git'' None ?a) = region_of ?a"
    by (simp add: region_of_def with_internals_def Let_def)
  ultimately show ?thesis using views_hide_internals by metis
qed

end
