(* ===== verification/TeamScenario.thy ===== *)
theory TeamScenario
  imports Scenario
begin

text \<open>
  A concrete run of team administration: a team is created, then its budget is raised. The properties of
  \<^verbatim>\<open>TeamProperties\<close> are instantiated on its worlds.
\<close>

section \<open>A concrete run\<close>

definition team_settings :: settings where
  "team_settings = demo_settings\<lparr>tenants_source_db := True\<rparr>"

definition no_ext :: ext where
  "no_ext = \<lparr>x_catalog = [], x_tags = (\<lambda>_. Inr []), x_documents = (\<lambda>_. Inr []), x_config = (\<lambda>_. Inr JNull),
     x_json = (\<lambda>_. None), x_regex_ok = (\<lambda>_. True), x_validator = (\<lambda>_ _. []), x_absolute = (\<lambda>p. p),
     x_legacy = None, x_member_groups = (\<lambda>_. None)\<rparr>"

definition demo_doc :: "rat \<Rightarrow> json" where
  "demo_doc q = JObj [(''environments'', JObj [(''dev'', JObj [(''budget_monthly'', JNum q)])]),
     (''groups'', JList [JStr ''g1''])]"

definition demo_yaml :: json where
  "demo_yaml = JObj [(''business_units'', JObj [(''finance'', demo_doc 200)])]"

definition no_checks :: check_env where
  "no_checks = \<lparr>ce_catalog = None, ce_directory = (\<lambda>_. None), ce_contract = (\<lambda>_. []),
     ce_yaml = (\<lambda>_. Some demo_yaml)\<rparr>"

definition team0 :: world where
  "team0 = empty_world team_settings"

definition demo_create :: team_create where
  "demo_create = \<lparr>cr_name = ''finance'', cr_team = demo_doc 100, cr_reason = ''onboard''\<rparr>"

definition demo_replace :: team_replace where
  "demo_replace = \<lparr>rp_team = demo_doc 200, rp_reason = ''raise'', rp_acknowledge = []\<rparr>"

definition demo_impact :: "rat \<Rightarrow> json \<Rightarrow> (string \<times> env_impact) list" where
  "demo_impact q current = [(''dev'', \<lparr>ei_resources = 0, ei_reserved = 0, ei_current_budget = current,
     ei_new_budget = JNum q\<rparr>)]"

definition team_row1 :: team_row where
  "team_row1 = \<lparr>t_name = ''finance'', t_revision = 1, t_state = Active, t_doc = demo_doc 100,
     t_created_at = 5, t_created_by = ''op'', t_updated_at = 5, t_updated_by = ''op''\<rparr>"

definition team_row2 :: team_row where
  "team_row2 = team_row1\<lparr>t_revision := 2, t_doc := demo_doc 200, t_updated_at := 6\<rparr>"

definition team_rev1 :: team_revision where
  "team_rev1 = \<lparr>tr_name = ''finance'', tr_revision = 1, tr_actor = ''op'', tr_at = 5, tr_reason = ''onboard'',
     tr_state = Active, tr_doc = demo_doc 100, tr_summary = \<lparr>ts_action = ''create'',
       ts_added = [''environments.dev.budget_monthly'', ''groups'', ''groups[g1]''], ts_removed = [],
       ts_changed = []\<rparr>\<rparr>"

definition team_rev2 :: team_revision where
  "team_rev2 = \<lparr>tr_name = ''finance'', tr_revision = 2, tr_actor = ''op'', tr_at = 6, tr_reason = ''raise'',
     tr_state = Active, tr_doc = demo_doc 200, tr_summary = \<lparr>ts_action = ''update'', ts_added = [],
       ts_removed = [], ts_changed = [''environments.dev.budget_monthly'']\<rparr>\<rparr>"

definition team_event :: "nat \<Rightarrow> ev_action \<Rightarrow> nat \<Rightarrow> event_row" where
  "team_event n act t = \<lparr>e_seq = n, e_operation_id = None, e_actor = ''op'', e_action = act,
     e_outcome = Accepted, e_timestamp = t\<rparr>"

definition team1 :: world where
  "team1 = team0\<lparr>teams := [team_row1], team_revisions := [team_rev1],
     events := [team_event 1 (Ev_team ''create'' ''finance'' 1) 5]\<rparr>"

definition team2 :: world where
  "team2 = team0\<lparr>teams := [team_row2], team_revisions := [team_rev1, team_rev2],
     events := [team_event 1 (Ev_team ''create'' ''finance'' 1) 5,
       team_event 2 (Ev_team ''update'' ''finance'' 2) 6]\<rparr>"

lemmas team_worlds = team0_def team1_def team2_def team_settings_def empty_world_def demo_settings_def

text \<open>The pieces of the two reviews, evaluated.\<close>

lemma demo_name: "valid_name ''finance''"
  by code_simp

lemma demo_clean: "clean (demo_doc 100)" "clean (demo_doc 200)"
  by code_simp+

lemma demo_catalog: "current_catalog no_ext = Some []"
  by code_simp

lemma demo_content1: "content_findings (admin_env no_ext no_checks) ''finance'' (demo_doc 100) [] = Inr []"
  by code_simp

lemma demo_content2: "content_findings (admin_env no_ext no_checks) ''finance'' (demo_doc 200) [] = Inr []"
  by code_simp

lemma demo_impacts:
  "impact None (demo_doc 100) [] = Inr (demo_impact 100 JNull)"
  "impact (Some (demo_doc 100)) (demo_doc 200) [] = Inr (demo_impact 200 (JNum 100))"
  by code_simp+

lemma demo_impact_findings: "impact_findings ''finance'' (demo_doc 100) (demo_doc 200) [] = Inr []"
  by code_simp

lemma demo_alone:
  "other_docs ''finance'' team0 = []" "other_docs ''finance'' team1 = []"
  "team_resources ''finance'' team0 = []" "team_resources ''finance'' team1 = []"
  by (simp_all add: other_docs_def list_all_teams_def team_resources_def all_resources_def team_worlds team_row1_def)

lemma demo_dict: "dict_value (demo_doc q)" "ok_dict (demo_doc q) = demo_doc q"
  by (simp_all add: demo_doc_def ok_dict_def)

lemma demo_check:
  "check_team (admin_env no_ext no_checks) ''finance'' (demo_doc 100) [] None [] = Inr []"
  "check_team (admin_env no_ext no_checks) ''finance'' (demo_doc 200) [] (Some (demo_doc 100)) [] = Inr []"
  using demo_clean team_shape_Nil
  by (simp_all add: check_team_def Let_def demo_name demo_content1 demo_content2 demo_impact_findings demo_dict only_if_def)

lemma demo_reviews:
  "review no_ext no_checks ''finance'' (demo_doc 100) None None team0 = Inr ([], demo_impact 100 JNull)"
  "review no_ext no_checks ''finance'' (demo_doc 200) (Some team_row1) None team1 = Inr ([], demo_impact 200 (JNum 100))"
  by (simp_all add: review_def Let_def demo_alone demo_check demo_impacts demo_dict team_row1_def)

lemma demo_diffs:
  "diff None (demo_doc 100) = \<lparr>df_added = [''environments.dev.budget_monthly'', ''groups'', ''groups[g1]''],
     df_removed = [], df_changed = []\<rparr>"
  "diff (Some (demo_doc 100)) (demo_doc 200) =
     \<lparr>df_added = [], df_removed = [], df_changed = [''environments.dev.budget_monthly'']\<rparr>"
  by code_simp+

lemma demo_texts:
  "revision_number (Some ''1'') = Inr (Some 1)" "revision_number (Some ''2'') = Inr (Some 2)"
  "\<not> py_same (demo_doc 100) (demo_doc 200)" "\<not> py_same (demo_doc 200) (demo_doc 100)"
  by code_simp+

lemma demo_doc_simps [simp]: "canon (demo_doc q) = demo_doc q" "finite_json (demo_doc q)"
  by (simp_all add: demo_doc_def)

lemmas team_write_defs = write_doc_def write_team_def put_team_def insert_team_def insert_revision_def update_team_def
  row_update_def team_get_def find_revision_def row_find_Cons event_def next_number_def team_view_of_def item_of_row_def
  team_event_def team_row1_def team_row2_def team_rev1_def team_rev2_def

definition demo_view :: "team_row \<Rightarrow> (string \<times> env_impact) list \<Rightarrow> team_view" where
  "demo_view r imp = team_view_of (item_of_row r) True (Some []) (Some imp)"

lemma demo_writes:
  "write_doc ''op'' ''finance'' (demo_doc 100) Active ''onboard'' ''create'' None (Some ([], demo_impact 100 JNull)) 5 team0
     = (Inr (demo_view team_row1 (demo_impact 100 JNull)), team1)"
  "write_doc ''op'' ''finance'' (demo_doc 200) Active ''raise'' ''update'' (Some team_row1)
     (Some ([], demo_impact 200 (JNum 100))) 6 team1 = (Inr (demo_view team_row2 (demo_impact 200 (JNum 100))), team2)"
  by (simp_all add: team_write_defs demo_diffs Let_def demo_view_def team_worlds)

lemma demo_gates: "gate_errors_only [] = Inr ()" "gate_findings [] [] = Inr ()"
  by code_simp+

lemma team_get_demo [simp]:
  "team_get ''finance'' team0 = None" "team_get ''finance'' team1 = Some team_row1"
  "team_get ''finance'' team2 = Some team_row2"
  by (simp_all add: team_get_def row_find_Cons team_worlds team_row1_def team_row2_def)

lemma demo_row_simps [simp]:
  "t_revision team_row1 = 1" "t_state team_row1 = Active" "t_doc team_row1 = demo_doc 100" "t_name team_row1 = ''finance''"
  "t_revision team_row2 = 2" "t_state team_row2 = Active" "t_doc team_row2 = demo_doc 200" "t_name team_row2 = ''finance''"
  by (simp_all add: team_row1_def team_row2_def)

lemma demo_settings_simps [simp]:
  "require_db team0 = Inr ()" "require_db team1 = Inr ()" "require_db team2 = Inr ()"
  "db_sqlite (cfg team0)" "db_sqlite (cfg team1)" "db_sqlite (cfg team2)"
  by (simp_all add: require_db_def db_source_def team_worlds)

lemma demo_create_eval:
  "create_team no_ext no_checks ''op'' demo_create 5 team0 = (Inr (demo_view team_row1 (demo_impact 100 JNull)), team1)"
  by (simp add: create_team_def create_tx_def after_check_def connect_def demo_create_def demo_reviews demo_gates demo_writes)

lemma demo_replace_eval:
  "replace_team no_ext no_checks ''op'' ''finance'' demo_replace (Some ''1'') 6 team1 =
     (Inr (demo_view team_row2 (demo_impact 200 (JNum 100))), team2)"
  by (simp add: replace_team_def in_revision_def replace_tx_def after_check_def connect_def demo_replace_def
      stored_team_def reviewed_change_def require_team_change_def demo_texts demo_reviews demo_gates demo_writes)

lemma team_reachable0: "reachable (demo_sys team0 [])"
  by (rule reach_init) (auto simp: initial_def demo_sys_def team0_def)

lemma team_reachable1: "reachable (demo_sys team1 [])"
proof -
  let ?s = "demo_sys team0 []"
  have "ledger_step ?s (?s\<lparr>s_world := snd (create_team no_ext no_checks ''op'' demo_create 5 (s_world ?s))\<rparr>)"
    by (rule ls_create_team)
  then have "ledger_step ?s (demo_sys team1 [])" by (simp add: demo_sys_def demo_create_eval)
  with team_reachable0 show ?thesis by (rule reach_step)
qed

lemma team_step2: "ledger_step (demo_sys team1 []) (demo_sys team2 [])"
proof -
  let ?s = "demo_sys team1 []"
  have "ledger_step ?s (?s\<lparr>s_world :=
      snd (replace_team no_ext no_checks ''op'' ''finance'' demo_replace (Some ''1'') 6 (s_world ?s))\<rparr>)"
    by (rule ls_replace_team)
  then show ?thesis by (simp add: demo_sys_def demo_replace_eval)
qed

lemma team_reachable2: "reachable (demo_sys team2 [])"
  by (rule reach_step [OF team_reachable1 team_step2])


section \<open>Import, revert and archive\<close>

definition demo_import :: team_import where
  "demo_import = \<lparr>im_yaml = ''tenants.yaml'', im_apply = True, im_reason = ''sync'', im_acknowledge = [],
     im_expected = [(''finance'', Some 1)]\<rparr>"

definition demo_revert :: team_revert where
  "demo_revert = \<lparr>rv_revision = 1, rv_reason = ''undo'', rv_acknowledge = []\<rparr>"

definition demo_archive :: team_archive where
  "demo_archive = \<lparr>ar_reason = ''disbanded'', ar_force = False\<rparr>"

text \<open>What each of them writes after the state \<open>before\<close>, whose last event is the n-th.\<close>

definition written_world :: "world \<Rightarrow> nat \<Rightarrow> string \<Rightarrow> nat \<Rightarrow> team_row \<Rightarrow> team_revision \<Rightarrow> world" where
  "written_world w n act t r rv = w\<lparr>teams := [r], team_revisions := team_revisions w @ [rv],
     events := events w @ [team_event (n + 1) (Ev_team act ''finance'' (t_revision r)) t]\<rparr>"

definition demo_rev :: "team_row \<Rightarrow> string \<Rightarrow> string \<Rightarrow> string list \<Rightarrow> team_revision" where
  "demo_rev r why act changed = \<lparr>tr_name = ''finance'', tr_revision = t_revision r, tr_actor = ''op'',
     tr_at = t_updated_at r, tr_reason = why, tr_state = t_state r, tr_doc = t_doc r,
     tr_summary = \<lparr>ts_action = act, ts_added = [], ts_removed = [], ts_changed = changed\<rparr>\<rparr>"

definition team_row3 :: team_row where
  "team_row3 = team_row1\<lparr>t_revision := 3, t_updated_at := 7\<rparr>"

definition team_row4 :: team_row where
  "team_row4 = team_row2\<lparr>t_revision := 3, t_state := Archived, t_updated_at := 7\<rparr>"

abbreviation budget_path :: string where
  "budget_path \<equiv> ''environments.dev.budget_monthly''"

definition import_world :: world where
  "import_world = written_world team1 1 ''import'' 6 team_row2 (demo_rev team_row2 ''sync'' ''import'' [budget_path])"

definition revert_world :: world where
  "revert_world = written_world team2 2 ''revert'' 7 team_row3 (demo_rev team_row3 ''undo'' ''revert'' [budget_path])"

definition archive_world :: world where
  "archive_world = written_world team2 2 ''archive'' 7 team_row4 (demo_rev team_row4 ''disbanded'' ''archive'' [])"

lemma demo_diffs2:
  "diff (Some (demo_doc 200)) (demo_doc 100) = \<lparr>df_added = [], df_removed = [], df_changed = [budget_path]\<rparr>"
  "diff (Some (demo_doc 200)) (demo_doc 200) = \<lparr>df_added = [], df_removed = [], df_changed = []\<rparr>"
  by code_simp+

lemma demo_writes2:
  "write_doc ''op'' ''finance'' (demo_doc 200) Active ''sync'' ''import'' (Some team_row1) None 6 team1 =
     (Inr (team_view_of (item_of_row team_row2) True None None), import_world)"
  "write_doc ''op'' ''finance'' (demo_doc 100) Active ''undo'' ''revert'' (Some team_row2)
     (Some ([], demo_impact 100 (JNum 200))) 7 team2 =
     (Inr (demo_view team_row3 (demo_impact 100 (JNum 200))), revert_world)"
  "write_doc ''op'' ''finance'' (demo_doc 200) Archived ''disbanded'' ''archive'' (Some team_row2) None 7 team2 =
     (Inr (team_view_of (item_of_row team_row4) True None None), archive_world)"
  by (simp_all add: team_write_defs demo_diffs demo_diffs2 Let_def demo_view_def team_worlds import_world_def revert_world_def
      archive_world_def written_world_def team_row3_def team_row4_def demo_rev_def)

lemma team_get_demo2 [simp]:
  "team_get ''finance'' import_world = Some team_row2" "team_get ''finance'' revert_world = Some team_row3"
  "team_get ''finance'' archive_world = Some team_row4"
  by (simp_all add: import_world_def revert_world_def archive_world_def written_world_def team_get_def row_find_Cons
      team_row1_def team_row2_def team_row3_def team_row4_def)

lemma demo_content3:
  "content_findings (admin_env no_ext no_checks) ''finance'' (demo_doc 200) [(''finance'', demo_doc 200)] = Inr []"
  by code_simp

lemma demo_impacts2: "impact (Some (demo_doc 200)) (demo_doc 100) [] = Inr (demo_impact 100 (JNum 200))"
  by code_simp

lemma demo_impact_findings2: "impact_findings ''finance'' (demo_doc 200) (demo_doc 100) [] = Inr []"
  by code_simp

lemma demo_alone2: "other_docs ''finance'' team2 = []" "team_resources ''finance'' team2 = []"
  by (simp_all add: other_docs_def list_all_teams_def team_resources_def all_resources_def team_worlds team_row2_def
      team_row1_def)

lemma demo_reviews2:
  "review no_ext no_checks ''finance'' (demo_doc 200) (Some team_row1) (Some [(''finance'', demo_doc 200)]) team1 =
     Inr ([], demo_impact 200 (JNum 100))"
  "review no_ext no_checks ''finance'' (demo_doc 100) (Some team_row2) None team2 = Inr ([], demo_impact 100 (JNum 200))"
  using demo_clean team_shape_Nil
  by (simp_all add: review_def Let_def demo_alone demo_alone2 demo_impacts demo_impacts2 demo_dict check_team_def demo_name
      demo_content1 demo_content3 demo_impact_findings demo_impact_findings2 only_if_def)

lemma demo_parse: "parse_mapping (Some demo_yaml) = ([(''finance'', demo_doc 200)], [])"
  by code_simp

lemma demo_yaml_parsed: "ce_yaml no_checks text = Some demo_yaml"
  by (simp add: no_checks_def)

lemma demo_import_eval:
  "\<exists>rep. import_teams no_ext no_checks ''op'' demo_import 6 team1 = (Inr rep, import_world) \<and> ir_applied rep"
proof -
  have u: "import_units ([(''finance'', demo_doc 200)], []) = ([(''finance'', demo_doc 200)], [])"
    by (simp add: import_units_def demo_name)
  have final: "final_docs [(''finance'', demo_doc 200)] team1 = [(''finance'', demo_doc 200)]"
    by (simp add: final_docs_def dict_merge_def demo_dict list_all_teams_def team1_def team_row1_def)
  define en where "en = \<lparr>ie_name = ''finance'', ie_action = ''update'', ie_revision = None, ie_findings = [],
     ie_impact = Some (demo_impact 200 (JNum 100)), ie_doc = demo_doc 200, ie_stored = Some team_row1\<rparr>"
  have plan: "plan_import no_ext no_checks [(''finance'', demo_doc 200)] team1 = Inr [en]"
    by (simp add: plan_import_def by_name_def final plan_entry_def demo_reviews2 demo_texts en_def)
  have gate: "import_gate [en] [] demo_import = Inr ()"
    by (simp add: import_gate_def en_def demo_import_def ie_current_def ie_changes_def has_level_def warning_codes_def
        sorted_keys_def)
  have wp: "write_plan ''op'' ''sync'' [en] 6 team1 = (Inr [en\<lparr>ie_revision := Some 2\<rparr>], import_world)"
    by (simp add: en_def ie_changes_def demo_writes2 team_view_of_def item_of_row_def)
  have "im_reason demo_import = ''sync''" "ie_changes (en\<lparr>ie_revision := Some 2\<rparr>)"
    by (simp_all add: demo_import_def en_def ie_changes_def)
  then have "import_tx no_ext no_checks ''op'' demo_import [(''finance'', demo_doc 200)] [] 6 team1 =
      (Inr (import_report_of [en\<lparr>ie_revision := Some 2\<rparr>] [] True True), import_world)"
    by (simp add: import_tx_def plan gate after_check_def wp del: write_plan.simps)
  then show ?thesis
    by (simp add: import_teams_def demo_yaml_parsed demo_parse u after_check_def connect_def import_report_of_def Let_def)
      (simp add: demo_import_def blank_def is_space_def)
qed

lemma demo_revert_eval:
  "revert_team no_ext no_checks ''op'' ''finance'' demo_revert (Some ''2'') 7 team2 =
     (Inr (demo_view team_row3 (demo_impact 100 (JNum 200))), revert_world)"
proof -
  have "find_revision ''finance'' 1 team2 = Some team_rev1" "tr_doc team_rev1 = demo_doc 100"
    by (simp_all add: find_revision_def team2_def team_rev1_def)
  then show ?thesis
    by (simp add: revert_team_def in_revision_def revert_tx_def after_check_def connect_def demo_revert_def
        stored_team_def reviewed_change_def require_team_change_def demo_texts demo_reviews2 demo_gates demo_writes2)
qed

lemma demo_archive_eval:
  "archive_team ''op'' ''finance'' demo_archive (Some ''2'') 7 team2 =
     (Inr (team_view_of (item_of_row team_row4) True None None), archive_world)"
  by (simp add: archive_team_def in_revision_def archive_tx_def after_check_def connect_def demo_archive_def
      stored_team_def demo_texts demo_alone2 demo_writes2)

end
