(* ===== verification/TeamProperties.thy ===== *)
theory TeamProperties
  imports TeamScenario
begin

text \<open>
  What team administration guarantees, in every run of the whole program: the history of a team is
  complete, announced and never rewritten; no change overwrites one its author did not see; an import is
  applied entirely or not at all; only documents of the right shape are stored; and two inputs the checks
  answer with an exception instead of a report.
\<close>

section \<open>The invariant read at a team\<close>

lemma reachable_teams_ok: "reachable s \<Longrightarrow> teams_ok (s_world s)"
  using ledger.reach_inv by (simp add: sys_inv_def)

lemma reachable_team_ok: "reachable s \<Longrightarrow> team_ok n (s_world s)"
  using reachable_teams_ok by (simp add: teams_ok_def)

lemma steps_team_evolves:
  assumes "reachable s" "steps ledger_step s s'"
  shows "team_evolves (s_world s) (s_world s')"
  using assms(2,1)
proof (induction rule: steps.induct)
  case (steps_step s t u)
  have "sys_inv t" using ledger.reach_inv [OF ledger.reach_steps [OF steps_step.prems steps_step.hyps(1)]] .
  then have "team_evolves (s_world t) (s_world u)"
    using micros_team_evolves [OF ledger_step_micros [OF steps_step.hyps(2)]] by simp
  with steps_step show ?case using team_evolves_trans by blast
qed simp

lemma find_revision_history: "find_revision n k w = row_find tr_revision k (team_history n w)"
proof -
  have "find (\<lambda>r. tr_name r = n \<and> tr_revision r = k) xs = find (\<lambda>r. tr_revision r = k) (filter (\<lambda>r. tr_name r = n) xs)"
    for xs by (induction xs) auto
  then show ?thesis by (simp add: find_revision_def team_history_def row_find_def)
qed

lemma team_history_find:
  assumes "team_ok n w" "rv \<in> set (team_history n w)"
  shows "find_revision n (tr_revision rv) w = Some rv"
proof -
  have "distinct (map tr_revision (team_history n w))"
    using assms by (cases "team_get n w") (auto simp: team_ok_def)
  from row_find_Some_iff [OF this] assms(2) show ?thesis by (simp add: find_revision_history)
qed

lemma current_revision_stored:
  assumes ok: "teams_ok w" and r: "team_get n w = Some r"
  obtains rv where "find_revision n (t_revision r) w = Some rv" "rv \<in> set (team_history n w)"
    "tr_doc rv = t_doc r" "tr_state rv = t_state r" "canon (t_doc r) = t_doc r"
proof -
  have tok: "team_ok n w" using ok by (simp add: teams_ok_def)
  let ?hs = "team_history n w"
  have revs: "map tr_revision ?hs = [1..<Suc (t_revision r)]" and nz: "t_revision r \<noteq> 0"
    by (rule team_okD [OF tok r])+
  then have ne: "?hs \<noteq> []" by auto
  have "tr_revision (last ?hs) = last (map tr_revision ?hs)" using ne by (simp add: last_map)
  then have num: "tr_revision (last ?hs) = t_revision r" using revs nz by simp
  have mem: "last ?hs \<in> set ?hs" using ne by simp
  have "(tr_doc (last ?hs), tr_state (last ?hs)) = last (team_versions n w)"
    using ne by (simp add: team_versions_def last_map)
  then have d: "tr_doc (last ?hs) = t_doc r" "tr_state (last ?hs) = t_state r"
    using team_okD(5) [OF tok r] by simp_all
  have "last ?hs \<in> set (team_revisions w)" using mem by (simp add: team_history_def)
  then have "canon (tr_doc (last ?hs)) = tr_doc (last ?hs)" using ok by (simp add: teams_ok_def)
  then show ?thesis using that team_history_find [OF tok mem] mem num d by simp
qed

section \<open>Histories\<close>

text \<open>In every reachable state the revisions of a team are numbered 1, 2, ... without a gap up to the
  current one, the last of them holds the current document and state, and each was announced by an accepted
  audit event of the same operator, action and number.\<close>

theorem team_history_complete:
  assumes "reachable s" and "team_get n (s_world s) = Some r"
  shows "map tr_revision (team_history n (s_world s)) = [1..<Suc (t_revision r)] \<and>
    last (team_versions n (s_world s)) = (t_doc r, t_state r) \<and>
    list_all (announced (events (s_world s))) (team_history n (s_world s))"
proof -
  note ok = team_okD [OF reachable_team_ok [OF assms(1)] assms(2)]
  have "announced (events (s_world s)) rv" if "rv \<in> set (team_history n (s_world s))" for rv
    using reachable_teams_ok [OF assms(1)] that by (simp add: teams_ok_def team_history_def)
  then show ?thesis using ok by (simp add: list_all_iff)
qed

theorem team_history_complete_witness:
  "map tr_revision (team_history ''finance'' team2) = [1..<Suc 2]"
  using team_history_complete [OF team_reachable2, of "''finance''" team_row2] by (simp add: demo_sys_def)

text \<open>The abstract store of documents: every version of every team, oldest first; a write appends one
  version to one team.\<close>

inductive version_step :: "(string \<Rightarrow> (json \<times> team_state) list) \<Rightarrow> (string \<Rightarrow> (json \<times> team_state) list) \<Rightarrow> bool" where
  add_version: "version_step h (h(n := h n @ [v]))"

definition versions_of :: "world \<Rightarrow> string \<Rightarrow> (json \<times> team_state) list" where
  "versions_of w = (\<lambda>n. team_versions n w)"

definition versions_kept :: "(string \<Rightarrow> (json \<times> team_state) list) \<Rightarrow> (string \<Rightarrow> (json \<times> team_state) list) \<Rightarrow> bool" where
  "versions_kept h h' \<longleftrightarrow> (\<forall>n. Sublist.prefix (h n) (h' n))"

interpretation version_store: monotone_system "\<lambda>h. h = (\<lambda>_. [])" version_step "\<lambda>_. True" versions_kept
proof unfold_locales
  fix h t u :: "string \<Rightarrow> (json \<times> team_state) list"
  show "versions_kept h t \<Longrightarrow> versions_kept t u \<Longrightarrow> versions_kept h u"
    unfolding versions_kept_def using prefix_order.trans by blast
qed (auto simp: versions_kept_def version_step.simps)

lemma team_write_version:
  assumes "team_write w w'"
  shows "version_step (versions_of w) (versions_of w')"
proof -
  obtain name who d st why sm t where
    wr: "write_team who name d st why sm (team_get name w) t w = (Inr (written_row who name d st (team_get name w) t), w')"
    using assms by (rule team_write_cases)
  have "versions_of w' = (versions_of w)(name := versions_of w name @ [(canon d, st)])"
    using team_history_append [OF write_teamD(7) [OF wr]]
    by (auto simp: versions_of_def team_versions_def written_revision_def)
  then show ?thesis by (metis add_version)
qed

lemma micros_versions: "micros q w w' \<Longrightarrow> steps version_step (versions_of w) (versions_of w')"
proof (induction rule: steps.induct)
  case (steps_step s t u)
  have "versions_of u = versions_of t" if "teams u = teams t" "team_revisions u = team_revisions t"
    using that by (simp add: versions_of_def team_versions_def team_history_def)
  then show ?case
    using micro_teams [OF steps_step.hyps(2)] team_write_version [of t u] steps_step.IH
    by (auto intro: steps.steps_step)
qed (rule steps_refl)

text \<open>C27. The team tables implement the abstract store: every step of the program, seen through the
  documents of each team's revisions, appends versions and nothing else, and what a read returns as a
  team's current document and state is its last version.\<close>

theorem teams_refine_versions:
  assumes "reachable s" and "ledger_step s s'"
  shows "steps version_step (versions_of (s_world s)) (versions_of (s_world s')) \<and>
    versions_kept (versions_of (s_world s)) (versions_of (s_world s')) \<and>
    (case team_get n (s_world s') of
       None \<Rightarrow> versions_of (s_world s') n = []
     | Some r \<Rightarrow> length (versions_of (s_world s') n) = t_revision r \<and>
         last (versions_of (s_world s') n) = (t_doc r, t_state r))"
proof -
  have m: "steps version_step (versions_of (s_world s)) (versions_of (s_world s'))"
    using micros_versions [OF ledger_step_micros [OF assms(2) ledger.reach_inv [OF assms(1)]]] .
  have ok: "team_ok n (s_world s')" by (rule reachable_team_ok [OF reach_step [OF assms]])
  have "length (versions_of (s_world s') n) = t_revision r" if "team_get n (s_world s') = Some r" for r
    using arg_cong [OF team_okD(4) [OF ok that], of length] by (simp add: versions_of_def team_versions_def)
  then show ?thesis
    using m version_store.steps_rel [OF m] ok team_okD(5) [OF ok]
    by (auto simp: versions_of_def team_versions_def team_ok_def split: option.splits)
qed

theorem teams_refine_versions_witness:
  "versions_kept (versions_of team1) (versions_of team2) \<and>
   last (versions_of team2 ''finance'') = (demo_doc 200, Active)"
  using teams_refine_versions [OF team_reachable1 team_step2, of "''finance''"] by (simp add: demo_sys_def)

section \<open>Types of stored documents\<close>

text \<open>C40. Whatever is stored as a team, now or in its history, is a document the shape check accepts, with
  keys in order, under a name the portal can route.\<close>

theorem stored_teams_well_shaped:
  assumes "reachable s" and "team_get n (s_world s) = Some r"
  shows "valid_name n \<and> team_shape (t_doc r) (Some n) = [] \<and> canon (t_doc r) = t_doc r \<and>
    list_all (\<lambda>rv. team_shape (tr_doc rv) (Some n) = [] \<and> canon (tr_doc rv) = tr_doc rv) (team_history n (s_world s))"
proof -
  note tok = reachable_team_ok [OF assms(1), of n]
  have ok: "teams_ok (s_world s)" using assms(1) by (rule reachable_teams_ok)
  have "clean (tr_doc rv) \<and> canon (tr_doc rv) = tr_doc rv" if "rv \<in> set (team_history n (s_world s))" for rv
    using ok that by (simp add: teams_ok_def team_history_def)
  moreover have "canon (t_doc r) = t_doc r" by (rule current_revision_stored [OF ok assms(2)])
  ultimately show ?thesis
    using team_okD(1,2) [OF tok assms(2)] by (simp add: team_shape_Nil list_all_iff)
qed

theorem stored_teams_well_shaped_witness:
  "team_shape (demo_doc 200) (Some ''finance'') = []"
  using stored_teams_well_shaped [OF team_reachable2, of "''finance''" team_row2] by (simp add: demo_sys_def)


section \<open>Writes\<close>

lemma connect_Inr: "connect body w = (Inr v, w') \<Longrightarrow> body w = (Inr v, w') \<and> db_sqlite (cfg w)"
  by (rule connect_InrD)

lemma in_revision_InrD:
  "in_revision h body w = (Inr v, w') \<Longrightarrow>
   require_db w = Inr () \<and> body w = (Inr v, w') \<and> db_sqlite (cfg w) \<and> (\<exists>n. revision_number h = Inr n)"
  by (auto simp: in_revision_def sbind_Inr_iff dest!: after_check_InrD connect_InrD)

lemma write_doc_result:
  assumes "write_doc who name d st why act (team_get name w) rv t w = (Inr v, w')"
  shows "team_get k w' = (if k = name then Some (written_row who name d st (team_get name w) t) else team_get k w)"
    and "tv_item v = item_of_row (written_row who name d st (team_get name w) t)"
    and "tv_findings v = map_option fst rv"
proof -
  obtain sm where wr: "write_team who name d st why sm (team_get name w) t w =
      (Inr (written_row who name d st (team_get name w) t), w')"
    and v: "tv_item v = item_of_row (written_row who name d st (team_get name w) t)" "tv_findings v = map_option fst rv"
    using assms by (rule write_docD)
  show "team_get k w' = (if k = name then Some (written_row who name d st (team_get name w) t) else team_get k w)"
    by (rule write_teamD(4) [OF wr])
  show "tv_item v = item_of_row (written_row who name d st (team_get name w) t)" "tv_findings v = map_option fst rv"
    by (rule v)+
qed

lemma replace_effect_facts:
  assumes "replace_team x e who name b h t w = (Inr v, w')"
  shows "\<exists>r fs. team_get name w = Some r \<and> revision_number h = Inr (Some (t_revision r)) \<and>
    \<not> py_same (t_doc r) (rp_team b) \<and> tv_findings v = Some fs \<and> has_level L_error fs = [] \<and>
    set (warning_codes fs) \<subseteq> set (rp_acknowledge b) \<and>
    team_get name w' = Some (r\<lparr>t_revision := t_revision r + 1, t_doc := canon (rp_team b), t_updated_at := t,
      t_updated_by := who\<rparr>) \<and> (\<forall>k. k \<noteq> name \<longrightarrow> team_get k w' = team_get k w)"
proof -
  have "replace_tx x e who name b h t w = (Inr v, w')"
    using in_revision_InrD [OF assms [unfolded replace_team_def]] by blast
  then obtain r rv where r: "team_get name w = Some r" "revision_number h = Inr (Some (t_revision r))"
    and ch: "reviewed_change x e name (rp_team b) (rp_acknowledge b) r w = Inr rv"
    and wr: "write_doc who name (rp_team b) (t_state r) (rp_reason b) ''update'' (team_get name w) (Some rv) t w = (Inr v, w')"
    by (rule replace_txD)
  from reviewed_changeD [OF ch] write_doc_result [OF wr] r show ?thesis
    by (intro exI [of _ r] exI [of _ "fst rv"]) (auto simp: written_row_def)
qed

text \<open>What a replacement does: it was made on the revision named by the header, the document differs from
  the current one, has no error finding and every warning was acknowledged; the team then has the new
  document one revision later, in the same state, and every other team is as it was.\<close>

theorem replace_effect:
  assumes "replace_team x e who name b h t w = (Inr v, w')"
  shows "\<exists>r fs. team_get name w = Some r \<and> revision_number h = Inr (Some (t_revision r)) \<and>
    \<not> py_same (t_doc r) (rp_team b) \<and> tv_findings v = Some fs \<and> has_level L_error fs = [] \<and>
    set (warning_codes fs) \<subseteq> set (rp_acknowledge b) \<and>
    team_get name w' = Some (r\<lparr>t_revision := t_revision r + 1, t_doc := canon (rp_team b), t_updated_at := t,
      t_updated_by := who\<rparr>) \<and> (\<forall>k. k \<noteq> name \<longrightarrow> team_get k w' = team_get k w)"
  using assms by (rule replace_effect_facts)

theorem replace_effect_witness:
  "\<exists>r fs. team_get ''finance'' team1 = Some r \<and> has_level L_error fs = [] \<and>
    team_get ''finance'' team2 = Some (r\<lparr>t_revision := t_revision r + 1, t_doc := canon (demo_doc 200),
      t_updated_at := 6, t_updated_by := ''op''\<rparr>)"
  using replace_effect [OF demo_replace_eval] by (auto simp: demo_replace_def)

text \<open>A header that names a revision the team has left is refused, whoever sends it and for whatever.\<close>

lemma stale_stored:
  "team_get name w = Some r \<Longrightarrow> revision_number h = Inr (Some k) \<Longrightarrow> k \<noteq> t_revision r \<Longrightarrow>
   stored_team name h w = Inl (OperationError 412 Revision_stale None)"
  by (simp add: stored_team_def)

lemma stale_refused:
  assumes "require_db w = Inr ()" "db_sqlite (cfg w)" "revision_number h = Inr (Some k)"
    and "stored_team name h w = Inl er"
  shows "replace_team x e who name rb h t w = (Inl er, w)" and "revert_team x e who name vb h t w = (Inl er, w)"
    and "archive_team who name ab h t w = (Inl er, w)" and "unarchive_team x e who name why h t w = (Inl er, w)"
  using assms
  by (simp_all add: replace_team_def revert_team_def archive_team_def unarchive_team_def in_revision_def connect_def
      after_check_def replace_tx_def revert_tx_def archive_tx_def unarchive_tx_def)

text \<open>A revision once stored is found again, unchanged, at any later time.\<close>

lemma revision_stays:
  assumes ev: "team_evolves w w'" and rv: "find_revision n k w = Some rv"
  shows "find_revision n k w' = Some rv"
proof -
  obtain new where "team_revisions w' = team_revisions w @ new"
    using ev by (auto simp: team_evolves_def prefix_def)
  moreover have "find P xs = Some y \<Longrightarrow> find P (xs @ ys) = Some y" for P and xs ys :: "team_revision list" and y
    by (induction xs) (auto split: if_splits)
  ultimately show ?thesis using rv by (simp add: find_revision_def)
qed

text \<open>C37. A revert restores the document. Whatever document a team had at some moment under some revision
  number, a later successful revert to that number makes exactly that document current again, one
  revision after the one it replaces; the state (active or archived) stays the present one.\<close>

theorem revert_restores:
  assumes "reachable s" and "team_get n (s_world s) = Some r" and "steps ledger_step s s2"
    and "rv_revision b = t_revision r" and "revert_team x e who n b h t (s_world s2) = (Inr v, w')"
  shows "\<exists>r2 r'. team_get n (s_world s2) = Some r2 \<and> team_get n w' = Some r' \<and> t_doc r' = t_doc r \<and>
    t_revision r' = t_revision r2 + 1 \<and> t_state r' = t_state r2"
proof -
  let ?w = "s_world s2"
  obtain rv where rv: "find_revision n (t_revision r) (s_world s) = Some rv" "tr_doc rv = t_doc r"
    "canon (t_doc r) = t_doc r"
    using current_revision_stored [OF reachable_teams_ok [OF assms(1)] assms(2)] by metis
  have later: "find_revision n (t_revision r) ?w = Some rv"
    by (rule revision_stays [OF steps_team_evolves [OF assms(1,3)] rv(1)])
  have "revert_tx x e who n b h t ?w = (Inr v, w')"
    using in_revision_InrD [OF assms(5) [unfolded revert_team_def]] by blast
  then obtain stored target rvw where st: "team_get n ?w = Some stored"
    and tg: "find_revision n (rv_revision b) ?w = Some target"
    and wr: "write_doc who n (tr_doc target) (t_state stored) (rv_reason b) ''revert'' (team_get n ?w) (Some rvw) t ?w = (Inr v, w')"
    by (rule revert_txD)
  have "target = rv" using tg later assms(4) by simp
  then show ?thesis using write_doc_result(1) [OF wr, of n] st rv by (simp add: written_row_def)
qed

theorem revert_restores_witness:
  "\<exists>r'. team_get ''finance'' revert_world = Some r' \<and> t_doc r' = demo_doc 100 \<and> t_revision r' = 3"
proof -
  have r: "team_get ''finance'' (s_world (demo_sys team1 [])) = Some team_row1" by (simp add: demo_sys_def)
  have st: "steps ledger_step (demo_sys team1 []) (demo_sys team2 [])" by (rule steps_single) (rule team_step2)
  have "revert_team no_ext no_checks ''op'' ''finance'' demo_revert (Some ''2'') 7 (s_world (demo_sys team2 [])) =
      (Inr (demo_view team_row3 (demo_impact 100 (JNum 200))), revert_world)"
    by (simp add: demo_sys_def demo_revert_eval)
  from revert_restores [OF team_reachable1 r st _ this] show ?thesis
    by (simp add: demo_revert_def demo_sys_def)
qed

text \<open>Archiving. A team is archived without force only when none of its resources still exists; an
  archived team places no new work, for any caller, pattern and environment.\<close>

theorem archive_stops_new_work:
  assumes "archive_team who n b h t w = (Inr v, w')"
  shows "(team_resources n w = [] \<or> ar_force b) \<and>
    (\<exists>r. team_get n w = Some r \<and> t_state r = Active \<and> team_get n w' = Some (r\<lparr>t_revision := t_revision r + 1,
       t_state := Archived, t_doc := canon (t_doc r), t_updated_at := t, t_updated_by := who\<rparr>)) \<and>
    (\<forall>r c env pat. team_get n w' = Some r \<longrightarrow> place c (unit_of_row r) env pat False = Inl (TenancyError 409))"
proof -
  have "archive_tx who n b h t w = (Inr v, w')"
    using in_revision_InrD [OF assms [unfolded archive_team_def]] by blast
  then obtain r where r: "team_get n w = Some r" "t_state r \<noteq> Archived" "team_resources n w = [] \<or> ar_force b"
    and wr: "write_doc who n (t_doc r) Archived (ar_reason b) ''archive'' (team_get n w) None t w = (Inr v, w')"
    by (rule archive_txD)
  have "t_state r = Active" using r(2) by (cases "t_state r") auto
  then show ?thesis
    using write_doc_result(1) [OF wr, of n] r
    by (auto simp: written_row_def unit_of_row_def build_unit_def Let_def place_def)
qed

theorem archive_stops_new_work_witness:
  "t_state team_row4 = Archived \<and>
   place \<lparr>caller_id = ''amy'', caller_groups = [''g1'']\<rparr> (unit_of_row team_row4) (Some ''dev'') ''web'' False =
     Inl (TenancyError 409)"
  using archive_stops_new_work [OF demo_archive_eval] by (auto simp: team_row4_def)

section \<open>Import\<close>

definition imported_units :: "check_env \<Rightarrow> team_import \<Rightarrow> (string \<times> json) list" where
  "imported_units e b = fst (import_units (parse_mapping (ce_yaml e (im_yaml b))))"

definition imported_row :: "string \<Rightarrow> nat \<Rightarrow> (string \<times> json) list \<Rightarrow> world \<Rightarrow> string \<Rightarrow> team_row option" where
  "imported_row who t units w n = (case map_of units n of
      None \<Rightarrow> team_get n w
    | Some d \<Rightarrow> (case team_get n w of
        None \<Rightarrow> Some (written_row who n d Active None t)
      | Some r \<Rightarrow> if py_same (t_doc r) d then Some r else Some (written_row who n d (t_state r) (Some r) t)))"

lemma find_map_of:
  assumes "map ie_name plan = map fst xs" "map ie_doc plan = map snd xs"
  shows "find (\<lambda>en. ie_name en = n) plan = None \<longleftrightarrow> map_of xs n = None"
    and "find (\<lambda>en. ie_name en = n) plan = Some en \<Longrightarrow> map_of xs n = Some (ie_doc en)"
  using assms
proof (induction plan arbitrary: xs)
  case Nil
  { case 1 then show ?case by simp next case 2 then show ?case by simp }
next
  case (Cons p plan)
  { case 1 then show ?case using Cons.IH(1) by (cases xs) auto next
    case 2 then show ?case using Cons.IH(2) by (cases xs) (auto split: if_splits) }
qed

lemma find_changing:
  assumes "distinct (map ie_name plan)"
  shows "find (\<lambda>en. ie_name en = n \<and> ie_changes en) plan =
    (case find (\<lambda>en. ie_name en = n) plan of None \<Rightarrow> None | Some en \<Rightarrow> if ie_changes en then Some en else None)"
  using assms
proof (induction plan)
  case (Cons p plan)
  have "find (\<lambda>en. ie_name en = n) plan = None" if "ie_name p = n"
    using Cons.prems that by (auto simp: find_None_iff) (metis imageI)
  then show ?case using Cons by auto
qed simp

lemma import_rows:
  assumes "import_tx x e who b units ffs t w = (Inr rep, w')" and "distinct (map fst units)"
  shows "team_get n w' = imported_row who t units w n"
proof -
  obtain plan out where p: "plan_import x e units w = Inr plan" and dist: "distinct (map ie_name plan)"
    and ok: "list_all (entry_ok w) plan" and names: "map ie_name plan = map fst (by_name units)"
    and wr: "write_plan who (im_reason b) plan t w = (Inr out, w')"
    using assms by (rule import_txD)
  note sm = p [unfolded plan_import_def]
  have docs: "map ie_doc plan = map snd (by_name units)"
    by (rule smap_map [OF sm]) (rule plan_entryD(2))
  have chg: "list_all (\<lambda>en. ie_changes en \<longleftrightarrow> (case team_get (ie_name en) w of
      None \<Rightarrow> True | Some r \<Rightarrow> \<not> py_same (t_doc r) (ie_doc en))) plan"
    by (rule smap_list_all [OF sm]) (use plan_entryD(1,2,4) in metis)
  have get: "team_get n w' = (case find (\<lambda>en. ie_name en = n \<and> ie_changes en) plan of
      None \<Rightarrow> team_get n w | Some en \<Rightarrow> Some (entry_row who t en))"
    by (rule write_plan_result(2) [OF wr dist ok])
  note fm = find_map_of [OF names docs, of n, unfolded by_name_def map_of_sort_key]
  show ?thesis
  proof (cases "find (\<lambda>en. ie_name en = n) plan")
    case None
    then show ?thesis using get fm(1) by (simp add: find_changing [OF dist] imported_row_def)
  next
    case (Some en)
    then have en: "en \<in> set plan" "ie_name en = n" by (auto simp: find_Some_iff)
    then have "ie_stored en = team_get n w" "ie_changes en \<longleftrightarrow> (case team_get n w of
        None \<Rightarrow> True | Some r \<Rightarrow> \<not> py_same (t_doc r) (ie_doc en))"
      using ok chg by (auto simp: list_all_iff entry_ok_def)
    then show ?thesis
      using get fm(2) [OF Some] Some en(2)
      by (auto simp: find_changing [OF dist] imported_row_def entry_row_def entry_state_def split: option.splits)
  qed
qed


lemma write_plan_findings:
  assumes "write_plan who why plan t w = (Inr out, w')"
  shows "map (\<lambda>en. (ie_changes en, ie_findings en)) out = map (\<lambda>en. (ie_changes en, ie_findings en)) plan"
  using assms
proof (induction plan arbitrary: w out)
  case (Cons en plan)
  show ?case
  proof (cases "ie_changes en")
    case True
    obtain v w1 rest where "write_doc who (ie_name en) (ie_doc en) (entry_state en) why ''import'' (ie_stored en) None t w = (Inr v, w1)"
      and wr: "write_plan who why plan t w1 = (Inr rest, w')"
      and out: "out = en\<lparr>ie_revision := Some (ti_revision (tv_item v))\<rparr> # rest"
      by (rule write_plan_change [OF True Cons.prems])
    show ?thesis using Cons.IH [OF wr] by (simp add: out ie_changes_def)
  next
    case False
    then obtain rest where wr: "write_plan who why plan t w = (Inr rest, w')" and out: "out = en # rest"
      using write_plan_skip [OF False Cons.prems] by blast
    show ?thesis using Cons.IH [OF wr] by (simp add: out)
  qed
qed simp

lemma list_all_findings:
  fixes plan out :: "import_entry list"
  assumes "list_all (\<lambda>en. ie_changes en \<longrightarrow> has_level L_error (ie_findings en) = []) plan"
    and "map (\<lambda>en. (ie_changes en, ie_findings en)) out = map (\<lambda>en. (ie_changes en, ie_findings en)) plan"
  shows "list_all (\<lambda>en. ie_changes en \<longrightarrow> has_level L_error (ie_findings en) = []) out"
proof -
  have eq: "list_all (\<lambda>en. ie_changes en \<longrightarrow> has_level L_error (ie_findings en) = []) xs =
      list_all (\<lambda>cf. fst cf \<longrightarrow> has_level L_error (snd cf) = []) (map (\<lambda>en. (ie_changes en, ie_findings en)) xs)"
    for xs by (simp add: list_all_iff)
  show ?thesis using assms(1) by (simp only: eq assms(2))
qed

lemma connect_Inl:
  "connect body w = (Inl e, w') \<Longrightarrow> plans (snd (body w)) = plans w \<Longrightarrow> w' = w"
  by (auto simp: connect_def split: if_splits prod.splits sum.splits)

lemma import_refused:
  assumes "import_teams x e who b t w = (Inl er, w')" "im_apply b"
  shows "w' = w"
proof -
  obtain units ffs where u: "import_units (parse_mapping (ce_yaml e (im_yaml b))) = (units, ffs)"
    by (cases "import_units (parse_mapping (ce_yaml e (im_yaml b)))")
  show ?thesis
    using assms(1) [unfolded import_teams_def u, simplified, unfolded after_check_def] assms(2)
      connect_Inl [of "import_tx x e who b units ffs t" w, OF _ plans_import_tx]
    by (auto split: sum.splits if_splits)
qed

text \<open>C25. An import is applied entirely or not at all. When it is refused nothing changes; when it is applied,
  every team of the text has exactly the document of the text (a new team active at revision 1, a changed
  one a revision further in its state, an equal one untouched), every other team is as it was, and no
  changed document has an error.\<close>

theorem import_all_or_nothing:
  assumes "im_apply b" and "distinct (map fst (fst (parse_mapping (ce_yaml e (im_yaml b)))))"
    and "import_teams x e who b t w = (res, w')"
  shows "case res of
      Inl er \<Rightarrow> w' = w
    | Inr rep \<Rightarrow> (\<forall>n. team_get n w' = imported_row who t (imported_units e b) w n) \<and>
        list_all (\<lambda>en. ie_changes en \<longrightarrow> has_level L_error (ie_findings en) = []) (ir_teams rep) \<and>
        has_level L_error (ir_findings rep) = []"
proof -
  obtain units ffs where u: "import_units (parse_mapping (ce_yaml e (im_yaml b))) = (units, ffs)"
    by (cases "import_units (parse_mapping (ce_yaml e (im_yaml b)))")
  have dist: "distinct (map fst units)" using import_units_distinct [OF assms(2)] u by simp
  note im = assms(3) [unfolded import_teams_def u, simplified, unfolded after_check_def]
  show ?thesis
  proof (cases res)
    case (Inl er)
    then show ?thesis using import_refused [of x e who b t w] assms(1,3) by simp
  next
    case (Inr rep)
    have tx: "import_tx x e who b units ffs t w = (Inr rep, w')"
      using im assms(1) Inr by (auto split: sum.splits if_splits dest: connect_InrD)
    have rows: "team_get n w' = imported_row who t (imported_units e b) w n" for n
      using import_rows [OF tx dist] by (simp add: imported_units_def u)
    obtain plan out where gate: "import_gate plan ffs b = Inr ()" and "distinct (map ie_name plan)"
      "list_all (entry_ok w) plan" and wr: "write_plan who (im_reason b) plan t w = (Inr out, w')"
      and rep: "rep = import_report_of out ffs (list_ex ie_changes out) True"
      using tx dist by (rule import_txD)
    have "list_all (\<lambda>en. ie_changes en \<longrightarrow> has_level L_error (ie_findings en) = []) out"
      using import_gateD(1) [OF gate] write_plan_findings [OF wr] by (rule list_all_findings)
    then show ?thesis
      using Inr rows import_gateD(2) [OF gate] by (simp add: rep import_report_of_def Let_def)
  qed
qed

theorem import_all_or_nothing_witness:
  "\<exists>rep. import_teams no_ext no_checks ''op'' demo_import 6 team1 = (Inr rep, import_world) \<and>
     team_get ''finance'' import_world =
       imported_row ''op'' 6 (imported_units no_checks demo_import) team1 ''finance''"
proof -
  obtain rep where im: "import_teams no_ext no_checks ''op'' demo_import 6 team1 = (Inr rep, import_world)"
    using demo_import_eval by blast
  have "im_apply demo_import" "distinct (map fst (fst (parse_mapping (ce_yaml no_checks (im_yaml demo_import)))))"
    by (simp_all add: demo_import_def demo_yaml_parsed demo_parse)
  from import_all_or_nothing [OF this im] im show ?thesis by simp
qed

section \<open>Stale writes\<close>

lemma check_expected_current:
  "check_expected plan expected = Inr u \<Longrightarrow> en \<in> set plan \<Longrightarrow> ie_current en = Some c \<Longrightarrow>
   map_of expected (ie_name en) = Some v \<Longrightarrow> v = Some (int c)"
  by (induction plan expected rule: check_expected.induct) (auto split: option.splits if_splits)

text \<open>An import whose text holds a team and expects of it another revision than the one it has.\<close>

definition stale_import :: "check_env \<Rightarrow> team_import \<Rightarrow> string \<Rightarrow> nat \<Rightarrow> bool" where
  "stale_import e b n k \<longleftrightarrow> im_apply b \<and> distinct (map fst (fst (parse_mapping (ce_yaml e (im_yaml b))))) \<and>
     n \<in> fst ` set (imported_units e b) \<and> map_of (im_expected b) n = Some (Some (int k))"

lemma stale_import_refused:
  assumes "stale_import e b n k" "team_get n w = Some r" "k \<noteq> t_revision r"
  shows "\<exists>er. import_teams x e who b t w = (Inl er, w)"
proof -
  obtain units ffs where u: "import_units (parse_mapping (ce_yaml e (im_yaml b))) = (units, ffs)"
    by (cases "import_units (parse_mapping (ce_yaml e (im_yaml b)))")
  note st = assms(1) [unfolded stale_import_def]
  have dist: "distinct (map fst units)" and n: "n \<in> fst ` set units"
    using import_units_distinct [of "parse_mapping (ce_yaml e (im_yaml b))"] st u by (simp_all add: imported_units_def)
  obtain res w' where im: "import_teams x e who b t w = (res, w')" by fastforce
  show ?thesis
  proof (cases res)
    case (Inl er)
    then show ?thesis using import_refused [of x e who b t w] im st by simp
  next
    case (Inr rep)
    have "import_tx x e who b units ffs t w = (Inr rep, w')"
      using im st Inr unfolding import_teams_def u prod.case after_check_def
      by (auto split: sum.splits if_splits dest: connect_InrD)
    then obtain plan where gate: "import_gate plan ffs b = Inr ()" and ok: "list_all (entry_ok w) plan"
      and names: "map ie_name plan = map fst (by_name units)"
      using dist by (rule import_txD)
    have "n \<in> set (map fst (by_name units))" using n by (simp add: by_name_def)
    then obtain en where en: "en \<in> set plan" "ie_name en = n" using names by (metis (no_types, lifting) imageE list.set_map)
    then have "ie_current en = Some (t_revision r)" using ok assms(2) by (simp add: list_all_iff entry_ok_def ie_current_def)
    from check_expected_current [OF import_gateD(3) [OF gate] en(1) this] en(2) st assms(3) show ?thesis by simp
  qed
qed

text \<open>C24. No change of a team is lost. Once a team has changed after somebody read it under some revision,
  whatever the change (replace, revert, archive, unarchive or import) and whatever happened in between, every
  later replace, revert, archive and unarchive that names the revision read is refused as stale (412), every
  later import whose text holds the team and expects that revision is refused, and none of them changes
  anything.\<close>

theorem stale_write_refused:
  assumes "reachable s" and "team_get n (s_world s) = Some r" and "revision_number h = Inr (Some (t_revision r))"
    and "steps ledger_step s s1" and "team_get n (s_world s1) \<noteq> Some r" and "steps ledger_step s1 s2"
    and "require_db (s_world s) = Inr ()" and "db_sqlite (cfg (s_world s))"
  shows "replace_team x e who n rb h t (s_world s2) = (Inl (OperationError 412 Revision_stale None), s_world s2) \<and>
    revert_team x e who n vb h t (s_world s2) = (Inl (OperationError 412 Revision_stale None), s_world s2) \<and>
    archive_team who n ab h t (s_world s2) = (Inl (OperationError 412 Revision_stale None), s_world s2) \<and>
    unarchive_team x e who n why h t (s_world s2) = (Inl (OperationError 412 Revision_stale None), s_world s2) \<and>
    (stale_import e ib n (t_revision r) \<longrightarrow> (\<exists>er. import_teams x e who ib t (s_world s2) = (Inl er, s_world s2)))"
proof -
  have r1: "reachable s1" using assms(1,4) by (rule ledger.reach_steps)
  obtain q where q: "team_get n (s_world s1) = Some q" "t_revision r < t_revision q"
    using team_evolvesD [OF steps_team_evolves [OF assms(1,4)] assms(2)] assms(5) by auto
  obtain r2 where r2: "team_get n (s_world s2) = Some r2" "t_revision r < t_revision r2"
    using team_evolvesD [OF steps_team_evolves [OF r1 assms(6)] q(1)] q(2) by auto
  have "evolves (s_world s) (s_world s1)" "evolves (s_world s1) (s_world s2)"
    using ledger.steps_rel [OF assms(4) ledger.reach_inv [OF assms(1)]] ledger.steps_rel [OF assms(6) ledger.reach_inv [OF r1]]
    by simp_all
  then have env: "require_db (s_world s2) = Inr ()" "db_sqlite (cfg (s_world s2))"
    using assms(7,8) by (simp_all add: evolves_def require_db_def db_source_def)
  have "stored_team n h (s_world s2) = Inl (OperationError 412 Revision_stale None)"
    by (rule stale_stored [OF r2(1) assms(3)]) (use r2(2) in simp)
  from stale_refused [OF env assms(3) this] stale_import_refused [OF _ r2(1), of e ib "t_revision r"] r2(2)
  show ?thesis by auto
qed

theorem stale_write_refused_witness:
  "fst (replace_team no_ext no_checks ''bob'' ''finance'' demo_replace (Some ''1'') 7 team2) =
     Inl (OperationError 412 Revision_stale None)"
proof -
  have r: "team_get ''finance'' (s_world (demo_sys team1 [])) = Some team_row1" by (simp add: demo_sys_def)
  have st: "steps ledger_step (demo_sys team1 []) (demo_sys team2 [])" by (rule steps_single) (rule team_step2)
  have d: "require_db team1 = Inr ()" "db_sqlite (cfg team1)"
    using in_revision_InrD [OF demo_replace_eval [unfolded replace_team_def]] by blast+
  obtain q where q: "team_get ''finance'' team2 = Some q" "t_revision q = t_revision team_row1 + 1"
    and n: "revision_number (Some ''1'') = Inr (Some (t_revision team_row1))"
    using replace_effect_facts [OF demo_replace_eval] r unfolding demo_sys_def by fastforce
  have "team_get ''finance'' team2 \<noteq> Some team_row1" using q by (metis add_cancel_left_right one_neq_zero option.inject)
  then show ?thesis
    using stale_write_refused [OF team_reachable1 r n st _ steps_refl] d by (simp add: demo_sys_def)
qed

end
