(* ===== verification/TeamFaults.thy ===== *)
theory TeamFaults
  imports TeamScenario
begin

text \<open>
  Inputs the team checks answer with a Python exception (a 500 response) instead of a report: a document
  whose environments are no mapping, and any update of a team that has both a legacy and a cloud resource
  in one environment.
\<close>

section \<open>What a check can raise\<close>

definition py_error :: "err \<Rightarrow> bool" where
  "py_error er \<longleftrightarrow> er \<in> {TypeError, AttributeError, OverflowError}"

named_theorems raises

lemma py_error_simps [simp]: "py_error TypeError" "py_error AttributeError" "py_error OverflowError"
  by (simp_all add: py_error_def)

lemma smap_Inl: "smap f xs = Inl er \<Longrightarrow> \<exists>x \<in> set xs. f x = Inl er"
  by (induction xs) (auto simp: sbind_Inl_iff)

lemma smap_raises: "smap f xs = Inl er \<Longrightarrow> (\<And>x. f x = Inl er \<Longrightarrow> py_error er) \<Longrightarrow> py_error er"
  by (blast dest: smap_Inl)

lemma smap_Inr: "smap f xs = Inr ys \<Longrightarrow> x \<in> set xs \<Longrightarrow> \<exists>y. f x = Inr y"
  by (induction xs arbitrary: ys) (auto simp: sbind_Inr_iff)

lemma py_iter_raises [raises]: "py_iter v = Inl er \<Longrightarrow> py_error er"
  by (cases v) auto

lemma py_set_raises [raises]: "py_set v = Inl er \<Longrightarrow> py_error er"
  by (auto simp: py_set_def sbind_Inl_iff dest: py_iter_raises split: if_splits)

lemma py_items_raises [raises]: "py_items v = Inl er \<Longrightarrow> py_error er"
  by (auto simp: py_items_def split: if_splits json.splits)

lemma bare_items_raises [raises]: "bare_items d k = Inl er \<Longrightarrow> py_error er"
  by (auto simp: bare_items_def split: if_splits json.splits)

lemma group_sets_raises [raises]: "group_sets d = Inl er \<Longrightarrow> py_error er"
  by (auto simp: group_sets_def sbind_Inl_iff dest: raises elim!: smap_raises)

lemma overlap_raises [raises]: "overlap_findings n d os = Inl er \<Longrightarrow> py_error er"
  by (auto simp: overlap_findings_def sbind_Inl_iff dest: raises elim!: smap_raises split: if_splits)

lemma budget_raises [raises]: "budget_findings n kv = Inl er \<Longrightarrow> py_error er"
  by (auto simp: budget_findings_def Let_def split: json.splits if_splits)

lemma network_raises [raises]: "other_network n os = Inl er \<Longrightarrow> py_error er"
  by (auto simp: other_network_def sbind_Inl_iff dest: raises elim!: smap_raises split: if_splits)

lemma allowed_raises [raises]: "allowed_findings e n d envs os = Inl er \<Longrightarrow> py_error er"
  by (auto simp: allowed_findings_def inspect_def Let_def sbind_Inl_iff dest: raises split: option.splits)

lemma content_raises [raises]: "content_findings e n d os = Inl er \<Longrightarrow> py_error er"
  by (auto simp: content_findings_def Let_def sbind_Inl_iff dest: raises elim!: smap_raises)

lemma reserved_raises [raises]: "env_reserved rs env = Inl er \<Longrightarrow> py_error er"
  by (auto simp: env_reserved_def resource_cost_def sbind_Inl_iff elim!: smap_raises split: json.splits if_splits)

lemma removed_raises [raises]: "removed_items a b = Inl er \<Longrightarrow> py_error er"
  by (auto simp: removed_items_def sbind_Inl_iff dest: raises)

lemma below_raises [raises]: "below_reserved n rs kv = Inl er \<Longrightarrow> py_error er"
  by (cases "jget (snd kv) ''budget_monthly''")
    (auto simp: below_reserved_def sbind_Inl_iff dest: raises split: if_splits)

lemma placement_raises [raises]: "placement_findings n a b rs env = Inl er \<Longrightarrow> py_error er"
  by (auto simp: placement_findings_def sorted_clouds_def Let_def sbind_Inl_iff split: if_splits)

lemma impact_findings_raises [raises]: "impact_findings n a b rs = Inl er \<Longrightarrow> py_error er"
  by (auto simp: impact_findings_def Let_def sbind_Inl_iff dest: raises elim!: smap_raises)

lemma impact_raises [raises]: "impact a b rs = Inl er \<Longrightarrow> py_error er"
  by (auto simp: impact_def sbind_Inl_iff dest: raises elim!: smap_raises)

lemma check_team_raises [raises]: "check_team e n d rs p os = Inl er \<Longrightarrow> py_error er"
  by (auto simp: check_team_def Let_def sbind_Inl_iff dest: raises split: if_splits option.splits)

lemma review_raises: "review x e n d stored os w = Inl er \<Longrightarrow> py_error er"
  by (auto simp: review_def Let_def sbind_Inl_iff dest: raises)

section \<open>Environments that are no mapping\<close>

text \<open>A document whose \<open>environments\<close> is null or a list gets an error finding from the checks, but the
  operator never sees it: the impact of the same document is computed unconditionally and raises, so the
  request to create the team ends in an \<open>AttributeError\<close> (a 500 response), not in the documented 422 with
  the findings; nothing is written.\<close>

theorem malformed_environments_escape:
  assumes "team_create_ok b" and "jhas (cr_team b) ''environments''" and "\<not> dict_value (jget (cr_team b) ''environments'')"
    and "require_db w = Inr ()" and "db_sqlite (cfg w)" and "team_get (cr_name b) w = None"
  shows "(\<exists>fs. check_team (admin_env x e) (cr_name b) (cr_team b) (team_resources (cr_name b) w) None
      (other_docs (cr_name b) w) = Inr fs \<and> has_level L_error fs \<noteq> []) \<and>
    create_team x e who b t w = (Inl AttributeError, w)"
proof -
  let ?d = "cr_team b"
  have d: "dict_value ?d" using assms(1) by (simp add: team_create_ok_def)
  have "team_shape ?d (Some (cr_name b)) \<noteq> []"
    using d assms(2,3) by (auto simp: team_shape_def wrong_def bad_def)
  then have c: "\<exists>fs. check_team (admin_env x e) (cr_name b) ?d rs None os = Inr fs \<and> has_level L_error fs \<noteq> []"
    for rs os
    by (auto simp: check_team_def Let_def has_level_def [of _ "_ @ _"]) (simp flip: has_level_def)
  have "impact None ?d rs = Inl AttributeError" for rs
    using d assms(2,3) by (cases ?d) (auto simp: impact_def bare_items_def ok_dict_def split: json.splits)
  then have "review x e (cr_name b) ?d None None w = Inl AttributeError"
    using c [of "team_resources (cr_name b) w" "other_docs (cr_name b) w"] d by (auto simp: review_def Let_def)
  then show ?thesis
    using c assms(4-6) by (simp add: create_team_def create_tx_def after_check_def connect_def)
qed

definition null_environments :: team_create where
  "null_environments = \<lparr>cr_name = ''finance'', cr_team = JObj [(''environments'', JNull)], cr_reason = ''onboard''\<rparr>"

theorem malformed_environments_escape_witness:
  "create_team no_ext no_checks ''op'' null_environments 5 team0 = (Inl AttributeError, team0)"
proof -
  have "team_name_ok ''finance''" using demo_name by (simp add: valid_name_def)
  then have "team_create_ok null_environments"
    by (simp add: team_create_ok_def null_environments_def reason_ok_def MAX_REASON_def)
  from malformed_environments_escape [OF this, of team0 no_ext no_checks "''op''" 5] show ?thesis
    by (simp add: null_environments_def)
qed

section \<open>Legacy and cloud resources side by side\<close>

lemma mixed_clouds: "None \<in> set cs \<Longrightarrow> Some c \<in> set cs \<Longrightarrow> sorted_clouds cs = Inl TypeError"
  by (auto simp: sorted_clouds_def Let_def sorted_keys_def map_filter_def filter_empty_conv)

lemma impact_findings_kept:
  assumes "impact_findings n old_d new_d rs = Inr fs" and "jhas (jget old_d ''environments'') env"
    and "jhas (jget new_d ''environments'') env"
  shows "\<exists>ys old_envs new_envs. placement_findings n old_envs new_envs rs env = Inr ys"
proof -
  have keys: "env \<in> set (map fst kvs)" if "py_items v = Inr kvs" "jhas v env" for v kvs
    using that by (cases v) (auto simp: py_items_def map_of_eq_None_iff split: if_splits)
  obtain old_envs new_envs moved where a: "py_items (jget old_d ''environments'') = Inr old_envs"
    and b: "py_items (jget new_d ''environments'') = Inr new_envs"
    and m: "smap (placement_findings n old_envs new_envs rs) (sorted_keys (common (map fst old_envs) (map fst new_envs))) = Inr moved"
    using assms(1) by (auto simp: impact_findings_def Let_def sbind_Inr_iff)
  have "env \<in> set (sorted_keys (common (map fst old_envs) (map fst new_envs)))"
    using keys [OF a assms(2)] keys [OF b assms(3)] by (simp add: sorted_keys_def common_def)
  from smap_Inr [OF m this] show ?thesis by metis
qed

text \<open>Once an environment of a team holds both a legacy resource (no cloud) and a cloud resource, the team
  can no longer be changed: the review of every well-formed next document that keeps the environment
  raises (the set of its clouds, \<open>None\<close> among them, cannot be sorted), so replacing the document never
  succeeds and writes nothing.\<close>

theorem mixed_environment_blocks_updates:
  assumes "team_get n w = Some r" and "jhas (jget (t_doc r) ''environments'') env"
    and "clean (rp_team b)" and "jhas (jget (rp_team b) ''environments'') env"
    and "legacy \<in> set (team_resources n w)" "p_environment (d_def legacy) = Some env" "p_cloud (d_def legacy) = None"
    and "cloudy \<in> set (team_resources n w)" "p_environment (d_def cloudy) = Some env" "p_cloud (d_def cloudy) = Some c"
  shows "(\<exists>er. review x e n (rp_team b) (Some r) None w = Inl er \<and> py_error er) \<and>
    (\<forall>who h t. \<exists>er. replace_team x e who n b h t w = (Inl er, w))"
proof -
  let ?rs = "team_resources n w" and ?d = "rp_team b"
  have "\<not> (\<exists>fs. impact_findings n (ok_dict (t_doc r)) ?d ?rs = Inr fs)"
  proof
    assume "\<exists>fs. impact_findings n (ok_dict (t_doc r)) ?d ?rs = Inr fs"
    moreover have "jhas (jget (ok_dict (t_doc r)) ''environments'') env"
      using assms(2) by (cases "t_doc r") (auto simp: ok_dict_def)
    ultimately obtain ys a a' where "placement_findings n a a' ?rs env = Inr ys"
      using impact_findings_kept assms(4) by blast
    moreover have "sorted_clouds (map (\<lambda>r. p_cloud (d_def r)) (env_resources ?rs env)) = Inl TypeError"
      by (rule mixed_clouds [of _ c]) (use assms(5-10) in \<open>force simp: env_resources_def\<close>)+
    ultimately show False by (simp add: placement_findings_def)
  qed
  then have "\<not> (\<exists>fs. check_team (admin_env x e) n ?d ?rs (Some (t_doc r)) os = Inr fs)" for os
    using assms(3) by (auto simp: check_team_def Let_def team_shape_Nil sbind_Inr_iff)
  then have no: "review x e n ?d (Some r) None w \<noteq> Inr rv" for rv
    by (auto simp: review_def Let_def sbind_Inr_iff)
  then obtain er where er: "review x e n ?d (Some r) None w = Inl er"
    by (cases "review x e n ?d (Some r) None w") auto
  have "fst (replace_team x e who n b h t w) \<noteq> Inr v" for who h t v
  proof
    assume "fst (replace_team x e who n b h t w) = Inr v"
    then obtain w' where "replace_team x e who n b h t w = (Inr v, w')" by (metis prod.collapse)
    then have "replace_tx x e who n b h t w = (Inr v, w')"
      by (auto simp: replace_team_def in_revision_def dest!: after_check_InrD connect_InrD)
    then show False
      by (rule replace_txD) (use assms(1) no reviewed_changeD(1) in fastforce)
  qed
  moreover have "snd (replace_team x e who n b h t w) = w" if "fst (replace_team x e who n b h t w) = Inl q" for who h t q
    using that plans_txs(2) [of x e who n b h t w]
    by (auto simp: replace_team_def in_revision_def after_check_def connect_def split: sum.splits prod.splits if_splits)
  ultimately have "\<exists>er. replace_team x e who n b h t w = (Inl er, w)" for who h t
    by (metis prod.collapse sum.exhaust)
  then show ?thesis using er review_raises [OF er] by blast
qed

definition owned_by_finance :: "string option \<Rightarrow> doc" where
  "owned_by_finance cloud =
     demo_resource\<lparr>d_def := demo_defn\<lparr>p_business_unit := Some ''finance'', p_cloud := cloud\<rparr>\<rparr>"

definition mixed_world :: world where
  "mixed_world = team1\<lparr>resources := [(''res_1'', owned_by_finance None), (''res_2'', owned_by_finance (Some ''aws''))]\<rparr>"

theorem mixed_environment_blocks_updates_witness:
  "\<exists>er. replace_team no_ext no_checks ''op'' ''finance'' demo_replace (Some ''1'') 6 mixed_world = (Inl er, mixed_world)"
proof -
  have row: "team_get ''finance'' mixed_world = Some team_row1"
    by (simp add: mixed_world_def team_get_def team1_def row_find_Cons team_row1_def)
  have env: "jhas (jget (demo_doc q) ''environments'') ''dev''" for q by (simp add: demo_doc_def)
  have res: "owned_by_finance None \<in> set (team_resources ''finance'' mixed_world)"
    "owned_by_finance (Some ''aws'') \<in> set (team_resources ''finance'' mixed_world)"
    by (simp_all add: team_resources_def all_resources_def mixed_world_def owned_by_finance_def demo_resource_def
        demo_request_def)
  from mixed_environment_blocks_updates [OF row _ _ _ res(1) _ _ res(2), of "''dev''" demo_replace "''aws''"]
  show ?thesis using env demo_clean(2) by (simp add: owned_by_finance_def demo_defn_def demo_replace_def)
qed

end
