(* ===== verification/PlanDetail.thy ===== *)
theory PlanDetail
  imports Contracts
begin

text \<open>
  The attribute-level detail of a planned change, \<^verbatim>\<open>app/operation_activities.py\<close>: which attributes
  a plan changes, which force a replacement and which are sensitive, as dotted paths and never as
  values. A change is one entry of \<^verbatim>\<open>resource_changes\<close> in the JSON that \<^verbatim>\<open>terraform show\<close> prints;
  its documented fields are those of \<open>raw_change\<close>, with a missing or null value as \<open>JNull\<close> or the
  empty list. A Python set of paths is a list that may repeat an element; sorting removes
  the repetitions.
\<close>

section \<open>Exceptions of the worker\<close>

text \<open>The worker tells Terraform's own failures (\<^verbatim>\<open>terraform.TerraformError\<close>) from every other
  exception; it reads the text of both.\<close>

datatype exn = TerraformError string | OtherError string

fun exn_text :: "exn \<Rightarrow> string" where
  "exn_text (TerraformError s) = s"
| "exn_text (OtherError s) = s"

section \<open>Paths\<close>

text \<open>A segment of a path: the key of an object or the index of a list.\<close>

datatype seg = Key string | Index nat

definition MAX_ATTRIBUTE_DEPTH :: nat where
  "MAX_ATTRIBUTE_DEPTH = 3"

definition MAX_CHANGED_ATTRIBUTES :: nat where
  "MAX_CHANGED_ATTRIBUTES = 50"

definition index_error :: exn where
  "index_error = OtherError ''list index out of range''"

fun render_parts :: "string list \<Rightarrow> seg list \<Rightarrow> exn + string list" where
  "render_parts parts [] = Inr parts"
| "render_parts parts (Key k # segs) = render_parts (parts @ [k]) segs"
| "render_parts parts (Index n # segs) =
    (if parts = [] then Inl index_error
     else render_parts (butlast parts @ [last parts @ ''['' @ nat_str n @ '']'']) segs)"

definition render_path :: "seg list \<Rightarrow> exn + string" where
  "render_path path = sbind (render_parts [] path) (\<lambda>parts. Inr (join ''.'' parts))"

section \<open>Differences\<close>

text \<open>Equality of two parsed JSON values in Python: a bool equals the int it stands for, and the
  order of a dict does not matter.\<close>

fun pynorm :: "json \<Rightarrow> json" where
  "pynorm (JBool b) = JNum (if b then 1 else 0)"
| "pynorm (JList xs) = JList (map pynorm xs)"
| "pynorm (JObj kvs) = JObj (sort_key fst (map (\<lambda>kv. (fst kv, pynorm (snd kv))) kvs))"
| "pynorm j = j"

definition py_eq :: "json \<Rightarrow> json \<Rightarrow> bool" where
  "py_eq a b \<longleftrightarrow> pynorm a = pynorm b"

definition is_obj :: "json \<Rightarrow> bool" where
  "is_obj j = (case j of JObj kvs \<Rightarrow> True | _ \<Rightarrow> False)"

definition is_array :: "json \<Rightarrow> bool" where
  "is_array j = (case j of JList xs \<Rightarrow> True | _ \<Rightarrow> False)"

definition jnth :: "json \<Rightarrow> nat \<Rightarrow> json" where
  "jnth j i = (if i < length (jlist j) then jlist j ! i else JNull)"

text \<open>The value at a segment, \<open>JNull\<close> where the value has none.\<close>

fun jat :: "json \<Rightarrow> seg \<Rightarrow> json" where
  "jat j (Key k) = jget j k"
| "jat j (Index i) = jnth j i"

text \<open>A loop over segments that collects the paths its body finds.\<close>

definition gather :: "('a \<Rightarrow> exn + string list) \<Rightarrow> 'a list \<Rightarrow> exn + string list" where
  "gather f xs = sbind (smap f xs) (\<lambda>ls. Inr (concat ls))"

lemma gather_cong [fundef_cong]:
  "xs = ys \<Longrightarrow> (\<And>x. x \<in> set ys \<Longrightarrow> f x = g x) \<Longrightarrow> gather f xs = gather g ys"
  by (simp add: gather_def cong: smap_cong)

definition child_segs :: "json \<Rightarrow> json \<Rightarrow> json \<Rightarrow> seg list" where
  "child_segs before after unknown =
    (if is_obj before \<or> is_obj after \<or> is_obj unknown
     then map Key (remdups (map fst (jitems before @ jitems after @ jitems unknown)))
     else map Index [0..<max (length (jlist before)) (max (length (jlist after)) (length (jlist unknown)))])"

definition one_path :: "seg list \<Rightarrow> exn + string list" where
  "one_path path = sbind (render_path path) (\<lambda>p. Inr [p])"

function diff_paths :: "json \<Rightarrow> json \<Rightarrow> json \<Rightarrow> seg list \<Rightarrow> exn + string list" where
  "diff_paths before after unknown pre =
    (if MAX_ATTRIBUTE_DEPTH \<le> length pre then one_path (take MAX_ATTRIBUTE_DEPTH pre)
     else if unknown = JBool True then (if pre \<noteq> [] then one_path pre else Inr [])
     else if is_obj before \<or> is_obj after \<or> is_obj unknown
             \<or> is_array before \<or> is_array after \<or> is_array unknown
     then gather (\<lambda>s. if truthy (jat unknown s) \<or> \<not> py_eq (jat before s) (jat after s)
                     then diff_paths (jat before s) (jat after s) (jat unknown s) (pre @ [s])
                     else Inr [])
            (child_segs before after unknown)
     else if \<not> py_eq before after then one_path pre else Inr [])"
  by pat_completeness auto

termination
  by (relation "measure (\<lambda>(b, a, u, pre). MAX_ATTRIBUTE_DEPTH - length pre)") auto

declare diff_paths.simps [simp del]

section \<open>Sensitive paths\<close>

fun indexed :: "nat \<Rightarrow> 'a list \<Rightarrow> (nat \<times> 'a) list" where
  "indexed i [] = []"
| "indexed i (x # xs) = (i, x) # indexed (Suc i) xs"

lemma snd_indexed: "iv \<in> set (indexed i xs) \<Longrightarrow> snd iv \<in> set xs"
  by (induction xs arbitrary: i) auto

lemma size_indexed: "iv \<in> set (indexed i xs) \<Longrightarrow> size (snd iv) < Suc (size_list size xs)"
  using size_list_estimation' [OF snd_indexed, of iv i xs "size (snd iv)" size] by simp

lemma size_entry: "kv \<in> set kvs \<Longrightarrow> size (snd kv) < Suc (size_list (size_prod (\<lambda>x. 0) size) kvs)"
  by (drule size_list_estimation' [where f = "size_prod (\<lambda>x. 0) size" and y = "size (snd kv)"]) (cases kv, auto)

function mark_paths :: "json \<Rightarrow> seg list \<Rightarrow> exn + string list" where
  "mark_paths node pre = (case node of
      JBool b \<Rightarrow> (if b then one_path (take MAX_ATTRIBUTE_DEPTH pre) else Inr [])
    | JObj kvs \<Rightarrow> gather (\<lambda>kv. mark_paths (snd kv) (pre @ [Key (fst kv)])) kvs
    | JList xs \<Rightarrow> gather (\<lambda>iv. mark_paths (snd iv) (pre @ [Index (fst iv)])) (indexed 0 xs)
    | _ \<Rightarrow> Inr [])"
  by pat_completeness auto

termination
  by (relation "measure (\<lambda>(node, pre). size node)") (use size_indexed size_entry in fastforce)+

declare mark_paths.simps [simp del]

definition sensitive_paths :: "json \<Rightarrow> exn + string list \<times> bool" where
  "sensitive_paths marks =
    (if marks = JBool True then Inr ([], True)
     else sbind (mark_paths (if truthy marks then marks else JObj []) []) (\<lambda>ps. Inr (ps, False)))"

section \<open>The detail of a change\<close>

record raw_change =
  rc_address :: string
  rc_type :: string
  rc_mode :: "string option"
  rc_actions :: "string list"
  rc_before :: json
  rc_after :: json
  rc_after_unknown :: json
  rc_replace_paths :: "seg list list"
  rc_before_sensitive :: json
  rc_after_sensitive :: json
  rc_action_reason :: "string option"

definition sorted_set :: "string list \<Rightarrow> string list" where
  "sorted_set xs = sort (remdups xs)"

definition changed_paths :: "raw_change \<Rightarrow> exn + string list" where
  "changed_paths c =
    (let unknown = (if truthy (rc_after_unknown c) then rc_after_unknown c else JObj []) in
     if rc_actions c = [''delete''] then Inr []
     else if rc_actions c = [''create'']
     then sbind (smap (\<lambda>k. render_path [Key k])
                  (remdups (map fst (jitems (rc_after c) @ jitems unknown)))) (\<lambda>ps. Inr (sort ps))
     else sbind (diff_paths (rc_before c) (rc_after c) unknown []) (\<lambda>ps. Inr (sorted_set ps)))"

definition change_detail :: "raw_change \<Rightarrow> exn + attribute_detail" where
  "change_detail c =
    sbind (changed_paths c) (\<lambda>every.
    let changed = take MAX_CHANGED_ATTRIBUTES every in
    sbind (smap render_path (rc_replace_paths c)) (\<lambda>replace.
    sbind (sensitive_paths (rc_before_sensitive c)) (\<lambda>(before_marks, before_all).
    sbind (sensitive_paths (rc_after_sensitive c)) (\<lambda>(after_marks, after_all).
    Inr \<lparr>cd_changed_attributes = changed, cd_replace_paths = replace,
         cd_action_reason = rc_action_reason c,
         cd_sensitive_attributes =
           (if before_all \<or> after_all then changed
            else sort (filter (\<lambda>p. p \<in> set (before_marks @ after_marks)) changed))\<rparr>))))"

end
