(* ===== verification/PlanDetailProperties.thy ===== *)
theory PlanDetailProperties
  imports PlanDetail
begin

text \<open>
  What the attribute detail of a planned change says: every path it lists is a place, at most three
  segments deep, where the plan changes something; every difference between values of agreeing
  shape is listed; and two ways in which a reviewer reads less than Terraform planned.
\<close>

section \<open>Places\<close>

text \<open>The value at the end of a path.\<close>

definition place_at :: "json \<Rightarrow> seg list \<Rightarrow> json" where
  "place_at = foldl jat"

lemma place_at_simps [simp]:
  "place_at j [] = j" "place_at j (s # q) = place_at (jat j s) q" "place_at j (q @ [s]) = jat (place_at j q) s"
  by (simp_all add: place_at_def)

text \<open>Where a plan changes something: the value is unknown until apply, or differs.\<close>

definition differs_at :: "json \<Rightarrow> json \<Rightarrow> json \<Rightarrow> seg list \<Rightarrow> bool" where
  "differs_at b a u q \<longleftrightarrow> truthy (place_at u q) \<or> \<not> py_eq (place_at b q) (place_at a q)"

text \<open>Objects and lists do not meet, and no ancestor is unknown as a whole.\<close>

definition same_shape :: "json \<Rightarrow> json \<Rightarrow> json \<Rightarrow> bool" where
  "same_shape b a u \<longleftrightarrow> u \<noteq> JBool True \<and>
     (list_ex is_obj [b, a, u] \<longrightarrow> \<not> list_ex is_array [b, a, u])"

definition scalar :: "json \<Rightarrow> bool" where
  "scalar j \<longleftrightarrow> \<not> is_obj j \<and> \<not> is_array j"

lemma pynorm_jat: "pynorm (jat j s) = jat (pynorm j) s"
proof (cases s)
  case (Key k)
  have "map_of (map (\<lambda>kv. (fst kv, pynorm (snd kv))) kvs) k = map_option pynorm (map_of kvs k)" for kvs
    by (induction kvs) auto
  then show ?thesis by (cases j) (auto simp: Key map_of_sort_key split: option.split)
next
  case (Index i)
  then show ?thesis by (cases j) (auto simp: jnth_def)
qed

lemma py_eq_jat: "py_eq b a \<Longrightarrow> py_eq (jat b s) (jat a s)"
  by (simp add: py_eq_def pynorm_jat)

lemma py_eq_place: "py_eq b a \<Longrightarrow> py_eq (place_at b q) (place_at a q)"
  by (induction q arbitrary: b a) (auto dest: py_eq_jat)

lemma smap_InrD: "smap f xs = Inr ys \<Longrightarrow> y \<in> set ys \<Longrightarrow> \<exists>x \<in> set xs. f x = Inr y"
  by (induction xs arbitrary: ys) (auto simp: sbind_Inr_iff)

lemma smap_mem: "smap f xs = Inr ys \<Longrightarrow> x \<in> set xs \<Longrightarrow> \<exists>y \<in> set ys. f x = Inr y"
  by (induction xs arbitrary: ys) (auto simp: sbind_Inr_iff)

lemma gather_InrD: "gather f xs = Inr ps \<Longrightarrow> p \<in> set ps \<Longrightarrow> \<exists>x \<in> set xs. \<exists>l. f x = Inr l \<and> p \<in> set l"
  by (auto simp: gather_def sbind_Inr_iff) (blast dest: smap_InrD)

lemma gather_mem: "gather f xs = Inr ps \<Longrightarrow> x \<in> set xs \<Longrightarrow> \<exists>l. f x = Inr l \<and> set l \<subseteq> set ps"
  by (auto simp: gather_def sbind_Inr_iff) (metis smap_mem UN_upper image_eqI)

section \<open>Soundness\<close>

lemma diff_paths_sound:
  assumes "diff_paths b a u pre = Inr ps" "p \<in> set ps" "length pre \<le> MAX_ATTRIBUTE_DEPTH"
    and "pre = [] \<or> differs_at b a u []"
  shows "\<exists>q. length (pre @ q) \<le> MAX_ATTRIBUTE_DEPTH \<and> render_path (pre @ q) = Inr p \<and> differs_at b a u q"
  using assms
proof (induction b a u pre arbitrary: ps p rule: diff_paths.induct)
  case (1 b a u pre)
  let ?f = "\<lambda>s. if truthy (jat u s) \<or> \<not> py_eq (jat b s) (jat a s)
     then diff_paths (jat b s) (jat a s) (jat u s) (pre @ [s]) else Inr []"
  show ?case
  proof (cases "MAX_ATTRIBUTE_DEPTH \<le> length pre \<or> u = JBool True \<or>
      \<not> (is_obj b \<or> is_obj a \<or> is_obj u \<or> is_array b \<or> is_array a \<or> is_array u)")
    case True
    with 1(2-5) have "render_path pre = Inr p \<and> differs_at b a u []"
      by (subst (asm) diff_paths.simps)
         (auto simp: one_path_def sbind_Inr_iff differs_at_def MAX_ATTRIBUTE_DEPTH_def split: if_splits)
    with 1(4) show ?thesis by (intro exI [of _ "[]"]) auto
  next
    case False
    then have "gather ?f (child_segs b a u) = Inr ps"
      using 1(2) by (subst (asm) diff_paths.simps) (auto split: if_splits)
    from gather_InrD [OF this 1(3)] obtain s l where s: "s \<in> set (child_segs b a u)" "p \<in> set l" "?f s = Inr l"
      by blast
    then have d: "truthy (jat u s) \<or> \<not> py_eq (jat b s) (jat a s)"
      and l: "diff_paths (jat b s) (jat a s) (jat u s) (pre @ [s]) = Inr l"
      by (auto split: if_splits)
    have "length (pre @ [s]) \<le> MAX_ATTRIBUTE_DEPTH" using False by simp
    with 1(1) [OF _ _ _ s(1) d l s(2)] False d obtain q where
      "length ((pre @ [s]) @ q) \<le> MAX_ATTRIBUTE_DEPTH" "render_path ((pre @ [s]) @ q) = Inr p"
      "differs_at (jat b s) (jat a s) (jat u s) q"
      by (auto simp: differs_at_def)
    then show ?thesis by (intro exI [of _ "s # q"]) (auto simp: differs_at_def)
  qed
qed

section \<open>Completeness\<close>

lemma jget_obj: "jget j k \<noteq> JNull \<Longrightarrow> is_obj j \<and> k \<in> set (map fst (jitems j))"
  by (cases j) (auto simp: is_obj_def split: option.splits dest!: map_of_SomeD intro: rev_image_eqI)

lemma jnth_array: "jnth j i \<noteq> JNull \<Longrightarrow> is_array j \<and> i < length (jlist j)"
  by (cases j) (auto simp: is_array_def jnth_def split: if_splits)

lemma truthy_null: "truthy j \<Longrightarrow> j \<noteq> JNull"
  by auto

lemma py_eq_null: "\<not> py_eq x y \<Longrightarrow> x \<noteq> JNull \<or> y \<noteq> JNull"
  by (auto simp: py_eq_def)

lemma child_segs_complete:
  assumes "same_shape b a u" and "truthy (jat u s) \<or> \<not> py_eq (jat b s) (jat a s)"
  shows "s \<in> set (child_segs b a u) \<and> (is_obj b \<or> is_obj a \<or> is_obj u \<or> is_array b \<or> is_array a \<or> is_array u)"
proof -
  have n: "jat u s \<noteq> JNull \<or> jat b s \<noteq> JNull \<or> jat a s \<noteq> JNull"
    using assms(2) truthy_null py_eq_null by blast
  show ?thesis
  proof (cases s)
    case (Key k)
    then have "jget u k \<noteq> JNull \<or> jget b k \<noteq> JNull \<or> jget a k \<noteq> JNull" using n by simp
    then show ?thesis using jget_obj [of u k] jget_obj [of b k] jget_obj [of a k]
      by (auto simp: child_segs_def Key)
  next
    case (Index i)
    then have "jnth u i \<noteq> JNull \<or> jnth b i \<noteq> JNull \<or> jnth a i \<noteq> JNull" using n by simp
    then show ?thesis using jnth_array [of u i] jnth_array [of b i] jnth_array [of a i] assms(1)
      by (auto simp: child_segs_def Index same_shape_def)
  qed
qed

lemma diff_paths_complete:
  assumes "diff_paths b a u pre = Inr ps" "length (pre @ q) \<le> MAX_ATTRIBUTE_DEPTH" "pre @ q \<noteq> []"
    and "\<not> py_eq (place_at b q) (place_at a q)"
    and "\<And>r. strict_prefix r q \<Longrightarrow> same_shape (place_at b r) (place_at a r) (place_at u r)"
    and "length (pre @ q) = MAX_ATTRIBUTE_DEPTH \<or>
      (scalar (place_at b q) \<and> scalar (place_at a q) \<and> scalar (place_at u q))"
  shows "\<exists>p. render_path (pre @ q) = Inr p \<and> p \<in> set ps"
  using assms
proof (induction q arbitrary: b a u pre ps)
  case Nil
  then show ?case
    by (subst (asm) diff_paths.simps) (auto simp: one_path_def sbind_Inr_iff scalar_def split: if_splits)
next
  case (Cons s q)
  have sh: "same_shape b a u" using Cons.prems(5) [of "[]"] by simp
  have d: "\<not> py_eq (jat b s) (jat a s)" using Cons.prems(4) py_eq_place [of "jat b s" "jat a s" q] by auto
  have c: "s \<in> set (child_segs b a u)" "is_obj b \<or> is_obj a \<or> is_obj u \<or> is_array b \<or> is_array a \<or> is_array u"
    using child_segs_complete [OF sh] d by auto
  have "gather (\<lambda>s. if truthy (jat u s) \<or> \<not> py_eq (jat b s) (jat a s)
      then diff_paths (jat b s) (jat a s) (jat u s) (pre @ [s]) else Inr []) (child_segs b a u) = Inr ps"
    using Cons.prems(1,2) c(2) sh by (subst (asm) diff_paths.simps) (auto simp: same_shape_def split: if_splits)
  from gather_mem [OF this c(1)] d obtain l where
    l: "diff_paths (jat b s) (jat a s) (jat u s) (pre @ [s]) = Inr l" "set l \<subseteq> set ps"
    by auto
  have "\<exists>p. render_path ((pre @ [s]) @ q) = Inr p \<and> p \<in> set l"
  proof (rule Cons.IH [OF l(1)])
    fix r assume "strict_prefix r q"
    then show "same_shape (place_at (jat b s) r) (place_at (jat a s) r) (place_at (jat u s) r)"
      using Cons.prems(5) [of "s # r"] by simp
  qed (use Cons.prems in auto)
  with l(2) show ?case by auto
qed

section \<open>The detail of a change\<close>

abbreviation unknown_of :: "raw_change \<Rightarrow> json" where
  "unknown_of c \<equiv> if truthy (rc_after_unknown c) then rc_after_unknown c else JObj []"

lemma change_detailD:
  assumes "change_detail c = Inr d"
  obtains every where "changed_paths c = Inr every" "cd_changed_attributes d = take MAX_CHANGED_ATTRIBUTES every"
    "set (cd_sensitive_attributes d) \<subseteq> set (cd_changed_attributes d)"
proof -
  from assms obtain every rp m1 m2 b1 b2 where "changed_paths c = Inr every"
    "sensitive_paths (rc_before_sensitive c) = Inr (m1, b1)" "sensitive_paths (rc_after_sensitive c) = Inr (m2, b2)"
    "d = \<lparr>cd_changed_attributes = take MAX_CHANGED_ATTRIBUTES every, cd_replace_paths = rp,
      cd_action_reason = rc_action_reason c,
      cd_sensitive_attributes = (if b1 \<or> b2 then take MAX_CHANGED_ATTRIBUTES every
        else sort (filter (\<lambda>p. p \<in> set (m1 @ m2)) (take MAX_CHANGED_ATTRIBUTES every)))\<rparr>"
    unfolding change_detail_def Let_def by (elim sbind_InrE) (auto elim!: sbind_InrE split: prod.splits)
  then show ?thesis by (intro that [of every]) auto
qed

lemma changed_pathsD:
  assumes "changed_paths c = Inr every" "rc_actions c \<noteq> [''create'']" "rc_actions c \<noteq> [''delete'']"
  obtains ps where "diff_paths (rc_before c) (rc_after c) (unknown_of c) [] = Inr ps" "every = sorted_set ps"
  using assms unfolding changed_paths_def Let_def by (auto elim!: sbind_InrE)

text \<open>What an update or a replacement lists as changed is small and true: at most fifty paths,
  sorted and without repetition, each the rendering of a place at most three segments deep where the
  value differs between before and after or is unknown until apply; and only listed paths are
  marked sensitive.\<close>

theorem changed_attributes_sound:
  assumes "change_detail c = Inr d" "rc_actions c \<noteq> [''create'']" "rc_actions c \<noteq> [''delete'']"
  shows "length (cd_changed_attributes d) \<le> 50 \<and> sorted (cd_changed_attributes d) \<and>
    distinct (cd_changed_attributes d) \<and>
    set (cd_sensitive_attributes d) \<subseteq> set (cd_changed_attributes d) \<and>
    (\<forall>p \<in> set (cd_changed_attributes d). \<exists>q. length q \<le> 3 \<and> render_path q = Inr p \<and>
       differs_at (rc_before c) (rc_after c) (unknown_of c) q)"
proof -
  obtain every where e: "changed_paths c = Inr every"
    "cd_changed_attributes d = take MAX_CHANGED_ATTRIBUTES every"
    "set (cd_sensitive_attributes d) \<subseteq> set (cd_changed_attributes d)"
    using assms(1) by (rule change_detailD)
  obtain ps where ps: "diff_paths (rc_before c) (rc_after c) (unknown_of c) [] = Inr ps" "every = sorted_set ps"
    using e(1) assms(2,3) by (rule changed_pathsD)
  have "\<exists>q. length q \<le> 3 \<and> render_path q = Inr p \<and> differs_at (rc_before c) (rc_after c) (unknown_of c) q"
    if "p \<in> set (cd_changed_attributes d)" for p
  proof -
    have "p \<in> set ps" using that by (auto simp: e(2) ps(2) sorted_set_def dest: in_set_takeD)
    from diff_paths_sound [OF ps(1) this] show ?thesis by (simp add: MAX_ATTRIBUTE_DEPTH_def)
  qed
  with e(2,3) ps(2) show ?thesis
    by (simp add: MAX_CHANGED_ATTRIBUTES_def sorted_set_def sorted_wrt_take distinct_take)
qed

definition demo_change :: raw_change where
  "demo_change = \<lparr>rc_address = ''x.this'', rc_type = ''x'', rc_mode = None, rc_actions = [''update''],
     rc_before = JObj [(''tags'', JObj [(''env'', JStr ''dev''), (''owner'', JStr ''a'')]),
                       (''rules'', JList [JObj [(''port'', JNum 80)]])],
     rc_after = JObj [(''tags'', JObj [(''env'', JStr ''prod''), (''owner'', JStr ''a'')]),
                      (''rules'', JList [JObj [(''port'', JNum 8080)]])],
     rc_after_unknown = JObj [(''id'', JBool True)], rc_replace_paths = [],
     rc_before_sensitive = JObj [], rc_after_sensitive = JObj [(''tags'', JObj [(''env'', JBool True)])],
     rc_action_reason = None\<rparr>"

definition demo_detail :: attribute_detail where
  "demo_detail = \<lparr>cd_changed_attributes = [''id'', ''rules[0].port'', ''tags.env''], cd_replace_paths = [],
     cd_action_reason = None, cd_sensitive_attributes = [''tags.env'']\<rparr>"

lemma demo_change_detail: "change_detail demo_change = Inr demo_detail"
  by code_simp

theorem changed_attributes_sound_witness:
  "length (cd_changed_attributes demo_detail) \<le> 50 \<and>
   (\<exists>q. length q \<le> 3 \<and> render_path q = Inr ''rules[0].port'' \<and>
      differs_at (rc_before demo_change) (rc_after demo_change) (unknown_of demo_change) q)"
  using changed_attributes_sound [OF demo_change_detail]
  by (simp add: demo_change_def) (simp add: demo_detail_def)

text \<open>No difference is hidden: while the list is not full, every place at most three segments deep
  where an update changes a value is listed, when objects and lists do not replace one another
  above it, nothing above it is unknown as a whole, and its own values are scalars or it is three
  segments deep.\<close>

theorem changed_attributes_complete:
  assumes "change_detail c = Inr d" "rc_actions c \<noteq> [''create'']" "rc_actions c \<noteq> [''delete'']"
    and "length (cd_changed_attributes d) < 50" and "q \<noteq> []" "length q \<le> 3"
    and "\<not> py_eq (place_at (rc_before c) q) (place_at (rc_after c) q)"
    and "\<forall>r. strict_prefix r q \<longrightarrow>
       same_shape (place_at (rc_before c) r) (place_at (rc_after c) r) (place_at (unknown_of c) r)"
    and "length q = 3 \<or>
       (scalar (place_at (rc_before c) q) \<and> scalar (place_at (rc_after c) q) \<and> scalar (place_at (unknown_of c) q))"
  shows "\<exists>p. render_path q = Inr p \<and> p \<in> set (cd_changed_attributes d)"
proof -
  obtain every where e: "changed_paths c = Inr every"
    "cd_changed_attributes d = take MAX_CHANGED_ATTRIBUTES every"
    using assms(1) by (rule change_detailD)
  obtain ps where ps: "diff_paths (rc_before c) (rc_after c) (unknown_of c) [] = Inr ps" "every = sorted_set ps"
    using e(1) assms(2,3) by (rule changed_pathsD)
  have "cd_changed_attributes d = every" using e(2) assms(4) by (auto simp: MAX_CHANGED_ATTRIBUTES_def min_def split: if_splits)
  moreover have "\<exists>p. render_path ([] @ q) = Inr p \<and> p \<in> set ps"
    by (rule diff_paths_complete [OF ps(1)]) (use assms in \<open>auto simp: MAX_ATTRIBUTE_DEPTH_def\<close>)
  ultimately show ?thesis using ps(2) by (auto simp: sorted_set_def)
qed

theorem changed_attributes_complete_witness:
  "\<exists>p. render_path [Key ''rules'', Index 0, Key ''port''] = Inr p \<and> p \<in> set (cd_changed_attributes demo_detail)"
proof (rule changed_attributes_complete [OF demo_change_detail])
  show "\<forall>r. strict_prefix r [Key ''rules'', Index 0, Key ''port''] \<longrightarrow>
     same_shape (place_at (rc_before demo_change) r) (place_at (rc_after demo_change) r)
       (place_at (unknown_of demo_change) r)"
    by (auto simp: strict_prefix_def prefix_Cons demo_change_def same_shape_def is_obj_def is_array_def jnth_def)
qed (simp_all add: demo_change_def demo_detail_def py_eq_def jnth_def)

section \<open>What the detail does not say\<close>

text \<open>A null that becomes an empty map or list differs and is not listed.\<close>

lemma null_to_empty_unlisted:
  "diff_paths (JObj [(k, JNull)]) (JObj [(k, JObj [])]) (JObj []) [] = Inr []"
  "diff_paths (JObj [(k, JNull)]) (JObj [(k, JList [])]) (JObj []) [] = Inr []"
proof -
  have "diff_paths JNull (JObj []) JNull [Key k] = Inr []" "diff_paths JNull (JList []) JNull [Key k] = Inr []"
    by (subst diff_paths.simps; simp add: gather_def child_segs_def MAX_ATTRIBUTE_DEPTH_def is_obj_def is_array_def)+
  then show "diff_paths (JObj [(k, JNull)]) (JObj [(k, JObj [])]) (JObj []) [] = Inr []"
    "diff_paths (JObj [(k, JNull)]) (JObj [(k, JList [])]) (JObj []) [] = Inr []"
    by (subst diff_paths.simps; simp add: gather_def child_segs_def py_eq_def MAX_ATTRIBUTE_DEPTH_def is_obj_def)+
qed

text \<open>A sensitive map is not shown as such: when Terraform marks a whole map sensitive and a plan
  changes one of its entries, the entry is listed as changed and not as sensitive, so a reviewer is
  not told that a secret changes.\<close>

theorem sensitive_map_change_unmarked:
  assumes "rc_actions c = [''update'']" "rc_replace_paths c = []" "rc_after_unknown c = JObj []"
    and "rc_before c = JObj [(m, JObj [(k, x)])]" "rc_after c = JObj [(m, JObj [(k, y)])]"
    and "scalar x" "scalar y" "\<not> py_eq x y"
    and "rc_before_sensitive c = JObj [(m, JBool True)]" "rc_after_sensitive c = JObj [(m, JBool True)]"
  shows "\<exists>d. change_detail c = Inr d \<and> cd_changed_attributes d = [m @ ''.'' @ k] \<and> cd_sensitive_attributes d = []"
proof -
  have xy: "\<not> is_obj x" "\<not> is_array x" "\<not> is_obj y" "\<not> is_array y" "pynorm x \<noteq> pynorm y"
    using assms(6-8) by (auto simp: scalar_def py_eq_def)
  have leaf: "diff_paths x y JNull [Key m, Key k] = Inr [m @ ''.'' @ k]"
    using xy by (subst diff_paths.simps)
      (simp add: py_eq_def one_path_def render_path_def MAX_ATTRIBUTE_DEPTH_def is_obj_def is_array_def)
  have inner: "diff_paths (JObj [(k, x)]) (JObj [(k, y)]) JNull [Key m] = Inr [m @ ''.'' @ k]"
    using xy leaf by (subst diff_paths.simps)
      (simp add: gather_def child_segs_def py_eq_def MAX_ATTRIBUTE_DEPTH_def is_obj_def)
  have "diff_paths (rc_before c) (rc_after c) (JObj []) [] = Inr [m @ ''.'' @ k]"
    using xy inner by (subst diff_paths.simps)
      (simp add: assms(4,5) gather_def child_segs_def py_eq_def MAX_ATTRIBUTE_DEPTH_def is_obj_def)
  then have "changed_paths c = Inr [m @ ''.'' @ k]"
    using assms(1,3) by (simp add: changed_paths_def sorted_set_def)
  moreover have "mark_paths (JObj [(m, JBool True)]) [] = Inr [m]"
    by (simp add: mark_paths.simps gather_def one_path_def render_path_def MAX_ATTRIBUTE_DEPTH_def)
  ultimately show ?thesis
    using assms(2,9,10) by (simp add: change_detail_def sensitive_paths_def MAX_CHANGED_ATTRIBUTES_def)
qed

definition secret_change :: raw_change where
  "secret_change = demo_change\<lparr>rc_before := JObj [(''env'', JObj [(''KEY'', JStr ''old'')])],
     rc_after := JObj [(''env'', JObj [(''KEY'', JStr ''new'')])], rc_after_unknown := JObj [],
     rc_before_sensitive := JObj [(''env'', JBool True)], rc_after_sensitive := JObj [(''env'', JBool True)]\<rparr>"

theorem sensitive_map_change_unmarked_witness:
  "\<exists>d. change_detail secret_change = Inr d \<and> cd_changed_attributes d = [''env.KEY''] \<and> cd_sensitive_attributes d = []"
  using sensitive_map_change_unmarked [of secret_change "''env''" "''KEY''" "JStr ''old''" "JStr ''new''"]
  by (simp add: secret_change_def demo_change_def scalar_def is_obj_def is_array_def py_eq_def)

end
