(* ===== verification/Redaction.thy ===== *)
theory Redaction
  imports PlanDetail Shaping
begin

text \<open>
  What keeps placement identifiers and credentials out of the stored records,
  \<^verbatim>\<open>app/operation_activities.py\<close>: the identifiers of an operation, the sanitized reason of a
  Terraform failure, and the text of a summary in which an identifier must not occur. Texts are
  Latin-1, where \<^verbatim>\<open>lower()\<close> and the matching of \<^verbatim>\<open>re.IGNORECASE\<close> agree. How \<^verbatim>\<open>json.dumps\<close>
  prints a number is the parameter \<open>num\<close>.
\<close>

section \<open>Text\<close>

definition code :: "char \<Rightarrow> nat" where
  "code c = of_char c"

definition lower_char :: "char \<Rightarrow> char" where
  "lower_char c = (if (65 \<le> code c \<and> code c \<le> 90) \<or> (192 \<le> code c \<and> code c \<le> 222 \<and> code c \<noteq> 215)
     then char_of (code c + 32) else c)"

definition lower :: "string \<Rightarrow> string" where
  "lower = map lower_char"

text \<open>\<^verbatim>\<open>i.lower() in text.lower()\<close>.\<close>

definition mentions :: "string \<Rightarrow> string \<Rightarrow> bool" where
  "mentions text i \<longleftrightarrow> contains_text (lower i) (lower text)"

text \<open>\<^verbatim>\<open>\w\<close> and \<^verbatim>\<open>\d\<close> of \<^verbatim>\<open>re\<close>.\<close>

definition is_word :: "char \<Rightarrow> bool" where
  "is_word c \<longleftrightarrow> is_digit c \<or> (65 \<le> code c \<and> code c \<le> 90) \<or> (97 \<le> code c \<and> code c \<le> 122) \<or> c = CHR ''_'' \<or>
     code c \<in> {170, 178, 179, 181, 185, 186, 188, 189, 190} \<or> (192 \<le> code c \<and> code c \<noteq> 215 \<and> code c \<noteq> 247)"

section \<open>Identifiers\<close>

definition or_else :: "string option \<Rightarrow> string option \<Rightarrow> string option" where
  "or_else a b = (case a of None \<Rightarrow> b | Some s \<Rightarrow> if s = [] then b else a)"

definition hidden_ids :: "settings \<Rightarrow> doc \<Rightarrow> string list" where
  "hidden_ids c op =
    (let identifiers = map snd (filter (\<lambda>kv. fst kv \<noteq> ''region'')
           (case p_cloud_target (d_def op) of None \<Rightarrow> [] | Some kvs \<Rightarrow> kvs));
         subscription = or_else (p_subscription_id (d_def op)) (azure_subscription_id c)
     in filter (\<lambda>v. v \<noteq> []) (identifiers @ (case subscription of None \<Rightarrow> [] | Some s \<Rightarrow> [s])))"

definition MIN_INJECTED_REDACTION :: nat where
  "MIN_INJECTED_REDACTION = 6"

fun injected_ids :: "string option \<Rightarrow> json \<Rightarrow> string list" where
  "injected_ids key (JStr s) =
    (if key \<noteq> Some ''location'' \<and> key \<noteq> Some ''region'' \<and> MIN_INJECTED_REDACTION \<le> length s then [s] else [])"
| "injected_ids key (JObj kvs) = concat (map (\<lambda>kv. injected_ids (Some (fst kv)) (snd kv)) kvs)"
| "injected_ids key (JList xs) = concat (map (injected_ids key) xs)"
| "injected_ids key _ = []"

text \<open>\<^verbatim>\<open>list(dict.fromkeys(found))\<close>: the first of equal elements stays.\<close>

definition dict_fromkeys :: "string list \<Rightarrow> string list" where
  "dict_fromkeys xs = rev (remdups (rev xs))"

definition redaction_ids :: "settings \<Rightarrow> doc \<Rightarrow> string list" where
  "redaction_ids c op = dict_fromkeys (hidden_ids c op @ injected_ids None (JObj (p_injected (d_def op))))"

section \<open>Failure diagnostics\<close>

definition DIAGNOSTIC_MAX :: nat where
  "DIAGNOSTIC_MAX = 400"

definition AUTH_MARKERS :: "string list" where
  "AUTH_MARKERS = [''aadsts'', ''authenticat'', ''authoriz'', ''credential'', ''token'', ''unauthorized'',
     ''forbidden'', ''access denied'', ''accessdenied'', ''permission'', ''401'', ''403'', ''certificate'',
     ''signature'', ''invalidclienttokenid'']"

definition msg_state_lock :: string where
  "msg_state_lock = ''Error acquiring the state lock''"

definition redacted_mark :: string where
  "redacted_mark = ''[redacted]''"

definition not_space :: "char \<Rightarrow> bool" where
  "not_space c \<longleftrightarrow> \<not> is_space c"

text \<open>\<^verbatim>\<open>re.match(r"terraform (\S+) failed:", text)\<close>: the command.\<close>

definition failed_command :: "string \<Rightarrow> string option" where
  "failed_command text =
    (if has_prefix ''terraform '' text
     then let rest = drop 10 text; word = takeWhile not_space rest
          in (if word \<noteq> [] \<and> has_prefix '' failed:'' (drop (length word) rest) then Some word else None)
     else None)"

text \<open>\<^verbatim>\<open>terraform \S+ exceeded its deadline( waiting for the provider cache)?\<close>, the whole text.\<close>

definition deadline_text :: "string \<Rightarrow> bool" where
  "deadline_text text \<longleftrightarrow> has_prefix ''terraform '' text \<and>
     (let rest = drop 10 text; word = takeWhile not_space rest
      in word \<noteq> [] \<and> drop (length word) rest \<in>
           {'' exceeded its deadline'', '' exceeded its deadline waiting for the provider cache''})"

text \<open>\<^verbatim>\<open>re.sub(re.escape(value), "[redacted]", text, flags=re.IGNORECASE)\<close>, for a value that is
  not empty.\<close>

function redact_value :: "string \<Rightarrow> string \<Rightarrow> string" where
  "redact_value v text =
    (if text = [] then []
     else if v \<noteq> [] \<and> lower (take (length v) text) = lower v
     then redacted_mark @ redact_value v (drop (length v) text)
     else hd text # redact_value v (tl text))"
  by pat_completeness auto

termination
  by (relation "measure (\<lambda>(v, text). length text)") (auto simp: neq_Nil_conv)

declare redact_value.simps [simp del]

text \<open>The alternatives of \<^verbatim>\<open>_REDACT\<close> at a position, in their order: the length of the match, 0 for
  none. The character before the position is what the lookbehinds read.\<close>

definition url_match :: "string \<Rightarrow> nat" where
  "url_match s =
    (if lower (take 8 s) = ''https://'' \<and> takeWhile not_space (drop 8 s) \<noteq> []
     then 8 + length (takeWhile not_space (drop 8 s))
     else if lower (take 7 s) = ''http://'' \<and> takeWhile not_space (drop 7 s) \<noteq> []
     then 7 + length (takeWhile not_space (drop 7 s)) else 0)"

definition subscription_match :: "string \<Rightarrow> nat" where
  "subscription_match s =
    (if lower (take 15 s) = ''/subscriptions/'' \<and> takeWhile not_space (drop 15 s) \<noteq> []
     then 15 + length (takeWhile not_space (drop 15 s)) else 0)"

definition hex_run :: "nat \<Rightarrow> string \<Rightarrow> bool" where
  "hex_run n s \<longleftrightarrow> length (take n s) = n \<and> list_all is_hex (lower (take n s))"

definition dash_at :: "nat \<Rightarrow> string \<Rightarrow> bool" where
  "dash_at n s \<longleftrightarrow> take 1 (drop n s) = ''-''"

fun prev_is :: "(char \<Rightarrow> bool) \<Rightarrow> char option \<Rightarrow> bool" where
  "prev_is P None = False"
| "prev_is P (Some c) = P c"

definition uuid_match :: "char option \<Rightarrow> string \<Rightarrow> nat" where
  "uuid_match prev s =
    (if \<not> prev_is is_word prev
     then (if hex_run 8 s \<and> dash_at 8 s \<and> hex_run 4 (drop 9 s) \<and> dash_at 13 s \<and> hex_run 4 (drop 14 s) \<and>
              dash_at 18 s \<and> hex_run 4 (drop 19 s) \<and> dash_at 23 s \<and> hex_run 12 (drop 24 s) \<and>
              list_all (\<lambda>c. \<not> is_word c) (take 1 (drop 36 s))
           then 36 else 0)
     else 0)"

definition account_match :: "char option \<Rightarrow> string \<Rightarrow> nat" where
  "account_match prev s =
    (if \<not> prev_is is_digit prev \<and> length (take 12 s) = 12 \<and> list_all is_digit (take 12 s) \<and>
        list_all (\<lambda>c. \<not> is_digit c) (take 1 (drop 12 s))
     then 12 else 0)"

definition redact_match :: "char option \<Rightarrow> string \<Rightarrow> nat" where
  "redact_match prev s =
    (if url_match s \<noteq> 0 then url_match s
     else if subscription_match s \<noteq> 0 then subscription_match s
     else if uuid_match prev s \<noteq> 0 then uuid_match prev s
     else account_match prev s)"

function redact_patterns :: "char option \<Rightarrow> string \<Rightarrow> string" where
  "redact_patterns prev text =
    (if text = [] then []
     else let n = redact_match prev text
          in (if n = 0 then hd text # redact_patterns (Some (hd text)) (tl text)
              else redacted_mark @ redact_patterns (Some (last (take n text))) (drop n text)))"
  by pat_completeness auto

termination
  by (relation "measure (\<lambda>(p, text). length text)") (auto simp: neq_Nil_conv)

declare redact_patterns.simps [simp del]

definition msg_rejected :: "string \<Rightarrow> string" where
  "msg_rejected command = ''terraform '' @ command @
     '' failed: the cloud provider rejected the credentials or permissions''"

definition longest_first :: "string list \<Rightarrow> string list" where
  "longest_first ids = sort_key (\<lambda>v. - int (length v)) ids"

definition diagnostic :: "settings \<Rightarrow> doc \<Rightarrow> exn \<Rightarrow> string option" where
  "diagnostic c op e = (case e of
      OtherError msg \<Rightarrow> None
    | TerraformError text \<Rightarrow>
       (let command = failed_command text in
        if command = None \<and> \<not> deadline_text text then None
        else if contains_text msg_state_lock text then None
        else if command \<noteq> None \<and> list_ex (\<lambda>m. contains_text m (lower text)) AUTH_MARKERS
        then Some (msg_rejected (the command))
        else Some (take DIAGNOSTIC_MAX (redact_patterns None
               (fold redact_value (longest_first (redaction_ids c op)) text)))))"

section \<open>Summaries\<close>

fun dumps :: "(json \<Rightarrow> string) \<Rightarrow> json \<Rightarrow> string" where
  "dumps num JNull = ''null''"
| "dumps num (JBool b) = (if b then ''true'' else ''false'')"
| "dumps num (JNum q) = num (JNum q)"
| "dumps num (JNonFinite k) = num (JNonFinite k)"
| "dumps num (JStr s) = json_quote s"
| "dumps num (JList xs) = ''['' @ comma_join (map (dumps num) xs) @ '']''"
| "dumps num (JObj kvs) =
    ''{'' @ comma_join (map (\<lambda>kv. json_quote (fst kv) @ '': '' @ dumps num (snd kv)) kvs) @ ''}''"

definition strings_json :: "string list \<Rightarrow> json" where
  "strings_json xs = JList (map JStr xs)"

definition change_json :: "change \<Rightarrow> json" where
  "change_json ch = JObj
    ([(''address'', JStr (c_address ch)), (''type'', JStr (c_type ch)), (''actions'', strings_json (c_actions ch))] @
     (case c_detail ch of
        None \<Rightarrow> []
      | Some d \<Rightarrow> [(''changed_attributes'', strings_json (cd_changed_attributes d)),
                  (''replace_paths'', strings_json (cd_replace_paths d)),
                  (''action_reason'', opt_json (cd_action_reason d)),
                  (''sensitive_attributes'', strings_json (cd_sensitive_attributes d))]))"

definition object_json :: "string \<times> string \<Rightarrow> json" where
  "object_json ob = JObj [(''address'', JStr (fst ob)), (''type'', JStr (snd ob))]"

definition summary_json :: "change list \<Rightarrow> change list \<Rightarrow> (string \<times> string) list \<Rightarrow> json" where
  "summary_json changes drift objects =
     JList (map change_json changes @ map change_json drift @ map object_json objects)"

definition unsafe_summary :: "(json \<Rightarrow> string) \<Rightarrow> string list \<Rightarrow> json \<Rightarrow> bool" where
  "unsafe_summary num ids j \<longleftrightarrow> list_ex (mentions (dumps num j)) ids"

end
