(* ===== verification/Terraform.thy ===== *)
theory Terraform
  imports Redaction Policy
begin

text \<open>
  The wrapper of the Terraform command line, \<^verbatim>\<open>app/terraform.py\<close>: one workspace per deployment, the
  runs with their command receipts, the preparation of a workspace, and the saved plan of the older
  deployment stack. The Terraform process is a parameter (\<open>engine\<close>): from a command and a workspace it
  gives an exit and the workspace after it. Credentials, signals and the clock are not modelled;
  a run past its deadline is the exit \<open>Deadline\<close>, a wait for the provider cache that takes too long
  is \<open>cache_lock\<close> being false. Operating system errors other than a missing file are not modelled.
\<close>

section \<open>Workspaces and the process\<close>

text \<open>A workspace directory: the marker of the pattern source it holds, whether it keeps local
  state, the variables written, the fingerprint beside a saved plan, the scratch plan of a drift
  check, the \<^verbatim>\<open>.terraform\<close> directory, and whatever else the process reads and writes
  (pattern files, remote state, the cloud). The saved plan \<^verbatim>\<open>tfplan\<close> itself is \<open>plans\<close> of the world.\<close>

record workdir =
  wd_source :: "string option"
  wd_local_state :: bool
  wd_variables :: "json option"
  wd_fingerprint :: "json option"
  wd_drift_plan :: bool
  wd_dot_terraform :: bool
  wd_rest :: string

definition empty_workdir :: workdir where
  "empty_workdir = \<lparr>wd_source = None, wd_local_state = False, wd_variables = None, wd_fingerprint = None,
     wd_drift_plan = False, wd_dot_terraform = False, wd_rest = []\<rparr>"

datatype tf_exit = Exited int string string | Deadline

text \<open>The documented JSON of \<^verbatim>\<open>terraform show\<close> and \<^verbatim>\<open>terraform output\<close>. A module of the prior state is
  the modes of its resources and its child modules.\<close>

datatype state_module = State_module "string option list" "state_module list"

record plan_json =
  pj_resource_changes :: "raw_change list"
  pj_resource_drift :: "raw_change list"
  pj_root_module :: "state_module option"

record tf_output =
  out_value :: json
  out_sensitive :: bool

record engine =
  run_tf :: "string list \<Rightarrow> workdir \<times> string option \<Rightarrow> tf_exit \<times> workdir \<times> string option"
  cache_lock :: "workdir \<Rightarrow> bool"
  uses_backend :: "workdir \<Rightarrow> bool"
  read_plan :: "string \<Rightarrow> exn + plan_json"
  read_outputs :: "string \<Rightarrow> exn + (string \<times> tf_output) list"
  sha256 :: "string \<Rightarrow> string"
  number_text :: "json \<Rightarrow> string"
  recursion_limit :: nat
  state_resource_group :: "string option"
  state_storage_account :: "string option"
  state_container :: string
  use_oidc :: bool
  use_msi :: bool
  use_aks :: bool

text \<open>The machine a worker runs on: the ledger with the saved plans, the workspaces, their logs, and
  (for the statements only) the commands that were started, the latest first.\<close>

record host =
  h_world :: world
  h_dirs :: "string \<Rightarrow> workdir option"
  h_logs :: "string \<Rightarrow> string list"
  h_commands :: "(string \<times> string list) list"

section \<open>Exceptions and state\<close>

type_synonym 'a wm = "host \<Rightarrow> (exn + 'a) \<times> host"

definition wreturn :: "'a \<Rightarrow> 'a wm" where
  "wreturn x h = (Inr x, h)"

definition wraise :: "exn \<Rightarrow> 'a wm" where
  "wraise e h = (Inl e, h)"

definition wbind :: "'a wm \<Rightarrow> ('a \<Rightarrow> 'b wm) \<Rightarrow> 'b wm" where
  "wbind m f h = (case m h of (Inl e, h') \<Rightarrow> (Inl e, h') | (Inr x, h') \<Rightarrow> f x h')"

definition wlift :: "exn + 'a \<Rightarrow> 'a wm" where
  "wlift r h = (r, h)"

definition wcatch :: "'a wm \<Rightarrow> (exn \<Rightarrow> 'a wm) \<Rightarrow> 'a wm" where
  "wcatch m f h = (case m h of (Inl e, h') \<Rightarrow> f e h' | (Inr x, h') \<Rightarrow> (Inr x, h'))"

text \<open>A transaction or a read of the ledger; what it raises is no \<open>TerraformError\<close>.\<close>

definition on_ledger :: "'a tx \<Rightarrow> 'a wm" where
  "on_ledger f h = (case f (h_world h) of
      (Inl e, w) \<Rightarrow> (Inl (OtherError ''ledger''), h\<lparr>h_world := w\<rparr>)
    | (Inr x, w) \<Rightarrow> (Inr x, h\<lparr>h_world := w\<rparr>))"

definition put_dir :: "string \<Rightarrow> workdir \<Rightarrow> host \<Rightarrow> host" where
  "put_dir i d h = h\<lparr>h_dirs := (h_dirs h)(i := Some d)\<rparr>"

definition put_plan :: "string \<Rightarrow> string option \<Rightarrow> host \<Rightarrow> host" where
  "put_plan i b h = h\<lparr>h_world := (h_world h)\<lparr>plans := (plans (h_world h))(i := b)\<rparr>\<rparr>"

definition saved_plan :: "string \<Rightarrow> host \<Rightarrow> string option" where
  "saved_plan i h = plans (h_world h) i"

definition add_log :: "string \<Rightarrow> string \<Rightarrow> host \<Rightarrow> host" where
  "add_log i entry h = h\<lparr>h_logs := (h_logs h)(i := h_logs h i @ [entry])\<rparr>"

section \<open>Runs\<close>

fun words_from :: "nat \<Rightarrow> string \<Rightarrow> string list" where
  "words_from 0 s = []"
| "words_from (Suc n) s =
    (let t = dropWhile is_space s in
     if t = [] then [] else takeWhile not_space t # words_from n (dropWhile not_space t))"

text \<open>\<^verbatim>\<open>s.split()\<close>: every round takes at least one character.\<close>

definition words :: "string \<Rightarrow> string list" where
  "words s = words_from (length s) s"

fun text_from :: "string \<Rightarrow> string \<Rightarrow> string" where
  "text_from p [] = []"
| "text_from p (c # s) = (if has_prefix p (c # s) then c # s else text_from p s)"

text \<open>\<^verbatim>\<open>_first_error\<close>. The frame characters it removes are not Latin-1.\<close>

definition first_error :: "string \<Rightarrow> string" where
  "first_error err = take 800 (join '' '' (words (text_from ''Error:'' err)))"

text \<open>\<^verbatim>\<open>lock_id\<close>: \<^verbatim>\<open>^\s*ID:\s+([0-9a-fA-F-]{8,})\s*$\<close> at the start of some line. After the longest run of
  hexadecimal digits there is only white space up to an end of line.\<close>

definition is_id_char :: "char \<Rightarrow> bool" where
  "is_id_char c \<longleftrightarrow> is_hex (lower_char c) \<or> c = CHR ''-''"

definition newline :: char where
  "newline = CHR 0x0A"

definition lock_at :: "string \<Rightarrow> string option" where
  "lock_at s =
    (let t = dropWhile is_space s; u = drop 3 t; v = dropWhile is_space u;
         lock = takeWhile is_id_char v; rest = drop (length lock) v
     in if take 3 t = ''ID:'' \<and> takeWhile is_space u \<noteq> [] \<and> 8 \<le> length lock \<and>
           (dropWhile is_space rest = [] \<or> List.member (takeWhile is_space rest) newline)
        then Some lock else None)"

fun lock_search :: "bool \<Rightarrow> string \<Rightarrow> string option" where
  "lock_search start s =
    (case (if start then lock_at s else None) of
       Some lock \<Rightarrow> Some lock
     | None \<Rightarrow> (case s of [] \<Rightarrow> None | c # rest \<Rightarrow> lock_search (c = newline) rest))"

definition lock_id :: "string \<Rightarrow> string option" where
  "lock_id err = (if contains_text msg_state_lock err then lock_search True err else None)"

definition int_str :: "int \<Rightarrow> string" where
  "int_str n = (if n < 0 then CHR ''-'' # nat_str (nat (- n)) else nat_str (nat n))"

definition shown_args :: "string list \<Rightarrow> string" where
  "shown_args args = join '' '' (filter (\<lambda>a. \<not> has_prefix ''-backend-config'' a) args)"

definition receipt :: "string list \<Rightarrow> string \<Rightarrow> string" where
  "receipt args body = ''$ terraform '' @ shown_args args @ [newline] @ body @ [newline]"

definition log_body :: "bool \<Rightarrow> string list \<Rightarrow> int \<Rightarrow> string \<Rightarrow> string \<Rightarrow> string" where
  "log_body safe args rc out err =
    (if safe then ''exit_code='' @ int_str rc
     else if hd args = ''output'' \<or> hd args = ''show'' then err else out @ err)"

definition msg_deadline :: "string \<Rightarrow> string" where
  "msg_deadline command = ''terraform '' @ command @ '' exceeded its deadline''"

definition msg_failed :: "string \<Rightarrow> int \<Rightarrow> string \<Rightarrow> string" where
  "msg_failed command rc err = ''terraform '' @ command @ '' failed: '' @
     (if first_error err \<noteq> [] then first_error err else ''exit '' @ int_str rc)"

text \<open>\<^verbatim>\<open>_run\<close>. The first argument bounds the recursion of its automatic unlock, as the interpreter
  does. \<open>args\<close> is never empty.\<close>

fun run_at :: "nat \<Rightarrow> engine \<Rightarrow> string \<Rightarrow> string list \<Rightarrow> bool \<Rightarrow> bool \<Rightarrow> string wm" where
  "run_at 0 e i args unlock_once safe h = (Inl (OtherError ''maximum recursion depth exceeded''), h)"
| "run_at (Suc n) e i args unlock_once safe h =
    (case h_dirs h i of
       None \<Rightarrow> (Inl (OtherError ''No such file or directory''), h)
     | Some d \<Rightarrow>
        if hd args = ''init'' \<and> \<not> cache_lock e d
        then (Inl (TerraformError ''terraform init exceeded its deadline waiting for the provider cache''), h)
        else
          (case run_tf e args (d, saved_plan i h) of (ex, d', b) \<Rightarrow>
             let h1 = put_plan i b (put_dir i d' (h\<lparr>h_commands := (i, args) # h_commands h\<rparr>)) in
             (case ex of
                Deadline \<Rightarrow> (Inl (TerraformError (msg_deadline (hd args))),
                  add_log i (receipt args ''exit_code=timeout'') h1)
              | Exited rc out err \<Rightarrow>
                  let h2 = add_log i (receipt args (log_body safe args rc out err)) h1 in
                  if rc = 0 then (Inr out, h2)
                  else
                    (case (if unlock_once then lock_id err else None) of
                       Some lock \<Rightarrow>
                         wbind (run_at n e i [''force-unlock'', ''-force'', lock] True False)
                           (\<lambda>_. run_at n e i args False False)
                           (add_log i (''# state lock '' @ lock @ '' belongs to an interrupted run'' @ [newline]) h2)
                     | None \<Rightarrow> (Inl (TerraformError (msg_failed (hd args) rc err)), h2)))))"

definition run_command :: "engine \<Rightarrow> string \<Rightarrow> string list \<Rightarrow> bool \<Rightarrow> bool \<Rightarrow> string wm" where
  "run_command e i args unlock_once safe = run_at (recursion_limit e) e i args unlock_once safe"

section \<open>Preparation\<close>

definition set_str :: "string option \<Rightarrow> bool" where
  "set_str x = (case x of None \<Rightarrow> False | Some s \<Rightarrow> s \<noteq> [])"

definition backend_args :: "engine \<Rightarrow> string \<Rightarrow> settings \<Rightarrow> exn + string list" where
  "backend_args e i c =
    (if set_str (state_resource_group e) \<and> set_str (state_storage_account e)
     then Inr (map (\<lambda>(k, v). ''-backend-config='' @ k @ ''='' @ v)
       ([(''resource_group_name'', the (state_resource_group e)),
         (''storage_account_name'', the (state_storage_account e)),
         (''container_name'', state_container e), (''key'', ''deployments/'' @ i @ ''.tfstate''),
         (''use_azuread_auth'', ''true'')] @
        (if set_str (azure_subscription_id c) then [(''subscription_id'', the (azure_subscription_id c))] else []) @
        (if use_oidc e then [(''use_oidc'', ''true'')]
         else if use_msi e then [(''use_msi'', ''true'')]
         else if use_aks e then [(''use_aks_workload_identity'', ''true'')] else [])))
     else Inl (TerraformError ''pattern needs remote state but FORGEAPI_STATE_* is not configured''))"

definition fetch_pattern :: "engine \<Rightarrow> string \<Rightarrow> string \<Rightarrow> bool \<Rightarrow> unit wm" where
  "fetch_pattern e i source safe =
    wbind (\<lambda>h. (Inr (), put_plan i None (put_dir i empty_workdir h)))
     (\<lambda>_. wbind (run_command e i
            [''init'', ''-no-color'', ''-backend=false'', ''-from-module='' @ source] (\<not> safe) safe)
     (\<lambda>_ h. (Inr (), put_dir i ((the (h_dirs h i))\<lparr>wd_source := Some source\<rparr>) h)))"

definition ensure_source :: "engine \<Rightarrow> string \<Rightarrow> string \<Rightarrow> bool \<Rightarrow> unit wm" where
  "ensure_source e i source safe h =
    (case h_dirs h i of
       None \<Rightarrow> fetch_pattern e i source safe h
     | Some d \<Rightarrow>
        if wd_source d = Some source then (Inr (), h)
        else if wd_local_state d
        then (Inl (TerraformError ''cannot change the version of a deployment that keeps local state''), h)
        else fetch_pattern e i source safe h)"

definition prepare :: "engine \<Rightarrow> string \<Rightarrow> string \<Rightarrow> (string \<times> json) list \<Rightarrow> bool \<Rightarrow> unit wm" where
  "prepare e i source vars safe =
    wbind (ensure_source e i source safe)
     (\<lambda>_. wbind (\<lambda>h. let d = (the (h_dirs h i))\<lparr>wd_variables := Some (JObj vars)\<rparr>
                    in (if uses_backend e d then backend_args e i (cfg (h_world h)) else Inr [], put_dir i d h))
     (\<lambda>backend. wbind (run_command e i ([''init'', ''-no-color''] @ backend) (\<not> safe) safe)
     (\<lambda>_. wreturn ())))"

section \<open>The saved plan of the older stack\<close>

definition plan_fingerprint :: "string \<Rightarrow> (string \<times> json) list \<Rightarrow> string option \<Rightarrow> json" where
  "plan_fingerprint source vars subscription =
     canon (JList [JStr source, JObj vars, opt_json subscription])"

definition tf_plan :: "engine \<Rightarrow> string \<Rightarrow> string \<Rightarrow> (string \<times> json) list \<Rightarrow> string option \<Rightarrow> unit wm" where
  "tf_plan e i source vars subscription =
    wbind (prepare e i source vars False)
     (\<lambda>_. wbind (run_command e i [''plan'', ''-no-color'', ''-out=tfplan''] True False)
     (\<lambda>_ h. (Inr (), put_dir i ((the (h_dirs h i))
               \<lparr>wd_fingerprint := Some (plan_fingerprint source vars subscription)\<rparr>) h)))"

definition tf_destroy :: "engine \<Rightarrow> string \<Rightarrow> string \<Rightarrow> (string \<times> json) list \<Rightarrow> unit wm" where
  "tf_destroy e i source vars =
    wbind (prepare e i source vars False)
     (\<lambda>_. wbind (run_command e i [''destroy'', ''-no-color'', ''-auto-approve''] True False) (\<lambda>_. wreturn ()))"

definition split_outputs :: "(string \<times> tf_output) list \<Rightarrow> (string \<times> json) list \<times> string list" where
  "split_outputs raw =
    (map (\<lambda>(n, o'). (n, out_value o')) (filter (\<lambda>(n, o'). \<not> out_sensitive o') raw),
     sort (map fst (filter (\<lambda>(n, o'). out_sensitive o') raw)))"

definition has_plan_for :: "string \<Rightarrow> json \<Rightarrow> host \<Rightarrow> bool" where
  "has_plan_for i expected h \<longleftrightarrow> saved_plan i h \<noteq> None \<and>
     (case h_dirs h i of None \<Rightarrow> False | Some d \<Rightarrow> wd_fingerprint d = Some expected)"

definition tf_apply ::
  "engine \<Rightarrow> string \<Rightarrow> string \<Rightarrow> (string \<times> json) list \<Rightarrow> string option \<Rightarrow> ((string \<times> json) list \<times> string list) wm" where
  "tf_apply e i source vars subscription =
    wbind (\<lambda>h. if has_plan_for i (plan_fingerprint source vars subscription) h then (Inr (), h)
               else tf_plan e i source vars subscription
                      (add_log i (''# no saved plan for this request on this worker; planning here'' @ [newline]) h))
     (\<lambda>_. wbind (run_command e i [''apply'', ''-no-color'', ''tfplan''] True False)
     (\<lambda>_. wbind (\<lambda>h. (Inr (), put_plan i None
               (put_dir i ((the (h_dirs h i))\<lparr>wd_fingerprint := None\<rparr>) h)))
     (\<lambda>_. wbind (run_command e i [''output'', ''-json''] True False)
     (\<lambda>out. wbind (wlift (read_outputs e out)) (\<lambda>raw. wreturn (split_outputs raw))))))"

end
