(* ===== verification/Worker.thy ===== *)
theory Worker
  imports Terraform
begin

text \<open>
  The worker's activities, \<^verbatim>\<open>app/operation_activities.py\<close>: planning, applying exactly the saved plan,
  drift checks, and what each outcome reports to the ledger. \<open>t1\<close> and \<open>t2\<close> are the instants of the
  claim and of the report; the log line of a failed drift check is dropped.
\<close>

section \<open>What a plan says\<close>

definition planned_objects_of :: "plan_json \<Rightarrow> (string \<times> string) list" where
  "planned_objects_of raw = map (\<lambda>c. (rc_address c, rc_type c))
     (filter (\<lambda>c. (rc_mode c = None \<or> rc_mode c = Some ''managed'') \<and>
        rc_actions c \<noteq> [''delete''] \<and> rc_actions c \<noteq> [''forget'']) (pj_resource_changes raw))"

fun count_managed :: "state_module \<Rightarrow> nat" where
  "count_managed (State_module modes children) =
     length (filter (\<lambda>m. m = None \<or> m = Some ''managed'') modes) + sum_list (map count_managed children)"

definition state_resources :: "plan_json \<Rightarrow> nat" where
  "state_resources raw = (case pj_root_module raw of None \<Rightarrow> 0 | Some m \<Rightarrow> count_managed m)"

definition planned_changes :: "plan_json \<Rightarrow> exn + change list" where
  "planned_changes raw = smap (\<lambda>c. sbind (change_detail c) (\<lambda>d. Inr
       \<lparr>c_address = rc_address c, c_type = rc_type c, c_actions = rc_actions c, c_detail = Some d\<rparr>))
     (filter (\<lambda>c. rc_actions c \<noteq> [''no-op'']) (pj_resource_changes raw))"

definition drifted_objects :: "plan_json \<Rightarrow> change list" where
  "drifted_objects raw = map (\<lambda>c. \<lparr>c_address = rc_address c, c_type = rc_type c,
     c_actions = rc_actions c, c_detail = None\<rparr>) (pj_resource_drift raw)"

section \<open>Reports\<close>

text \<open>\<^verbatim>\<open>owns\<close>: the running state this activity was handed is still the stored one.\<close>

definition owns :: "doc \<Rightarrow> bool wm" where
  "owns op = wbind (on_ledger (\<lambda>w. (get_operation (d_id op) w, w)))
     (\<lambda>stored. wreturn (case stored of None \<Rightarrow> False | Some s \<Rightarrow> d_state s = d_state op))"

definition report :: "doc \<Rightarrow> state \<Rightarrow> finish_result \<Rightarrow> nat \<Rightarrow> unit wm" where
  "report op st fr t = on_ledger (finish op st fr t)"

definition failure :: "string \<Rightarrow> string option option \<Rightarrow> finish_result" where
  "failure msg why = no_result\<lparr>fr_error := Some msg, fr_diagnostic := why\<rparr>"

text \<open>\<^verbatim>\<open>fail\<close>: the plan file goes before the report.\<close>

definition fail_op :: "doc \<Rightarrow> string \<Rightarrow> string option option \<Rightarrow> nat \<Rightarrow> unit wm" where
  "fail_op op msg why t =
    wbind (owns op)
     (\<lambda>mine. wbind (\<lambda>h. (Inr (), if mine then put_plan (d_resource_id op) None h else h))
     (\<lambda>_. report op Failed (failure msg why) t))"

definition why_of :: "doc \<Rightarrow> exn \<Rightarrow> host \<Rightarrow> string option" where
  "why_of op e h = diagnostic (cfg (h_world h)) op e"

definition digest_of :: "engine \<Rightarrow> doc \<Rightarrow> string wm" where
  "digest_of e op h = (case saved_plan (d_resource_id op) h of
      None \<Rightarrow> (Inl (OtherError ''No such file or directory''), h)
    | Some b \<Rightarrow> (Inr (sha256 e b), h))"

definition variables_of :: "doc \<Rightarrow> (string \<times> json) list" where
  "variables_of op = dict_merge (p_inputs (d_def op)) (p_injected (d_def op))"

text \<open>Every run of the worker: no automatic unlock, receipts only in the log.\<close>

definition safe_run :: "engine \<Rightarrow> doc \<Rightarrow> string list \<Rightarrow> string wm" where
  "safe_run e op args = run_command e (d_resource_id op) args False True"

definition safe_prepare :: "engine \<Rightarrow> doc \<Rightarrow> unit wm" where
  "safe_prepare e op = prepare e (d_resource_id op) (p_source (d_def op)) (variables_of op) True"

section \<open>Planning\<close>

definition plan_report :: "engine \<Rightarrow> string list \<Rightarrow> plan_json \<Rightarrow> exn + finish_result" where
  "plan_report e ids raw =
    sbind (planned_changes raw) (\<lambda>changes.
    let drift = drifted_objects raw; objects = planned_objects_of raw in
    if unsafe_summary (number_text e) ids (summary_json changes drift objects)
    then Inl (OtherError ''unsafe plan summary'')
    else Inr (no_result\<lparr>fr_changes := Some changes, fr_drift := Some drift, fr_planned_objects := Some objects\<rparr>))"

definition plan_args :: "doc \<Rightarrow> string list" where
  "plan_args op = [''plan'', ''-no-color'', ''-out=tfplan''] @ (if d_action op = Destroy then [''-destroy''] else [])"

definition run_plan :: "engine \<Rightarrow> doc \<Rightarrow> nat \<Rightarrow> unit wm" where
  "run_plan e op t =
    wbind (safe_prepare e op)
     (\<lambda>_. wbind (safe_run e op (plan_args op))
     (\<lambda>_. wbind (safe_run e op [''show'', ''-json'', ''tfplan''])
     (\<lambda>out. wbind (wlift (read_plan e out))
     (\<lambda>raw. wbind (\<lambda>h. (plan_report e (redaction_ids (cfg (h_world h)) op) raw, h))
     (\<lambda>fr. wbind (digest_of e op)
     (\<lambda>d. report op Planned (fr\<lparr>fr_plan_digest := Some d\<rparr>) t))))))"

section \<open>Applying\<close>

definition msg_plan_changed :: string where
  "msg_plan_changed = ''saved plan missing or changed; submit a new intent''"

text \<open>The failures by which Terraform refuses before it changes anything.\<close>

definition refusal :: "string \<Rightarrow> string option" where
  "refusal msg =
    (if contains_text ''Saved plan is stale'' msg then Some ''saved plan is stale; submit a new intent''
     else if contains_text ''cannot be transferred between different Terraform versions'' msg
     then Some ''saved plan was made by a different Terraform version; submit a new intent''
     else if contains_text msg_state_lock msg
     then Some ''Terraform state is locked by another run; an operator must inspect the lock''
     else None)"

text \<open>An output that holds a placement identifier is withheld like a sensitive one.\<close>

definition withhold :: "engine \<Rightarrow> string list \<Rightarrow> (string \<times> json) list \<times> string list \<Rightarrow> (string \<times> json) list \<times> string list" where
  "withhold e ids = (\<lambda>(outputs, withheld).
     let hit = (\<lambda>kv. list_ex (mentions (dumps (number_text e) (snd kv))) ids)
     in (filter (\<lambda>kv. \<not> hit kv) outputs, withheld @ map fst (filter hit outputs)))"

definition collect_outputs :: "engine \<Rightarrow> doc \<Rightarrow> ((string \<times> json) list \<times> string list) wm" where
  "collect_outputs e op =
    wbind (safe_run e op [''output'', ''-json''])
     (\<lambda>out. wbind (wlift (read_outputs e out))
     (\<lambda>raw h. let (outputs, withheld) = withhold e (hidden_ids (cfg (h_world h)) op) (split_outputs raw)
              in (if list_all (\<lambda>kv. finite_json (snd kv)) outputs then (Inr (outputs, withheld), h)
                  else (Inl (OtherError ''Out of range float values are not JSON compliant''), h))))"

definition drop_terraform_dir :: "doc \<Rightarrow> unit wm" where
  "drop_terraform_dir op h = (Inr (), case h_dirs h (d_resource_id op) of
      None \<Rightarrow> h | Some d \<Rightarrow> put_dir (d_resource_id op) (d\<lparr>wd_dot_terraform := False\<rparr>) h)"

definition after_apply :: "engine \<Rightarrow> doc \<Rightarrow> nat \<Rightarrow> unit wm" where
  "after_apply e op t =
    wbind (\<lambda>h. if saved_plan (d_resource_id op) h = None then (Inl (OtherError ''No such file or directory''), h)
               else (Inr (), put_plan (d_resource_id op) None h))
     (\<lambda>_. wbind (collect_outputs e op)
     (\<lambda>(outputs, withheld). wbind (if d_action op = Destroy then owns op else wreturn False)
     (\<lambda>clean_up. wbind (if clean_up then drop_terraform_dir op else wreturn ())
     (\<lambda>_. report op Succeeded (no_result\<lparr>fr_outputs := Some outputs, fr_withheld_outputs := Some withheld\<rparr>) t))))"

definition run_apply :: "engine \<Rightarrow> doc \<Rightarrow> nat \<Rightarrow> unit wm" where
  "run_apply e op t h =
    (if saved_plan (d_resource_id op) h = None \<or>
        map_option (sha256 e) (saved_plan (d_resource_id op) h) \<noteq> d_plan_digest op
     then fail_op op msg_plan_changed None t h
     else
       (case safe_run e op [''apply'', ''-no-color'', ''tfplan''] h of
          (Inr _, h1) \<Rightarrow> after_apply e op t h1
        | (Inl (OtherError msg), h1) \<Rightarrow> (Inl (OtherError msg), h1)
        | (Inl (TerraformError msg), h1) \<Rightarrow>
            (case refusal msg of
               None \<Rightarrow> (Inl (TerraformError msg), h1)
             | Some why \<Rightarrow> fail_op op why (Some (why_of op (TerraformError msg) h1)) t h1)))"

section \<open>Drift checks\<close>

definition msg_no_state :: string where
  "msg_no_state = ''Terraform state is not available on this worker; run the check where the resource was applied, or use remote state''"

definition msg_check_failed :: string where
  "msg_check_failed = ''Terraform drift check failed; inspect command receipts and pattern configuration''"

definition msg_check_locked :: string where
  "msg_check_locked = ''Terraform state is locked by another run; try the drift check again later''"

definition refresh_args :: "string list" where
  "refresh_args = [''plan'', ''-refresh-only'', ''-no-color'', ''-input=false'', ''-lock-timeout=0s'', ''-out=drift.tfplan'']"

text \<open>What the check found; \<open>None\<close> when no state was loaded (\<^verbatim>\<open>_StateUnavailable\<close>).\<close>

definition find_drift :: "engine \<Rightarrow> doc \<Rightarrow> change list option wm" where
  "find_drift e op =
    wbind (safe_prepare e op)
     (\<lambda>_. wbind (safe_run e op refresh_args)
     (\<lambda>_. wbind (safe_run e op [''show'', ''-json'', ''drift.tfplan''])
     (\<lambda>out. wbind (wlift (read_plan e out))
     (\<lambda>raw h. let drift = drifted_objects raw in
        if unsafe_summary (number_text e) (redaction_ids (cfg (h_world h)) op) (JList (map change_json drift))
        then (Inl (OtherError ''unsafe drift summary''), h)
        else
          wbind (on_ledger (\<lambda>w. (resource (d_resource_id op) w, w)))
            (\<lambda>found. case found of
               None \<Rightarrow> wraise (OtherError ''object has no attribute'')
             | Some r \<Rightarrow>
                 wreturn (if d_managed_objects r \<noteq> None \<and> d_managed_objects r \<noteq> Some [] \<and> drift = [] \<and>
                             state_resources raw = 0
                          then None else Some drift)) h))))"

definition drop_scratch_plan :: "doc \<Rightarrow> host \<Rightarrow> host" where
  "drop_scratch_plan op h = (case h_dirs h (d_resource_id op) of
      None \<Rightarrow> h | Some d \<Rightarrow> put_dir (d_resource_id op) (d\<lparr>wd_drift_plan := False\<rparr>) h)"

definition run_drift_check :: "engine \<Rightarrow> doc \<Rightarrow> nat \<Rightarrow> unit wm" where
  "run_drift_check e op t h =
    (case find_drift e op h of
       (Inr (Some drift), h1) \<Rightarrow>
         report op Succeeded (no_result\<lparr>fr_drift := Some drift\<rparr>) t (drop_scratch_plan op h1)
     | (Inr None, h1) \<Rightarrow>
         report op Failed (failure msg_no_state (Some None)) t (drop_scratch_plan op h1)
     | (Inl ex, h1) \<Rightarrow>
         report op Failed
           (if contains_text msg_state_lock (exn_text ex) then failure msg_check_locked (Some None)
            else failure msg_check_failed (Some (why_of op ex h1))) t (drop_scratch_plan op h1))"

section \<open>The activities\<close>

definition msg_unknown_outcome :: string where
  "msg_unknown_outcome = ''execution outcome requires operator reconciliation''"

definition msg_plan_failed :: string where
  "msg_plan_failed = ''Terraform planning failed; inspect command receipts and pattern configuration''"

text \<open>A failed apply may have changed something: its outcome is uncertain, never failed.\<close>

definition run_phase :: "engine \<Rightarrow> doc \<Rightarrow> nat \<Rightarrow> unit wm" where
  "run_phase e op t =
    (if d_action op = Drift_check then run_drift_check e op t
     else wcatch (if d_state op = Some Planning then run_plan e op t else run_apply e op t)
       (\<lambda>ex h. if d_state op = Some Applying
               then report op Uncertain (failure msg_unknown_outcome (Some (why_of op ex h))) t h
               else fail_op op msg_plan_failed (Some (why_of op ex h)) t h))"

definition run_operation_phase :: "engine \<Rightarrow> string \<Rightarrow> phase \<Rightarrow> nat \<Rightarrow> nat \<Rightarrow> bool wm" where
  "run_operation_phase e operation_id p t1 t2 =
    wbind (on_ledger (claim operation_id p t1))
     (\<lambda>claim. case claim of
        None \<Rightarrow> wreturn False
      | Some op \<Rightarrow> wbind (run_phase e op t2) (\<lambda>_. wreturn True))"

definition mark_operation_uncertain :: "string \<Rightarrow> phase \<Rightarrow> nat \<Rightarrow> unit wm" where
  "mark_operation_uncertain operation_id p t = on_ledger (interrupted operation_id p t)"

end
