(* ===== verification/RedactionProperties.thy ===== *)
theory RedactionProperties
  imports Redaction
begin

text \<open>
  The redaction keeps its promise: a stored diagnostic names no placement identifier, and a summary
  that passed the check names none in any of its texts, for identifiers that JSON prints as they
  are. An identifier with other characters passes the check unseen.
\<close>

section \<open>Texts within texts\<close>

lemma contains_text_iff: "contains_text p s \<longleftrightarrow> sublist p s"
proof (induction s)
  case Nil
  then show ?case by simp
next
  case (Cons c s)
  have "has_prefix p t \<longleftrightarrow> prefix p t" for t
    by (auto simp: has_prefix_def prefix_def) (metis append_take_drop_id)
  then show ?case using Cons by (simp add: sublist_Cons_right)
qed

lemma lower_append [simp]: "lower (xs @ ys) = lower xs @ lower ys"
  by (simp add: lower_def)

lemma lower_Cons [simp]: "lower (c # xs) = lower_char c # lower xs"
  by (simp add: lower_def)

lemma lower_Nil [simp]: "lower [] = []"
  by (simp add: lower_def)

lemma length_lower [simp]: "length (lower s) = length s"
  by (simp add: lower_def)

lemma lower_take: "lower (take n s) = take n (lower s)"
  by (simp add: lower_def take_map)

lemma lower_mark: "lower redacted_mark = redacted_mark"
  by code_simp

text \<open>A text that replacements cannot produce: no bracket, and not part of the word between them.\<close>

definition clear_of_mark :: "string \<Rightarrow> bool" where
  "clear_of_mark v \<longleftrightarrow> v \<noteq> [] \<and> CHR ''['' \<notin> set v \<and> CHR '']'' \<notin> set v \<and> \<not> contains_text v ''redacted''"

lemma sublist_after_mark:
  assumes "sublist v (redacted_mark @ t)" "clear_of_mark v"
  shows "sublist v t"
proof -
  have v: "v \<noteq> []" "CHR ''['' \<notin> set v" "CHR '']'' \<notin> set v" "\<not> sublist v ''redacted''"
    using assms(2) by (auto simp: clear_of_mark_def contains_text_iff)
  have mark: "redacted_mark @ t = CHR ''['' # (''redacted'' @ CHR '']'' # t)" by (simp add: redacted_mark_def)
  have "sublist v (''redacted'' @ CHR '']'' # t)"
    using assms(1) v(1,2) unfolding mark by (auto simp: sublist_Cons_right prefix_Cons)
  then consider "sublist v ''redacted''" | "sublist v (CHR '']'' # t)"
    | v1 v2 where "v = v1 @ v2" "prefix v2 (CHR '']'' # t)" "suffix v1 ''redacted''"
    unfolding sublist_append by blast
  then show ?thesis
  proof cases
    case 2
    then show ?thesis using v(1,3) by (auto simp: sublist_Cons_right prefix_Cons)
  next
    case 3
    then have "v2 = []" using v(3) by (auto simp: prefix_Cons)
    then show ?thesis using 3 v(4) by (auto dest: suffix_imp_sublist)
  qed (use v in simp)
qed

text \<open>What both substitutions do: keep a character, or put the mark in place of some text.\<close>

inductive redacts :: "string \<Rightarrow> string \<Rightarrow> bool" where
  r_nil: "redacts [] []"
| r_keep: "redacts s s' \<Longrightarrow> redacts (c # s) (c # s')"
| r_mark: "redacts s s' \<Longrightarrow> redacts (u @ s) (redacted_mark @ s')"

lemma redacts_prefix: "redacts s s' \<Longrightarrow> prefix w (lower s') \<Longrightarrow> CHR ''['' \<notin> set w \<Longrightarrow> prefix w (lower s)"
proof (induction arbitrary: w rule: redacts.induct)
  case (r_keep s s' c)
  then show ?case by (cases w) auto
next
  case (r_mark s s' u)
  then have "w = []" by (cases w) (auto simp: lower_mark, auto simp: redacted_mark_def)
  then show ?case by simp
qed simp

lemma redacts_clear:
  "redacts s s' \<Longrightarrow> clear_of_mark v \<Longrightarrow> \<not> contains_text v (lower s) \<Longrightarrow> \<not> contains_text v (lower s')"
proof (induction rule: redacts.induct)
  case (r_keep s s' c)
  have "\<not> prefix v (lower (c # s'))"
    using redacts_prefix [OF redacts.r_keep [OF r_keep.hyps], of v c] r_keep.prems
    by (auto simp: contains_text_iff clear_of_mark_def sublist_Cons_right simp del: lower_Cons)
  with r_keep show ?case by (auto simp: contains_text_iff sublist_Cons_right)
next
  case (r_mark s s' u)
  then have "\<not> contains_text v (lower s')"
    by (auto simp: contains_text_iff simp del: sublist_append intro: sublist_append_leftI sublist_order.order.trans)
  then show ?case using sublist_after_mark r_mark.prems(1) by (auto simp: contains_text_iff lower_mark)
qed simp

lemma redact_value_redacts: "redacts text (redact_value v text)"
proof (induction v "text" rule: redact_value.induct)
  case (1 v "text")
  show ?case
  proof (cases "text")
    case Nil
    then show ?thesis by (simp add: redact_value.simps r_nil)
  next
    case (Cons c cs)
    show ?thesis
    proof (cases "v \<noteq> [] \<and> lower (take (length v) text) = lower v")
      case True
      then have "redacts (drop (length v) text) (redact_value v (drop (length v) text))" using 1(1) Cons by simp
      then have "redacts (take (length v) text @ drop (length v) text) (redacted_mark @ redact_value v (drop (length v) text))"
        by (rule r_mark)
      then show ?thesis using True Cons by (subst redact_value.simps) simp
    next
      case False
      then have "redacts cs (redact_value v cs)" using 1(2) Cons by simp
      then have "redacts (c # cs) (c # redact_value v cs)" by (rule r_keep)
      then show ?thesis unfolding Cons by (subst redact_value.simps) (use False Cons in auto)
    qed
  qed
qed

lemma redact_patterns_redacts: "redacts text (redact_patterns prev text)"
proof (induction prev "text" rule: redact_patterns.induct)
  case (1 prev "text")
  let ?n = "redact_match prev text"
  show ?case
  proof (cases "text")
    case Nil
    then show ?thesis by (simp add: redact_patterns.simps r_nil)
  next
    case (Cons c cs)
    show ?thesis
    proof (cases "?n = 0")
      case True
      then have "redacts (c # cs) (c # redact_patterns (Some c) cs)" using 1(1) Cons by (intro r_keep) simp
      then show ?thesis using True Cons by (subst redact_patterns.simps) (simp add: Let_def)
    next
      case False
      then have "redacts (drop ?n text) (redact_patterns (Some (last (take ?n text))) (drop ?n text))"
        using 1(2) Cons by simp
      then have "redacts (take ?n text @ drop ?n text)
          (redacted_mark @ redact_patterns (Some (last (take ?n text))) (drop ?n text))" by (rule r_mark)
      then show ?thesis using False Cons by (subst redact_patterns.simps) (simp add: Let_def)
    qed
  qed
qed

lemma redact_value_clears: "clear_of_mark (lower v) \<Longrightarrow> \<not> contains_text (lower v) (lower (redact_value v text))"
proof (induction v "text" rule: redact_value.induct)
  case (1 v "text")
  have ne: "v \<noteq> []" using 1(3) by (auto simp: clear_of_mark_def)
  show ?case
  proof (cases "text")
    case Nil
    then show ?thesis using ne by (simp add: redact_value.simps contains_text_iff lower_def)
  next
    case (Cons c cs)
    show ?thesis
    proof (cases "lower (take (length v) text) = lower v")
      case True
      then have "\<not> contains_text (lower v) (lower (redact_value v (drop (length v) text)))"
        using 1(1,3) Cons ne by simp
      then have "\<not> contains_text (lower v) (redacted_mark @ lower (redact_value v (drop (length v) text)))"
        using sublist_after_mark 1(3) by (auto simp: contains_text_iff)
      then show ?thesis using True Cons ne by (subst redact_value.simps) (simp add: lower_mark)
    next
      case False
      then have tail: "\<not> contains_text (lower v) (lower (redact_value v cs))" using 1(2,3) Cons by simp
      have "\<not> prefix (lower v) (lower (c # redact_value v cs))"
      proof
        assume "prefix (lower v) (lower (c # redact_value v cs))"
        then have "prefix (lower v) (lower text)"
          unfolding Cons using redacts_prefix [OF r_keep [OF redact_value_redacts]] 1(3)
          by (simp add: clear_of_mark_def)
        then have "take (length v) (lower text) = lower v" by (auto simp: prefix_def)
        with False show False by (simp add: lower_take)
      qed
      with tail have "\<not> contains_text (lower v) (lower (c # redact_value v cs))"
        by (auto simp: contains_text_iff sublist_Cons_right)
      then show ?thesis using False Cons by (subst redact_value.simps) simp
    qed
  qed
qed

lemma fold_redact_clears:
  assumes "clear_of_mark (lower v)" "v \<in> set ids \<or> \<not> contains_text (lower v) (lower text)"
  shows "\<not> contains_text (lower v) (lower (fold redact_value ids text))"
  using assms(2)
proof (induction ids arbitrary: "text")
  case (Cons i ids)
  have "v \<in> set ids \<or> \<not> contains_text (lower v) (lower (redact_value i text))"
    using Cons.prems redact_value_clears [OF assms(1)] redacts_clear [OF redact_value_redacts assms(1)] by auto
  then show ?case using Cons.IH by simp
qed simp

lemma take_clear: "\<not> contains_text v (lower s) \<Longrightarrow> \<not> contains_text v (lower (take n s))"
  unfolding contains_text_iff lower_take by (meson prefix_imp_sublist sublist_order.order.trans take_is_prefix)

text \<open>C23. The stored reason of a failure names no placement identifier. A diagnostic is either the
  fixed text for rejected credentials, or at most 400 characters in which no placement or injected
  identifier of the operation occurs in any case of letters, provided the identifier has no square
  bracket and is not itself a part of the word that replaces it.\<close>

theorem diagnostic_hides_identifiers:
  assumes "diagnostic c op e = Some text" "i \<in> set (redaction_ids c op)" "clear_of_mark (lower i)"
  shows "(\<exists>command. failed_command (exn_text e) = Some command \<and> text = msg_rejected command) \<or>
    (length text \<le> 400 \<and> \<not> mentions text i)"
proof (cases e)
  case (TerraformError msg)
  let ?s = "fold redact_value (longest_first (redaction_ids c op)) msg"
  have "i \<in> set (longest_first (redaction_ids c op))" using assms(2) by (simp add: longest_first_def)
  then have "\<not> contains_text (lower i) (lower ?s)" using fold_redact_clears [OF assms(3)] by blast
  then have "\<not> contains_text (lower i) (lower (take DIAGNOSTIC_MAX (redact_patterns None ?s)))"
    by (intro take_clear redacts_clear [OF redact_patterns_redacts assms(3)])
  then show ?thesis using assms(1)
    by (auto simp: diagnostic_def TerraformError Let_def mentions_def DIAGNOSTIC_MAX_def split: if_splits)
qed (use assms(1) in \<open>simp add: diagnostic_def\<close>)

section \<open>Summaries\<close>

text \<open>The characters JSON prints as they are, and the texts of a value.\<close>

definition plain_char :: "char \<Rightarrow> bool" where
  "plain_char c \<longleftrightarrow> 32 \<le> code c \<and> code c \<le> 126 \<and> code c \<noteq> 34 \<and> code c \<noteq> 92"

definition plain :: "string \<Rightarrow> bool" where
  "plain s \<longleftrightarrow> s \<noteq> [] \<and> list_all plain_char s"

fun texts_of :: "json \<Rightarrow> string list" where
  "texts_of (JStr s) = [s]"
| "texts_of (JList xs) = concat (map texts_of xs)"
| "texts_of (JObj kvs) = concat (map (\<lambda>kv. fst kv # texts_of (snd kv)) kvs)"
| "texts_of j = []"

lemma plain_json_char: "plain_char c \<Longrightarrow> json_char c = [c]"
  by (simp add: plain_char_def json_char_def code_def Let_def)

lemma code_lower: "code (lower_char c) = (if (65 \<le> code c \<and> code c \<le> 90) \<or>
    (192 \<le> code c \<and> code c \<le> 222 \<and> code c \<noteq> 215) then code c + 32 else code c)"
proof -
  have "code c < 256" by (simp add: code_def)
  then show ?thesis by (auto simp: lower_char_def code_def)
qed

lemma plain_case: "plain_char c \<Longrightarrow> lower_char c' = lower_char c \<Longrightarrow> plain_char c'"
  using code_lower [of c] code_lower [of c'] by (auto simp: plain_char_def split: if_splits)

lemma plain_lower: "list_all plain_char v \<Longrightarrow> lower v' = lower v \<Longrightarrow> list_all plain_char v'"
proof (induction v arbitrary: v')
  case (Cons c v)
  then obtain c' w where "v' = c' # w" "lower_char c' = lower_char c" "lower w = lower v" by (cases v') auto
  with Cons show ?case by (auto intro: plain_case)
qed (simp add: lower_def)

lemma lower_sublistE:
  assumes "sublist (lower v) (lower s)"
  obtains p v' q where "s = p @ v' @ q" "lower v' = lower v"
proof -
  from assms obtain p q where pq: "lower s = p @ lower v @ q" by (auto simp: sublist_def)
  let ?v = "take (length v) (drop (length p) s)" and ?q = "drop (length v) (drop (length p) s)"
  have "lower ?v = take (length v) (drop (length p) (lower s))" by (simp add: lower_def take_map drop_map)
  then have "lower ?v = lower v" by (simp add: pq)
  moreover have "s = take (length p) s @ ?v @ ?q" by (simp only: append_take_drop_id)
  ultimately show ?thesis using that by blast
qed

lemma mentions_quote:
  assumes "mentions s v" "plain v"
  shows "sublist (lower v) (lower (json_quote s))"
proof -
  from assms(1) obtain p v' q where s: "s = p @ v' @ q" "lower v' = lower v"
    by (auto simp: mentions_def contains_text_iff elim: lower_sublistE)
  then have "list_all plain_char v'" using assms(2) plain_lower by (auto simp: plain_def)
  then have "concat (map json_char v') = v'" by (induction v') (auto simp: plain_json_char)
  then have "json_quote s = (CHR 0x22 # concat (map json_char p)) @ v' @ (concat (map json_char q) @ [CHR 0x22])"
    by (simp add: json_quote_def s(1))
  then have "lower (json_quote s) = lower (CHR 0x22 # concat (map json_char p)) @ lower v @
      lower (concat (map json_char q) @ [CHR 0x22])" by (simp add: s(2))
  then show ?thesis by (simp only: sublist_appendI)
qed

lemma sublist_mid: "sublist v x \<Longrightarrow> sublist v (p @ x @ q)"
  by (meson sublist_appendI sublist_order.order.trans)

lemma comma_join_sublist: "x \<in> set xs \<Longrightarrow> sublist x (comma_join xs)"
proof (induction xs rule: comma_join.induct)
  case (3 x' y xs)
  then show ?case using sublist_mid [of x "comma_join (y # xs)" "x' @ '', ''" "[]"] by auto
qed auto

lemma lower_sublist: "sublist x y \<Longrightarrow> sublist (lower x) (lower y)"
  by (auto simp: sublist_def) (metis lower_append)

lemma part_mentions: "sublist (lower v) (lower x) \<Longrightarrow> x \<in> set xs \<Longrightarrow> sublist (lower v) (lower (p @ comma_join xs @ q))"
  using sublist_order.order.trans [OF _ lower_sublist [OF sublist_mid [OF comma_join_sublist]]] by blast

lemma texts_in_dumps: "s \<in> set (texts_of j) \<Longrightarrow> mentions s v \<Longrightarrow> plain v \<Longrightarrow> mentions (dumps num j) v"
proof (induction j arbitrary: s)
  case (JStr t)
  then show ?case by (simp add: mentions_quote mentions_def contains_text_iff [symmetric])
      (simp add: contains_text_iff mentions_quote mentions_def)
next
  case (JList xs)
  then obtain x where x: "x \<in> set xs" "s \<in> set (texts_of x)" by auto
  with JList have "sublist (lower v) (lower (dumps num x))" by (auto simp: mentions_def contains_text_iff)
  with x(1) show ?case
    using part_mentions [of v "dumps num x" "map (dumps num) xs" "''[''" "'']''"]
    by (simp add: mentions_def contains_text_iff)
next
  case (JObj kvs)
  then obtain k x where x: "(k, x) \<in> set kvs" "s = k \<or> s \<in> set (texts_of x)" by auto
  have "sublist (lower v) (lower (json_quote k @ '': '' @ dumps num x))"
  proof (cases "s = k")
    case True
    then show ?thesis
      using sublist_mid [OF mentions_quote [OF JObj.prems(2,3)], of "[]" "lower ('': '' @ dumps num x)"] by simp
  next
    case False
    then have "mentions (dumps num x) v" using JObj.IH [OF x(1)] x(2) JObj.prems by auto
    then show ?thesis
      using sublist_mid [of "lower v" "lower (dumps num x)" "lower (json_quote k @ '': '')" "[]"]
      by (simp add: mentions_def contains_text_iff)
  qed
  then have "sublist (lower v) (lower (''{'' @ comma_join (map (\<lambda>kv. json_quote (fst kv) @ '': '' @ dumps num (snd kv)) kvs) @ ''}''))"
    by (rule part_mentions) (use x(1) in force)
  then show ?case by (simp add: mentions_def contains_text_iff)
qed auto

text \<open>The texts a recorded change carries.\<close>

definition change_texts :: "change \<Rightarrow> string list" where
  "change_texts ch = c_address ch # c_type ch # c_actions ch @ (case c_detail ch of
      None \<Rightarrow> []
    | Some d \<Rightarrow> cd_changed_attributes d @ cd_replace_paths d @ cd_sensitive_attributes d @
        (case cd_action_reason d of None \<Rightarrow> [] | Some r \<Rightarrow> [r]))"

lemma change_texts_json: "set (change_texts ch) \<subseteq> set (texts_of (change_json ch))"
  by (cases "c_detail ch") (auto simp: change_texts_def change_json_def strings_json_def opt_json_def split: option.splits)

lemma safe_summary:
  assumes "\<not> unsafe_summary num ids (summary_json changes drift objects)" "i \<in> set ids" "plain i"
  shows "(ch \<in> set changes \<union> set drift \<longrightarrow> s \<in> set (change_texts ch) \<longrightarrow> \<not> mentions s i) \<and>
    (ob \<in> set objects \<longrightarrow> \<not> mentions (fst ob) i \<and> \<not> mentions (snd ob) i)"
proof -
  let ?j = "summary_json changes drift objects"
  have n: "\<not> mentions (dumps num ?j) i" using assms(1,2) by (auto simp: unsafe_summary_def list_ex_iff)
  have t: "\<not> mentions s i" if "s \<in> set (texts_of ?j)" for s
    using texts_in_dumps [OF that _ assms(3)] n by blast
  have c: "set (texts_of x) \<subseteq> set (texts_of ?j)" if "x \<in> set (jlist ?j)" for x
    using that by (auto simp: summary_json_def)
  have "\<not> mentions s i" if "ch \<in> set changes \<union> set drift" "s \<in> set (change_texts ch)"
    by (rule t, rule subsetD [OF c [of "change_json ch"]])
       (use that change_texts_json in \<open>auto simp: summary_json_def\<close>)
  moreover have "\<not> mentions (fst ob) i \<and> \<not> mentions (snd ob) i" if "ob \<in> set objects"
    using t subsetD [OF c [of "object_json ob"]] that by (auto simp: summary_json_def object_json_def)
  ultimately show ?thesis by blast
qed

section \<open>The gap\<close>

definition ascii :: "string \<Rightarrow> bool" where
  "ascii s \<longleftrightarrow> list_all (\<lambda>c. code c \<le> 126) s"

lemma ascii_append [simp]: "ascii (xs @ ys) \<longleftrightarrow> ascii xs \<and> ascii ys"
  by (simp add: ascii_def)

lemma ascii_Cons [simp]: "ascii (c # xs) \<longleftrightarrow> code c \<le> 126 \<and> ascii xs"
  by (simp add: ascii_def)

lemma ascii_Nil [simp]: "ascii []"
  by (simp add: ascii_def)

lemma code_hex: "n < 16 \<Longrightarrow> code (hex_digit n) \<le> 126"
  by (simp add: code_def hex_digit_def)

lemma ascii_json_char: "ascii (json_char c)"
proof -
  have "code c < 256" by (simp add: code_def)
  then have "code c div 16 < 16" "code c mod 16 < 16" by auto
  then show ?thesis
    using code_hex [of "code c div 16"] code_hex [of "code c mod 16"]
    by (simp add: json_char_def Let_def ascii_def) (simp add: code_def)
qed

lemma ascii_quote [simp]: "ascii (json_quote s)"
proof -
  have "ascii (concat (map json_char s))" by (induction s) (auto simp: ascii_json_char)
  then show ?thesis by (simp add: json_quote_def code_def)
qed

lemma ascii_comma_join: "\<forall>x \<in> set xs. ascii x \<Longrightarrow> ascii (comma_join xs)"
  by (induction xs rule: comma_join.induct) (auto simp: code_def)

lemma ascii_dumps: "(\<And>x. ascii (num x)) \<Longrightarrow> ascii (dumps num j)"
  by (induction j) (auto simp: code_def intro!: ascii_comma_join)

text \<open>An identifier outside ASCII is not protected. The summary is printed by \<^verbatim>\<open>json.dumps\<close>, which
  escapes every character outside ASCII, and searched for the identifier unescaped: an identifier
  with such a character passes the check of every summary, those that contain it included.\<close>

theorem unicode_identifier_unseen:
  assumes "c \<in> set i" "126 < code c" "\<And>x. ascii (num x)"
  shows "\<not> mentions (dumps num j) i"
proof
  assume "mentions (dumps num j) i"
  then have "lower_char c \<in> lower_char ` set (dumps num j)"
    using assms(1) set_mono_sublist [of "lower i" "lower (dumps num j)"]
    by (force simp: mentions_def contains_text_iff lower_def)
  then obtain d where d: "d \<in> set (dumps num j)" "lower_char d = lower_char c" by auto
  have "code d \<le> 126" using ascii_dumps [of num j, OF assms(3)] d(1) by (simp add: ascii_def list_all_iff)
  then show False using d(2) assms(2) code_lower [of c] code_lower [of d] by (auto split: if_splits)
qed

definition cafe_group :: string where
  "cafe_group = ''rg-caf'' @ [CHR 0xE9]"

theorem unicode_identifier_unseen_witness:
  "mentions (''azurerm_subnet.'' @ cafe_group) cafe_group \<and>
   \<not> unsafe_summary (\<lambda>x. ''0'') [cafe_group]
      (summary_json [\<lparr>c_address = ''azurerm_subnet.'' @ cafe_group, c_type = ''azurerm_subnet'',
         c_actions = [''create''], c_detail = None\<rparr>] [] [])"
proof -
  have "mentions (''azurerm_subnet.'' @ cafe_group) cafe_group" by code_simp
  moreover have "\<not> mentions (dumps (\<lambda>x. ''0'') j) cafe_group" for j
    by (rule unicode_identifier_unseen [of "CHR 0xE9"]) (auto simp: cafe_group_def code_def)
  ultimately show ?thesis by (simp add: unsafe_summary_def)
qed

end
