(* ===== verification/WorkerRuns.thy ===== *)
theory WorkerRuns
  imports Worker RedactionProperties LedgerSystem
begin

text \<open>
  What a run of the worker does besides reporting: it starts only the commands its phase needs, with the
  arguments given in full (\<open>phase_lines\<close>), in the workspace of its resource, logs receipts only, and
  leaves every table of the ledger alone.
  The judgement \<open>confined\<close> says so of a program and composes along \<open>wbind\<close>; the last section gives
  each phase as such a run followed by one report.
\<close>

section \<open>Effects on the machine\<close>

definition is_receipt :: "string \<Rightarrow> bool" where
  "is_receipt l \<longleftrightarrow> (\<exists>args x. l = receipt args (''exit_code='' @ x) \<and> (x = ''timeout'' \<or> (\<exists>rc. x = int_str rc)))"

definition effect :: "(string \<times> string list) set \<Rightarrow> host \<Rightarrow> host \<Rightarrow> bool" where
  "effect C h h' \<longleftrightarrow> same_tables (h_world h) (h_world h') \<and>
     (\<exists>cs. h_commands h' = cs @ h_commands h \<and> set cs \<subseteq> C) \<and>
     (\<forall>j. \<exists>ls. h_logs h' j = h_logs h j @ ls \<and> list_all is_receipt ls)"

text \<open>Under the settings \<open>s\<close> of the worker's process, which no command changes.\<close>

definition confined :: "settings \<Rightarrow> (string \<times> string list) set \<Rightarrow> 'a wm \<Rightarrow> bool" where
  "confined s C m \<longleftrightarrow> (\<forall>h. cfg (h_world h) = s \<longrightarrow> effect C h (snd (m h)))"

lemma same_tables_fields:
  assumes "same_tables w w'"
  shows "operations w' = operations w" "resources w' = resources w" "events w' = events w"
    "teams w' = teams w" "team_revisions w' = team_revisions w" "apps w' = apps w" "cfg w' = cfg w"
  using assms by (cases w; cases w'; simp add: same_tables_def)+

lemma effect_refl [simp]: "effect C h h"
  by (auto simp: effect_def)

lemma effect_trans:
  assumes "effect C g h" "effect C h k"
  shows "effect C g k"
proof -
  obtain cs ds where c: "h_commands h = cs @ h_commands g" "set cs \<subseteq> C" "h_commands k = ds @ h_commands h" "set ds \<subseteq> C"
    using assms by (auto simp: effect_def)
  have "\<exists>ls. h_logs k j = h_logs g j @ ls \<and> list_all is_receipt ls" for j
  proof -
    obtain l m where "h_logs h j = h_logs g j @ l" "list_all is_receipt l" "h_logs k j = h_logs h j @ m" "list_all is_receipt m"
      using assms unfolding effect_def by metis
    then show ?thesis by (intro exI [of _ "l @ m"]) simp
  qed
  moreover have "same_tables (h_world g) (h_world k)"
    using assms same_tables_trans by (auto simp: effect_def)
  moreover have "h_commands k = (ds @ cs) @ h_commands g" "set (ds @ cs) \<subseteq> C" using c by auto
  ultimately show ?thesis unfolding effect_def by blast
qed

lemma effect_put_dir [simp]: "effect C h (put_dir i d h)"
  by (simp add: effect_def put_dir_def)

lemma effect_put_plan [simp]: "effect C h (put_plan i b h)"
  by (simp add: effect_def put_plan_def same_tables_def)

lemma effect_mono: "effect C h h' \<Longrightarrow> C \<subseteq> D \<Longrightarrow> effect D h h'"
  unfolding effect_def by blast

lemma effect_sqlite: "effect C h h' \<Longrightarrow> cfg (h_world h') = cfg (h_world h)"
  by (simp add: effect_def same_tables_fields)

lemma confinedI: "(\<And>h. cfg (h_world h) = s \<Longrightarrow> effect C h (snd (m h))) \<Longrightarrow> confined s C m"
  by (simp add: confined_def)

lemma confinedD: "confined s C m \<Longrightarrow> m h = (r, h') \<Longrightarrow> cfg (h_world h) = s \<Longrightarrow> effect C h h'"
  by (metis confined_def snd_conv)

lemma confined_bind [intro]:
  assumes "confined s C m" "\<And>x. confined s C (f x)"
  shows "confined s C (wbind m f)"
proof (rule confinedI)
  fix h :: host assume s: "cfg (h_world h) = s"
  obtain r h1 where m: "m h = (r, h1)" by fastforce
  have e: "effect C h h1" using assms(1) m s by (rule confinedD)
  moreover have "effect C h1 (snd (f x h1))" for x
    using assms(2) effect_sqlite [OF e] s by (simp add: confined_def)
  ultimately show "effect C h (snd (wbind m f h))"
    by (auto simp: wbind_def m intro: effect_trans split: sum.split)
qed

lemma confined_pure [simp, intro]:
  "confined s C (wreturn x)" "confined s C (wraise e)" "confined s C (wlift r)"
  by (simp_all add: confined_def wreturn_def wraise_def wlift_def)

lemma confined_read [intro]: "confined s C (on_ledger (\<lambda>w. (f w, w)))"
  by (rule confinedI) (auto simp: on_ledger_def effect_def split: sum.split)

section \<open>Runs\<close>

lemma effect_run:
  assumes "(i, args) \<in> C" "is_receipt (receipt args body)" "h_world h1 = h_world h"
    "h_logs h1 = h_logs h" "h_commands h1 = (i, args) # h_commands h"
  shows "effect C h (add_log j (receipt args body) (put_plan i b h1))"
proof -
  have "\<exists>ls. h_logs (add_log j (receipt args body) (put_plan i b h1)) k = h_logs h k @ ls \<and> list_all is_receipt ls" for k
    using assms(2) by (cases "k = j") (simp_all add: add_log_def put_plan_def assms(4))
  then show ?thesis
    using assms by (simp add: effect_def add_log_def put_plan_def same_tables_def)
qed

lemma receipts:
  "is_receipt (receipt args ''exit_code=timeout'')" "is_receipt (receipt args (log_body True args rc out err))"
  by (auto simp: is_receipt_def log_body_def intro: exI [of _ args] exI [of _ "''timeout''"])

lemma confined_run_at: "(i, args) \<in> C \<Longrightarrow> confined s C (run_at n e i args False True)"
proof (rule confinedI)
  fix h assume C: "(i, args) \<in> C"
  show "effect C h (snd (run_at n e i args False True h))"
  proof (cases n)
    case (Suc m)
    have "effect C h (add_log i (receipt args body) (put_plan i b (put_dir i d (h\<lparr>h_commands := (i, args) # h_commands h\<rparr>))))"
      if "is_receipt (receipt args body)" for body b d
      by (rule effect_run) (use C that in \<open>auto simp: put_dir_def\<close>)
    then show ?thesis
      by (auto simp: Suc Let_def receipts split: option.split prod.split tf_exit.split)
  qed simp
qed

lemma confined_safe_run [intro]: "(d_resource_id op, args) \<in> C \<Longrightarrow> confined s C (safe_run e op args)"
  by (simp add: safe_run_def run_command_def confined_run_at)

text \<open>The command lines of each phase in full. Two forms of \<^verbatim>\<open>init\<close>: fetching the pattern's source, and
  joining the workspace, with the backend arguments the worker's settings give.\<close>

definition init_lines :: "engine \<Rightarrow> settings \<Rightarrow> doc \<Rightarrow> string list set" where
  "init_lines e s op = {[''init'', ''-no-color'', ''-backend=false'', ''-from-module='' @ p_source (d_def op)],
     [''init'', ''-no-color'']} \<union> {[''init'', ''-no-color''] @ b | b. backend_args e (d_resource_id op) s = Inr b}"

definition plan_lines :: "engine \<Rightarrow> settings \<Rightarrow> doc \<Rightarrow> string list set" where
  "plan_lines e s op = init_lines e s op \<union>
     {if d_action op = Destroy then [''plan'', ''-no-color'', ''-out=tfplan'', ''-destroy'']
      else [''plan'', ''-no-color'', ''-out=tfplan''], [''show'', ''-json'', ''tfplan'']}"

definition drift_lines :: "engine \<Rightarrow> settings \<Rightarrow> doc \<Rightarrow> string list set" where
  "drift_lines e s op = init_lines e s op \<union>
     {[''plan'', ''-refresh-only'', ''-no-color'', ''-input=false'', ''-lock-timeout=0s'', ''-out=drift.tfplan''],
      [''show'', ''-json'', ''drift.tfplan'']}"

definition apply_lines :: "string list set" where
  "apply_lines = {[''apply'', ''-no-color'', ''tfplan''], [''output'', ''-json'']}"

lemma plan_args_lines: "plan_args op \<in> plan_lines e s op"
  by (simp add: plan_lines_def plan_args_def)

lemma confined_prepare:
  assumes "init_lines e s op \<subseteq> L"
  shows "confined s ({d_resource_id op} \<times> L) (safe_prepare e op)"
proof -
  let ?i = "d_resource_id op" and ?C = "{d_resource_id op} \<times> L" and ?source = "p_source (d_def op)"
  have init: "confined s ?C (run_command e ?i ([''init'', ''-no-color''] @ b) False True)"
    if "b = [] \<or> b = [''-backend=false'', ''-from-module='' @ ?source] \<or> backend_args e ?i s = Inr b" for b
    unfolding run_command_def by (rule confined_run_at) (use assms that in \<open>auto simp: init_lines_def\<close>)
  have fetch: "confined s ?C (fetch_pattern e ?i ?source True)"
    unfolding fetch_pattern_def using init [of "[''-backend=false'', ''-from-module='' @ ?source]"]
    by (intro confined_bind) (auto intro!: confinedI intro: effect_trans [OF effect_put_dir effect_put_plan])
  have source: "confined s ?C (ensure_source e ?i ?source True)"
  proof (rule confinedI)
    fix h :: host assume "cfg (h_world h) = s"
    with fetch show "effect ?C h (snd (ensure_source e ?i ?source True h))"
      by (auto simp: ensure_source_def confined_def split: option.split)
  qed
  let ?prior = "\<lambda>h. let d = (the (h_dirs h ?i))\<lparr>wd_variables := Some (JObj (variables_of op))\<rparr>
       in (if uses_backend e d then backend_args e ?i (cfg (h_world h)) else Inr [], put_dir ?i d h)"
  have "confined s ?C (wbind ?prior (\<lambda>b. wbind (run_command e ?i ([''init'', ''-no-color''] @ b) False True) (\<lambda>_. wreturn ())))"
  proof (rule confinedI)
    fix h :: host assume s: "cfg (h_world h) = s"
    obtain x g where x: "?prior h = (x, g)" by fastforce
    then have g: "effect ?C h g" "cfg (h_world g) = s" using s by (auto simp: Let_def put_dir_def effect_def same_tables_def)
    have "effect ?C g (snd (wbind (run_command e ?i ([''init'', ''-no-color''] @ b) False True) (\<lambda>_. wreturn ()) g))"
      if "x = Inr b" for b
      using init [of b] x that s g(2) by (auto simp: Let_def confined_def wbind_def wreturn_def split: prod.split sum.split if_splits)
    with g(1) show "effect ?C h (snd (wbind ?prior (\<lambda>b. wbind (run_command e ?i ([''init'', ''-no-color''] @ b) False True)
        (\<lambda>_. wreturn ())) h))"
      by (auto simp: wbind_def [of ?prior] x intro: effect_trans split: sum.split)
  qed
  then show ?thesis
    unfolding safe_prepare_def prepare_def not_True_eq_False by (intro confined_bind [OF source]) simp
qed

section \<open>Phases\<close>

lemma wbindE:
  assumes "wbind m f h = (r, h')"
  obtains ex where "r = Inl ex" "m h = (Inl ex, h')" | x h1 where "m h = (Inr x, h1)" "f x h1 = (r, h')"
  using assms by (auto simp: wbind_def split: prod.splits sum.splits)

text \<open>A report always goes through: \<^verbatim>\<open>finish\<close> raises nothing on the database the claim came from.\<close>

lemma report_ok:
  assumes "db_sqlite (cfg (h_world h))"
  shows "report op st fr t h = (Inr (), h\<lparr>h_world := snd (finish op st fr t (h_world h))\<rparr>)"
proof -
  have "fst (finish_tx op st fr t w) = Inr ()" for w
    by (simp add: finish_tx_def Let_def split: option.split)
  then have "fst (finish op st fr t (h_world h)) = Inr ()"
    using assms by (auto simp: finish_def connect_def split: prod.split sum.split) (metis fst_conv sum.distinct(1))+
  then show ?thesis by (cases "finish op st fr t (h_world h)") (auto simp: report_def on_ledger_def)
qed

lemma owns_ok: "db_sqlite (cfg (h_world h)) \<Longrightarrow> \<exists>b. owns op h = (Inr b, h)"
  by (simp add: owns_def wbind_def on_ledger_def get_operation_def reading_def wreturn_def)

lemma fail_op_cases:
  assumes "fail_op op msg why t h = (r, h')" "db_sqlite (cfg (h_world h))"
  obtains h1 where "effect {} h h1" "report op Failed (failure msg why) t h1 = (r, h')"
proof -
  obtain b where "owns op h = (Inr b, h)" using owns_ok [OF assms(2)] by blast
  then have "report op Failed (failure msg why) t (if b then put_plan (d_resource_id op) None h else h) = (r, h')"
    using assms(1) by (simp add: fail_op_def wbind_def)
  then show ?thesis using that [of "if b then put_plan (d_resource_id op) None h else h"] by (cases b) auto
qed

text \<open>One statement of a program: it raises, or the rest runs; the effect since \<open>g\<close> grows.\<close>

lemma wbind_confinedE:
  assumes "wbind m f h = (r, h')" "effect C g h" "confined (cfg (h_world g)) C m"
  obtains ex where "r = Inl ex" "effect C g h'"
  | x h1 where "m h = (Inr x, h1)" "effect C g h1" "f x h1 = (r, h')"
  using assms(1)
proof (rule wbindE)
  fix ex assume "r = Inl ex" "m h = (Inl ex, h')"
  then show thesis using that(1) confinedD [OF assms(3) _ effect_sqlite [OF assms(2)]] effect_trans [OF assms(2)] by blast
next
  fix x h1 assume "m h = (Inr x, h1)" "f x h1 = (r, h')"
  then show thesis using that(2) confinedD [OF assms(3) _ effect_sqlite [OF assms(2)]] effect_trans [OF assms(2)] by blast
qed

lemma run_plan_cases:
  assumes "run_plan e op t h = (r, h')"
  obtains ex where "r = Inl ex" "effect ({d_resource_id op} \<times> plan_lines e (cfg (h_world h)) op) h h'"
  | raw fr b h1 where "effect ({d_resource_id op} \<times> plan_lines e (cfg (h_world h)) op) h h1"
      "plan_report e (redaction_ids (cfg (h_world h)) op) raw = Inr fr" "saved_plan (d_resource_id op) h1 = Some b"
      "report op Planned (fr\<lparr>fr_plan_digest := Some (sha256 e b)\<rparr>) t h1 = (r, h')"
proof -
  let ?s = "cfg (h_world h)" and ?C = "{d_resource_id op} \<times> plan_lines e (cfg (h_world h)) op"
  have prep: "confined ?s ?C (safe_prepare e op)"
    by (rule confined_prepare) (auto simp: plan_lines_def)
  have run: "confined ?s ?C (safe_run e op (plan_args op))" "confined ?s ?C (safe_run e op [''show'', ''-json'', ''tfplan''])"
    by (rule confined_safe_run, simp add: plan_args_lines, rule confined_safe_run, simp add: plan_lines_def)
  note step = wbind_confinedE [where C = ?C and g = h]
  show ?thesis
    apply (insert assms, unfold run_plan_def)
    apply (erule step [OF _ effect_refl prep], (erule (1) that(1))[1])
    apply (erule (1) step [OF _ _ run(1)], (erule (1) that(1))[1])
    apply (erule (1) step [OF _ _ run(2)], (erule (1) that(1))[1])
    apply (erule (1) step [OF _ _ confined_pure(3)], (erule (1) that(1))[1])
    apply (erule wbindE, (auto intro: that(1))[1])
    apply (erule wbindE, (auto simp: digest_of_def intro: that(1) split: option.splits)[1])
    apply (auto simp: digest_of_def effect_sqlite intro: that(2) split: option.splits)
    done
qed

lemma collect_confined: "confined s ({d_resource_id op} \<times> apply_lines) (collect_outputs e op)"
proof -
  have "confined s ({d_resource_id op} \<times> apply_lines) (safe_run e op [''output'', ''-json''])"
    by (auto simp: apply_lines_def)
  then show ?thesis unfolding collect_outputs_def
    by (intro confined_bind) (auto intro!: confinedI split: prod.split)
qed

text \<open>The outputs to store are those the process printed, split and withheld.\<close>

definition shown_outputs :: "engine \<Rightarrow> doc \<Rightarrow> host \<Rightarrow> (string \<times> json) list \<Rightarrow> string list \<Rightarrow> bool" where
  "shown_outputs e op h outputs withheld \<longleftrightarrow> (\<exists>out raw. read_outputs e out = Inr raw \<and>
     (outputs, withheld) = withhold e (hidden_ids (cfg (h_world h)) op) (split_outputs raw))"

lemma shown_outputs_cfg: "cfg (h_world h) = cfg (h_world g) \<Longrightarrow> shown_outputs e op h = shown_outputs e op g"
  by (simp add: shown_outputs_def fun_eq_iff)

lemma collect_outputsD:
  assumes "collect_outputs e op h = (Inr (outputs, withheld), h')"
  shows "shown_outputs e op h' outputs withheld"
  using assms unfolding collect_outputs_def shown_outputs_def
  by (auto elim!: wbindE simp: Let_def wlift_def split: prod.splits if_splits) metis

lemma after_apply_cases:
  assumes "after_apply e op t h = (r, h')" "db_sqlite (cfg (h_world h))"
  obtains ex where "r = Inl ex" "effect ({d_resource_id op} \<times> apply_lines) h h'"
  | outputs withheld h1 where "effect ({d_resource_id op} \<times> apply_lines) h h1"
      "shown_outputs e op h outputs withheld"
      "report op Succeeded (no_result\<lparr>fr_outputs := Some outputs, fr_withheld_outputs := Some withheld\<rparr>) t h1 = (r, h')"
proof -
  let ?C = "{d_resource_id op} \<times> apply_lines"
  let ?unlink = "\<lambda>h. if saved_plan (d_resource_id op) h = None then (Inl (OtherError ''No such file or directory''), h)
               else (Inr (), put_plan (d_resource_id op) None h)"
  have unlink: "confined s ?C ?unlink" for s by (rule confinedI) auto
  show ?thesis
    using assms(1) unfolding after_apply_def
  proof (rule wbind_confinedE [OF _ effect_refl unlink])
    fix ex assume "r = Inl ex" "effect ?C h h'"
    then show ?thesis by (rule that(1))
  next
    fix x h1
    let ?rest = "\<lambda>(outputs, withheld). wbind (if d_action op = Destroy then owns op else wreturn False)
       (\<lambda>clean_up. wbind (if clean_up then drop_terraform_dir op else wreturn ())
       (\<lambda>_. report op Succeeded (no_result\<lparr>fr_outputs := Some outputs, fr_withheld_outputs := Some withheld\<rparr>) t))"
    assume e1: "effect ?C h h1" and rest: "wbind (collect_outputs e op) ?rest h1 = (r, h')"
    from rest e1 collect_confined show ?thesis
    proof (rule wbind_confinedE)
      fix ex assume "r = Inl ex" "effect ?C h h'"
      then show ?thesis by (rule that(1))
    next
      fix x h2 assume c: "collect_outputs e op h1 = (Inr x, h2)" and eff: "effect ?C h h2" and rest: "?rest x h2 = (r, h')"
      obtain outputs withheld where x: "x = (outputs, withheld)" by (cases x)
      have cfg: "cfg (h_world h2) = cfg (h_world h)" using eff by (rule effect_sqlite)
      have raw: "shown_outputs e op h outputs withheld"
        using collect_outputsD [OF c [unfolded x]] shown_outputs_cfg [OF cfg] by simp
      obtain b where "(if d_action op = Destroy then owns op else wreturn False) h2 = (Inr b, h2)"
        using owns_ok [of h2 op] assms(2) cfg by (cases "d_action op = Destroy") (auto simp: wreturn_def)
      then have "wbind (if b then drop_terraform_dir op else wreturn ()) (\<lambda>_. report op Succeeded
           (no_result\<lparr>fr_outputs := Some outputs, fr_withheld_outputs := Some withheld\<rparr>) t) h2 = (r, h')"
        using rest by (simp add: x wbind_def)
      moreover have "\<exists>h3. (if b then drop_terraform_dir op else wreturn ()) h2 = (Inr (), h3) \<and> effect ?C h2 h3"
        by (auto simp: drop_terraform_dir_def wreturn_def split: option.split)
      ultimately obtain h3 where "effect ?C h2 h3" "report op Succeeded
           (no_result\<lparr>fr_outputs := Some outputs, fr_withheld_outputs := Some withheld\<rparr>) t h3 = (r, h')"
        by (auto simp: wbind_def)
      then show ?thesis using that(2) [of h3] raw effect_trans [OF eff] by blast
    qed
  qed
qed

text \<open>Applying: a changed plan is refused before any command; otherwise the first command applies the
  saved plan, whose hash is the recorded digest.\<close>

lemma run_apply_cases:
  assumes "run_apply e op t h = (r, h')" "db_sqlite (cfg (h_world h))"
  obtains h1 where "effect {} h h1" "report op Failed (failure msg_plan_changed None) t h1 = (r, h')"
  | b h1 msg why h2 where "saved_plan (d_resource_id op) h = Some b" "d_plan_digest op = Some (sha256 e b)"
      "safe_run e op [''apply'', ''-no-color'', ''tfplan''] h = (Inl (TerraformError msg), h1)" "refusal msg = Some why"
      "effect ({d_resource_id op} \<times> apply_lines) h h2"
      "report op Failed (failure why (Some (why_of op (TerraformError msg) h1))) t h2 = (r, h')"
  | b ex where "saved_plan (d_resource_id op) h = Some b" "d_plan_digest op = Some (sha256 e b)" "r = Inl ex"
      "effect ({d_resource_id op} \<times> apply_lines) h h'"
  | b outputs withheld h1 where "saved_plan (d_resource_id op) h = Some b" "d_plan_digest op = Some (sha256 e b)"
      "effect ({d_resource_id op} \<times> apply_lines) h h1"
      "shown_outputs e op h outputs withheld"
      "report op Succeeded (no_result\<lparr>fr_outputs := Some outputs, fr_withheld_outputs := Some withheld\<rparr>) t h1 = (r, h')"
proof (cases "saved_plan (d_resource_id op) h = None \<or>
    map_option (sha256 e) (saved_plan (d_resource_id op) h) \<noteq> d_plan_digest op")
  case True
  with assms(1) have "fail_op op msg_plan_changed None t h = (r, h')" by (simp add: run_apply_def)
  then show ?thesis using assms(2) that(1) by (rule fail_op_cases)
next
  case False
  then obtain b where b: "saved_plan (d_resource_id op) h = Some b" "d_plan_digest op = Some (sha256 e b)" by auto
  let ?C = "{d_resource_id op} \<times> apply_lines"
  have conf: "confined s ?C (safe_run e op [''apply'', ''-no-color'', ''tfplan''])" for s
    by (auto simp: apply_lines_def)
  obtain x h1 where x: "safe_run e op [''apply'', ''-no-color'', ''tfplan''] h = (x, h1)" by fastforce
  have e1: "effect ?C h h1" using confinedD [OF conf x refl] .
  have sq: "db_sqlite (cfg (h_world h1))" using effect_sqlite [OF e1] assms(2) by simp
  show ?thesis
  proof (cases x)
    case (Inr y)
    then have "after_apply e op t h1 = (r, h')" using assms(1) False x by (simp add: run_apply_def)
    then show ?thesis
    proof (rule after_apply_cases [OF _ sq])
      fix ex assume "r = Inl ex" "effect ?C h1 h'"
      then show ?thesis using that(3) b effect_trans [OF e1] by blast
    next
      fix outputs withheld h2 assume "effect ?C h1 h2"
        "shown_outputs e op h1 outputs withheld"
        "report op Succeeded (no_result\<lparr>fr_outputs := Some outputs, fr_withheld_outputs := Some withheld\<rparr>) t h2 = (r, h')"
      then show ?thesis using that(4) b effect_trans [OF e1] shown_outputs_cfg [OF effect_sqlite [OF e1]] by simp blast
    qed
  next
    case (Inl ex)
    show ?thesis
    proof (cases "\<exists>msg why. ex = TerraformError msg \<and> refusal msg = Some why")
      case True
      then obtain msg why where m: "ex = TerraformError msg" "refusal msg = Some why" by blast
      then have "fail_op op why (Some (why_of op (TerraformError msg) h1)) t h1 = (r, h')"
        using assms(1) False x Inl by (simp add: run_apply_def)
      then show ?thesis
      proof (rule fail_op_cases [OF _ sq])
        fix h2 assume "effect {} h1 h2"
          "report op Failed (failure why (Some (why_of op (TerraformError msg) h1))) t h2 = (r, h')"
        then show ?thesis using that(2) [OF b] x Inl m effect_trans [OF e1 effect_mono [of "{}"]] by blast
      qed
    next
      case no: False
      then have "r = Inl ex \<and> h' = h1" using assms(1) False x Inl
        by (cases ex) (auto simp: run_apply_def split: option.splits)
      then show ?thesis using that(3) [OF b] e1 by blast
    qed
  qed
qed

lemma run_drift_cases:
  assumes "run_drift_check e op t h = (r, h')"
  obtains st fr h1 where "st = Succeeded \<or> st = Failed" "effect ({d_resource_id op} \<times> drift_lines e (cfg (h_world h)) op) h h1"
    "report op st fr t h1 = (r, h')"
proof -
  let ?s = "cfg (h_world h)" and ?C = "{d_resource_id op} \<times> drift_lines e (cfg (h_world h)) op"
  have run: "confined ?s ?C (safe_run e op refresh_args)" "confined ?s ?C (safe_run e op [''show'', ''-json'', ''drift.tfplan''])"
    by (auto simp: drift_lines_def refresh_args_def)
  have "confined ?s ?C (safe_prepare e op)" by (rule confined_prepare) (auto simp: drift_lines_def)
  moreover have guarded: "confined ?s ?C (\<lambda>h. if u (cfg (h_world h)) then (Inl x, h) else
      wbind (on_ledger (\<lambda>w. (resource i w, w))) f h)" if "\<And>y. confined ?s ?C (f y)" for u x i and f :: "doc option \<Rightarrow> 'b wm"
  proof -
    have "confined ?s ?C (wbind (on_ledger (\<lambda>w. (resource i w, w))) f)" using that by (intro confined_bind) auto
    then show ?thesis by (simp add: confined_def)
  qed
  ultimately have "confined ?s ?C (find_drift e op)"
    unfolding find_drift_def Let_def using run by (intro confined_bind guarded) (auto split: option.split)
  then have "effect ?C h (snd (find_drift e op h))" by (simp add: confined_def)
  moreover have "effect ?C g (drop_scratch_plan op g)" for g by (simp add: drop_scratch_plan_def split: option.split)
  ultimately have "effect ?C h (drop_scratch_plan op (snd (find_drift e op h)))" by (blast intro: effect_trans)
  with assms that show ?thesis
    by (auto simp: run_drift_check_def split: prod.splits sum.splits option.splits)
qed

section \<open>A phase is one confined run and one report\<close>

definition phase_lines :: "engine \<Rightarrow> settings \<Rightarrow> doc \<Rightarrow> string list set" where
  "phase_lines e s op = (if d_action op = Drift_check then drift_lines e s op
     else if d_state op = Some Applying then apply_lines else plan_lines e s op)"

lemma phase_lines_heads: "args \<in> phase_lines e s op \<Longrightarrow> hd args \<in> {''init'', ''plan'', ''show'', ''apply'', ''output''}"
  by (auto simp: phase_lines_def drift_lines_def plan_lines_def apply_lines_def init_lines_def split: if_splits)

lemma phase_lines_apply:
  "args \<in> phase_lines e s op \<Longrightarrow> hd args = ''apply'' \<Longrightarrow> d_state op = Some Applying \<and> d_action op \<noteq> Drift_check"
  by (auto simp: phase_lines_def drift_lines_def plan_lines_def init_lines_def split: if_splits)

definition plan_matches :: "engine \<Rightarrow> doc \<Rightarrow> host \<Rightarrow> bool" where
  "plan_matches e op h \<longleftrightarrow> (\<exists>b. saved_plan (d_resource_id op) h = Some b \<and> d_plan_digest op = Some (sha256 e b))"

definition refused_apply :: "engine \<Rightarrow> doc \<Rightarrow> host \<Rightarrow> bool" where
  "refused_apply e op h \<longleftrightarrow> (\<exists>msg. fst (safe_run e op [''apply'', ''-no-color'', ''tfplan''] h) = Inl (TerraformError msg) \<and>
     refusal msg \<noteq> None)"

text \<open>What each outcome of a deploy or a destroy stands for.\<close>

definition justified :: "engine \<Rightarrow> doc \<Rightarrow> host \<Rightarrow> state \<Rightarrow> finish_result \<Rightarrow> host \<Rightarrow> bool" where
  "justified e op h st fr h1 \<longleftrightarrow>
     (st = Planned \<longrightarrow> (\<exists>raw fr0 b. plan_report e (redaction_ids (cfg (h_world h)) op) raw = Inr fr0 \<and>
        saved_plan (d_resource_id op) h1 = Some b \<and> fr = fr0\<lparr>fr_plan_digest := Some (sha256 e b)\<rparr>)) \<and>
     (st = Succeeded \<longrightarrow> (\<exists>outputs withheld. shown_outputs e op h outputs withheld \<and>
        fr = no_result\<lparr>fr_outputs := Some outputs, fr_withheld_outputs := Some withheld\<rparr>)) \<and>
     (d_state op = Some Applying \<longrightarrow>
        (st = Failed \<longrightarrow> h_commands h1 = h_commands h \<or> refused_apply e op h) \<and>
        (st \<noteq> Failed \<longrightarrow> plan_matches e op h) \<and>
        (h_commands h1 \<noteq> h_commands h \<longrightarrow> plan_matches e op h))"

lemma effect_none: "effect {} h h1 \<Longrightarrow> h_commands h1 = h_commands h"
  by (auto simp: effect_def)

lemma applying_cases:
  assumes "run_phase e op t h = (r, h')" "db_sqlite (cfg (h_world h))"
    and "d_state op = Some Applying" "d_action op \<noteq> Drift_check"
  obtains st fr h1 where "worker_outcome op st" "effect ({d_resource_id op} \<times> apply_lines) h h1"
    "report op st fr t h1 = (r, h')" "justified e op h st fr h1"
proof -
  let ?C = "{d_resource_id op} \<times> apply_lines"
  have out: "worker_outcome op Failed" "worker_outcome op Succeeded" "worker_outcome op Uncertain"
    using assms(3) by (auto simp: worker_outcome_def)
  obtain x g where run: "run_apply e op t h = (x, g)" by fastforce
  have rp: "(case x of Inr u \<Rightarrow> (r, h') = (Inr (), g)
      | Inl ex \<Rightarrow> report op Uncertain (failure msg_unknown_outcome (Some (why_of op ex g))) t g = (r, h'))"
    using assms run by (auto simp: run_phase_def wcatch_def split: sum.splits)
  have rep: "x = Inr () \<and> r = Inr () \<and> h' = g" if "report op st fr t h1 = (x, g)" "effect C h h1" for st fr h1 C
  proof -
    have "x = Inr ()" using report_ok [of h1 op st fr t] effect_sqlite [OF that(2)] assms(2) that(1) by auto
    with rp show ?thesis by simp
  qed
  from run assms(2) show ?thesis
  proof (rule run_apply_cases)
    fix h1 assume e: "effect {} h h1" and "report op Failed (failure msg_plan_changed None) t h1 = (x, g)"
    then show ?thesis
      using rep that [OF out(1), of h1] effect_mono [of "{}" h h1 ?C] effect_none [OF e] by (auto simp: justified_def)
  next
    fix b h1 msg why h2
    assume "saved_plan (d_resource_id op) h = Some b" "d_plan_digest op = Some (sha256 e b)"
      "safe_run e op [''apply'', ''-no-color'', ''tfplan''] h = (Inl (TerraformError msg), h1)" "refusal msg = Some why"
      "effect ?C h h2" "report op Failed (failure why (Some (why_of op (TerraformError msg) h1))) t h2 = (x, g)"
    then show ?thesis
      using rep that [OF out(1), of h2] by (auto simp: justified_def refused_apply_def plan_matches_def)
  next
    fix b ex
    assume "saved_plan (d_resource_id op) h = Some b" "d_plan_digest op = Some (sha256 e b)" "x = Inl ex" "effect ?C h g"
    then show ?thesis using rp that [OF out(3), of g] by (auto simp: justified_def plan_matches_def)
  next
    fix b outputs withheld h1
    assume "saved_plan (d_resource_id op) h = Some b" "d_plan_digest op = Some (sha256 e b)" "effect ?C h h1"
      "shown_outputs e op h outputs withheld"
      "report op Succeeded (no_result\<lparr>fr_outputs := Some outputs, fr_withheld_outputs := Some withheld\<rparr>) t h1 = (x, g)"
    then show ?thesis
      using rep that [OF out(2), of h1] unfolding justified_def plan_matches_def by simp blast
  qed
qed

lemma planning_cases:
  assumes "run_phase e op t h = (r, h')" "db_sqlite (cfg (h_world h))"
    and "d_state op = Some Planning" "d_action op \<noteq> Drift_check"
  obtains st fr h1 where "worker_outcome op st" "effect ({d_resource_id op} \<times> plan_lines e (cfg (h_world h)) op) h h1"
    "report op st fr t h1 = (r, h')" "justified e op h st fr h1"
proof -
  let ?C = "{d_resource_id op} \<times> plan_lines e (cfg (h_world h)) op"
  have out: "worker_outcome op Failed" "worker_outcome op Planned"
    using assms(3,4) by (auto simp: worker_outcome_def)
  obtain x g where run: "run_plan e op t h = (x, g)" by fastforce
  have rp: "(case x of Inr u \<Rightarrow> (r, h') = (Inr (), g)
      | Inl ex \<Rightarrow> fail_op op msg_plan_failed (Some (why_of op ex g)) t g = (r, h'))"
    using assms run by (auto simp: run_phase_def wcatch_def split: sum.splits)
  from run show ?thesis
  proof (rule run_plan_cases)
    fix ex assume ex: "x = Inl ex" "effect ?C h g"
    then have "fail_op op msg_plan_failed (Some (why_of op ex g)) t g = (r, h')" using rp by simp
    then show ?thesis
    proof (rule fail_op_cases)
      show "db_sqlite (cfg (h_world g))" using effect_sqlite [OF ex(2)] assms(2) by simp
      fix h1 assume "effect {} g h1" "report op Failed (failure msg_plan_failed (Some (why_of op ex g))) t h1 = (r, h')"
      then show ?thesis
        using that [OF out(1), of h1] effect_trans [OF ex(2) effect_mono [of "{}" g h1 ?C]] assms(3)
        by (auto simp: justified_def)
    qed
  next
    fix raw fr b h1
    assume p: "effect ?C h h1" "plan_report e (redaction_ids (cfg (h_world h)) op) raw = Inr fr"
      "saved_plan (d_resource_id op) h1 = Some b" "report op Planned (fr\<lparr>fr_plan_digest := Some (sha256 e b)\<rparr>) t h1 = (x, g)"
    then have "x = Inr ()" using report_ok [of h1] effect_sqlite [OF p(1)] assms(2) by auto
    with p rp have "report op Planned (fr\<lparr>fr_plan_digest := Some (sha256 e b)\<rparr>) t h1 = (r, h')" by simp
    with p show ?thesis using that [OF out(2), of h1] assms(3) unfolding justified_def by simp blast
  qed
qed

lemma run_phase_cases:
  assumes "run_phase e op t h = (r, h')" "db_sqlite (cfg (h_world h))"
    and "d_state op = Some Planning \<or> d_state op = Some Applying"
  obtains st fr h1 where "worker_outcome op st" "effect ({d_resource_id op} \<times> phase_lines e (cfg (h_world h)) op) h h1"
    "report op st fr t h1 = (r, h')" "d_action op \<noteq> Drift_check \<longrightarrow> justified e op h st fr h1"
proof (cases "d_action op = Drift_check")
  case True
  then have "run_drift_check e op t h = (r, h')" using assms(1) by (simp add: run_phase_def)
  then obtain st fr h1 where "st = Succeeded \<or> st = Failed" "effect ({d_resource_id op} \<times> drift_lines e (cfg (h_world h)) op) h h1"
    "report op st fr t h1 = (r, h')" by (rule run_drift_cases)
  with True assms(3) show ?thesis
    using that [of st h1 fr] by (auto simp: worker_outcome_def phase_lines_def)
next
  case no: False
  show ?thesis
  proof (cases "d_state op = Some Applying")
    case True
    with no assms obtain st fr h1 where "worker_outcome op st" "effect ({d_resource_id op} \<times> apply_lines) h h1"
      "report op st fr t h1 = (r, h')" "justified e op h st fr h1" by (elim applying_cases)
    with True no show ?thesis using that [of st h1 fr] by (simp add: phase_lines_def)
  next
    case False
    with no assms obtain st fr h1 where "worker_outcome op st" "effect ({d_resource_id op} \<times> plan_lines e (cfg (h_world h)) op) h h1"
      "report op st fr t h1 = (r, h')" "justified e op h st fr h1" by (blast elim: planning_cases)
    with False no show ?thesis using that [of st h1 fr] by (simp add: phase_lines_def)
  qed
qed

end
