(* ===== verification/WorkerScenario.thy ===== *)
theory WorkerScenario
  imports WorkerRuns LifecycleProperties
begin

text \<open>
  A worker run evaluated step by step: the placed variant of the demonstration request (its
  resource group is injected) is claimed, planned, executed and applied on a machine whose
  Terraform answers with one planned change and two outputs. The properties of the worker are
  instantiated on its states.
\<close>

definition net_request :: doc where
  "net_request = demo_request\<lparr>d_def := demo_defn\<lparr>p_subscription_id := Some ''sub-0001'',
     p_injected := [(''resource_group_name'', JStr ''rg-retail'')]\<rparr>\<rparr>"

definition net_op :: doc where
  "net_op = net_request\<lparr>d_id := ''op_1'', d_resource_id := ''res_1'', d_actor := ''amy'',
     d_state := Some Queued, d_created_at := 10, d_updated_at := 10, d_previous_cost := Some 0\<rparr>"

definition net_resource :: doc where
  "net_resource = net_request\<lparr>d_id := ''res_1'', d_actor := ''amy'', d_resource_created_at := Some 10,
     d_operation_id := Some ''op_1''\<rparr>"

definition net_planning :: doc where
  "net_planning = net_op\<lparr>d_state := Some Planning, d_updated_at := 20\<rparr>"

lemmas net_defs = net_request_def net_op_def net_resource_def net_planning_def demo_defs

lemma net_accept:
  "accept ''amy'' ''k1'' demo_body net_request (Some demo_budget) None 10 demo_fresh demo0 =
     (Inr net_op, demo_world net_op net_resource 1)"
  by (simp add: accept_def connect_def accept_tx_def replay_tx_def check_placement_def enabled_def
      db_source_def net_defs demo_intent_simps target_resource_def clear_blocker_def busy_row_def
      admission_def deploy_costs_def accounting_amount_def float_limit_def budget_check_def
      reserved_tx_def res_find_def write_acceptance_def insert_op_def Let_def event_def new_op_def
      unlink_blocker_def put_resource_def row_replace_def resource_after_accept_def)

lemma net_claim:
  "claim ''op_1'' Plan_phase 20 (demo_world net_op net_resource 1) =
     (Inr (Some net_planning), demo_world net_planning net_resource 2)"
  by (simp add: claim_def claim_tx_def demo_ops net_defs phase_states_def worker_actor_def)

definition net_raw :: plan_json where
  "net_raw = \<lparr>pj_resource_changes = [\<lparr>rc_address = ''azurerm_postgresql.this'', rc_type = ''azurerm_postgresql'',
       rc_mode = None, rc_actions = [''create''], rc_before = JNull,
       rc_after = JObj [(''name'', JStr ''shop'')], rc_after_unknown = JObj [(''id'', JBool True)],
       rc_replace_paths = [], rc_before_sensitive = JNull, rc_after_sensitive = JNull, rc_action_reason = None\<rparr>],
     pj_resource_drift = [], pj_root_module = None\<rparr>"

definition net_outputs :: "(string \<times> tf_output) list" where
  "net_outputs = [(''endpoint'', \<lparr>out_value = JStr ''shop.example'', out_sensitive = False\<rparr>),
     (''password'', \<lparr>out_value = JStr ''secret'', out_sensitive = True\<rparr>),
     (''arm_id'', \<lparr>out_value = JStr ''/providers/SUB-0001/db'', out_sensitive = False\<rparr>)]"

definition net_engine :: engine where
  "net_engine = \<lparr>run_tf = (\<lambda>args (d, b). (Exited 0 [] [], d, if hd args = ''plan'' then Some ''d1'' else b)),
     cache_lock = (\<lambda>_. True), uses_backend = (\<lambda>_. False), read_plan = (\<lambda>_. Inr net_raw),
     read_outputs = (\<lambda>_. Inr net_outputs), sha256 = (\<lambda>b. b), number_text = (\<lambda>_. ''0''),
     recursion_limit = Suc (Suc 0), state_resource_group = None, state_storage_account = None,
     state_container = ''tfstate'', use_oidc = False, use_msi = False, use_aks = False\<rparr>"

definition net_host :: "world \<Rightarrow> host" where
  "net_host w = \<lparr>h_world = w, h_dirs = (\<lambda>_. None), h_logs = (\<lambda>_. []), h_commands = []\<rparr>"

definition net_change :: change where
  "net_change = \<lparr>c_address = ''azurerm_postgresql.this'', c_type = ''azurerm_postgresql'', c_actions = [''create''],
     c_detail = Some \<lparr>cd_changed_attributes = [''id'', ''name''], cd_replace_paths = [], cd_action_reason = None,
       cd_sensitive_attributes = []\<rparr>\<rparr>"

definition net_report :: finish_result where
  "net_report = no_result\<lparr>fr_changes := Some [net_change], fr_drift := Some [],
     fr_planned_objects := Some [(''azurerm_postgresql.this'', ''azurerm_postgresql'')]\<rparr>"

lemma net_ids: "redaction_ids demo_settings net_planning = [''sub-0001'', ''rg-retail'']"
  by code_simp

lemma net_plan_report: "plan_report net_engine [''sub-0001'', ''rg-retail''] net_raw = Inr net_report"
  by code_simp

section \<open>Planning\<close>

lemma net_engine_simps [simp]:
  "run_tf net_engine args db = (Exited 0 [] [], fst db, if hd args = ''plan'' then Some ''d1'' else snd db)"
  "cache_lock net_engine d" "\<not> uses_backend net_engine d" "read_plan net_engine out = Inr net_raw"
  "read_outputs net_engine out = Inr net_outputs" "sha256 net_engine b = b" "recursion_limit net_engine = Suc (Suc 0)"
  by (simp_all add: net_engine_def split: prod.split)

text \<open>On this machine every run in an existing workspace succeeds.\<close>

lemma net_run:
  assumes "h_dirs h (d_resource_id op) = Some d"
  shows "\<exists>h'. safe_run net_engine op args h = (Inr [], h') \<and> h_dirs h' (d_resource_id op) = Some d \<and>
    h_world h' = (h_world h)\<lparr>plans := (plans (h_world h))(d_resource_id op :=
      if hd args = ''plan'' then Some ''d1'' else plans (h_world h) (d_resource_id op))\<rparr> \<and>
    h_commands h' = (d_resource_id op, args) # h_commands h"
  using assms
  by (simp add: safe_run_def run_command_def Let_def put_dir_def put_plan_def add_log_def saved_plan_def)

lemma net_prepare:
  assumes "h_dirs h (d_resource_id op) = None"
  shows "\<exists>h' d. safe_prepare net_engine op h = (Inr (), h') \<and> h_dirs h' (d_resource_id op) = Some d \<and>
    h_world h' = (h_world h)\<lparr>plans := (plans (h_world h))(d_resource_id op := None)\<rparr>"
  using assms
  by (simp add: safe_prepare_def prepare_def ensure_source_def fetch_pattern_def wbind_def run_command_def Let_def
      put_dir_def put_plan_def add_log_def saved_plan_def wreturn_def)

lemma net_plan_run:
  "\<exists>h'. run_operation_phase net_engine ''op_1'' Plan_phase 20 30 (net_host (demo_world net_op net_resource 1)) = (Inr True, h') \<and>
     op_body ''op_1'' (h_world h') = Some (finished net_planning Planned (net_report\<lparr>fr_plan_digest := Some ''d1''\<rparr>) 30)"
proof -
  define g where "g = (net_host (demo_world net_op net_resource 1))\<lparr>h_world := demo_world net_planning net_resource 2\<rparr>"
  have g: "h_dirs g i = None" "h_world g = demo_world net_planning net_resource 2" for i
    by (simp_all add: g_def net_host_def)
  let ?rid = "d_resource_id net_planning"
  obtain h1 d where p: "safe_prepare net_engine net_planning g = (Inr (), h1)" "h_dirs h1 ?rid = Some d"
    "h_world h1 = (h_world g)\<lparr>plans := (plans (h_world g))(?rid := None)\<rparr>"
    using net_prepare [of g net_planning] by (auto simp: g)
  obtain h2 where q: "safe_run net_engine net_planning (plan_args net_planning) h1 = (Inr [], h2)" "h_dirs h2 ?rid = Some d"
    "h_world h2 = (h_world g)\<lparr>plans := (plans (h_world g))(?rid := Some ''d1'')\<rparr>"
    using net_run [of h1 net_planning d "plan_args net_planning"] p(2,3) by (auto simp: plan_args_def)
  obtain h3 where s: "safe_run net_engine net_planning [''show'', ''-json'', ''tfplan''] h2 = (Inr [], h3)"
    "h_world h3 = (h_world g)\<lparr>plans := (plans (h_world g))(?rid := Some ''d1'')\<rparr>"
    using net_run [of h2 net_planning d "[''show'', ''-json'', ''tfplan'']"] q(2,3) by auto
  have c: "cfg (h_world h3) = demo_settings" by (simp add: s(2) g demo_world_simps)
  let ?fr = "net_report\<lparr>fr_plan_digest := Some ''d1''\<rparr>"
  have "run_plan net_engine net_planning 30 g = report net_planning Planned ?fr 30 h3"
    by (simp add: run_plan_def wbind_def p(1) q(1) s(1) wlift_def c net_ids net_plan_report digest_of_def
        saved_plan_def s(2) g demo_world_simps)
  also have "\<dots> = (Inr (), h3\<lparr>h_world := snd (finish net_planning Planned ?fr 30 (h_world h3))\<rparr>)"
    by (rule report_ok) (simp add: c demo_settings_def)
  finally have r: "run_plan net_engine net_planning 30 g =
      (Inr (), h3\<lparr>h_world := snd (finish net_planning Planned ?fr 30 (h_world h3))\<rparr>)" .
  have k: "d_action net_planning = Deploy" "d_state net_planning = Some Planning" "d_id net_planning = ''op_1''"
    by (simp_all add: net_defs)
  have "run_operation_phase net_engine ''op_1'' Plan_phase 20 30 (net_host (demo_world net_op net_resource 1)) =
      (Inr True, h3\<lparr>h_world := snd (finish net_planning Planned ?fr 30 (h_world h3))\<rparr>)"
    using net_claim r
    by (simp add: run_operation_phase_def wbind_def on_ledger_def net_host_def run_phase_def wcatch_def wreturn_def k g_def)
  moreover have "op_body ''op_1'' (snd (finish net_planning Planned ?fr 30 (h_world h3))) = Some (finished net_planning Planned ?fr 30)"
  proof -
    have "fst (finish net_planning Planned ?fr 30 (h_world h3)) = Inr ()"
      using report_ok [of h3 net_planning Planned ?fr 30]
      by (auto simp: report_def on_ledger_def c demo_settings_def split: prod.splits sum.splits)
    then have "finish net_planning Planned ?fr 30 (h_world h3) = (Inr (), snd (finish net_planning Planned ?fr 30 (h_world h3)))"
      by (simp add: prod_eq_iff)
    from finish_row [OF this, of "demo_row net_planning"] show ?thesis
      by (simp add: k s(2) g op_find_def demo_world_simps row_find_Cons)
  qed
  ultimately show ?thesis by auto
qed

section \<open>Applying\<close>

definition net_plan :: doc where
  "net_plan = finished net_planning Planned (net_report\<lparr>fr_plan_digest := Some ''d1''\<rparr>) 30"

definition net_approved :: doc where
  "net_approved = net_plan\<lparr>d_state := Some Apply_queued, d_updated_at := 40\<rparr>"

definition net_applying :: doc where
  "net_applying = net_plan\<lparr>d_state := Some Applying, d_updated_at := 50\<rparr>"

lemmas net_plan_simps = net_plan_def finished_def apply_result_def override_def net_report_def

lemma net_finish_plan:
  "finish net_planning Planned (net_report\<lparr>fr_plan_digest := Some ''d1''\<rparr>) 30 (demo_world net_planning net_resource 2) =
     (Inr (), demo_world net_plan net_resource 3)"
  by (simp add: finish_def finish_tx_def net_plan_simps demo_ops net_defs worker_actor_def)

lemma net_execute:
  "execute ''op_1'' ''d1'' ''bob'' 40 (demo_world net_plan net_resource 3) =
     (Inr net_approved, demo_world net_approved net_resource 4)"
  by (simp add: execute_def execute_tx_def expired_def plan_expires_at_def demo_ops net_approved_def net_plan_simps net_defs)

text \<open>The saved plan lies in the workspace while the operation waits to be applied.\<close>

definition net_saved :: world where
  "net_saved = (demo_world net_approved net_resource 4)\<lparr>plans := (\<lambda>_. None)(''res_1'' := Some ''d1'')\<rparr>"

definition net_saved_applying :: world where
  "net_saved_applying = (demo_world net_applying net_resource 5)\<lparr>plans := (\<lambda>_. None)(''res_1'' := Some ''d1'')\<rparr>"

lemma net_claim_apply: "claim ''op_1'' Apply_phase 50 net_saved = (Inr (Some net_applying), net_saved_applying)"
  by (simp add: claim_def claim_tx_def demo_ops net_saved_def net_saved_applying_def net_applying_def net_approved_def
      net_plan_simps net_defs phase_states_def worker_actor_def)

lemma net_reachable:
  "reachable (demo_sys (demo_world net_op net_resource 1) [])"
  "reachable (demo_sys net_saved [net_planning])"
proof -
  have r1: "reachable (demo_sys (demo_world net_op net_resource 1) [])"
    by (rule demo_step_accept [OF demo_reachable0 net_accept])
  have r2: "reachable (demo_sys (demo_world net_planning net_resource 2) [net_planning])"
    by (rule demo_step_claim [OF r1 net_claim])
  have "worker_outcome net_planning Planned" by (simp add: worker_outcome_def net_defs)
  then have r3: "reachable (demo_sys (demo_world net_plan net_resource 3) [net_planning])"
    using demo_step_finish [OF r2 _ _ net_finish_plan] by simp
  have r4: "reachable (demo_sys (demo_world net_approved net_resource 4) [net_planning])"
    by (rule demo_step_execute [OF r3 net_execute])
  have "ledger_step (demo_sys (demo_world net_approved net_resource 4) [net_planning]) (demo_sys net_saved [net_planning])"
    using ls_plan_files [of "demo_sys (demo_world net_approved net_resource 4) [net_planning]" "(\<lambda>_. None)(''res_1'' := Some ''d1'')"]
    by (simp add: demo_sys_def net_saved_def)
  with r4 show "reachable (demo_sys net_saved [net_planning])" by (rule reach_step)
  show "reachable (demo_sys (demo_world net_op net_resource 1) [])" by (rule r1)
qed

definition empty_dirs :: "string \<Rightarrow> workdir option" where
  "empty_dirs = (\<lambda>_. Some empty_workdir)"

definition net_apply_host :: host where
  "net_apply_host = (net_host net_saved)\<lparr>h_dirs := empty_dirs\<rparr>"

lemma net_withheld: "withhold net_engine [''sub-0001''] (split_outputs net_outputs) =
    ([(''endpoint'', JStr ''shop.example'')], [''password'', ''arm_id''])"
  by code_simp

lemma net_apply_run:
  "\<exists>h' op'. run_operation_phase net_engine ''op_1'' Apply_phase 50 60 net_apply_host = (Inr True, h') \<and>
     op_body ''op_1'' (h_world h') = Some op' \<and> d_state op' = Some Succeeded \<and> d_action op' \<noteq> Drift_check \<and>
     d_outputs op' = Some [(''endpoint'', JStr ''shop.example'')] \<and>
     h_commands h' = [(''res_1'', [''output'', ''-json'']), (''res_1'', [''apply'', ''-no-color'', ''tfplan''])]"
proof -
  define g where "g = net_apply_host\<lparr>h_world := net_saved_applying\<rparr>"
  have k: "d_action net_applying = Deploy" "d_state net_applying = Some Applying" "d_id net_applying = ''op_1''"
    "d_resource_id net_applying = ''res_1''" "d_plan_digest net_applying = Some ''d1''"
    "hidden_ids demo_settings net_applying = [''sub-0001'']"
    by (simp_all add: net_applying_def net_plan_simps stamp_def net_defs hidden_ids_def or_else_def)
  have g: "h_dirs g i = Some empty_workdir" "h_world g = net_saved_applying" "h_commands g = []" for i
    by (simp_all add: g_def net_apply_host_def net_host_def empty_dirs_def)
  have pl: "plans net_saved_applying ''res_1'' = Some ''d1''" "cfg net_saved_applying = demo_settings"
    by (simp_all add: net_saved_applying_def demo_world_simps)
  obtain h1 where a: "safe_run net_engine net_applying [''apply'', ''-no-color'', ''tfplan''] g = (Inr [], h1)"
    "h_dirs h1 ''res_1'' = Some empty_workdir" "h_world h1 = net_saved_applying\<lparr>plans := plans net_saved_applying\<rparr>"
    "h_commands h1 = [(''res_1'', [''apply'', ''-no-color'', ''tfplan''])]"
    using net_run [of g net_applying empty_workdir "[''apply'', ''-no-color'', ''tfplan'']"] g k by auto
  let ?h2 = "put_plan ''res_1'' None h1"
  obtain h3 where o: "safe_run net_engine net_applying [''output'', ''-json''] ?h2 = (Inr [], h3)"
    "h_world h3 = net_saved_applying\<lparr>plans := (plans net_saved_applying)(''res_1'' := None)\<rparr>"
    "h_commands h3 = [(''res_1'', [''output'', ''-json'']), (''res_1'', [''apply'', ''-no-color'', ''tfplan''])]"
    using net_run [of ?h2 net_applying empty_workdir "[''output'', ''-json'']"] a(2-4) k
    by (auto simp: put_plan_def)
  let ?fr = "no_result\<lparr>fr_outputs := Some [(''endpoint'', JStr ''shop.example'')],
     fr_withheld_outputs := Some [''password'', ''arm_id'']\<rparr>"
  have sv: "saved_plan ''res_1'' g = Some ''d1''" "saved_plan ''res_1'' h1 = Some ''d1''"
    by (simp_all add: saved_plan_def g a(3) pl)
  have c: "cfg (h_world h3) = demo_settings" by (simp add: o(2) pl)
  have "after_apply net_engine net_applying 60 h1 = report net_applying Succeeded ?fr 60 h3"
    by (simp add: after_apply_def wbind_def sv k collect_outputs_def o(1) wlift_def c net_withheld wreturn_def)
  then have ap: "run_apply net_engine net_applying 60 g = report net_applying Succeeded ?fr 60 h3"
    by (simp add: run_apply_def k sv a(1))
  have rep: "report net_applying Succeeded ?fr 60 h3 =
      (Inr (), h3\<lparr>h_world := snd (finish net_applying Succeeded ?fr 60 (h_world h3))\<rparr>)"
    by (rule report_ok) (simp add: c demo_settings_def)
  have "run_operation_phase net_engine ''op_1'' Apply_phase 50 60 net_apply_host =
      (Inr True, h3\<lparr>h_world := snd (finish net_applying Succeeded ?fr 60 (h_world h3))\<rparr>)"
    using net_claim_apply ap rep
    by (simp add: run_operation_phase_def wbind_def on_ledger_def net_apply_host_def net_host_def run_phase_def
        wcatch_def wreturn_def k g_def)
  moreover have "op_body ''op_1'' (snd (finish net_applying Succeeded ?fr 60 (h_world h3))) =
      Some (finished net_applying Succeeded ?fr 60)"
  proof -
    have "fst (finish net_applying Succeeded ?fr 60 (h_world h3)) = Inr ()"
      using rep by (auto simp: report_def on_ledger_def split: prod.splits sum.splits)
    then have "finish net_applying Succeeded ?fr 60 (h_world h3) = (Inr (), snd (finish net_applying Succeeded ?fr 60 (h_world h3)))"
      by (simp add: prod_eq_iff)
    from finish_row [OF this, of "demo_row net_applying"] show ?thesis
      by (simp add: k o(2) net_saved_applying_def op_find_def demo_world_simps row_find_Cons)
  qed
  moreover have "d_state (finished net_applying Succeeded ?fr 60) = Some Succeeded"
    "d_action (finished net_applying Succeeded ?fr 60) \<noteq> Drift_check"
    "d_outputs (finished net_applying Succeeded ?fr 60) = Some [(''endpoint'', JStr ''shop.example'')]"
    by (simp_all add: finished_def apply_result_def stamp_def override_def k)
  ultimately show ?thesis using o(3) by auto
qed

section \<open>A stale plan\<close>

definition stale_engine :: engine where
  "stale_engine = net_engine\<lparr>run_tf := (\<lambda>args db. (Exited 1 [] ''Error: Saved plan is stale'', db))\<rparr>"

definition stale_text :: string where
  "stale_text = ''terraform apply failed: Error: Saved plan is stale''"

lemma stale_refusal: "msg_failed ''apply'' 1 ''Error: Saved plan is stale'' = stale_text"
  "refusal stale_text = Some ''saved plan is stale; submit a new intent''"
  by code_simp+

lemma report_row:
  assumes "report op st fr t h = (r, h')" "db_sqlite (cfg (h_world h))" "op_find (d_id op) (h_world h) = Some row"
    "Some (r_state row) = d_state op"
  shows "r = Inr ()" "op_body (d_id op) (h_world h') = Some (finished op st fr t)"
proof -
  have rep: "report op st fr t h = (Inr (), h\<lparr>h_world := snd (finish op st fr t (h_world h))\<rparr>)"
    using assms(2) by (rule report_ok)
  then have "fst (finish op st fr t (h_world h)) = Inr ()"
    by (auto simp: report_def on_ledger_def split: prod.splits sum.splits)
  then have "finish op st fr t (h_world h) = (Inr (), snd (finish op st fr t (h_world h)))" by (simp add: prod_eq_iff)
  from finish_row [OF this assms(3,4)] rep assms(1)
  show "r = Inr ()" "op_body (d_id op) (h_world h') = Some (finished op st fr t)" by auto
qed

lemma stale_apply_run:
  "\<exists>h' op'. run_operation_phase stale_engine ''op_1'' Apply_phase 50 60 net_apply_host = (Inr True, h') \<and>
     op_body ''op_1'' (h_world h') = Some op' \<and> d_state op' = Some Failed \<and> d_action op' \<noteq> Drift_check"
proof -
  define g where "g = net_apply_host\<lparr>h_world := net_saved_applying\<rparr>"
  have k: "d_action net_applying = Deploy" "d_state net_applying = Some Applying" "d_id net_applying = ''op_1''"
    "d_resource_id net_applying = ''res_1''" "d_plan_digest net_applying = Some ''d1''"
    by (simp_all add: net_applying_def net_plan_simps stamp_def net_defs)
  have sv: "saved_plan ''res_1'' g = Some ''d1''"
    by (simp add: g_def saved_plan_def net_saved_applying_def)
  let ?apply = "[''apply'', ''-no-color'', ''tfplan'']"
  obtain h1 where a: "safe_run stale_engine net_applying ?apply g = (Inl (TerraformError stale_text), h1)"
    "operations (h_world h1) = operations (h_world g)" "cfg (h_world h1) = cfg (h_world g)"
    by (simp add: safe_run_def run_command_def stale_engine_def Let_def g_def net_apply_host_def empty_dirs_def k
        stale_refusal net_host_def put_dir_def put_plan_def add_log_def)
  have sq: "db_sqlite (cfg (h_world h1))"
    by (simp add: a(3) g_def net_saved_applying_def demo_world_simps demo_settings_def)
  obtain x h' where f: "fail_op net_applying ''saved plan is stale; submit a new intent''
      (Some (why_of net_applying (TerraformError stale_text) h1)) 60 h1 = (x, h')" by fastforce
  obtain h2 where h2: "effect {} h1 h2" "report net_applying Failed (failure ''saved plan is stale; submit a new intent''
      (Some (why_of net_applying (TerraformError stale_text) h1))) 60 h2 = (x, h')"
    using f sq by (rule fail_op_cases)
  have row: "op_find (d_id net_applying) (h_world h2) = Some (demo_row net_applying)"
    using h2(1) a(2) by (auto simp: effect_def op_find_def k g_def net_saved_applying_def demo_world_simps row_find_Cons
        dest: same_tables_fields)
  have sq2: "db_sqlite (cfg (h_world h2))" using sq effect_sqlite [OF h2(1)] by simp
  have out: "x = Inr ()" "op_body ''op_1'' (h_world h') = Some (finished net_applying Failed
      (failure ''saved plan is stale; submit a new intent'' (Some (why_of net_applying (TerraformError stale_text) h1))) 60)"
    using report_row [OF h2(2) sq2 row] by (simp_all add: k demo_world_simps)
  have "run_apply stale_engine net_applying 60 g = (Inr (), h')"
    using f out(1) by (simp add: run_apply_def k sv a(1) stale_refusal stale_engine_def [THEN arg_cong, of sha256])
  then have "run_operation_phase stale_engine ''op_1'' Apply_phase 50 60 net_apply_host = (Inr True, h')"
    using net_claim_apply
    by (simp add: run_operation_phase_def wbind_def on_ledger_def net_apply_host_def net_host_def run_phase_def
        wcatch_def wreturn_def k g_def)
  with out(2) show ?thesis by (auto simp: finished_def apply_result_def stamp_def Let_def k)
qed

end
