(* ===== verification/WorkerSafety.thy ===== *)
theory WorkerSafety
  imports WorkerScenario
begin

text \<open>
  The properties of the worker's activity as a whole, from the claim to the report: it is a run of
  the ledger, it always reports, it applies nothing but the saved plan that was approved, a failed
  apply is never taken for one that changed nothing, and what it stores and logs discloses no
  placement identifier and no command output.
\<close>

section \<open>The activity\<close>

definition running :: "phase \<Rightarrow> nat \<Rightarrow> op_row \<Rightarrow> doc" where
  "running p t r = stamp t ((r_body r)\<lparr>d_state := Some (snd (phase_states p))\<rparr>)"

lemma claim_some:
  assumes "claim i p t w = (Inr (Some op), w1)" "wf w"
  obtains r where "op_find i w = Some r" "r_state r = fst (phase_states p)" "op = running p t r" "d_id op = i"
    "op_find i w1 = Some (r\<lparr>r_state := snd (phase_states p), r_body := op\<rparr>)" "plans w1 = plans w" "cfg w1 = cfg w"
proof -
  have c: "claim_tx i p t w = (Inr (Some op), w1)" using assms(1) by (auto simp: claim_def dest: connect_InrD)
  then obtain r where r: "op_find i w = Some r" "r_state r = fst (phase_states p)"
    and op: "op = running p t r"
    and w1: "w1 = event (Some (d_id op)) worker_actor Ev_state (To_state (snd (phase_states p))) t (save_op op w)"
    by (auto simp: claim_tx_def Let_def running_def split: option.splits if_splits)
  have "d_id op = i" using op op_find_row_ok [OF assms(2) r(1)] by (simp add: row_ok_def running_def stamp_def)
  then show ?thesis
    by (intro that [OF r op]) (use w1 op r in \<open>auto simp: frame_simps table_simps running_def stamp_def\<close>)
qed

lemma claim_other:
  assumes "claim i p t w = (x, w1)" "x \<noteq> Inr (Some op)" "\<And>op. x \<noteq> Inr (Some op)"
  shows "w1 = w"
  using assms by (auto simp: claim_def connect_def claim_tx_def Let_def split: if_splits option.splits)

lemma activity_cases:
  assumes "run_operation_phase e i p t1 t2 h = (r, h')" "wf (h_world h)"
  obtains "h' = h" "r \<noteq> Inr True" "\<forall>op. fst (claim i p t1 (h_world h)) \<noteq> Inr (Some op)"
  | row h1 where "op_find i (h_world h) = Some row" "r_state row = fst (phase_states p)"
      "claim i p t1 (h_world h) = (Inr (Some (running p t1 row)), h_world h1)"
      "h1 = h\<lparr>h_world := h_world h1\<rparr>" "d_id (running p t1 row) = i"
      "op_find i (h_world h1) = Some (row\<lparr>r_state := snd (phase_states p), r_body := running p t1 row\<rparr>)"
      "plans (h_world h1) = plans (h_world h)" "cfg (h_world h1) = cfg (h_world h)" "db_sqlite (cfg (h_world h1))"
      "wbind (run_phase e (running p t1 row) t2) (\<lambda>_. wreturn True) h1 = (r, h')"
proof -
  obtain x w1 where c: "claim i p t1 (h_world h) = (x, w1)" by fastforce
  show ?thesis
  proof (cases "\<exists>op. x = Inr (Some op)")
    case True
    then obtain op where x: "x = Inr (Some op)" by blast
    obtain row where row: "op_find i (h_world h) = Some row" "r_state row = fst (phase_states p)"
      "op = running p t1 row" "d_id op = i"
      "op_find i w1 = Some (row\<lparr>r_state := snd (phase_states p), r_body := op\<rparr>)"
      "plans w1 = plans (h_world h)" "cfg w1 = cfg (h_world h)"
      using c [unfolded x] assms(2) by (rule claim_some)
    have sq: "db_sqlite (cfg (h_world h))" using c x by (auto simp: claim_def dest: connect_InrD)
    have "wbind (run_phase e op t2) (\<lambda>_. wreturn True) (h\<lparr>h_world := w1\<rparr>) = (r, h')"
      using assms(1) c x by (simp add: run_operation_phase_def wbind_def [of "on_ledger _"] on_ledger_def)
    then show ?thesis
      by (intro that(2) [of row "h\<lparr>h_world := w1\<rparr>"]) (use row sq c x in auto)
  next
    case False
    then have "w1 = h_world h" using claim_other [OF c] by blast
    then have "h' = h \<and> r \<noteq> Inr True"
      using assms(1) c False
      by (cases x) (auto simp: run_operation_phase_def wbind_def on_ledger_def wreturn_def split: option.splits)
    then show ?thesis using that(1) False c by auto
  qed
qed

lemma running_simps [simp]:
  "d_state (running p t r) = Some (snd (phase_states p))" "d_resource_id (running p t r) = d_resource_id (r_body r)"
  "d_action (running p t r) = d_action (r_body r)" "d_plan_digest (running p t r) = d_plan_digest (r_body r)"
  "d_def (running p t r) = d_def (r_body r)"
  by (simp_all add: running_def stamp_def)

lemma running_state: "snd (phase_states p) = Planning \<or> snd (phase_states p) = Applying"
  by (cases p) (simp_all add: phase_states_def)

text \<open>The claim, the confined run and the report of an activity that found work.\<close>

lemma activity_run:
  assumes "run_operation_phase e i p t1 t2 h = (r, h')" "wf (h_world h)"
  obtains "h' = h" "r \<noteq> Inr True" "\<forall>op. fst (claim i p t1 (h_world h)) \<noteq> Inr (Some op)"
  | row h1 st fr h2 where "op_find i (h_world h) = Some row" "r_state row = fst (phase_states p)"
      "claim i p t1 (h_world h) = (Inr (Some (running p t1 row)), h_world h1)" "d_id (running p t1 row) = i"
      "h1 = h\<lparr>h_world := h_world h1\<rparr>" "plans (h_world h1) = plans (h_world h)" "cfg (h_world h1) = cfg (h_world h)"
      "op_find i (h_world h1) = Some (row\<lparr>r_state := snd (phase_states p), r_body := running p t1 row\<rparr>)"
      "worker_outcome (running p t1 row) st"
      "effect ({d_resource_id (r_body row)} \<times> phase_lines e (cfg (h_world h)) (running p t1 row)) h1 h2"
      "finish (running p t1 row) st fr t2 (h_world h2) = (Inr (), h_world h')"
      "h' = h2\<lparr>h_world := h_world h'\<rparr>" "r = Inr True"
      "d_action (r_body row) \<noteq> Drift_check \<longrightarrow> justified e (running p t1 row) h1 st fr h2"
  using assms
proof (rule activity_cases)
  fix row h1
  let ?op = "running p t1 row"
  assume a: "op_find i (h_world h) = Some row" "r_state row = fst (phase_states p)"
    "claim i p t1 (h_world h) = (Inr (Some ?op), h_world h1)" "h1 = h\<lparr>h_world := h_world h1\<rparr>" "d_id ?op = i"
    "op_find i (h_world h1) = Some (row\<lparr>r_state := snd (phase_states p), r_body := ?op\<rparr>)"
    "plans (h_world h1) = plans (h_world h)" "cfg (h_world h1) = cfg (h_world h)" "db_sqlite (cfg (h_world h1))"
    "wbind (run_phase e ?op t2) (\<lambda>_. wreturn True) h1 = (r, h')"
  obtain x g where ph: "run_phase e ?op t2 h1 = (x, g)" by fastforce
  have "d_state ?op = Some Planning \<or> d_state ?op = Some Applying" using running_state [of p] by auto
  with ph a(9) obtain st fr h2 where b: "worker_outcome ?op st"
    "effect ({d_resource_id ?op} \<times> phase_lines e (cfg (h_world h1)) ?op) h1 h2" "report ?op st fr t2 h2 = (x, g)"
    "d_action ?op \<noteq> Drift_check \<longrightarrow> justified e ?op h1 st fr h2" by (rule run_phase_cases)
  have sq: "db_sqlite (cfg (h_world h2))" using effect_sqlite [OF b(2)] a(9) by simp
  from report_ok [OF sq] b(3) have x: "x = Inr ()" "g = h2\<lparr>h_world := snd (finish ?op st fr t2 (h_world h2))\<rparr>" by auto
  then have rh: "r = Inr True" "h' = g" using a(10) ph by (auto simp: wbind_def wreturn_def)
  have "fst (finish ?op st fr t2 (h_world h2)) = Inr ()"
    using b(3) x(1) by (auto simp: report_def on_ledger_def split: prod.splits sum.splits)
  then have "finish ?op st fr t2 (h_world h2) = (Inr (), h_world h')" using x rh by (simp add: prod_eq_iff)
  then show ?thesis
    by (intro that(2) [OF a(1-3) a(5,4,7,8,6) b(1)]) (use a b x rh in auto)
qed (use that(1) in blast)

lemma same_tables_eq: "same_tables w w' \<Longrightarrow> w' = w\<lparr>plans := plans w'\<rparr>"
  by (cases w; cases w') (simp add: same_tables_def)

lemma worker_runs_ledger:
  assumes "reachable \<lparr>s_world = h_world h, s_claims = C\<rparr>"
    and "run_operation_phase e i p t1 t2 h = (r, h')"
  shows "\<exists>C'. steps ledger_step \<lparr>s_world = h_world h, s_claims = C\<rparr> \<lparr>s_world = h_world h', s_claims = C'\<rparr>"
proof -
  have wf: "wf (h_world h)" using reachable_wf [OF assms(1)] by simp
  from assms(2) wf show ?thesis
  proof (rule activity_run)
    assume "h' = h"
    then show ?thesis using steps_refl [of ledger_step "\<lparr>s_world = h_world h, s_claims = C\<rparr>"] by blast
  next
    fix row h1 st fr h2
    let ?op = "running p t1 row"
    assume a: "claim i p t1 (h_world h) = (Inr (Some ?op), h_world h1)" "worker_outcome ?op st"
      "effect ({d_resource_id (r_body row)} \<times> phase_lines e (cfg (h_world h)) ?op) h1 h2"
      "finish ?op st fr t2 (h_world h2) = (Inr (), h_world h')"
    let ?s = "\<lambda>w. \<lparr>s_world = w, s_claims = ?op # C\<rparr>"
    have "ledger_step \<lparr>s_world = h_world h, s_claims = C\<rparr> (?s (h_world h1))"
      using ls_claim [of i p t1 "\<lparr>s_world = h_world h, s_claims = C\<rparr>"] a(1) by (simp add: claimed_def)
    then have s1: "steps ledger_step \<lparr>s_world = h_world h, s_claims = C\<rparr> (?s (h_world h1))" by (rule steps_single)
    have "h_world h2 = (h_world h1)\<lparr>plans := plans (h_world h2)\<rparr>"
      using a(3) by (auto simp: effect_def dest: same_tables_eq)
    then have "ledger_step (?s (h_world h1)) (?s (h_world h2))"
      using ls_plan_files [of "?s (h_world h1)" "plans (h_world h2)"] by simp
    with s1 have s2: "steps ledger_step \<lparr>s_world = h_world h, s_claims = C\<rparr> (?s (h_world h2))" by (rule steps_step)
    have "ledger_step (?s (h_world h2)) (?s (h_world h'))"
      using ls_finish [of ?op "?s (h_world h2)" st fr t2] a(2,4) by simp
    with s2 have "steps ledger_step \<lparr>s_world = h_world h, s_claims = C\<rparr> (?s (h_world h'))" by (rule steps_step)
    then show ?thesis by blast
  qed
qed

text \<open>C6. What an activity of the worker may do to the ledger. From every reachable state, whatever
  Terraform does meanwhile, an activity either finds no work and changes nothing, or it is exactly one
  claim of its operation followed by one report on that claim, with saved plan files as the only other change.
  The report is an outcome its phase allows: \<open>Planned\<close> carries the hash of the plan file that is there,
  every apply that does not end \<open>Failed\<close> found the recorded digest on its saved plan, and a \<open>Failed\<close> one started
  no command or was refused by Terraform.\<close>

theorem worker_refines_ledger:
  assumes "reachable \<lparr>s_world = h_world h, s_claims = C\<rparr>"
    and "run_operation_phase e i p t1 t2 h = (r, h')"
  shows "(h' = h \<and> r \<noteq> Inr True \<and> (\<forall>op. fst (claim i p t1 (h_world h)) \<noteq> Inr (Some op))) \<or>
    (\<exists>op w1 ps st fr. r = Inr True \<and> claim i p t1 (h_world h) = (Inr (Some op), w1) \<and>
       finish op st fr t2 (w1\<lparr>plans := ps\<rparr>) = (Inr (), h_world h') \<and>
       st \<in> (if p = Apply_phase then {Succeeded, Failed, Uncertain}
             else if d_action op = Drift_check then {Succeeded, Failed} else {Planned, Failed}) \<and>
       (st = Planned \<longrightarrow> (\<exists>b. ps (d_resource_id op) = Some b \<and> fr_plan_digest fr = Some (sha256 e b))) \<and>
       (p = Apply_phase \<and> d_action op \<noteq> Drift_check \<and> st \<noteq> Failed \<longrightarrow>
          (\<exists>b. saved_plan (d_resource_id op) h = Some b \<and> d_plan_digest op = Some (sha256 e b))) \<and>
       (p = Apply_phase \<and> d_action op \<noteq> Drift_check \<and> st = Failed \<longrightarrow>
          h_commands h' = h_commands h \<or> refused_apply e op (h\<lparr>h_world := w1\<rparr>)))"
proof -
  have wf: "wf (h_world h)" using reachable_wf [OF assms(1)] by simp
  from assms(2) wf show ?thesis
  proof (rule activity_run)
    fix row h1 st fr h2
    let ?op = "running p t1 row"
    assume a: "claim i p t1 (h_world h) = (Inr (Some ?op), h_world h1)" "h1 = h\<lparr>h_world := h_world h1\<rparr>"
      "plans (h_world h1) = plans (h_world h)" "worker_outcome ?op st"
      "effect ({d_resource_id (r_body row)} \<times> phase_lines e (cfg (h_world h)) ?op) h1 h2"
      "finish ?op st fr t2 (h_world h2) = (Inr (), h_world h')" "h' = h2\<lparr>h_world := h_world h'\<rparr>" "r = Inr True"
      "d_action (r_body row) \<noteq> Drift_check \<longrightarrow> justified e ?op h1 st fr h2"
    have c: "h_commands h1 = h_commands h" "h_commands h' = h_commands h2"
      using a(2,7) by (metis host.select_convs(4) host.surjective host.update_convs(1))+
    have w2: "h_world h2 = (h_world h1)\<lparr>plans := plans (h_world h2)\<rparr>"
      using a(5) by (auto simp: effect_def dest: same_tables_eq)
    have out: "st \<in> (if p = Apply_phase then {Succeeded, Failed, Uncertain}
             else if d_action ?op = Drift_check then {Succeeded, Failed} else {Planned, Failed})"
      using a(4) by (cases p) (auto simp: worker_outcome_def phase_states_def split: if_splits)
    then have "d_action (r_body row) \<noteq> Drift_check" if "st = Planned" using that by (auto split: if_splits)
    with a(9) have planned: "\<exists>b. plans (h_world h2) (d_resource_id ?op) = Some b \<and> fr_plan_digest fr = Some (sha256 e b)"
      if "st = Planned"
      using that by (auto simp: justified_def saved_plan_def)
    have applied: "\<exists>b. saved_plan (d_resource_id ?op) h = Some b \<and> d_plan_digest ?op = Some (sha256 e b)"
      if "p = Apply_phase" "d_action ?op \<noteq> Drift_check" "st \<noteq> Failed"
      using a(3,9) that by (auto simp: justified_def phase_states_def plan_matches_def saved_plan_def)
    have failed: "h_commands h' = h_commands h \<or> refused_apply e ?op (h\<lparr>h_world := h_world h1\<rparr>)"
      if "p = Apply_phase" "d_action ?op \<noteq> Drift_check" "st = Failed"
      using a(9) that unfolding a(2) [symmetric] c [symmetric] by (simp add: justified_def phase_states_def c)
    show ?thesis
      by (rule disjI2, intro exI [of _ ?op] exI [of _ "h_world h1"] exI [of _ "plans (h_world h2)"] exI [of _ st] exI [of _ fr] conjI impI)
        (use a(1,6,8) w2 out planned applied failed in auto)
  qed blast
qed

theorem worker_refines_ledger_witness:
  "\<exists>op w1 ps st fr. claim ''op_1'' Apply_phase 50 net_saved = (Inr (Some op), w1) \<and> st \<in> {Succeeded, Failed, Uncertain} \<and>
     finish op st fr 60 (w1\<lparr>plans := ps\<rparr>) =
       (Inr (), h_world (snd (run_operation_phase net_engine ''op_1'' Apply_phase 50 60 net_apply_host)))"
proof -
  have w: "h_world net_apply_host = net_saved" by (simp add: net_apply_host_def net_host_def)
  have r: "reachable \<lparr>s_world = h_world net_apply_host, s_claims = [net_planning]\<rparr>"
    using net_reachable(2) by (simp add: w demo_sys_def)
  obtain h' where h': "run_operation_phase net_engine ''op_1'' Apply_phase 50 60 net_apply_host = (Inr True, h')"
    using net_apply_run by blast
  from worker_refines_ledger [OF r h'] show ?thesis by (fastforce simp: w h' split: if_splits)
qed

section \<open>Commands and logs\<close>

lemma activity_commands:
  assumes "run_operation_phase e i p t1 t2 h = (r, h')" "wf (h_world h)"
    and "h_commands h' = cs @ h_commands h" "(j, args) \<in> set cs"
  obtains row h1 st fr h2 where "op_find i (h_world h) = Some row" "r_state row = fst (phase_states p)"
    "j = d_resource_id (r_body row)" "args \<in> phase_lines e (cfg (h_world h)) (running p t1 row)"
    "plans (h_world h1) = plans (h_world h)" "h_commands h2 \<noteq> h_commands h1"
    "d_action (r_body row) \<noteq> Drift_check \<longrightarrow> justified e (running p t1 row) h1 st fr h2"
  using assms(1,2)
proof (rule activity_run)
  assume "h' = h"
  then show ?thesis using assms(3,4) by simp
next
  fix row h1 st fr h2
  assume a: "op_find i (h_world h) = Some row" "r_state row = fst (phase_states p)"
    "h1 = h\<lparr>h_world := h_world h1\<rparr>" "plans (h_world h1) = plans (h_world h)"
    "effect ({d_resource_id (r_body row)} \<times> phase_lines e (cfg (h_world h)) (running p t1 row)) h1 h2"
    "h' = h2\<lparr>h_world := h_world h'\<rparr>"
    "d_action (r_body row) \<noteq> Drift_check \<longrightarrow> justified e (running p t1 row) h1 st fr h2"
  have c: "h_commands h1 = h_commands h" "h_commands h' = h_commands h2"
    using a(3,6) by (metis host.select_convs(4) host.surjective host.update_convs(1))+
  from a(5) obtain ds where ds: "h_commands h2 = ds @ h_commands h1"
    "set ds \<subseteq> {d_resource_id (r_body row)} \<times> phase_lines e (cfg (h_world h)) (running p t1 row)"
    by (auto simp: effect_def)
  then have "cs = ds" using assms(3) c by simp
  then have "(j, args) \<in> {d_resource_id (r_body row)} \<times> phase_lines e (cfg (h_world h)) (running p t1 row)"
    "h_commands h2 \<noteq> h_commands h1"
    using ds assms(4) by auto
  then show ?thesis by (intro that [OF a(1,2) _ _ a(4) _ a(7)]) auto
qed

lemma running_lines [simp]:
  "drift_lines e s (running p t r) = drift_lines e s (r_body r)"
  "plan_lines e s (running p t r) = plan_lines e s (r_body r)"
  by (simp_all add: drift_lines_def plan_lines_def init_lines_def)

text \<open>Every command line of an activity, by its phase; in the apply phase, the row and the saved plan.\<close>

lemma activity_lines:
  assumes "reachable \<lparr>s_world = h_world h, s_claims = C\<rparr>"
    and "run_operation_phase e i p t1 t2 h = (r, h')"
    and "h_commands h' = cs @ h_commands h" "(j, args) \<in> set cs"
  shows "\<exists>row. op_find i (h_world h) = Some row \<and> r_state row = fst (phase_states p) \<and> j = d_resource_id (r_body row) \<and>
    args \<in> phase_lines e (cfg (h_world h)) (running p t1 row) \<and>
    (p = Apply_phase \<and> d_action (r_body row) \<noteq> Drift_check \<longrightarrow>
       (\<exists>b. saved_plan j h = Some b \<and> d_plan_digest (r_body row) = Some (sha256 e b))) \<and>
    (p = Apply_phase \<longrightarrow> (\<exists>ev \<in> set (events (h_world h)). e_operation_id ev = Some (r_id row) \<and>
       e_action ev = Ev_execute \<and> e_outcome ev = Accepted))"
proof -
  have wf: "wf (h_world h)" using reachable_wf [OF assms(1)] by simp
  obtain row h1 st fr h2 where a: "op_find i (h_world h) = Some row" "r_state row = fst (phase_states p)"
    "j = d_resource_id (r_body row)" "args \<in> phase_lines e (cfg (h_world h)) (running p t1 row)"
    "plans (h_world h1) = plans (h_world h)" "h_commands h2 \<noteq> h_commands h1"
    "d_action (r_body row) \<noteq> Drift_check \<longrightarrow> justified e (running p t1 row) h1 st fr h2"
    using assms(2) wf assms(3,4) by (rule activity_commands)
  have mem: "row \<in> set (operations (h_world h))" using a(1) by (simp add: op_find_def) (blast dest: row_find_SomeD)
  have "\<exists>b. saved_plan j h = Some b \<and> d_plan_digest (r_body row) = Some (sha256 e b)"
    if "p = Apply_phase \<and> d_action (r_body row) \<noteq> Drift_check"
    using a(3,5,6,7) that by (auto simp: justified_def phase_states_def plan_matches_def saved_plan_def)
  moreover have "\<exists>ev \<in> set (events (h_world h)). e_operation_id ev = Some (r_id row) \<and>
       e_action ev = Ev_execute \<and> e_outcome ev = Accepted" if "p = Apply_phase"
    using wf mem a(2) that by (auto simp: wf_def ops_ok_def exec_ok_def executed_def phase_states_def)
  ultimately show ?thesis using a(1-4) by blast
qed

lemma activity_starts:
  assumes "reachable \<lparr>s_world = h_world h, s_claims = C\<rparr>"
    and "run_operation_phase e i p t1 t2 h = (r, h')"
    and "h_commands h' = cs @ h_commands h" "(j, args) \<in> set cs"
  shows "\<exists>row. op_find i (h_world h) = Some row \<and> j = d_resource_id (r_body row) \<and>
    hd args \<in> {''init'', ''plan'', ''show'', ''apply'', ''output''} \<and>
    (hd args = ''apply'' \<longrightarrow> p = Apply_phase \<and> r_state row = Apply_queued \<and>
       (\<exists>b. saved_plan j h = Some b \<and> d_plan_digest (r_body row) = Some (sha256 e b)) \<and>
       (\<exists>ev \<in> set (events (h_world h)). e_operation_id ev = Some (r_id row) \<and> e_action ev = Ev_execute \<and>
          e_outcome ev = Accepted))"
proof -
  obtain row where a: "op_find i (h_world h) = Some row" "r_state row = fst (phase_states p)" "j = d_resource_id (r_body row)"
    "args \<in> phase_lines e (cfg (h_world h)) (running p t1 row)"
    "p = Apply_phase \<and> d_action (r_body row) \<noteq> Drift_check \<longrightarrow>
       (\<exists>b. saved_plan j h = Some b \<and> d_plan_digest (r_body row) = Some (sha256 e b))"
    "p = Apply_phase \<longrightarrow> (\<exists>ev \<in> set (events (h_world h)). e_operation_id ev = Some (r_id row) \<and>
       e_action ev = Ev_execute \<and> e_outcome ev = Accepted)"
    using activity_lines [OF assms] by blast
  have "p = Apply_phase \<and> d_action (r_body row) \<noteq> Drift_check" if "hd args = ''apply''"
    using phase_lines_apply [OF a(4) that] by (cases p) (auto simp: phase_states_def)
  then show ?thesis using a(1-3,5,6) phase_lines_heads [OF a(4)] by (auto simp: phase_states_def)
qed

text \<open>C3. The worker applies nothing but the plan that was approved. Every command an activity starts
  runs in the workspace of the operation's own resource, with the full arguments of its phase: a drift check
  or a planning only \<^verbatim>\<open>init\<close> (the two forms of \<open>init_lines\<close>), its \<^verbatim>\<open>plan\<close> to a plan file and the \<^verbatim>\<open>show\<close> of
  that file; an apply phase only \<^verbatim>\<open>apply -no-color tfplan\<close>, on the saved plan file, and \<^verbatim>\<open>output -json\<close>; and it starts
  one of the two only for an operation queued to be applied whose execute request was accepted, while the
  saved plan file hashes to the recorded digest.\<close>

theorem only_approved_plan_is_applied:
  assumes "reachable \<lparr>s_world = h_world h, s_claims = C\<rparr>"
    and "run_operation_phase e i p t1 t2 h = (r, h')"
    and "h_commands h' = cs @ h_commands h" "(j, args) \<in> set cs"
  shows "\<exists>row. op_find i (h_world h) = Some row \<and> r_state row = fst (phase_states p) \<and> j = d_resource_id (r_body row) \<and>
    (if d_action (r_body row) = Drift_check then args \<in> drift_lines e (cfg (h_world h)) (r_body row)
     else if p = Plan_phase then args \<in> plan_lines e (cfg (h_world h)) (r_body row)
     else args \<in> {[''apply'', ''-no-color'', ''tfplan''], [''output'', ''-json'']} \<and> r_state row = Apply_queued \<and>
       (\<exists>b. saved_plan j h = Some b \<and> d_plan_digest (r_body row) = Some (sha256 e b)) \<and>
       (\<exists>ev \<in> set (events (h_world h)). e_operation_id ev = Some (r_id row) \<and> e_action ev = Ev_execute \<and>
          e_outcome ev = Accepted))"
proof -
  obtain row where a: "op_find i (h_world h) = Some row" "r_state row = fst (phase_states p)" "j = d_resource_id (r_body row)"
    "args \<in> phase_lines e (cfg (h_world h)) (running p t1 row)"
    "p = Apply_phase \<and> d_action (r_body row) \<noteq> Drift_check \<longrightarrow>
       (\<exists>b. saved_plan j h = Some b \<and> d_plan_digest (r_body row) = Some (sha256 e b))"
    "p = Apply_phase \<longrightarrow> (\<exists>ev \<in> set (events (h_world h)). e_operation_id ev = Some (r_id row) \<and>
       e_action ev = Ev_execute \<and> e_outcome ev = Accepted)"
    using activity_lines [OF assms] by blast
  show ?thesis
  proof (cases p)
    case Plan_phase
    with a show ?thesis by (intro exI [of _ row]) (simp add: phase_lines_def phase_states_def split: if_splits)
  next
    case Apply_phase
    with a show ?thesis by (intro exI [of _ row]) (simp add: phase_lines_def phase_states_def apply_lines_def split: if_splits)
  qed
qed

theorem only_approved_plan_is_applied_witness:
  "\<exists>row. op_find ''op_1'' net_saved = Some row \<and> r_state row = Apply_queued \<and>
     (\<exists>b. saved_plan ''res_1'' net_apply_host = Some b \<and> d_plan_digest (r_body row) = Some (sha256 net_engine b))"
proof -
  obtain h' where h': "run_operation_phase net_engine ''op_1'' Apply_phase 50 60 net_apply_host = (Inr True, h')"
    "h_commands h' = [(''res_1'', [''output'', ''-json'']), (''res_1'', [''apply'', ''-no-color'', ''tfplan''])]"
    using net_apply_run by blast
  have w: "h_world net_apply_host = net_saved" "h_commands net_apply_host = []"
    by (simp_all add: net_apply_host_def net_host_def)
  have "reachable \<lparr>s_world = h_world net_apply_host, s_claims = [net_planning]\<rparr>"
    using net_reachable(2) by (simp add: w demo_sys_def)
  from only_approved_plan_is_applied [OF this h'(1), of "h_commands h'" "''res_1''" "[''apply'', ''-no-color'', ''tfplan'']"]
  obtain row where "op_find ''op_1'' net_saved = Some row" and
    "if d_action (r_body row) = Drift_check
     then [''apply'', ''-no-color'', ''tfplan''] \<in> drift_lines net_engine (cfg net_saved) (r_body row)
     else r_state row = Apply_queued \<and> (\<exists>b. saved_plan ''res_1'' net_apply_host = Some b \<and>
       d_plan_digest (r_body row) = Some (sha256 net_engine b))"
    by (auto simp: h'(2) w split: if_splits)
  then show ?thesis by (auto simp: drift_lines_def init_lines_def split: if_splits)
qed

text \<open>The log of a deployment discloses nothing. Every line an activity adds is a receipt: the
  command with its arguments (backend settings left out) and its exit code, never what Terraform or a provider
  printed.\<close>

theorem logs_are_receipts:
  assumes "reachable \<lparr>s_world = h_world h, s_claims = C\<rparr>"
    and "run_operation_phase e i p t1 t2 h = (r, h')"
  shows "\<exists>ls. h_logs h' j = h_logs h j @ ls \<and> list_all is_receipt ls"
proof -
  have wf: "wf (h_world h)" using reachable_wf [OF assms(1)] by simp
  from assms(2) wf show ?thesis
  proof (rule activity_run)
    fix row h1 st fr h2
    assume a: "h1 = h\<lparr>h_world := h_world h1\<rparr>" "h' = h2\<lparr>h_world := h_world h'\<rparr>"
      "effect ({d_resource_id (r_body row)} \<times> phase_lines e (cfg (h_world h)) (running p t1 row)) h1 h2"
    have "h_logs h1 = h_logs h" "h_logs h' = h_logs h2"
      using a(1,2) by (metis host.select_convs(3) host.surjective host.update_convs(1))+
    with a(3) show ?thesis by (simp add: effect_def)
  qed (intro exI [of _ "[]"], simp)
qed

theorem logs_are_receipts_witness:
  "\<exists>ls. h_logs (snd (run_operation_phase net_engine ''op_1'' Plan_phase 20 30
      (net_host (demo_world net_op net_resource 1)))) ''res_1'' = ls \<and> list_all is_receipt ls"
  using logs_are_receipts [of "net_host (demo_world net_op net_resource 1)" "[]" net_engine "''op_1''" Plan_phase 20 30
      _ _ "''res_1''"] net_reachable(1)
  by (simp add: demo_sys_def net_host_def) (metis prod.collapse)

section \<open>Outcomes\<close>

lemma activity_row:
  assumes "reachable \<lparr>s_world = h_world h, s_claims = C\<rparr>"
    and "run_operation_phase e i p t1 t2 h = (Inr True, h')"
  obtains row h1 st fr h2 where "op_find i (h_world h) = Some row" "r_state row = fst (phase_states p)"
    "worker_outcome (running p t1 row) st" "op_body i (h_world h') = Some (finished (running p t1 row) st fr t2)"
    "h_dirs h1 = h_dirs h" "h_commands h1 = h_commands h" "h_commands h' = h_commands h2"
    "plans (h_world h1) = plans (h_world h)" "cfg (h_world h1) = cfg (h_world h)"
    "finish (running p t1 row) st fr t2 (h_world h2) = (Inr (), h_world h')"
    "d_action (r_body row) \<noteq> Drift_check \<longrightarrow> justified e (running p t1 row) h1 st fr h2"
proof -
  have wf: "wf (h_world h)" using reachable_wf [OF assms(1)] by simp
  from assms(2) wf show ?thesis
  proof (rule activity_run)
    fix row h1 st fr h2
    let ?op = "running p t1 row"
    assume a: "op_find i (h_world h) = Some row" "r_state row = fst (phase_states p)" "d_id ?op = i"
      "h1 = h\<lparr>h_world := h_world h1\<rparr>" "plans (h_world h1) = plans (h_world h)" "cfg (h_world h1) = cfg (h_world h)"
      "op_find i (h_world h1) = Some (row\<lparr>r_state := snd (phase_states p), r_body := ?op\<rparr>)" "worker_outcome ?op st"
      "effect ({d_resource_id (r_body row)} \<times> phase_lines e (cfg (h_world h)) ?op) h1 h2"
      "finish ?op st fr t2 (h_world h2) = (Inr (), h_world h')" "h' = h2\<lparr>h_world := h_world h'\<rparr>"
      "d_action (r_body row) \<noteq> Drift_check \<longrightarrow> justified e ?op h1 st fr h2"
    have f: "h_dirs h1 = h_dirs h" "h_commands h1 = h_commands h" "h_commands h' = h_commands h2"
      using a(4,11) by (metis host.select_convs host.surjective host.update_convs(1))+
    have "operations (h_world h2) = operations (h_world h1)" using a(9) by (auto simp: effect_def dest: same_tables_fields)
    then have "op_find (d_id ?op) (h_world h2) = Some (row\<lparr>r_state := snd (phase_states p), r_body := ?op\<rparr>)"
      using a(3,7) by (simp add: op_find_def)
    from finish_row [OF a(10) this] have "op_body i (h_world h') = Some (finished ?op st fr t2)" by (simp add: a(3))
    then show ?thesis by (intro that [OF a(1,2,8) _ f a(5,6,10,12)])
  qed simp
qed

lemma finished_state [simp]: "d_state (finished op st fr t) = Some st"
  by (simp add: finished_def apply_result_def stamp_def Let_def)

lemma worker_reports:
  assumes "reachable \<lparr>s_world = h_world h, s_claims = C\<rparr>" "db_sqlite (cfg (h_world h))"
    and "op_find i (h_world h) = Some row" "r_state row = fst (phase_states p)"
  shows "\<exists>h' op' st. run_operation_phase e i p t1 t2 h = (Inr True, h') \<and> op_body i (h_world h') = Some op' \<and>
    d_state op' = Some st \<and> st \<in> {Planned, Succeeded, Failed, Uncertain} \<and> (st = Uncertain \<longrightarrow> p = Apply_phase)"
proof -
  have wf: "wf (h_world h)" using reachable_wf [OF assms(1)] by simp
  obtain r h' where run: "run_operation_phase e i p t1 t2 h = (r, h')" by fastforce
  have "fst (claim i p t1 (h_world h)) = Inr (Some (running p t1 row))"
    using assms(2-4) by (simp add: claim_def connect_def claim_tx_def Let_def running_def)
  with run wf have "r = Inr True" by (rule_tac activity_run) (assumption, assumption, blast+)
  with run have run: "run_operation_phase e i p t1 t2 h = (Inr True, h')" by simp
  obtain row' st fr where a: "worker_outcome (running p t1 row') st"
    "op_body i (h_world h') = Some (finished (running p t1 row') st fr t2)"
    using assms(1) run by (rule activity_row)
  have "st \<in> {Planned, Succeeded, Failed, Uncertain} \<and> (st = Uncertain \<longrightarrow> p = Apply_phase)"
    using a(1) by (cases p) (auto simp: worker_outcome_def phase_states_def split: if_splits)
  with run a(2) show ?thesis by simp
qed

text \<open>C14. The worker always reports. An activity that finds its operation waiting ends without raising
  whatever Terraform does (failures, deadlines, malformed output), and leaves the operation in a
  state its phase may end in, no longer running.\<close>

theorem worker_always_reports:
  assumes "reachable \<lparr>s_world = h_world h, s_claims = C\<rparr>" "db_sqlite (cfg (h_world h))"
    and "op_find i (h_world h) = Some row" "r_state row = fst (phase_states p)"
  shows "\<exists>h' op' st. run_operation_phase e i p t1 t2 h = (Inr True, h') \<and> op_body i (h_world h') = Some op' \<and>
    d_state op' = Some st \<and> st \<in> {Planned, Succeeded, Failed, Uncertain} \<and> (st = Uncertain \<longrightarrow> p = Apply_phase)"
  using assms by (rule worker_reports)

theorem worker_always_reports_witness:
  "\<exists>h' op' st. run_operation_phase stale_engine ''op_1'' Apply_phase 50 60 net_apply_host = (Inr True, h') \<and>
     op_body ''op_1'' (h_world h') = Some op' \<and> d_state op' = Some st \<and> st \<in> {Planned, Succeeded, Failed, Uncertain}"
proof -
  have w: "h_world net_apply_host = net_saved" by (simp add: net_apply_host_def net_host_def)
  have "reachable \<lparr>s_world = h_world net_apply_host, s_claims = [net_planning]\<rparr>"
    using net_reachable(2) by (simp add: w demo_sys_def)
  moreover have "db_sqlite (cfg (h_world net_apply_host))"
    by (simp add: w net_saved_def demo_world_simps demo_settings_def)
  moreover have "op_find ''op_1'' (h_world net_apply_host) = Some (demo_row net_approved)"
    by (simp add: w net_saved_def op_find_def demo_world_simps row_find_Cons)
  moreover have "r_state (demo_row net_approved) = fst (phase_states Apply_phase)"
    by (simp add: demo_world_simps net_approved_def phase_states_def)
  ultimately show ?thesis
    using worker_always_reports [of net_apply_host "[net_planning]" "''op_1''" "demo_row net_approved" Apply_phase stale_engine 50 60]
    by metis
qed

text \<open>C20. A failed apply is never taken for one that changed nothing. When an apply phase ends
  \<open>Failed\<close>, which releases the reservation, either no command was started or Terraform refused the
  plan before changing anything; every other failure after the start ends \<open>Uncertain\<close>.\<close>

theorem failed_apply_changed_nothing:
  assumes "reachable \<lparr>s_world = h_world h, s_claims = C\<rparr>"
    and "run_operation_phase e i Apply_phase t1 t2 h = (Inr True, h')"
    and "op_body i (h_world h') = Some op'" "d_state op' = Some Failed" "d_action op' \<noteq> Drift_check"
  shows "h_commands h' = h_commands h \<or>
    (\<exists>g. h_dirs g = h_dirs h \<and> plans (h_world g) = plans (h_world h) \<and> refused_apply e op' g)"
proof -
  obtain row h1 st fr h2 where a: "op_body i (h_world h') = Some (finished (running Apply_phase t1 row) st fr t2)"
    "h_dirs h1 = h_dirs h" "h_commands h1 = h_commands h" "h_commands h' = h_commands h2"
    "plans (h_world h1) = plans (h_world h)"
    "d_action (r_body row) \<noteq> Drift_check \<longrightarrow> justified e (running Apply_phase t1 row) h1 st fr h2"
    using assms(1,2) by (rule activity_row)
  have op': "op' = finished (running Apply_phase t1 row) st fr t2" using a(1) assms(3) by simp
  then have "st = Failed" "d_action (r_body row) \<noteq> Drift_check" using assms(4,5) by simp_all
  then have "h_commands h2 = h_commands h1 \<or> refused_apply e (running Apply_phase t1 row) h1"
    using a(6) by (auto simp: justified_def phase_states_def)
  moreover have "refused_apply e op' g = refused_apply e (running Apply_phase t1 row) g" for g
    by (simp add: refused_apply_def safe_run_def op')
  ultimately show ?thesis using a(2-5) by metis
qed

theorem failed_apply_changed_nothing_witness:
  "\<exists>h' op'. run_operation_phase stale_engine ''op_1'' Apply_phase 50 60 net_apply_host = (Inr True, h') \<and>
     op_body ''op_1'' (h_world h') = Some op' \<and>
     (h_commands h' = [] \<or> (\<exists>g. h_dirs g = empty_dirs \<and> refused_apply stale_engine op' g))"
proof -
  have w: "h_world net_apply_host = net_saved" "h_commands net_apply_host = []" "h_dirs net_apply_host = empty_dirs"
    by (simp_all add: net_apply_host_def net_host_def)
  have r: "reachable \<lparr>s_world = h_world net_apply_host, s_claims = [net_planning]\<rparr>"
    using net_reachable(2) by (simp add: w demo_sys_def)
  obtain h' op' where h': "run_operation_phase stale_engine ''op_1'' Apply_phase 50 60 net_apply_host = (Inr True, h')"
    "op_body ''op_1'' (h_world h') = Some op'" "d_state op' = Some Failed" "d_action op' \<noteq> Drift_check"
    using stale_apply_run by blast
  from failed_apply_changed_nothing [OF r h'] h'(1,2) show ?thesis unfolding w by blast
qed

section \<open>What is stored\<close>

lemma plan_report_safe:
  assumes "plan_report e ids raw = Inr fr"
  obtains cs ds os where "fr = no_result\<lparr>fr_changes := Some cs, fr_drift := Some ds, fr_planned_objects := Some os\<rparr>"
    "\<not> unsafe_summary (number_text e) ids (summary_json cs ds os)"
  using assms by (auto simp: plan_report_def Let_def elim!: sbind_InrE split: if_splits)

lemma plans_finish_planned: "finish op Planned fr t w = (Inr (), w') \<Longrightarrow> plans w' = plans w"
  by (auto simp: finish_def finish_tx_def Let_def frame_simps split: option.splits if_splits dest!: connect_InrD)

text \<open>C21. A recorded plan is the saved file and names no plain placement identifier. When an activity leaves
  its operation \<open>Planned\<close>, the recorded digest is the hash of the saved plan file, and no recorded
  change, drift or object, in its address, type, actions, attribute paths or reason, mentions a placement or
  injected identifier of the operation that JSON prints unchanged (\<open>plain\<close>: printable ASCII without
  quotes and backslashes). Other identifiers, a name with an accent for instance, are not covered:
  \<open>unicode_identifier_unseen\<close> shows one that slips through.\<close>

theorem planned_record_is_safe:
  assumes "reachable \<lparr>s_world = h_world h, s_claims = C\<rparr>"
    and "run_operation_phase e i p t1 t2 h = (Inr True, h')"
    and "op_body i (h_world h') = Some op'" "d_state op' = Some Planned"
  shows "\<exists>b cs ds os. saved_plan (d_resource_id op') h' = Some b \<and> d_plan_digest op' = Some (sha256 e b) \<and>
    d_changes op' = Some cs \<and> d_drift op' = Some ds \<and> d_planned_objects op' = Some os \<and>
    (\<forall>v \<in> set (redaction_ids (cfg (h_world h)) op'). plain v \<longrightarrow>
       (\<forall>ch \<in> set cs \<union> set ds. \<forall>s \<in> set (change_texts ch). \<not> mentions s v) \<and>
       (\<forall>ob \<in> set os. \<not> mentions (fst ob) v \<and> \<not> mentions (snd ob) v))"
proof -
  obtain row h1 st fr h2 where a: "worker_outcome (running p t1 row) st"
    "op_body i (h_world h') = Some (finished (running p t1 row) st fr t2)" "cfg (h_world h1) = cfg (h_world h)"
    "finish (running p t1 row) st fr t2 (h_world h2) = (Inr (), h_world h')"
    "d_action (r_body row) \<noteq> Drift_check \<longrightarrow> justified e (running p t1 row) h1 st fr h2"
    using assms(1,2) by (rule activity_row)
  let ?op = "running p t1 row"
  have op': "op' = finished ?op st fr t2" using a(2) assms(3) by simp
  then have st: "st = Planned" using assms(4) by simp
  then have "d_action (r_body row) \<noteq> Drift_check" using a(1) by (auto simp: worker_outcome_def)
  with a(5) st obtain raw fr0 b where r: "plan_report e (redaction_ids (cfg (h_world h)) ?op) raw = Inr fr0"
    "saved_plan (d_resource_id ?op) h2 = Some b" "fr = fr0\<lparr>fr_plan_digest := Some (sha256 e b)\<rparr>"
    unfolding justified_def a(3) by blast
  obtain cs ds os where f: "fr0 = no_result\<lparr>fr_changes := Some cs, fr_drift := Some ds, fr_planned_objects := Some os\<rparr>"
    "\<not> unsafe_summary (number_text e) (redaction_ids (cfg (h_world h)) ?op) (summary_json cs ds os)"
    using r(1) by (rule plan_report_safe)
  have ids: "redaction_ids (cfg (h_world h)) op' = redaction_ids (cfg (h_world h)) ?op"
    by (simp add: redaction_ids_def hidden_ids_def op')
  have d: "d_plan_digest op' = Some (sha256 e b)" "d_changes op' = Some cs" "d_drift op' = Some ds"
    "d_planned_objects op' = Some os" "d_resource_id op' = d_resource_id ?op"
    by (simp_all add: op' r(3) f(1) finished_def apply_result_def stamp_def Let_def override_def no_result_def)
  have "plans (h_world h') = plans (h_world h2)" using a(4) unfolding st by (rule plans_finish_planned)
  then have "saved_plan (d_resource_id op') h' = Some b" using r(2) d(5) by (simp add: saved_plan_def)
  moreover have "(\<forall>ch \<in> set cs \<union> set ds. \<forall>s \<in> set (change_texts ch). \<not> mentions s v) \<and>
       (\<forall>ob \<in> set os. \<not> mentions (fst ob) v \<and> \<not> mentions (snd ob) v)"
    if "v \<in> set (redaction_ids (cfg (h_world h)) op')" "plain v" for v
    using safe_summary [OF f(2), of v] that unfolding ids by blast
  ultimately show ?thesis using d by blast
qed

theorem planned_record_is_safe_witness:
  "\<not> mentions ''azurerm_postgresql.this'' ''rg-retail'' \<and> plain ''rg-retail'' \<and>
   ''rg-retail'' \<in> set (redaction_ids demo_settings net_plan)"
proof -
  let ?h = "net_host (demo_world net_op net_resource 1)"
  have w: "h_world ?h = demo_world net_op net_resource 1" by (simp add: net_host_def)
  have r: "reachable \<lparr>s_world = h_world ?h, s_claims = []\<rparr>"
    using net_reachable(1) by (simp only: w demo_sys_def)
  obtain h' where h': "run_operation_phase net_engine ''op_1'' Plan_phase 20 30 ?h = (Inr True, h')"
    "op_body ''op_1'' (h_world h') = Some net_plan"
    using net_plan_run by (auto simp: net_plan_def)
  have ids: "''rg-retail'' \<in> set (redaction_ids demo_settings net_plan)" and p: "plain ''rg-retail''"
    by code_simp+
  have st: "d_state net_plan = Some Planned" and ch: "d_changes net_plan = Some [net_change]"
    by (simp_all add: net_plan_simps stamp_def)
  have cf: "cfg (h_world ?h) = demo_settings" by (simp add: net_host_def demo_world_simps)
  have "''azurerm_postgresql.this'' \<in> set (change_texts net_change)" by (simp add: change_texts_def net_change_def)
  with planned_record_is_safe [OF r h' st] ids p ch show ?thesis unfolding cf by auto
qed

lemma shown_outputsD:
  assumes "shown_outputs e op h outputs withheld"
  obtains out raw where "read_outputs e out = Inr raw"
    "\<And>n v. (n, v) \<in> set outputs \<Longrightarrow> \<exists>o'. (n, o') \<in> set raw \<and> out_value o' = v \<and> \<not> out_sensitive o'"
    "\<And>n v i. (n, v) \<in> set outputs \<Longrightarrow> i \<in> set (hidden_ids (cfg (h_world h)) op) \<Longrightarrow> \<not> mentions (dumps (number_text e) v) i"
    "set (map fst outputs) \<union> set withheld = set (map fst raw)"
proof -
  from assms obtain out raw where raw: "read_outputs e out = Inr raw"
    "(outputs, withheld) = withhold e (hidden_ids (cfg (h_world h)) op) (split_outputs raw)"
    by (auto simp: shown_outputs_def)
  show ?thesis
  proof (rule that [OF raw(1)])
    show "set (map fst outputs) \<union> set withheld = set (map fst raw)"
      using raw(2) by (auto simp: withhold_def split_outputs_def Let_def image_iff split: prod.splits) force+
  qed (use raw(2) in \<open>auto simp: withhold_def split_outputs_def Let_def list_ex_iff split: prod.splits\<close>)
qed

text \<open>C22. Stored outputs name no plain placement identifier. When a deploy or a destroy succeeds, each stored
  output is one that Terraform printed and did not mark sensitive; no text in it mentions an identifier that the
  worker withholds outputs for (\<open>hidden_ids\<close>: of the placement, not the other injected values) and that JSON
  prints unchanged (\<open>plain\<close>); and every output that is not stored is named as withheld.\<close>

theorem stored_outputs_disclose_nothing:
  assumes "reachable \<lparr>s_world = h_world h, s_claims = C\<rparr>"
    and "run_operation_phase e i p t1 t2 h = (Inr True, h')"
    and "op_body i (h_world h') = Some op'" "d_state op' = Some Succeeded" "d_action op' \<noteq> Drift_check"
  shows "\<exists>out raw outputs withheld. read_outputs e out = Inr raw \<and> d_outputs op' = Some outputs \<and>
    d_withheld_outputs op' = Some withheld \<and> set (map fst outputs) \<union> set withheld = set (map fst raw) \<and>
    (\<forall>(n, v) \<in> set outputs. (\<exists>o'. (n, o') \<in> set raw \<and> out_value o' = v \<and> \<not> out_sensitive o') \<and>
       (\<forall>hid \<in> set (hidden_ids (cfg (h_world h)) op'). plain hid \<longrightarrow> (\<forall>s \<in> set (texts_of v). \<not> mentions s hid)))"
proof -
  obtain row h1 st fr h2 where a: "op_body i (h_world h') = Some (finished (running p t1 row) st fr t2)"
    "cfg (h_world h1) = cfg (h_world h)"
    "d_action (r_body row) \<noteq> Drift_check \<longrightarrow> justified e (running p t1 row) h1 st fr h2"
    using assms(1,2) by (rule activity_row)
  let ?op = "running p t1 row"
  have op': "op' = finished ?op st fr t2" using a(1) assms(3) by simp
  then have st: "st = Succeeded" "d_action (r_body row) \<noteq> Drift_check" using assms(4,5) by simp_all
  with a(3) obtain outputs withheld where o: "shown_outputs e ?op h1 outputs withheld"
    "fr = no_result\<lparr>fr_outputs := Some outputs, fr_withheld_outputs := Some withheld\<rparr>"
    unfolding justified_def by blast
  have ids: "hidden_ids (cfg (h_world h)) op' = hidden_ids (cfg (h_world h1)) ?op"
    by (simp add: hidden_ids_def op' a(2))
  obtain out raw where raw: "read_outputs e out = Inr raw" "set (map fst outputs) \<union> set withheld = set (map fst raw)"
    "\<And>n v. (n, v) \<in> set outputs \<Longrightarrow> \<exists>o'. (n, o') \<in> set raw \<and> out_value o' = v \<and> \<not> out_sensitive o'"
    "\<And>n v i. (n, v) \<in> set outputs \<Longrightarrow> i \<in> set (hidden_ids (cfg (h_world h1)) ?op) \<Longrightarrow> \<not> mentions (dumps (number_text e) v) i"
    using o(1) by (rule shown_outputsD) blast
  have d: "d_outputs op' = Some outputs" "d_withheld_outputs op' = Some withheld"
    by (simp_all add: op' o(2) finished_def apply_result_def stamp_def Let_def override_def no_result_def)
  have "\<not> mentions s hid" if "(n, v) \<in> set outputs" "hid \<in> set (hidden_ids (cfg (h_world h)) op')" "plain hid" "s \<in> set (texts_of v)"
    for n v hid s
    using texts_in_dumps [OF that(4) _ that(3)] raw(4) [OF that(1)] that(2) unfolding ids by blast
  with raw d show ?thesis by blast
qed

theorem stored_outputs_disclose_nothing_witness:
  "\<exists>h' op'. run_operation_phase net_engine ''op_1'' Apply_phase 50 60 net_apply_host = (Inr True, h') \<and>
     op_body ''op_1'' (h_world h') = Some op' \<and> d_outputs op' = Some [(''endpoint'', JStr ''shop.example'')] \<and>
     (\<exists>withheld. d_withheld_outputs op' = Some withheld)"
proof -
  have w: "h_world net_apply_host = net_saved" by (simp add: net_apply_host_def net_host_def)
  have r: "reachable \<lparr>s_world = h_world net_apply_host, s_claims = [net_planning]\<rparr>"
    using net_reachable(2) by (simp add: w demo_sys_def)
  obtain h' op' where h': "run_operation_phase net_engine ''op_1'' Apply_phase 50 60 net_apply_host = (Inr True, h')"
    "op_body ''op_1'' (h_world h') = Some op'" "d_state op' = Some Succeeded" "d_action op' \<noteq> Drift_check"
    "d_outputs op' = Some [(''endpoint'', JStr ''shop.example'')]"
    using net_apply_run by blast
  from stored_outputs_disclose_nothing [OF r h'(1-4)] h' show ?thesis by blast
qed

text \<open>The diagnostic of a failed plan of the demonstration operation.\<close>

theorem diagnostic_hides_identifiers_witness:
  "diagnostic demo_settings net_planning (TerraformError ''terraform plan failed: Error: no group RG-Retail'') =
     Some ''terraform plan failed: Error: no group [redacted]'' \<and>
   \<not> mentions ''terraform plan failed: Error: no group [redacted]'' ''rg-retail''"
proof -
  let ?e = "TerraformError ''terraform plan failed: Error: no group RG-Retail''"
  let ?t = "''terraform plan failed: Error: no group [redacted]''"
  have d: "diagnostic demo_settings net_planning ?e = Some ?t" by code_simp
  have i: "''rg-retail'' \<in> set (redaction_ids demo_settings net_planning)" by (simp add: net_ids)
  have c: "clear_of_mark (lower ''rg-retail'')" by code_simp
  have n: "?t \<noteq> msg_rejected command" for command
  proof
    assume "?t = msg_rejected command"
    then have "rev ?t = rev (msg_rejected command)" by simp
    then show False by (simp add: msg_rejected_def)
  qed
  from diagnostic_hides_identifiers [OF d i c] n d show ?thesis by blast
qed

end
