(* ===== verification/CostHistory.thy ===== *)
theory CostHistory
  imports Policy LedgerQueries "HOL-Library.Multiset"
begin

text \<open>
  The cost history, \<^verbatim>\<open>app/cost_history.py\<close> and its handler in \<^verbatim>\<open>app/main.py\<close>: the reservation of each
  resource replayed from its operations, and the daily series, the totals by pattern and the biggest
  movers built from it. A day is the number of whole days since the epoch; amounts are
  exact where the code adds floats.
\<close>

section \<open>Replaying one resource\<close>

definition current_amount :: "doc \<Rightarrow> err + rat" where
  "current_amount r = (if d_state r = Some Destroyed then Inr 0 else accounting_amount (d_cost r))"

definition previous_amount :: "doc \<Rightarrow> err + rat" where
  "previous_amount op = accounting_amount (case d_previous_cost op of None \<Rightarrow> JNull | Some q \<Rightarrow> JNum q)"

record replay_state =
  rs_cost :: rat
  rs_destroyed :: bool
  rs_last :: rat
  rs_steps :: "(nat \<times> rat) list"

definition move :: "nat \<Rightarrow> rat option \<Rightarrow> bool option \<Rightarrow> replay_state \<Rightarrow> replay_state" where
  "move inst new_cost new_destroyed s =
    (let cost = (case new_cost of None \<Rightarrow> rs_cost s | Some q \<Rightarrow> q);
         destroyed = (case new_destroyed of None \<Rightarrow> rs_destroyed s | Some b \<Rightarrow> b);
         v = (if destroyed then 0 else cost);
         s1 = s\<lparr>rs_cost := cost, rs_destroyed := destroyed\<rparr>
     in if v \<noteq> rs_last s then s1\<lparr>rs_steps := rs_steps s @ [(inst, v - rs_last s)], rs_last := v\<rparr> else s1)"

definition replay_op :: "doc \<Rightarrow> replay_state \<Rightarrow> err + replay_state" where
  "replay_op op s =
    (let deploy = (d_action op \<noteq> Destroy) in
     sbind (accounting_amount (d_cost op)) (\<lambda>requested.
     sbind (if deploy
            then sbind (previous_amount op) (\<lambda>q. Inr (move (d_created_at op) (Some (max q requested)) None s))
            else Inr s) (\<lambda>s1.
     if d_state op = Some Succeeded then Inr (move (d_updated_at op) (Some requested) (Some (\<not> deploy)) s1)
     else if d_state op = Some Failed \<and> deploy
     then sbind (previous_amount op) (\<lambda>q. Inr (move (d_updated_at op) (Some q) None s1))
     else Inr s1)))"

fun replay_ops :: "doc list \<Rightarrow> replay_state \<Rightarrow> err + replay_state" where
  "replay_ops [] s = Inr s"
| "replay_ops (op # ops) s = sbind (replay_op op s) (replay_ops ops)"

text \<open>\<^verbatim>\<open>replay\<close>: what was held before the first operation, and the changes since.\<close>

definition replay_resource :: "doc list \<Rightarrow> doc \<Rightarrow> nat \<Rightarrow> err + rat \<times> (nat \<times> rat) list" where
  "replay_resource ops rsrc stop =
    (let real = filter (\<lambda>op. d_action op \<noteq> Drift_check) ops in
     sbind (current_amount rsrc) (\<lambda>target.
     case real of
       [] \<Rightarrow> Inr (target, [])
     | first # _ \<Rightarrow>
        sbind (if d_action first = Destroy then accounting_amount (d_cost first) else previous_amount first) (\<lambda>start.
        sbind (replay_ops real \<lparr>rs_cost = start, rs_destroyed = False, rs_last = start, rs_steps = []\<rparr>) (\<lambda>s.
        Inr (start, rs_steps s @ (if rs_last s \<noteq> target then [(stop, target - rs_last s)] else []))))))"

section \<open>The series\<close>

definition day_of :: "nat \<Rightarrow> int" where
  "day_of t = int (t div 86400000000)"

definition MAX_RESOURCES :: nat where
  "MAX_RESOURCES = 5000"

text \<open>Whose resources: the caller's own (without tenancy), or those of an environment of a unit.\<close>

datatype scope = Of_caller string "string option" | Of_unit string string

definition in_scope :: "scope \<Rightarrow> doc \<Rightarrow> bool" where
  "in_scope sc d = (case sc of
      Of_caller who env \<Rightarrow> d_actor d = who \<and>
        (case env of None \<Rightarrow> True | Some e \<Rightarrow> e = [] \<or> p_environment (d_def d) = Some e)
    | Of_unit u e \<Rightarrow> p_business_unit (d_def d) = Some u \<and> p_environment (d_def d) = Some e)"

record cost_mover =
  cm_resource_id :: string
  cm_pattern :: string
  cm_labels :: "(string \<times> string) list"
  cm_delta :: rat
  cm_at :: nat

record cost_totals =
  ct_base :: rat
  ct_deltas :: "rat list"
  ct_patterns :: "(string \<times> rat \<times> rat) list"
  ct_movers :: "cost_mover list"

record cost_history =
  ch_monthly_budget :: "rat option"
  ch_truncated :: bool
  ch_days :: "(int \<times> rat) list"
  ch_by_pattern :: "(string \<times> rat \<times> rat) list"
  ch_movers :: "cost_mover list"

definition pattern_name :: "doc \<Rightarrow> string" where
  "pattern_name r = (if p_pattern (d_def r) = [] then ''unknown'' else p_pattern (d_def r))"

text \<open>The bucket of a step: its day counted from the first, the last one for later steps. \<open>None\<close> is
  before the first day.\<close>

definition bucket :: "int \<Rightarrow> nat \<Rightarrow> nat \<Rightarrow> nat option" where
  "bucket first days inst = (if day_of inst < first then None else Some (min (nat (day_of inst - first)) (days - 1)))"

definition add_at :: "nat \<Rightarrow> rat \<Rightarrow> rat list \<Rightarrow> rat list" where
  "add_at i q xs = xs[i := xs ! i + q]"

definition add_steps :: "int \<Rightarrow> nat \<Rightarrow> (nat \<times> rat) list \<Rightarrow> rat list \<Rightarrow> rat list" where
  "add_steps first days moves deltas =
     fold (\<lambda>(inst, q) xs. case bucket first days inst of None \<Rightarrow> xs | Some i \<Rightarrow> add_at i q xs) moves deltas"

definition early :: "int \<Rightarrow> nat \<Rightarrow> (nat \<times> rat) list \<Rightarrow> (nat \<times> rat) list" where
  "early first days moves = filter (\<lambda>(inst, q). bucket first days inst = None) moves"

definition late :: "int \<Rightarrow> nat \<Rightarrow> (nat \<times> rat) list \<Rightarrow> (nat \<times> rat) list" where
  "late first days moves = filter (\<lambda>(inst, q). bucket first days inst \<noteq> None) moves"

text \<open>One round of the loop over the resources.\<close>

definition add_resource ::
  "int \<Rightarrow> nat \<Rightarrow> nat \<Rightarrow> (string \<Rightarrow> doc list) \<Rightarrow> string \<times> doc \<Rightarrow> cost_totals \<Rightarrow> err + cost_totals" where
  "add_resource first days stop ops = (\<lambda>(rid, r) t.
     sbind (replay_resource (ops rid) r stop) (\<lambda>(start, moves).
     sbind (current_amount r) (\<lambda>now.
     let baseline = start + sum_list (map snd (early first days moves));
         recent = late first days moves;
         net = sum_list (map snd recent);
         entry = (case map_of (ct_patterns t) (pattern_name r) of None \<Rightarrow> (0, 0) | Some e \<Rightarrow> e)
     in Inr (t\<lparr>ct_base := ct_base t + baseline,
          ct_deltas := add_steps first days moves (ct_deltas t),
          ct_patterns := dict_set (pattern_name r) (fst entry + now, snd entry + baseline) (ct_patterns t),
          ct_movers := (if net \<noteq> 0
            then ct_movers t @ [\<lparr>cm_resource_id = rid, cm_pattern = pattern_name r, cm_labels = p_labels (d_def r),
                   cm_delta = net, cm_at = Max (set (map fst recent))\<rparr>]
            else ct_movers t)\<rparr>))))"

fun add_resources ::
  "int \<Rightarrow> nat \<Rightarrow> nat \<Rightarrow> (string \<Rightarrow> doc list) \<Rightarrow> (string \<times> doc) list \<Rightarrow> cost_totals \<Rightarrow> err + cost_totals" where
  "add_resources first days stop ops [] t = Inr t"
| "add_resources first days stop ops (r # rs) t =
     sbind (add_resource first days stop ops r t) (add_resources first days stop ops rs)"

fun running_totals :: "rat \<Rightarrow> rat list \<Rightarrow> rat list" where
  "running_totals q [] = []"
| "running_totals q (x # xs) = (q + x) # running_totals (q + x) xs"

text \<open>The days as accumulated; the code then replaces the last value by the one budget discovery
  computes.\<close>

definition accumulated :: "int \<Rightarrow> rat \<Rightarrow> cost_totals \<Rightarrow> (int \<times> rat) list" where
  "accumulated first legacy t =
     map (\<lambda>(i, q). (first + int i, q + legacy))
       (zip [0..<length (ct_deltas t)] (running_totals (ct_base t) (ct_deltas t)))"

definition by_pattern_of :: "cost_totals \<Rightarrow> rat \<Rightarrow> (string \<times> rat \<times> rat) list" where
  "by_pattern_of t legacy =
     map (\<lambda>(n, now, base). (n, now, now - base)) (sort_key fst (ct_patterns t)) @
     (if legacy \<noteq> 0 then [(''legacy'', legacy, 0)] else [])"

definition biggest_movers :: "cost_mover list \<Rightarrow> cost_mover list" where
  "biggest_movers ms = take 10 (sort_key (\<lambda>m. - \<bar>cm_delta m\<bar>) (sort_key cm_resource_id ms))"

definition scoped_resources :: "scope \<Rightarrow> world \<Rightarrow> (string \<times> doc) list" where
  "scoped_resources sc w = take (MAX_RESOURCES + 1) (sort_key fst (filter (\<lambda>r. in_scope sc (snd r)) (resources w)))"

definition operations_of :: "world \<Rightarrow> string \<Rightarrow> doc list" where
  "operations_of w rid = map r_body (filter (\<lambda>r. r_resource_id r = rid) (operations w))"

definition now_total :: "scope \<Rightarrow> (string \<times> doc) list \<Rightarrow> world \<Rightarrow> err + rat" where
  "now_total sc rs w = (case sc of
      Of_unit u e \<Rightarrow> reserved_tx (Some u) (Some e) None w
    | Of_caller who env \<Rightarrow> sbind (smap (\<lambda>r. current_amount (snd r)) rs) (\<lambda>qs. Inr (sum_list qs)))"

text \<open>\<^verbatim>\<open>build\<close> for at least one day. \<open>stop\<close> is the instant of the request.\<close>

definition build_history :: "ext \<Rightarrow> scope \<Rightarrow> nat \<Rightarrow> rat option \<Rightarrow> nat \<Rightarrow> world \<Rightarrow> err + cost_history" where
  "build_history x sc days budget stop w =
    (if \<not> db_sqlite (cfg w) then Inl (HTTPException 503)
     else
      let first = day_of stop - int (days - 1);
          rows = scoped_resources sc w;
          rs = take MAX_RESOURCES rows
      in sbind (now_total sc rs w) (\<lambda>total.
         sbind (case sc of Of_unit u e \<Rightarrow> legacy_committed x u e | Of_caller who env \<Rightarrow> Inr 0) (\<lambda>legacy.
         sbind (add_resources first days stop (operations_of w) rs
                  \<lparr>ct_base = 0, ct_deltas = replicate days 0, ct_patterns = [], ct_movers = []\<rparr>) (\<lambda>t.
         sbind (accounting_amount (JNum (total + legacy))) (\<lambda>exact.
         Inr \<lparr>ch_monthly_budget = budget, ch_truncated = (MAX_RESOURCES < length rows),
              ch_days = butlast (accumulated first legacy t) @ [(day_of stop, exact)],
              ch_by_pattern = by_pattern_of t legacy, ch_movers = biggest_movers (ct_movers t)\<rparr>)))))"

text \<open>\<^verbatim>\<open>budget_history\<close> of \<^verbatim>\<open>main.py\<close>.\<close>

definition budget_history ::
  "ext \<Rightarrow> caller \<Rightarrow> string option \<Rightarrow> string option \<Rightarrow> nat \<Rightarrow> nat \<Rightarrow> world \<Rightarrow> err + cost_history" where
  "budget_history x c business_unit environment days stop w =
    (if \<not> enabled w then build_history x (Of_caller (caller_id c) environment) days None stop w
     else sbind (select_unit w c business_unit) (\<lambda>u.
       let allowed = filter (\<lambda>(n, e). can_deploy u c e) (u_environments u);
           named = (case environment of
               None \<Rightarrow> (if length allowed = 1 then Some (fst (hd allowed)) else None)
             | Some e \<Rightarrow> Some e)
       in case named of
            None \<Rightarrow> Inl (TenancyError 422)
          | Some n \<Rightarrow>
             if n \<notin> set (map fst (u_environments u)) then Inl (TenancyError 422)
             else (case map_of allowed n of
                     None \<Rightarrow> Inl (TenancyError 403)
                   | Some e \<Rightarrow>
                      sbind (if env_budget_monthly e = JNull then Inr None
                             else sbind (accounting_amount (env_budget_monthly e)) (\<lambda>q. Inr (Some q))) (\<lambda>limit.
                      build_history x (Of_unit (u_name u) n) days limit stop w))))"

end
