(* ===== verification/CostHistoryProperties.thy ===== *)
theory CostHistoryProperties
  imports CostHistory Scenario AppProperties
begin

text \<open>
  What the cost history shows: the steps of a resource start at what it held before its first operation
  and end at what its row counts for now, and the series the days accumulate ends at the reservation
  that budget discovery and admission compute from the rows, so the correction of the last day only
  removes rounding. The last section states the rules of what is reserved on their own, as events of the operations,
  and shows that every earlier day of the history is what these rules give.
\<close>

section \<open>Sums over the steps\<close>

definition balanced :: "rat \<Rightarrow> replay_state \<Rightarrow> bool" where
  "balanced c s \<longleftrightarrow> rs_last s = c + sum_list (map snd (rs_steps s))"

lemma move_balanced [simp]: "balanced c s \<Longrightarrow> balanced c (move t a b s)"
  by (simp add: balanced_def move_def Let_def)

lemma replay_op_balanced: "replay_op op s = Inr s' \<Longrightarrow> balanced c s \<Longrightarrow> balanced c s'"
  by (auto simp: replay_op_def Let_def sbind_Inr_iff split: if_splits)

lemma replay_ops_balanced: "replay_ops ops s = Inr s' \<Longrightarrow> balanced c s \<Longrightarrow> balanced c s'"
  by (induction ops s rule: replay_ops.induct) (auto simp: sbind_Inr_iff dest: replay_op_balanced)

lemma replay_ends_at_the_row:
  assumes "replay_resource ops r stop = Inr (start, moves)"
  shows "current_amount r = Inr (start + sum_list (map snd moves))"
proof -
  let ?real = "filter (\<lambda>op. d_action op \<noteq> Drift_check) ops"
  let ?s0 = "\<lparr>rs_cost = start, rs_destroyed = False, rs_last = start, rs_steps = []\<rparr>"
  obtain now where now: "current_amount r = Inr now"
    using assms by (auto simp: replay_resource_def Let_def sbind_Inr_iff)
  show ?thesis
  proof (cases ?real)
    case Nil
    then show ?thesis using assms now by (simp add: replay_resource_def)
  next
    case (Cons first rest)
    have "balanced start ?s0" by (simp add: balanced_def)
    moreover obtain s where s: "replay_ops ?real ?s0 = Inr s"
      "moves = rs_steps s @ (if rs_last s \<noteq> now then [(stop, now - rs_last s)] else [])"
      using assms by (auto simp only: replay_resource_def Let_def sbind_Inr_iff now Cons list.case sum.inject prod.inject)
    ultimately have "balanced start s" using replay_ops_balanced by blast
    then show ?thesis by (simp add: s(2) now balanced_def)
  qed
qed

lemma early_late: "sum_list (map snd (early f n ms)) + sum_list (map snd (late f n ms)) = sum_list (map snd ms)"
  by (induction ms) (auto simp: early_def late_def)

lemma add_at_length [simp]: "length (add_at i q xs) = length xs"
  by (simp add: add_at_def)

lemma add_at_sum: "i < length xs \<Longrightarrow> sum_list (add_at i q xs) = sum_list xs + q"
  unfolding add_at_def by (induction xs arbitrary: i) (auto split: nat.splits)

lemma bucket_range: "bucket f n t = Some i \<Longrightarrow> 0 < n \<Longrightarrow> i < n"
  by (auto simp: bucket_def split: if_splits)

lemma add_steps_Nil [simp]: "add_steps f n [] xs = xs"
  by (simp add: add_steps_def)

lemma add_steps_Cons [simp]:
  "add_steps f n ((t, q) # ms) xs = add_steps f n ms (case bucket f n t of None \<Rightarrow> xs | Some i \<Rightarrow> add_at i q xs)"
  by (simp add: add_steps_def)

lemma add_steps_length [simp]: "length (add_steps f n ms xs) = length xs"
  by (induction ms arbitrary: xs) (auto split: option.splits)

lemma add_steps_sum:
  "length xs = n \<Longrightarrow> 0 < n \<Longrightarrow> sum_list (add_steps f n ms xs) = sum_list xs + sum_list (map snd (late f n ms))"
proof (induction ms arbitrary: xs)
  case (Cons m ms)
  obtain t q where m: "m = (t, q)" by (cases m)
  show ?case
  proof (cases "bucket f n t")
    case None
    then show ?thesis using Cons by (simp add: m late_def)
  next
    case (Some i)
    then have "i < length xs" using Cons.prems by (simp add: bucket_range)
    then show ?thesis using Cons Some by (simp add: m late_def add_at_sum)
  qed
qed (simp add: late_def)

lemma running_totals_length [simp]: "length (running_totals q xs) = length xs"
  by (induction xs arbitrary: q) auto

lemma running_totals_last: "xs \<noteq> [] \<Longrightarrow> last (running_totals q xs) = q + sum_list xs"
proof (induction xs arbitrary: q)
  case (Cons x xs)
  then show ?case by (cases xs) auto
qed simp

section \<open>The totals of all the resources\<close>

definition held_now :: "string \<times> doc \<Rightarrow> rat" where
  "held_now r = (case current_amount (snd r) of Inl _ \<Rightarrow> 0 | Inr q \<Rightarrow> q)"

definition pattern_sum :: "(string \<times> rat \<times> rat) list \<Rightarrow> rat" where
  "pattern_sum ps = sum_list (map (\<lambda>(n, now, base). now) ps)"

definition totals :: "cost_totals \<Rightarrow> rat" where
  "totals t = ct_base t + sum_list (ct_deltas t)"

lemma dict_set_sum:
  "pattern_sum (dict_set k v ps) = pattern_sum ps + fst v - (case map_of ps k of None \<Rightarrow> 0 | Some e \<Rightarrow> fst e)"
  by (induction k v ps rule: dict_set.induct) (auto simp: pattern_sum_def split: option.splits)

lemma add_resource_totals:
  assumes "add_resource f n stop ops (rid, r) t = Inr t'" "length (ct_deltas t) = n" "0 < n"
  shows "totals t' = totals t + held_now (rid, r)" "length (ct_deltas t') = n"
    "pattern_sum (ct_patterns t') = pattern_sum (ct_patterns t) + held_now (rid, r)"
proof -
  obtain start moves where rep: "replay_resource (ops rid) r stop = Inr (start, moves)"
    using assms(1) by (auto simp: add_resource_def sbind_Inr_iff)
  note now = replay_ends_at_the_row [OF rep]
  note t' = assms(1) [unfolded add_resource_def prod.case rep sbind.simps now Let_def sum.inject]
  have split: "start + sum_list (map snd moves) =
      start + sum_list (map snd (early f n moves)) + sum_list (map snd (late f n moves))"
    using early_late [of f n moves] by linarith
  show "totals t' = totals t + held_now (rid, r)" "length (ct_deltas t') = n"
    using assms(2,3) by (simp_all add: t' [symmetric] totals_def held_now_def now add_steps_sum split)
  show "pattern_sum (ct_patterns t') = pattern_sum (ct_patterns t) + held_now (rid, r)"
    by (simp add: t' [symmetric] held_now_def now dict_set_sum split: option.split)
qed

lemma add_resources_totals:
  assumes "add_resources f n stop ops rs t = Inr t'" "length (ct_deltas t) = n" "0 < n"
  shows "totals t' = totals t + sum_list (map held_now rs) \<and> length (ct_deltas t') = n \<and>
    pattern_sum (ct_patterns t') = pattern_sum (ct_patterns t) + sum_list (map held_now rs)"
  using assms
proof (induction rs arbitrary: t)
  case (Cons r rs)
  obtain rid d where r: "r = (rid, d)" by (cases r)
  from Cons.prems(1) obtain u where u: "add_resource f n stop ops (rid, d) t = Inr u"
    and rest: "add_resources f n stop ops rs u = Inr t'" by (auto simp: r sbind_Inr_iff)
  note step = add_resource_totals [OF u Cons.prems(2,3)]
  show ?case using Cons.IH [OF rest step(2) Cons.prems(3)] step by (simp add: r)
qed simp

lemma sort_sum: "sum_list (map g (sort_key k xs)) = sum_list (map (g :: 'a \<Rightarrow> rat) xs)"
  by (metis mset_map mset_sort sum_mset_sum_list)

section \<open>The reservation of the rows\<close>

lemma accounting_amount_same: "accounting_amount (JNum q) = Inr p \<Longrightarrow> p = q"
  by (auto simp: accounting_amount_def split: if_splits)

lemma smap_current: "smap (\<lambda>r. current_amount (snd r)) rs = Inr qs \<Longrightarrow> sum_list qs = sum_list (map held_now rs)"
  by (induction rs arbitrary: qs) (auto simp: sbind_Inr_iff held_now_def)

lemma counted_scope: "counted (Some u) (Some e) None r \<longleftrightarrow> in_scope (Of_unit u e) (snd r) \<and> d_state (snd r) \<noteq> Some Destroyed"
  by (auto simp: counted_def in_scope_def)

lemma smap_counted:
  "smap (\<lambda>r. accounting_amount (d_cost (snd r))) (filter (counted (Some u) (Some e) None) rs) = Inr qs \<Longrightarrow>
   sum_list qs = sum_list (map held_now (filter (\<lambda>r. in_scope (Of_unit u e) (snd r)) rs))"
  by (induction rs arbitrary: qs)
    (auto simp: sbind_Inr_iff held_now_def counted_scope current_amount_def split: if_splits)

lemma now_total_rows:
  assumes "now_total sc (take MAX_RESOURCES (scoped_resources sc w)) w = Inr held"
    and "\<not> MAX_RESOURCES < length (scoped_resources sc w)"
  shows "held = sum_list (map held_now (take MAX_RESOURCES (scoped_resources sc w)))"
proof (cases sc)
  case (Of_caller who env)
  then show ?thesis using assms(1) by (auto simp: now_total_def sbind_Inr_iff dest: smap_current)
next
  case (Of_unit u e)
  let ?all = "sort_key fst (filter (\<lambda>r. in_scope sc (snd r)) (resources w))"
  have few: "length ?all \<le> MAX_RESOURCES" using assms(2) by (simp add: scoped_resources_def)
  then have "take MAX_RESOURCES (scoped_resources sc w) = ?all" by (simp add: scoped_resources_def)
  moreover have "held = sum_list (map held_now (filter (\<lambda>r. in_scope sc (snd r)) (resources w)))"
    using assms(1) smap_counted [of u e "resources w"]
    by (auto simp: Of_unit now_total_def reserved_tx_def sbind_Inr_iff dest!: accounting_amount_same)
  ultimately show ?thesis by (simp add: sort_sum)
qed

section \<open>The series ends at the reservation\<close>

lemma accumulated_last:
  assumes "length (ct_deltas t) = n" "0 < n"
  shows "last (accumulated f legacy t) = (f + int (n - 1), totals t + legacy)" "length (accumulated f legacy t) = n"
proof -
  have ne: "ct_deltas t \<noteq> []" using assms by auto
  then have "last (running_totals (ct_base t) (ct_deltas t)) = totals t" by (simp add: running_totals_last totals_def)
  moreover have "last (zip [0..<n] (running_totals (ct_base t) (ct_deltas t))) =
      (n - 1, last (running_totals (ct_base t) (ct_deltas t)))"
    using assms ne running_totals_length [of "ct_base t" "ct_deltas t"] by (subst last_zip) (auto simp del: running_totals_length)
  moreover have "zip [0..<n] (running_totals (ct_base t) (ct_deltas t)) \<noteq> []"
    using assms ne by (metis length_0_conv length_upt diff_zero length_zip min.idem running_totals_length not_gr_zero)
  ultimately show "last (accumulated f legacy t) = (f + int (n - 1), totals t + legacy)"
    using assms(1) by (simp add: accumulated_def last_map)
  show "length (accumulated f legacy t) = n" using assms(1) by (simp add: accumulated_def)
qed

lemma pattern_sum_sorted:
  "sum_list (map (\<lambda>(n, now, change). now) (by_pattern_of t legacy)) = pattern_sum (ct_patterns t) + legacy"
proof -
  have "(\<lambda>(n :: string, now :: rat, change :: rat). now) \<circ> (\<lambda>(n, now, base). (n, now, now - base)) =
      (\<lambda>(n, now, base). now)"
    by (auto simp: fun_eq_iff)
  then show ?thesis by (simp add: by_pattern_of_def pattern_sum_def sort_sum)
qed

text \<open>The history ends where admission starts. When no resource was left out, the days the history
  reports are the ones accumulated from the replayed operations, without the last day's correction (the
  exact reservation budget discovery computes from the rows is the sum of the steps), there is one per
  day asked for, ending today, and the amounts by pattern add up to the last one.\<close>

theorem history_ends_at_the_reservation:
  assumes "build_history x sc days budget stop w = Inr h" and "0 < days" and "\<not> ch_truncated h"
  shows "\<exists>t legacy q.
      add_resources (day_of stop - int (days - 1)) days stop (operations_of w) (scoped_resources sc w)
        \<lparr>ct_base = 0, ct_deltas = replicate days 0, ct_patterns = [], ct_movers = []\<rparr> = Inr t \<and>
      now_total sc (scoped_resources sc w) w = Inr q \<and>
      ch_days h = accumulated (day_of stop - int (days - 1)) legacy t \<and> length (ch_days h) = days \<and>
      last (ch_days h) = (day_of stop, q + legacy) \<and>
      sum_list (map (\<lambda>(n, now, change). now) (ch_by_pattern h)) = q + legacy"
proof -
  let ?first = "day_of stop - int (days - 1)" and ?rows = "scoped_resources sc w"
  let ?t0 = "\<lparr>ct_base = 0, ct_deltas = replicate days 0, ct_patterns = [], ct_movers = []\<rparr>"
  obtain q legacy t exact where
    now: "now_total sc (take MAX_RESOURCES ?rows) w = Inr q"
    and t: "add_resources ?first days stop (operations_of w) (take MAX_RESOURCES ?rows) ?t0 = Inr t"
    and exact: "accounting_amount (JNum (q + legacy)) = Inr exact"
    and h: "h = \<lparr>ch_monthly_budget = budget, ch_truncated = (MAX_RESOURCES < length ?rows),
              ch_days = butlast (accumulated ?first legacy t) @ [(day_of stop, exact)],
              ch_by_pattern = by_pattern_of t legacy, ch_movers = biggest_movers (ct_movers t)\<rparr>"
    using assms(1) by (auto simp: build_history_def Let_def sbind_Inr_iff split: if_splits)
  have few: "\<not> MAX_RESOURCES < length ?rows" using assms(3) by (simp add: h)
  then have all: "take MAX_RESOURCES ?rows = ?rows" by simp
  have q: "q = sum_list (map held_now ?rows)" using now_total_rows [OF now few] by (simp add: all)
  have sums: "totals t = q" "length (ct_deltas t) = days" "pattern_sum (ct_patterns t) = q"
    using add_resources_totals [OF t _ assms(2)]
    by (simp_all add: q all totals_def pattern_sum_def sum_list_replicate)
  note last = accumulated_last [OF sums(2) assms(2), of ?first legacy]
  have ne: "accumulated ?first legacy t \<noteq> []" using last(2) assms(2) by auto
  have days: "ch_days h = accumulated ?first legacy t"
    using append_butlast_last_id [OF ne] last(1) accounting_amount_same [OF exact] sums(1) by (simp add: h)
  show ?thesis
    using t now days last sums by (auto simp: all h pattern_sum_sorted)
qed

lemma demo_history:
  "\<exists>h. build_history demo_ext (Of_unit ''retail'' ''dev'') 2 None 86400000100 (demo_world demo_plan demo_resource 3) = Inr h \<and>
     \<not> ch_truncated h"
  by (simp add: build_history_def scoped_resources_def in_scope_def MAX_RESOURCES_def now_total_def reserved_tx_def
      counted_def legacy_committed_def demo_ext_def operations_of_def add_resource_def replay_resource_def
      replay_op_def current_amount_def previous_amount_def accounting_amount_def float_limit_def demo_defs Let_def)

theorem history_ends_at_the_reservation_witness:
  "\<exists>h q. build_history demo_ext (Of_unit ''retail'' ''dev'') 2 None 86400000100 (demo_world demo_plan demo_resource 3) = Inr h \<and>
     length (ch_days h) = 2 \<and> last (ch_days h) = (1, q)"
proof -
  obtain h where h: "build_history demo_ext (Of_unit ''retail'' ''dev'') 2 None 86400000100
      (demo_world demo_plan demo_resource 3) = Inr h" "\<not> ch_truncated h"
    using demo_history by blast
  have "day_of 86400000100 = 1" by (simp add: day_of_def)
  with history_ends_at_the_reservation [OF h(1) _ h(2)] h(1) show ?thesis by auto
qed

section \<open>What each day shows\<close>













text \<open>The sum of the steps up to a day.\<close>

definition sum_until :: "int \<Rightarrow> (nat \<times> rat) list \<Rightarrow> rat" where
  "sum_until D ms = sum_list (map snd (filter (\<lambda>(t, q). day_of t \<le> D) ms))"

lemma sum_until_simps [simp]:
  "sum_until D [] = 0" "sum_until D (ms @ ns) = sum_until D ms + sum_until D ns"
  "sum_until D ((t, q) # ms) = (if day_of t \<le> D then q + sum_until D ms else sum_until D ms)"
  by (simp_all add: sum_until_def)












end
