(* ===== verification/Workflows.thy ===== *)
theory Workflows
  imports AppActivities Requests Worker
begin

text \<open>
  The workflows of \<^verbatim>\<open>app/operation_workflow.py\<close> and the identifiers of \<^verbatim>\<open>app/dispatch.py\<close>: the two
  polling loops of an app (rollout and teardown), the drift sweep and the phase of one operation.
  The workflow service is not part of the repository. It is the record \<open>temporal\<close>, an argument of every
  workflow: a state \<open>'s\<close> and, for each call the code awaits, a function from the state to the answer
  and the new state, where \<open>None\<close> is an \<^verbatim>\<open>ActivityError\<close> (the activity failed after its retries).
\<close>

section \<open>Identifiers\<close>

definition workflow_id :: "string \<Rightarrow> string \<Rightarrow> string" where
  "workflow_id operation_id phase = ''forgeapi-'' @ operation_id @ ''-'' @ phase"

definition app_workflow_id :: "string \<Rightarrow> string" where
  "app_workflow_id app_id = ''forgeapi-'' @ app_id @ ''-rollout''"

definition app_teardown_workflow_id :: "string \<Rightarrow> string" where
  "app_teardown_workflow_id app_id = ''forgeapi-'' @ app_id @ ''-teardown''"

definition DRIFT_SWEEP_WORKFLOW_ID :: string where
  "DRIFT_SWEEP_WORKFLOW_ID = ''forgeapi-drift-sweep''"

section \<open>The service\<close>

text \<open>\<open>t_start\<close> takes the workflow's identifier and its operation; a workflow that was started before
  is left as it is (\<^verbatim>\<open>WorkflowAlreadyStartedError\<close> is suppressed).\<close>

record 's temporal =
  t_check_app :: "string \<Rightarrow> 's \<Rightarrow> rollout_check option \<times> 's"
  t_accept_router :: "string \<Rightarrow> 's \<Rightarrow> router_answer option \<times> 's"
  t_fail_app :: "string \<Rightarrow> string \<Rightarrow> 's \<Rightarrow> unit option \<times> 's"
  t_check_teardown :: "string \<Rightarrow> 's \<Rightarrow> teardown_check option \<times> 's"
  t_accept_destroys :: "string \<Rightarrow> 's \<Rightarrow> destroy_answer option \<times> 's"
  t_fail_teardown :: "string \<Rightarrow> string \<Rightarrow> 's \<Rightarrow> unit option \<times> 's"
  t_queued :: "string \<Rightarrow> 's \<Rightarrow> string list option \<times> 's"
  t_sweep :: "'s \<Rightarrow> sweep_answer option \<times> 's"
  t_start :: "string \<Rightarrow> string \<Rightarrow> 's \<Rightarrow> 's"
  t_sleep :: "nat \<Rightarrow> 's \<Rightarrow> 's"
  t_patched :: "string \<Rightarrow> 's \<Rightarrow> bool"
  t_new_suggested :: "'s \<Rightarrow> bool"

definition start_plans :: "'s temporal \<Rightarrow> string list \<Rightarrow> 's \<Rightarrow> 's" where
  "start_plans T ids s = fold (\<lambda>i. t_start T (workflow_id i ''plan'') i) ids s"

definition start_queued_plans :: "'s temporal \<Rightarrow> string \<Rightarrow> 's \<Rightarrow> 's" where
  "start_queued_plans T app_id s =
    (if \<not> t_patched T ''app-plan-queued'' s then s
     else (case t_queued T app_id s of (None, s1) \<Rightarrow> s1 | (Some queued, s1) \<Rightarrow> start_plans T queued s1))"

text \<open>\<^verbatim>\<open>queued_app_operations\<close>, the activity behind \<open>t_queued\<close>.\<close>

definition queued_app_operations :: "app \<Rightarrow> ops \<Rightarrow> err + string list" where
  "queued_app_operations a ops = queued_ids a ops"

definition fail_quietly :: "('s \<Rightarrow> unit option \<times> 's) \<Rightarrow> 's \<Rightarrow> bool \<times> 's" where
  "fail_quietly activity s = (case activity s of (None, s1) \<Rightarrow> (False, s1) | (Some _, s1) \<Rightarrow> (True, s1))"

section \<open>Polling\<close>

definition POLL_SECONDS :: nat where
  "POLL_SECONDS = 5"

definition SLOW_POLL_SECONDS :: nat where
  "SLOW_POLL_SECONDS = 30"

definition SLOW_AFTER_SECONDS :: nat where
  "SLOW_AFTER_SECONDS = 3600"

definition MAX_WAIT_SECONDS :: nat where
  "MAX_WAIT_SECONDS = 7 * 24 * 3600"

text \<open>How a round of the loop ends: it returns, goes on with the seconds waited so far, or continues as a
  new run with them.\<close>

datatype 'r round_end = Returned 'r | Again nat | As_new nat

definition pause :: "nat \<Rightarrow> nat" where
  "pause waited = (if waited < SLOW_AFTER_SECONDS then POLL_SECONDS else SLOW_POLL_SECONDS)"

definition wait_round :: "'s temporal \<Rightarrow> nat \<Rightarrow> 's \<Rightarrow> 'r round_end \<times> 's" where
  "wait_round T waited s =
    (let s1 = t_sleep T (pause waited) s; waited1 = waited + pause waited
     in (if t_new_suggested T s1 then As_new waited1 else Again waited1, s1))"

text \<open>The end of a round, shared by both loops: the deadline, then the pause.\<close>

definition deadline_or_wait ::
  "'s temporal \<Rightarrow> ('s \<Rightarrow> unit option \<times> 's) \<Rightarrow> app_state \<Rightarrow> nat \<Rightarrow> 's \<Rightarrow> app_state round_end \<times> 's" where
  "deadline_or_wait T activity result waited s =
    (if MAX_WAIT_SECONDS \<le> waited
     then (case fail_quietly activity s of
             (True, s1) \<Rightarrow> (Returned result, s1)
           | (False, s1) \<Rightarrow> wait_round T waited s1)
     else wait_round T waited s)"

definition planning_state :: "app_state \<Rightarrow> bool" where
  "planning_state s \<longleftrightarrow>
     s \<in> {Planning_replicas, Planning_router, Planning_router_destroy, Planning_replica_destroy}"

section \<open>The rollout\<close>

definition msg_router_refused :: string where
  "msg_router_refused = ''router could not be accepted; submit a new app''"

definition msg_rollout_timeout :: string where
  "msg_rollout_timeout = ''rollout timed out waiting for the members to finish''"

definition rollout_rest :: "'s temporal \<Rightarrow> string \<Rightarrow> nat \<Rightarrow> rollout_check option \<Rightarrow> 's \<Rightarrow> app_state round_end \<times> 's" where
  "rollout_rest T app_id waited state s =
    (if state = Some Rollout_ready \<or> state = Some (Rollout_state A_ready) then (Returned A_ready, s)
     else if state = Some (Rollout_state A_failed) then (Returned A_failed, s)
     else if state = Some Superseded then (Returned A_ready, s)
     else
       let s1 = (case state of
                   Some (Rollout_state st) \<Rightarrow> if planning_state st then start_queued_plans T app_id s else s
                 | _ \<Rightarrow> s)
       in deadline_or_wait T (t_fail_app T app_id msg_rollout_timeout) A_failed waited s1)"

definition rollout_round :: "'s temporal \<Rightarrow> string \<Rightarrow> nat \<Rightarrow> 's \<Rightarrow> app_state round_end \<times> 's" where
  "rollout_round T app_id waited s =
    (case t_check_app T app_id s of (state, s1) \<Rightarrow>
       if state = Some Router_needed
       then (case t_accept_router T app_id s1 of
               (None, s2) \<Rightarrow>
                 (case fail_quietly (t_fail_app T app_id msg_router_refused) s2 of
                    (True, s3) \<Rightarrow> (Returned A_failed, s3)
                  | (False, s3) \<Rightarrow> rollout_rest T app_id waited state s3)
             | (Some Retry_router, s2) \<Rightarrow> rollout_rest T app_id waited state s2
             | (Some No_router, s2) \<Rightarrow> (Again waited, start_plans T [] s2)
             | (Some (Accepted_router i), s2) \<Rightarrow> (Again waited, start_plans T [i] s2))
       else rollout_rest T app_id waited state s1)"

section \<open>The teardown\<close>

definition msg_destroys_refused :: string where
  "msg_destroys_refused = ''replica destroys could not be accepted; start a new teardown''"

definition msg_teardown_timeout :: string where
  "msg_teardown_timeout = ''teardown timed out waiting for the destroys to finish''"

definition teardown_rest :: "'s temporal \<Rightarrow> string \<Rightarrow> nat \<Rightarrow> teardown_check option \<Rightarrow> 's \<Rightarrow> app_state round_end \<times> 's" where
  "teardown_rest T app_id waited state s =
    (if state = Some (Teardown_state A_destroyed) then (Returned A_destroyed, s)
     else if state = Some (Teardown_state A_failed) then (Returned A_failed, s)
     else if state = Some (Teardown_state A_uncertain) \<and> \<not> t_patched T ''teardown-poll-uncertain'' s
     then (Returned A_uncertain, s)
     else
       let s1 = (case state of
                   Some (Teardown_state st) \<Rightarrow> if planning_state st then start_queued_plans T app_id s else s
                 | _ \<Rightarrow> s)
       in deadline_or_wait T (t_fail_teardown T app_id msg_teardown_timeout) A_failed waited s1)"

definition teardown_round :: "'s temporal \<Rightarrow> string \<Rightarrow> nat \<Rightarrow> 's \<Rightarrow> app_state round_end \<times> 's" where
  "teardown_round T app_id waited s =
    (case t_check_teardown T app_id s of (state, s1) \<Rightarrow>
       if state = Some Replicas_needed
       then (case t_accept_destroys T app_id s1 of
               (None, s2) \<Rightarrow>
                 (case fail_quietly (t_fail_teardown T app_id msg_destroys_refused) s2 of
                    (True, s3) \<Rightarrow> (Returned A_failed, s3)
                  | (False, s3) \<Rightarrow> teardown_rest T app_id waited state s3)
             | (Some a, s2) \<Rightarrow>
                 if da_retry a then teardown_rest T app_id waited state s2
                 else (Again waited, start_plans T (da_operations a) s2))
       else teardown_rest T app_id waited state s1)"

section \<open>The loops\<close>

text \<open>\<^verbatim>\<open>while True\<close>, with the seconds waited: a new run starts over with them. \<open>None\<close> is a loop that never
  returns.\<close>

partial_function (option) poll ::
  "(nat \<Rightarrow> 's \<Rightarrow> 'r round_end \<times> 's) \<Rightarrow> nat \<Rightarrow> 's \<Rightarrow> ('r \<times> nat \<times> 's) option" where
  "poll step waited s =
    (case step waited s of (e, s1) \<Rightarrow>
      (case e of
         Returned r \<Rightarrow> Some (r, waited, s1)
       | Again w \<Rightarrow> poll step w s1
       | As_new w \<Rightarrow> poll step w s1))"

definition app_rollout_workflow :: "'s temporal \<Rightarrow> string \<Rightarrow> 's \<Rightarrow> (app_state \<times> nat \<times> 's) option" where
  "app_rollout_workflow T app_id = poll (rollout_round T app_id) 0"

definition app_teardown_workflow :: "'s temporal \<Rightarrow> string \<Rightarrow> 's \<Rightarrow> (app_state \<times> nat \<times> 's) option" where
  "app_teardown_workflow T app_id = poll (teardown_round T app_id) 0"

section \<open>The drift sweep\<close>

definition DRIFT_CYCLES_PER_RUN :: nat where
  "DRIFT_CYCLES_PER_RUN = 100"

datatype sweep_end = Disabled | Sweep_raised

text \<open>One cycle; \<^verbatim>\<open>waited\<close> is the number of cycles of this run. The sweep's own failure is not caught.\<close>

definition sweep_round :: "'s temporal \<Rightarrow> nat \<Rightarrow> 's \<Rightarrow> sweep_end round_end \<times> 's" where
  "sweep_round T cycles s =
    (case t_sweep T s of
       (None, s1) \<Rightarrow> (Returned Sweep_raised, s1)
     | (Some a, s1) \<Rightarrow>
        if \<not> sw_enabled a then (Returned Disabled, s1)
        else
          let s2 = t_sleep T (sw_sleep a) (start_plans T (sw_operations a) s1) in
          (if DRIFT_CYCLES_PER_RUN \<le> cycles + 1 \<or> t_new_suggested T s2 then As_new 0 else Again (cycles + 1), s2))"

definition drift_sweep_workflow :: "'s temporal \<Rightarrow> 's \<Rightarrow> (sweep_end \<times> nat \<times> 's) option" where
  "drift_sweep_workflow T = poll (sweep_round T) 0"

section \<open>One phase of one operation\<close>

definition phase_named :: "string \<Rightarrow> phase option" where
  "phase_named s = (if s = ''plan'' then Some Plan_phase else if s = ''apply'' then Some Apply_phase else None)"

text \<open>\<open>attempt\<close> is the single attempt of \<^verbatim>\<open>run_operation_phase\<close>; \<^verbatim>\<open>None\<close> again an \<^verbatim>\<open>ActivityError\<close>. The status
  write after it is retried until it goes through.\<close>

definition operation_phase_workflow ::
  "(phase \<Rightarrow> host \<Rightarrow> bool option \<times> host) \<Rightarrow> string \<Rightarrow> string \<Rightarrow> nat \<Rightarrow> unit wm" where
  "operation_phase_workflow attempt operation_id phase t h =
    (case phase_named phase of
       None \<Rightarrow> (Inl (OtherError ''unknown operation phase''), h)
     | Some p \<Rightarrow>
        (case attempt p h of
           (Some _, h1) \<Rightarrow> (Inr (), h1)
         | (None, h1) \<Rightarrow> mark_operation_uncertain operation_id p t h1))"

end
