(* ===== verification/AppRuns.thy ===== *)
theory AppRuns
  imports AppProperties
begin

text \<open>
  How app rows move in a run of the ledger: a row keeps its identifier and never forgets that it has a
  router, a recorded failure, a teardown or a first router, and new rows take fresh identifiers. From it: once
  \<^verbatim>\<open>accept_app_router\<close> has answered anything but a retry, \<^verbatim>\<open>check_app\<close> never asks for the router again.
\<close>

section \<open>Changes of the app table\<close>

definition app_moves :: "app \<Rightarrow> app \<Rightarrow> bool" where
  "app_moves a a' \<longleftrightarrow> ap_id a' = ap_id a \<and> (ap_teardown a \<noteq> None \<longrightarrow> ap_teardown a' \<noteq> None) \<and>
     (ap_router_operation_id a \<noteq> None \<longrightarrow> ap_router_operation_id a' \<noteq> None) \<and>
     (set_text (ap_error a) \<longrightarrow> set_text (ap_error a')) \<and>
     (\<forall>i is. ap_router_operations a = i # is \<longrightarrow> (\<exists>js. ap_router_operations a' = i # js))"

lemma app_moves_refl [simp]: "app_moves a a"
  by (simp add: app_moves_def)

lemma app_moves_trans: "app_moves a b \<Longrightarrow> app_moves b c \<Longrightarrow> app_moves a c"
  unfolding app_moves_def by metis

inductive app_change :: "world \<Rightarrow> world \<Rightarrow> bool" where
  no_change: "apps w' = apps w \<Longrightarrow> app_change w w'"
| row_change: "app_find i w = Some a \<Longrightarrow> app_moves a a' \<Longrightarrow> apps w' = apps (save_app a' w) \<Longrightarrow> app_change w w'"
| new_row: "row_find a_id (a_id r) (apps w) = None \<Longrightarrow> ap_id (a_body r) = a_id r \<Longrightarrow> apps w' = apps w @ [r] \<Longrightarrow>
    app_change w w'"

lemma change_apps: "app_change w w1 \<Longrightarrow> apps w' = apps w1 \<Longrightarrow> app_change w w'"
  by (erule app_change.cases) (auto intro: app_change.intros)

lemma change_connect: "app_change w (snd (f w)) \<Longrightarrow> app_change w (snd (connect f w))"
  by (auto simp: connect_def rollback_def split: prod.splits sum.splits intro: no_change)

lemma change_after: "connect f w = (x, w1) \<Longrightarrow> app_change w (snd (f w)) \<Longrightarrow> apps w' = apps w1 \<Longrightarrow> app_change w w'"
  using change_connect [of w f] change_apps [of w w1 w'] by simp

lemma apps_save_cong: "apps w' = apps w \<Longrightarrow> apps (save_app a w') = apps (save_app a w)"
  by (simp add: save_app_def)

lemma apps_accept_pair: "accept_tx who key i res b gs t fresh w = (x, w') \<Longrightarrow> apps w' = apps w"
  using apps_accept_tx [of who key i res b gs t fresh w] by simp

lemma apps_unlink_blockers [simp]: "apps (unlink_blockers bs w) = apps w"
  by (induction bs arbitrary: w) (auto simp: unlink_blockers_def frame_simps)

section \<open>The app transactions\<close>

lemma change_accept_app: "app_change w (snd (accept_app who key m rs base t i fr w))"
proof -
  obtain x w1 where c: "connect (accept_app_tx who key m rs base t i fr) w = (x, w1)" by fastforce
  obtain y w2 where items: "accept_items who (replica_items i rs fr) t w = (y, w2)" by fastforce
  note same = apps_accept_items [OF items]
  have "app_change w w3" if "insert_app r (event (Some i) who Ev_app_create Accepted t w2) = (Inr q, w3)"
    "ap_id (a_body r) = a_id r" for r q w3
    using that same by (intro new_row [of r]) (auto simp: insert_app_def event_def row_find_None_iff list_ex_iff split: if_splits)
  moreover have "app_change w w3" if "insert_app r (event (Some i) who Ev_app_create Accepted t w2) = (Inl e, w3)" for r e w3
    using that same by (intro no_change) (auto simp: insert_app_def event_def split: if_splits)
  ultimately have "app_change w (snd (accept_app_tx who key m rs base t i fr w))"
    using same by (auto simp: accept_app_tx_def items Let_def new_app_def intro: no_change split: sum.splits option.splits prod.splits)
  from change_after [OF c this] c show ?thesis by (auto simp: accept_app_def split: sum.splits prod.splits)
qed

lemma change_accept_router: "app_change w (snd (accept_router i intent res b t fresh w))"
proof -
  obtain x w1 where c: "connect (accept_router_tx i intent res b t fresh) w = (x, w1)" by fastforce
  have "app_change w (snd (accept_router_tx i intent res b t fresh w))"
  proof (cases "app_find i w")
    case (Some a)
    obtain y w2 where acc: "accept_tx (ap_actor a) (system_key [i, ''router'']) intent res b None t fresh w = (y, w2)" by fastforce
    note same = apps_accept_pair [OF acc]
    have "app_change w (save_app (stamp_app t (a\<lparr>ap_router_operation_id := Some o', ap_router_resource_id := rr\<rparr>)) w2)" for o' rr
      by (rule row_change [OF Some _ apps_save_cong [OF same]]) (simp add: app_moves_def stamp_app_def)
    then show ?thesis using same
      by (auto simp: accept_router_tx_def Some acc Let_def intro: no_change split: sum.splits prod.splits)
  qed (simp add: accept_router_tx_def no_change)
  from change_after [OF c this] c show ?thesis by (auto simp: accept_router_def split: sum.splits prod.splits)
qed

lemma change_accept_failover: "app_change w (snd (accept_failover who i key m router p u t fresh w))"
proof -
  obtain x w1 where c: "connect (accept_failover_tx who i key m router p u t fresh) w = (x, w1)" by fastforce
  have "app_change w (snd (accept_failover_tx who i key m router p u t fresh w))"
  proof (cases "app_find i w")
    case (Some a)
    have "app_change w (snd (link_failover who i key m router p a h t fresh w))" if h: "router_history a = Inr h" for h
    proof -
      obtain y w2 where acc: "accept_tx who (system_key [i, ''router'', nat_str (length h)]) (fst router)
          (fst (snd router)) (snd (snd router)) None t fresh w = (y, w2)" by fastforce
      note same = apps_accept_pair [OF acc]
      have "app_moves a (with_failover a h o' p k mm t)" for o' k mm
        using h by (auto simp: app_moves_def with_failover_def stamp_app_def router_history_def split: if_splits)
      then have "app_change w (save_app (with_failover a h o' p k mm t) (event z1 z2 z3 z4 t w2))" for o' k mm z1 z2 z3 z4
        by (intro row_change [OF Some _ apps_save_cong]) (simp_all add: same event_def)
      then show ?thesis using same
        by (auto simp: link_failover_def acc Let_def intro: no_change split: sum.splits prod.splits)
    qed
    then show ?thesis
      by (auto simp: accept_failover_tx_def app_for_update_def Some intro: no_change split: option.splits sum.splits)
  qed (simp add: accept_failover_tx_def no_change)
  from change_after [OF c this] c show ?thesis by (auto simp: accept_failover_def split: sum.splits prod.splits)
qed

lemma change_accept_teardown: "app_change w (snd (accept_teardown cl i key m router u t fresh w))"
proof -
  obtain x w1 where c: "connect (accept_teardown_tx cl i key m router u t fresh) w = (x, w1)" by fastforce
  have "app_change w (snd (accept_teardown_tx cl i key m router u t fresh w))"
  proof (cases "app_find i w")
    case (Some a)
    obtain y w2 where rt: "teardown_router cl i (Suc (ap_teardowns a)) router t fresh w = (y, w2)" by fastforce
    have same: "apps w2 = apps w"
      using rt by (auto simp: teardown_router_def dest: apps_accept_pair split: option.splits prod.splits sum.splits)
    have "app_moves a (with_teardown a cl key m rid t)" for rid
      by (simp add: app_moves_def with_teardown_def stamp_app_def Let_def)
    then have "app_change w (save_app (with_teardown a cl key m rid t) (event z1 z2 z3 z4 t w2))" for rid z1 z2 z3 z4
      by (intro row_change [OF Some _ apps_save_cong]) (simp_all add: same event_def)
    then have "app_change w (snd (link_teardown cl i key m router a t fresh w))" using same
      by (auto simp: link_teardown_def rt Let_def intro: no_change split: sum.splits prod.splits)
    then show ?thesis
      by (auto simp: accept_teardown_tx_def app_for_update_def Some intro: no_change split: option.splits sum.splits)
  qed (simp add: accept_teardown_tx_def no_change)
  from change_after [OF c this] c show ?thesis by (auto simp: accept_teardown_def split: sum.splits prod.splits)
qed

lemma change_accept_teardown_replicas: "app_change w (snd (accept_teardown_replicas i its t fr w))"
proof -
  obtain x w1 where c: "connect (accept_teardown_replicas_tx i its t fr) w = (x, w1)" by fastforce
  have "app_change w (snd (accept_teardown_replicas_tx i its t fr w))"
  proof (cases "\<exists>a td. app_find i w = Some a \<and> ap_teardown a = Some td")
    case True
    then obtain a td where a: "app_find i w = Some a" "ap_teardown a = Some td" by blast
    obtain y w2 where items: "accept_items (td_actor td) (teardown_items i (ap_teardowns a) its fr) t w = (y, w2)" by fastforce
    note same = apps_accept_items [OF items]
    have "app_change w (save_app (stamp_app t (a\<lparr>ap_teardown := Some td'\<rparr>)) w2)" for td'
      by (rule row_change [OF a(1) _ apps_save_cong [OF same]]) (simp add: app_moves_def stamp_app_def)
    then show ?thesis using same
      by (auto simp: accept_teardown_replicas_tx_def a items Let_def intro: no_change split: sum.splits prod.splits)
  qed (auto simp: accept_teardown_replicas_tx_def intro: no_change split: option.splits)
  from change_after [OF c this] c show ?thesis by (auto simp: accept_teardown_replicas_def split: sum.splits prod.splits)
qed

lemma apps_event [simp]: "apps (event a b c d t w) = apps w"
  by (simp add: event_def)

lemma change_save: "app_find i w = Some a \<Longrightarrow> app_moves a a' \<Longrightarrow> app_change w (save_app a' w)"
  by (rule row_change [OF _ _ refl])

lemma change_event: "app_change w v \<Longrightarrow> app_change w (event a b c d t v)"
  by (erule change_apps) simp

lemma change_fail_app: "app_change w (snd (fail_app i why r t w))"
  unfolding fail_app_def
proof (rule change_connect)
  show "app_change w (snd (case app_find i w of None \<Rightarrow> (Inl TypeError, w)
     | Some a \<Rightarrow>
        if set_text (ap_error a) \<or> ap_teardown a \<noteq> None then (Inr a, w)
        else if rollout_done a w then (Inr a, w)
        else
          let a' = stamp_app t (a\<lparr>ap_error := Some why\<rparr>);
              w1 = save_app a' w;
              w2 = (if r then event (Some i) worker_actor Ev_app_router Refused t w1 else w1)
          in (Inr a', event (Some i) worker_actor Ev_app_state (To_state Failed) t w2)))"
    by (auto simp: Let_def app_moves_def stamp_app_def intro!: change_event intro: no_change change_save split: option.split)
qed

lemma change_fail_teardown: "app_change w (snd (fail_teardown i why r t w))"
  unfolding fail_teardown_def
  by (rule change_connect)
    (auto simp: Let_def app_moves_def stamp_app_def intro!: change_event intro: no_change change_save split: option.split)

section \<open>Every run\<close>

lemma ledger_step_change:
  assumes step: "ledger_step s s'" and inv: "sys_inv s"
  shows "app_change (s_world s) (s_world s')"
  using step
proof cases
  case (ls_claim i p t r w')
  then show ?thesis using apps_claim [of i p t "s_world s"] by (auto intro: no_change)
qed (use team_ops_frame inv in \<open>auto simp: sys_inv_def intro: no_change change_accept_app change_accept_router change_accept_failover
    change_accept_teardown change_accept_teardown_replicas change_fail_app change_fail_teardown\<close>)

definition app_ids :: "world \<Rightarrow> bool" where
  "app_ids w \<longleftrightarrow> (\<forall>r \<in> set (apps w). ap_id (a_body r) = a_id r)"

lemma app_ids_find: "app_ids w \<Longrightarrow> app_find i w = Some a \<Longrightarrow> ap_id a = i"
  by (auto simp: app_ids_def app_find_def dest!: row_find_SomeD)

lemma app_find_apps: "apps w' = apps w \<Longrightarrow> app_find i w' = app_find i w"
  by (simp add: app_find_def)

lemma change_keeps:
  assumes "app_change w w'" "app_ids w"
  shows "app_ids w'" and "app_find i w = Some a \<Longrightarrow> \<exists>a'. app_find i w' = Some a' \<and> app_moves a a'"
proof -
  have "app_ids w' \<and> (app_find i w = Some a \<longrightarrow> (\<exists>a'. app_find i w' = Some a' \<and> app_moves a a'))"
    using assms(1)
  proof cases
    case no_change
    then show ?thesis using assms(2) by (auto simp: app_ids_def app_find_def)
  next
    case (row_change j b b')
    have b: "ap_id b' = j" using app_ids_find [OF assms(2) row_change(1)] row_change(2) by (simp add: app_moves_def)
    have "app_ids w'" using assms(2) b by (auto simp: app_ids_def row_change(3) save_app_def row_update_def)
    then show ?thesis
      using row_change b by (auto simp: app_find_apps [OF row_change(3)] table_simps)
  next
    case (new_row r)
    then show ?thesis using assms(2)
      by (auto simp: app_ids_def app_find_def row_find_append split: option.splits)
  qed
  then show "app_ids w'" "app_find i w = Some a \<Longrightarrow> \<exists>a'. app_find i w' = Some a' \<and> app_moves a a'" by blast+
qed

interpretation app_table: monotone_system initial ledger_step "\<lambda>s. sys_inv s \<and> app_ids (s_world s)"
  "\<lambda>s s'. \<forall>i a. app_find i (s_world s) = Some a \<longrightarrow> (\<exists>a'. app_find i (s_world s') = Some a' \<and> app_moves a a')"
proof unfold_locales
  fix s assume "initial s"
  then show "sys_inv s \<and> app_ids (s_world s)"
    by (auto simp: ledger.inv_init initial_def empty_world_def app_ids_def)
next
  fix s t assume i: "sys_inv s \<and> app_ids (s_world s)" and st: "ledger_step s t"
  note ch = ledger_step_change [OF st] i
  show "sys_inv t \<and> app_ids (s_world t)"
    using ledger_step_inv [OF _ st] change_keeps(1) ch by blast
  show "\<forall>i a. app_find i (s_world s) = Some a \<longrightarrow> (\<exists>a'. app_find i (s_world t) = Some a' \<and> app_moves a a')"
    using change_keeps(2) ch by blast
next
  fix s t u
  assume "\<forall>i a. app_find i (s_world s) = Some a \<longrightarrow> (\<exists>a'. app_find i (s_world t) = Some a' \<and> app_moves a a')"
    "\<forall>i a. app_find i (s_world t) = Some a \<longrightarrow> (\<exists>a'. app_find i (s_world u) = Some a' \<and> app_moves a a')"
  then show "\<forall>i a. app_find i (s_world s) = Some a \<longrightarrow> (\<exists>a'. app_find i (s_world u) = Some a' \<and> app_moves a a')"
    by (meson app_moves_trans)
qed (use app_moves_refl in blast)

section \<open>A router accepted once\<close>

text \<open>Nothing in the row waits for its first router any more.\<close>

definition past_router :: "world \<Rightarrow> app \<Rightarrow> bool" where
  "past_router w a \<longleftrightarrow> ap_teardown a \<noteq> None \<or> ap_router_operation_id a \<noteq> None \<or> set_text (ap_error a) \<or>
     (\<exists>i is r. ap_router_operations a = i # is \<and> op_find i w = Some r \<and> r_state r = Succeeded)"

text \<open>Operation identifiers are drawn by \<^verbatim>\<open>uuid4\<close> and never empty.\<close>

definition named_ops :: "world \<Rightarrow> bool" where
  "named_ops w \<longleftrightarrow> op_find [] w = None"

lemma named_back: "named_ops w' \<Longrightarrow> evolves w w' \<Longrightarrow> named_ops w"
  by (cases "op_find [] w") (fastforce simp: named_ops_def evolves_def)+

lemma past_router_moves:
  assumes "past_router w a" "app_moves a a'" "evolves w w'"
  shows "past_router w' a'"
proof -
  have "\<exists>r'. op_find i w' = Some r' \<and> r_state r' = Succeeded" if "op_find i w = Some r" "r_state r = Succeeded" for i r
    using assms(3) that by (fastforce simp: evolves_def row_evolves_def busy_state_def dest: final_stuck)
  with assms(1,2) show ?thesis unfolding past_router_def app_moves_def by metis
qed

lemma past_router_stays:
  assumes "reachable s" "steps ledger_step s s'" "app_find i (s_world s) = Some a" "past_router (s_world s) a"
  shows "\<exists>a'. app_find i (s_world s') = Some a' \<and> past_router (s_world s') a'"
proof -
  have "evolves (s_world s) (s_world s')" using ledger.steps_rel [OF assms(2) ledger.reach_inv [OF assms(1)]] by simp
  moreover obtain a' where "app_find i (s_world s') = Some a'" "app_moves a a'"
    using app_table.steps_rel [OF assms(2) app_table.reach_inv [OF assms(1)]] assms(3) by blast
  ultimately show ?thesis using past_router_moves [OF assms(4)] by blast
qed

lemma past_router_check:
  assumes "reachable s" "app_find i (s_world s) = Some a" "named_ops (s_world s)" "past_router (s_world s) a"
  shows "check_app a (load_ops a (s_world s)) \<noteq> Inr Router_needed"
proof
  assume check: "check_app a (load_ops a (s_world s)) = Inr Router_needed"
  let ?w = "s_world s"
  have links: "links_exist ?w a" using assms(1,2) by (rule reachable_links)
  have wf: "wf ?w" using assms(1) by (rule reachable_wf)
  from check have td: "ap_teardown a = None" and id: "or_empty (ap_router_operation_id a) = []"
    and st: "derive_state a (load_ops a ?w) = Inr Planning_router"
    by (auto simp: check_app_def sbind_Inr_iff split: if_splits)
  have "ap_router_operation_id a \<noteq> Some []"
    using links assms(3) by (auto simp: links_exist_def app_links_def router_links_def named_ops_def)
  then have none: "ap_router_operation_id a = None" using id by (cases "ap_router_operation_id a") (auto simp: or_empty_def)
  have "\<not> set_text (ap_error a)"
    using st td by (auto simp: derive_state_def sbind_Inr_iff rollout_state_def Let_def set_text_def or_empty_def split: if_splits option.splits)
  then obtain j js r where r: "ap_router_operations a = j # js" "op_find j ?w = Some r" "r_state r = Succeeded"
    using assms(4) td none by (auto simp: past_router_def)
  have "op_state (load_ops a ?w) j = Inr Succeeded"
    using r op_find_row_ok [OF wf r(2)]
    by (simp add: op_state_def load_ops_def operations_by_id_def op_body_def row_ok_def app_op_ids_def router_ops_def)
  then show False using check td r(1) by (simp add: check_app_def router_ops_def)
qed

text \<open>What accepting the router, or recording the failure, leaves in the row.\<close>

lemma accept_router_past:
  assumes "accept_router i intent res b t fresh w = (Inr a', w')" "app_ids w"
  shows "\<exists>a. app_find i w' = Some a \<and> past_router w' a"
proof -
  obtain bl w1 where tx: "accept_router_tx i intent res b t fresh w = (Inr (a', bl), w1)" and w': "w' = unlink_blocker bl w1"
    using assms(1) by (auto simp: accept_router_def dest!: connect_InrD split: prod.splits sum.splits)
  obtain a where a: "app_find i w = Some a" using tx by (auto simp: accept_router_tx_def split: option.splits)
  have id: "ap_id a = i" using assms(2) a by (rule app_ids_find)
  have find: "app_find i w' = app_find i w1" by (rule app_find_apps) (simp add: w')
  show ?thesis
  proof (cases "set_text (ap_router_operation_id a) \<or> set_text (ap_error a)")
    case True
    then have "w1 = w" using tx a by (simp add: accept_router_tx_def)
    then show ?thesis using True a find by (auto simp: past_router_def set_text_def split: option.splits)
  next
    case False
    obtain y w2 where acc: "accept_tx (ap_actor a) (system_key [i, ''router'']) intent res b None t fresh w = (y, w2)" by fastforce
    have same: "app_find i w2 = Some a" using app_find_apps [OF apps_accept_pair [OF acc]] a by simp
    have "\<exists>o' rr. w1 = save_app (stamp_app t (a\<lparr>ap_router_operation_id := Some o', ap_router_resource_id := rr\<rparr>)) w2"
      using tx False a acc by (auto simp: accept_router_tx_def Let_def split: sum.splits prod.splits)
    then obtain o' rr where "w1 = save_app (stamp_app t (a\<lparr>ap_router_operation_id := Some o', ap_router_resource_id := rr\<rparr>)) w2"
      by blast
    then show ?thesis using same find id by (auto simp: table_simps stamp_app_def past_router_def)
  qed
qed

lemma fail_app_past:
  assumes "fail_app i why rf t w = (Inr a', w')" "app_ids w" "why \<noteq> []"
  shows "\<exists>a. app_find i w' = Some a \<and> past_router w' a"
proof -
  note tx = connect_InrD [OF assms(1) [unfolded fail_app_def]]
  obtain a where a: "app_find i w = Some a" using tx by (auto split: option.splits)
  have id: "ap_id a = i" using assms(2) a by (rule app_ids_find)
  show ?thesis
  proof (cases "set_text (ap_error a) \<or> ap_teardown a \<noteq> None \<or> rollout_done a w")
    case True
    then have "w' = w" using tx a by (auto split: if_splits)
    moreover have "past_router w a"
      using True by (auto simp: past_router_def rollout_done_def first_router_def split: list.splits option.splits)
    ultimately show ?thesis using a by blast
  next
    case False
    then have "app_find i w' = Some (stamp_app t (a\<lparr>ap_error := Some why\<rparr>))"
      using tx a id by (auto simp: Let_def frame_simps table_simps app_find_apps [OF apps_event] stamp_app_def split: if_splits)
    then show ?thesis using assms(3) by (auto simp: past_router_def stamp_app_def set_text_def)
  qed
qed

lemma accept_app_router_past:
  assumes "accept_app_router x i why t fresh w = (Inr ans, w')" "ans \<noteq> Retry_router" "\<And>e. why e \<noteq> []" "app_ids w"
  shows "\<exists>a. app_find i w' = Some a \<and> past_router w' a"
proof -
  obtain a where a: "app_find i w = Some a" using assms(1) by (auto simp: accept_app_router_def split: option.splits)
  have id: "ap_id a = i" using assms(4) a by (rule app_ids_find)
  show ?thesis
  proof (cases "or_empty (ap_router_operation_id a) = []")
    case False
    then have "w' = w" "ap_router_operation_id a \<noteq> None"
      using assms(1) a by (auto simp: accept_app_router_def) (auto simp: or_empty_def split: option.splits)
    then show ?thesis using a by (auto simp: past_router_def)
  next
    case True
    obtain y w1 where acc: "apps_accept_router x a t fresh w = (y, w1)" by fastforce
    have "w1 = w \<or> (\<exists>ii d b. w1 = snd (accept_router (ap_id a) ii d b t fresh w))"
      using acc by (auto simp: apps_accept_router_def split: sum.splits prod.splits) (metis snd_conv)
    then have ch: "app_change w w1" by (elim disjE exE) (simp add: no_change, simp only: change_accept_router)
    show ?thesis
    proof (cases y)
      case (Inr a')
      then have "w' = w1" using assms(1) a True acc by (simp add: accept_app_router_def)
      moreover obtain ii d b where "accept_router i ii d b t fresh w = (Inr a', w1)"
        using acc Inr id by (auto simp: apps_accept_router_def split: sum.splits prod.splits)
      ultimately show ?thesis using accept_router_past [OF _ assms(4)] by blast
    next
      case (Inl e)
      then obtain a' where "fail_app i (why e) True t w1 = (Inr a', w')"
        using assms(1,2) a True acc by (auto simp: accept_app_router_def split: verdict.splits sum.splits prod.splits)
      then show ?thesis using fail_app_past change_keeps(1) [OF ch assms(4)] assms(3) by blast
    qed
  qed
qed

lemma accept_app_router_steps:
  assumes "accept_app_router x i why t fresh (s_world s) = (r, w')"
  shows "steps ledger_step s (s\<lparr>s_world := w'\<rparr>)"
proof (cases "\<exists>a. app_find i (s_world s) = Some a \<and> or_empty (ap_router_operation_id a) = []")
  case False
  then have "w' = s_world s" using assms by (auto simp: accept_app_router_def split: option.splits if_splits)
  then show ?thesis by (simp add: steps_refl)
next
  case True
  then obtain a where a: "app_find i (s_world s) = Some a" "or_empty (ap_router_operation_id a) = []" by blast
  obtain y w1 where acc: "apps_accept_router x a t fresh (s_world s) = (y, w1)" by fastforce
  have one: "steps ledger_step s (s\<lparr>s_world := w1\<rparr>)"
  proof (cases "prepare_router x (s_world s) a")
    case (Inl e)
    then have "s\<lparr>s_world := w1\<rparr> = s" using acc by (simp add: apps_accept_router_def)
    then show ?thesis by (simp add: steps_refl)
  next
    case (Inr p)
    obtain ii d b where "p = (ii, d, b)" using prod_cases3 by blast
    then show ?thesis
      using steps_single [where step = ledger_step, OF ls_accept_router [of s "ap_id a" ii d b t fresh]] acc Inr by (simp add: apps_accept_router_def)
  qed
  have two: "steps ledger_step s (s\<lparr>s_world := snd (fail_app i y True t w1)\<rparr>)" for y
    using steps_step [where step = ledger_step, OF one ls_fail_app [of _ i y True t]] by simp
  show ?thesis
    using assms a acc one two
    by (auto simp: accept_app_router_def split: sum.splits verdict.splits prod.splits) (metis snd_conv)+
qed

end
