(* ===== verification/WorkflowProperties.thy ===== *)
theory WorkflowProperties
  imports Workflows WorkerSafety AppRuns
begin

text \<open>
  What the workflows guarantee. The polling loops have one shape, the locale \<open>polling_loop\<close>: a round
  returns, or goes on after a pause, or goes on at once. From it follows that a loop gives up after
  a week of waiting, whatever the activities answer, provided an accepted request is not asked
  for again and the failure can be recorded. The phase of an operation settles it even when
  its worker is lost.
\<close>

section \<open>Polling loops\<close>

definition on_schedule :: "nat \<Rightarrow> bool" where
  "on_schedule w \<longleftrightarrow> w \<le> MAX_WAIT_SECONDS \<and>
     (if w \<le> SLOW_AFTER_SECONDS then w mod POLL_SECONDS = 0 else (w - SLOW_AFTER_SECONDS) mod SLOW_POLL_SECONDS = 0)"

lemmas schedule_defs = MAX_WAIT_SECONDS_def SLOW_AFTER_SECONDS_def POLL_SECONDS_def SLOW_POLL_SECONDS_def

lemma pause_pos: "0 < pause w"
  by (simp add: pause_def schedule_defs)

lemma on_schedule_0: "on_schedule 0"
  by (simp add: on_schedule_def)

lemma on_schedule_pause: "on_schedule w \<Longrightarrow> w < MAX_WAIT_SECONDS \<Longrightarrow> on_schedule (w + pause w)"
  unfolding on_schedule_def pause_def schedule_defs by (simp split: if_splits) presburger+

locale polling_loop =
  fixes step :: "nat \<Rightarrow> 's \<Rightarrow> 'r round_end \<times> 's"
  assumes again: "step w s = (Again v, s') \<Longrightarrow> v = w \<or> v = w + pause w"
    and as_new: "step w s = (As_new v, s') \<Longrightarrow> v = w + pause w"
begin

text \<open>A loop whose rounds never repeat without a pause, and return at the deadline.\<close>

definition gives_up :: "('s \<Rightarrow> bool) \<Rightarrow> bool" where
  "gives_up settled \<longleftrightarrow>
     (\<forall>w s s'. step w s = (Again w, s') \<longrightarrow> settled s') \<and>
     (\<forall>w s s'. settled s \<longrightarrow> step w s \<noteq> (Again w, s')) \<and>
     (\<forall>w s v s'. MAX_WAIT_SECONDS \<le> w \<longrightarrow> step w s \<noteq> (As_new v, s') \<and> (step w s = (Again v, s') \<longrightarrow> v = w))"

lemma returns_settled:
  assumes "gives_up settled" "on_schedule w" "settled s"
    and later: "\<And>s'. w < MAX_WAIT_SECONDS \<Longrightarrow> on_schedule (w + pause w) \<Longrightarrow>
      \<exists>r v s''. poll step (w + pause w) s' = Some (r, v, s'') \<and> on_schedule v"
  shows "\<exists>r v s'. poll step w s = Some (r, v, s') \<and> on_schedule v"
proof -
  obtain e s1 where e: "step w s = (e, s1)" by fastforce
  have onward: "\<exists>r v s'. poll step (w + pause w) s1 = Some (r, v, s') \<and> on_schedule v" if "w < MAX_WAIT_SECONDS"
    using later that on_schedule_pause [OF assms(2)] by blast
  show ?thesis
  proof (cases e)
    case (Returned r)
    then show ?thesis using e assms(2) by (subst poll.simps) simp
  next
    case (Again v)
    then have "v \<noteq> w" using assms(1,3) e unfolding gives_up_def by blast
    moreover have "v = w \<or> v = w + pause w" using e Again again by blast
    moreover have "w < MAX_WAIT_SECONDS" using assms(1) e Again \<open>v \<noteq> w\<close> unfolding gives_up_def by (meson not_le)
    ultimately show ?thesis using onward e Again by (subst poll.simps) simp
  next
    case (As_new v)
    then have "v = w + pause w" using e as_new by blast
    moreover have "w < MAX_WAIT_SECONDS" using assms(1) e As_new unfolding gives_up_def by (meson not_le)
    ultimately show ?thesis using onward e As_new by (subst poll.simps) simp
  qed
qed

lemma returns:
  assumes "gives_up settled" "on_schedule w"
  shows "\<exists>r v s'. poll step w s = Some (r, v, s') \<and> on_schedule v"
  using assms(2)
proof (induction "MAX_WAIT_SECONDS - w" arbitrary: w s rule: less_induct)
  case less
  have later: "\<exists>r v s''. poll step (w + pause w) s' = Some (r, v, s'') \<and> on_schedule v"
    if "w < MAX_WAIT_SECONDS" "on_schedule (w + pause w)" for s'
    by (rule less.hyps) (use that pause_pos [of w] in linarith)+
  note settled = returns_settled [OF assms(1) less.prems _ later]
  obtain e s1 where e: "step w s = (e, s1)" by fastforce
  show ?case
  proof (cases "e = Again w")
    case True
    then have "settled s1" using assms(1) e unfolding gives_up_def by blast
    then show ?thesis using settled e True by (subst poll.simps) simp
  next
    case False
    have below: "w < MAX_WAIT_SECONDS" if "\<forall>r. e \<noteq> Returned r"
      using that False assms(1) e unfolding gives_up_def by (cases e) (auto simp: not_less [symmetric])
    show ?thesis
    proof (cases e)
      case (Returned r)
      then show ?thesis using e less.prems by (subst poll.simps) simp
    next
      case (Again v)
      then show ?thesis using e False again [of w s v s1] below later on_schedule_pause [OF less.prems]
        by (subst poll.simps) auto
    next
      case (As_new v)
      then show ?thesis using e as_new [of w s v s1] below later on_schedule_pause [OF less.prems]
        by (subst poll.simps) auto
    qed
  qed
qed

end

section \<open>Both loops are polling loops\<close>

lemma wait_round_cases:
  assumes "wait_round T w s = (e, s')"
  shows "e = Again (w + pause w) \<or> e = As_new (w + pause w)"
  using assms by (auto simp: wait_round_def Let_def)

lemma deadline_cases:
  assumes "deadline_or_wait T f x w s = (e, s')"
  shows "e = Returned x \<or> e = Again (w + pause w) \<or> e = As_new (w + pause w)"
    and "MAX_WAIT_SECONDS \<le> w \<Longrightarrow> fst (f s) \<noteq> None \<Longrightarrow> e = Returned x"
  using assms
  by (auto simp: deadline_or_wait_def fail_quietly_def split: if_splits prod.splits option.splits bool.splits
      dest: wait_round_cases)

lemma rollout_rest_cases:
  assumes "rollout_rest T i w st s = (e, s')"
  shows "(\<exists>r. e = Returned r) \<or> e = Again (w + pause w) \<or> e = As_new (w + pause w)"
    and "MAX_WAIT_SECONDS \<le> w \<Longrightarrow> (\<And>why u. fst (t_fail_app T i why u) \<noteq> None) \<Longrightarrow> \<exists>r. e = Returned r"
  using assms by (auto simp: rollout_rest_def Let_def split: if_splits dest: deadline_cases)

lemma teardown_rest_cases:
  assumes "teardown_rest T i w st s = (e, s')"
  shows "(\<exists>r. e = Returned r) \<or> e = Again (w + pause w) \<or> e = As_new (w + pause w)"
    and "MAX_WAIT_SECONDS \<le> w \<Longrightarrow> (\<And>why u. fst (t_fail_teardown T i why u) \<noteq> None) \<Longrightarrow> \<exists>r. e = Returned r"
  using assms by (auto simp: teardown_rest_def Let_def split: if_splits dest: deadline_cases)

text \<open>A round that goes on at once has just had its request accepted.\<close>

lemma rollout_round_cases:
  assumes "rollout_round T i w s = (e, s')"
  obtains u st where "rollout_rest T i w st u = (e, s')"
  | "e = Returned A_failed"
  | a s1 s2 where "t_check_app T i s = (Some Router_needed, s1)" "t_accept_router T i s1 = (Some a, s2)"
      "a \<noteq> Retry_router" "e = Again w"
      "s' = start_plans T (case a of Accepted_router j \<Rightarrow> [j] | _ \<Rightarrow> []) s2"
proof -
  obtain state s1 where c: "t_check_app T i s = (state, s1)" by fastforce
  show thesis
  proof (cases "state = Some Router_needed")
    case False
    then show thesis using that(1) assms c by (simp add: rollout_round_def)
  next
    case True
    obtain ans s2 where acc: "t_accept_router T i s1 = (ans, s2)" by fastforce
    show thesis
    proof (cases ans)
      case None
      obtain b s3 where f: "fail_quietly (t_fail_app T i msg_router_refused) s2 = (b, s3)" by fastforce
      show thesis using that(1,2) assms c acc f True None by (cases b) (auto simp: rollout_round_def)
    next
      case (Some a)
      then have "a \<noteq> Retry_router \<Longrightarrow> thesis" and "a = Retry_router \<Longrightarrow> thesis"
        using that c acc assms True by (auto simp: rollout_round_def split: router_answer.splits)
      then show ?thesis by blast
    qed
  qed
qed

lemma teardown_round_cases:
  assumes "teardown_round T i w s = (e, s')"
  obtains u st where "teardown_rest T i w st u = (e, s')"
  | "e = Returned A_failed"
  | a s1 s2 where "t_check_teardown T i s = (Some Replicas_needed, s1)" "t_accept_destroys T i s1 = (Some a, s2)"
      "\<not> da_retry a" "e = Again w" "s' = start_plans T (da_operations a) s2"
proof -
  obtain state s1 where c: "t_check_teardown T i s = (state, s1)" by fastforce
  show thesis
  proof (cases "state = Some Replicas_needed")
    case False
    then show thesis using that(1) assms c by (simp add: teardown_round_def)
  next
    case True
    obtain ans s2 where acc: "t_accept_destroys T i s1 = (ans, s2)" by fastforce
    show thesis
    proof (cases ans)
      case None
      obtain b s3 where f: "fail_quietly (t_fail_teardown T i msg_destroys_refused) s2 = (b, s3)" by fastforce
      show thesis using that(1,2) assms c acc f True None by (cases b) (auto simp: teardown_round_def)
    next
      case (Some a)
      then have "\<not> da_retry a \<Longrightarrow> thesis" and "da_retry a \<Longrightarrow> thesis"
        using that c acc assms True by (auto simp: teardown_round_def)
      then show ?thesis by blast
    qed
  qed
qed

interpretation rollout: polling_loop "rollout_round T i" for T i
proof unfold_locales
  fix w s v s'
  show "v = w \<or> v = w + pause w" if "rollout_round T i w s = (Again v, s')"
    using that by (cases rule: rollout_round_cases) (auto dest: rollout_rest_cases(1))
  show "v = w + pause w" if "rollout_round T i w s = (As_new v, s')"
    using that by (cases rule: rollout_round_cases) (auto dest: rollout_rest_cases(1))
qed

interpretation teardown: polling_loop "teardown_round T i" for T i
proof unfold_locales
  fix w s v s'
  show "v = w \<or> v = w + pause w" if "teardown_round T i w s = (Again v, s')"
    using that by (cases rule: teardown_round_cases) (auto dest: teardown_rest_cases(1))
  show "v = w + pause w" if "teardown_round T i w s = (As_new v, s')"
    using that by (cases rule: teardown_round_cases) (auto dest: teardown_rest_cases(1))
qed

lemma rollout_gives_up_law:
  assumes accepted: "\<And>s a s'. t_accept_router T i s = (Some a, s') \<Longrightarrow> a \<noteq> Retry_router \<Longrightarrow>
      fst (t_check_app T i (start_plans T (case a of Accepted_router j \<Rightarrow> [j] | _ \<Rightarrow> []) s')) \<noteq> Some Router_needed"
    and recorded: "\<And>why s. fst (t_fail_app T i why s) \<noteq> None"
  shows "rollout.gives_up T i (\<lambda>s. fst (t_check_app T i s) \<noteq> Some Router_needed)"
  unfolding rollout.gives_up_def
proof (intro conjI allI impI)
  fix w s v s'
  show "fst (t_check_app T i s') \<noteq> Some Router_needed" if "rollout_round T i w s = (Again w, s')"
    using that pause_pos [of w] by (cases rule: rollout_round_cases) (auto dest: accepted rollout_rest_cases(1))
  show "rollout_round T i w s \<noteq> (Again w, s')" if "fst (t_check_app T i s) \<noteq> Some Router_needed"
  proof
    assume "rollout_round T i w s = (Again w, s')"
    then show False using that pause_pos [of w] by (cases rule: rollout_round_cases) (auto dest: rollout_rest_cases(1))
  qed
  assume late: "MAX_WAIT_SECONDS \<le> w"
  show "rollout_round T i w s \<noteq> (As_new v, s')"
  proof
    assume "rollout_round T i w s = (As_new v, s')"
    then show False by (cases rule: rollout_round_cases) (auto dest: rollout_rest_cases(2) [OF _ late recorded])
  qed
  show "v = w" if "rollout_round T i w s = (Again v, s')"
    using that by (cases rule: rollout_round_cases) (auto dest: rollout_rest_cases(2) [OF _ late recorded])
qed

lemma teardown_gives_up_law:
  assumes accepted: "\<And>s a s'. t_accept_destroys T i s = (Some a, s') \<Longrightarrow> \<not> da_retry a \<Longrightarrow>
      fst (t_check_teardown T i (start_plans T (da_operations a) s')) \<noteq> Some Replicas_needed"
    and recorded: "\<And>why s. fst (t_fail_teardown T i why s) \<noteq> None"
  shows "teardown.gives_up T i (\<lambda>s. fst (t_check_teardown T i s) \<noteq> Some Replicas_needed)"
  unfolding teardown.gives_up_def
proof (intro conjI allI impI)
  fix w s v s'
  show "fst (t_check_teardown T i s') \<noteq> Some Replicas_needed" if "teardown_round T i w s = (Again w, s')"
    using that pause_pos [of w] by (cases rule: teardown_round_cases) (auto dest: accepted teardown_rest_cases(1))
  show "teardown_round T i w s \<noteq> (Again w, s')" if "fst (t_check_teardown T i s) \<noteq> Some Replicas_needed"
  proof
    assume "teardown_round T i w s = (Again w, s')"
    then show False using that pause_pos [of w] by (cases rule: teardown_round_cases) (auto dest: teardown_rest_cases(1))
  qed
  assume late: "MAX_WAIT_SECONDS \<le> w"
  show "teardown_round T i w s \<noteq> (As_new v, s')"
  proof
    assume "teardown_round T i w s = (As_new v, s')"
    then show False by (cases rule: teardown_round_cases) (auto dest: teardown_rest_cases(2) [OF _ late recorded])
  qed
  show "v = w" if "teardown_round T i w s = (Again v, s')"
    using that by (cases rule: teardown_round_cases) (auto dest: teardown_rest_cases(2) [OF _ late recorded])
qed

section \<open>A week at most\<close>

text \<open>A service that runs the repository's own \<^verbatim>\<open>check_app\<close> and \<^verbatim>\<open>accept_app_router\<close> on the ledger: each of
  its states carries one (\<open>V\<close>), and an activity that answers has read or changed that ledger, while requests,
  workers and other workflows go on before and after it (runs of ledger steps). Operation identifiers and the texts
  of failures are not empty; nothing is said of the answers.\<close>

definition runs_rollout :: "('s \<Rightarrow> sys) \<Rightarrow> ext \<Rightarrow> string \<Rightarrow> 's temporal \<Rightarrow> bool" where
  "runs_rollout V x i T \<longleftrightarrow>
     (\<forall>s. reachable (V s) \<and> named_ops (s_world (V s))) \<and>
     (\<forall>s c s'. t_check_app T i s = (Some c, s') \<longrightarrow>
        (\<exists>u a. steps ledger_step (V s) u \<and> app_find i (s_world u) = Some a \<and>
           check_app a (load_ops a (s_world u)) = Inr c \<and> steps ledger_step u (V s'))) \<and>
     (\<forall>s ans s'. t_accept_router T i s = (Some ans, s') \<longrightarrow>
        (\<exists>u why t fresh w. steps ledger_step (V s) u \<and> (\<forall>e. why e \<noteq> []) \<and>
           accept_app_router x i why t fresh (s_world u) = (Inr ans, w) \<and> steps ledger_step (u\<lparr>s_world := w\<rparr>) (V s'))) \<and>
     (\<forall>n j s. steps ledger_step (V s) (V (t_start T n j s)))"

lemma start_plans_steps:
  assumes "runs_rollout V x i T"
  shows "steps ledger_step (V s) (V (start_plans T js s))"
proof (induction js arbitrary: s)
  case (Cons j js)
  have "steps ledger_step (V s) (V (t_start T (workflow_id j ''plan'') j s))" using assms by (simp add: runs_rollout_def)
  with Cons [of "t_start T (workflow_id j ''plan'') j s"] show ?case
    using steps_trans by (fastforce simp: start_plans_def)
qed (simp add: start_plans_def steps_refl)

lemma accepted_router_not_needed:
  assumes runs: "runs_rollout V x i T" and acc: "t_accept_router T i s = (Some ans, s')" and ans: "ans \<noteq> Retry_router"
  shows "fst (t_check_app T i (start_plans T js s')) \<noteq> Some Router_needed"
proof
  let ?s2 = "start_plans T js s'"
  assume "fst (t_check_app T i ?s2) = Some Router_needed"
  then obtain s3 where check: "t_check_app T i ?s2 = (Some Router_needed, s3)" by (metis prod.collapse)
  obtain u why t fresh w where u: "steps ledger_step (V s) u" "\<forall>e. why e \<noteq> []"
    "accept_app_router x i why t fresh (s_world u) = (Inr ans, w)" "steps ledger_step (u\<lparr>s_world := w\<rparr>) (V s')"
    using runs acc unfolding runs_rollout_def by blast
  obtain v a where v: "steps ledger_step (V ?s2) v" "app_find i (s_world v) = Some a"
    "check_app a (load_ops a (s_world v)) = Inr Router_needed" "steps ledger_step v (V s3)"
    using runs check unfolding runs_rollout_def by blast
  have named: "named_ops (s_world (V s3))" and r0: "reachable (V s)" using runs by (simp_all add: runs_rollout_def)
  have ru: "reachable u" using r0 u(1) by (rule ledger.reach_steps)
  have rw: "reachable (u\<lparr>s_world := w\<rparr>)" using ru accept_app_router_steps [OF u(3)] by (rule ledger.reach_steps)
  have "app_ids (s_world u)" using app_table.reach_inv [OF ru] by simp
  then obtain b where b: "app_find i w = Some b" "past_router w b"
    using accept_app_router_past [OF u(3) ans] u(2) by blast
  have path: "steps ledger_step (u\<lparr>s_world := w\<rparr>) v"
    by (rule steps_trans [OF steps_trans [OF v(1) start_plans_steps [OF runs]] u(4)])
  have rv: "reachable v" using rw path by (rule ledger.reach_steps)
  obtain c where c: "app_find i (s_world v) = Some c" "past_router (s_world v) c"
    using past_router_stays [OF rw path, of i b] b by auto
  have "evolves (s_world v) (s_world (V s3))" using ledger.steps_rel [OF v(4) ledger.reach_inv [OF rv]] by simp
  then have "named_ops (s_world v)" by (rule named_back [OF named])
  from past_router_check [OF rv c(1) this c(2)] v(2,3) c(1) show False by simp
qed

text \<open>C34. A rollout ends within a week if its failure can be recorded. When the service runs the repository's own
  check and router acceptance, with anything else happening on the ledger meanwhile, and the activity that records
  the failure goes through whenever it is called, the rollout's workflow returns, whatever its members do and
  however often its checks and acceptances fail, after at most a week of waiting. (Without the second condition it
  goes on polling past the week.)\<close>

theorem rollout_ends_within_a_week:
  assumes "runs_rollout V x i T" and "\<And>why s. fst (t_fail_app T i why s) \<noteq> None"
  shows "\<exists>r waited s'. app_rollout_workflow T i s = Some (r, waited, s') \<and> waited \<le> 604800"
proof -
  have "rollout.gives_up T i (\<lambda>s. fst (t_check_app T i s) \<noteq> Some Router_needed)"
    by (rule rollout_gives_up_law) (use accepted_router_not_needed [OF assms(1)] assms(2) in auto)
  from rollout.returns [OF this on_schedule_0, of s] show ?thesis
    by (auto simp: app_rollout_workflow_def on_schedule_def MAX_WAIT_SECONDS_def)
qed

text \<open>A service on which nothing ever moves: every check finds the replica of the demonstration app waiting for
  approval, and the state counts the seconds slept.\<close>

definition stuck_service :: "nat temporal" where
  "stuck_service = \<lparr>t_check_app = (\<lambda>i s. (Some (Rollout_state Awaiting_replica_approval), s)),
     t_accept_router = (\<lambda>i s. (None, s)), t_fail_app = (\<lambda>i why s. (Some (), s)),
     t_check_teardown = (\<lambda>i s. (None, s)), t_accept_destroys = (\<lambda>i s. (None, s)),
     t_fail_teardown = (\<lambda>i why s. (Some (), s)), t_queued = (\<lambda>i s. (None, s)), t_sweep = (\<lambda>s. (None, s)),
     t_start = (\<lambda>w i s. s), t_sleep = (\<lambda>n s. s + n), t_patched = (\<lambda>n s. True), t_new_suggested = (\<lambda>s. s mod 1000 = 0)\<rparr>"

theorem rollout_ends_within_a_week_witness:
  "\<exists>r waited s'. app_rollout_workflow stuck_service ''app_1'' 0 = Some (r, waited, s') \<and> waited \<le> 604800"
proof (rule rollout_ends_within_a_week)
  let ?s = "demo_sys (app_world demo_plan 4) [demo_planning]"
  have w: "s_world ?s = app_world demo_plan 4" by (simp add: demo_sys_def)
  have "named_ops (app_world demo_plan 4)" by (simp add: named_ops_def op_find_def app_defs row_find_Cons demo_row_def demo_defs)
  moreover have "check_app demo_app_row (load_ops demo_app_row (app_world demo_plan 4)) =
      Inr (Rollout_state Awaiting_replica_approval)"
    using demo_app_state by (simp add: check_app_def router_ops_def app_defs or_empty_def)
  ultimately have "\<exists>u. steps ledger_step ?s u \<and> (\<exists>a. app_find ''app_1'' (s_world u) = Some a \<and>
      check_app a (load_ops a (s_world u)) = Inr (Rollout_state Awaiting_replica_approval) \<and> steps ledger_step u ?s)"
    using app_find_demo [of demo_plan 4] steps_refl [of ledger_step ?s] w by metis
  with \<open>named_ops (app_world demo_plan 4)\<close> show "runs_rollout (\<lambda>_. ?s) demo_ext ''app_1'' stuck_service"
    unfolding runs_rollout_def w using app_reachable3 by (auto simp: stuck_service_def intro: steps_refl)
qed (simp add: stuck_service_def)

text \<open>The same of a teardown: an accepted batch of destroys is not asked for again.\<close>

lemma teardown_ends_within_a_week:
  assumes "\<And>s a s'. t_accept_destroys T i s = (Some a, s') \<Longrightarrow> \<not> da_retry a \<Longrightarrow>
      fst (t_check_teardown T i (start_plans T (da_operations a) s')) \<noteq> Some Replicas_needed"
    and "\<And>why s. fst (t_fail_teardown T i why s) \<noteq> None"
  shows "\<exists>r waited s'. app_teardown_workflow T i s = Some (r, waited, s') \<and> waited \<le> 604800"
proof -
  have "teardown.gives_up T i (\<lambda>s. fst (t_check_teardown T i s) \<noteq> Some Replicas_needed)"
    using assms by (rule teardown_gives_up_law)
  from teardown.returns [OF this on_schedule_0, of s] show ?thesis
    by (auto simp: app_teardown_workflow_def on_schedule_def MAX_WAIT_SECONDS_def)
qed

section \<open>A phase and the loss of its worker\<close>

text \<open>What an attempt of \<^verbatim>\<open>run_operation_phase\<close> may leave behind: it returns and the service learns of it;
  it ends, in any way, and the service does not; it never starts; or its worker is lost after
  the claim, having started commands of its phase and changed its workspace and its logs only.\<close>

inductive attempt :: "engine \<Rightarrow> string \<Rightarrow> phase \<Rightarrow> host \<Rightarrow> bool option \<times> host \<Rightarrow> bool" where
  at_done: "run_operation_phase e i p t1 t2 h = (Inr b, h') \<Longrightarrow> attempt e i p h (Some b, h')"
| at_unheard: "run_operation_phase e i p t1 t2 h = (r, h') \<Longrightarrow> attempt e i p h (None, h')"
| at_unstarted: "attempt e i p h (None, h)"
| at_lost: "claim i p t1 (h_world h) = (Inr (Some op), w) \<Longrightarrow>
    effect ({d_resource_id op} \<times> phase_lines e (cfg w) op) (h\<lparr>h_world := w\<rparr>) h' \<Longrightarrow> attempt e i p h (None, h')"

inductive_cases attemptE: "attempt e i p h (a, h')"

lemma attempt_cases:
  assumes "attempt e i p h (a, h')"
  obtains (ended) r t1 t2 where "run_operation_phase e i p t1 t2 h = (r, h')"
  | (unstarted) "a = None" "h' = h"
  | (lost) t1 op w where "a = None" "claim i p t1 (h_world h) = (Inr (Some op), w)"
      "effect ({d_resource_id op} \<times> phase_lines e (cfg w) op) (h\<lparr>h_world := w\<rparr>) h'"
  using assms by (auto elim!: attemptE)

text \<open>A service that makes at most one attempt.\<close>

definition single_attempt :: "engine \<Rightarrow> string \<Rightarrow> (phase \<Rightarrow> host \<Rightarrow> bool option \<times> host) \<Rightarrow> bool" where
  "single_attempt e i f \<longleftrightarrow> (\<forall>p h. attempt e i p h (f p h))"

definition waiting_or_run :: "phase \<Rightarrow> state \<Rightarrow> bool" where
  "waiting_or_run p s \<longleftrightarrow> s = fst (phase_states p) \<or> s = snd (phase_states p)"

lemma op_find_drift: "op_find i (record_drift_check op s t w) = op_find i w"
  by (simp add: record_drift_check_def frame_simps op_find_def split: option.split)

lemma interrupted_body:
  assumes "interrupted i p t w = (Inr (), w')" "op_find i w = Some r" "d_id (r_body r) = i"
  shows "\<exists>op. op_body i w' = Some op \<and>
    (if waiting_or_run p (r_state r)
     then d_state op = Some (if d_action (r_body r) = Drift_check then Failed else Uncertain)
     else op = r_body r)"
proof -
  have "interrupted_tx i p t w = (Inr (), w')" using assms(1) by (auto simp: interrupted_def dest: connect_InrD)
  then show ?thesis
    using assms(2,3)
    by (auto simp: interrupted_tx_def Let_def waiting_or_run_def op_body_def op_find_drift table_simps frame_simps
        stamp_def split: if_splits)
qed

definition settled_states :: "state set" where
  "settled_states = {Planned, Succeeded, Failed, Uncertain}"

lemma attempt_runs:
  assumes "reachable \<lparr>s_world = h_world h, s_claims = C\<rparr>" "attempt e i p h (a, h1)"
  shows "\<exists>C'. steps ledger_step \<lparr>s_world = h_world h, s_claims = C\<rparr> \<lparr>s_world = h_world h1, s_claims = C'\<rparr>"
  using assms(2)
proof (cases rule: attempt_cases)
  case (lost t1 op w)
  let ?s = "\<lambda>v. \<lparr>s_world = v, s_claims = op # C\<rparr>"
  have "ledger_step \<lparr>s_world = h_world h, s_claims = C\<rparr> (?s w)"
    using ls_claim [of i p t1 "\<lparr>s_world = h_world h, s_claims = C\<rparr>"] lost(2) by (simp add: claimed_def)
  moreover have "h_world h1 = w\<lparr>plans := plans (h_world h1)\<rparr>"
    using lost(3) by (auto simp: effect_def dest: same_tables_eq)
  then have "ledger_step (?s w) (?s (h_world h1))"
    using ls_plan_files [of "?s w" "plans (h_world h1)"] by simp
  ultimately show ?thesis by (blast intro: steps_step steps_refl)
next
  case unstarted
  then show ?thesis using steps_refl [of ledger_step "\<lparr>s_world = h_world h, s_claims = C\<rparr>"] by blast
next
  case (ended r t1 t2)
  then show ?thesis using worker_runs_ledger [OF assms(1)] by blast
qed

lemma attempt_row:
  assumes "reachable \<lparr>s_world = h_world h, s_claims = C\<rparr>" "db_sqlite (cfg (h_world h))"
    and "op_find i (h_world h) = Some row" "r_state row = fst (phase_states p)" "attempt e i p h (a, h1)"
  shows "\<exists>op st. op_body i (h_world h1) = Some op \<and> d_state op = Some st \<and>
    (st \<in> settled_states \<or> a = None \<and> waiting_or_run p st)"
proof -
  have wf: "wf (h_world h)" using reachable_wf [OF assms(1)] by simp
  have run_ends: ?thesis if "run_operation_phase e i p t1 t2 h = (r, h1)" for r t1 t2
    using worker_reports [OF assms(1-4), of e t1 t2] that by (auto simp: settled_states_def)
  from assms(5) show ?thesis
  proof (cases rule: attempt_cases)
    case unstarted
    then show ?thesis using assms(3,4) op_find_row_ok [OF wf assms(3)]
      by (auto simp: op_body_def row_ok_def waiting_or_run_def)
  next
    case (lost t1 op w)
    obtain row' where "op = running p t1 row'" "op_find i w = Some (row'\<lparr>r_state := snd (phase_states p), r_body := op\<rparr>)"
      using claim_some [OF lost(2) wf] by metis
    moreover have "op_find i (h_world h1) = op_find i w"
      using lost(3) by (auto simp: effect_def op_find_def dest: same_tables_fields)
    ultimately show ?thesis using lost(1) by (simp add: op_body_def waiting_or_run_def)
  qed (use run_ends in blast)
qed

text \<open>C13. No operation is left running. The workflow of an operation that waits for the phase ends without
  raising, whether its only attempt returns, raises, is never started or loses its worker, and
  leaves it planned, finished or \<open>Uncertain\<close>, by a run of ledger steps.\<close>

theorem phase_settles_its_operation:
  assumes "reachable \<lparr>s_world = h_world h, s_claims = C\<rparr>" "db_sqlite (cfg (h_world h))"
    and "op_find i (h_world h) = Some row" "r_state row = fst (phase_states p)"
    and "phase_named name = Some p" "single_attempt e i f"
  shows "\<exists>h' op st C'. operation_phase_workflow f i name t h = (Inr (), h') \<and>
    op_body i (h_world h') = Some op \<and> d_state op = Some st \<and> st \<in> {Planned, Succeeded, Failed, Uncertain} \<and>
    steps ledger_step \<lparr>s_world = h_world h, s_claims = C\<rparr> \<lparr>s_world = h_world h', s_claims = C'\<rparr>"
proof -
  obtain a h1 where f: "f p h = (a, h1)" by fastforce
  with assms(6) have att: "attempt e i p h (a, h1)" by (metis single_attempt_def)
  obtain C' where run: "steps ledger_step \<lparr>s_world = h_world h, s_claims = C\<rparr> \<lparr>s_world = h_world h1, s_claims = C'\<rparr>"
    using attempt_runs [OF assms(1) att] by blast
  obtain op st where op: "op_body i (h_world h1) = Some op" "d_state op = Some st"
    "st \<in> settled_states \<or> a = None \<and> waiting_or_run p st"
    using attempt_row [OF assms(1-4) att] by blast
  show ?thesis
  proof (cases a)
    case (Some b)
    then show ?thesis using f op run assms(5) by (auto simp: operation_phase_workflow_def settled_states_def)
  next
    case None
    have reach1: "reachable \<lparr>s_world = h_world h1, s_claims = C'\<rparr>" using ledger.reach_steps [OF assms(1) run] .
    have wf1: "wf (h_world h1)" using reachable_wf [OF reach1] by simp
    have "sys_inv \<lparr>s_world = h_world h, s_claims = C\<rparr>" using ledger.reach_inv [OF assms(1)] .
    from ledger.steps_rel [OF run this] have sq: "db_sqlite (cfg (h_world h1))"
      using assms(2) by (simp add: evolves_def)
    obtain r where r: "op_find i (h_world h1) = Some r" "r_body r = op" using op(1) by (auto simp: op_body_def)
    have ok: "row_ok r" "r_id r = i" using op_find_row_ok [OF wf1 r(1)] by simp_all
    obtain u where u: "interrupted i p t (h_world h1) = (Inr (), u)"
    proof -
      have "fst (interrupted_tx i p t w) = Inr ()" for w
        by (simp add: interrupted_tx_def Let_def split: option.split)
      then have "fst (interrupted i p t (h_world h1)) = Inr ()"
        using sq by (auto simp: interrupted_def connect_def split: prod.split sum.split) (metis fst_conv sum.distinct(1))+
      then show thesis using that by (cases "interrupted i p t (h_world h1)") auto
    qed
    have "ledger_step \<lparr>s_world = h_world h1, s_claims = C'\<rparr> \<lparr>s_world = u, s_claims = C'\<rparr>"
      using ls_interrupted [of "\<lparr>s_world = h_world h1, s_claims = C'\<rparr>" i p t] by (simp add: u)
    with run have "steps ledger_step \<lparr>s_world = h_world h, s_claims = C\<rparr> \<lparr>s_world = u, s_claims = C'\<rparr>"
      by (rule steps_step)
    moreover have "operation_phase_workflow f i name t h = (Inr (), h1\<lparr>h_world := u\<rparr>)"
      using f None assms(5) u by (simp add: operation_phase_workflow_def mark_operation_uncertain_def on_ledger_def)
    moreover have "\<exists>op' s. op_body i u = Some op' \<and> d_state op' = Some s \<and> s \<in> settled_states"
      using interrupted_body [OF u r(1)] ok r(2) op(2,3) by (auto simp: row_ok_def settled_states_def split: if_splits)
    ultimately show ?thesis unfolding settled_states_def by fastforce
  qed
qed

text \<open>A worker that dies right after its claim.\<close>

definition dying_worker :: "string \<Rightarrow> phase \<Rightarrow> host \<Rightarrow> bool option \<times> host" where
  "dying_worker i p h = (case claim i p 20 (h_world h) of
      (Inr (Some op), w) \<Rightarrow> (None, h\<lparr>h_world := w\<rparr>)
    | _ \<Rightarrow> (None, h))"

lemma dying_worker_attempt: "single_attempt e i (dying_worker i)"
  by (auto simp: single_attempt_def dying_worker_def intro: at_unstarted at_lost
      split: prod.split sum.split option.split)

theorem phase_settles_its_operation_witness:
  "\<exists>h' op st. operation_phase_workflow (dying_worker ''op_1'') ''op_1'' ''plan'' 90 (net_host (demo_world net_op net_resource 1)) = (Inr (), h') \<and>
    op_body ''op_1'' (h_world h') = Some op \<and> d_state op = Some st \<and> st \<in> {Planned, Succeeded, Failed, Uncertain}"
proof -
  let ?h = "net_host (demo_world net_op net_resource 1)"
  have w: "h_world ?h = demo_world net_op net_resource 1" by (simp add: net_host_def)
  have "reachable \<lparr>s_world = h_world ?h, s_claims = []\<rparr>"
    using net_reachable(1) by (simp only: w demo_sys_def)
  moreover have "db_sqlite (cfg (h_world ?h))" "op_find ''op_1'' (h_world ?h) = Some (demo_row net_op)"
    unfolding w by (simp_all add: demo_world_simps demo_settings_def)
  moreover have "r_state (demo_row net_op) = fst (phase_states Plan_phase)"
    by (simp add: demo_world_simps phase_states_def net_op_def demo_op_def)
  moreover have "phase_named ''plan'' = Some Plan_phase" by (simp add: phase_named_def)
  ultimately show ?thesis
    using phase_settles_its_operation [OF _ _ _ _ _ dying_worker_attempt [of net_engine]] by blast
qed

end
