(* ===== verification/Api.thy ===== *)
theory Api
  imports Workflows Inventory
begin

text \<open>
  The request handlers of \<^verbatim>\<open>app/main.py\<close> that change something or read one record: what a handler does
  to the ledger, which workflows it asks the dispatcher (\<^verbatim>\<open>app/dispatch.py\<close>) for, and what it answers. The state is
  the ledger and every dispatch asked for, in order; a \<open>service\<close> says of the n-th call whether it is
  confirmed (an unconfirmed one may have reached the service all the same). The statements of
  one handler run without another request in between; requests come in any order.
\<close>

section \<open>Dispatch\<close>

datatype work = Phase_of string phase | Rollout_of string | Teardown_of string

definition phase_text :: "phase \<Rightarrow> string" where
  "phase_text p = (case p of Plan_phase \<Rightarrow> ''plan'' | Apply_phase \<Rightarrow> ''apply'')"

text \<open>The workflow each of \<^verbatim>\<open>dispatch\<close>, \<^verbatim>\<open>dispatch_app\<close> and \<^verbatim>\<open>dispatch_teardown\<close> starts.\<close>

definition work_id :: "work \<Rightarrow> string" where
  "work_id k = (case k of
      Phase_of i p \<Rightarrow> workflow_id i (phase_text p)
    | Rollout_of i \<Rightarrow> app_workflow_id i
    | Teardown_of i \<Rightarrow> app_teardown_workflow_id i)"

type_synonym service = "nat \<Rightarrow> bool"

record api =
  a_world :: world
  a_sent :: "work list"

definition send :: "service \<Rightarrow> work \<Rightarrow> api \<Rightarrow> bool \<times> api" where
  "send svc k a = (svc (length (a_sent a)), a\<lparr>a_sent := a_sent a @ [k]\<rparr>)"

text \<open>In order, until a call is not confirmed; that call.\<close>

fun send_all :: "service \<Rightarrow> work list \<Rightarrow> api \<Rightarrow> work option \<times> api" where
  "send_all svc [] a = (None, a)"
| "send_all svc (k # ks) a = (case send svc k a of
      (True, a1) \<Rightarrow> send_all svc ks a1
    | (False, a1) \<Rightarrow> (Some k, a1))"

section \<open>Answers\<close>

text \<open>A refusal with its status (\<open>None\<close>: an exception without a handler, 500), \<^verbatim>\<open>dispatch_unconfirmed\<close> for the
  operation or app, or the view.\<close>

datatype 'v answer = Refused_with "nat option" | Unconfirmed string | Answered 'v

definition post :: "string \<Rightarrow> string \<Rightarrow> ev_action" where
  "post pre route = Ev_request (''POST '' @ pre @ route)"

definition handled :: "string \<Rightarrow> ev_action \<Rightarrow> nat \<Rightarrow> 'a tx \<Rightarrow> api \<Rightarrow> (nat option + 'a) \<times> api" where
  "handled who act t h a = (case respond who act t h (a_world a) of (r, w) \<Rightarrow> (r, a\<lparr>a_world := w\<rparr>))"

definition view_op :: "string \<Rightarrow> doc \<Rightarrow> api \<Rightarrow> op_view" where
  "view_op pre op a = public_operation (plan_max_age (cfg (a_world a))) op pre"

text \<open>An accepted operation that waits for phase \<open>p\<close> is dispatched, then shown.\<close>

definition dispatched ::
  "service \<Rightarrow> string \<Rightarrow> phase \<Rightarrow> (nat option + doc) \<times> api \<Rightarrow> op_view answer \<times> api" where
  "dispatched svc pre p = (\<lambda>(r, a). case r of
      Inl n \<Rightarrow> (Refused_with n, a)
    | Inr op \<Rightarrow>
        if d_state op = Some (fst (phase_states p))
        then (case send svc (Phase_of (d_id op) p) a of
                (True, a1) \<Rightarrow> (Answered (view_op pre op a1), a1)
              | (False, a1) \<Rightarrow> (Unconfirmed (d_id op), a1))
        else (Answered (view_op pre op a), a))"

section \<open>Operations\<close>

definition submit_intent ::
  "ext \<Rightarrow> service \<Rightarrow> string \<Rightarrow> intent \<Rightarrow> caller \<Rightarrow> string \<Rightarrow> nat \<Rightarrow> string \<times> string \<Rightarrow> api \<Rightarrow> op_view answer \<times> api" where
  "submit_intent x svc pre body c key t fresh a =
     dispatched svc pre Plan_phase
       (handled (caller_id c) (post pre ''/operations'') t (accept_intent x body c key t fresh) a)"

definition promote_resource ::
  "ext \<Rightarrow> service \<Rightarrow> string \<Rightarrow> string \<Rightarrow> promote \<Rightarrow> caller \<Rightarrow> string \<Rightarrow> nat \<Rightarrow> string \<times> string \<Rightarrow> api \<Rightarrow> op_view answer \<times> api" where
  "promote_resource x svc pre rid body c key t fresh a =
     dispatched svc pre Plan_phase
       (handled (caller_id c) (post pre ''/resources/{resource_id}/promote'') t (promotion_accept x rid body c key t fresh) a)"

definition upgrade_resource ::
  "ext \<Rightarrow> service \<Rightarrow> string \<Rightarrow> string \<Rightarrow> upgrade \<Rightarrow> caller \<Rightarrow> string \<Rightarrow> nat \<Rightarrow> string \<times> string \<Rightarrow> api \<Rightarrow> op_view answer \<times> api" where
  "upgrade_resource x svc pre rid body c key t fresh a =
     dispatched svc pre Plan_phase
       (handled (caller_id c) (post pre ''/resources/{resource_id}/upgrade'') t (accept_upgrade x rid body c key t fresh) a)"

definition check_drift ::
  "ext \<Rightarrow> service \<Rightarrow> string \<Rightarrow> string \<Rightarrow> caller \<Rightarrow> string \<Rightarrow> nat \<Rightarrow> string \<times> string \<Rightarrow> api \<Rightarrow> op_view answer \<times> api" where
  "check_drift x svc pre rid c key t fresh a =
     dispatched svc pre Plan_phase
       (handled (caller_id c) (post pre ''/resources/{resource_id}/drift-check'') t (drift_accept x rid c key t fresh) a)"

definition execute_operation ::
  "ext \<Rightarrow> service \<Rightarrow> string \<Rightarrow> string \<Rightarrow> string \<Rightarrow> caller \<Rightarrow> nat \<Rightarrow> api \<Rightarrow> op_view answer \<times> api" where
  "execute_operation x svc pre i digest c t a =
     dispatched svc pre Apply_phase
       (handled (caller_id c) (post pre ''/operations/{operation_id}/execute'') t (accept_execution x i digest c t) a)"

definition shown :: "string \<Rightarrow> (nat option + doc) \<times> api \<Rightarrow> op_view answer \<times> api" where
  "shown pre = (\<lambda>(r, a). (case r of Inl n \<Rightarrow> Refused_with n | Inr op \<Rightarrow> Answered (view_op pre op a), a))"

definition discard_handler :: "ext \<Rightarrow> string \<Rightarrow> string \<Rightarrow> caller \<Rightarrow> nat \<Rightarrow> api \<Rightarrow> op_view answer \<times> api" where
  "discard_handler x pre i c t a =
     shown pre (handled (caller_id c) (post pre ''/operations/{operation_id}/discard'') t (discard_operation x i c t) a)"

definition reconcile_handler ::
  "ext \<Rightarrow> string \<Rightarrow> string \<Rightarrow> outcome \<Rightarrow> string \<Rightarrow> caller \<Rightarrow> nat \<Rightarrow> api \<Rightarrow> op_view answer \<times> api" where
  "reconcile_handler x pre i outc why c t a =
     shown pre (handled (caller_id c) (post pre ''/operations/{operation_id}/reconcile'') t
       (reconcile_operation x i outc why c t) a)"

text \<open>\<^verbatim>\<open>validate_intent\<close>, which writes nothing and is not audited: pattern, version, commit and estimate.\<close>

definition validate_intent :: "ext \<Rightarrow> intent \<Rightarrow> caller \<Rightarrow> world \<Rightarrow> err + string \<times> string option \<times> string option \<times> json" where
  "validate_intent x body c w =
     sbind (validate x w body c) (\<lambda>(d, b). Inr (p_pattern (d_def d), p_version (d_def d), p_commit (d_def d), d_cost d))"

section \<open>Apps\<close>

text \<open>What follows an app request: the dispatches \<open>todo\<close> names (the code names them inside the same
  \<^verbatim>\<open>try\<close>, so an exception there counts as unconfirmed too), then the view.\<close>

definition view_app :: "app \<Rightarrow> api \<Rightarrow> app_view answer \<times> api" where
  "view_app ap a = (case public_app ap (load_ops ap (a_world a)) of
      Inl e \<Rightarrow> (Refused_with None, a) | Inr v \<Rightarrow> (Answered v, a))"

definition app_dispatched ::
  "service \<Rightarrow> (app \<Rightarrow> ops \<Rightarrow> err + work list) \<Rightarrow> (nat option + app) \<times> api \<Rightarrow> app_view answer \<times> api" where
  "app_dispatched svc todo = (\<lambda>(r, a). case r of
      Inl n \<Rightarrow> (Refused_with n, a)
    | Inr ap \<Rightarrow>
        (case todo ap (load_ops ap (a_world a)) of
           Inl e \<Rightarrow> (Unconfirmed (ap_id ap), a)
         | Inr ks \<Rightarrow>
            (case send_all svc ks a of
               (Some k, a1) \<Rightarrow> (Unconfirmed (ap_id ap), a1)
             | (None, a1) \<Rightarrow> view_app ap a1)))"

definition plan_queued :: "app \<Rightarrow> ops \<Rightarrow> err + work list" where
  "plan_queued ap ops = sbind (queued_ids ap ops) (\<lambda>is. Inr (map (\<lambda>i. Phase_of i Plan_phase) is))"

definition rollout_todo :: "app \<Rightarrow> ops \<Rightarrow> err + work list" where
  "rollout_todo ap ops = sbind (plan_queued ap ops) (\<lambda>ks. Inr (ks @ [Rollout_of (ap_id ap)]))"

text \<open>\<^verbatim>\<open>destroy_app\<close> dispatches the queued plans first; only then is the state derived.\<close>

definition teardown_todo :: "app \<Rightarrow> ops \<Rightarrow> err + work list" where
  "teardown_todo ap ops = sbind (derive_state ap ops) (\<lambda>s.
     Inr (if s \<noteq> A_destroyed \<and> s \<noteq> A_failed then [Teardown_of (ap_id ap)] else []))"

definition submit_app ::
  "ext \<Rightarrow> service \<Rightarrow> string \<Rightarrow> app_intent \<Rightarrow> caller \<Rightarrow> string \<Rightarrow> nat \<Rightarrow> string \<Rightarrow> (string \<times> string) list \<Rightarrow> api
     \<Rightarrow> app_view answer \<times> api" where
  "submit_app x svc pre body c key t app_id fresh a =
     app_dispatched svc rollout_todo
       (handled (caller_id c) (post pre ''/apps'') t (apps_accept x body c key t app_id fresh) a)"

definition accept_approval :: "ext \<Rightarrow> string \<Rightarrow> (string \<times> string) list \<Rightarrow> caller \<Rightarrow> nat \<Rightarrow> (app \<times> doc list) tx" where
  "accept_approval x app_id digests c t w =
    (case sbind (reading w (app_find app_id w)) (\<lambda>found. authorize_app w found c) of
       Inl e \<Rightarrow> (Inl e, w)
     | Inr ap \<Rightarrow>
        (case approve x ap digests c t w of
           (Inl e, w1) \<Rightarrow> (Inl e, w1)
         | (Inr queued, w1) \<Rightarrow> (Inr (ap, queued), w1)))"

definition apply_todo :: "doc list \<Rightarrow> work list" where
  "apply_todo queued = map (\<lambda>op. Phase_of (d_id op) Apply_phase) (filter (\<lambda>op. d_state op = Some Apply_queued) queued)"

definition approve_app ::
  "ext \<Rightarrow> service \<Rightarrow> string \<Rightarrow> string \<Rightarrow> (string \<times> string) list \<Rightarrow> caller \<Rightarrow> nat \<Rightarrow> api \<Rightarrow> app_view answer \<times> api" where
  "approve_app x svc pre app_id digests c t a =
    (case handled (caller_id c) (post pre ''/apps/{app_id}/approve'') t (accept_approval x app_id digests c t) a of
       (Inl n, a1) \<Rightarrow> (Refused_with n, a1)
     | (Inr (ap, queued), a1) \<Rightarrow>
        (case send_all svc (apply_todo queued) a1 of
           (Some k, a2) \<Rightarrow> (Unconfirmed (case k of Phase_of i p \<Rightarrow> i | _ \<Rightarrow> app_id), a2)
         | (None, a2) \<Rightarrow> view_app ap a2))"

definition failover_app ::
  "ext \<Rightarrow> service \<Rightarrow> string \<Rightarrow> string \<Rightarrow> nat \<Rightarrow> caller \<Rightarrow> string \<Rightarrow> nat \<Rightarrow> string \<times> string \<Rightarrow> api
     \<Rightarrow> app_view answer \<times> api" where
  "failover_app x svc pre app_id primary c key t fresh a =
    (case handled (caller_id c) (post pre ''/apps/{app_id}/failover'') t (failover x app_id primary c key t fresh) a of
       (Inl n, a1) \<Rightarrow> (Refused_with n, a1)
     | (Inr (ap, i), a1) \<Rightarrow>
        (case load_ops ap (a_world a1) i of
           None \<Rightarrow> (Refused_with None, a1)
         | Some op \<Rightarrow>
            if d_state op = Some Queued
            then (case send svc (Phase_of (d_id op) Plan_phase) a1 of
                    (True, a2) \<Rightarrow> view_app ap a2
                  | (False, a2) \<Rightarrow> (Unconfirmed (d_id op), a2))
            else view_app ap a1))"

definition destroy_app ::
  "ext \<Rightarrow> service \<Rightarrow> string \<Rightarrow> string \<Rightarrow> caller \<Rightarrow> string \<Rightarrow> nat \<Rightarrow> string \<times> string \<Rightarrow> api \<Rightarrow> app_view answer \<times> api" where
  "destroy_app x svc pre app_id c key t fresh a =
    (case handled (caller_id c) (post pre ''/apps/{app_id}/destroy'') t (app_destroy x app_id c key t fresh) a of
       (Inl n, a1) \<Rightarrow> (Refused_with n, a1)
     | (Inr (ap, router), a1) \<Rightarrow>
        (case plan_queued ap (load_ops ap (a_world a1)) of
           Inl e \<Rightarrow> (Unconfirmed app_id, a1)
         | Inr ks \<Rightarrow>
            (case send_all svc ks a1 of
               (Some k, a2) \<Rightarrow> (Unconfirmed app_id, a2)
             | (None, a2) \<Rightarrow> app_dispatched svc teardown_todo (Inr ap, a2))))"

definition discard_app :: "ext \<Rightarrow> string \<Rightarrow> string \<Rightarrow> caller \<Rightarrow> nat \<Rightarrow> api \<Rightarrow> app_view answer \<times> api" where
  "discard_app x pre app_id c t a =
    (case handled (caller_id c) (post pre ''/apps/{app_id}/discard'') t (app_discard x app_id c t) a of
       (Inl n, a1) \<Rightarrow> (Refused_with n, a1)
     | (Inr (ap, ids), a1) \<Rightarrow> view_app ap a1)"

section \<open>Reads\<close>

definition read_app :: "string \<Rightarrow> caller \<Rightarrow> world \<Rightarrow> err + app_view" where
  "read_app app_id c w =
     sbind (reading w (app_find app_id w)) (\<lambda>found. sbind (authorize_app w found c) (\<lambda>ap. public_app ap (load_ops ap w)))"

record app_page =
  pg_items :: "app_view list"
  pg_next_after :: "string option"

definition app_page_of :: "caller \<Rightarrow> string option \<Rightarrow> nat \<Rightarrow> world \<Rightarrow> err + app_page" where
  "app_page_of c start n w =
    (let items = list_apps (caller_id c) (caller_units w c) start (n + 1) w; page = take n items in
     sbind (smap (\<lambda>ap. public_app ap (load_ops ap w)) page) (\<lambda>vs.
     Inr \<lparr>pg_items = vs, pg_next_after = (if n < length items then Some (ap_id (last page)) else None)\<rparr>))"

definition read_operation :: "ext \<Rightarrow> string \<Rightarrow> string \<Rightarrow> caller \<Rightarrow> world \<Rightarrow> err + op_view" where
  "read_operation x pre i c w =
     sbind (get_operation i w) (\<lambda>rcd. sbind (authorize x w rcd c False) (\<lambda>op.
     Inr (public_operation (plan_max_age (cfg w)) op pre)))"

text \<open>\<^verbatim>\<open>get_operation\<close>: reads until the next action is no longer to poll, or the deadline. \<open>rd k\<close> is the k-th
  read, \<open>clock 0\<close> the monotonic clock in milliseconds that sets the deadline and \<open>clock k\<close> the one looked at
  before the pause and the k-th read: other requests and the worker move the ledger in between.\<close>

partial_function (option) long_poll ::
  "(nat \<Rightarrow> err + op_view) \<Rightarrow> (nat \<Rightarrow> nat) \<Rightarrow> nat \<Rightarrow> nat \<Rightarrow> op_view \<Rightarrow> ((err + op_view) \<times> nat) option" where
  "long_poll rd clock deadline k current =
    (if v_next_action current = Poll \<and> clock k < deadline
     then (case rd k of
             Inl e \<Rightarrow> Some (Inl e, k)
           | Inr v \<Rightarrow> long_poll rd clock deadline (k + 1) v)
     else Some (Inr current, k - 1))"

definition wait_operation ::
  "(nat \<Rightarrow> err + op_view) \<Rightarrow> (nat \<Rightarrow> nat) \<Rightarrow> nat \<Rightarrow> ((err + op_view) \<times> nat) option" where
  "wait_operation rd clock wait =
    (case rd 0 of
       Inl e \<Rightarrow> Some (Inl e, 0)
     | Inr v \<Rightarrow> if wait = 0 then Some (Inr v, 0) else long_poll rd clock (clock 0 + wait * 1000) 1 v)"

section \<open>Team administration\<close>

definition operator_only :: "caller \<Rightarrow> 'a tx \<Rightarrow> 'a tx" where
  "operator_only c h w = (if is_operator w c then h w else (Inl (HTTPException 403), w))"

text \<open>The audited action: the route until the handler names the team (\<^verbatim>\<open>_audit_as\<close>), which it does once the
  caller is known to be an operator.\<close>

definition admin_act :: "world \<Rightarrow> caller \<Rightarrow> string \<Rightarrow> string \<Rightarrow> string option \<Rightarrow> ev_action" where
  "admin_act w c route verb name =
     Ev_request (if is_operator w c
       then ''team.'' @ verb @ (case name of None \<Rightarrow> [] | Some n \<Rightarrow> if n = [] then [] else '' '' @ n)
       else route)"

definition admin :: "caller \<Rightarrow> string \<Rightarrow> string \<Rightarrow> string option \<Rightarrow> nat \<Rightarrow> 'a tx \<Rightarrow> api \<Rightarrow> (nat option + 'a) \<times> api" where
  "admin c route verb name t h a = handled (caller_id c) (admin_act (a_world a) c route verb name) t (operator_only c h) a"

definition admin_create_team where
  "admin_create_team x e pre c (b :: team_create) t =
     admin c (''POST '' @ pre @ ''/admin/teams'') ''create'' (Some (cr_name b)) t (create_team x e (caller_id c) b t)"

definition admin_replace_team where
  "admin_replace_team x e pre c name b if_match t =
     admin c (''PUT '' @ pre @ ''/admin/teams/{name}'') ''update'' (Some name) t
       (replace_team x e (caller_id c) name b if_match t)"

definition admin_revert_team where
  "admin_revert_team x e pre c name b if_match t =
     admin c (''POST '' @ pre @ ''/admin/teams/{name}/revert'') ''revert'' (Some name) t
       (revert_team x e (caller_id c) name b if_match t)"

definition admin_archive_team where
  "admin_archive_team pre c name b if_match t =
     admin c (''POST '' @ pre @ ''/admin/teams/{name}/archive'') ''archive'' (Some name) t
       (archive_team (caller_id c) name b if_match t)"

definition admin_unarchive_team where
  "admin_unarchive_team x e pre c name why if_match t =
     admin c (''POST '' @ pre @ ''/admin/teams/{name}/unarchive'') ''unarchive'' (Some name) t
       (unarchive_team x e (caller_id c) name why if_match t)"

definition admin_import_teams where
  "admin_import_teams x e pre c b t =
     admin c (''POST '' @ pre @ ''/admin/teams/import'') ''import'' None t (import_teams x e (caller_id c) b t)"

end
