(* ===== verification/ApiRuns.thy ===== *)
theory ApiRuns
  imports Api WorkflowProperties FailoverProperties TeamProperties
begin

text \<open>
  The API on top of the ledger: every handler, whatever it is asked and whoever asks, is a run of ledger
  steps (\<open>ledger_run\<close>, with one rule per operation in the collection \<open>ledger_runs\<close>); what
  each asks the dispatcher for waits in the ledger it leaves; an accepted request is answered from the
  record when it is repeated.
\<close>

section \<open>Runs of the ledger\<close>

named_theorems ledger_runs

definition ledger_run :: "world \<Rightarrow> world \<Rightarrow> bool" where
  "ledger_run w w' \<longleftrightarrow> (\<forall>C. steps ledger_step \<lparr>s_world = w, s_claims = C\<rparr> \<lparr>s_world = w', s_claims = C\<rparr>)"

lemma ledger_run_refl [simp, ledger_runs]: "ledger_run w w"
  by (simp add: ledger_run_def steps_refl)

lemma ledger_run_trans: "ledger_run u v \<Longrightarrow> ledger_run v w \<Longrightarrow> ledger_run u w"
  unfolding ledger_run_def by (blast intro: steps_trans)

lemma ledger_run_step:
  assumes "\<And>s. ledger_step s (s\<lparr>s_world := f (s_world s)\<rparr>)"
  shows "ledger_run w (f w)"
  unfolding ledger_run_def
proof
  fix C
  show "steps ledger_step \<lparr>s_world = w, s_claims = C\<rparr> \<lparr>s_world = f w, s_claims = C\<rparr>"
    using assms [of "\<lparr>s_world = w, s_claims = C\<rparr>"] by (simp add: steps_single)
qed

lemma run_accept [ledger_runs]: "ledger_run w (snd (accept who key i res b gs t fresh w))"
  by (rule ledger_run_step) (rule ls_accept)

lemma run_execute [ledger_runs]: "ledger_run w (snd (execute i digest who t w))"
  by (rule ledger_run_step) (rule ls_execute)

lemma run_execute_many [ledger_runs]: "ledger_run w (snd (execute_many items who a t w))"
  by (rule ledger_run_step) (rule ls_execute_many)

lemma run_discard [ledger_runs]: "ledger_run w (snd (discard i who t w))"
  by (rule ledger_run_step) (rule ls_discard)

lemma run_reconcile [ledger_runs]: "ledger_run w (snd (reconcile i who outc why t w))"
  by (rule ledger_run_step) (rule ls_reconcile)

lemma run_refused [ledger_runs]: "ledger_run w (snd (refused who act t w))"
  by (rule ledger_run_step) (rule ls_refused)

lemma run_accept_app [ledger_runs]:
  "unlinked base \<Longrightarrow> ledger_run w (snd (accept_app who key m rs base t i fr w))"
  by (rule ledger_run_step) (rule ls_accept_app)

lemma run_failover [ledger_runs]: "ledger_run w (snd (accept_failover who i key m router pr u t fresh w))"
  by (rule ledger_run_step) (rule ls_failover)

lemma run_teardown [ledger_runs]: "ledger_run w (snd (accept_teardown cl i key m router u t fresh w))"
  by (rule ledger_run_step) (rule ls_teardown)

lemma run_app_event [ledger_runs]: "ledger_run w (snd (record_app_event i who act out t w))"
  by (rule ledger_run_step) (rule ls_app_event)

lemma run_teams [ledger_runs]:
  "ledger_run w (snd (create_team x e who cb t w))" "ledger_run w (snd (replace_team x e who n rb h t w))"
  "ledger_run w (snd (revert_team x e who n vb h t w))" "ledger_run w (snd (archive_team who n ab h t w))"
  "ledger_run w (snd (unarchive_team x e who n why h t w))"
  by (rule ledger_run_step, rule ls_create_team ls_replace_team ls_revert_team ls_archive_team ls_unarchive_team)+

lemma run_import [ledger_runs]:
  "distinct (map fst (fst (parse_mapping (ce_yaml e (im_yaml b))))) \<Longrightarrow> ledger_run w (snd (import_teams x e who b t w))"
  by (rule ledger_run_step) (rule ls_import_teams)

section \<open>Handlers\<close>

lemma run_submit [ledger_runs]: "ledger_run w (snd (submit known prepared who key m gs t fresh w))"
  by (auto simp: submit_def run_accept split: sum.split option.split)

lemma run_requests [ledger_runs]:
  "ledger_run w (snd (accept_intent x body c key t fresh w))" "ledger_run w (snd (promotion_accept x rid pb c key t fresh w))"
  "ledger_run w (snd (accept_upgrade x rid ub c key t fresh w))" "ledger_run w (snd (drift_accept x rid c key t fresh w))"
  by (simp_all add: accept_intent_def promotion_accept_def accept_upgrade_def drift_accept_def run_submit)

lemma run_operations [ledger_runs]:
  "ledger_run w (snd (accept_execution x i digest c t w))" "ledger_run w (snd (discard_operation x i c t w))"
  "ledger_run w (snd (reconcile_operation x i outc why c t w))"
  by (auto simp: accept_execution_def discard_operation_def reconcile_operation_def ledger_runs split: sum.split)

lemma run_approval [ledger_runs]: "ledger_run w (snd (accept_approval x i digests c t w))"
proof -
  have "ledger_run w (snd (approve x a digests c t w))" for a
    by (auto simp: approve_def Let_def run_execute_many split: sum.split)
  then show ?thesis by (auto simp: accept_approval_def split: sum.split prod.split) (metis snd_conv)+
qed

lemma unlinked_base:
  assumes "prepare_app x w body c = Inr (base, rs)"
  shows "unlinked base"
proof -
  let ?ok = "\<lambda>ys. (case ys of [] \<Rightarrow> Inl TypeError
      | (i, d, b) # rest \<Rightarrow> Inr ((app_base body c)\<lparr>ap_business_unit := p_business_unit (d_def d),
          ap_environment := p_environment (d_def d)\<rparr>, ys)) = (Inr (base, rs) :: err + _)"
  obtain ys where "?ok ys" using assms by (auto simp: prepare_app_def sbind_Inr_iff Let_def)
  then show ?thesis by (cases ys) (auto simp: unlinked_def app_base_def)
qed

lemma run_apps_accept [ledger_runs]: "ledger_run w (snd (apps_accept x body c key t i fresh w))"
  by (auto simp: apps_accept_def run_accept_app dest: unlinked_base split: sum.split option.split)

lemma run_app_failover [ledger_runs]: "ledger_run w (snd (failover x i pr c key t fresh w))"
  by (auto simp: failover_def run_failover split: sum.split option.split)

lemma run_app_destroy [ledger_runs]: "ledger_run w (snd (app_destroy x i c key t fresh w))"
  by (auto simp: app_destroy_def start_teardown_def run_teardown split: sum.split option.split)

lemma run_discard_all: "ledger_run w (snd (discard_all is who t w))"
proof (induction "is" arbitrary: w)
  case (Cons i "is")
  obtain r v where d: "discard i who t w = (r, v)" by fastforce
  then have "ledger_run w v" using run_discard [of w i who t] by simp
  with Cons [of v] d show ?case by (auto intro: ledger_run_trans split: sum.split)
qed simp

lemma run_app_discard [ledger_runs]: "ledger_run w (snd (app_discard x i c t w))"
proof -
  have "ledger_run w (snd (discard_planned i planned who t w))" for planned who
  proof -
    obtain r v where d: "record_app_event i who Ev_app_discard Accepted t w = (r, v)" by fastforce
    then have "ledger_run w v" using run_app_event [of w i who Ev_app_discard Accepted t] by simp
    with run_discard_all [of v planned who t] d show ?thesis
      by (auto simp: discard_planned_def intro: ledger_run_trans split: sum.split)
  qed
  then show ?thesis by (auto simp: app_discard_def Let_def split: sum.split prod.split) (metis snd_conv)+
qed

lemma run_handled:
  assumes "\<And>w. ledger_run w (snd (h w))"
  shows "ledger_run (a_world a) (a_world (snd (handled who act t h a)))"
proof -
  obtain r v where h: "h (a_world a) = (r, v)" by fastforce
  have 1: "ledger_run (a_world a) v" using assms [of "a_world a"] h by simp
  obtain q u where q: "refused who act t v = (q, u)" by fastforce
  have 2: "ledger_run v u" using run_refused [of v who act t] q by simp
  show ?thesis using 1 ledger_run_trans [OF 1 2]
    by (auto simp: handled_def respond_def h q split: sum.split option.split)
qed

lemma run_operator_only [ledger_runs]: "(\<And>w. ledger_run w (snd (h w))) \<Longrightarrow> ledger_run w (snd (operator_only c h w))"
  by (simp add: operator_only_def)

section \<open>Every request is a run of ledger steps\<close>

text \<open>A mutating request, of any kind and with any arguments. The mapping file of an import has distinct
  keys, as its parser returns them.\<close>

inductive request :: "ext \<Rightarrow> check_env \<Rightarrow> service \<Rightarrow> api \<Rightarrow> api \<Rightarrow> bool" for x e svc where
  rq_submit: "submit_intent x svc pre body c key t fresh a = (r, a') \<Longrightarrow> request x e svc a a'"
| rq_promote: "promote_resource x svc pre rid pb c key t fresh a = (r, a') \<Longrightarrow> request x e svc a a'"
| rq_upgrade: "upgrade_resource x svc pre rid ub c key t fresh a = (r, a') \<Longrightarrow> request x e svc a a'"
| rq_drift: "check_drift x svc pre rid c key t fresh a = (r, a') \<Longrightarrow> request x e svc a a'"
| rq_execute: "execute_operation x svc pre i digest c t a = (r, a') \<Longrightarrow> request x e svc a a'"
| rq_discard: "discard_handler x pre i c t a = (r, a') \<Longrightarrow> request x e svc a a'"
| rq_reconcile: "reconcile_handler x pre i outc why c t a = (r, a') \<Longrightarrow> request x e svc a a'"
| rq_app: "submit_app x svc pre ab c key t app_id fs a = (q, a') \<Longrightarrow> request x e svc a a'"
| rq_approve: "approve_app x svc pre app_id digests c t a = (q, a') \<Longrightarrow> request x e svc a a'"
| rq_failover: "failover_app x svc pre app_id pr c key t fresh a = (q, a') \<Longrightarrow> request x e svc a a'"
| rq_destroy: "destroy_app x svc pre app_id c key t fresh a = (q, a') \<Longrightarrow> request x e svc a a'"
| rq_app_discard: "discard_app x pre app_id c t a = (q, a') \<Longrightarrow> request x e svc a a'"
| rq_create_team: "admin_create_team x e pre c cb t a = (v, a') \<Longrightarrow> request x e svc a a'"
| rq_replace_team: "admin_replace_team x e pre c n rb h t a = (v, a') \<Longrightarrow> request x e svc a a'"
| rq_revert_team: "admin_revert_team x e pre c n vb h t a = (v, a') \<Longrightarrow> request x e svc a a'"
| rq_archive_team: "admin_archive_team pre c n hb h t a = (v, a') \<Longrightarrow> request x e svc a a'"
| rq_unarchive_team: "admin_unarchive_team x e pre c n why h t a = (v, a') \<Longrightarrow> request x e svc a a'"
| rq_import_teams: "distinct (map fst (fst (parse_mapping (ce_yaml e (im_yaml ib))))) \<Longrightarrow>
    admin_import_teams x e pre c ib t a = (m, a') \<Longrightarrow> request x e svc a a'"

lemma send_world [simp]: "a_world (snd (send svc k a)) = a_world a"
  by (simp add: send_def)

lemma send_all_world [simp]: "a_world (snd (send_all svc ks a)) = a_world a"
proof (induction ks arbitrary: a)
  case (Cons k ks)
  obtain b a1 where "send svc k a = (b, a1)" by fastforce
  with send_world [of svc k a] Cons [of a1] show ?case by (cases b) simp_all
qed simp

lemma view_app_api [simp]: "snd (view_app ap a) = a"
  by (simp add: view_app_def split: sum.split)

lemma dispatched_world [simp]: "a_world (snd (dispatched svc pre p ra)) = a_world (snd ra)"
proof (cases ra)
  case (Pair r a)
  have "a_world a1 = a_world a" if "send svc k a = (b, a1)" for k b a1 using send_world [of svc k a] that by simp
  then show ?thesis by (auto simp: dispatched_def Pair split: sum.split prod.split bool.split)
qed

lemma app_dispatched_world [simp]: "a_world (snd (app_dispatched svc todo ra)) = a_world (snd ra)"
proof (cases ra)
  case (Pair r a)
  have "a_world a1 = a_world a" if "send_all svc ks a = (b, a1)" for ks b a1 using send_all_world [of svc ks a] that by simp
  then show ?thesis by (auto simp: app_dispatched_def Pair split: sum.split prod.split option.split)
qed

lemma shown_api [simp]: "snd (shown pre ra) = snd ra"
  by (simp add: shown_def split: prod.split)

lemma approve_app_world:
  "a_world (snd (approve_app x svc pre i digests c t a)) =
   a_world (snd (handled (caller_id c) (post pre ''/apps/{app_id}/approve'') t (accept_approval x i digests c t) a))"
proof -
  have "a_world a2 = a_world a1" if "send_all svc ks a1 = (b, a2)" for ks b a1 a2
    using send_all_world [of svc ks a1] that by simp
  then show ?thesis by (auto simp: approve_app_def split: sum.split prod.split option.split)
qed

lemma failover_app_world:
  "a_world (snd (failover_app x svc pre i pr c key t fresh a)) =
   a_world (snd (handled (caller_id c) (post pre ''/apps/{app_id}/failover'') t (failover x i pr c key t fresh) a))"
proof -
  have "a_world a2 = a_world a1" if "send svc k a1 = (b, a2)" for k b a1 a2
    using send_world [of svc k a1] that by simp
  then show ?thesis by (auto simp: failover_app_def split: sum.split prod.split option.split bool.split)
qed

lemma destroy_app_world:
  "a_world (snd (destroy_app x svc pre i c key t fresh a)) =
   a_world (snd (handled (caller_id c) (post pre ''/apps/{app_id}/destroy'') t (app_destroy x i c key t fresh) a))"
proof -
  have "a_world a2 = a_world a1" if "send_all svc ks a1 = (b, a2)" for ks b a1 a2
    using send_all_world [of svc ks a1] that by simp
  then show ?thesis by (auto simp: destroy_app_def split: sum.split prod.split option.split)
qed

lemma discard_app_api:
  "snd (discard_app x pre i c t a) =
   snd (handled (caller_id c) (post pre ''/apps/{app_id}/discard'') t (app_discard x i c t) a)"
  by (auto simp: discard_app_def split: sum.split prod.split)

lemmas handler_defs = submit_intent_def promote_resource_def upgrade_resource_def check_drift_def
  execute_operation_def discard_handler_def reconcile_handler_def submit_app_def
  admin_create_team_def admin_replace_team_def admin_revert_team_def admin_archive_team_def
  admin_unarchive_team_def admin_import_teams_def admin_def

lemma request_run: "request x e svc a a' \<Longrightarrow> ledger_run (a_world a) (a_world a')"
proof (induction rule: request.induct)
qed (auto dest!: arg_cong [where f = "\<lambda>r. a_world (snd r)"] simp: handler_defs approve_app_world failover_app_world
    destroy_app_world discard_app_api dest: sym intro!: run_handled ledger_runs)

lemma requests_run: "steps (request x e svc) a a' \<Longrightarrow> ledger_run (a_world a) (a_world a')"
  by (induction rule: steps.induct) (auto intro: ledger_run_trans request_run)

section \<open>What is dispatched\<close>

text \<open>A transaction whose answer is the operation as it is stored.\<close>

definition answers_stored :: "doc tx \<Rightarrow> bool" where
  "answers_stored h \<longleftrightarrow> (\<forall>w op w'. wf w \<longrightarrow> h w = (Inr op, w') \<longrightarrow> op_body (d_id op) w' = Some op)"

lemma stored_row:
  assumes "wf w" "r \<in> set (operations w)"
  shows "op_body (d_id (r_body r)) w = Some (r_body r)"
proof -
  have f: "op_find (r_id r) w = Some r" using op_find_wf [OF assms(1)] assms(2) by simp
  then have "d_id (r_body r) = r_id r" using op_find_row_ok [OF assms(1) f] by (simp add: row_ok_def)
  with f show ?thesis by (simp add: op_body_def)
qed

lemma accept_stored:
  assumes "wf w" "accept who key i res b gs t fresh w = (Inr op, w')"
  shows "op_body (d_id op) w' = Some op"
proof -
  have "micros True w w'" using micros_accept [OF assms(1), of True who key i res b gs t fresh] assms(2) by simp
  then have "wf w'" using assms(1) by (rule micros_wf)
  then show ?thesis using accept_row [OF assms] stored_row by metis
qed

lemma replayed_stored:
  assumes "replayed x c key m w = Inr (Some op)"
  shows "\<exists>r \<in> set (operations w). r_body r = op"
proof -
  obtain d where "replay_tx (caller_id c) key (fingerprint m) w = Inr (Some d)" "authorize x w (Some d) c False = Inr op"
    using assms by (auto simp: replayed_def sbind_Inr_iff split: option.splits)
  moreover from this(2) have "op = d" by (auto simp: authorize_def split: if_splits)
  ultimately show ?thesis using replay_tx_SomeD by blast
qed

lemma submit_stored: "answers_stored (\<lambda>w. submit (replayed x c key m w) (prep w) who key' m' gs t fresh w)"
  unfolding answers_stored_def
proof (intro allI impI)
  fix w op w'
  assume wf: "wf w" and s: "submit (replayed x c key m w) (prep w) who key' m' gs t fresh w = (Inr op, w')"
  show "op_body (d_id op) w' = Some op"
  proof (cases "replayed x c key m w")
    case (Inr known)
    show ?thesis
    proof (cases known)
      case None
      then show ?thesis using s Inr wf by (auto simp: submit_def accept_stored split: sum.splits)
    next
      case (Some d)
      then have "w' = w" "d = op" using s Inr by (simp_all add: submit_def)
      then show ?thesis using replayed_stored [of x c key m w op] Inr Some stored_row [OF wf] by blast
    qed
  qed (use s in \<open>simp add: submit_def\<close>)
qed

lemma requests_stored:
  "answers_stored (accept_intent x body c key t fresh)" "answers_stored (promotion_accept x rid pb c key t fresh)"
  "answers_stored (accept_upgrade x rid ub c key t fresh)" "answers_stored (drift_accept x rid c key t fresh)"
  unfolding accept_intent_def [abs_def] promotion_accept_def [abs_def] accept_upgrade_def [abs_def]
    drift_accept_def [abs_def]
  by (rule submit_stored)+

lemma execute_stored:
  assumes "wf w" "execute i digest who t w = (Inr op, w')"
  shows "op_body (d_id op) w' = Some op"
proof -
  have "execute_tx i digest who t w = (Inr (op, False), w')"
    using assms(2) by (auto simp: execute_def split: prod.splits sum.splits if_splits dest!: connect_InrD)
  then have b: "op_body i w' = Some op" using execute_tx_ok [OF assms(1)] by blast
  have "micros True w w'" using micros_execute [OF assms(1), of True i digest who t] assms(2) by simp
  then have "wf w'" using assms(1) by (rule micros_wf)
  then show ?thesis using op_body_wf [OF _ b] b by fastforce
qed

lemma execution_stored: "answers_stored (accept_execution x i digest c t)"
  by (auto simp: answers_stored_def accept_execution_def execute_stored split: sum.splits)

text \<open>Work that waits: a phase is for an operation stored in the state the phase starts from.\<close>

definition waits :: "world \<Rightarrow> work \<Rightarrow> bool" where
  "waits w k \<longleftrightarrow> (case k of
      Phase_of i p \<Rightarrow> (\<exists>op. op_body i w = Some op \<and> d_state op = Some (fst (phase_states p)))
    | _ \<Rightarrow> True)"

definition sends_waiting :: "api \<Rightarrow> api \<Rightarrow> bool" where
  "sends_waiting a a' \<longleftrightarrow> (\<exists>ks. a_sent a' = a_sent a @ ks \<and> list_all (waits (a_world a')) ks)"

lemma sends_waiting_none: "a_sent a' = a_sent a \<Longrightarrow> sends_waiting a a'"
  by (simp add: sends_waiting_def)

lemma handled_sent [simp]: "a_sent (snd (handled who act t h a)) = a_sent a"
  by (simp add: handled_def split: prod.split)

lemma handled_sentD: "handled who act t h a = (r, a1) \<Longrightarrow> a_sent a1 = a_sent a"
  using handled_sent [of who act t h a] by simp

lemma run_handledD:
  "(\<And>w. ledger_run w (snd (h w))) \<Longrightarrow> handled who act t h a = (r, a1) \<Longrightarrow> ledger_run (a_world a) (a_world a1)"
  using run_handled [of h a who act t] by simp

lemma send_waiting: "waits (a_world a) k \<Longrightarrow> send svc k a = (b, a') \<Longrightarrow> sends_waiting a a'"
  by (auto simp: send_def sends_waiting_def)

lemma send_all_sent: "\<exists>js. a_sent (snd (send_all svc ks a)) = a_sent a @ js \<and> set js \<subseteq> set ks"
proof (induction ks arbitrary: a)
  case (Cons k ks)
  define b a1 where "b = svc (length (a_sent a))" and "a1 = a\<lparr>a_sent := a_sent a @ [k]\<rparr>"
  then have k: "send svc k a = (b, a1)" "a_sent a1 = a_sent a @ [k]" by (simp_all add: send_def)
  obtain js where js: "a_sent (snd (send_all svc ks a1)) = a_sent a1 @ js" "set js \<subseteq> set ks" using Cons by blast
  show ?case
  proof (cases b)
    case True
    then show ?thesis using k js by (intro exI [of _ "k # js"]) auto
  next
    case False
    then show ?thesis using k by (intro exI [of _ "[k]"]) simp
  qed
qed simp

lemma send_all_waiting:
  assumes "list_all (waits (a_world a)) ks" "send_all svc ks a = (r, a')"
  shows "sends_waiting a a'" "a_world a' = a_world a"
proof -
  show w: "a_world a' = a_world a" using send_all_world [of svc ks a] assms(2) by simp
  obtain js where "a_sent a' = a_sent a @ js" "set js \<subseteq> set ks" using send_all_sent [of svc ks a] assms(2) by auto
  then show "sends_waiting a a'" using assms(1) w by (auto simp: sends_waiting_def list_all_iff)
qed

lemma handled_answer:
  assumes "handled who act t h a = (Inr v, a1)"
  shows "h (a_world a) = (Inr v, a_world a1)" "a_sent a1 = a_sent a"
  using assms by (auto simp: handled_def respond_def split: prod.splits sum.splits option.splits)

lemma dispatched_waiting:
  assumes "wf (a_world a)" "answers_stored h"
  shows "sends_waiting a (snd (dispatched svc pre p (handled who act t h a)))"
proof -
  obtain r a1 where h: "handled who act t h a = (r, a1)" by fastforce
  have sent: "a_sent a1 = a_sent a" using handled_sent [of who act t h a] h by simp
  show ?thesis
  proof (cases r)
    case (Inr op)
    have b: "op_body (d_id op) (a_world a1) = Some op"
      by (rule assms(2) [unfolded answers_stored_def, rule_format, OF assms(1)
        handled_answer(1) [OF h [unfolded Inr]]])
    obtain ok a2 where s: "send svc (Phase_of (d_id op) p) a1 = (ok, a2)" by fastforce
    have "sends_waiting a1 a2" if "d_state op = Some (fst (phase_states p))"
      using b that s by (intro send_waiting) (auto simp: waits_def)
    then show ?thesis using sent
      by (auto simp: dispatched_def h Inr s sends_waiting_def split: bool.split)
  qed (simp add: dispatched_def h sends_waiting_none sent)
qed

lemma ids_in_stateD: "ids_in_state s ops is = Inr js \<Longrightarrow> j \<in> set js \<Longrightarrow> op_state ops j = Inr s"
  by (induction s ops "is" arbitrary: js rule: ids_in_state.induct) (auto simp: sbind_Inr_iff split: if_splits)

lemma load_opsD: "load_ops ap w i = Some op \<Longrightarrow> op_body i w = Some op"
  by (simp add: load_ops_def operations_by_id_def split: if_splits)

lemma plan_queued_waits:
  assumes "plan_queued ap (load_ops ap w) = Inr ks"
  shows "list_all (waits w) ks"
proof -
  obtain js where js: "ids_in_state Queued (load_ops ap w) (app_op_ids ap) = Inr js"
    and ks: "ks = map (\<lambda>i. Phase_of i Plan_phase) js"
    using assms by (auto simp: plan_queued_def sbind_Inr_iff queued_ids_def)
  have "waits w (Phase_of i Plan_phase)" if "i \<in> set js" for i
    using ids_in_stateD [OF js that] load_opsD [of ap w i]
    by (auto simp: op_state_def waits_def phase_states_def split: option.splits)
  then show ?thesis by (simp add: ks list_all_iff)
qed

lemma todo_waits:
  "rollout_todo ap (load_ops ap w) = Inr ks \<Longrightarrow> list_all (waits w) ks"
  "teardown_todo ap (load_ops ap w) = Inr ks \<Longrightarrow> list_all (waits w) ks"
  using plan_queued_waits [of ap w]
  by (auto simp: rollout_todo_def teardown_todo_def sbind_Inr_iff waits_def)

lemma app_dispatched_waiting:
  assumes "\<And>ap ks. todo ap (load_ops ap (a_world a)) = Inr ks \<Longrightarrow> list_all (waits (a_world a)) ks"
  shows "sends_waiting a (snd (app_dispatched svc todo (r, a)))"
proof (cases r)
  case (Inr ap)
  show ?thesis
  proof (cases "todo ap (load_ops ap (a_world a))")
    case (Inr ks)
    obtain k a1 where s: "send_all svc ks a = (k, a1)" by fastforce
    then have "sends_waiting a a1" using send_all_waiting(1) assms Inr by blast
    then show ?thesis by (simp add: app_dispatched_def \<open>r = Inr ap\<close> Inr s split: option.split)
  qed (simp add: app_dispatched_def Inr sends_waiting_none)
qed (simp add: app_dispatched_def sends_waiting_none)

lemma sends_after: "sends_waiting a1 a2 \<Longrightarrow> a_sent a1 = a_sent a \<Longrightarrow> sends_waiting a a2"
  by (simp add: sends_waiting_def)

lemma submit_app_waiting: "sends_waiting a (snd (submit_app x svc pre body c key t i fs a))"
proof -
  obtain r a1 where h: "handled (caller_id c) (post pre ''/apps'') t (apps_accept x body c key t i fs) a = (r, a1)" by fastforce
  have "sends_waiting a1 (snd (app_dispatched svc rollout_todo (r, a1)))"
    by (rule app_dispatched_waiting) (rule todo_waits)
  then show ?thesis unfolding submit_app_def h by (rule sends_after) (rule handled_sentD [OF h])
qed

lemma approve_app_waiting:
  assumes "wf (a_world a)"
  shows "sends_waiting a (snd (approve_app x svc pre i digests c t a))"
proof -
  obtain r a1 where h: "handled (caller_id c) (post pre ''/apps/{app_id}/approve'') t (accept_approval x i digests c t) a = (r, a1)"
    by fastforce
  have sent: "a_sent a1 = a_sent a" by (rule handled_sentD [OF h])
  show ?thesis
  proof (cases r)
    case (Inr apq)
    obtain ap queued where q: "apq = (ap, queued)" by (cases apq)
    obtain ks where ex: "execute_many (dict_merge [] ks) (caller_id c) (Some (ap_id ap)) t (a_world a) = (Inr queued, a_world a1)"
      using handled_answer(1) [OF h [unfolded Inr q]]
      by (auto simp: accept_approval_def approve_def Let_def split: sum.splits prod.splits if_splits)
    have "distinct (map fst (dict_merge [] ks))" by (rule dict_merge_distinct) simp
    note batch = execute_many_ok [OF assms this ex]
    have "micros True (a_world a) (a_world a1)"
      using micros_execute_many [OF assms, of True "dict_merge [] ks" "caller_id c" "Some (ap_id ap)" t] ex by simp
    then have wf1: "wf (a_world a1)" using assms by (rule micros_wf)
    have "op_body (d_id op) (a_world a1) = Some op" if "op \<in> set queued" for op
      using conjunct1 [OF batch] that op_body_wf [OF wf1] by (fastforce simp: list_all2_conv_all_nth in_set_conv_nth)
    then have "list_all (waits (a_world a1)) (apply_todo queued)"
      by (auto simp: apply_todo_def list_all_iff waits_def phase_states_def)
    moreover obtain k a2 where s: "send_all svc (apply_todo queued) a1 = (k, a2)" by fastforce
    ultimately have "sends_waiting a1 a2" by (rule send_all_waiting)
    then show ?thesis using sends_after [OF _ sent] by (simp add: approve_app_def h Inr q s split: option.split)
  qed (simp add: approve_app_def h sends_waiting_none sent)
qed

lemma failover_app_waiting:
  assumes "\<And>h. ledger_run (a_world a) h \<Longrightarrow> wf h"
  shows "sends_waiting a (snd (failover_app x svc pre i pr c key t fresh a))"
proof -
  obtain r a1 where h: "handled (caller_id c) (post pre ''/apps/{app_id}/failover'') t (failover x i pr c key t fresh) a = (r, a1)"
    by fastforce
  have sent: "a_sent a1 = a_sent a" by (rule handled_sentD [OF h])
  have "ledger_run (a_world a) (a_world a1)" by (rule run_handledD [OF run_app_failover h])
  then have wf1: "wf (a_world a1)" by (rule assms)
  show ?thesis
  proof (cases r)
    case (Inr apj)
    obtain ap j where q: "apj = (ap, j)" by (cases apj)
    show ?thesis
    proof (cases "load_ops ap (a_world a1) j")
      case (Some op)
      have b: "op_body (d_id op) (a_world a1) = Some op" using load_opsD [OF Some] op_body_wf [OF wf1] by fastforce
      obtain ok a2 where s: "send svc (Phase_of (d_id op) Plan_phase) a1 = (ok, a2)" by fastforce
      have "sends_waiting a1 a2" if "d_state op = Some Queued"
        using b that s by (intro send_waiting) (auto simp: waits_def phase_states_def)
      then show ?thesis using sends_after [OF _ sent] sends_waiting_none [OF sent]
        by (auto simp: failover_app_def h Inr q Some s split: bool.split)
    qed (simp add: failover_app_def h Inr q sends_waiting_none sent)
  qed (simp add: failover_app_def h sends_waiting_none sent)
qed

lemma destroy_app_waiting: "sends_waiting a (snd (destroy_app x svc pre i c key t fresh a))"
proof -
  obtain r a1 where h: "handled (caller_id c) (post pre ''/apps/{app_id}/destroy'') t (app_destroy x i c key t fresh) a = (r, a1)"
    by fastforce
  have sent: "a_sent a1 = a_sent a" by (rule handled_sentD [OF h])
  show ?thesis
  proof (cases r)
    case (Inr apr)
    obtain ap router where q: "apr = (ap, router)" by (cases apr)
    show ?thesis
    proof (cases "plan_queued ap (load_ops ap (a_world a1))")
      case (Inr ks)
      obtain k a2 where s: "send_all svc ks a1 = (k, a2)" by fastforce
      have s1: "sends_waiting a1 a2" and w2: "a_world a2 = a_world a1"
        using send_all_waiting [OF plan_queued_waits [OF Inr] s] by blast+
      have s2: "sends_waiting a2 (snd (app_dispatched svc teardown_todo (Inr ap, a2)))"
        by (rule app_dispatched_waiting) (rule todo_waits)
      have w3: "a_world (snd (app_dispatched svc teardown_todo (Inr ap, a2))) = a_world a1" by (simp add: w2)
      have "sends_waiting a1 (snd (app_dispatched svc teardown_todo (Inr ap, a2)))"
        using s1 s2 by (auto simp: sends_waiting_def w2 w3)
      then show ?thesis using sends_after [OF _ sent] s1
        by (auto simp: destroy_app_def h \<open>r = Inr apr\<close> q Inr s split: option.split)
    qed (simp add: destroy_app_def h Inr q sends_waiting_none sent)
  qed (simp add: destroy_app_def h sends_waiting_none sent)
qed

lemma request_waiting:
  assumes "request x e svc a a'" and wf: "wf (a_world a)" and run: "\<And>v. ledger_run (a_world a) v \<Longrightarrow> wf v"
  shows "sends_waiting a a'"
  using assms(1)
proof (cases rule: request.cases)
  case (rq_submit pre body c key t fresh r)
  then show ?thesis using dispatched_waiting [OF wf requests_stored(1)] by (metis submit_intent_def snd_conv)
next
  case (rq_promote pre rid pb c key t fresh r)
  then show ?thesis using dispatched_waiting [OF wf requests_stored(2)] by (metis promote_resource_def snd_conv)
next
  case (rq_upgrade pre rid ub c key t fresh r)
  then show ?thesis using dispatched_waiting [OF wf requests_stored(3)] by (metis upgrade_resource_def snd_conv)
next
  case (rq_drift pre rid c key t fresh r)
  then show ?thesis using dispatched_waiting [OF wf requests_stored(4)] by (metis check_drift_def snd_conv)
next
  case (rq_execute pre i digest c t r)
  then show ?thesis using dispatched_waiting [OF wf execution_stored] by (metis execute_operation_def snd_conv)
next
  case (rq_discard pre i c t r)
  then have "a_sent a' = a_sent a" by (metis discard_handler_def shown_api handled_sent snd_conv)
  then show ?thesis by (rule sends_waiting_none)
next
  case (rq_reconcile pre i outc why c t r)
  then have "a_sent a' = a_sent a" by (metis reconcile_handler_def shown_api handled_sent snd_conv)
  then show ?thesis by (rule sends_waiting_none)
next
  case (rq_app pre ab c key t app_id fs q)
  then show ?thesis using submit_app_waiting by (metis snd_conv)
next
  case (rq_approve pre app_id digests c t q)
  then show ?thesis using approve_app_waiting [OF wf] by (metis snd_conv)
next
  case (rq_failover pre app_id pr c key t fresh q)
  then show ?thesis using failover_app_waiting [OF run] by (metis snd_conv)
next
  case (rq_destroy pre app_id c key t fresh q)
  then show ?thesis using destroy_app_waiting by (metis snd_conv)
next
  case (rq_app_discard pre app_id c t q)
  then have "a_sent a' = a_sent a" by (metis discard_app_api handled_sent snd_conv)
  then show ?thesis by (rule sends_waiting_none)
qed (auto simp: handler_defs dest: handled_sentD intro: sends_waiting_none)

section \<open>Repeating a request\<close>

lemma dispatched_refused: "fst (dispatched svc pre p (r, a)) = Refused_with n \<Longrightarrow> dispatched svc pre p (r, a) = (Refused_with n, a)"
  by (auto simp: dispatched_def split: sum.splits prod.splits bool.splits if_splits)

lemma handled_ok: "h (a_world a) = (Inr v, w) \<Longrightarrow> handled who act t h a = (Inr v, a\<lparr>a_world := w\<rparr>)"
  by (simp add: handled_def respond_def)

lemma dispatched_unconfirmed:
  assumes "dispatched svc pre p (r, a) = (Unconfirmed i, a')"
  obtains op where "r = Inr op" "d_id op = i" "d_state op = Some (fst (phase_states p))"
    "a' = a\<lparr>a_sent := a_sent a @ [Phase_of i p]\<rparr>"
  using assms by (auto simp: dispatched_def send_def split: sum.splits prod.splits bool.splits if_splits)

text \<open>A request that was accepted is answered from the record when it is repeated.\<close>

lemma accepted_is_replayed:
  assumes "wf w" "accept_intent x body c key t fresh w = (Inr op, w')"
  shows "\<exists>r \<in> set (operations w'). r_actor r = caller_id c \<and> r_request_key r = key \<and>
    r_fingerprint r = fingerprint (canonical_intent body) \<and> r_body r = op"
proof (cases "replayed x c key (canonical_intent body) w")
  case (Inr known)
  show ?thesis
  proof (cases known)
    case None
    then obtain d b where "accept (caller_id c) key (canonical_intent body) d b (Some (caller_groups c)) t fresh w = (Inr op, w')"
      using assms(2) Inr by (auto simp: accept_intent_def submit_def split: sum.splits)
    from accept_row [OF assms(1) this] show ?thesis by blast
  next
    case (Some d)
    then have w: "w' = w" "d = op" using assms(2) Inr by (simp_all add: accept_intent_def submit_def)
    obtain d' where rp: "replay_tx (caller_id c) key (fingerprint (canonical_intent body)) w = Inr (Some d')"
      and au: "authorize x w (Some d') c False = Inr op"
      using Inr Some w(2) by (auto simp: replayed_def sbind_Inr_iff split: option.splits)
    have "d' = op" using au by (auto simp: authorize_def split: if_splits)
    then show ?thesis using replay_tx_SomeD [OF rp] w(1) by blast
  qed
qed (use assms(2) in \<open>simp add: accept_intent_def submit_def\<close>)

lemma ledger_run_evolves:
  assumes "reachable \<lparr>s_world = w, s_claims = C\<rparr>" "ledger_run w v"
  shows "wf v" "cfg v = cfg w"
proof -
  have s: "steps ledger_step \<lparr>s_world = w, s_claims = C\<rparr> \<lparr>s_world = v, s_claims = C\<rparr>"
    using assms(2) by (simp add: ledger_run_def)
  show "wf v" using ledger.reach_steps [OF assms(1) s] reachable_wf by fastforce
  show "cfg v = cfg w" using ledger.steps_rel [OF s ledger.reach_inv [OF assms(1)]] by (simp add: evolves_def)
qed

end
