(* ===== verification/ApiProperties.thy ===== *)
theory ApiProperties
  imports ApiRuns RequestProperties
begin

text \<open>
  What the API guarantees on top of the ledger, and a submission in the demonstration tenancy as their witness:
  every sequence of requests is a run of ledger steps; work is only dispatched that waits for it; an
  unconfirmed submission is finished by repeating it; a long poll answers in time.
\<close>

section \<open>A submission in the demonstration tenancy\<close>

definition shop_api :: api where
  "shop_api = \<lparr>a_world = shop_world, a_sent = []\<rparr>"

lemma shop_api_reachable: "reachable \<lparr>s_world = a_world shop_api, s_claims = []\<rparr>"
  by (rule reach_init) (auto simp: initial_def shop_api_def shop_world_def)

lemma shop_submission:
  obtains op w' where "accept_intent shop_ext shop_intent shop_caller ''k1'' 10 (''res_1'', ''op_1'') shop_world = (Inr op, w')"
    "d_id op = ''op_1''" "d_state op = Some Queued" "p_business_unit (d_def op) = Some ''retail''"
proof -
  have c: "caller_id shop_caller = ''amy''" "caller_groups shop_caller = [''g1'']" by (simp_all add: shop_caller_def)
  have i: "or_empty (i_resource_id shop_intent) = []" by (simp add: shop_intent_def demo_intent_def or_empty_def)
  obtain op w' where a: "accept ''amy'' ''k1'' (canonical_intent shop_intent) (shop_placed [(''name'', JStr ''db'')] []) (Some shop_budget)
     (Some [''g1'']) 10 (''res_1'', ''op_1'') shop_world = (Inr op, w')" using shop_accept by blast
  have n: "replay_tx ''amy'' ''k1'' (fingerprint (canonical_intent shop_intent)) shop_world = Inr None"
    by (simp add: replay_tx_def shop_world_def empty_world_def)
  from a obtain op' bl w1 where tx: "accept_tx ''amy'' ''k1'' (canonical_intent shop_intent) (shop_placed [(''name'', JStr ''db'')] [])
      (Some shop_budget) (Some [''g1'']) 10 (''res_1'', ''op_1'') shop_world = (Inr (op, bl), w1)"
    by (rule acceptD)
  from tx n have "d_id op = ''op_1'' \<and> d_state op = Some Queued \<and> p_business_unit (d_def op) = Some ''retail''"
    by (auto simp: accept_tx_def write_acceptance_def Let_def clear_blocker_def shop_labelled_def blank_doc_def split: sum.splits if_splits option.splits prod.splits)
  moreover have "db_sqlite (cfg shop_world)" by (simp add: shop_world_def demo_defs)
  then have "accept_intent shop_ext shop_intent shop_caller ''k1'' 10 (''res_1'', ''op_1'') shop_world = (Inr op, w')"
    using a n by (simp add: accept_intent_def submit_def replayed_def reading_def prepare_intent_def shop_typed c i)
  ultimately show ?thesis by (intro that) auto
qed

lemma shop_submit_intent:
  obtains op w' where "submit_intent shop_ext svc ''/v1'' shop_intent shop_caller ''k1'' 10 (''res_1'', ''op_1'') shop_api =
      ((if svc 0 then Answered (public_operation (plan_max_age (cfg w')) op ''/v1'') else Unconfirmed ''op_1''),
       \<lparr>a_world = w', a_sent = [Phase_of ''op_1'' Plan_phase]\<rparr>)"
    "\<And>d. op_body ''op_1'' w' = Some d \<Longrightarrow> p_business_unit (d_def d) = Some ''retail''" "cfg w' = cfg shop_world"
proof -
  obtain op w' where a: "accept_intent shop_ext shop_intent shop_caller ''k1'' 10 (''res_1'', ''op_1'') shop_world = (Inr op, w')"
    "d_id op = ''op_1''" "d_state op = Some Queued" "p_business_unit (d_def op) = Some ''retail''" by (rule shop_submission)
  have run: "ledger_run (a_world shop_api) w'"
    using run_requests(1) [of shop_world shop_ext shop_intent shop_caller "''k1''" 10 "(''res_1'', ''op_1'')"] a(1)
    by (simp add: shop_api_def)
  have c: "cfg w' = cfg shop_world" using ledger_run_evolves(2) [OF shop_api_reachable run] by (simp add: shop_api_def)
  have wf: "wf shop_world" using reachable_wf [OF shop_api_reachable] by (simp add: shop_api_def)
  obtain r where "r \<in> set (operations w')" "r_body r = op" using accepted_is_replayed [OF wf a(1)] by blast
  then have b: "op_body ''op_1'' w' = Some op"
    using stored_row [OF ledger_run_evolves(1) [OF shop_api_reachable run], of r] a(2) by simp
  have "handled (caller_id shop_caller) (post ''/v1'' ''/operations'') 10
      (accept_intent shop_ext shop_intent shop_caller ''k1'' 10 (''res_1'', ''op_1'')) shop_api = (Inr op, shop_api\<lparr>a_world := w'\<rparr>)"
    by (rule handled_ok) (simp add: a(1) shop_api_def)
  then show ?thesis
    by (intro that [of w' op]) (auto simp: submit_intent_def dispatched_def phase_states_def send_def view_op_def a b c shop_api_def split: bool.splits)
qed

section \<open>Properties\<close>

text \<open>The API is a client of the ledger. Any sequence of requests (submissions, executions, discards,
  reconciliations, promotions, upgrades, drift checks, every app request, every change of the
  teams), refused ones with their audit event included, is a run of ledger steps, so what is shown of
  reachable ledgers holds of every ledger the API can bring about.\<close>

theorem api_refines_ledger:
  assumes "reachable \<lparr>s_world = a_world a, s_claims = C\<rparr>" "steps (request x e svc) a a'"
  shows "steps ledger_step \<lparr>s_world = a_world a, s_claims = C\<rparr> \<lparr>s_world = a_world a', s_claims = C\<rparr> \<and>
    reachable \<lparr>s_world = a_world a', s_claims = C\<rparr>"
  using requests_run [OF assms(2)] ledger.reach_steps [OF assms(1)] by (auto simp: ledger_run_def)

theorem api_refines_ledger_witness:
  "\<exists>a'. steps (request shop_ext no_checks (\<lambda>_. True)) shop_api a' \<and> a_sent a' = [Phase_of ''op_1'' Plan_phase] \<and>
     reachable \<lparr>s_world = a_world a', s_claims = []\<rparr>"
proof -
  obtain r w' where s: "submit_intent shop_ext (\<lambda>_. True) ''/v1'' shop_intent shop_caller ''k1'' 10 (''res_1'', ''op_1'') shop_api =
      (r, \<lparr>a_world = w', a_sent = [Phase_of ''op_1'' Plan_phase]\<rparr>)" by (rule shop_submit_intent)
  then have "steps (request shop_ext no_checks (\<lambda>_. True)) shop_api \<lparr>a_world = w', a_sent = [Phase_of ''op_1'' Plan_phase]\<rparr>"
    by (intro steps_single rq_submit)
  with api_refines_ledger [OF shop_api_reachable this] show ?thesis by auto
qed

text \<open>C8. Work is dispatched only when it waits. Whatever a request asks the dispatcher for, the ledger it
  leaves holds the operation in the state the phase starts from: queued before a plan, approved before an
  apply. A workflow is never started for an operation that was not committed, was refused, is
  being worked on or is finished.\<close>

theorem dispatched_work_waits:
  assumes "reachable \<lparr>s_world = a_world a, s_claims = C\<rparr>" "request x e svc a a'"
  shows "\<exists>ks. a_sent a' = a_sent a @ ks \<and> (\<forall>i p. Phase_of i p \<in> set ks \<longrightarrow>
    (\<exists>op. op_body i (a_world a') = Some op \<and> d_state op = Some (fst (phase_states p))))"
proof -
  have wf: "wf (a_world a)" using reachable_wf [OF assms(1)] by simp
  have "wf v" if "ledger_run (a_world a) v" for v
    using that ledger.reach_steps [OF assms(1)] reachable_wf unfolding ledger_run_def by fastforce
  with assms(2) wf have "sends_waiting a a'" by (rule request_waiting)
  then show ?thesis by (auto simp: sends_waiting_def list_all_iff waits_def) force
qed

theorem dispatched_work_waits_witness:
  "\<exists>w' op. request shop_ext no_checks (\<lambda>_. True) shop_api \<lparr>a_world = w', a_sent = [Phase_of ''op_1'' Plan_phase]\<rparr> \<and>
     op_body ''op_1'' w' = Some op \<and> d_state op = Some Queued"
proof -
  obtain r w' where s: "submit_intent shop_ext (\<lambda>_. True) ''/v1'' shop_intent shop_caller ''k1'' 10 (''res_1'', ''op_1'') shop_api =
      (r, \<lparr>a_world = w', a_sent = [Phase_of ''op_1'' Plan_phase]\<rparr>)" by (rule shop_submit_intent)
  then have r: "request shop_ext no_checks (\<lambda>_. True) shop_api \<lparr>a_world = w', a_sent = [Phase_of ''op_1'' Plan_phase]\<rparr>"
    by (rule rq_submit)
  have "a_sent shop_api = []" by (simp add: shop_api_def)
  with dispatched_work_waits [OF shop_api_reachable r] r show ?thesis by (auto simp: phase_states_def)
qed

text \<open>C35. An unconfirmed submission is finished by repeating it. When a submission is answered
  \<^verbatim>\<open>dispatch_unconfirmed\<close>, repeating the same body with the same key, at any later time, asks for the
  same workflow of the same operation again and, once that is confirmed, shows it; nothing is
  accepted twice and the ledger does not change.\<close>

theorem unconfirmed_submission_is_repeatable:
  assumes "reachable \<lparr>s_world = a_world a, s_claims = C\<rparr>"
    and "submit_intent x svc pre body c key t fresh a = (Unconfirmed i, a')"
    and "\<forall>op. op_body i (a_world a') = Some op \<longrightarrow>
           visible (a_world a') (d_actor op) (p_business_unit (d_def op)) c"
    and "svc' (length (a_sent a'))"
  shows "\<exists>v. submit_intent x svc' pre body c key t' fresh' a' =
      (Answered v, a'\<lparr>a_sent := a_sent a' @ [Phase_of i Plan_phase]\<rparr>) \<and> v_id v = i"
proof -
  have wf: "wf (a_world a)" using reachable_wf [OF assms(1)] by simp
  obtain r a1 where h: "handled (caller_id c) (post pre ''/operations'') t (accept_intent x body c key t fresh) a = (r, a1)"
    by fastforce
  with assms(2) have d: "dispatched svc pre Plan_phase (r, a1) = (Unconfirmed i, a')" by (simp add: submit_intent_def)
  then obtain op where op: "r = Inr op" "d_id op = i" "d_state op = Some Queued" "a_world a' = a_world a1"
    by (rule dispatched_unconfirmed) (auto simp: phase_states_def)
  have acc: "accept_intent x body c key t fresh (a_world a) = (Inr op, a_world a')"
    using handled_answer(1) [OF h [unfolded op(1)]] op(4) by simp
  have "ledger_run (a_world a) (a_world a')"
    using run_requests(1) [of "a_world a" x body c key t fresh] acc by simp
  note ev = ledger_run_evolves [OF assms(1) this]
  have sq: "db_sqlite (cfg (a_world a'))"
    using acc ev(2) by (auto simp: accept_intent_def submit_def replayed_def reading_def sbind_Inr_iff split: sum.splits if_splits)
  obtain row where row: "row \<in> set (operations (a_world a'))" "r_actor row = caller_id c" "r_request_key row = key"
    "r_fingerprint row = fingerprint (canonical_intent body)" "r_body row = op"
    using accepted_is_replayed [OF wf acc] by blast
  have "op_body i (a_world a') = Some op" using stored_row [OF ev(1) row(1)] row(5) op(2) by simp
  then have "authorize x (a_world a') (Some op) c False = Inr op" using assms(3) by (simp add: authorize_def)
  then have "replayed x c key (canonical_intent body) (a_world a') = Inr (Some op)"
    using replay_tx_row [OF ev(1) row(1-3), of "fingerprint (canonical_intent body)"] row(4,5) sq
    by (simp add: replayed_def reading_def)
  then have "accept_intent x body c key t' fresh' (a_world a') = (Inr op, a_world a')"
    by (simp add: accept_intent_def submit_def)
  then have "handled (caller_id c) (post pre ''/operations'') t' (accept_intent x body c key t' fresh') a' = (Inr op, a')"
    by (simp add: handled_ok)
  then show ?thesis
    using op(2,3) assms(4) by (simp add: submit_intent_def dispatched_def phase_states_def send_def view_op_def public_operation_def Let_def)
qed

theorem unconfirmed_submission_is_repeatable_witness:
  "\<exists>a' v. submit_intent shop_ext (\<lambda>_. False) ''/v1'' shop_intent shop_caller ''k1'' 10 (''res_1'', ''op_1'') shop_api =
       (Unconfirmed ''op_1'', a') \<and>
     submit_intent shop_ext (\<lambda>_. True) ''/v1'' shop_intent shop_caller ''k1'' 20 (''res_2'', ''op_2'') a' =
       (Answered v, a'\<lparr>a_sent := a_sent a' @ [Phase_of ''op_1'' Plan_phase]\<rparr>) \<and> v_id v = ''op_1''"
proof -
  have "\<exists>w'. submit_intent shop_ext (\<lambda>_. False) ''/v1'' shop_intent shop_caller ''k1'' 10 (''res_1'', ''op_1'') shop_api =
      (Unconfirmed ''op_1'', \<lparr>a_world = w', a_sent = [Phase_of ''op_1'' Plan_phase]\<rparr>) \<and>
      (\<forall>d. op_body ''op_1'' w' = Some d \<longrightarrow> p_business_unit (d_def d) = Some ''retail'') \<and> cfg w' = cfg shop_world"
    by (rule shop_submit_intent [of "\<lambda>_. False"]) auto
  then obtain w' where s: "submit_intent shop_ext (\<lambda>_. False) ''/v1'' shop_intent shop_caller ''k1'' 10 (''res_1'', ''op_1'') shop_api =
      (Unconfirmed ''op_1'', \<lparr>a_world = w', a_sent = [Phase_of ''op_1'' Plan_phase]\<rparr>)"
    and b: "\<And>d. op_body ''op_1'' w' = Some d \<Longrightarrow> p_business_unit (d_def d) = Some ''retail''" and c: "cfg w' = cfg shop_world"
    by blast
  let ?a = "\<lparr>a_world = w', a_sent = [Phase_of ''op_1'' Plan_phase]\<rparr>"
  have v: "\<forall>op. op_body ''op_1'' (a_world ?a) = Some op \<longrightarrow> visible (a_world ?a) (d_actor op) (p_business_unit (d_def op)) shop_caller"
    using b shop_visible [OF c] by auto
  from unconfirmed_submission_is_repeatable [OF shop_api_reachable s v, of "\<lambda>_. True" 20 "(''res_2'', ''op_2'')"] s
  show ?thesis by blast
qed

section \<open>Long polling\<close>

text \<open>A long poll answers. When every pause takes at least half a second, polling an operation with a wait
  of \<open>n\<close> seconds ends after at most \<open>2 * n + 1\<close> reads; the answer is the last read, and unless that
  read was refused it is no longer to be polled or the wait is over.\<close>

theorem long_poll_answers:
  assumes "\<forall>k. clock k + 500 \<le> clock (k + 1)"
  shows "\<exists>r k. wait_operation rd clock wait = Some (r, k) \<and> k \<le> 2 * wait \<and> r = rd k \<and>
    (\<forall>v. r = Inr v \<longrightarrow> v_next_action v \<noteq> Poll \<or> clock 0 + wait * 1000 \<le> clock (k + 1) \<or> wait = 0)"
proof -
  let ?d = "clock 0 + wait * 1000"
  have late: "clock 0 + 500 * k \<le> clock k" for k
  proof (induction k)
    case (Suc k)
    then show ?case using assms [rule_format, of k] by simp
  qed simp
  have loop: "\<exists>r j. long_poll rd clock ?d (k + 1) v = Some (r, j) \<and> j \<le> 2 * wait \<and> r = rd j \<and>
      (\<forall>u. r = Inr u \<longrightarrow> v_next_action u \<noteq> Poll \<or> ?d \<le> clock (j + 1))"
    if "rd k = Inr v" "k \<le> 2 * wait" for k v
    using that
  proof (induction "2 * wait - k" arbitrary: k v rule: less_induct)
    case less
    show ?case
    proof (cases "v_next_action v = Poll \<and> clock (k + 1) < ?d")
      case True
      then have k: "k + 1 \<le> 2 * wait" using late [of "k + 1"] by simp
      show ?thesis
      proof (cases "rd (k + 1)")
        case (Inl e)
        then show ?thesis using True k by (subst long_poll.simps) auto
      next
        case (Inr u)
        have "2 * wait - (k + 1) < 2 * wait - k" using k by simp
        from less.hyps [OF this Inr k] True Inr show ?thesis by (subst long_poll.simps) simp
      qed
    next
      case False
      then show ?thesis using less.prems by (subst long_poll.simps) auto
    qed
  qed
  show ?thesis
  proof (cases "rd 0")
    case (Inr v)
    then show ?thesis using loop [OF Inr] by (auto simp: wait_operation_def)
  qed (simp add: wait_operation_def)
qed

theorem long_poll_answers_witness:
  "\<exists>k. wait_operation (\<lambda>k. Inl (HTTPException 404)) (\<lambda>k. 500 * k) 3 = Some (Inl (HTTPException 404), k) \<and> k \<le> 6"
  using long_poll_answers [of "\<lambda>k. 500 * k" "\<lambda>k. Inl (HTTPException 404)" 3] by auto

end
