(* ===== verification/EndToEnd.thy ===== *)
theory EndToEnd
  imports ApiRuns RequestProperties
begin

text \<open>
  The machine as a whole: the API, the worker and the activities of the app workflows and of the drift sweep on one
  ledger, in any order. A worker takes up only phases that were dispatched, its attempts may be lost,
  and the status write after a lost one may come at any time. What is shown of the
  single parts is composed: every such run is a run of the ledger, and nothing is ever applied that
  was not approved and dispatched.
\<close>

section \<open>Activities of the app workflows\<close>

lemma run_accept_router [ledger_runs]: "ledger_run w (snd (accept_router i intent res b t fresh w))"
  by (rule ledger_run_step) (rule ls_accept_router)

lemma run_fail_app [ledger_runs]: "ledger_run w (snd (fail_app i why rf t w))"
  by (rule ledger_run_step) (rule ls_fail_app)

lemma run_teardown_replicas [ledger_runs]: "ledger_run w (snd (accept_teardown_replicas i its t fr w))"
  by (rule ledger_run_step) (rule ls_teardown_replicas)

lemma run_fail_teardown [ledger_runs]: "ledger_run w (snd (fail_teardown i why rf t w))"
  by (rule ledger_run_step) (rule ls_fail_teardown)

lemma run_stamp [ledger_runs]: "ledger_run w (snd (stamp_drift_refusal rid why u t w))"
  by (rule ledger_run_step) (rule ls_stamp)

lemma run_router_activity: "ledger_run w (snd (accept_app_router x i why t fresh w))"
proof (cases "app_find i w")
  case (Some a)
  obtain r v where h: "apps_accept_router x a t fresh w = (r, v)" by fastforce
  have "ledger_run w (snd (apps_accept_router x a t fresh w))"
    by (auto simp: apps_accept_router_def run_accept_router split: sum.split)
  then have 1: "ledger_run w v" by (simp add: h)
  have 2: "ledger_run w u" if "fail_app i (why e) True t v = (q, u)" for q u e
    using ledger_run_trans [OF 1] run_fail_app [of v i "why e" True t] that by simp
  show ?thesis using 1 2 by (auto simp: accept_app_router_def Some h split: sum.split verdict.split prod.split)
qed (simp add: accept_app_router_def)

lemma run_destroys_activity: "ledger_run w (snd (accept_teardown_replica_destroys x i why t fresh w))"
proof (cases "app_find i w")
  case (Some a)
  obtain r v where h: "apps_accept_teardown_replicas x a t fresh w = (r, v)" by fastforce
  have "ledger_run w (snd (apps_accept_teardown_replicas x a t fresh w))"
    by (auto simp: apps_accept_teardown_replicas_def run_teardown_replicas split: sum.split)
  then have 1: "ledger_run w v" by (simp add: h)
  have 2: "ledger_run w u" if "fail_teardown i (why e) True t v = (q, u)" for q u e
    using ledger_run_trans [OF 1] run_fail_teardown [of v i "why e" True t] that by simp
  show ?thesis using 1 2
    by (auto simp: accept_teardown_replica_destroys_def Some h split: sum.split verdict.split prod.split)
qed (simp add: accept_teardown_replica_destroys_def)

text \<open>What an activity of an app workflow or of the sweep does to the ledger, with the plans its workflow
  starts from the answer.\<close>

inductive activity :: "ext \<Rightarrow> world \<Rightarrow> world \<Rightarrow> string list \<Rightarrow> bool" for x where
  act_router: "accept_app_router x i why t fresh w = (r, w') \<Longrightarrow>
    activity x w w' (case r of Inr (Accepted_router j) \<Rightarrow> [j] | _ \<Rightarrow> [])"
| act_destroys: "accept_teardown_replica_destroys x i whyd t fs w = (rd, w') \<Longrightarrow>
    activity x w w' (case rd of Inr a \<Rightarrow> (if da_retry a then [] else da_operations a) | Inl _ \<Rightarrow> [])"
| act_queued: "queued_app_operations ap (load_ops ap w) = Inr js \<Longrightarrow> activity x w w js"
| act_fail: "fail_app i s rf t w = (r0, w') \<Longrightarrow> activity x w w' []"
| act_fail_teardown: "fail_teardown i s rf t w = (r0, w') \<Longrightarrow> activity x w w' []"
| act_sweep: "sweep_drift n t fs w = (rs, w') \<Longrightarrow>
    activity x w w' (case rs of Inr a \<Rightarrow> sw_operations a | Inl _ \<Rightarrow> [])"

lemma run_sweep_one: "ledger_run w (snd (sweep_one key_of t c w))"
proof -
  obtain rcd fresh where c: "c = (rcd, fresh)" by (cases c)
  obtain r v where a: "accept_system rcd (key_of (d_id rcd)) t fresh w = (r, v)" by fastforce
  have "ledger_run w (snd (accept_system rcd (key_of (d_id rcd)) t fresh w))"
    by (simp add: accept_system_def run_accept)
  then have 1: "ledger_run w v" by (simp add: a)
  have 2: "ledger_run v (snd (sweep_refusal rcd e t v))" for e
  proof -
    obtain q u where q: "refused SYSTEM_ACTOR (Ev_request ''drift_check'') t v = (q, u)" by fastforce
    have "ledger_run v u" using run_refused [of v SYSTEM_ACTOR "Ev_request ''drift_check''" t] by (simp add: q)
    then show ?thesis using ledger_run_trans [OF _ run_stamp] by (auto simp: sweep_refusal_def q split: sum.split)
  qed
  show ?thesis using 1 ledger_run_trans [OF 1 2] by (simp add: sweep_one_def c a split: sum.split)
qed

lemma run_sweep_all: "ledger_run w (snd (sweep_all key_of t cs w))"
proof (induction cs arbitrary: w)
  case (Cons c cs)
  obtain r v where s: "sweep_one key_of t c w = (r, v)" by fastforce
  then have "ledger_run w v" using run_sweep_one [of w key_of t c] by simp
  with Cons [of v] s show ?case by (auto intro: ledger_run_trans split: sum.split)
qed simp

lemma run_sweep: "ledger_run w (snd (sweep_drift n t fresh w))"
proof -
  have "ledger_run w v" if "sweep_all k t cs w = (r, v)" for k cs r v
    using run_sweep_all [of w k t cs] that by simp
  then show ?thesis by (auto simp: sweep_drift_def Let_def split: sum.split prod.split)
qed

lemma activity_run_ledger: "activity x w w' js \<Longrightarrow> ledger_run w w'"
proof (induction rule: activity.induct)
  case (act_router i why t fresh w r w')
  then show ?case using run_router_activity [of w x i why t fresh] by simp
next
  case (act_destroys i whyd t fs w rd w')
  then show ?case using run_destroys_activity [of w x i whyd t fs] by simp
next
  case (act_fail i s rf t w r0 w')
  then show ?case using run_fail_app [of w i s rf t] by simp
next
  case (act_fail_teardown i s rf t w r0 w')
  then show ?case using run_fail_teardown [of w i s rf t] by simp
next
  case (act_sweep n t fs w rs w')
  then show ?case using run_sweep [of w n t fs] by simp
qed simp

section \<open>The machine\<close>

text \<open>The worker's host, whose ledger everything works on, and all the dispatches so far.\<close>

record machine =
  mc_host :: host
  mc_sent :: "work list"

definition mc_api :: "machine \<Rightarrow> api" where
  "mc_api m = \<lparr>a_world = h_world (mc_host m), a_sent = mc_sent m\<rparr>"

definition on_world :: "world \<Rightarrow> work list \<Rightarrow> machine \<Rightarrow> machine" where
  "on_world w ks m = \<lparr>mc_host = (mc_host m)\<lparr>h_world := w\<rparr>, mc_sent = ks\<rparr>"

inductive machine_step :: "ext \<Rightarrow> check_env \<Rightarrow> service \<Rightarrow> engine \<Rightarrow> machine \<Rightarrow> machine \<Rightarrow> bool" for x ce svc eng where
  mc_request: "request x ce svc (mc_api m) a \<Longrightarrow> machine_step x ce svc eng m (on_world (a_world a) (a_sent a) m)"
| mc_attempt: "Phase_of i p \<in> set (mc_sent m) \<Longrightarrow> attempt eng i p (mc_host m) (b, h) \<Longrightarrow>
    machine_step x ce svc eng m (m\<lparr>mc_host := h\<rparr>)"
| mc_uncertain: "mark_operation_uncertain i p t (mc_host m) = (r, h) \<Longrightarrow>
    machine_step x ce svc eng m (m\<lparr>mc_host := h\<rparr>)"
| mc_activity: "activity x (h_world (mc_host m)) w js \<Longrightarrow>
    machine_step x ce svc eng m (on_world w (mc_sent m @ map (\<lambda>j. Phase_of j Plan_phase) js) m)"

text \<open>A machine that has started nothing yet, on a ledger the system reaches.\<close>

definition machine_init :: "machine \<Rightarrow> bool" where
  "machine_init m \<longleftrightarrow> (\<exists>C. reachable \<lparr>s_world = h_world (mc_host m), s_claims = C\<rparr>) \<and> h_commands (mc_host m) = []"

text \<open>A command of the machine: one of the five, in the workspace of an operation whose phase was
  dispatched; an \<^verbatim>\<open>apply\<close> for an operation whose execute request was accepted and whose apply phase was dispatched.\<close>

definition accounted :: "machine \<Rightarrow> string \<times> string list \<Rightarrow> bool" where
  "accounted m = (\<lambda>(j, args). \<exists>i p row. Phase_of i p \<in> set (mc_sent m) \<and>
     op_find i (h_world (mc_host m)) = Some row \<and> r_resource_id row = j \<and>
     hd args \<in> {''init'', ''plan'', ''show'', ''apply'', ''output''} \<and>
     (hd args = ''apply'' \<longrightarrow> p = Apply_phase \<and> executed i (events (h_world (mc_host m)))))"

definition machine_inv :: "machine \<Rightarrow> bool" where
  "machine_inv m \<longleftrightarrow> (\<exists>C. reachable \<lparr>s_world = h_world (mc_host m), s_claims = C\<rparr>) \<and>
     (\<forall>k \<in> set (h_commands (mc_host m)). accounted m k)"

lemma accounted_evolves:
  assumes "accounted m k" "evolves (h_world (mc_host m)) (h_world (mc_host m'))" "set (mc_sent m) \<subseteq> set (mc_sent m')"
  shows "accounted m' k"
proof -
  obtain j args where k: "k = (j, args)" by (cases k)
  then obtain i p row where a: "Phase_of i p \<in> set (mc_sent m)" "op_find i (h_world (mc_host m)) = Some row"
    "r_resource_id row = j" "hd args \<in> {''init'', ''plan'', ''show'', ''apply'', ''output''}"
    "hd args = ''apply'' \<longrightarrow> p = Apply_phase \<and> executed i (events (h_world (mc_host m)))"
    using assms(1) by (auto simp: accounted_def)
  obtain row' where "op_find i (h_world (mc_host m')) = Some row'" "r_resource_id row' = j"
    using assms(2) a(2,3) by (auto simp: evolves_def row_evolves_def)
  moreover have "executed i es \<Longrightarrow> prefix es fs \<Longrightarrow> executed i fs" for es fs
    by (auto simp: executed_def prefix_def)
  ultimately show ?thesis using a assms(2,3) unfolding accounted_def k evolves_def by blast
qed

text \<open>The commands an attempt starts.\<close>

lemma activity_appends:
  assumes "run_operation_phase e i p t1 t2 h = (r, h')" "wf (h_world h)"
  shows "\<exists>cs. h_commands h' = cs @ h_commands h"
  using assms
proof (rule activity_run)
  fix row h1 st fr h2
  assume a: "h1 = h\<lparr>h_world := h_world h1\<rparr>" "h' = h2\<lparr>h_world := h_world h'\<rparr>"
    "effect ({d_resource_id (r_body row)} \<times> phase_lines e (cfg (h_world h)) (running p t1 row)) h1 h2"
  have "h_commands h1 = h_commands h" "h_commands h' = h_commands h2"
    using a(1,2) by (metis host.select_convs(4) host.surjective host.update_convs(1))+
  with a(3) show ?thesis by (auto simp: effect_def)
qed simp

definition started_ok :: "string \<Rightarrow> phase \<Rightarrow> world \<Rightarrow> string \<times> string list \<Rightarrow> bool" where
  "started_ok i p w = (\<lambda>(j, args). \<exists>row. op_find i w = Some row \<and> r_resource_id row = j \<and>
     hd args \<in> {''init'', ''plan'', ''show'', ''apply'', ''output''} \<and>
     (hd args = ''apply'' \<longrightarrow> p = Apply_phase \<and> executed i (events w)))"

lemma queued_executed:
  assumes "wf w" "op_find i w = Some row" "r_state row = Apply_queued"
  shows "executed i (events w)"
proof -
  have "row \<in> set (operations w)" "r_id row = i" using assms(2) by (auto simp: op_find_def dest: row_find_SomeD)
  then show ?thesis using assms(1,3) by (auto simp: wf_def exec_ok_def)
qed

lemma attempt_commands:
  assumes "reachable \<lparr>s_world = h_world h, s_claims = C\<rparr>" "attempt e i p h (a, h')"
  shows "\<exists>cs. h_commands h' = cs @ h_commands h \<and> list_all (started_ok i p (h_world h)) cs"
  using assms(2)
proof (cases rule: attempt_cases)
  case (ended r t1 t2)
  have wf: "wf (h_world h)" using reachable_wf [OF assms(1)] by simp
  obtain cs where cs: "h_commands h' = cs @ h_commands h" using activity_appends [OF ended wf] by blast
  have "started_ok i p (h_world h) (j, args)" if k: "(j, args) \<in> set cs" for j args
  proof -
    obtain row where row: "op_find i (h_world h) = Some row" "j = d_resource_id (r_body row)"
      "hd args \<in> {''init'', ''plan'', ''show'', ''apply'', ''output''}"
      "hd args = ''apply'' \<longrightarrow> p = Apply_phase \<and> r_state row = Apply_queued"
      using activity_starts [OF assms(1) ended cs k] by blast
    then show ?thesis using op_find_row_ok [OF wf row(1)] queued_executed [OF wf row(1)]
      by (auto simp: started_ok_def row_ok_def)
  qed
  with cs show ?thesis by (auto simp: list_all_iff)
next
  case (lost t1 op w)
  have wf: "wf (h_world h)" using reachable_wf [OF assms(1)] by simp
  obtain row where row: "op_find i (h_world h) = Some row" "r_state row = fst (phase_states p)" "op = running p t1 row"
    using claim_some [OF lost(2) wf] by metis
  obtain cs where cs: "h_commands h' = cs @ h_commands h" "set cs \<subseteq> {d_resource_id op} \<times> phase_lines e (cfg w) op"
    using lost(3) by (auto simp: effect_def)
  have "started_ok i p (h_world h) (j, args)" if "(j, args) \<in> set cs" for j args
  proof -
    have h: "j = d_resource_id op" "args \<in> phase_lines e (cfg w) op" using that cs(2) by auto
    have "p = Apply_phase" if "hd args = ''apply''"
      using phase_lines_apply [OF h(2) that] by (cases p) (simp_all add: row(3) phase_states_def)
    moreover have "executed i (events (h_world h))" if "p = Apply_phase"
      using queued_executed [OF wf row(1)] row(2) that by (simp add: phase_states_def)
    moreover have "hd args \<in> {''init'', ''plan'', ''show'', ''apply'', ''output''}"
      using h(2) by (rule phase_lines_heads)
    ultimately show ?thesis using op_find_row_ok [OF wf row(1)] row h(1)
      by (auto simp: started_ok_def row_ok_def)
  qed
  with cs(1) show ?thesis by (auto simp: list_all_iff)
qed simp

lemma started_accounted: "started_ok i p (h_world (mc_host m)) k \<Longrightarrow> Phase_of i p \<in> set (mc_sent m) \<Longrightarrow> accounted m k"
  by (cases k) (auto simp: started_ok_def accounted_def)

text \<open>A step of the machine is a run of the ledger, and it keeps what was dispatched.\<close>

lemma machine_step_ledger:
  assumes "machine_step x ce svc eng m m'" "reachable \<lparr>s_world = h_world (mc_host m), s_claims = C\<rparr>"
  shows "\<exists>C'. steps ledger_step \<lparr>s_world = h_world (mc_host m), s_claims = C\<rparr> \<lparr>s_world = h_world (mc_host m'), s_claims = C'\<rparr>"
  using assms(1)
proof cases
  case (mc_request a)
  then show ?thesis using request_run [OF mc_request(2)] by (auto simp: mc_api_def on_world_def ledger_run_def)
next
  case (mc_attempt i p b h)
  then show ?thesis using attempt_runs [OF assms(2)] by auto
next
  case (mc_uncertain i p t r h)
  then have "h_world h = snd (interrupted i p t (h_world (mc_host m)))"
    by (auto simp: mark_operation_uncertain_def on_ledger_def split: prod.splits sum.splits)
  then show ?thesis
    using mc_uncertain(1) ls_interrupted [of "\<lparr>s_world = h_world (mc_host m), s_claims = C\<rparr>" i p t] by (auto intro: steps_single)
next
  case (mc_activity w js)
  then show ?thesis using activity_run_ledger [OF mc_activity(2)] by (auto simp: on_world_def ledger_run_def)
qed

lemma machine_step_sent:
  assumes "machine_step x ce svc eng m m'" "reachable \<lparr>s_world = h_world (mc_host m), s_claims = C\<rparr>"
  shows "set (mc_sent m) \<subseteq> set (mc_sent m')"
  using assms(1)
proof cases
  case (mc_request a)
  have wf: "wf (a_world (mc_api m))" using reachable_wf [OF assms(2)] by (simp add: mc_api_def)
  have "wf v" if "ledger_run (a_world (mc_api m)) v" for v
    using ledger_run_evolves(1) [OF assms(2)] that by (simp add: mc_api_def)
  from request_waiting [OF mc_request(2) wf this] show ?thesis
    by (auto simp: mc_request(1) sends_waiting_def mc_api_def on_world_def)
qed (auto simp: on_world_def)

lemma machine_step_commands:
  assumes "machine_step x ce svc eng m m'" "reachable \<lparr>s_world = h_world (mc_host m), s_claims = C\<rparr>"
  shows "\<exists>cs. h_commands (mc_host m') = cs @ h_commands (mc_host m) \<and> list_all (accounted m) cs"
  using assms(1)
proof cases
  case (mc_attempt i p b h)
  from attempt_commands [OF assms(2) mc_attempt(3)] show ?thesis
    using started_accounted [OF _ mc_attempt(2)] by (auto simp: mc_attempt(1) list_all_iff)
next
  case (mc_uncertain i p t r h)
  then show ?thesis by (auto simp: mark_operation_uncertain_def on_ledger_def split: prod.splits sum.splits)
qed (auto simp: on_world_def)

lemma machine_inv_step:
  assumes "machine_inv m" "machine_step x ce svc eng m m'"
  shows "machine_inv m'"
proof -
  obtain C where r: "reachable \<lparr>s_world = h_world (mc_host m), s_claims = C\<rparr>" using assms(1) by (auto simp: machine_inv_def)
  obtain C' where run: "steps ledger_step \<lparr>s_world = h_world (mc_host m), s_claims = C\<rparr> \<lparr>s_world = h_world (mc_host m'), s_claims = C'\<rparr>"
    using machine_step_ledger [OF assms(2) r] by blast
  have ev: "evolves (h_world (mc_host m)) (h_world (mc_host m'))"
    using ledger.steps_rel [OF run ledger.reach_inv [OF r]] by simp
  obtain cs where cs: "h_commands (mc_host m') = cs @ h_commands (mc_host m)" "list_all (accounted m) cs"
    using machine_step_commands [OF assms(2) r] by blast
  have "accounted m' k" if "k \<in> set (h_commands (mc_host m'))" for k
  proof -
    have "accounted m k" using that cs assms(1) by (auto simp: list_all_iff machine_inv_def)
    then show ?thesis using ev machine_step_sent [OF assms(2) r] by (rule accounted_evolves)
  qed
  with ledger.reach_steps [OF r run] show ?thesis by (auto simp: machine_inv_def)
qed

interpretation machine: invariant_system machine_init "machine_step x ce svc eng" machine_inv for x ce svc eng
proof unfold_locales
  fix m assume "machine_init m"
  then show "machine_inv m" by (auto simp: machine_init_def machine_inv_def)
qed (rule machine_inv_step)

text \<open>C4. Nothing is applied unapproved. Whatever requests, attempts of workers (lost ones included), status
  writes and activities happen in whatever order, every command Terraform was started with is one of
  \<^verbatim>\<open>init\<close>, \<^verbatim>\<open>plan\<close>, \<^verbatim>\<open>show\<close>, \<^verbatim>\<open>apply\<close>, \<^verbatim>\<open>output\<close>, in the workspace of a recorded operation whose phase was
  dispatched; and for every \<^verbatim>\<open>apply\<close> the audit trail holds the accepted execute request.\<close>

theorem nothing_applied_unapproved:
  assumes "reach machine_init (machine_step x ce svc eng) m" "(j, args) \<in> set (h_commands (mc_host m))"
  shows "\<exists>i p row. Phase_of i p \<in> set (mc_sent m) \<and> op_find i (h_world (mc_host m)) = Some row \<and> r_resource_id row = j \<and>
    hd args \<in> {''init'', ''plan'', ''show'', ''apply'', ''output''} \<and>
    (hd args = ''apply'' \<longrightarrow> p = Apply_phase \<and>
       (\<exists>ev \<in> set (events (h_world (mc_host m))). e_operation_id ev = Some i \<and> e_action ev = Ev_execute \<and>
          e_outcome ev = Accepted))"
  using machine.reach_inv [OF assms(1)] assms(2)
  by (fastforce simp: machine_inv_def accounted_def executed_def)

text \<open>The demonstration: the approved plan of the network is applied by one attempt.\<close>

definition net_machine :: machine where
  "net_machine = \<lparr>mc_host = net_apply_host, mc_sent = [Phase_of ''op_1'' Apply_phase]\<rparr>"

lemma net_machine_init: "machine_init net_machine"
proof -
  have w: "h_world net_apply_host = net_saved" "h_commands net_apply_host = []"
    by (simp_all add: net_apply_host_def net_host_def)
  have "reachable \<lparr>s_world = net_saved, s_claims = [net_planning]\<rparr>" using net_reachable(2) by (simp add: demo_sys_def)
  then show ?thesis by (auto simp: machine_init_def net_machine_def w)
qed

theorem nothing_applied_unapproved_witness:
  "\<exists>m :: machine. (''res_1'', [''apply'', ''-no-color'', ''tfplan'']) \<in> set (h_commands (mc_host m)) \<and>
     (\<exists>ev \<in> set (events (h_world (mc_host m))). e_action ev = Ev_execute \<and> e_outcome ev = Accepted)"
proof -
  obtain h' where h': "run_operation_phase net_engine ''op_1'' Apply_phase 50 60 net_apply_host = (Inr True, h')"
    "h_commands h' = [(''res_1'', [''output'', ''-json'']), (''res_1'', [''apply'', ''-no-color'', ''tfplan''])]"
    using net_apply_run by blast
  let ?m = "net_machine\<lparr>mc_host := h'\<rparr>"
  have "machine_step shop_ext no_checks (\<lambda>_. True) net_engine net_machine ?m"
    by (rule mc_attempt [of "''op_1''" Apply_phase _ _ "Some True"])
      (use h'(1) in \<open>auto simp: net_machine_def intro: at_done\<close>)
  then have r: "reach machine_init (machine_step shop_ext no_checks (\<lambda>_. True) net_engine) ?m"
    by (rule reach_step [OF reach_init [where init = machine_init, OF net_machine_init]])
  have k: "(''res_1'', [''apply'', ''-no-color'', ''tfplan'']) \<in> set (h_commands (mc_host ?m))" by (simp add: h'(2))
  have "\<exists>ev \<in> set (events (h_world (mc_host ?m))). e_action ev = Ev_execute \<and> e_outcome ev = Accepted"
    using nothing_applied_unapproved [OF r k] by (metis list.sel(1))
  with k show ?thesis by blast
qed

end
