(* ===== verification/Deployments.thy ===== *)
theory Deployments
  imports Catalog "HOL-Library.Multiset"
begin

text \<open>
  The records of the deployment API that preceded the ledger: \<^verbatim>\<open>app/models.py\<close> and its two stores,
  \<^verbatim>\<open>app/db.py\<close> (SQLite) and \<^verbatim>\<open>app/db_table.py\<close> (Azure Table Storage). A store is a value of the record
  \<open>backend\<close>; what both promise is the locale \<open>deployment_store\<close>, so a run of changes leaves the same
  records whichever store is configured. JSON columns hold the value whose text the code stores; the limits of
  size of the service are left out.
\<close>

section \<open>Records\<close>

datatype lstate =
    L_accepted | L_planning | L_applying | L_succeeded | L_failed | L_destroying | L_destroyed

type_synonym dict = "(string \<times> json) list"

text \<open>\<open>dp_cost\<close> is a float (a finite one is exact here), \<open>dp_withheld\<close> \<^verbatim>\<open>withheld_outputs\<close>.\<close>

record deployment =
  dp_id :: string
  dp_pattern :: string
  dp_version :: "string option"
  dp_commit :: "string option"
  dp_inputs :: dict
  dp_business_unit :: "string option"
  dp_environment :: "string option"
  dp_subscription_id :: "string option"
  dp_size :: "string option"
  dp_injected :: "dict option"
  dp_cost :: "json option"
  dp_requested_by :: "string option"
  dp_state :: lstate
  dp_outputs :: "dict option"
  dp_withheld :: "string list option"
  dp_error :: "string option"
  dp_created_at :: nat
  dp_updated_at :: nat

record deployment_create =
  dc_pattern :: string
  dc_version :: "string option"
  dc_business_unit :: "string option"
  dc_environment :: "string option"
  dc_size :: "string option"
  dc_inputs :: dict

record deployment_update =
  du_version :: "string option"
  du_size :: "string option"
  du_inputs :: "dict option"

section \<open>Key Vault references\<close>

text \<open>\<^verbatim>\<open>_SECRET_URL\<close>: every class of characters ends where the next literal starts, so each star takes
  all it can; \<^verbatim>\<open>$\<close> also matches before a last line break.\<close>

definition span_of :: "(char \<Rightarrow> bool) \<Rightarrow> string \<Rightarrow> (string \<times> string)" where
  "span_of p s = (takeWhile p s, dropWhile p s)"

definition host_char :: "char \<Rightarrow> bool" where
  "host_char c \<longleftrightarrow> is_lower c \<or> is_digit c \<or> c = CHR ''-''"

definition is_upper :: "char \<Rightarrow> bool" where
  "is_upper c \<longleftrightarrow> (let n = (of_char c :: nat) in 65 \<le> n \<and> n \<le> 90)"

definition url_end :: "string \<Rightarrow> bool" where
  "url_end s \<longleftrightarrow> s = [] \<or> s = ''/'' \<or> s = [CHR 0x0A] \<or> s = [CHR ''/'', CHR 0x0A]"

definition secret_url :: "string \<Rightarrow> bool" where
  "secret_url s \<longleftrightarrow>
    (case span_of host_char (removeprefix ''https://'' s) of (host, r) \<Rightarrow>
       has_prefix ''https://'' s \<and> host \<noteq> [] \<and> has_prefix ''.vault.azure.net/secrets/'' r \<and>
       (case span_of (\<lambda>c. host_char c \<or> is_upper c) (removeprefix ''.vault.azure.net/secrets/'' r) of (name, v) \<Rightarrow>
          name \<noteq> [] \<and>
          (url_end v \<or>
            (has_prefix ''/'' v \<and>
             (case span_of is_hex (removeprefix ''/'' v) of (version, rest) \<Rightarrow> version \<noteq> [] \<and> url_end rest)))))"

definition key_path :: "string \<Rightarrow> string \<Rightarrow> string" where
  "key_path path k = (if path = [] then k else path @ ''.'' @ k)"

definition index_path :: "string \<Rightarrow> nat \<Rightarrow> string" where
  "index_path path n = path @ ''['' @ nat_str n @ '']''"

text \<open>\<^verbatim>\<open>found |= ...\<close>: an entry found later under the same path replaces the earlier one.\<close>

fun secret_references :: "json \<Rightarrow> string \<Rightarrow> (string \<times> string) list"
  and references_in_dict :: "(string \<times> json) list \<Rightarrow> string \<Rightarrow> (string \<times> string) list \<Rightarrow> (string \<times> string) list"
  and references_in_list :: "json list \<Rightarrow> nat \<Rightarrow> string \<Rightarrow> (string \<times> string) list \<Rightarrow> (string \<times> string) list" where
  "secret_references (JStr s) path = (if secret_url s then [(path, s)] else [])"
| "secret_references (JObj kvs) path = references_in_dict kvs path []"
| "secret_references (JList xs) path = references_in_list xs 0 path []"
| "secret_references JNull path = []"
| "secret_references (JBool b) path = []"
| "secret_references (JNum q) path = []"
| "secret_references (JNonFinite k) path = []"
| "references_in_dict [] path found = found"
| "references_in_dict ((k, v) # kvs) path found =
     references_in_dict kvs path (dict_merge found (secret_references v (key_path path k)))"
| "references_in_list [] n path found = found"
| "references_in_list (v # vs) n path found =
     references_in_list vs (n + 1) path (dict_merge found (secret_references v (index_path path n)))"

record deployment_out =
  do_record :: deployment
  do_links :: "(string \<times> string) list"
  do_secrets :: "(string \<times> string) list"

text \<open>\<^verbatim>\<open>DeploymentOut.of\<close>, with the subscription left out of what is shown.\<close>

definition shown_deployment :: "deployment \<Rightarrow> deployment_out" where
  "shown_deployment d =
    (let base = ''/deployments/'' @ dp_id d in
     \<lparr>do_record = d\<lparr>dp_subscription_id := None\<rparr>,
      do_links = [(''self'', base), (''logs'', base @ ''/logs''), (''events'', base @ ''/events'')],
      do_secrets = secret_references (JObj (case dp_outputs d of None \<Rightarrow> [] | Some kvs \<Rightarrow> kvs)) []\<rparr>)"

section \<open>The interface of a store\<close>

text \<open>\<^verbatim>\<open>insert\<close> (None when the key is taken), \<^verbatim>\<open>get\<close>, \<^verbatim>\<open>update\<close> (state, outputs, error, withheld, now), \<^verbatim>\<open>respec\<close>
  (inputs, version, commit, size, injected, cost, now), \<^verbatim>\<open>touch\<close>, \<^verbatim>\<open>list_for\<close>.\<close>

record 's backend =
  bk_insert :: "deployment \<Rightarrow> 's \<Rightarrow> 's option"
  bk_get :: "string \<Rightarrow> 's \<Rightarrow> deployment option"
  bk_update :: "string \<Rightarrow> lstate \<Rightarrow> dict option \<Rightarrow> string option \<Rightarrow> string list option \<Rightarrow> nat \<Rightarrow> 's \<Rightarrow> 's"
  bk_respec :: "string \<Rightarrow> dict \<Rightarrow> string option \<Rightarrow> string option \<Rightarrow> string option \<Rightarrow> dict option \<Rightarrow> json option \<Rightarrow> nat \<Rightarrow> 's \<Rightarrow> 's"
  bk_touch :: "string \<Rightarrow> nat \<Rightarrow> 's \<Rightarrow> 's"
  bk_list_for :: "string list option \<Rightarrow> 's \<Rightarrow> deployment list"

section \<open>SQLite\<close>

text \<open>A REAL column holds no NaN: SQLite stores NULL for it, which reads back as \<^verbatim>\<open>None\<close>. It keeps infinities.\<close>

definition real_column :: "json option \<Rightarrow> json option" where
  "real_column c = (if c = Some (JNonFinite NaN) then None else c)"

text \<open>A row; \<^verbatim>\<open>withheld_outputs\<close> NULL and the text \<^verbatim>\<open>null\<close> read the same. Newest first: rows of the same
  instant in the order they have.\<close>

definition sqlite_insert :: "deployment \<Rightarrow> deployment list \<Rightarrow> deployment list option" where
  "sqlite_insert d rows =
    (if row_find dp_id (dp_id d) rows \<noteq> None then None
     else Some (rows @ [d\<lparr>dp_cost := real_column (dp_cost d), dp_outputs := None, dp_withheld := None, dp_error := None\<rparr>]))"

definition sqlite_update ::
  "string \<Rightarrow> lstate \<Rightarrow> dict option \<Rightarrow> string option \<Rightarrow> string list option \<Rightarrow> nat \<Rightarrow> deployment list \<Rightarrow> deployment list" where
  "sqlite_update i st outputs err withheld now = row_update dp_id i (\<lambda>d. d\<lparr>dp_state := st,
     dp_outputs := (case outputs of None \<Rightarrow> dp_outputs d | Some v \<Rightarrow> Some v),
     dp_withheld := (if outputs \<noteq> None then withheld else dp_withheld d), dp_error := err, dp_updated_at := now\<rparr>)"

definition sqlite_respec ::
  "string \<Rightarrow> dict \<Rightarrow> string option \<Rightarrow> string option \<Rightarrow> string option \<Rightarrow> dict option \<Rightarrow> json option \<Rightarrow> nat
     \<Rightarrow> deployment list \<Rightarrow> deployment list" where
  "sqlite_respec i inputs version commit sz injected cost now = row_update dp_id i (\<lambda>d. d\<lparr>dp_inputs := inputs,
     dp_version := version, dp_commit := commit, dp_size := sz, dp_injected := injected,
     dp_cost := real_column cost, dp_updated_at := now\<rparr>)"

definition sqlite_touch :: "string \<Rightarrow> nat \<Rightarrow> deployment list \<Rightarrow> deployment list" where
  "sqlite_touch i now = row_update dp_id i (\<lambda>d. d\<lparr>dp_updated_at := now\<rparr>)"

definition in_units :: "string list option \<Rightarrow> string option \<Rightarrow> bool" where
  "in_units units bu = (case units of None \<Rightarrow> True | Some ns \<Rightarrow> (case bu of None \<Rightarrow> False | Some n \<Rightarrow> n \<in> set ns))"

definition newest :: "deployment list \<Rightarrow> deployment list" where
  "newest ds = rev (sort_key dp_created_at (rev ds))"

definition sqlite_list_for :: "string list option \<Rightarrow> deployment list \<Rightarrow> deployment list" where
  "sqlite_list_for units rows = newest (filter (\<lambda>d. in_units units (dp_business_unit d)) rows)"

definition sqlite :: "deployment list backend" where
  "sqlite = \<lparr>bk_insert = sqlite_insert, bk_get = row_find dp_id, bk_update = sqlite_update,
     bk_respec = sqlite_respec, bk_touch = sqlite_touch, bk_list_for = sqlite_list_for\<rparr>"

section \<open>Table Storage\<close>

text \<open>An entity. A merge cannot store null, so an absent text is the empty one; the JSON properties are
  empty texts (\<open>None\<close>) or documents, \<open>en_withheld\<close> is missing until the outputs are set.\<close>

record entity =
  en_row_key :: string
  en_pattern :: string
  en_version :: string
  en_commit_sha :: string
  en_inputs :: dict
  en_state :: lstate
  en_outputs :: "dict option"
  en_error :: string
  en_business_unit :: string
  en_environment :: string
  en_subscription_id :: string
  en_size :: string
  en_requested_by :: string
  en_injected :: "dict option"
  en_cost :: "json option"
  en_created_at :: nat
  en_updated_at :: nat
  en_withheld :: "string list option"

definition or_none :: "string \<Rightarrow> string option" where
  "or_none s = (if s = [] then None else Some s)"

definition to_entity :: "deployment \<Rightarrow> entity" where
  "to_entity d = \<lparr>en_row_key = dp_id d, en_pattern = dp_pattern d, en_version = or_empty (dp_version d),
     en_commit_sha = or_empty (dp_commit d), en_inputs = dp_inputs d, en_state = dp_state d, en_outputs = None,
     en_error = [], en_business_unit = or_empty (dp_business_unit d), en_environment = or_empty (dp_environment d),
     en_subscription_id = or_empty (dp_subscription_id d), en_size = or_empty (dp_size d),
     en_requested_by = or_empty (dp_requested_by d), en_injected = dp_injected d, en_cost = dp_cost d,
     en_created_at = dp_created_at d, en_updated_at = dp_updated_at d, en_withheld = None\<rparr>"

definition to_deployment :: "entity \<Rightarrow> deployment" where
  "to_deployment e = \<lparr>dp_id = en_row_key e, dp_pattern = en_pattern e, dp_version = or_none (en_version e),
     dp_commit = or_none (en_commit_sha e), dp_inputs = en_inputs e, dp_business_unit = or_none (en_business_unit e),
     dp_environment = or_none (en_environment e), dp_subscription_id = or_none (en_subscription_id e),
     dp_size = or_none (en_size e), dp_injected = en_injected e, dp_cost = en_cost e,
     dp_requested_by = or_none (en_requested_by e), dp_state = en_state e, dp_outputs = en_outputs e,
     dp_withheld = en_withheld e, dp_error = or_none (en_error e), dp_created_at = en_created_at e,
     dp_updated_at = en_updated_at e\<rparr>"

definition table_insert :: "deployment \<Rightarrow> entity list \<Rightarrow> entity list option" where
  "table_insert d es = (if row_find en_row_key (dp_id d) es \<noteq> None then None else Some (es @ [to_entity d]))"

definition table_get :: "string \<Rightarrow> entity list \<Rightarrow> deployment option" where
  "table_get i es = map_option to_deployment (row_find en_row_key i es)"

text \<open>A merge; a missing entity is suppressed.\<close>

definition table_update ::
  "string \<Rightarrow> lstate \<Rightarrow> dict option \<Rightarrow> string option \<Rightarrow> string list option \<Rightarrow> nat \<Rightarrow> entity list \<Rightarrow> entity list" where
  "table_update i st outputs err withheld now = row_update en_row_key i (\<lambda>e.
     (let e1 = e\<lparr>en_state := st, en_error := or_empty err, en_updated_at := now\<rparr> in
      case outputs of
        None \<Rightarrow> e1
      | Some v \<Rightarrow> e1\<lparr>en_outputs := Some v, en_withheld := Some (case withheld of None \<Rightarrow> [] | Some ns \<Rightarrow> ns)\<rparr>))"

definition table_respec ::
  "string \<Rightarrow> dict \<Rightarrow> string option \<Rightarrow> string option \<Rightarrow> string option \<Rightarrow> dict option \<Rightarrow> json option \<Rightarrow> nat
     \<Rightarrow> entity list \<Rightarrow> entity list" where
  "table_respec i inputs version commit sz injected cost now = row_update en_row_key i (\<lambda>e. e\<lparr>en_inputs := inputs,
     en_version := or_empty version, en_commit_sha := or_empty commit, en_size := or_empty sz,
     en_injected := injected, en_cost := cost, en_updated_at := now\<rparr>)"

definition table_touch :: "string \<Rightarrow> nat \<Rightarrow> entity list \<Rightarrow> entity list" where
  "table_touch i now = row_update en_row_key i (\<lambda>e. e\<lparr>en_updated_at := now\<rparr>)"

text \<open>The service answers in the order of the row keys. A unit filter compares the stored text.\<close>

definition table_list_for :: "string list option \<Rightarrow> entity list \<Rightarrow> deployment list" where
  "table_list_for units es =
    newest (map to_deployment (sort_key en_row_key
      (filter (\<lambda>e. case units of None \<Rightarrow> True | Some ns \<Rightarrow> en_business_unit e \<in> set ns) es)))"

definition table_store :: "entity list backend" where
  "table_store = \<lparr>bk_insert = table_insert, bk_get = table_get, bk_update = table_update,
     bk_respec = table_respec, bk_touch = table_touch, bk_list_for = table_list_for\<rparr>"

section \<open>What the stores promise\<close>

text \<open>The changes of a record, as every store makes them.\<close>

definition stored :: "deployment \<Rightarrow> deployment" where
  "stored d = d\<lparr>dp_outputs := None, dp_withheld := None, dp_error := None\<rparr>"

definition changed ::
  "lstate \<Rightarrow> dict option \<Rightarrow> string option \<Rightarrow> string list option \<Rightarrow> nat \<Rightarrow> deployment \<Rightarrow> deployment" where
  "changed st outputs err withheld now d = d\<lparr>dp_state := st,
     dp_outputs := (case outputs of None \<Rightarrow> dp_outputs d | Some v \<Rightarrow> Some v),
     dp_withheld := (if outputs \<noteq> None then withheld else dp_withheld d), dp_error := err, dp_updated_at := now\<rparr>"

definition respecified ::
  "dict \<Rightarrow> string option \<Rightarrow> string option \<Rightarrow> string option \<Rightarrow> dict option \<Rightarrow> json option \<Rightarrow> nat \<Rightarrow> deployment \<Rightarrow> deployment" where
  "respecified inputs version commit sz injected cost now d = d\<lparr>dp_inputs := inputs, dp_version := version,
     dp_commit := commit, dp_size := sz, dp_injected := injected, dp_cost := cost, dp_updated_at := now\<rparr>"

text \<open>What both stores represent: no empty text where a text may be absent, the withheld names given with
  the outputs, and no cost that is NaN, which only Table Storage keeps.\<close>

definition cost_ok :: "json option \<Rightarrow> bool" where
  "cost_ok c \<longleftrightarrow> c \<noteq> Some (JNonFinite NaN)"

definition text_ok :: "string option \<Rightarrow> bool" where
  "text_ok s \<longleftrightarrow> s \<noteq> Some []"

definition storable :: "deployment \<Rightarrow> bool" where
  "storable d \<longleftrightarrow> list_all text_ok [dp_version d, dp_commit d, dp_business_unit d, dp_environment d,
     dp_subscription_id d, dp_size d, dp_requested_by d] \<and> cost_ok (dp_cost d)"

datatype record_change =
    Insert deployment
  | Update string lstate "dict option" "string option" "string list option" nat
  | Respec string dict "string option" "string option" "string option" "dict option" "json option" nat
  | Touch string nat

fun representable :: "record_change \<Rightarrow> bool" where
  "representable (Insert d) = storable d"
| "representable (Update i st outputs err withheld now) = (text_ok err \<and> (outputs = None \<or> withheld \<noteq> None))"
| "representable (Respec i inputs version commit sz injected cost now) = (list_all text_ok [version, commit, sz] \<and> cost_ok cost)"
| "representable (Touch i now) = True"

text \<open>An insert that raises leaves the store as it is.\<close>

fun apply_change :: "'s backend \<Rightarrow> record_change \<Rightarrow> 's \<Rightarrow> 's" where
  "apply_change B (Insert d) s = (case bk_insert B d s of None \<Rightarrow> s | Some s1 \<Rightarrow> s1)"
| "apply_change B (Update i st outputs err withheld now) s = bk_update B i st outputs err withheld now s"
| "apply_change B (Respec i inputs version commit sz injected cost now) s =
     bk_respec B i inputs version commit sz injected cost now s"
| "apply_change B (Touch i now) s = bk_touch B i now s"

fun apply_to_records :: "record_change \<Rightarrow> deployment list \<Rightarrow> deployment list" where
  "apply_to_records (Insert d) ds = (if row_find dp_id (dp_id d) ds = None then ds @ [stored d] else ds)"
| "apply_to_records (Update i st outputs err withheld now) ds = row_update dp_id i (changed st outputs err withheld now) ds"
| "apply_to_records (Respec i inputs version commit sz injected cost now) ds =
     row_update dp_id i (respecified inputs version commit sz injected cost now) ds"
| "apply_to_records (Touch i now) ds = row_update dp_id i (\<lambda>d. d\<lparr>dp_updated_at := now\<rparr>) ds"

locale deployment_store =
  fixes B :: "'s backend"
  fixes empty_store :: 's
  fixes records :: "'s \<Rightarrow> deployment list"
  assumes records_empty: "records empty_store = []"
  assumes get_records: "bk_get B i s = row_find dp_id i (records s)"
  assumes change_records: "representable c \<Longrightarrow> records (apply_change B c s) = apply_to_records c (records s)"
  assumes list_records: "units = None \<or> [] \<notin> set (the units) \<Longrightarrow>
    mset (bk_list_for B units s) = mset (filter (\<lambda>d. in_units units (dp_business_unit d)) (records s)) \<and>
    sorted (map dp_created_at (rev (bk_list_for B units s)))"
begin

lemma run_records:
  "list_all representable cs \<Longrightarrow> records (fold (apply_change B) cs s) = fold apply_to_records cs (records s)"
  by (induction cs arbitrary: s) (simp_all add: change_records)

lemma get_run:
  "list_all representable cs \<Longrightarrow>
     bk_get B i (fold (apply_change B) cs empty_store) = row_find dp_id i (fold apply_to_records cs [])"
  by (simp add: get_records run_records records_empty)

lemma get_update:
  assumes "text_ok err" "outputs = None \<or> withheld \<noteq> None"
  shows "bk_get B j (bk_update B i st outputs err withheld now s) =
    (if j = i then map_option (changed st outputs err withheld now) (bk_get B i s) else bk_get B j s)"
  using change_records [of "Update i st outputs err withheld now" s] assms
  by (simp add: get_records row_find_update changed_def)

lemma listed_members:
  "units = None \<or> [] \<notin> set (the units) \<Longrightarrow>
     set (bk_list_for B units s) = {d \<in> set (records s). in_units units (dp_business_unit d)}"
  using list_records [of units s] by (metis mset_eq_setD set_filter)

end

section \<open>Both stores keep the promises\<close>

lemma newest_mset: "mset (newest ds) = mset ds"
  by (simp add: newest_def)

lemma newest_sorted: "sorted (map dp_created_at (rev (newest ds)))"
  by (simp add: newest_def)

lemma or_none_empty: "text_ok s \<Longrightarrow> or_none (or_empty s) = s"
  by (cases s) (auto simp: or_none_def or_empty_def text_ok_def)

lemma row_find_map: "(\<And>r. k' (f r) = k r) \<Longrightarrow> row_find k' i (map f rows) = map_option f (row_find k i rows)"
  by (induction rows) (auto simp: row_find_def)

lemma map_row_update:
  "(\<And>r. k' (f r) = k r) \<Longrightarrow> (\<And>r. f (g r) = g' (f r)) \<Longrightarrow> map f (row_update k i g rows) = row_update k' i g' (map f rows)"
  by (simp add: row_update_def)

lemma entity_id [simp]: "dp_id (to_deployment e) = en_row_key e"
  by (simp add: to_deployment_def)

lemma to_deployment_entity: "storable d \<Longrightarrow> to_deployment (to_entity d) = stored d"
  by (simp add: to_deployment_def to_entity_def stored_def storable_def or_none_empty)
    (simp add: or_none_def)

interpretation sqlite_records: deployment_store sqlite "[]" "\<lambda>rows. rows"
proof unfold_locales
  fix c :: record_change and rows
  assume "representable c"
  then show "apply_change sqlite c rows = apply_to_records c rows"
    by (cases c) (simp_all add: storable_def cost_ok_def real_column_def sqlite_def sqlite_insert_def sqlite_update_def sqlite_respec_def sqlite_touch_def stored_def
        changed_def [abs_def] respecified_def [abs_def])
next
  fix units :: "string list option" and rows
  show "mset (bk_list_for sqlite units rows) = mset (filter (\<lambda>d. in_units units (dp_business_unit d)) rows) \<and>
      sorted (map dp_created_at (rev (bk_list_for sqlite units rows)))"
    by (simp add: sqlite_def sqlite_list_for_def newest_mset newest_sorted)
qed (simp_all add: sqlite_def)

interpretation table_records: deployment_store table_store "[]" "map to_deployment"
proof unfold_locales
  fix i and es :: "entity list"
  show "bk_get table_store i es = row_find dp_id i (map to_deployment es)"
    by (simp add: table_store_def table_get_def row_find_map [where k = en_row_key])
next
  fix c :: record_change and es :: "entity list"
  assume r: "representable c"
  show "map to_deployment (apply_change table_store c es) = apply_to_records c (map to_deployment es)"
  proof (cases c)
    case (Insert d)
    then show ?thesis using r
      by (simp add: table_store_def table_insert_def to_deployment_entity row_find_map [where k = en_row_key])
  next
    case (Update i st outputs err withheld now)
    then show ?thesis using r
      by (auto simp: table_store_def table_update_def Let_def changed_def to_deployment_def or_none_empty
          intro!: map_row_update split: option.split)
  next
    case (Respec i inputs version commit sz injected cost now)
    then show ?thesis using r
      by (auto simp: table_store_def table_respec_def respecified_def to_deployment_def or_none_empty intro!: map_row_update)
  next
    case (Touch i now)
    then show ?thesis
      by (auto simp: table_store_def table_touch_def to_deployment_def intro!: map_row_update)
  qed
next
  fix units :: "string list option" and es :: "entity list"
  assume u: "units = None \<or> [] \<notin> set (the units)"
  have "in_units units (or_none n) = (case units of None \<Rightarrow> True | Some ns \<Rightarrow> n \<in> set ns)" for n
    using u by (cases units) (auto simp: in_units_def or_none_def)
  then have p: "in_units units (dp_business_unit (to_deployment e)) =
      (case units of None \<Rightarrow> True | Some ns \<Rightarrow> en_business_unit e \<in> set ns)" for e
    by (simp add: to_deployment_def)
  have f: "filter (\<lambda>d. in_units units (dp_business_unit d)) (map to_deployment es) =
      map to_deployment (filter (\<lambda>e. case units of None \<Rightarrow> True | Some ns \<Rightarrow> en_business_unit e \<in> set ns) es)"
    by (simp only: filter_map comp_def p)
  have l: "bk_list_for table_store units es = newest (map to_deployment (sort_key en_row_key
      (filter (\<lambda>e. case units of None \<Rightarrow> True | Some ns \<Rightarrow> en_business_unit e \<in> set ns) es)))"
    by (simp add: table_store_def table_list_for_def)
  show "mset (bk_list_for table_store units es) = mset (filter (\<lambda>d. in_units units (dp_business_unit d)) (map to_deployment es)) \<and>
      sorted (map dp_created_at (rev (bk_list_for table_store units es)))"
    unfolding f l newest_mset by (simp only: newest_sorted mset_map mset_sort simp_thms)
qed (simp add: table_store_def)

end
