(* ===== verification/AuditTrail.thy ===== *)
theory AuditTrail
  imports Deployments Terraform
begin

text \<open>
  The audit trail of the deployment API, \<^verbatim>\<open>app/audit.py\<close>: its two stores, the write that must succeed
  (\<^verbatim>\<open>record\<close>), the one that may be lost (\<^verbatim>\<open>record_quietly\<close>), and the query. Event identifiers are
  time-ordered, so the order of recording is the order of the identifiers. What an API process has at hand is
  the record \<open>setting\<close>; its state is \<open>'s legacy\<close>, over the state \<open>'s\<close> of the deployment store.
\<close>

section \<open>Events\<close>

record audit_event =
  ae_at :: nat
  ae_actor :: string
  ae_action :: string
  ae_outcome :: string
  ae_status :: "nat option"
  ae_deployment_id :: "string option"
  ae_pattern :: "string option"
  ae_version :: "string option"
  ae_business_unit :: "string option"
  ae_environment :: "string option"
  ae_detail :: dict

text \<open>A stored event. The Table keeps 30,000 characters of the detail's JSON text: \<open>ar_cut\<close> is a text that
  lost its end, and with it its closing brace.\<close>

record audit_row =
  ar_event :: audit_event
  ar_cut :: bool

definition REDACTED :: string where
  "REDACTED = ''***''"

definition safe_inputs :: "dict \<Rightarrow> variable list option \<Rightarrow> dict" where
  "safe_inputs inputs vars = (case vars of
      None \<Rightarrow> map (\<lambda>kv. (fst kv, JStr ''(not recorded)'')) inputs
    | Some vs \<Rightarrow>
        (let sensitive = map v_name (filter v_sensitive vs)
         in map (\<lambda>kv. (fst kv, if fst kv \<in> set sensitive then JStr REDACTED else snd kv)) inputs))"

section \<open>The process\<close>

text \<open>\<open>sg_world\<close> holds the settings and the teams, \<open>sg_table\<close> is \<^verbatim>\<open>db_backend == "table"\<close>, \<open>sg_number\<close> prints a number,
  \<open>sg_audit\<close> and \<open>sg_engine\<close> say of the n-th audit write and the n-th dispatch whether they go through, \<open>sg_reason\<close> is the
  text of a refusal. \<open>sg_over\<close> and \<open>sg_left\<close> are the comparison and the difference of amounts that are not two finite
  numbers (a truth value, infinity, nan, or a text, which raises).\<close>

record setting =
  sg_ext :: ext
  sg_world :: world
  sg_table :: bool
  sg_number :: "json \<Rightarrow> string"
  sg_audit :: "nat \<Rightarrow> bool"
  sg_engine :: "nat \<Rightarrow> bool"
  sg_reason :: "err \<Rightarrow> json"
  sg_over :: "json \<Rightarrow> json \<Rightarrow> err + bool"
  sg_left :: "json \<Rightarrow> json \<Rightarrow> err + json"

text \<open>What \<^verbatim>\<open>_Audited\<close> has gathered of the request in hand.\<close>

record trail =
  tr_action :: string
  tr_actor :: string
  tr_deployment_id :: "string option"
  tr_pattern :: "string option"
  tr_version :: "string option"
  tr_business_unit :: "string option"
  tr_environment :: "string option"
  tr_detail :: dict

record 's legacy =
  lg_store :: 's
  lg_audit :: "audit_row list"
  lg_writes :: nat
  lg_jobs :: "(string \<times> string) list"
  lg_trail :: trail

type_synonym ('s, 'a) lx = "'s legacy \<Rightarrow> (err + 'a) \<times> 's legacy"

definition lret :: "'a \<Rightarrow> ('s, 'a) lx" where
  "lret v s = (Inr v, s)"

definition lraise :: "err \<Rightarrow> ('s, 'a) lx" where
  "lraise e s = (Inl e, s)"

definition lbind :: "('s, 'a) lx \<Rightarrow> ('a \<Rightarrow> ('s, 'b) lx) \<Rightarrow> ('s, 'b) lx" where
  "lbind m f s = (case m s of (Inl e, s1) \<Rightarrow> (Inl e, s1) | (Inr v, s1) \<Rightarrow> f v s1)"

definition llift :: "err + 'a \<Rightarrow> ('s, 'a) lx" where
  "llift r s = (r, s)"

text \<open>A read of the state, and a change of the store.\<close>

definition lread :: "('s legacy \<Rightarrow> err + 'a) \<Rightarrow> ('s, 'a) lx" where
  "lread f s = (f s, s)"

definition on_store :: "('s \<Rightarrow> 's) \<Rightarrow> ('s, unit) lx" where
  "on_store f s = (Inr (), s\<lparr>lg_store := f (lg_store s)\<rparr>)"

section \<open>Writes\<close>

definition event_of :: "trail \<Rightarrow> string \<Rightarrow> nat option \<Rightarrow> dict \<Rightarrow> nat \<Rightarrow> audit_event" where
  "event_of tr outcome status detail t = \<lparr>ae_at = t, ae_actor = tr_actor tr, ae_action = tr_action tr, ae_outcome = outcome,
     ae_status = status, ae_deployment_id = tr_deployment_id tr, ae_pattern = tr_pattern tr, ae_version = tr_version tr,
     ae_business_unit = tr_business_unit tr, ae_environment = tr_environment tr, ae_detail = detail\<rparr>"

definition DETAIL_LIMIT :: nat where
  "DETAIL_LIMIT = 30000"

definition audit_row_of :: "setting \<Rightarrow> audit_event \<Rightarrow> audit_row" where
  "audit_row_of E ev = \<lparr>ar_event = ev,
     ar_cut = (sg_table E \<and> DETAIL_LIMIT < length (dumps (sg_number E) (JObj (ae_detail ev))))\<rparr>"

text \<open>\<^verbatim>\<open>record\<close>; what a failed write raises is always caught.\<close>

definition record_event :: "setting \<Rightarrow> audit_event \<Rightarrow> ('s, unit) lx" where
  "record_event E ev s =
    (let s1 = s\<lparr>lg_writes := lg_writes s + 1\<rparr> in
     if sg_audit E (lg_writes s) then (Inr (), s1\<lparr>lg_audit := lg_audit s @ [audit_row_of E ev]\<rparr>)
     else (Inl IntegrityError, s1))"

definition record_quietly :: "setting \<Rightarrow> audit_event \<Rightarrow> 's legacy \<Rightarrow> 's legacy" where
  "record_quietly E ev s = snd (record_event E ev s)"

section \<open>Queries\<close>

text \<open>A unit's partition is \<^verbatim>\<open>-\<close> when there is none; SQLite compares the column.\<close>

definition filed_under :: "setting \<Rightarrow> string list option \<Rightarrow> audit_event \<Rightarrow> bool" where
  "filed_under E units ev =
    (if sg_table E
     then (case units of None \<Rightarrow> True
           | Some ns \<Rightarrow> (if or_empty (ae_business_unit ev) = [] then ''-'' else or_empty (ae_business_unit ev)) \<in> set ns)
     else in_units units (ae_business_unit ev))"

definition wanted_event :: "setting \<Rightarrow> string list option \<Rightarrow> string option \<Rightarrow> nat option \<Rightarrow> audit_event \<Rightarrow> bool" where
  "wanted_event E units dep since ev \<longleftrightarrow> filed_under E units ev \<and>
     (or_empty dep = [] \<or> ae_deployment_id ev = dep) \<and> (case since of None \<Rightarrow> True | Some t \<Rightarrow> t \<le> ae_at ev)"

text \<open>\<^verbatim>\<open>_to_event\<close>: a text that was cut does not parse.\<close>

definition parse_row :: "audit_row \<Rightarrow> err + audit_event" where
  "parse_row r = (if ar_cut r then Inl ValueError else Inr (ar_event r))"

definition audit_query ::
  "setting \<Rightarrow> string list option \<Rightarrow> string option \<Rightarrow> nat option \<Rightarrow> nat \<Rightarrow> audit_row list \<Rightarrow> err + audit_event list" where
  "audit_query E units dep since limit rows =
    (let hits = filter (\<lambda>r. wanted_event E units dep since (ar_event r)) rows in
     if sg_table E
     then (if units = Some [] then Inr [] else sbind (smap parse_row hits) (\<lambda>evs. Inr (take limit (rev evs))))
     else smap parse_row (take limit (rev hits)))"

definition events_for_deployment :: "setting \<Rightarrow> string \<Rightarrow> string option \<Rightarrow> audit_row list \<Rightarrow> err + audit_event list" where
  "events_for_deployment E i bu =
     audit_query E (if or_empty bu = [] then None else Some [or_empty bu]) (Some i) None 500"

end
