(* ===== verification/Legacy.thy ===== *)
theory Legacy
  imports AuditTrail Policy
begin

text \<open>
  The deployment API that preceded the ledger, \<^verbatim>\<open>app/legacy.py\<close>, with the budgets it reads
  (\<^verbatim>\<open>app/budgets.py\<close>): placement and validation of a request, the four handlers that change a deployment, the reads.
  \<open>B\<close> is the store in use, \<open>E\<close> the process around it. A handler runs without another in between until it awaits the
  dispatch, its last step but the answer; texts of refusals are \<open>sg_reason\<close>.
\<close>

section \<open>Budgets\<close>

text \<open>Sums and differences of floats: NaN spoils every sum, opposite infinities give NaN.\<close>

fun amount_plus :: "json \<Rightarrow> json \<Rightarrow> json" where
  "amount_plus (JNum p) (JNum q) = JNum (p + q)"
| "amount_plus (JNonFinite k) (JNonFinite l) = JNonFinite (if k = l then k else NaN)"
| "amount_plus (JNonFinite k) _ = JNonFinite k"
| "amount_plus _ (JNonFinite l) = JNonFinite l"
| "amount_plus a _ = a"

definition amount_sum :: "json list \<Rightarrow> json" where
  "amount_sum js = foldl amount_plus (JNum 0) js"

fun amount_negative :: "json \<Rightarrow> json" where
  "amount_negative (JNum q) = JNum (- q)"
| "amount_negative (JNonFinite Plus_infinity) = JNonFinite Minus_infinity"
| "amount_negative (JNonFinite Minus_infinity) = JNonFinite Plus_infinity"
| "amount_negative j = j"

definition amount_minus :: "json \<Rightarrow> json \<Rightarrow> json" where
  "amount_minus a b = amount_plus a (amount_negative b)"

definition cost_or_zero :: "json option \<Rightarrow> json" where
  "cost_or_zero c = (case c of None \<Rightarrow> JNum 0 | Some j \<Rightarrow> j)"

text \<open>\<^verbatim>\<open>float(candidate)\<close>: an int too large for a float raises.\<close>

definition cost_of :: "json \<Rightarrow> string \<Rightarrow> string option \<Rightarrow> err + json option" where
  "cost_of config env sz = sbind (estimated_cost config env sz) (\<lambda>c. case c of
      Some (JNum q) \<Rightarrow> (if \<bar>q\<bar> < float_limit then Inr (Some (JNum q)) else Inl OverflowError)
    | _ \<Rightarrow> Inr c)"

definition committed :: "'s backend \<Rightarrow> business_unit \<Rightarrow> environment \<Rightarrow> 's \<Rightarrow> json" where
  "committed B u env s = amount_sum (map (\<lambda>d. cost_or_zero (dp_cost d))
     (filter (\<lambda>d. dp_environment d = Some (env_name env) \<and> dp_state d \<noteq> L_destroyed) (bk_list_for B (Some [u_name u]) s)))"

definition left_of :: "setting \<Rightarrow> json \<Rightarrow> json \<Rightarrow> err + json" where
  "left_of E limit used = (case (limit, used) of (JNum p, JNum q) \<Rightarrow> Inr (JNum (max 0 (p - q))) | _ \<Rightarrow> sg_left E limit used)"

definition over_limit :: "setting \<Rightarrow> json \<Rightarrow> json \<Rightarrow> err + bool" where
  "over_limit E total_cost limit = (case (total_cost, limit) of (JNum p, JNum q) \<Rightarrow> Inr (q < p) | _ \<Rightarrow> sg_over E total_cost limit)"

record budget_use =
  bg_monthly :: json
  bg_committed :: json
  bg_request :: "json option"
  bg_available :: json
  bg_now :: "json option"

definition usage :: "setting \<Rightarrow> 's backend \<Rightarrow> business_unit \<Rightarrow> environment \<Rightarrow> 's \<Rightarrow> err + budget_use" where
  "usage E B u env s =
    (let used = committed B u env s; limit = env_budget_monthly env in
     sbind (if limit = JNull then Inr JNull else left_of E limit used) (\<lambda>free.
     Inr \<lparr>bg_monthly = limit, bg_committed = used, bg_request = None, bg_available = free, bg_now = None\<rparr>))"

definition check_budget ::
  "setting \<Rightarrow> 's backend \<Rightarrow> business_unit \<Rightarrow> environment \<Rightarrow> json option \<Rightarrow> json \<Rightarrow> 's \<Rightarrow> err + budget_use option" where
  "check_budget E B u env cost replacing s =
    (let limit = env_budget_monthly env in
     if limit = JNull then Inr None
     else case cost of
       None \<Rightarrow> Inl (TenancyError 403)
     | Some c \<Rightarrow>
        (let used = amount_minus (committed B u env s) replacing in
         sbind (left_of E limit used) (\<lambda>free.
         sbind (over_limit E (amount_sum [used, c]) limit) (\<lambda>over.
         if over then Inl (TenancyError 403)
         else Inr (Some \<lparr>bg_monthly = limit, bg_committed = used, bg_request = Some c, bg_available = free,
                     bg_now = (if truthy replacing then Some replacing else None)\<rparr>)))))"

section \<open>Validation and placement\<close>

text \<open>\<^verbatim>\<open>_resolve\<close>, \<^verbatim>\<open>_variables\<close> and \<^verbatim>\<open>_config\<close>: the catalog's errors as answers.\<close>

definition bad_gateway :: "err \<Rightarrow> err" where
  "bad_gateway e = (if e = CatalogError then HTTPException 502 else e)"

definition legacy_resolve :: "setting \<Rightarrow> string \<Rightarrow> string option \<Rightarrow> err + resolved" where
  "legacy_resolve E n version =
    (case catalog_load (sg_ext E) of
       Inl e \<Rightarrow> Inl (bad_gateway e)
     | Inr ps \<Rightarrow>
        if map_of ps n = None then Inl (HTTPException 404)
        else case catalog_resolve (sg_ext E) n version of
          Inl e \<Rightarrow> Inl (if e = UnknownVersion then HTTPException 422 else bad_gateway e)
        | Inr r \<Rightarrow> Inr r)"

definition legacy_variables :: "setting \<Rightarrow> resolved \<Rightarrow> err + variable list" where
  "legacy_variables E r = (case variables (sg_ext E) r of Inl e \<Rightarrow> Inl (bad_gateway e) | Inr vs \<Rightarrow> Inr vs)"

definition legacy_config :: "setting \<Rightarrow> resolved \<Rightarrow> err + json" where
  "legacy_config E r = (case x_config (sg_ext E) r of Inl e \<Rightarrow> Inl (bad_gateway e) | Inr c \<Rightarrow> Inr c)"

record placed =
  ps_cost :: "json option"
  ps_budget :: "budget_use option"
  ps_business_unit :: string
  ps_environment :: string
  ps_subscription_id :: "string option"
  ps_size :: "string option"
  ps_injected :: dict

text \<open>The part of \<^verbatim>\<open>_plan_request\<close> before the inputs are checked: the variables as the caller sees them, and
  under tenancy the place with its configuration and injected values.\<close>

definition shaped_request ::
  "setting \<Rightarrow> caller \<Rightarrow> string \<Rightarrow> resolved \<Rightarrow> string option \<Rightarrow> string option \<Rightarrow> string option
     \<Rightarrow> err + variable list \<times> (placement \<times> json \<times> dict) option" where
  "shaped_request E c pattern r bu env sz =
    sbind (legacy_variables E r) (\<lambda>vars.
    if \<not> enabled (sg_world E)
    then (if or_empty bu \<noteq> [] \<or> or_empty env \<noteq> [] \<or> or_empty sz \<noteq> [] then Inl (HTTPException 422) else Inr (vars, None))
    else sbind (select_unit (sg_world E) c bu) (\<lambda>u.
         sbind (place c u env pattern False) (\<lambda>site.
         sbind (legacy_config E r) (\<lambda>config.
         sbind (shape vars site config sz True) (\<lambda>(visible, injected).
         Inr (visible, Some (site, config, injected)))))))"

text \<open>\<^verbatim>\<open>_plan_request\<close>; \<open>None\<close> is the empty dict it returns without tenancy.\<close>

definition plan_request ::
  "setting \<Rightarrow> 's backend \<Rightarrow> caller \<Rightarrow> string \<Rightarrow> resolved \<Rightarrow> dict \<Rightarrow> string option \<Rightarrow> string option \<Rightarrow> string option \<Rightarrow> json
     \<Rightarrow> 's \<Rightarrow> err + placed option" where
  "plan_request E B c pattern r inputs bu env sz replacing s =
    sbind (shaped_request E c pattern r bu env sz) (\<lambda>(vars, where_at).
    if schema_errors (sg_ext E) pattern vars inputs \<noteq> [] then Inl (HTTPException 422)
    else case where_at of
      None \<Rightarrow> Inr None
    | Some (site, config, injected) \<Rightarrow>
        (let u = pl_unit site; e = pl_environment site;
             region = or_empty (u_region_default u);
             injected' = (if list_ex (\<lambda>v. v_name v = ''location'') vars \<and> map_of inputs ''location'' = None \<and> region \<noteq> []
                          then dict_set ''location'' (JStr region) injected else injected)
         in sbind (cost_of config (env_name e) sz) (\<lambda>cost.
            sbind (check_budget E B u e cost replacing s) (\<lambda>budget.
            Inr (Some \<lparr>ps_cost = cost, ps_budget = budget, ps_business_unit = u_name u, ps_environment = env_name e,
               ps_subscription_id = env_subscription_id e, ps_size = sz, ps_injected = injected'\<rparr>)))))"

section \<open>The audited request\<close>

definition refused_with :: "err \<Rightarrow> nat option" where
  "refused_with e = (case e of HTTPException n \<Rightarrow> Some n | TenancyError n \<Rightarrow> Some n | SizeNotOffered \<Rightarrow> Some 422 | _ \<Rightarrow> None)"

text \<open>\<^verbatim>\<open>with _Audited(...) as trail\<close>: a refusal is recorded with what is known by then.\<close>

definition audited :: "setting \<Rightarrow> trail \<Rightarrow> nat \<Rightarrow> ('s, 'a) lx \<Rightarrow> ('s, 'a) lx" where
  "audited E tr t body s =
    (case body (s\<lparr>lg_trail := tr\<rparr>) of
       (Inr v, s1) \<Rightarrow> (Inr v, s1)
     | (Inl e, s1) \<Rightarrow>
        (Inl e,
         if refused_with e = None then s1
         else record_quietly E (event_of (lg_trail s1) ''refused'' (refused_with e)
                (dict_set ''reason'' (sg_reason E e) (tr_detail (lg_trail s1))) t) s1))"

definition on_trail :: "(trail \<Rightarrow> trail) \<Rightarrow> ('s, unit) lx" where
  "on_trail f s = (Inr (), s\<lparr>lg_trail := f (lg_trail s)\<rparr>)"

definition note_detail :: "dict \<Rightarrow> ('s, unit) lx" where
  "note_detail d = on_trail (\<lambda>tr. tr\<lparr>tr_detail := dict_merge (tr_detail tr) d\<rparr>)"

definition placed_trail :: "deployment \<Rightarrow> ('s, unit) lx" where
  "placed_trail d = on_trail (\<lambda>tr. tr\<lparr>tr_deployment_id := Some (dp_id d), tr_pattern := Some (dp_pattern d),
     tr_version := dp_version d, tr_business_unit := dp_business_unit d, tr_environment := dp_environment d\<rparr>)"

definition new_trail :: "string \<Rightarrow> caller \<Rightarrow> trail" where
  "new_trail act c = \<lparr>tr_action = act, tr_actor = caller_id c, tr_deployment_id = None, tr_pattern = None, tr_version = None,
     tr_business_unit = None, tr_environment = None, tr_detail = []\<rparr>"

text \<open>\<^verbatim>\<open>trail.accepted()\<close>.\<close>

definition accepted :: "setting \<Rightarrow> nat \<Rightarrow> ('s, unit) lx" where
  "accepted E t s =
    (case record_event E (event_of (lg_trail s) ''accepted'' None (tr_detail (lg_trail s)) t) s of
       (Inl e, s1) \<Rightarrow> (Inl (HTTPException 503), s1)
     | (Inr _, s1) \<Rightarrow> (Inr (), s1))"

text \<open>\<^verbatim>\<open>_start\<close>: the n-th dispatch, which may have reached the service although it raises.\<close>

definition start_job :: "setting \<Rightarrow> 's backend \<Rightarrow> string \<Rightarrow> string \<Rightarrow> nat \<Rightarrow> ('s, unit) lx" where
  "start_job E B i job t s =
    (let s1 = s\<lparr>lg_jobs := lg_jobs s @ [(i, job)]\<rparr> in
     if sg_engine E (length (lg_jobs s)) then (Inr (), s1)
     else (Inl (HTTPException 503), s1\<lparr>lg_store :=
             bk_update B i L_failed None (Some ''could not reach Temporal to start the job'') None t (lg_store s1)\<rparr>))"

section \<open>Loading a deployment\<close>

definition access_event :: "caller \<Rightarrow> deployment \<Rightarrow> bool \<Rightarrow> nat \<Rightarrow> nat \<Rightarrow> audit_event" where
  "access_event c d ch n t = \<lparr>ae_at = t, ae_actor = caller_id c, ae_action = ''deployment.access'', ae_outcome = ''refused'',
     ae_status = Some n, ae_deployment_id = Some (dp_id d), ae_pattern = Some (dp_pattern d), ae_version = None,
     ae_business_unit = dp_business_unit d, ae_environment = dp_environment d,
     ae_detail = [(''wanted_to_change'', JBool ch)]\<rparr>"

text \<open>\<^verbatim>\<open>_load\<close>, with \<^verbatim>\<open>denied\<close>.\<close>

definition load_deployment :: "setting \<Rightarrow> 's backend \<Rightarrow> string \<Rightarrow> caller \<Rightarrow> bool \<Rightarrow> nat \<Rightarrow> ('s, deployment) lx" where
  "load_deployment E B i c ch t s =
    (case bk_get B i (lg_store s) of
       None \<Rightarrow> (Inl (HTTPException 404), s)
     | Some d \<Rightarrow>
        if \<not> enabled (sg_world E) then (Inr d, s)
        else case load_unit (sg_world E) (Some (or_empty (dp_business_unit d))) of
          None \<Rightarrow> (Inl (HTTPException 404), record_quietly E (access_event c d ch 404 t) s)
        | Some u \<Rightarrow>
            if \<not> unit_includes u c then (Inl (HTTPException 404), record_quietly E (access_event c d ch 404 t) s)
            else if ch \<and> (case unit_env u (Some (or_empty (dp_environment d))) of
                            None \<Rightarrow> True | Some env \<Rightarrow> \<not> can_deploy u c env)
            then (Inl (HTTPException 403), record_quietly E (access_event c d ch 403 t) s)
            else (Inr d, s))"

section \<open>Creating\<close>

definition only_unit :: "setting \<Rightarrow> caller \<Rightarrow> string option" where
  "only_unit E c =
    (if \<not> enabled (sg_world E) then None
     else case units_for (sg_world E) c of [u] \<Rightarrow> Some (u_name u) | _ \<Rightarrow> None)"

record dry_run =
  dn_version :: "string option"
  dn_commit :: "string option"
  dn_inputs :: dict
  dn_placed :: "placed option"

definition hide_subscription :: "placed option \<Rightarrow> placed option" where
  "hide_subscription p = map_option (\<lambda>p. p\<lparr>ps_subscription_id := None\<rparr>) p"

text \<open>\<^verbatim>\<open>create_deployment\<close> with \<^verbatim>\<open>dry_run\<close>: nothing is written, nothing audited.\<close>

definition dry_run_of :: "setting \<Rightarrow> 's backend \<Rightarrow> caller \<Rightarrow> deployment_create \<Rightarrow> 's \<Rightarrow> err + dry_run" where
  "dry_run_of E B c body s =
    sbind (legacy_resolve E (dc_pattern body) (dc_version body)) (\<lambda>r.
    sbind (plan_request E B c (dc_pattern body) r (dc_inputs body) (dc_business_unit body) (dc_environment body)
             (dc_size body) (JNum 0) s) (\<lambda>p.
    Inr \<lparr>dn_version = rs_version r, dn_commit = rs_commit r, dn_inputs = dc_inputs body,
         dn_placed = hide_subscription p\<rparr>))"

text \<open>\<^verbatim>\<open>db.create\<close>.\<close>

definition new_deployment :: "caller \<Rightarrow> deployment_create \<Rightarrow> resolved \<Rightarrow> placed option \<Rightarrow> nat \<Rightarrow> string \<Rightarrow> deployment" where
  "new_deployment c body r p t fresh =
    \<lparr>dp_id = fresh, dp_pattern = dc_pattern body, dp_version = rs_version r, dp_commit = rs_commit r,
     dp_inputs = dc_inputs body, dp_business_unit = map_option ps_business_unit p,
     dp_environment = map_option ps_environment p, dp_subscription_id = Option.bind p ps_subscription_id,
     dp_size = Option.bind p ps_size, dp_injected = map_option ps_injected p, dp_cost = Option.bind p ps_cost,
     dp_requested_by = Some (caller_id c), dp_state = L_accepted, dp_outputs = None, dp_withheld = None, dp_error = None,
     dp_created_at = t, dp_updated_at = t\<rparr>"

definition store_new :: "'s backend \<Rightarrow> deployment \<Rightarrow> ('s, unit) lx" where
  "store_new B d s = (case bk_insert B d (lg_store s) of
      None \<Rightarrow> (Inl IntegrityError, s) | Some st \<Rightarrow> (Inr (), s\<lparr>lg_store := st\<rparr>))"

definition cost_json :: "json option \<Rightarrow> json" where
  "cost_json c = (case c of None \<Rightarrow> JNull | Some j \<Rightarrow> j)"

definition dict_json :: "dict option \<Rightarrow> json" where
  "dict_json d = (case d of None \<Rightarrow> JNull | Some kvs \<Rightarrow> JObj kvs)"

text \<open>The go-ahead of a creation: an audit that fails leaves the deployment failed.\<close>

definition accepted_or_failed :: "setting \<Rightarrow> 's backend \<Rightarrow> string \<Rightarrow> nat \<Rightarrow> ('s, unit) lx" where
  "accepted_or_failed E B i t s =
    (case accepted E t s of
       (Inl e, s1) \<Rightarrow>
         (Inl e, s1\<lparr>lg_store := bk_update B i L_failed None (Some ''audit trail unavailable; not started'') None t (lg_store s1)\<rparr>)
     | (Inr v, s1) \<Rightarrow> (Inr v, s1))"

definition create_trail :: "setting \<Rightarrow> caller \<Rightarrow> deployment_create \<Rightarrow> trail" where
  "create_trail E c body = (new_trail ''deployment.create'' c)\<lparr>tr_pattern := Some (dc_pattern body),
     tr_environment := dc_environment body,
     tr_business_unit := (if or_empty (dc_business_unit body) \<noteq> [] then dc_business_unit body else only_unit E c)\<rparr>"

definition create_deployment ::
  "setting \<Rightarrow> 's backend \<Rightarrow> deployment_create \<Rightarrow> caller \<Rightarrow> nat \<Rightarrow> string \<Rightarrow> ('s, deployment_out) lx" where
  "create_deployment E B body c t fresh =
    audited E (create_trail E c body) t
     (lbind (note_detail [(''size'', opt_json (dc_size body)), (''inputs'', JObj (safe_inputs (dc_inputs body) None))]) (\<lambda>_.
      lbind (llift (legacy_resolve E (dc_pattern body) (dc_version body))) (\<lambda>r.
      lbind (on_trail (\<lambda>tr. tr\<lparr>tr_version := rs_version r\<rparr>)) (\<lambda>_.
      lbind (llift (legacy_variables E r)) (\<lambda>vars.
      lbind (note_detail [(''inputs'', JObj (safe_inputs (dc_inputs body) (Some vars)))]) (\<lambda>_.
      lbind (lread (\<lambda>s. plan_request E B c (dc_pattern body) r (dc_inputs body) (dc_business_unit body)
                          (dc_environment body) (dc_size body) (JNum 0) (lg_store s))) (\<lambda>p.
      (let d = new_deployment c body r p t fresh in
      lbind (store_new B d) (\<lambda>_.
      lbind (placed_trail d) (\<lambda>_.
      lbind (note_detail [(''commit'', opt_json (rs_commit r)), (''injected'', dict_json (dp_injected d)),
                          (''estimated_monthly_cost'', cost_json (dp_cost d))]) (\<lambda>_.
      lbind (accepted_or_failed E B (dp_id d) t) (\<lambda>_.
      lbind (start_job E B (dp_id d) ''deploy'' t) (\<lambda>_.
      lret (shown_deployment d))))))))))))))"

section \<open>Retry, update, destroy\<close>

text \<open>\<^verbatim>\<open>_respec\<close> and what it stores.\<close>

definition respec_values ::
  "setting \<Rightarrow> 's backend \<Rightarrow> caller \<Rightarrow> deployment \<Rightarrow> string option \<Rightarrow> dict \<Rightarrow> string option \<Rightarrow> 's
     \<Rightarrow> err + resolved \<times> placed option" where
  "respec_values E B c d version inputs sz s =
    sbind (legacy_resolve E (dp_pattern d) version) (\<lambda>r.
    sbind (plan_request E B c (dp_pattern d) r inputs (dp_business_unit d) (dp_environment d) sz
             (cost_or_zero (dp_cost d)) s) (\<lambda>p.
    if (case p of None \<Rightarrow> False | Some q \<Rightarrow> ps_subscription_id q \<noteq> dp_subscription_id d) then Inl (HTTPException 409)
    else Inr (r, p)))"

definition respec_deployment ::
  "setting \<Rightarrow> 's backend \<Rightarrow> caller \<Rightarrow> deployment \<Rightarrow> string option \<Rightarrow> dict \<Rightarrow> string option \<Rightarrow> bool \<Rightarrow> nat \<Rightarrow> ('s, unit) lx" where
  "respec_deployment E B c d version inputs sz dry t =
    lbind (lread (\<lambda>s. respec_values E B c d version inputs sz (lg_store s))) (\<lambda>(r, p).
    if dry then lret ()
    else on_store (bk_respec B (dp_id d) inputs (rs_version r) (rs_commit r) sz (map_option ps_injected p)
                     (Option.bind p ps_cost) t))"

definition answer_with :: "setting \<Rightarrow> 's backend \<Rightarrow> string \<Rightarrow> caller \<Rightarrow> nat \<Rightarrow> ('s, deployment_out) lx" where
  "answer_with E B i c t = lbind (load_deployment E B i c False t) (\<lambda>d. lret (shown_deployment d))"

text \<open>\<^verbatim>\<open>db.update(id, state)\<close> without outputs or error.\<close>

definition set_state :: "'s backend \<Rightarrow> string \<Rightarrow> lstate \<Rightarrow> nat \<Rightarrow> ('s, unit) lx" where
  "set_state B i st t = on_store (bk_update B i st None None None t)"

definition retry_deployment :: "setting \<Rightarrow> 's backend \<Rightarrow> string \<Rightarrow> caller \<Rightarrow> nat \<Rightarrow> ('s, deployment_out) lx" where
  "retry_deployment E B i c t =
    lbind (load_deployment E B i c True t) (\<lambda>d.
    audited E (new_trail ''deployment.retry'' c) t
     (lbind (placed_trail d) (\<lambda>_.
      lbind (llift (if dp_state d \<noteq> L_failed then Inl (HTTPException 409) else Inr ())) (\<lambda>_.
      lbind (if enabled (sg_world E)
             then respec_deployment E B c d (dp_version d) (dp_inputs d) (dp_size d) False t else lret ()) (\<lambda>_.
      lbind (lread (\<lambda>s. case bk_get B i (lg_store s) of None \<Rightarrow> Inl AttributeError | Some d1 \<Rightarrow> Inr d1)) (\<lambda>d1.
      lbind (note_detail [(''injected'', dict_json (dp_injected d1))]) (\<lambda>_.
      lbind (accepted E t) (\<lambda>_.
      lbind (set_state B i L_accepted t) (\<lambda>_.
      lbind (start_job E B (dp_id d) ''deploy'' t) (\<lambda>_.
      answer_with E B i c t))))))))))"

definition update_trail_detail :: "deployment \<Rightarrow> string option \<Rightarrow> string option \<Rightarrow> dict \<Rightarrow> dict" where
  "update_trail_detail d version sz inputs =
    [(''from_version'', opt_json (dp_version d)), (''to_version'', opt_json version), (''from_size'', opt_json (dp_size d)),
     (''to_size'', opt_json sz), (''inputs_changed'', JBool (\<not> py_eq (JObj inputs) (JObj (dp_inputs d)))),
     (''inputs'', JObj (safe_inputs inputs None))]"

definition update_deployment ::
  "setting \<Rightarrow> 's backend \<Rightarrow> string \<Rightarrow> deployment_update \<Rightarrow> caller \<Rightarrow> nat \<Rightarrow> ('s, deployment_out) lx" where
  "update_deployment E B i body c t =
    lbind (load_deployment E B i c True t) (\<lambda>d.
    (let inputs = (case du_inputs body of None \<Rightarrow> dp_inputs d | Some v \<Rightarrow> v);
         version = (if or_empty (du_version body) \<noteq> [] then du_version body else dp_version d);
         sz = (if or_empty (du_size body) \<noteq> [] then du_size body else dp_size d)
     in audited E (new_trail ''deployment.update'' c) t
     (lbind (placed_trail d) (\<lambda>_.
      lbind (note_detail (update_trail_detail d version sz inputs)) (\<lambda>_.
      lbind (llift (if dp_state d \<notin> {L_succeeded, L_failed} then Inl (HTTPException 409) else Inr ())) (\<lambda>_.
      lbind (llift (legacy_resolve E (dp_pattern d) version)) (\<lambda>r.
      lbind (llift (legacy_variables E r)) (\<lambda>vars.
      lbind (note_detail [(''inputs'', JObj (safe_inputs inputs (Some vars)))]) (\<lambda>_.
      lbind (respec_deployment E B c d version inputs sz True t) (\<lambda>_.
      lbind (accepted E t) (\<lambda>_.
      lbind (respec_deployment E B c d version inputs sz False t) (\<lambda>_.
      lbind (set_state B i L_accepted t) (\<lambda>_.
      lbind (start_job E B (dp_id d) ''deploy'' t) (\<lambda>_.
      answer_with E B i c t))))))))))))))"

definition destroy_deployment :: "setting \<Rightarrow> 's backend \<Rightarrow> string \<Rightarrow> caller \<Rightarrow> nat \<Rightarrow> ('s, deployment_out) lx" where
  "destroy_deployment E B i c t =
    lbind (load_deployment E B i c True t) (\<lambda>d.
    audited E (new_trail ''deployment.destroy'' c) t
     (lbind (placed_trail d) (\<lambda>_.
      lbind (llift (if dp_state d \<notin> {L_succeeded, L_failed} then Inl (HTTPException 409) else Inr ())) (\<lambda>_.
      lbind (accepted E t) (\<lambda>_.
      lbind (set_state B i L_destroying t) (\<lambda>_.
      lbind (start_job E B (dp_id d) ''destroy'' t) (\<lambda>_.
      answer_with E B i c t)))))))"

section \<open>Reads\<close>

definition list_deployments :: "setting \<Rightarrow> 's backend \<Rightarrow> caller \<Rightarrow> 's \<Rightarrow> deployment_out list" where
  "list_deployments E B c s =
    map shown_deployment (bk_list_for B
      (if enabled (sg_world E) then Some (map u_name (units_for (sg_world E) c)) else None) s)"

definition get_deployment :: "setting \<Rightarrow> 's backend \<Rightarrow> string \<Rightarrow> caller \<Rightarrow> nat \<Rightarrow> ('s, deployment_out) lx" where
  "get_deployment E B i c t = answer_with E B i c t"

definition deployment_events ::
  "setting \<Rightarrow> 's backend \<Rightarrow> string \<Rightarrow> caller \<Rightarrow> nat \<Rightarrow> ('s, audit_event list) lx" where
  "deployment_events E B i c t =
    lbind (load_deployment E B i c False t) (\<lambda>d.
    lread (\<lambda>s. events_for_deployment E i (dp_business_unit d) (lg_audit s)))"

definition audit_events ::
  "setting \<Rightarrow> string option \<Rightarrow> nat option \<Rightarrow> nat \<Rightarrow> caller \<Rightarrow> ('s, audit_event list) lx" where
  "audit_events E bu since limit c = lread (\<lambda>s.
    (let one = (if or_empty bu = [] then None else Some [or_empty bu]) in
     if \<not> enabled (sg_world E) then audit_query E None None since limit (lg_audit s)
     else if is_auditor (sg_world E) c then audit_query E one None since limit (lg_audit s)
     else let mine = map u_name (units_for (sg_world E) c) in
          if bu \<noteq> None \<and> the bu \<notin> set mine then Inl (HTTPException 403)
          else audit_query E (if one = None then Some mine else one) None since limit (lg_audit s)))"

text \<open>\<^verbatim>\<open>me\<close> and \<^verbatim>\<open>list_patterns\<close>.\<close>

definition deployable_environments :: "caller \<Rightarrow> business_unit \<Rightarrow> string list" where
  "deployable_environments c u = map fst (filter (\<lambda>(n, e). can_deploy u c e) (u_environments u))"

record unit_access =
  ua_name :: string
  ua_environments :: "string list"
  ua_budgets :: "(string \<times> budget_use) list"
  ua_regions_allowed :: "string list"
  ua_region_default :: "string option"
  ua_patterns :: "string list"

definition unit_access_of :: "setting \<Rightarrow> 's backend \<Rightarrow> caller \<Rightarrow> (string \<times> pattern) list \<Rightarrow> 's \<Rightarrow> business_unit \<Rightarrow> err + unit_access" where
  "unit_access_of E B c known s u =
    sbind (smap (\<lambda>n. sbind (usage E B u (the (map_of (u_environments u) n)) s) (\<lambda>b. Inr (n, b)))
             (deployable_environments c u)) (\<lambda>budgets.
    Inr \<lparr>ua_name = u_name u, ua_environments = deployable_environments c u, ua_budgets = budgets,
       ua_regions_allowed = u_regions_allowed u, ua_region_default = u_region_default u,
       ua_patterns = sort (remdups (filter (\<lambda>n. map_of known n \<noteq> None) (u_patterns u)))\<rparr>)"

definition me_answer :: "setting \<Rightarrow> 's backend \<Rightarrow> caller \<Rightarrow> 's \<Rightarrow> err + unit_access list option \<times> string list" where
  "me_answer E B c s =
    sbind (catalog_load (sg_ext E)) (\<lambda>known.
    if \<not> enabled (sg_world E) then Inr (None, sort (map fst known))
    else sbind (smap (unit_access_of E B c known s) (units_for (sg_world E) c)) (\<lambda>us. Inr (Some us, [])))"

definition units_offering :: "caller \<Rightarrow> world \<Rightarrow> string \<Rightarrow> string list" where
  "units_offering c w n = map u_name (filter (\<lambda>u. n \<in> set (u_patterns u)) (units_for w c))"

definition list_patterns :: "setting \<Rightarrow> caller \<Rightarrow> err + (string \<times> string option \<times> string list option) list" where
  "list_patterns E c =
    sbind (catalog_load (sg_ext E)) (\<lambda>known.
    Inr (if enabled (sg_world E)
         then map (\<lambda>(n, p). (n, pt_repo p, Some (sort (units_offering c (sg_world E) n))))
                (filter (\<lambda>(n, p). units_offering c (sg_world E) n \<noteq> []) known)
         else map (\<lambda>(n, p). (n, pt_repo p, None)) known))"

text \<open>\<^verbatim>\<open>get_pattern_schema\<close>: without an environment, the first one the caller may deploy to.\<close>

definition pattern_schema :: "setting \<Rightarrow> caller \<Rightarrow> string \<Rightarrow> string option \<Rightarrow> string option \<Rightarrow> string option \<Rightarrow> err + json" where
  "pattern_schema E c n version bu env =
    sbind (legacy_resolve E n version) (\<lambda>r.
    sbind (legacy_variables E r) (\<lambda>vars.
    if \<not> enabled (sg_world E) then Inr (json_schema (sg_ext E) n vars)
    else sbind (select_unit (sg_world E) c bu) (\<lambda>u.
         (let e = (if or_empty env \<noteq> [] then env
                   else case deployable_environments c u of [] \<Rightarrow> None | x # xs \<Rightarrow> Some x)
          in sbind (place c u e n False) (\<lambda>site.
             sbind (legacy_config E r) (\<lambda>config.
             sbind (shape vars site config None False) (\<lambda>(visible, injected).
             Inr (json_schema (sg_ext E) n visible))))))))"

end
