(* ===== verification/LegacyWorker.thy ===== *)
theory LegacyWorker
  imports Legacy
begin

text \<open>
  The worker of the deployment API: its activities (\<^verbatim>\<open>app/activities.py\<close>), the two workflows
  (\<^verbatim>\<open>app/workflows.py\<close>) and the recovery of deployments whose worker stopped (\<^verbatim>\<open>app/recovery.py\<close>). An
  activity runs on a \<open>station\<close>: the host of Terraform beside the records it shares with the API. Reports are not
  fenced: an update sets the state whatever it was.
\<close>

section \<open>Activities\<close>

record 's station =
  st_host :: host
  st_legacy :: "'s legacy"

type_synonym ('s, 'a) sm = "'s station \<Rightarrow> (exn + 'a) \<times> 's station"

definition st_return :: "'a \<Rightarrow> ('s, 'a) sm" where
  "st_return v st = (Inr v, st)"

definition st_bind :: "('s, 'a) sm \<Rightarrow> ('a \<Rightarrow> ('s, 'b) sm) \<Rightarrow> ('s, 'b) sm" where
  "st_bind m f st = (case m st of (Inl e, st1) \<Rightarrow> (Inl e, st1) | (Inr v, st1) \<Rightarrow> f v st1)"

definition on_host :: "'a wm \<Rightarrow> ('s, 'a) sm" where
  "on_host m st = (case m (st_host st) of (r, h) \<Rightarrow> (r, st\<lparr>st_host := h\<rparr>))"

definition on_records :: "('s \<Rightarrow> 's) \<Rightarrow> ('s, unit) sm" where
  "on_records f st = (Inr (), st\<lparr>st_legacy := (st_legacy st)\<lparr>lg_store := f (lg_store (st_legacy st))\<rparr>\<rparr>)"

definition msg_not_shared :: "string \<Rightarrow> string" where
  "msg_not_shared i = ''deployment '' @ i @ '' is not in this worker's record store; the API and the '' @
     ''worker must use the same FORGEAPI_DB_BACKEND and storage settings''"

definition worker_load :: "'s backend \<Rightarrow> string \<Rightarrow> ('s, deployment) sm" where
  "worker_load B i st = (case bk_get B i (lg_store (st_legacy st)) of
      None \<Rightarrow> (Inl (OtherError (msg_not_shared i)), st) | Some d \<Rightarrow> (Inr d, st))"

text \<open>\<^verbatim>\<open>_source\<close>: pinned to the commit of the record.\<close>

definition source_of :: "setting \<Rightarrow> deployment \<Rightarrow> ('s, string) sm" where
  "source_of E d st = (case catalog_get (sg_ext E) (dp_pattern d) of
      Inl e \<Rightarrow> (Inl (OtherError ''catalog''), st)
    | Inr p \<Rightarrow> (Inr (terraform_source (sg_ext E) \<lparr>rs_pattern = p, rs_version = dp_version d, rs_commit = dp_commit d\<rparr>), st))"

definition values_of :: "deployment \<Rightarrow> dict" where
  "values_of d = dict_merge (dp_inputs d) (case dp_injected d of None \<Rightarrow> [] | Some kvs \<Rightarrow> kvs)"

definition state_event :: "string \<Rightarrow> deployment \<Rightarrow> string \<Rightarrow> dict \<Rightarrow> nat \<Rightarrow> audit_event" where
  "state_event actor d outcome detail t = \<lparr>ae_at = t, ae_actor = actor, ae_action = ''deployment.state'', ae_outcome = outcome,
     ae_status = None, ae_deployment_id = Some (dp_id d), ae_pattern = Some (dp_pattern d), ae_version = dp_version d,
     ae_business_unit = dp_business_unit d, ae_environment = dp_environment d, ae_detail = detail\<rparr>"

text \<open>\<^verbatim>\<open>_outcome\<close>.\<close>

definition report_outcome :: "setting \<Rightarrow> deployment \<Rightarrow> string \<Rightarrow> dict \<Rightarrow> nat \<Rightarrow> ('s, unit) sm" where
  "report_outcome E d outcome detail t st =
     (Inr (), st\<lparr>st_legacy := record_quietly E (state_event ''worker'' d outcome detail t) (st_legacy st)\<rparr>)"

text \<open>The start of an activity: the record is read, then put in its running state.\<close>

definition begin_run :: "'s backend \<Rightarrow> string \<Rightarrow> lstate \<Rightarrow> nat \<Rightarrow> ('s, deployment) sm" where
  "begin_run B i running_state t =
    st_bind (worker_load B i) (\<lambda>d.
    st_bind (on_records (bk_update B i running_state None None None t)) (\<lambda>_. st_return d))"

definition plan_activity :: "setting \<Rightarrow> 's backend \<Rightarrow> engine \<Rightarrow> string \<Rightarrow> nat \<Rightarrow> ('s, unit) sm" where
  "plan_activity E B e i t =
    st_bind (begin_run B i L_planning t) (\<lambda>d.
    st_bind (source_of E d) (\<lambda>source. on_host (tf_plan e i source (values_of d) (dp_subscription_id d))))"

text \<open>\<open>t'\<close> is the time of the report.\<close>

definition apply_activity :: "setting \<Rightarrow> 's backend \<Rightarrow> engine \<Rightarrow> string \<Rightarrow> nat \<Rightarrow> nat \<Rightarrow> ('s, unit) sm" where
  "apply_activity E B e i t t' =
    st_bind (begin_run B i L_applying t) (\<lambda>d.
    st_bind (source_of E d) (\<lambda>source.
    st_bind (on_host (tf_apply e i source (values_of d) (dp_subscription_id d))) (\<lambda>(outputs, withheld).
    st_bind (on_records (bk_update B i L_succeeded (Some outputs) None (Some withheld) t')) (\<lambda>_.
    report_outcome E d ''succeeded'' [] t'))))"

definition destroy_activity :: "setting \<Rightarrow> 's backend \<Rightarrow> engine \<Rightarrow> string \<Rightarrow> nat \<Rightarrow> nat \<Rightarrow> ('s, unit) sm" where
  "destroy_activity E B e i t t' =
    st_bind (begin_run B i L_destroying t) (\<lambda>d.
    st_bind (source_of E d) (\<lambda>source.
    st_bind (on_host (tf_destroy e i source (values_of d))) (\<lambda>_.
    st_bind (on_records (bk_update B i L_destroyed None None None t')) (\<lambda>_.
    report_outcome E d ''destroyed'' [] t'))))"

definition mark_failed :: "setting \<Rightarrow> 's backend \<Rightarrow> string \<Rightarrow> string \<Rightarrow> nat \<Rightarrow> ('s, unit) sm" where
  "mark_failed E B i why t =
    st_bind (on_records (bk_update B i L_failed None (Some why) None t)) (\<lambda>_.
    st_bind (worker_load B i) (\<lambda>d.
    report_outcome E d ''failed'' [(''error'', JStr (take 500 why))] t))"

section \<open>Workflows\<close>

text \<open>An activity that runs at most once, as the workflow sees it: it answers, or ends with an \<^verbatim>\<open>ActivityError\<close>
  (it raised, was never started, or lost its worker). \<open>mark_failed\<close> is retried until it goes through.\<close>

definition deploy_workflow ::
  "setting \<Rightarrow> 's backend \<Rightarrow> (string \<Rightarrow> ('s, unit) sm) \<Rightarrow> (string \<Rightarrow> ('s, unit) sm) \<Rightarrow> string \<Rightarrow> nat \<Rightarrow> ('s, string) sm" where
  "deploy_workflow E B plan_run apply_run i t st =
    (case st_bind (plan_run i) (\<lambda>_. apply_run i) st of
       (Inr _, st1) \<Rightarrow> (Inr ''succeeded'', st1)
     | (Inl ex, st1) \<Rightarrow> st_bind (mark_failed E B i (exn_text ex) t) (\<lambda>_. st_return ''failed'') st1)"

definition destroy_workflow ::
  "setting \<Rightarrow> 's backend \<Rightarrow> (string \<Rightarrow> ('s, unit) sm) \<Rightarrow> string \<Rightarrow> nat \<Rightarrow> ('s, string) sm" where
  "destroy_workflow E B destroy_run i t st =
    (case destroy_run i st of
       (Inr _, st1) \<Rightarrow> (Inr ''destroyed'', st1)
     | (Inl ex, st1) \<Rightarrow> st_bind (mark_failed E B i (exn_text ex) t) (\<lambda>_. st_return ''failed'') st1)"

section \<open>Recovery\<close>

text \<open>One beat of \<^verbatim>\<open>alive\<close>.\<close>

definition heartbeat :: "'s backend \<Rightarrow> string \<Rightarrow> nat \<Rightarrow> 's \<Rightarrow> 's" where
  "heartbeat B i t = bk_touch B i t"

definition BEAT_EVERY :: nat where
  "BEAT_EVERY = 30"

definition IN_FLIGHT :: "lstate list" where
  "IN_FLIGHT = [L_accepted, L_planning, L_applying, L_destroying]"

definition INTERRUPTED :: string where
  "INTERRUPTED = ''interrupted: the worker stopped while this was running. '' @
     ''Retry to continue from the existing state, or delete to clean up.''"

text \<open>\<^verbatim>\<open>str(d.state)\<close>.\<close>

definition state_text :: "lstate \<Rightarrow> string" where
  "state_text st = (case st of
      L_accepted \<Rightarrow> ''accepted'' | L_planning \<Rightarrow> ''planning'' | L_applying \<Rightarrow> ''applying'' | L_succeeded \<Rightarrow> ''succeeded''
    | L_failed \<Rightarrow> ''failed'' | L_destroying \<Rightarrow> ''destroying'' | L_destroyed \<Rightarrow> ''destroyed'')"

definition is_stale :: "nat \<Rightarrow> nat \<Rightarrow> deployment \<Rightarrow> bool" where
  "is_stale stale_after now d \<longleftrightarrow> dp_state d \<in> set IN_FLIGHT \<and> dp_updated_at d + stale_after < now"

definition interrupt_one :: "setting \<Rightarrow> 's backend \<Rightarrow> nat \<Rightarrow> deployment \<Rightarrow> 's legacy \<Rightarrow> 's legacy" where
  "interrupt_one E B now d s =
    record_quietly E (state_event ''recovery'' d ''interrupted'' [(''was'', JStr (state_text (dp_state d)))] now)
      (s\<lparr>lg_store := bk_update B (dp_id d) L_failed None (Some INTERRUPTED) None now (lg_store s)\<rparr>)"

definition recovery_sweep :: "setting \<Rightarrow> 's backend \<Rightarrow> nat \<Rightarrow> nat \<Rightarrow> 's legacy \<Rightarrow> string list \<times> 's legacy" where
  "recovery_sweep E B stale_after now s =
    (let due = filter (is_stale stale_after now) (bk_list_for B None (lg_store s))
     in (map dp_id due, fold (interrupt_one E B now) due s))"

end
