(* ===== verification/LegacyProperties.thy ===== *)
theory LegacyProperties
  imports LegacyWorker PolicyProperties WorkerScenario
begin

text \<open>
  What holds of the deployment API: no job without its audit event, the same records whichever store is configured,
  references found where they are, a workflow that settles its deployment; and two faults, a retry that changes
  the record before its audit event, and a long event that makes the trail of its unit unreadable.
\<close>

section \<open>No audit, no action\<close>

text \<open>Programs that dispatch nothing, record nothing, and keep the deployment the trail names.\<close>

definition keeps :: "('s, 'a) lx \<Rightarrow> bool" where
  "keeps m \<longleftrightarrow> (\<forall>s. lg_jobs (snd (m s)) = lg_jobs s \<and> lg_audit (snd (m s)) = lg_audit s \<and>
     tr_deployment_id (lg_trail (snd (m s))) = tr_deployment_id (lg_trail s) \<and>
     tr_action (lg_trail (snd (m s))) = tr_action (lg_trail s))"

named_theorems keeping

lemma keeps_simple [keeping]:
  "keeps (lret v)" "keeps (llift r)" "keeps (lread f)" "keeps (on_store g)" "keeps (note_detail d)" "keeps (store_new B dep)"
  "keeps (set_state B i st t)"
  by (auto simp: keeps_def lret_def llift_def lread_def on_store_def note_detail_def on_trail_def store_new_def set_state_def
      split: option.split)

lemma keeps_version [keeping]: "keeps (on_trail (\<lambda>tr. tr\<lparr>tr_version := v\<rparr>))"
  by (simp add: keeps_def on_trail_def)

lemma keeps_bind [keeping]: "keeps m \<Longrightarrow> (\<And>v. keeps (f v)) \<Longrightarrow> keeps (lbind m f)"
  unfolding keeps_def lbind_def by (auto split: prod.split sum.split) (metis snd_conv)+

lemma keeps_if [keeping]: "keeps m \<Longrightarrow> keeps m' \<Longrightarrow> keeps (if b then m else m')"
  by simp

lemma keeps_respec [keeping]: "keeps (respec_deployment E B c d version inputs sz dry t)"
  by (auto simp: respec_deployment_def split: prod.split if_split intro!: keeping)

text \<open>An event that accepts action \<open>act\<close> on deployment \<open>i\<close>; a request whose every job has one among the events
  it recorded.\<close>

definition accepts :: "string \<Rightarrow> string \<Rightarrow> audit_row \<Rightarrow> bool" where
  "accepts act i r \<longleftrightarrow> ae_outcome (ar_event r) = ''accepted'' \<and> ae_action (ar_event r) = act \<and>
     ae_deployment_id (ar_event r) = Some i"

definition covered :: "string \<Rightarrow> 's legacy \<Rightarrow> 's legacy \<Rightarrow> bool" where
  "covered act s s' \<longleftrightarrow> (\<exists>js rows. lg_jobs s' = lg_jobs s @ js \<and> lg_audit s' = lg_audit s @ rows \<and>
     (\<forall>(i, job) \<in> set js. \<exists>r \<in> set rows. accepts act i r))"

text \<open>From a state that has dispatched nothing since \<open>s0\<close>, with (\<open>b\<close>) or without the acceptance recorded.\<close>

definition pending :: "bool \<Rightarrow> string \<Rightarrow> string \<Rightarrow> 's legacy \<Rightarrow> 's legacy \<Rightarrow> bool" where
  "pending b act i s0 s \<longleftrightarrow> lg_jobs s = lg_jobs s0 \<and> tr_deployment_id (lg_trail s) = Some i \<and> tr_action (lg_trail s) = act \<and>
     (\<exists>rows. lg_audit s = lg_audit s0 @ rows \<and> (b \<longrightarrow> (\<exists>r \<in> set rows. accepts act i r)))"

definition safe_from :: "bool \<Rightarrow> string \<Rightarrow> string \<Rightarrow> 's legacy \<Rightarrow> ('s, 'a) lx \<Rightarrow> bool" where
  "safe_from b act i s0 m \<longleftrightarrow> (\<forall>s. pending b act i s0 s \<longrightarrow> covered act s0 (snd (m s)))"

lemma pending_covered: "pending b act i s0 s \<Longrightarrow> covered act s0 s"
  unfolding pending_def covered_def by (elim conjE exE, rule exI [of _ "[]"], rule_tac x = rows in exI) simp

lemma quiet_record: "lg_jobs (record_quietly E ev s) = lg_jobs s" "lg_trail (record_quietly E ev s) = lg_trail s"
  "\<exists>rows. lg_audit (record_quietly E ev s) = lg_audit s @ rows"
  by (simp_all add: record_quietly_def record_event_def Let_def)

lemma covered_grows: "covered act s0 s \<Longrightarrow> lg_jobs s' = lg_jobs s \<Longrightarrow> lg_audit s' = lg_audit s @ rows \<Longrightarrow> covered act s0 s'"
  unfolding covered_def by fastforce

lemma covered_quiet: "covered act s0 s \<Longrightarrow> covered act s0 (record_quietly E ev s)"
  using quiet_record [of E ev s] covered_grows by metis

lemma load_grows:
  "lg_jobs (snd (load_deployment E B i c ch t s)) = lg_jobs s"
  "\<exists>rows. lg_audit (snd (load_deployment E B i c ch t s)) = lg_audit s @ rows"
  by (auto simp: load_deployment_def quiet_record split: option.split)

lemma safe_keeps:
  assumes "keeps m" "\<And>v. safe_from b act i s0 (f v)"
  shows "safe_from b act i s0 (lbind m f)"
  unfolding safe_from_def
proof (intro allI impI)
  fix s assume p: "pending b act i s0 s"
  obtain r s1 where m: "m s = (r, s1)" by fastforce
  have p1: "pending b act i s0 s1" using assms(1) p m unfolding keeps_def pending_def by (metis snd_conv)
  then show "covered act s0 (snd (lbind m f s))"
    using assms(2) pending_covered [OF p1] by (auto simp: lbind_def m safe_from_def split: sum.split)
qed

lemma accepted_covers:
  assumes "pending b act i s0 s" "accepted E t s = (Inr u, s1)"
  shows "pending True act i s0 s1"
proof -
  let ?ev = "event_of (lg_trail s) ''accepted'' None (tr_detail (lg_trail s)) t"
  obtain rows where r: "lg_audit s = lg_audit s0 @ rows" using assms(1) by (auto simp: pending_def)
  have s1: "s1 = s\<lparr>lg_writes := lg_writes s + 1, lg_audit := lg_audit s @ [audit_row_of E ?ev]\<rparr>"
    using assms(2) by (auto simp: accepted_def record_event_def Let_def split: if_splits)
  moreover have "accepts act i (audit_row_of E ?ev)"
    using assms(1) by (simp add: pending_def accepts_def audit_row_of_def event_of_def)
  ultimately show ?thesis using assms(1) r
    by (auto simp: pending_def intro!: exI [of _ "rows @ [audit_row_of E ?ev]"])
qed

lemma accepted_refused:
  assumes "pending b act i s0 s" "accepted E t s = (Inl e, s1)"
  shows "covered act s0 s1"
proof -
  have "s1 = s\<lparr>lg_writes := lg_writes s + 1\<rparr>"
    using assms(2) by (auto simp: accepted_def record_event_def Let_def split: if_splits)
  then have "pending b act i s0 s1" using assms(1) by (simp add: pending_def)
  then show ?thesis by (rule pending_covered)
qed

lemma safe_accepted:
  assumes "\<And>v. safe_from True act i s0 (f v)"
  shows "safe_from b act i s0 (lbind (accepted E t) f)"
  using assms accepted_covers accepted_refused
  by (fastforce simp: safe_from_def lbind_def split: prod.split sum.split)

lemma safe_accepted_or_failed:
  assumes "\<And>v. safe_from True act i s0 (f v)"
  shows "safe_from b act i s0 (lbind (accepted_or_failed E B j t) f)"
  unfolding safe_from_def
proof (intro allI impI)
  fix s assume p: "pending b act i s0 s"
  obtain r s1 where a: "accepted E t s = (r, s1)" by fastforce
  show "covered act s0 (snd (lbind (accepted_or_failed E B j t) f s))"
  proof (cases r)
    case (Inl e)
    have "covered act s0 (s1\<lparr>lg_store := x\<rparr>)" for x
      using accepted_refused [OF p a [unfolded Inl]] by (simp add: covered_def)
    then show ?thesis by (simp add: lbind_def accepted_or_failed_def a Inl)
  next
    case (Inr u)
    then show ?thesis using assms accepted_covers [OF p a [unfolded Inr]]
      by (simp add: lbind_def accepted_or_failed_def a safe_from_def)
  qed
qed

lemma safe_start:
  assumes "\<And>v s. lg_jobs (snd (f v s)) = lg_jobs s \<and> (\<exists>rows. lg_audit (snd (f v s)) = lg_audit s @ rows)"
  shows "safe_from True act i s0 (lbind (start_job E B i job t) f)"
  unfolding safe_from_def
proof (intro allI impI)
  fix s assume "pending True act i s0 s"
  then have c: "covered act s0 (s\<lparr>lg_jobs := lg_jobs s @ [(i, job)]\<rparr>)"
    unfolding pending_def covered_def by (intro exI [of _ "[(i, job)]"]) auto
  then have "covered act s0 (s\<lparr>lg_jobs := lg_jobs s @ [(i, job)], lg_store := x\<rparr>)" for x
    by (simp add: covered_def)
  moreover have "covered act s0 (snd (f () (s\<lparr>lg_jobs := lg_jobs s @ [(i, job)]\<rparr>)))"
    using assms [of "()" "s\<lparr>lg_jobs := lg_jobs s @ [(i, job)]\<rparr>"] covered_grows [OF c] by auto
  ultimately show "covered act s0 (snd (lbind (start_job E B i job t) f s))"
    by (simp add: lbind_def start_job_def Let_def)
qed

lemma answer_grows: "lg_jobs (snd (answer_with E B i c t s)) = lg_jobs s \<and>
    (\<exists>rows. lg_audit (snd (answer_with E B i c t s)) = lg_audit s @ rows)"
proof -
  obtain r s1 where l: "load_deployment E B i c False t s = (r, s1)" by fastforce
  then show ?thesis using load_grows [of E B i c False t s] by (cases r) (simp_all add: answer_with_def lbind_def lret_def)
qed

text \<open>The trail is named, then the rest runs.\<close>

lemma safe_placed:
  assumes "safe_from False act (dp_id d) s0 (f ())" "lg_jobs s = lg_jobs s0" "lg_audit s = lg_audit s0 @ rows"
    "tr_action (lg_trail s) = act"
  shows "covered act s0 (snd (lbind (placed_trail d) f s))"
  using assms by (simp add: lbind_def placed_trail_def on_trail_def safe_from_def pending_def)

lemma audited_covered:
  assumes "covered (tr_action tr) s0 (snd (body (s\<lparr>lg_trail := tr\<rparr>)))"
  shows "covered (tr_action tr) s0 (snd (audited E tr t body s))"
  using assms covered_quiet by (fastforce simp: audited_def split: prod.split sum.split)

text \<open>Before the trail is named.\<close>

definition fresh_from :: "string \<Rightarrow> 's legacy \<Rightarrow> ('s, 'a) lx \<Rightarrow> bool" where
  "fresh_from act s0 m \<longleftrightarrow> (\<forall>s. lg_jobs s = lg_jobs s0 \<and> lg_audit s = lg_audit s0 \<and> tr_action (lg_trail s) = act
     \<longrightarrow> covered act s0 (snd (m s)))"

lemma covered_same: "lg_jobs s = lg_jobs s0 \<Longrightarrow> lg_audit s = lg_audit s0 \<Longrightarrow> covered act s0 s"
  by (simp add: covered_def)

lemma fresh_keeps:
  fixes m :: "('s, 'a) lx"
  assumes "keeps m" "\<And>v. fresh_from act s0 (f v)"
  shows "fresh_from act s0 (lbind m f)"
  unfolding fresh_from_def
proof (intro allI impI)
  fix s :: "'s legacy" assume p: "lg_jobs s = lg_jobs s0 \<and> lg_audit s = lg_audit s0 \<and> tr_action (lg_trail s) = act"
  obtain r s1 where m: "m s = (r, s1)" by fastforce
  have p1: "lg_jobs s1 = lg_jobs s0 \<and> lg_audit s1 = lg_audit s0 \<and> tr_action (lg_trail s1) = act"
    using assms(1) p m unfolding keeps_def by (metis snd_conv)
  then have "covered act s0 s1" by (simp add: covered_same)
  then show "covered act s0 (snd (lbind m f s))"
    using assms(2) p1 by (auto simp: lbind_def m fresh_from_def split: sum.split)
qed

lemma fresh_placed: "safe_from False act (dp_id d) s0 (f ()) \<Longrightarrow> fresh_from act s0 (lbind (placed_trail d) f)"
  unfolding fresh_from_def using safe_placed [where rows = "[]"] by fastforce

lemma fresh_audited:
  assumes "tr_action tr = act" "fresh_from act s body"
  shows "covered act s (snd (audited E tr t body s))"
  using audited_covered [of tr s body s E t] assms by (simp add: fresh_from_def)

lemmas job_rules = fresh_placed fresh_keeps safe_accepted safe_accepted_or_failed safe_start safe_keeps keeping

lemma lret_grows: "lg_jobs (snd (lret v s)) = lg_jobs s \<and> (\<exists>rows. lg_audit (snd (lret v s)) = lg_audit s @ rows)"
  by (simp add: lret_def)

lemma load_then_covered:
  assumes "\<And>d s1. lg_jobs s1 = lg_jobs s \<Longrightarrow> covered act s1 (snd (f d s1))"
  shows "covered act s (snd (lbind (load_deployment E B i c ch t) f s))"
proof -
  obtain r s1 where l: "load_deployment E B i c ch t s = (r, s1)" by fastforce
  obtain rows where g: "lg_jobs s1 = lg_jobs s" "lg_audit s1 = lg_audit s @ rows"
    using load_grows [of E B i c ch t s] l by auto
  have "covered act s s'" if "covered act s1 s'" for s'
    using that g unfolding covered_def by fastforce
  moreover have "covered act s1 s1" by (simp add: covered_same)
  ultimately show ?thesis using assms g by (simp add: lbind_def l split: sum.split)
qed

lemma create_job_covered: "covered ''deployment.create'' s (snd (create_deployment E B body c t fresh s))"
  unfolding create_deployment_def Let_def
  by (rule fresh_audited, simp add: create_trail_def new_trail_def)
    (rule job_rules lret_grows | simp)+

lemma retry_job_covered: "covered ''deployment.retry'' s (snd (retry_deployment E B i c t s))"
  unfolding retry_deployment_def
  by (rule load_then_covered, rule fresh_audited, simp add: new_trail_def)
    (rule job_rules keeps_respec answer_grows | simp)+

lemma update_job_covered: "covered ''deployment.update'' s (snd (update_deployment E B i body c t s))"
  unfolding update_deployment_def Let_def
  by (rule load_then_covered, rule fresh_audited, simp add: new_trail_def)
    (rule job_rules keeps_respec answer_grows | simp)+

lemma destroy_job_covered: "covered ''deployment.destroy'' s (snd (destroy_deployment E B i c t s))"
  unfolding destroy_deployment_def
  by (rule load_then_covered, rule fresh_audited, simp add: new_trail_def)
    (rule job_rules answer_grows | simp)+

text \<open>C9. No job is dispatched without its audit event. Whatever store is configured and whichever audit writes and
  dispatches fail, each of the four requests that change a deployment (create, retry, update, destroy) only adds to the
  trail, and every job it hands to the engine has among the events it recorded one that accepts this action on this
  deployment.\<close>

theorem no_audit_no_job:
  "covered ''deployment.create'' s (snd (create_deployment E B create_body c t fresh s)) \<and>
   covered ''deployment.retry'' s (snd (retry_deployment E B i c t s)) \<and>
   covered ''deployment.update'' s (snd (update_deployment E B i update_body c t s)) \<and>
   covered ''deployment.destroy'' s (snd (destroy_deployment E B i c t s))"
  by (intro conjI create_job_covered retry_job_covered update_job_covered destroy_job_covered)

section \<open>The same records in both stores\<close>

text \<open>C18. The two stores keep the same deployments. After any run of creations, updates, respecifications and beats that
  both can represent (no empty text where a text may be absent, withheld names given with the outputs, no estimated cost that
  is NaN, which SQLite stores as NULL), SQLite and Table Storage read the same record under every identifier, and list the same records, newest first, for any set of units.\<close>

theorem stores_agree:
  assumes "list_all representable cs" "units = None \<or> [] \<notin> set (the units)"
  shows "bk_get sqlite i (fold (apply_change sqlite) cs []) = bk_get table_store i (fold (apply_change table_store) cs []) \<and>
    mset (bk_list_for sqlite units (fold (apply_change sqlite) cs [])) =
      mset (bk_list_for table_store units (fold (apply_change table_store) cs [])) \<and>
    sorted (map dp_created_at (rev (bk_list_for sqlite units (fold (apply_change sqlite) cs [])))) \<and>
    sorted (map dp_created_at (rev (bk_list_for table_store units (fold (apply_change table_store) cs []))))"
  using sqlite_records.get_run [OF assms(1)] table_records.get_run [OF assms(1)]
    sqlite_records.list_records [OF assms(2)] table_records.list_records [OF assms(2)]
    sqlite_records.run_records [OF assms(1), of "[]"] table_records.run_records [OF assms(1), of "[]"]
  by (simp flip: mset_map)

definition demo_deployment :: deployment where
  "demo_deployment = \<lparr>dp_id = ''d1'', dp_pattern = ''postgresql'', dp_version = None, dp_commit = Some ''c1'',
     dp_inputs = [(''name'', JStr ''db'')], dp_business_unit = Some ''retail'', dp_environment = Some ''dev'',
     dp_subscription_id = Some ''s1'', dp_size = None, dp_injected = Some [], dp_cost = Some (JNum 30),
     dp_requested_by = Some ''amy'', dp_state = L_failed, dp_outputs = None, dp_withheld = None,
     dp_error = Some ''no capacity'', dp_created_at = 1, dp_updated_at = 2\<rparr>"

theorem stores_agree_witness:
  "bk_get sqlite ''d1'' (fold (apply_change sqlite) [Insert demo_deployment, Update ''d1'' L_planning None None None 3] []) =
   bk_get table_store ''d1'' (fold (apply_change table_store) [Insert demo_deployment, Update ''d1'' L_planning None None None 3] [])"
  by (rule stores_agree [where units = None, THEN conjunct1])
    (simp_all add: demo_deployment_def storable_def text_ok_def cost_ok_def)

section \<open>References to secrets\<close>

text \<open>The text \<open>u\<close> stands at \<open>q\<close> in a value reached under \<open>p\<close>, and has the form of a Key Vault secret.\<close>

inductive refers :: "json \<Rightarrow> string \<Rightarrow> string \<Rightarrow> string \<Rightarrow> bool" where
  refers_here: "secret_url u \<Longrightarrow> refers (JStr u) p p u"
| refers_key: "(k, v) \<in> set kvs \<Longrightarrow> refers v (key_path p k) q u \<Longrightarrow> refers (JObj kvs) p q u"
| refers_item: "n < length vs \<Longrightarrow> refers (vs ! n) (index_path p n) q u \<Longrightarrow> refers (JList vs) p q u"

inductive_simps refers_simps:
  "refers (JStr s) p q u" "refers (JObj kvs) p q u" "refers (JList vs) p q u" "refers JNull p q u" "refers (JBool b) p q u"
  "refers (JNum n) p q u" "refers (JNonFinite k) p q u"

text \<open>\<open>found\<close> holds what \<open>before\<close> held and what \<open>P\<close> adds: nothing else, and every path.\<close>

definition gathers :: "(string \<times> string) list \<Rightarrow> (string \<times> string) list \<Rightarrow> (string \<Rightarrow> string \<Rightarrow> bool) \<Rightarrow> bool" where
  "gathers old found P \<longleftrightarrow> (\<forall>q u. map_of found q = Some u \<longrightarrow> map_of old q = Some u \<or> P q u) \<and>
     fst ` set found = fst ` set old \<union> {q. \<exists>u. P q u} \<and> (distinct (map fst old) \<longrightarrow> distinct (map fst found))"

lemma map_of_rev_distinct: "distinct (map fst xs) \<Longrightarrow> map_of (rev xs) = map_of xs"
  by (subst map_of_inject_set) (simp_all flip: rev_map)

lemma gathers_merge:
  assumes "gathers [] new P" "gathers (dict_merge old new) found Q"
  shows "gathers old found (\<lambda>q u. P q u \<or> Q q u)"
proof -
  have d: "distinct (map fst new)" using assms(1) by (simp add: gathers_def)
  have m: "map_of (dict_merge old new) q = (case map_of new q of None \<Rightarrow> map_of old q | Some v \<Rightarrow> Some v)" for q
    using d by (simp add: dict_merge_map_of map_of_rev_distinct)
  show ?thesis
    unfolding gathers_def
  proof (intro conjI allI impI)
    fix q u assume f: "map_of found q = Some u"
    then have "map_of (dict_merge old new) q = Some u \<or> Q q u" using assms(2) by (simp add: gathers_def)
    moreover have "P q v" if "map_of new q = Some v" for v using assms(1) that by (simp add: gathers_def)
    ultimately show "map_of old q = Some u \<or> P q u \<or> Q q u" by (auto simp: m split: option.splits)
  next
    show "fst ` set found = fst ` set old \<union> {q. \<exists>u. P q u \<or> Q q u}"
      using assms dict_merge_key_set [of old new] by (auto simp: gathers_def)
  next
    assume "distinct (map fst old)"
    then show "distinct (map fst found)" using assms(2) dict_merge_distinct [of old new] by (simp add: gathers_def)
  qed
qed

lemma references_gather:
  "gathers [] (secret_references j p) (\<lambda>q u. refers j p q u)"
  "gathers found (references_in_dict kvs p found) (\<lambda>q u. \<exists>(k, v) \<in> set kvs. refers v (key_path p k) q u)"
  "gathers found (references_in_list vs n p found) (\<lambda>q u. \<exists>m < length vs. refers (vs ! m) (index_path p (n + m)) q u)"
proof (induction j p and kvs p found and vs n p found rule: secret_references_references_in_dict_references_in_list.induct)
  case (2 kvs path)
  have "(\<lambda>q u. refers (JObj kvs) path q u) = (\<lambda>q u. \<exists>(k, v) \<in> set kvs. refers v (key_path path k) q u)"
    by (auto simp: fun_eq_iff refers_simps)
  then show ?case using 2 by simp
next
  case (9 k v kvs path found)
  have "(\<lambda>q u. refers v (key_path path k) q u \<or> (\<exists>(k, v) \<in> set kvs. refers v (key_path path k) q u)) =
      (\<lambda>q u. \<exists>(k, v) \<in> set ((k, v) # kvs). refers v (key_path path k) q u)"
    by (auto simp: fun_eq_iff)
  then show ?case using gathers_merge [OF 9(1) 9(2)] by simp
next
  case (11 v vs n path found)
  have "(\<lambda>q u. refers v (index_path path n) q u \<or> (\<exists>m < length vs. refers (vs ! m) (index_path path (n + 1 + m)) q u)) =
      (\<lambda>q u. \<exists>m < length (v # vs). refers ((v # vs) ! m) (index_path path (n + m)) q u)"
    by (auto simp: fun_eq_iff less_Suc_eq_0_disj)
  then show ?case using gathers_merge [OF 11(1) 11(2)] by simp
qed (auto simp: gathers_def refers_simps)

text \<open>The references shown are the references there. \<^verbatim>\<open>secret_references\<close> of a value has an entry under exactly the
  paths at which a text of the form of a Key Vault secret stands, however deep in dicts and lists, no path twice, and the
  text it shows stands there.\<close>

theorem references_complete:
  "(\<exists>u. map_of (secret_references j p) q = Some u) = (\<exists>u. refers j p q u) \<and>
   (case map_of (secret_references j p) q of None \<Rightarrow> True | Some u \<Rightarrow> refers j p q u) \<and>
   distinct (map fst (secret_references j p))"
proof -
  have g: "fst ` set (secret_references j p) = {q. \<exists>u. refers j p q u}"
    "map_of (secret_references j p) q = Some u \<Longrightarrow> refers j p q u" "distinct (map fst (secret_references j p))" for q u
    using references_gather(1) [of j p] by (auto simp: gathers_def)
  have "(\<exists>u. map_of (secret_references j p) q = Some u) = (q \<in> fst ` set (secret_references j p))"
    using dom_map_of_conv_image_fst [of "secret_references j p"] by auto
  then show ?thesis using g by (auto split: option.split)
qed

section \<open>A deploy settles\<close>

lemma st_bind_Inr: "st_bind m f st = (Inr v, st') \<Longrightarrow> \<exists>u st1. m st = (Inr u, st1) \<and> f u st1 = (Inr v, st')"
  by (simp add: st_bind_def split: prod.splits sum.splits)

text \<open>What a store also promises of the state, whatever the other arguments.\<close>

locale state_store = deployment_store +
  assumes state_update: "bk_get B i s = Some d \<Longrightarrow>
    \<exists>d'. bk_get B i (bk_update B i st outputs err withheld now s) = Some d' \<and> dp_state d' = st"
begin

definition has_record :: "string \<Rightarrow> 'a station \<Rightarrow> bool" where
  "has_record i st \<longleftrightarrow> (\<exists>d. bk_get B i (lg_store (st_legacy st)) = Some d)"

definition in_state :: "lstate \<Rightarrow> string \<Rightarrow> 'a station \<Rightarrow> bool" where
  "in_state x i st \<longleftrightarrow> (\<exists>d. bk_get B i (lg_store (st_legacy st)) = Some d \<and> dp_state d = x)"

definition stays :: "string \<Rightarrow> ('a, 'b) sm \<Rightarrow> bool" where
  "stays i m \<longleftrightarrow> (\<forall>st. has_record i st \<longrightarrow> has_record i (snd (m st)))"

lemma updated_state: "has_record i st \<Longrightarrow> in_state x i (snd (on_records (bk_update B i x outputs err withheld now) st))"
  using state_update by (auto simp: has_record_def in_state_def on_records_def)

lemma in_state_record: "in_state x i st \<Longrightarrow> has_record i st"
  by (auto simp: has_record_def in_state_def)

lemma stays_run: "stays i m \<Longrightarrow> has_record i st \<Longrightarrow> m st = (r, st1) \<Longrightarrow> has_record i st1"
  unfolding stays_def by (drule spec [of _ st]) simp

lemma stays_bind:
  assumes "stays i m" "\<And>v. stays i (f v)"
  shows "stays i (st_bind m f)"
  unfolding stays_def
proof (intro allI impI)
  fix st assume h: "has_record i st"
  obtain r st1 where m: "m st = (r, st1)" by fastforce
  have h1: "has_record i st1" by (rule stays_run [OF assms(1) h m])
  show "has_record i (snd (st_bind m f st))"
  proof (cases r)
    case (Inr v)
    then show ?thesis using assms(2) [of v, unfolded stays_def] h1 by (simp add: st_bind_def m)
  qed (simp add: st_bind_def m h1)
qed

lemma stays_simple: "stays i (on_host m)" "stays i (worker_load B i)" "stays i (source_of E d)" "stays i (st_return v)"
  "stays i (on_records (bk_update B i x outputs err withheld now))" "stays i (report_outcome E d outcome detail t)"
  using in_state_record [OF updated_state]
  by (auto simp: stays_def has_record_def on_host_def worker_load_def source_of_def st_return_def report_outcome_def
      record_quietly_def record_event_def Let_def split: prod.split option.split sum.split)

lemma stays_plan: "stays i (plan_activity E B e i t)"
  unfolding plan_activity_def begin_run_def by (intro stays_bind stays_simple)

lemma stays_case: "(\<And>a b. stays i (f a b)) \<Longrightarrow> stays i (case v of (a, b) \<Rightarrow> f a b)"
  by (cases v) simp

lemma stays_apply: "stays i (apply_activity E B e i t t')"
  unfolding apply_activity_def begin_run_def by (intro stays_bind stays_simple stays_case)

lemma report_in_state: "in_state x i st \<Longrightarrow> in_state x i (snd (report_outcome E d outcome detail t st))"
  by (simp add: in_state_def report_outcome_def record_quietly_def record_event_def Let_def)

lemma mark_failed_state:
  assumes "has_record i st"
  shows "\<exists>st'. mark_failed E B i why t st = (Inr (), st') \<and> in_state L_failed i st'"
proof -
  define st1 where "st1 = snd (on_records (bk_update B i L_failed None (Some why) None t) st)"
  have f: "in_state L_failed i st1" unfolding st1_def by (rule updated_state [OF assms])
  then obtain d where d: "bk_get B i (lg_store (st_legacy st1)) = Some d" by (auto simp: in_state_def)
  have o: "on_records (bk_update B i L_failed None (Some why) None t) st = (Inr (), st1)"
    by (simp add: st1_def on_records_def)
  have w: "worker_load B i st1 = (Inr d, st1)" by (simp add: worker_load_def d)
  have "mark_failed E B i why t st = report_outcome E d ''failed'' [(''error'', JStr (take 500 why))] t st1"
    by (simp add: mark_failed_def st_bind_def o w)
  then show ?thesis using report_in_state [OF f] by (auto simp: report_outcome_def)
qed

lemma applied_state:
  assumes "apply_activity E B e i t t' st = (Inr v, st')" "has_record i st"
  shows "in_state L_succeeded i st'"
proof -
  obtain d st1 where a: "begin_run B i L_applying t st = (Inr d, st1)" and m1: "st_bind (source_of E d) (\<lambda>source.
    st_bind (on_host (tf_apply e i source (values_of d) (dp_subscription_id d))) (\<lambda>(outputs, withheld).
    st_bind (on_records (bk_update B i L_succeeded (Some outputs) None (Some withheld) t')) (\<lambda>_.
    report_outcome E d ''succeeded'' [] t'))) st1 = (Inr v, st')"
    using st_bind_Inr [OF assms(1) [unfolded apply_activity_def]] by blast
  obtain source st2 where b: "source_of E d st1 = (Inr source, st2)" and m2:
    "st_bind (on_host (tf_apply e i source (values_of d) (dp_subscription_id d))) (\<lambda>(outputs, withheld).
    st_bind (on_records (bk_update B i L_succeeded (Some outputs) None (Some withheld) t')) (\<lambda>_.
    report_outcome E d ''succeeded'' [] t')) st2 = (Inr v, st')"
    using st_bind_Inr [OF m1] by blast
  obtain r st3 where c: "on_host (tf_apply e i source (values_of d) (dp_subscription_id d)) st2 = (Inr r, st3)"
    and m3: "(case r of (outputs, withheld) \<Rightarrow>
      st_bind (on_records (bk_update B i L_succeeded (Some outputs) None (Some withheld) t')) (\<lambda>_.
      report_outcome E d ''succeeded'' [] t')) st3 = (Inr v, st')"
    using st_bind_Inr [OF m2] by blast
  have "stays i (begin_run B i L_applying t)" unfolding begin_run_def by (intro stays_bind stays_simple)
  then have "has_record i st1" using assms(2) a by (rule stays_run)
  then have "has_record i st2" by (rule stays_run [OF stays_simple(3) _ b])
  then have r3: "has_record i st3" by (rule stays_run [OF stays_simple(1) _ c])
  obtain outputs withheld where r: "r = (outputs, withheld)" by fastforce
  obtain st4 where u: "on_records (bk_update B i L_succeeded (Some outputs) None (Some withheld) t') st3 = (Inr (), st4)"
    and s: "report_outcome E d ''succeeded'' [] t' st4 = (Inr v, st')"
    using st_bind_Inr [OF m3 [unfolded r prod.case]] by auto
  have "in_state L_succeeded i st4" using updated_state [OF r3] u by (metis snd_conv)
  then show ?thesis using report_in_state s by (metis snd_conv)
qed

lemma deploy_settles:
  assumes "has_record i st"
  shows "\<exists>v st'. deploy_workflow E B (\<lambda>j. plan_activity E B e j t) (\<lambda>j. apply_activity E B e j t t') i t'' st = (Inr v, st') \<and>
    (v = ''succeeded'' \<and> in_state L_succeeded i st' \<or> v = ''failed'' \<and> in_state L_failed i st')"
proof -
  let ?run = "st_bind (plan_activity E B e i t) (\<lambda>_. apply_activity E B e i t t')"
  obtain r st1 where run: "?run st = (r, st1)" by fastforce
  have "stays i ?run" by (intro stays_bind stays_plan stays_apply)
  then have h: "has_record i st1" using assms run by (rule stays_run)
  show ?thesis
  proof (cases r)
    case (Inl ex)
    obtain st' where f: "mark_failed E B i (exn_text ex) t'' st1 = (Inr (), st')" "in_state L_failed i st'"
      using mark_failed_state [OF h] by blast
    have "deploy_workflow E B (\<lambda>j. plan_activity E B e j t) (\<lambda>j. apply_activity E B e j t t') i t'' st = (Inr ''failed'', st')"
      unfolding deploy_workflow_def run Inl by (simp add: st_bind_def st_return_def f(1))
    then show ?thesis using f(2) by blast
  next
    case (Inr v)
    obtain u st2 where p: "plan_activity E B e i t st = (Inr u, st2)" "apply_activity E B e i t t' st2 = (Inr v, st1)"
      using st_bind_Inr [OF run [unfolded Inr]] by blast
    have "has_record i st2" by (rule stays_run [OF stays_plan assms p(1)])
    then have "in_state L_succeeded i st1" by (rule applied_state [OF p(2)])
    moreover have
      "deploy_workflow E B (\<lambda>j. plan_activity E B e j t) (\<lambda>j. apply_activity E B e j t t') i t'' st = (Inr ''succeeded'', st1)"
      unfolding deploy_workflow_def run Inr by simp
    ultimately show ?thesis by blast
  qed
qed

end

lemma table_state_update:
  assumes "table_get i es = Some d"
  shows "\<exists>d'. table_get i (table_update i st outputs err withheld now es) = Some d' \<and> dp_state d' = st"
proof -
  obtain e where e: "row_find en_row_key i es = Some e" using assms by (auto simp: table_get_def)
  have "row_find en_row_key i (row_update en_row_key i f es) = Some (f e)" if "\<And>e. en_row_key (f e) = en_row_key e" for f
    using row_find_update [of en_row_key f i i es, OF that] e by simp
  then show ?thesis
    by (simp add: table_get_def table_update_def Let_def to_deployment_def split: option.split)
qed

interpretation sqlite_states: state_store sqlite "[]" "\<lambda>rows. rows"
  by unfold_locales (auto simp: sqlite_def sqlite_update_def row_find_update)

interpretation table_states: state_store table_store "[]" "map to_deployment"
  using table_state_update by unfold_locales (simp add: table_store_def)

text \<open>What the workflow promises of a deployment the store knows.\<close>

definition settles ::
  "setting \<Rightarrow> 's backend \<Rightarrow> engine \<Rightarrow> string \<Rightarrow> nat \<Rightarrow> nat \<Rightarrow> nat \<Rightarrow> 's station \<Rightarrow> bool" where
  "settles E B e i t t' t'' st \<longleftrightarrow>
     (case deploy_workflow E B (\<lambda>j. plan_activity E B e j t) (\<lambda>j. apply_activity E B e j t t') i t'' st of
        (Inl ex, st') \<Rightarrow> False
      | (Inr v, st') \<Rightarrow>
          (case bk_get B i (lg_store (st_legacy st')) of
             None \<Rightarrow> False
           | Some d \<Rightarrow> v = ''succeeded'' \<and> dp_state d = L_succeeded \<or> v = ''failed'' \<and> dp_state d = L_failed))"

text \<open>C17. A deploy settles its deployment. Whatever Terraform, the catalog and the audit trail answer, the deploy
  workflow of a deployment that is in the store of the worker ends, and what it answers is the state of the record:
  \<open>succeeded\<close> after an apply that went through, \<open>failed\<close> otherwise, in either store.\<close>

theorem deploy_workflow_settles:
  assumes "bk_get sqlite i (lg_store (st_legacy st)) \<noteq> None" "bk_get table_store i (lg_store (st_legacy st2)) \<noteq> None"
  shows "settles E sqlite e i t t' t'' st \<and> settles E table_store e i t t' t'' st2"
proof
  show "settles E sqlite e i t t' t'' st"
    using sqlite_states.deploy_settles [of i st E e t t' t''] assms(1)
    by (auto simp: settles_def sqlite_states.has_record_def sqlite_states.in_state_def)
  show "settles E table_store e i t t' t'' st2"
    using table_states.deploy_settles [of i st2 E e t t' t''] assms(2)
    by (auto simp: settles_def table_states.has_record_def table_states.in_state_def)
qed

definition demo_trail :: trail where
  "demo_trail = new_trail ''deployment.retry'' shop_caller"

text \<open>An API process over the shop's teams whose audit writes all fail, or all go through.\<close>

definition demo_setting :: "bool \<Rightarrow> setting" where
  "demo_setting up = \<lparr>sg_ext = shop_ext, sg_world = shop_world, sg_table = True, sg_number = (\<lambda>_. ''0''), sg_audit = (\<lambda>_. up),
     sg_engine = (\<lambda>_. True), sg_reason = (\<lambda>_. JStr ''refused''), sg_over = (\<lambda>_ _. Inl TypeError), sg_left = (\<lambda>_ _. Inl TypeError)\<rparr>"

definition demo_records :: "'s \<Rightarrow> 's legacy" where
  "demo_records x = \<lparr>lg_store = x, lg_audit = [], lg_writes = 0, lg_jobs = [], lg_trail = demo_trail\<rparr>"

definition demo_station :: "'s \<Rightarrow> 's station" where
  "demo_station x = \<lparr>st_host = net_host shop_world, st_legacy = demo_records x\<rparr>"

theorem deploy_workflow_settles_witness:
  "settles (demo_setting True) sqlite net_engine ''d1'' 3 4 5 (demo_station [demo_deployment]) \<and>
   settles (demo_setting True) table_store net_engine ''d1'' 3 4 5 (demo_station [to_entity demo_deployment])"
  by (rule deploy_workflow_settles)
    (simp_all add: demo_station_def demo_records_def sqlite_def table_store_def table_get_def to_entity_def demo_deployment_def
      row_find_Cons)

section \<open>A retry that is not audited\<close>

text \<open>C28. A retry changes the deployment before its audit event. Under tenancy, when a failed deployment is retried, its
  request is still valid and the audit write fails, the answer is 503 and no job starts, but the record already holds the
  commit its version now resolves to, with the values and the cost of the mapping in force (a cost that is NaN as none).\<close>

theorem unaudited_retry_changes_record:
  assumes "enabled (sg_world E)" "load_deployment E sqlite i c True t s = (Inr d, s)" "dp_state d = L_failed"
    "respec_values E sqlite c d (dp_version d) (dp_inputs d) (dp_size d) (lg_store s) = Inr (r, p)" "\<not> sg_audit E (lg_writes s)"
  shows "fst (retry_deployment E sqlite i c t s) = Inl (HTTPException 503) \<and>
    lg_jobs (snd (retry_deployment E sqlite i c t s)) = lg_jobs s \<and>
    bk_get sqlite i (lg_store (snd (retry_deployment E sqlite i c t s))) =
      Some (respecified (dp_inputs d) (rs_version r) (rs_commit r) (dp_size d) (map_option ps_injected p) (real_column (Option.bind p ps_cost)) t d)"
proof -
  have g: "row_find dp_id i (lg_store s) = Some d"
    using assms(2) by (auto simp: load_deployment_def sqlite_def split: option.splits if_splits)
  then have i: "dp_id d = i" by (auto dest: row_find_SomeD)
  define store where "store = sqlite_respec i (dp_inputs d) (rs_version r) (rs_commit r) (dp_size d) (map_option ps_injected p)
    (Option.bind p ps_cost) t (lg_store s)"
  have f: "row_find dp_id i store =
      Some (respecified (dp_inputs d) (rs_version r) (rs_commit r) (dp_size d) (map_option ps_injected p) (real_column (Option.bind p ps_cost)) t d)"
    by (simp add: store_def sqlite_respec_def row_find_update g respecified_def)
  have b: "bk_respec sqlite = sqlite_respec" "bk_get sqlite = row_find dp_id" by (simp_all add: sqlite_def)
  have a: "accepted E t x = (Inl (HTTPException 503), x\<lparr>lg_writes := lg_writes x + 1\<rparr>)" if "lg_writes x = lg_writes s" for x
    using that assms(5) by (simp add: accepted_def record_event_def Let_def)
  have q: "lg_store (record_quietly E ev x) = lg_store x" for ev x
    by (simp add: record_quietly_def record_event_def Let_def)
  show ?thesis
    unfolding retry_deployment_def respec_deployment_def lbind_def [of "load_deployment E sqlite i c True t"] assms(2)
    by (simp add: audited_def lbind_def placed_trail_def on_trail_def llift_def lread_def on_store_def note_detail_def assms i b a
        quiet_record q f refused_with_def flip: store_def)
qed

lemma demo_unit: "load_unit shop_world (Some ''retail'') = Some shop_unit"
  by (simp add: load_unit_def shop_load)

lemma demo_load: "load_deployment (demo_setting up) sqlite ''d1'' shop_caller True 7 (demo_records [demo_deployment]) =
    (Inr demo_deployment, demo_records [demo_deployment])"
proof -
  have "or_empty (Some x) = x" for x by (simp add: or_empty_def)
  moreover have "sg_world (demo_setting up) = shop_world" by (simp add: demo_setting_def)
  moreover have "bk_get sqlite ''d1'' [demo_deployment] = Some demo_deployment"
    by (simp add: sqlite_def row_find_Cons demo_deployment_def)
  moreover have "dp_business_unit demo_deployment = Some ''retail''" "dp_environment demo_deployment = Some ''dev''"
    by (simp_all add: demo_deployment_def)
  moreover have "unit_includes shop_unit shop_caller" "unit_env shop_unit (Some ''dev'') = Some shop_env"
    "can_deploy shop_unit shop_caller shop_env"
    by (simp_all add: unit_includes_def overlap_def shop_caller_def shop_unit_def unit_env_def can_deploy_def shop_env_def
        build_environment_def List.map_filter_def)
  ultimately show ?thesis by (simp add: load_deployment_def demo_records_def demo_unit shop_enabled)
qed

definition demo_placed :: placed where
  "demo_placed = \<lparr>ps_cost = Some (JNum 30),
     ps_budget = Some \<lparr>bg_monthly = JNum 100, bg_committed = JNum 0, bg_request = Some (JNum 30), bg_available = JNum 100,
       bg_now = Some (JNum 30)\<rparr>,
     ps_business_unit = ''retail'', ps_environment = ''dev'', ps_subscription_id = Some ''s1'', ps_size = None,
     ps_injected = [(''environment'', JStr ''dev'')]\<rparr>"

lemma demo_respec: "respec_values (demo_setting up) sqlite shop_caller demo_deployment (dp_version demo_deployment)
    (dp_inputs demo_deployment) (dp_size demo_deployment) [demo_deployment] = Inr (shop_version, Some demo_placed)"
proof -
  note d = demo_deployment_def
  have e: "sg_ext (demo_setting up) = shop_ext" "sg_world (demo_setting up) = shop_world" by (simp_all add: demo_setting_def)
  have r: "legacy_resolve (demo_setting up) ''postgresql'' None = Inr shop_version"
    by (simp add: legacy_resolve_def e shop_catalog catalog_resolve_def catalog_get_def is_local_def shop_pattern_def)
  have s: "select_unit shop_world shop_caller (Some ''retail'') = Inr shop_unit"
    by (simp add: select_unit_def shop_units shop_unit_def)
  have cf: "x_config shop_ext x = Inr shop_config" for x by (simp add: shop_ext_def)
  have sr: "shaped_request (demo_setting up) shop_caller ''postgresql'' shop_version (Some ''retail'') (Some ''dev'') None =
      Inr ([shop_variable ''name''],
        Some (\<lparr>pl_unit = shop_unit, pl_environment = shop_env\<rparr>, shop_config, [(''environment'', JStr ''dev'')]))"
    by (simp add: shaped_request_def legacy_variables_def legacy_config_def e shop_variables shop_enabled s shop_place cf shop_shape)
  have se: "schema_errors shop_ext ''postgresql'' [shop_variable ''name''] [(''name'', JStr ''db'')] = []"
    by (simp add: schema_errors_def shop_ext_def undeclared_def json_schema_def shop_variable_def)
  have n: "env_name shop_env = ''dev''" "env_budget_monthly shop_env = JNum 100" "env_subscription_id shop_env = Some ''s1''"
    "u_name shop_unit = ''retail''" "u_region_default shop_unit = None"
    by (simp_all add: shop_env_def build_environment_def shop_unit_def)
  have co: "cost_of shop_config ''dev'' None = Inr (Some (JNum 30))"
    by (simp add: cost_of_def estimated_cost_def or_empty_def is_number_def is_dict_def float_limit_def)
  have cm: "committed sqlite shop_unit shop_env [demo_deployment] = JNum 30"
    by (simp add: committed_def sqlite_def sqlite_list_for_def newest_def in_units_def n d amount_sum_def cost_or_zero_def)
  have b: "check_budget (demo_setting up) sqlite shop_unit shop_env (Some (JNum 30)) (JNum 30) [demo_deployment] = Inr (ps_budget demo_placed)"
    by (simp add: check_budget_def n cm amount_minus_def left_of_def over_limit_def amount_sum_def demo_placed_def Let_def)
  have p: "plan_request (demo_setting up) sqlite shop_caller ''postgresql'' shop_version [(''name'', JStr ''db'')] (Some ''retail'')
      (Some ''dev'') None (JNum 30) [demo_deployment] = Inr (Some demo_placed)"
    by (simp add: plan_request_def sr e se co b n or_empty_def) (simp add: demo_placed_def)
  have f: "dp_pattern demo_deployment = ''postgresql''" "dp_version demo_deployment = None" "dp_size demo_deployment = None"
    "dp_inputs demo_deployment = [(''name'', JStr ''db'')]" "dp_business_unit demo_deployment = Some ''retail''"
    "dp_environment demo_deployment = Some ''dev''" "dp_subscription_id demo_deployment = Some ''s1''"
    "cost_or_zero (dp_cost demo_deployment) = JNum 30" "ps_subscription_id demo_placed = Some ''s1''"
    by (simp_all add: d cost_or_zero_def demo_placed_def)
  show ?thesis by (simp add: respec_values_def r p f)
qed

theorem unaudited_retry_changes_record_witness:
  "fst (retry_deployment (demo_setting False) sqlite ''d1'' shop_caller 7 (demo_records [demo_deployment])) =
     Inl (HTTPException 503) \<and>
   map_option dp_commit (bk_get sqlite ''d1'' (lg_store (snd (retry_deployment (demo_setting False) sqlite ''d1'' shop_caller 7
     (demo_records [demo_deployment]))))) = Some None \<and> dp_commit demo_deployment = Some ''c1''"
proof -
  have "enabled (sg_world (demo_setting False))" "dp_state demo_deployment = L_failed"
    "\<not> sg_audit (demo_setting False) (lg_writes (demo_records [demo_deployment]))"
    by (simp_all add: demo_setting_def shop_enabled demo_deployment_def)
  moreover have "lg_store (demo_records [demo_deployment]) = [demo_deployment]" by (simp add: demo_records_def)
  ultimately show ?thesis
    using unaudited_retry_changes_record [OF _ demo_load [of False], of shop_version "Some demo_placed"]
      demo_respec [of False] by (simp add: respecified_def) (simp add: demo_deployment_def)
qed

section \<open>A trail that cannot be read\<close>

lemma smap_parse_fails: "r \<in> set rows \<Longrightarrow> ar_cut r \<Longrightarrow> smap parse_row rows = Inl ValueError"
proof (induction rows)
  case (Cons x rows)
  then show ?case by (cases "ar_cut x") (auto simp: parse_row_def)
qed simp

text \<open>One long event makes a trail unreadable. Table Storage keeps the first 30,000 characters of an event's detail;
  once an event with a longer one is recorded, every later query whose filter it passes (its unit's, its deployment's, an
  auditor's) raises on its text, whatever was recorded after it.\<close>

theorem oversized_event_hides_the_trail:
  assumes "sg_table E" "sg_audit E (lg_writes s)" "DETAIL_LIMIT < length (dumps (sg_number E) (JObj (ae_detail ev)))"
    "wanted_event E units dep since ev" "units \<noteq> Some []" "lg_audit s' = lg_audit (snd (record_event E ev s)) @ later"
  shows "audit_query E units dep since limit (lg_audit s') = Inl ValueError"
proof -
  have "audit_row_of E ev \<in> set (filter (\<lambda>r. wanted_event E units dep since (ar_event r)) (lg_audit s'))"
    using assms by (simp add: record_event_def Let_def audit_row_of_def)
  moreover have "ar_cut (audit_row_of E ev)" using assms by (simp add: audit_row_of_def)
  ultimately show ?thesis using assms(1,5) by (simp add: audit_query_def Let_def smap_parse_fails)
qed

lemma quote_length: "length (json_quote (replicate n (CHR ''x''))) = n + 2"
  by (simp add: json_quote_def length_concat map_replicate_const json_char_def sum_list_replicate)

definition long_event :: audit_event where
  "long_event = event_of demo_trail ''accepted'' None [(''inputs'', JStr (replicate DETAIL_LIMIT (CHR ''x'')))] 9"

theorem oversized_event_hides_the_trail_witness:
  "audit_query (demo_setting True) None None None 100 (lg_audit (snd (record_event (demo_setting True) long_event (demo_records [demo_deployment])))) =
     Inl ValueError"
proof (rule oversized_event_hides_the_trail [where ev = long_event and later = "[]"])
  show "DETAIL_LIMIT < length (dumps (sg_number (demo_setting True)) (JObj (ae_detail long_event)))"
    by (simp add: long_event_def event_of_def quote_length)
  show "wanted_event (demo_setting True) None None None long_event"
    by (simp add: wanted_event_def filed_under_def or_empty_def in_units_def)
qed (simp_all add: demo_setting_def)

end
