(* ===== verification/PatternCheck.thy ===== *)
theory PatternCheck
  imports Redaction Policy
begin

text \<open>
  The linter of pattern repositories, \<^verbatim>\<open>app/pattern_check.py\<close>: a module is its parsed files, in the order of their
  names; a check is the list of its findings. Of a message only its subject is kept, and no line numbers. Texts of HCL
  and YAML are read at the types the parsers give them (names and constraints are texts).
\<close>

section \<open>Findings and files\<close>

datatype severity = Is_error | Is_warning | Is_info

record pattern_finding =
  pf_severity :: severity
  pf_code :: string
  pf_subject :: string
  pf_file :: "string option"

definition find_error :: "string \<Rightarrow> string \<Rightarrow> string option \<Rightarrow> pattern_finding" where
  "find_error c s f = \<lparr>pf_severity = Is_error, pf_code = c, pf_subject = s, pf_file = f\<rparr>"

definition find_warning :: "string \<Rightarrow> string \<Rightarrow> string option \<Rightarrow> pattern_finding" where
  "find_warning c s f = \<lparr>pf_severity = Is_warning, pf_code = c, pf_subject = s, pf_file = f\<rparr>"

definition find_info :: "string \<Rightarrow> string \<Rightarrow> string option \<Rightarrow> pattern_finding" where
  "find_info c s f = \<lparr>pf_severity = Is_info, pf_code = c, pf_subject = s, pf_file = f\<rparr>"

text \<open>A \<^verbatim>\<open>.tf\<close> file: outside the module, not text, not HCL, or its document. The directory holds the files of the root
  module by name and in the order the system lists them, those of nested modules, the \<^verbatim>\<open>config.yaml\<close> that counts, and
  whether a cost that is no finite number is infinity (and not nan or its negative).\<close>

datatype source_file = Linked | Unreadable | Unparsed | Parsed json

datatype config_file = No_config | Linked_config | Bad_config | Config json

record pattern_dir =
  pd_files :: "(string \<times> source_file) list"
  pd_listing :: "source_file list"
  pd_nested :: "(string \<times> source_file) list"
  pd_config :: config_file

fun file_finding :: "string \<times> source_file \<Rightarrow> pattern_finding list" where
  "file_finding (n, Linked) = [find_error ''symlinked_file'' [] (Some n)]"
| "file_finding (n, Unreadable) = [find_error ''hcl_parse'' ''text'' (Some n)]"
| "file_finding (n, Unparsed) = [find_error ''hcl_parse'' ''HCL'' (Some n)]"
| "file_finding (n, Parsed doc) = []"

definition documents :: "(string \<times> source_file) list \<Rightarrow> (string \<times> json) list" where
  "documents fs = List.map_filter (\<lambda>(n, f). case f of Parsed doc \<Rightarrow> Some (n, doc) | _ \<Rightarrow> None) fs"

text \<open>\<^verbatim>\<open>_blocks\<close> and \<^verbatim>\<open>_Module.all\<close>: file, label, body.\<close>

definition unmarked :: "(string \<times> json) list \<Rightarrow> (string \<times> json) list" where
  "unmarked kvs = filter (\<lambda>kv. fst kv \<noteq> ''__is_block__'') kvs"

definition blocks :: "json \<Rightarrow> string \<Rightarrow> (string \<times> json) list" where
  "blocks doc kind = concat (map (\<lambda>block. unmarked (jitems block)) (jlist (jget doc kind)))"

definition all_blocks :: "(string \<times> json) list \<Rightarrow> string \<Rightarrow> (string \<times> string \<times> json) list" where
  "all_blocks docs kind = concat (map (\<lambda>(f, doc). map (\<lambda>(n, body). (f, n, body)) (blocks doc kind)) docs)"

text \<open>\<^verbatim>\<open>_refs\<close>: the expression is searched in the JSON text of the value, where the text of a number holds no reference.\<close>

definition word_ends :: "string \<Rightarrow> string \<Rightarrow> bool" where
  "word_ends p rest = (is_word (last p) \<noteq> (case rest of [] \<Rightarrow> False | c # cs \<Rightarrow> is_word c))"

fun word_found :: "string \<Rightarrow> char option \<Rightarrow> string \<Rightarrow> bool" where
  "word_found p prev [] = False"
| "word_found p prev (c # s) =
    ((\<not> prev_is is_word prev \<and> has_prefix p (c # s) \<and> word_ends p (drop (length p) (c # s))) \<or> word_found p (Some c) s)"

definition flat :: "json \<Rightarrow> string" where
  "flat value = dumps (\<lambda>_. ''0'') value"

definition refs :: "json \<Rightarrow> string \<Rightarrow> bool" where
  "refs value n = word_found (''var.'' @ n) None (flat value)"

section \<open>Version constraints\<close>

text \<open>\<^verbatim>\<open>_version_tuple\<close>; each group takes all the digits it can, since what may follow is no digit.\<close>

definition dotted_number :: "string \<Rightarrow> nat \<times> string" where
  "dotted_number s = (case s of [] \<Rightarrow> (0, [])
     | c # t \<Rightarrow> (if c = CHR ''.'' \<and> takeWhile is_digit t \<noteq> [] then (decimal (takeWhile is_digit t), dropWhile is_digit t)
                else (0, s)))"

definition prerelease :: "string \<Rightarrow> bool" where
  "prerelease s = (case s of [] \<Rightarrow> False | c # t \<Rightarrow> c = CHR ''-'' \<and> t \<noteq> [] \<and> list_all (\<lambda>c. is_word c \<or> c = CHR ''.'') t)"

definition version_tuple :: "string \<Rightarrow> nat list option" where
  "version_tuple text =
    (let s = removeprefix ''v'' (strip text) in
     if takeWhile is_digit s = [] then None
     else case dotted_number (dropWhile is_digit s) of (b, r) \<Rightarrow>
          case dotted_number r of (c, rest) \<Rightarrow>
            if rest = [] \<or> prerelease rest then Some [decimal (takeWhile is_digit s), b, c] else None)"

definition constraint_operators :: "string list" where
  "constraint_operators = [''='', ''!='', ''>='', ''<='', ''>'', ''<'', ''~>'']"

definition split_operator :: "string \<Rightarrow> string \<times> string" where
  "split_operator part = (case find (\<lambda>opr. has_prefix opr part) constraint_operators of
      None \<Rightarrow> (''='', part) | Some opr \<Rightarrow> (opr, drop (length opr) part))"

definition given_numbers :: "string \<Rightarrow> nat" where
  "given_numbers text = length (split_on (CHR ''.'') (hd (split_on (CHR ''-'') (removeprefix ''v'' (strip text)))))"

definition upper_bound :: "nat \<Rightarrow> nat list \<Rightarrow> nat list" where
  "upper_bound given lower_bound =
    (let upper = take (max (given - 1) 1) lower_bound
     in butlast upper @ [last upper + 1] @ replicate (3 - length upper) 0)"

definition admits :: "string \<Rightarrow> nat \<Rightarrow> nat list \<Rightarrow> nat list \<Rightarrow> bool" where
  "admits opr given least target =
    (if opr = ''~>'' then least \<le> target \<and> target < upper_bound given least
     else if opr = ''='' then target = least
     else if opr = ''!='' then target \<noteq> least
     else if opr = ''>='' then least \<le> target
     else if opr = ''<='' then target \<le> least
     else if opr = ''>'' then least < target else target < least)"

fun allows_all :: "nat list \<Rightarrow> string list \<Rightarrow> bool option" where
  "allows_all target [] = Some True"
| "allows_all target (part # parts) =
    (case split_operator part of (opr, text) \<Rightarrow>
     case version_tuple text of
       None \<Rightarrow> None
     | Some least \<Rightarrow> if admits opr (given_numbers text) least target then allows_all target parts else Some False)"

text \<open>\<^verbatim>\<open>allows\<close>.\<close>

definition allows :: "string \<Rightarrow> string \<Rightarrow> bool option" where
  "allows constraint version = (case version_tuple version of None \<Rightarrow> None
     | Some target \<Rightarrow> allows_all target (map strip (split_on (CHR '','') constraint)))"

section \<open>Rules\<close>

definition terraform_blocks :: "(string \<times> json) list \<Rightarrow> (string \<times> json) list" where
  "terraform_blocks docs = concat (map (\<lambda>(f, doc). map (Pair f) (jlist (jget doc ''terraform''))) docs)"

definition required_versions :: "(string \<times> json) list \<Rightarrow> (string \<times> string) list" where
  "required_versions docs = map (\<lambda>(f, b). (f, unquote_text (jget b ''required_version'')))
     (filter (\<lambda>(f, b). jhas b ''required_version'') (terraform_blocks docs))"

definition required_providers :: "(string \<times> json) list \<Rightarrow> (string \<times> string \<times> json) list" where
  "required_providers docs = concat (map (\<lambda>(f, b). concat (map (\<lambda>ps. map (\<lambda>(n, spec). (f, strip_quotes n, spec))
     (unmarked (jitems ps))) (jlist (jget b ''required_providers'')))) (terraform_blocks docs))"

definition unpinned :: "json \<Rightarrow> bool" where
  "unpinned spec = (case spec of JObj kvs \<Rightarrow> \<not> truthy (jget spec ''version'') | JStr s \<Rightarrow> strip_quotes s = [] | _ \<Rightarrow> \<not> truthy spec)"

text \<open>\<^verbatim>\<open>_terraform_block\<close>.\<close>

definition terraform_findings :: "(string \<times> json) list \<Rightarrow> string \<Rightarrow> pattern_finding list" where
  "terraform_findings docs platform =
    map (\<lambda>(f, n, spec). find_warning ''unpinned_provider'' n (Some f))
      (filter (\<lambda>(f, n, spec). unpinned spec) (required_providers docs)) @
    (if required_versions docs = [] \<and> docs \<noteq> [] then [find_warning ''no_required_version'' [] None] else []) @
    map (\<lambda>(f, c). find_error ''required_version_excludes_platform'' c (Some f))
      (filter (\<lambda>(f, c). allows c platform = Some False) (required_versions docs))"

definition declared_providers :: "(string \<times> json) list \<Rightarrow> string list" where
  "declared_providers docs = map (\<lambda>(f, n, spec). n) (required_providers docs)"

definition used_providers :: "(string \<times> json) list \<Rightarrow> string list" where
  "used_providers docs = filter (\<lambda>n. n \<noteq> ''terraform'')
     (map (\<lambda>(f, t, rest). hd (split_on (CHR ''_'') (strip_quotes t))) (all_blocks docs ''resource'' @ all_blocks docs ''data'') @
      map (\<lambda>(f, n, rest). strip_quotes n) (all_blocks docs ''provider''))"

definition file_of_variable :: "(string \<times> json) list \<Rightarrow> string \<Rightarrow> string option" where
  "file_of_variable docs n =
     map_option fst (find (\<lambda>(f, label, body). strip_quotes label = n) (all_blocks docs ''variable''))"

text \<open>\<^verbatim>\<open>_inputs\<close>.\<close>

definition variable_findings :: "ext \<Rightarrow> string option \<Rightarrow> variable \<Rightarrow> pattern_finding list" where
  "variable_findings x f v =
    (if v_sensitive v then [find_error ''sensitive_input'' (v_name v) f] else []) @
    (if map_of schema_types (v_type v) = None then [find_warning ''unchecked_type'' (v_name v) f] else []) @
    (if v_description v = [] then [find_info ''no_description'' (v_name v) f] else []) @
    map (\<lambda>c. find_info ''validation_runtime_only'' (v_name v) f)
      (filter (\<lambda>c. lift_rule x (v_name v) (v_type v) c = []) (v_conditions v))"

definition module_variables :: "ext \<Rightarrow> (string \<times> json) list \<Rightarrow> variable list" where
  "module_variables x docs = parse_variables x (map snd docs)"

definition input_findings :: "ext \<Rightarrow> (string \<times> json) list \<Rightarrow> pattern_finding list" where
  "input_findings x docs =
     concat (map (\<lambda>v. variable_findings x (file_of_variable docs (v_name v)) v) (module_variables x docs))"

definition provider_cloud :: "string \<Rightarrow> string option" where
  "provider_cloud p = (if p = ''azurerm'' then Some ''azure'' else if p = ''aws'' then Some ''aws''
     else if p = ''google'' then Some ''gcp'' else None)"

definition infer_cloud :: "string list \<Rightarrow> string list \<Rightarrow> string option" where
  "infer_cloud declared used =
    (case remdups (List.map_filter provider_cloud (declared @ used)) of [c] \<Rightarrow> Some c | _ \<Rightarrow> None)"

definition cloud_provider :: "string \<Rightarrow> string \<times> string" where
  "cloud_provider cloud = (if cloud = ''azure'' then (''azurerm'', ''subscription_id'')
     else if cloud = ''aws'' then (''aws'', ''allowed_account_ids'') else (''google'', ''project''))"

definition wiring_finding :: "string \<Rightarrow> string \<Rightarrow> string \<Rightarrow> string \<times> json \<Rightarrow> pattern_finding list" where
  "wiring_finding provider attr ident fb = (case fb of (f, body) \<Rightarrow>
     let value = jget body attr in
     if value \<noteq> JNull \<and> \<not> contains_text ''${'' (flat value) then [find_error ''hardcoded_placement'' provider (Some f)]
     else if \<not> refs value ident then [find_warning ''target_not_wired'' provider (Some f)] else [])"

text \<open>\<^verbatim>\<open>_placement\<close>, for one of the three clouds.\<close>

definition injection_findings :: "(string \<times> json) list \<Rightarrow> string list \<Rightarrow> string \<Rightarrow> bool \<Rightarrow> pattern_finding list" where
  "injection_findings docs ns cloud inferred =
    (let ident = or_empty (identifiers cloud);
         missing = filter (\<lambda>n. n \<notin> set ns) [ident, ''region''];
         (provider, attr) = cloud_provider cloud;
         bodies = map (\<lambda>(f, n, body). (f, body))
                    (filter (\<lambda>(f, n, body). strip_quotes n = provider) (all_blocks docs ''provider''))
     in (if missing = [] then []
         else [(if inferred \<and> cloud = ''azure'' then find_warning else find_error)
                 ''missing_target_inputs'' (join '', '' missing) None]) @
        (if ident \<in> set ns
         then (if bodies = [] then [find_warning ''target_not_wired'' ident None] else []) @
              concat (map (wiring_finding provider attr ident) bodies)
         else []) @
        (if ''region'' \<in> set ns \<and>
            \<not> list_ex (\<lambda>(f, doc). refs (JObj (filter (\<lambda>kv. fst kv \<noteq> ''variable'') (jitems doc))) ''region'') docs
         then [find_warning ''target_not_wired'' ''region'' None] else []) @
        (if ''location'' \<in> set ns \<and> ident \<in> set ns then [find_info ''location_and_target'' [] None] else []))"

definition PLACEMENT_VARIABLES :: "string list" where
  "PLACEMENT_VARIABLES = [''subscription_id'', ''aws_account_id'', ''project_id'']"

definition secret_name :: "string \<Rightarrow> bool" where
  "secret_name n = list_ex (\<lambda>w. contains_text w (lower n)) [''password'', ''secret'', ''key'', ''token'', ''connection_string'']"

text \<open>\<^verbatim>\<open>_outputs\<close>.\<close>

definition output_findings :: "(string \<times> json) list \<Rightarrow> pattern_finding list" where
  "output_findings docs = concat (map (\<lambda>(f, label, body).
     (let n = strip_quotes label in
      (if jget body ''sensitive'' = JBool True then [find_info ''sensitive_output'' n (Some f)]
       else if secret_name n then [find_warning ''secret_like_output'' n (Some f)] else []) @
      (if list_ex (refs (jget body ''value'')) PLACEMENT_VARIABLES
       then [find_warning ''output_reveals_placement'' n (Some f)] else []))) (all_blocks docs ''output''))"

section \<open>The configuration\<close>

definition CONFIG_KEYS :: "string list" where
  "CONFIG_KEYS = [''description'', ''category'', ''components'', ''use_cases'', ''sizing'', ''estimated_costs'']"

text \<open>\<^verbatim>\<open>_numbers\<close>.\<close>

definition is_cost :: "json \<Rightarrow> bool" where
  "is_cost j = (case j of JNum q \<Rightarrow> 0 \<le> q | JNonFinite k \<Rightarrow> k = Plus_infinity | _ \<Rightarrow> False)"

definition valid_sizing :: "json \<Rightarrow> bool" where
  "valid_sizing j = (is_dict j \<and> list_all (\<lambda>(sz, envs). is_dict envs \<and> list_all (\<lambda>(e, v). is_dict v) (jitems envs)) (jitems j))"

definition valid_costs :: "json \<Rightarrow> bool" where
  "valid_costs costs = (is_cost costs \<or>
     (is_dict costs \<and> list_all (\<lambda>(k, v). is_cost v \<or>
        (is_dict v \<and> list_all (\<lambda>(e, c). is_cost c) (jitems v))) (jitems costs)))"

definition sizing_findings :: "string list \<Rightarrow> json \<Rightarrow> pattern_finding list" where
  "sizing_findings declared sizing =
    (if sizing = JNull then []
     else if \<not> valid_sizing sizing then [find_error ''invalid_sizing'' [] (Some ''config.yaml'')]
     else concat (map (\<lambda>(sz, envs). concat (map (\<lambda>(e, vals).
            map (\<lambda>(n, v). find_error ''sizing_var_undeclared'' n (Some ''config.yaml''))
              (filter (\<lambda>(n, v). n \<notin> set declared) (jitems vals))) (jitems envs))) (jitems sizing)))"

definition priced :: "json \<Rightarrow> string \<Rightarrow> string \<Rightarrow> bool" where
  "priced raw env sz = (case estimated_cost raw env (Some sz) of Inr (Some c) \<Rightarrow> True | _ \<Rightarrow> False)"

definition mismatch :: "string \<Rightarrow> pattern_finding" where
  "mismatch subject = find_warning ''cost_sizing_mismatch'' subject (Some ''config.yaml'')"

text \<open>The sizes offered against the sizes priced: sizes without costs, costs without a size, and environments with
  only one of the two.\<close>

definition keys_of :: "json \<Rightarrow> string list" where
  "keys_of j = map fst (jitems j)"

definition dict_sizes :: "json \<Rightarrow> string list" where
  "dict_sizes costs = map fst (filter (\<lambda>kv. is_dict (snd kv)) (jitems costs))"

definition unpriced_sizes :: "json \<Rightarrow> json \<Rightarrow> json \<Rightarrow> pattern_finding list" where
  "unpriced_sizes raw costs sizing = concat (map (\<lambda>sz.
     map (\<lambda>e. mismatch (sz @ ''/'' @ e)) (filter (\<lambda>e. \<not> priced raw e sz) (sort (keys_of (jget sizing sz)))))
     (sort (filter (\<lambda>sz. sz \<notin> set (dict_sizes costs)) (keys_of sizing))))"

definition unknown_sizes :: "json \<Rightarrow> json \<Rightarrow> pattern_finding list" where
  "unknown_sizes costs sizing = map mismatch (sort (filter (\<lambda>sz. sz \<notin> set (keys_of sizing)) (dict_sizes costs)))"

definition uneven_sizes :: "json \<Rightarrow> json \<Rightarrow> json \<Rightarrow> pattern_finding list" where
  "uneven_sizes raw costs sizing = concat (map (\<lambda>sz.
     (let cs = keys_of (jget costs sz); es = keys_of (jget sizing sz) in
      map (\<lambda>e. mismatch (sz @ ''/'' @ e)) (filter (\<lambda>e. \<not> priced raw e sz)
        (sort (filter (\<lambda>e. e \<notin> set cs) es @ filter (\<lambda>c. c \<notin> set es) cs)))))
     (sort (filter (\<lambda>sz. sz \<in> set (keys_of sizing)) (dict_sizes costs))))"

definition cost_findings :: "json \<Rightarrow> json \<Rightarrow> json \<Rightarrow> pattern_finding list" where
  "cost_findings raw costs sizing =
     unpriced_sizes raw costs sizing @ unknown_sizes costs sizing @ uneven_sizes raw costs sizing"

text \<open>\<^verbatim>\<open>_config\<close>.\<close>

definition config_findings :: "string list \<Rightarrow> config_file \<Rightarrow> pattern_finding list" where
  "config_findings declared cfg_file = (case cfg_file of
      No_config \<Rightarrow> [find_warning ''no_estimated_costs'' [] None]
    | Linked_config \<Rightarrow> [find_error ''symlinked_file'' [] (Some ''config.yaml'')]
    | Bad_config \<Rightarrow> [find_error ''config_invalid'' [] (Some ''config.yaml'')]
    | Config raw \<Rightarrow>
       (let sizing = jget raw ''sizing''; costs = jget raw ''estimated_costs'' in
        map (\<lambda>k. find_warning ''unknown_config_key'' k (Some ''config.yaml''))
          (sort (filter (\<lambda>k. k \<notin> set CONFIG_KEYS) (map fst (jitems raw)))) @
        sizing_findings declared sizing @
        (if costs = JNull then [find_warning ''no_estimated_costs'' [] (Some ''config.yaml'')]
         else if \<not> valid_costs costs then [find_error ''invalid_estimated_costs'' [] (Some ''config.yaml'')]
         else if is_dict costs \<and> valid_sizing sizing \<and> jitems sizing \<noteq> [] then cost_findings raw costs sizing else [])))"

section \<open>State, safety, nested modules\<close>

text \<open>\<^verbatim>\<open>uses_azurerm_backend\<close>, whose error on a file that does not parse is suppressed.\<close>

fun azurerm_backend :: "source_file list \<Rightarrow> bool" where
  "azurerm_backend [] = False"
| "azurerm_backend (Linked # fs) = azurerm_backend fs"
| "azurerm_backend (Parsed doc # fs) =
    (list_ex (\<lambda>block. list_ex (\<lambda>b. jhas b (CHR 0x22 # ''azurerm'' @ [CHR 0x22]) \<or> jhas b ''azurerm'') (jlist (jget block ''backend'')))
       (jlist (jget doc ''terraform'')) \<or> azurerm_backend fs)"
| "azurerm_backend (Unreadable # fs) = False"
| "azurerm_backend (Unparsed # fs) = False"

definition backends :: "(string \<times> json) list \<Rightarrow> (string \<times> string \<times> json) list" where
  "backends docs = concat (map (\<lambda>(f, block). concat (map (\<lambda>b. map (\<lambda>(k, body). (f, strip_quotes k, body)) (unmarked (jitems b)))
     (jlist (jget block ''backend'')))) (terraform_blocks docs))"

text \<open>\<^verbatim>\<open>_state\<close>.\<close>

definition state_findings :: "(string \<times> json) list \<Rightarrow> source_file list \<Rightarrow> pattern_finding list" where
  "state_findings docs listing =
    (if backends docs = [] then [find_warning ''local_state'' [] None]
     else concat (map (\<lambda>(f, kind, body).
       if kind = ''azurerm'' \<and> azurerm_backend listing
       then find_info ''platform_backend'' [] (Some f) #
            map (\<lambda>k. find_error ''hardcoded_backend'' k (Some f))
              (filter (jhas body) [''storage_account_name'', ''container_name'', ''key'', ''resource_group_name''])
       else [find_warning ''self_configured_backend'' kind (Some f)]) (backends docs)))"

definition derived_from :: "json \<Rightarrow> string \<Rightarrow> string list" where
  "derived_from body meta = filter (refs (jget body meta)) PLACEMENT_VARIABLES"

definition address_findings :: "string \<Rightarrow> string \<Rightarrow> json \<Rightarrow> pattern_finding list" where
  "address_findings f label body = map (\<lambda>meta. find_warning ''placement_in_address'' (label @ '' '' @ meta) (Some f))
     (filter (\<lambda>meta. derived_from body meta \<noteq> []) [''for_each'', ''count''])"

text \<open>\<^verbatim>\<open>_safety\<close>: one named block of a resource or data source.\<close>

definition provisioners :: "json \<Rightarrow> string list" where
  "provisioners body = concat (map (\<lambda>entry. map (\<lambda>kv. strip_quotes (fst kv)) (unmarked (jitems entry))) (jlist (jget body ''provisioner'')))"

definition named_findings :: "string \<Rightarrow> string \<Rightarrow> string \<Rightarrow> string \<Rightarrow> json \<Rightarrow> pattern_finding list" where
  "named_findings kind f ty n body =
    (let label = ty @ ''.'' @ n in
     map (\<lambda>w. find_warning ''remote_code'' (label @ '' '' @ w) (Some f)) (provisioners body) @
     (if kind = ''data'' \<and> ty \<in> {''external'', ''http''} then [find_warning ''remote_code'' (''data.'' @ label) (Some f)] else []) @
     (if kind = ''resource'' \<and> is_dict body then address_findings f label body else []))"

definition safety_findings :: "(string \<times> json) list \<Rightarrow> pattern_finding list" where
  "safety_findings docs =
    concat (map (\<lambda>kind. concat (map (\<lambda>(f, ty, rest). concat (map (\<lambda>(n, body).
        named_findings kind f (strip_quotes ty) (strip_quotes n) body) (unmarked (jitems rest)))) (all_blocks docs kind)))
      [''resource'', ''data'']) @
    concat (map (\<lambda>(f, n, body). address_findings f (''module.'' @ strip_quotes n) body) (all_blocks docs ''module''))"

text \<open>\<^verbatim>\<open>_nested\<close>: the findings of its own, and those its parsing leaves.\<close>

definition nested_findings :: "(string \<times> source_file) list \<Rightarrow> pattern_finding list" where
  "nested_findings fs = map (\<lambda>(n, doc). find_info ''nested_module_variables'' [] (Some n))
     (filter (\<lambda>(n, doc). truthy (jget doc ''variable'')) (documents fs))"

definition add_missing :: "pattern_finding list \<Rightarrow> pattern_finding list \<Rightarrow> pattern_finding list" where
  "add_missing out fs = fold (\<lambda>f out. if f \<in> set out then out else out @ [f]) fs out"

section \<open>The check\<close>

text \<open>\<^verbatim>\<open>_terraform_validate\<close>, of what the two commands gave: the texts of its diagnostics.\<close>

datatype validation = No_terraform | Init_failed string | Unreadable_report string | Report json

definition validate_findings :: "validation \<Rightarrow> pattern_finding list" where
  "validate_findings r = (case r of
      No_terraform \<Rightarrow> [find_warning ''terraform_unavailable'' [] None]
    | Init_failed out \<Rightarrow> [find_error ''terraform_init'' out None]
    | Unreadable_report out \<Rightarrow> [find_error ''terraform_validate'' out None]
    | Report j \<Rightarrow> map (\<lambda>d. (if jget d ''severity'' = JStr ''error'' then find_error else find_warning) ''terraform_validate''
          (or_empty (jstr (jget d ''summary''))) (jstr (jget (jget d ''range'') ''filename''))) (jlist (jget j ''diagnostics'')))"

definition has_content :: "(string \<times> json) list \<Rightarrow> bool" where
  "has_content docs = list_ex (\<lambda>(f, doc). truthy (jget doc ''resource'') \<or> truthy (jget doc ''module'')) docs"

definition root_findings :: "ext \<Rightarrow> pattern_dir \<Rightarrow> (string \<times> json) list \<Rightarrow> string option \<Rightarrow> string \<Rightarrow> pattern_finding list" where
  "root_findings x d docs cloud platform =
    (let ns = map v_name (module_variables x docs);
         declared = declared_providers docs; used = used_providers docs;
         target = (if or_empty cloud \<noteq> [] then cloud else infer_cloud declared used)
     in terraform_findings docs platform @ input_findings x docs @
        map (\<lambda>n. find_warning ''undeclared_provider'' n None) (sort (remdups (filter (\<lambda>n. n \<notin> set declared) used))) @
        (if has_content docs then [] else [find_error ''no_resources'' [] None]) @
        (case target of None \<Rightarrow> [] | Some c \<Rightarrow> injection_findings docs ns c (cloud = None)) @
        output_findings docs @ config_findings ns (pd_config d) @
        state_findings docs (pd_listing d) @ safety_findings docs)"

text \<open>\<^verbatim>\<open>check\<close>; \<open>None\<close> for \<^verbatim>\<open>terraform=False\<close>.\<close>

definition check_pattern :: "ext \<Rightarrow> pattern_dir \<Rightarrow> string option \<Rightarrow> string \<Rightarrow> validation option \<Rightarrow> pattern_finding list" where
  "check_pattern x d cloud platform terraform =
    (let docs = documents (pd_files d);
         parsing = concat (map file_finding (pd_files d));
         rules = (if docs \<noteq> [] then root_findings x d docs cloud platform
                  else if parsing = [] then [find_error ''no_resources'' [] None] else []);
         out = add_missing (parsing @ rules @ nested_findings (pd_nested d))
                 (parsing @ concat (map file_finding (pd_nested d)))
     in case terraform of
          None \<Rightarrow> out
        | Some r \<Rightarrow> (if list_ex (\<lambda>f. pf_code f = ''hcl_parse'') out then out else out @ validate_findings r))"

text \<open>\<^verbatim>\<open>_counts\<close> and the exit code.\<close>

definition finding_counts :: "pattern_finding list \<Rightarrow> nat \<times> nat" where
  "finding_counts fs = (length (filter (\<lambda>f. pf_severity f = Is_error) fs), length (filter (\<lambda>f. pf_severity f = Is_warning) fs))"

definition exit_code :: "pattern_finding list \<Rightarrow> nat" where
  "exit_code fs = (if fst (finding_counts fs) \<noteq> 0 then 1 else 0)"

section \<open>Catalog entries\<close>

text \<open>What lies at the source of an entry: whether the directory of a local pattern holds a \<^verbatim>\<open>.tf\<close> file, and whether the
  sub-directory of a fetched commit does (the fetch may fail).\<close>

record sources =
  so_local :: "pattern \<Rightarrow> bool"
  so_fetch :: "pattern \<Rightarrow> string \<Rightarrow> err + bool"

definition entry_error :: "string \<Rightarrow> string \<Rightarrow> pattern_finding" where
  "entry_error c n = find_error c n (Some n)"

definition unknown_entry_keys :: "json \<Rightarrow> string list" where
  "unknown_entry_keys spec = filter (\<lambda>k. k \<notin> set entry_keys) (keys_of spec)"

definition bad_cloud :: "json \<Rightarrow> bool" where
  "bad_cloud spec \<longleftrightarrow> jget spec ''cloud'' \<notin> {JNull, JStr ''azure'', JStr ''aws'', JStr ''gcp''}"

text \<open>What \<^verbatim>\<open>ls-remote\<close> lists.\<close>

definition listed_tags :: "string list \<Rightarrow> string list" where
  "listed_tags listing = map (\<lambda>line. case split_on (CHR 0x09) line of
     sha # ref # rest \<Rightarrow> removesuffix ''^{}'' (removeprefix ''refs/tags/'' ref) | _ \<Rightarrow> []) listing"

text \<open>The part of \<^verbatim>\<open>check_catalog\<close> for a repository: a \<open>CatalogError\<close> is a finding.\<close>

definition repository_findings :: "ext \<Rightarrow> sources \<Rightarrow> string \<Rightarrow> pattern \<Rightarrow> err + pattern_finding list" where
  "repository_findings x so n p =
    (case sbind (versions x p) (\<lambda>tags. sbind (x_tags x (git_url p)) (\<lambda>listing. Inr (tags, listing))) of
       Inl e \<Rightarrow> (if e = CatalogError then Inr [entry_error ''repo_unreachable'' n] else Inl e)
     | Inr (tags, listing) \<Rightarrow>
        (let ignored = sort (remdups (filter (\<lambda>t. t \<notin> fst ` set tags) (listed_tags listing)));
             notes = (if ignored = [] then [] else [find_info ''non_semver_tags'' n (Some n)])
         in if tags = [] then Inr (notes @ [entry_error ''no_versions'' n])
            else let default = (if or_empty (pt_default_version p) \<noteq> [] then or_empty (pt_default_version p) else fst (hd tags))
                 in case map_of tags default of
                      None \<Rightarrow> Inr (notes @ [entry_error ''default_version_missing'' n])
                    | Some commit \<Rightarrow>
                       (case so_fetch so p commit of
                          Inl e \<Rightarrow> (if e = CatalogError then Inr (notes @ [entry_error ''repo_unreachable'' n]) else Inl e)
                        | Inr found \<Rightarrow> Inr (notes @ (if found then [] else [entry_error ''path_missing'' n])))))"

definition entry_findings :: "ext \<Rightarrow> sources \<Rightarrow> string \<times> json \<Rightarrow> err + pattern_finding list" where
  "entry_findings x so e = (case e of (n, spec) \<Rightarrow>
     if \<not> is_dict spec then Inr [entry_error ''catalog_entry'' n]
     else let shape_errors = (if unknown_entry_keys spec \<noteq> [] then [entry_error ''unknown_catalog_key'' n] else []) @
                             (if bad_cloud spec then [entry_error ''invalid_cloud'' n] else []);
              here = truthy (jget spec ''local''); repo = truthy (jget spec ''repo'')
          in if here \<and> repo then Inr (shape_errors @ [entry_error ''local_and_repo'' n])
             else if \<not> here \<and> \<not> repo then Inr (shape_errors @ [entry_error ''no_source'' n])
             else if shape_errors \<noteq> [] then Inr shape_errors
             else sbind (catalog_entry n spec) (\<lambda>p.
               if is_local p then Inr (if so_local so p then [] else [entry_error ''path_missing'' n])
               else repository_findings x so n p))"

text \<open>\<^verbatim>\<open>check_catalog\<close>; \<open>None\<close> for a file that is no YAML.\<close>

definition check_catalog :: "ext \<Rightarrow> sources \<Rightarrow> json option \<Rightarrow> err + pattern_finding list" where
  "check_catalog x so file = (case file of
      None \<Rightarrow> Inr [find_error ''catalog_unreadable'' [] None]
    | Some raw \<Rightarrow>
       (if \<not> is_dict (jget raw ''patterns'') then Inr [find_error ''catalog_shape'' [] None]
        else sbind (smap (entry_findings x so) (jitems (jget raw ''patterns''))) (\<lambda>fs. Inr (concat fs))))"

end
