(* ===== verification/PatternCheckProperties.thy ===== *)
theory PatternCheckProperties
  imports PatternCheck PolicyProperties
begin

text \<open>
  What the linter of patterns promises: version constraints mean what Terraform says, and a pattern it passes is one the
  API takes, with inputs it can fill and sizes it can price.
\<close>

section \<open>Texts of numbers\<close>

lemma digit_char_simps: "n < 10 \<Longrightarrow> is_digit (digit_char n) \<and> (of_char (digit_char n) :: nat) = 48 + n"
  by (simp add: is_digit_def less_eq_char_def)

lemma nat_str_cases: "n < 10 \<Longrightarrow> nat_str n = [digit_char n]"
  "\<not> n < 10 \<Longrightarrow> nat_str n = nat_str (n div 10) @ [digit_char (n mod 10)]"
  by (simp_all add: nat_str.simps [of n])

lemma nat_str_digits: "list_all is_digit (nat_str n) \<and> nat_str n \<noteq> []"
proof (induction n rule: nat_str.induct)
  case (1 n)
  then show ?case using digit_char_simps [of n] digit_char_simps [of "n mod 10"]
    by (cases "n < 10") (simp_all add: nat_str_cases del: digit_char.simps)
qed

lemma nat_str_chars: "c \<in> set (nat_str n) \<Longrightarrow> is_digit c" "nat_str n \<noteq> []" "is_digit (hd (nat_str n))" "is_digit (last (nat_str n))"
  using nat_str_digits [of n] by (auto simp: list_all_iff)

lemma decimal_nat_str: "decimal (nat_str n) = n"
proof (induction n rule: nat_str.induct)
  case (1 n)
  show ?case
  proof (cases "n < 10")
    case True
    then show ?thesis using digit_char_simps [of n] by (simp add: nat_str_cases decimal_def del: digit_char.simps)
  next
    case False
    then have "decimal (nat_str (n div 10)) = n div 10" using 1 by simp
    then show ?thesis using False digit_char_simps [of "n mod 10"]
      by (simp add: nat_str_cases decimal_def del: digit_char.simps)
  qed
qed

lemma digit_class: "is_digit c \<Longrightarrow> \<not> is_space c \<and> c \<noteq> CHR ''v'' \<and> c \<noteq> CHR ''.'' \<and> c \<noteq> CHR ''-'' \<and> c \<noteq> CHR '',''"
  by (auto simp: is_digit_def is_space_def less_eq_char_def Let_def)

definition version_text :: "nat list \<Rightarrow> string" where
  "version_text ns = join ''.'' (map nat_str ns)"

definition one_to_three :: "nat list \<Rightarrow> bool" where
  "one_to_three ns \<longleftrightarrow> length ns \<in> {1, 2, 3}"

lemma one_to_three_cases:
  assumes "one_to_three ns"
  obtains a where "ns = [a]" | a b where "ns = [a, b]" | a b c where "ns = [a, b, c]"
  using assms by (auto simp: one_to_three_def length_Suc_conv numeral_2_eq_2 numeral_3_eq_3)

lemma version_chars:
  assumes "one_to_three ns" "c \<in> set (version_text ns)"
  shows "is_digit c \<or> c = CHR ''.''"
  using assms by (cases rule: one_to_three_cases [OF assms(1)]) (auto simp: version_text_def dest: nat_str_chars(1))

lemma version_hd:
  assumes "one_to_three ns"
  shows "version_text ns \<noteq> [] \<and> is_digit (hd (version_text ns)) \<and> is_digit (last (version_text ns))"
  using assms by (cases rule: one_to_three_cases) (auto simp: version_text_def nat_str_chars)

lemma strip_id: "s \<noteq> [] \<Longrightarrow> \<not> is_space (hd s) \<Longrightarrow> \<not> is_space (last s) \<Longrightarrow> strip s = s"
  using dropWhile_eq_self_iff [of is_space s] dropWhile_eq_self_iff [of is_space "rev s"] by (simp add: strip_def hd_rev)

lemma strip_space: "strip (CHR '' '' # s) = strip s"
  by (simp add: strip_def is_space_def)

lemma removeprefix_v: "s \<noteq> [] \<Longrightarrow> is_digit (hd s) \<Longrightarrow> removeprefix ''v'' s = s"
  using digit_class [of "hd s"] by (cases s) (auto simp: removeprefix_def has_prefix_def)

lemma version_stripped: "one_to_three ns \<Longrightarrow> removeprefix ''v'' (strip (version_text ns)) = version_text ns"
  using version_hd [of ns] digit_class by (simp add: strip_id removeprefix_v)

lemma digits_span: "takeWhile is_digit (nat_str n @ r) = nat_str n @ takeWhile is_digit r"
  "dropWhile is_digit (nat_str n @ r) = dropWhile is_digit r"
  using nat_str_digits [of n] by (simp_all add: list_all_iff takeWhile_append2 dropWhile_append2)

lemma dot_no_digit: "\<not> is_digit (CHR ''.'')" by (simp add: is_digit_def less_eq_char_def)

lemma digits_alone: "takeWhile is_digit (nat_str n) = nat_str n" "dropWhile is_digit (nat_str n) = []"
  using digits_span [of n "[]"] by simp_all

lemma dotted_next: "dotted_number (CHR ''.'' # nat_str n @ CHR ''.'' # r) = (n, CHR ''.'' # r)"
  "dotted_number (CHR ''.'' # nat_str n) = (n, [])" "dotted_number [] = (0, [])"
  using nat_str_digits [of n]
  by (simp_all add: dotted_number_def digits_span digits_alone dot_no_digit decimal_nat_str)

lemma version_tuple_text:
  assumes "one_to_three ns"
  shows "version_tuple (version_text ns) = Some (ns @ replicate (3 - length ns) 0)"
  using assms
proof (cases rule: one_to_three_cases)
  case (1 a)
  have "removeprefix ''v'' (strip (nat_str a)) = nat_str a" using version_stripped [OF assms] 1 by (simp add: version_text_def)
  then show ?thesis using nat_str_digits [of a] unfolding 1
    by (simp add: version_tuple_def version_text_def digits_alone dotted_next decimal_nat_str numeral_2_eq_2)
next
  case (2 a b)
  have "removeprefix ''v'' (strip (nat_str a @ CHR ''.'' # nat_str b)) = nat_str a @ CHR ''.'' # nat_str b"
    using version_stripped [OF assms] 2 by (simp add: version_text_def)
  then show ?thesis using nat_str_digits [of a] unfolding 2
    by (simp add: version_tuple_def version_text_def digits_span dot_no_digit dotted_next decimal_nat_str)
next
  case (3 a b c)
  have "removeprefix ''v'' (strip (nat_str a @ CHR ''.'' # nat_str b @ CHR ''.'' # nat_str c)) =
      nat_str a @ CHR ''.'' # nat_str b @ CHR ''.'' # nat_str c"
    using version_stripped [OF assms] 3 by (simp add: version_text_def)
  then show ?thesis using nat_str_digits [of a] unfolding 3
    by (simp add: version_tuple_def version_text_def digits_span dot_no_digit dotted_next decimal_nat_str)
qed

section \<open>Constraints\<close>

text \<open>What Terraform documents of a constraint; \<^verbatim>\<open>~>\<close> lets only the rightmost number given grow (a single one counts
  as the major version).\<close>

definition meaning :: "string \<Rightarrow> nat list \<Rightarrow> nat list \<Rightarrow> bool" where
  "meaning opr ns target =
    (let least = ns @ replicate (3 - length ns) 0; kept = max 1 (length ns - 1) in
     if opr = ''~>'' then least \<le> target \<and> take kept target = take kept ns
     else if opr = ''='' then target = least else if opr = ''!='' then target \<noteq> least
     else if opr = ''>='' then least \<le> target else if opr = ''<='' then target \<le> least
     else if opr = ''>'' then least < target else target < least)"

definition constraint_text :: "string \<times> nat list \<Rightarrow> string" where
  "constraint_text c = fst c @ '' '' @ version_text (snd c)"

lemma split_on_absent: "d \<notin> set s \<Longrightarrow> split_on d s = [s]"
  by (induction s) auto

lemma split_on_next: "d \<notin> set s \<Longrightarrow> split_on d (s @ d # r) = s # split_on d r"
  by (induction s) auto

lemma split_on_nonempty: "split_on d s \<noteq> []"
  by (induction s) (auto split: list.split)

lemma given_text:
  assumes "one_to_three ns"
  shows "given_numbers (version_text ns) = length ns"
proof -
  have "CHR ''-'' \<notin> set (version_text ns)" using version_chars [OF assms] digit_class by fastforce
  then have "given_numbers (version_text ns) = length (split_on (CHR ''.'') (version_text ns))"
    by (simp add: given_numbers_def version_stripped [OF assms] split_on_absent)
  moreover have "CHR ''.'' \<notin> set (nat_str n)" for n using nat_str_chars(1) dot_no_digit by blast
  ultimately show ?thesis
    by (cases rule: one_to_three_cases [OF assms]) (simp_all add: version_text_def split_on_absent split_on_next)
qed

lemma operator_split: "opr \<in> set constraint_operators \<Longrightarrow> split_operator (opr @ '' '' @ r) = (opr, CHR '' '' # r)"
  by (auto simp: constraint_operators_def split_operator_def has_prefix_def)

lemma upper_bounds:
  "upper_bound 1 [a, b, c] = [a + 1, 0, 0]" "upper_bound 2 [a, b, c] = [a + 1, 0, 0]" "upper_bound 3 [a, b, c] = [a, b + 1, 0]"
  by (simp_all add: upper_bound_def numeral_2_eq_2 numeral_3_eq_3)

lemma pessimistic:
  "[a, b, c] \<le> [x, y, z :: nat] \<and> [x, y, z] < [a + 1, 0, 0] \<longleftrightarrow> [a, b, c] \<le> [x, y, z] \<and> x = a"
  "[a, b, c] \<le> [x, y, z :: nat] \<and> [x, y, z] < [a, b + 1, 0] \<longleftrightarrow> [a, b, c] \<le> [x, y, z] \<and> x = a \<and> y = b"
  by auto

lemma padded: "[a] @ replicate (3 - length [a]) (0 :: nat) = [a, 0, 0]" "[a, b] @ replicate (3 - length [a, b]) (0 :: nat) = [a, b, 0]"
  "[a, b, c] @ replicate (3 - length [a, b, c]) (0 :: nat) = [a, b, c]"
  by (simp_all add: numeral_2_eq_2)

lemma admits_meaning:
  assumes "one_to_three ns"
  shows "admits opr (length ns) (ns @ replicate (3 - length ns) 0) [x, y, z] = meaning opr ns [x, y, z]"
proof (cases "opr = ''~>''")
  case True
  show ?thesis using assms
  proof (cases rule: one_to_three_cases)
    case (1 a)
    show ?thesis using upper_bounds(1) [of a 0 0] pessimistic(1) [of a 0 0 x y z] unfolding True 1 admits_def meaning_def padded Let_def
      by simp
  next
    case (2 a b)
    show ?thesis using upper_bounds(2) [of a b 0] pessimistic(1) [of a b 0 x y z] unfolding True 2 admits_def meaning_def padded Let_def
      by (simp add: numeral_2_eq_2)
  next
    case (3 a b c)
    show ?thesis using upper_bounds(3) [of a b c] pessimistic(2) [of a b c x y z] unfolding True 3 admits_def meaning_def padded Let_def
      by (simp add: numeral_2_eq_2 numeral_3_eq_3)
  qed
next
  case False
  then show ?thesis by (simp only: admits_def meaning_def Let_def if_False)
qed

lemma version_tuple_space: "version_tuple (CHR '' '' # s) = version_tuple s" "given_numbers (CHR '' '' # s) = given_numbers s"
  by (simp_all add: version_tuple_def given_numbers_def strip_space)

definition readable :: "string \<times> nat list \<Rightarrow> bool" where
  "readable c \<longleftrightarrow> fst c \<in> set constraint_operators \<and> one_to_three (snd c)"

lemma allows_all_meaning:
  "list_all readable cs \<Longrightarrow>
     allows_all [x, y, z] (map constraint_text cs) = Some (\<forall>c \<in> set cs. meaning (fst c) (snd c) [x, y, z])"
proof (induction cs)
  case (Cons c cs)
  then have r: "fst c \<in> set constraint_operators" "one_to_three (snd c)" by (simp_all add: readable_def)
  show ?case using Cons
    by (simp add: constraint_text_def operator_split [OF r(1), simplified] version_tuple_space version_tuple_text [OF r(2)]
        given_text [OF r(2)] admits_meaning [OF r(2)])
qed simp

lemma constraint_clear:
  assumes "readable c"
  shows "CHR '','' \<notin> set (constraint_text c) \<and> strip (constraint_text c) = constraint_text c"
proof -
  have o: "fst c \<in> set constraint_operators" and n: "one_to_three (snd c)" using assms by (simp_all add: readable_def)
  have "CHR '','' \<notin> set (version_text (snd c))" using version_chars [OF n] digit_class by fastforce
  moreover have "CHR '','' \<notin> set (fst c)" using o by (auto simp: constraint_operators_def)
  moreover have "fst c \<noteq> [] \<and> \<not> is_space (hd (fst c))" using o by (auto simp: constraint_operators_def is_space_def)
  ultimately show ?thesis using version_hd [OF n] digit_class
    by (auto simp: constraint_text_def intro!: strip_id)
qed

lemma split_joined:
  "cs \<noteq> [] \<Longrightarrow> list_all readable cs \<Longrightarrow>
     map strip (split_on (CHR '','') (join '', '' (map constraint_text cs))) = map constraint_text cs"
proof (induction cs rule: induct_list012)
  case (2 c)
  then show ?case using constraint_clear [of c] by (simp add: split_on_absent)
next
  case (3 c c' cs)
  have "map strip (split_on (CHR '','') (CHR '' '' # s)) = map strip (split_on (CHR '','') s)" for s
    using split_on_nonempty [of "CHR '',''" s] by (auto simp: strip_space split: list.split)
  then show ?case using 3 constraint_clear [of c] by (simp add: split_on_next)
qed simp

text \<open>C32. A version constraint means what it says. For every conjunction of constraints (\<^verbatim>\<open>=\<close>, \<^verbatim>\<open>!=\<close>, \<^verbatim>\<open>>=\<close>, \<^verbatim>\<open><=\<close>, \<^verbatim>\<open>>\<close>,
  \<^verbatim>\<open><\<close>, \<^verbatim>\<open>~>\<close> with one, two or three numbers) written with commas, \<^verbatim>\<open>allows\<close> reads it and answers, of a release, whether
  all of them hold.\<close>

theorem constraint_meaning:
  assumes "cs \<noteq> []" "list_all readable cs"
  shows "allows (join '', '' (map constraint_text cs)) (version_text [x, y, z]) =
    Some (\<forall>c \<in> set cs. meaning (fst c) (snd c) [x, y, z])"
proof -
  have "version_tuple (version_text [x, y, z]) = Some [x, y, z]"
    using version_tuple_text [of "[x, y, z]"] by (simp add: one_to_three_def)
  then show ?thesis using split_joined [OF assms] allows_all_meaning [OF assms(2)] by (simp add: allows_def)
qed

theorem constraint_meaning_witness:
  "allows (join '', '' (map constraint_text [(''>='', [1, 5]), (''~>'', [1, 15, 0])])) (version_text [1, 16, 5]) = Some False"
proof -
  have r: "list_all readable [(''>='', [1, 5]), (''~>'', [1, 15, 0])]"
    by (simp add: readable_def constraint_operators_def one_to_three_def)
  show ?thesis using constraint_meaning [OF _ r, of 1 16 5] by (simp add: meaning_def)
qed

section \<open>A pattern that passes\<close>

lemma exit_zero: "exit_code fs = 0 \<longleftrightarrow> (\<forall>f \<in> set fs. pf_severity f \<noteq> Is_error)"
  by (auto simp: exit_code_def finding_counts_def filter_empty_conv)

lemma add_missing_set: "set (add_missing out fs) = set out \<union> set fs"
proof -
  have "set (fold (\<lambda>f out. if f \<in> set out then out else out @ [f]) fs out) = set out \<union> set fs"
    by (induction fs arbitrary: out) auto
  then show ?thesis by (simp add: add_missing_def)
qed

lemma check_contains:
  assumes "documents (pd_files d) \<noteq> []"
  shows "set (root_findings x d (documents (pd_files d)) cloud platform) \<subseteq> set (check_pattern x d cloud platform terraform)"
  using assms by (auto simp: check_pattern_def Let_def add_missing_set split: option.split)

lemma root_contains:
  "set (input_findings x docs) \<subseteq> set (root_findings x d docs cloud platform)"
  "set (config_findings (map v_name (module_variables x docs)) (pd_config d)) \<subseteq> set (root_findings x d docs cloud platform)"
  unfolding root_findings_def Let_def set_append by blast+

lemma root_contains_target:
  assumes "c \<noteq> []"
  shows "set (injection_findings docs (map v_name (module_variables x docs)) c False) \<subseteq> set (root_findings x d docs (Some c) platform)"
proof -
  have "(if or_empty (Some c) \<noteq> [] then Some c else t) = Some c" for t using assms by (simp add: or_empty_def)
  then show ?thesis unfolding root_findings_def Let_def set_append by (simp only: option.case option.simps) blast
qed

lemma check_documents:
  assumes "exit_code (check_pattern x d cloud platform terraform) = 0"
  shows "documents (pd_files d) \<noteq> []"
proof
  assume e: "documents (pd_files d) = []"
  let ?parsing = "concat (map file_finding (pd_files d))"
  have sub: "set ?parsing \<union> (if ?parsing = [] then {find_error ''no_resources'' [] None} else {})
      \<subseteq> set (check_pattern x d cloud platform terraform)"
    using e by (auto simp: check_pattern_def Let_def add_missing_set split: option.split)
  show False
  proof (cases "pd_files d")
    case Nil
    then have "find_error ''no_resources'' [] None \<in> set (check_pattern x d cloud platform terraform)" using sub by simp
    then show False using assms by (auto simp: exit_zero find_error_def)
  next
    case (Cons nf fs)
    obtain n f where nf: "nf = (n, f)" by fastforce
    have "\<exists>g \<in> set ?parsing. pf_severity g = Is_error"
      using e by (cases f) (auto simp: Cons nf documents_def List.map_filter_simps find_error_def)
    then show False using sub assms by (auto simp: exit_zero)
  qed
qed

lemma passed_inputs:
  assumes "exit_code (check_pattern x d cloud platform terraform) = 0" "v \<in> set (module_variables x (documents (pd_files d)))"
  shows "\<not> v_sensitive v"
proof
  assume "v_sensitive v"
  then have "find_error ''sensitive_input'' (v_name v) (file_of_variable (documents (pd_files d)) (v_name v)) \<in>
      set (input_findings x (documents (pd_files d)))"
    using assms(2) by (auto simp: input_findings_def variable_findings_def intro!: bexI [of _ v])
  then have "find_error ''sensitive_input'' (v_name v) (file_of_variable (documents (pd_files d)) (v_name v)) \<in>
      set (check_pattern x d cloud platform terraform)"
    using root_contains(1) check_contains [OF check_documents [OF assms(1)]] by blast
  then show False using assms(1) by (auto simp: exit_zero find_error_def)
qed

lemma passed_target:
  assumes "exit_code (check_pattern x d (Some cloud) platform terraform) = 0" "identifiers cloud = Some ident"
  shows "{ident, ''region''} \<subseteq> v_name ` set (module_variables x (documents (pd_files d)))"
proof (rule ccontr)
  let ?ns = "map v_name (module_variables x (documents (pd_files d)))"
  let ?missing = "filter (\<lambda>n. n \<notin> set ?ns) [ident, ''region'']"
  assume "\<not> {ident, ''region''} \<subseteq> v_name ` set (module_variables x (documents (pd_files d)))"
  then have m: "?missing \<noteq> []" by auto
  have c: "cloud \<noteq> []" using assms(2) by (auto simp: identifiers_def)
  obtain pr attr where pa: "cloud_provider cloud = (pr, attr)" by fastforce
  have "find_error ''missing_target_inputs'' (join '', '' ?missing) None \<in>
      set (injection_findings (documents (pd_files d)) ?ns cloud False)"
    using m unfolding injection_findings_def Let_def assms(2) or_empty_def pa option.case prod.case set_append by simp
  then have "find_error ''missing_target_inputs'' (join '', '' ?missing) None \<in> set (check_pattern x d (Some cloud) platform terraform)"
    using root_contains_target [OF c] check_contains [OF check_documents [OF assms(1)]] by blast
  then show False using assms(1) by (auto simp: exit_zero find_error_def)
qed

lemma target_shape:
  assumes "select_target pl (Some c) = Inr t"
  shows "\<exists>ident j kvs. identifiers c = Some ident \<and> well_formed_target ident j = Some kvs \<and> t = Some kvs"
proof -
  obtain j where j: "map_of (env_targets (pl_environment pl)) c = Some j"
    using assms by (cases "map_of (env_targets (pl_environment pl)) c") (simp_all add: select_target_def)
  obtain ident where i: "identifiers c = Some ident"
    using assms by (cases "identifiers c") (simp_all add: select_target_def j)
  obtain kvs where k: "well_formed_target ident j = Some kvs"
    using assms by (cases "well_formed_target ident j") (simp_all add: select_target_def j i)
  have "t = Some kvs" using assms by (simp add: select_target_def j i k)
  then show ?thesis using i k by blast
qed

lemma target_keys:
  assumes "well_formed_target ident j = Some kvs"
  shows "set (map fst kvs) = {ident, ''region''}"
proof -
  obtain xs where x: "j = JObj xs" using assms by (cases j) (simp_all add: well_formed_target_def)
  have k: "set (map fst xs) = {ident, ''region''}" "kvs = map (\<lambda>kv. (fst kv, the (target_text (snd kv)))) xs"
    using assms unfolding well_formed_target_def x json.case by (metis option.distinct(1), metis option.distinct(1) option.inject)
  show ?thesis unfolding k(2) using k(1) by (simp add: comp_def)
qed

text \<open>C29. A pattern that passes can be placed. When the check of a module for a cloud exits with 0, the API reads its
  variables, none of them is sensitive (which it would refuse), and whatever target an environment has for that cloud is
  one the API can inject: it never answers that the pattern does not declare the platform's inputs.\<close>

theorem checked_pattern_can_be_placed:
  assumes "exit_code (check_pattern x d (Some cloud) platform terraform) = 0"
    "x_documents x r = Inr (map snd (documents (pd_files d)))" "select_target pl (Some cloud) = Inr target"
  shows "\<exists>vars. variables x r = Inr vars \<and> list_all (\<lambda>v. \<not> v_sensitive v) vars \<and> (\<exists>w. inject_target vars target = Inr w)"
proof -
  let ?vars = "module_variables x (documents (pd_files d))"
  obtain ident t kvs where t: "identifiers cloud = Some ident" "well_formed_target ident t = Some kvs" "target = Some kvs"
    using target_shape [OF assms(3)] by blast
  have "set (map fst kvs) = {ident, ''region''}" by (rule target_keys [OF t(2)])
  then have "list_all (\<lambda>kv. fst kv \<in> set (map v_name ?vars)) kvs"
    using passed_target [OF assms(1) t(1)] by (auto simp: list_all_iff)
  then have "\<exists>w. inject_target ?vars target = Inr w" by (simp add: inject_target_def t(3))
  moreover have "variables x r = Inr ?vars" by (simp add: variables_def assms(2) module_variables_def)
  ultimately show ?thesis using passed_inputs [OF assms(1)] by (auto simp: list_all_iff)
qed

text \<open>A small module for Google Cloud that passes, with one size.\<close>

definition demo_variable :: "string \<Rightarrow> string \<times> json" where
  "demo_variable n = (n, JObj [(''type'', JStr ''string''), (''description'', JStr ''d'')])"

definition demo_module :: json where
  "demo_module = JObj [(''variable'', JList [JObj [demo_variable ''project_id'', demo_variable ''region'']]),
     (''resource'', JList [JObj [(''google_storage_bucket'', JObj [(''this'', JObj [(''location'', JStr ''${var.region}'')])])]])]"

definition demo_raw :: json where
  "demo_raw = JObj [(''sizing'', JObj [(''small'', JObj [(''dev'', JObj [])])]),
     (''estimated_costs'', JObj [(''small'', JObj [(''dev'', JNum 10)])])]"

definition demo_dir :: pattern_dir where
  "demo_dir = \<lparr>pd_files = [(''main.tf'', Parsed demo_module)], pd_listing = [Parsed demo_module], pd_nested = [],
     pd_config = Config demo_raw\<rparr>"

definition module_ext :: ext where
  "module_ext = demo_ext\<lparr>x_documents := (\<lambda>_. Inr [demo_module])\<rparr>"

definition gcp_place :: placement where
  "gcp_place = \<lparr>pl_unit = shop_unit, pl_environment = shop_env\<lparr>env_targets :=
     [(''gcp'', JObj [(''project_id'', JStr ''p1''), (''region'', JStr ''eu'')])]\<rparr>\<rparr>"

lemma demo_passes: "exit_code (check_pattern module_ext demo_dir (Some ''gcp'') ''1.16.5'' None) = 0 \<and>
    list_all (\<lambda>f. pf_code f \<noteq> ''cost_sizing_mismatch'') (check_pattern module_ext demo_dir (Some ''gcp'') ''1.16.5'' None)"
  by code_simp

theorem checked_pattern_can_be_placed_witness:
  "\<exists>vars. variables module_ext shop_version = Inr vars \<and> list_all (\<lambda>v. \<not> v_sensitive v) vars \<and>
     (\<exists>w. inject_target vars (Some [(''project_id'', ''p1''), (''region'', ''eu'')]) = Inr w)"
proof (rule checked_pattern_can_be_placed [OF demo_passes [THEN conjunct1]])
  show "x_documents module_ext shop_version = Inr (map snd (documents (pd_files demo_dir)))"
    by (simp add: module_ext_def documents_def demo_dir_def List.map_filter_simps)
  show "select_target gcp_place (Some ''gcp'') = Inr (Some [(''project_id'', ''p1''), (''region'', ''eu'')])"
    by (simp add: select_target_def gcp_place_def identifiers_def well_formed_target_def blank_def is_space_def Let_def)
qed

section \<open>Sizes and costs\<close>

lemma find_number: "is_number c \<Longrightarrow> c \<in> set cs \<Longrightarrow> \<exists>k. find is_number cs = Some k"
  by (cases "find is_number cs") (auto simp: find_None_iff)

lemma is_cost_number: "is_cost j \<Longrightarrow> is_number j"
  by (simp add: is_cost_def is_number_def split: json.splits)

lemma sizes_priced:
  assumes "valid_costs costs" "jget raw ''estimated_costs'' = costs" "sz \<noteq> []"
    "map_of (jitems sizing) sz = Some envs" "map_of (jitems envs) e = Some v"
    "is_dict costs \<Longrightarrow> \<forall>f \<in> set (cost_findings raw costs sizing). pf_code f \<noteq> ''cost_sizing_mismatch''"
  shows "priced raw e sz"
proof (cases "is_dict costs")
  case False
  then have "is_number costs" using assms(1) is_cost_number by (auto simp: valid_costs_def)
  then obtain c where c: "find is_number [JNull, JNull, costs] = Some c" using find_number [of costs "[JNull, JNull, costs]"] by auto
  then have "\<not> jhas costs sz" using False by (cases costs) (simp_all add: is_dict_def)
  then show ?thesis using False c by (simp add: priced_def estimated_cost_def assms(2) Let_def or_empty_def)
next
  case True
  have sz: "sz \<in> set (keys_of sizing)" using assms(4) by (force simp: keys_of_def dest: map_of_SomeD)
  have g: "jget sizing sz = envs" using assms(4) by (cases sizing) simp_all
  have e: "e \<in> set (keys_of envs)" using assms(5) by (force simp: keys_of_def dest: map_of_SomeD)
  show ?thesis
  proof (rule ccontr)
    assume n: "\<not> priced raw e sz"
    have "mismatch (sz @ ''/'' @ e) \<in> set (cost_findings raw costs sizing)"
    proof (cases "sz \<in> set (dict_sizes costs)")
      case False
      then have "mismatch (sz @ ''/'' @ e) \<in> set (unpriced_sizes raw costs sizing)"
        using sz e n by (auto simp: unpriced_sizes_def g intro!: bexI [of _ sz])
      then show ?thesis by (simp add: cost_findings_def)
    next
      case in_dicts: True
      show ?thesis
      proof (cases "e \<in> set (keys_of (jget costs sz))")
        case False
        then have "mismatch (sz @ ''/'' @ e) \<in> set (uneven_sizes raw costs sizing)"
          using sz e n in_dicts by (auto simp: uneven_sizes_def g Let_def intro!: bexI [of _ sz])
        then show ?thesis by (simp add: cost_findings_def)
      next
        case True
        obtain kvs where kvs: "costs = JObj kvs" using \<open>is_dict costs\<close> by (cases costs) (simp_all add: is_dict_def)
        obtain m where m: "map_of kvs sz = Some m"
          using True kvs by (cases "map_of kvs sz") (auto simp: keys_of_def)
        obtain cs where cs: "m = JObj cs" "map_of cs e \<noteq> None"
          using True kvs m by (cases m) (auto simp: keys_of_def map_of_eq_None_iff)
        then obtain c where c: "map_of cs e = Some c" by auto
        have "\<forall>x \<in> set kvs. case x of (k, v) \<Rightarrow> is_cost v \<or> is_dict v \<and> list_all (\<lambda>(e, c). is_cost c) (jitems v)"
          using assms(1) by (simp add: kvs valid_costs_def is_cost_def [of "JObj kvs"] list_all_iff [of _ kvs])
        then have "is_cost m \<or> is_dict m \<and> list_all (\<lambda>(e, c). is_cost c) (jitems m)"
          using map_of_SomeD [OF m] by (metis (no_types, lifting) case_prod_conv)
        then have "list_all (\<lambda>(e, c). is_cost c) cs" by (simp add: cs(1) is_cost_def)
        then have "is_cost c" using map_of_SomeD [OF c] by (auto simp: list_all_iff)
        then have "is_number c" by (rule is_cost_number)
        then have "priced raw e sz" using m c cs kvs assms(2,3)
          by (simp add: priced_def estimated_cost_def or_empty_def is_dict_def Let_def)
        then show ?thesis using n by simp
      qed
    qed
    then show False using assms(6) True by (auto simp: mismatch_def find_warning_def)
  qed
qed

lemma find_in_set: "find P xs = Some y \<Longrightarrow> P y \<and> y \<in> set xs"
  by (auto simp: find_Some_iff)

lemma cost_valid:
  assumes "valid_costs costs" "jget raw ''estimated_costs'' = costs" "estimated_cost raw e (Some sz) = Inr (Some c)"
  shows "is_cost c"
proof -
  let ?sized = "sz \<noteq> [] \<and> jhas costs sz"
  let ?selected = "if ?sized then jget (jget costs sz) e else JNull" and ?plain = "if is_dict costs then jget costs e else JNull"
  have "estimated_cost raw e (Some sz) = (if ?sized \<and> \<not> is_dict (jget costs sz) then Inl (TenancyError 503)
      else Inr (find is_number [?selected, ?plain, costs]))"
    by (simp add: estimated_cost_def or_empty_def Let_def assms(2) del: find.simps cong: if_cong split del: if_split)
  then have f: "find is_number [?selected, ?plain, costs] = Some c" and d: "?sized \<Longrightarrow> is_dict (jget costs sz)"
    using assms(3) by (metis sum.distinct(1) sum.inject(2))+
  from f have n: "is_number c" and c: "c \<in> {?selected, ?plain, costs}" using find_in_set by fastforce+
  show ?thesis
  proof (cases costs)
    case (JObj kvs)
    have v: "is_cost v \<or> (is_dict v \<and> list_all (\<lambda>(e, c). is_cost c) (jitems v))" if "map_of kvs k = Some v" for k v
      using assms(1) map_of_SomeD [OF that] by (fastforce simp: JObj valid_costs_def is_cost_def [of "JObj kvs"] list_all_iff)
    from c consider "?sized" "c = jget (jget costs sz) e" | "c = jget costs e" | "c = costs" | "c = JNull"
      by (auto split: if_splits)
    then show ?thesis
    proof cases
      case 1
      then obtain v where k: "map_of kvs sz = Some v" by (auto simp: JObj)
      then obtain cs where cs: "v = JObj cs" using d [OF 1(1)] by (cases v) (simp_all add: JObj is_dict_def)
      then have "map_of cs e = Some c" using 1(2) k n by (auto simp: JObj is_number_def split: option.splits)
      then show ?thesis using v [OF k] map_of_SomeD by (fastforce simp: cs is_cost_def [of "JObj cs"] list_all_iff)
    next
      case 2
      then have "map_of kvs e = Some c" using n by (auto simp: JObj is_number_def split: option.splits)
      then show ?thesis using v [of e c] n by (cases c) (simp_all add: is_number_def is_dict_def)
    qed (use n in \<open>simp_all add: JObj is_number_def\<close>)
  qed (use assms(1) c n in \<open>auto simp: valid_costs_def is_dict_def is_number_def split: if_splits\<close>)
qed

text \<open>C30. The sizes of a pattern that estimates costs and passes have a price. When the configuration has
  \<^verbatim>\<open>estimated_costs\<close>, and a check exits with 0 and reports no mismatch of sizes and costs, then every size the
  configuration offers in an environment has an estimated cost there, a number of at least 0 or infinity, never NaN. A pattern
  without \<^verbatim>\<open>estimated_costs\<close> passes with a warning and prices nothing; an infinite cost passes and is refused later.\<close>

theorem checked_sizes_are_priced:
  assumes "exit_code (check_pattern x d cloud platform terraform) = 0"
    "\<forall>f \<in> set (check_pattern x d cloud platform terraform). pf_code f \<noteq> ''cost_sizing_mismatch''"
    "pd_config d = Config raw" "jget raw ''estimated_costs'' \<noteq> JNull" "sz \<noteq> []"
    "map_of (jitems (jget raw ''sizing'')) sz = Some envs" "map_of (jitems envs) e \<noteq> None"
  shows "\<exists>c. estimated_cost raw e (Some sz) = Inr (Some c) \<and>
    ((\<exists>q. c = JNum q \<and> 0 \<le> q) \<or> c = JNonFinite Plus_infinity)"
proof -
  let ?costs = "jget raw ''estimated_costs''" and ?sizing = "jget raw ''sizing''"
  let ?ns = "map v_name (module_variables x (documents (pd_files d)))"
  have sub: "set (config_findings ?ns (pd_config d)) \<subseteq> set (check_pattern x d cloud platform terraform)"
    using root_contains(2) check_contains [OF check_documents [OF assms(1)]] by blast
  have noerr: "f \<notin> set (config_findings ?ns (pd_config d))" if "pf_severity f = Is_error" for f
    using assms(1) sub that by (auto simp: exit_zero)
  have v: "valid_costs ?costs"
    using noerr [of "find_error ''invalid_estimated_costs'' [] (Some ''config.yaml'')"] assms(3,4)
    by (auto simp: config_findings_def find_error_def Let_def split: if_splits)
  have sz: "?sizing \<noteq> JNull" "jitems ?sizing \<noteq> []" using assms(6) by auto
  have vs: "valid_sizing ?sizing"
    using noerr [of "find_error ''invalid_sizing'' [] (Some ''config.yaml'')"] assms(3) sz(1)
    by (auto simp: config_findings_def sizing_findings_def find_error_def Let_def split: if_splits)
  obtain w where e: "map_of (jitems envs) e = Some w" using assms(7) by auto
  have "priced raw e sz"
  proof (rule sizes_priced [OF v refl assms(5,6) e])
    assume "is_dict ?costs"
    then have "set (cost_findings raw ?costs ?sizing) \<subseteq> set (config_findings ?ns (pd_config d))"
      using assms(3,4) v vs sz(2) by (simp add: config_findings_def Let_def) blast
    then show "\<forall>f \<in> set (cost_findings raw ?costs ?sizing). pf_code f \<noteq> ''cost_sizing_mismatch''" using sub assms(2) by blast
  qed
  then obtain c where c: "estimated_cost raw e (Some sz) = Inr (Some c)" by (auto simp: priced_def split: sum.splits option.splits)
  moreover have "is_cost c" using v refl c by (rule cost_valid)
  ultimately show ?thesis by (auto simp: is_cost_def split: json.splits)
qed

theorem checked_sizes_are_priced_witness:
  "\<exists>c. estimated_cost demo_raw ''dev'' (Some ''small'') = Inr (Some c) \<and>
    ((\<exists>q. c = JNum q \<and> 0 \<le> q) \<or> c = JNonFinite Plus_infinity)"
proof (rule checked_sizes_are_priced [OF demo_passes [THEN conjunct1], where envs = "JObj [(''dev'', JObj [])]"])
  show "\<forall>f \<in> set (check_pattern module_ext demo_dir (Some ''gcp'') ''1.16.5'' None). pf_code f \<noteq> ''cost_sizing_mismatch''"
    using demo_passes by (simp add: list_all_iff)
qed (simp_all add: demo_dir_def demo_raw_def)

section \<open>A catalog that passes\<close>

lemma smap_all:
  "smap f xs = Inr ys \<Longrightarrow> v \<in> set xs \<Longrightarrow> \<exists>w. f v = Inr w \<and> w \<in> set ys"
  by (induction xs arbitrary: ys) (auto simp: sbind_Inr_iff)

lemma smap_succeeds: "(\<And>v. v \<in> set xs \<Longrightarrow> \<exists>w. f v = Inr w) \<Longrightarrow> \<exists>ys. smap f xs = Inr ys"
  by (induction xs) force+

lemma bad_entry: "pf_severity (entry_error c n) = Is_error"
  by (simp add: entry_error_def find_error_def)

lemma repository_resolves:
  assumes "repository_findings x so n p = Inr fs" "\<forall>f \<in> set fs. pf_severity f \<noteq> Is_error" "\<not> is_local p"
  shows "\<exists>tags commit. versions x p = Inr tags \<and> tags \<noteq> [] \<and>
    map_of tags (if or_empty (pt_default_version p) \<noteq> [] then or_empty (pt_default_version p) else fst (hd tags)) = Some commit"
proof (cases "versions x p")
  case (Inl e)
  then show ?thesis using assms(1,2) by (auto simp: repository_findings_def bad_entry split: if_splits)
next
  case tags: (Inr tags)
  show ?thesis
  proof (cases "x_tags x (git_url p)")
    case (Inl e)
    then show ?thesis using assms(1,2) tags by (auto simp: repository_findings_def bad_entry split: if_splits)
  next
    case (Inr listing)
    let ?default = "if or_empty (pt_default_version p) \<noteq> [] then or_empty (pt_default_version p) else fst (hd tags)"
    have "tags \<noteq> []" using assms(1,2) tags Inr by (auto simp: repository_findings_def Let_def bad_entry)
    moreover have "map_of tags ?default \<noteq> None"
    proof
      assume "map_of tags ?default = None"
      then have "entry_error ''default_version_missing'' n \<in> set fs"
        using assms(1) \<open>tags \<noteq> []\<close> unfolding repository_findings_def tags Inr sbind.simps sum.case prod.case Let_def
        by (simp only: if_False option.case) auto
      then show False using assms(2) bad_entry by blast
    qed
    ultimately show ?thesis using tags by blast
  qed
qed

lemma entry_passes:
  assumes "entry_findings x so (n, spec) = Inr fs" "\<forall>f \<in> set fs. pf_severity f \<noteq> Is_error"
  shows "\<exists>p. catalog_entry n spec = Inr p \<and> (is_local p \<or> (\<exists>gs. repository_findings x so n p = Inr gs \<and> set gs \<subseteq> set fs))"
  using assms by (auto simp: entry_findings_def Let_def bad_entry sbind_Inr_iff split: if_splits)

lemma loaded_entry:
  assumes "catalog_load x = Inr ps" "map_of (x_catalog x) n = Some spec"
  shows "\<exists>p. catalog_entry n spec = Inr p \<and> map_of ps n = Some p"
proof -
  have "smap (\<lambda>(n, spec). sbind (catalog_entry n spec) (\<lambda>p. Inr (n, p))) es = Inr qs \<Longrightarrow> map_of es n = Some spec \<Longrightarrow>
      \<exists>p. catalog_entry n spec = Inr p \<and> map_of qs n = Some p" for es qs
    by (induction es arbitrary: qs) (auto simp: sbind_Inr_iff split: if_splits)
  then show ?thesis using assms by (auto simp: catalog_load_def)
qed

text \<open>C31. A catalog that passes can be used. When the check of a catalog file ends without an error, the API loads the
  file, and every pattern of it resolves without a version asked for: to itself when it is local, else to a version tag of
  its repository and the commit of that tag.\<close>

theorem checked_catalog_resolves:
  assumes "check_catalog x so (Some raw) = Inr fs" "exit_code fs = 0" "x_catalog x = jitems (jget raw ''patterns'')"
    "map_of (x_catalog x) n = Some spec"
  shows "\<exists>r. catalog_resolve x n None = Inr r"
proof -
  obtain parts where parts: "smap (entry_findings x so) (x_catalog x) = Inr parts" "fs = concat parts"
    using assms(1,2,3) by (auto simp: check_catalog_def sbind_Inr_iff exit_zero find_error_def split: if_splits)
  have each: "\<exists>gs. entry_findings x so e = Inr gs \<and> (\<forall>f \<in> set gs. pf_severity f \<noteq> Is_error)" if "e \<in> set (x_catalog x)" for e
    using smap_all [OF parts(1) that] assms(2) parts(2) by (auto simp: exit_zero)
  have "\<exists>w. (case e of (n, spec) \<Rightarrow> sbind (catalog_entry n spec) (\<lambda>p. Inr (n, p))) = Inr w" if "e \<in> set (x_catalog x)" for e
    using each [OF that] entry_passes [of x so "fst e" "snd e"] by (cases e) fastforce
  then obtain ps where ps: "catalog_load x = Inr ps" unfolding catalog_load_def using smap_succeeds by blast
  obtain p where p: "catalog_entry n spec = Inr p" "map_of ps n = Some p" using loaded_entry [OF ps assms(4)] by blast
  obtain gs where gs: "entry_findings x so (n, spec) = Inr gs" "\<forall>f \<in> set gs. pf_severity f \<noteq> Is_error"
    using each [OF map_of_SomeD [OF assms(4)]] by blast
  have g: "catalog_get x n = Inr p" by (simp add: catalog_get_def ps p)
  show ?thesis
  proof (cases "is_local p")
    case True
    then show ?thesis by (simp add: catalog_resolve_def g)
  next
    case False
    obtain hs where "repository_findings x so n p = Inr hs" "set hs \<subseteq> set gs" using entry_passes [OF gs] p(1) False by auto
    then obtain tags commit where "versions x p = Inr tags" "tags \<noteq> []"
      "map_of tags (if or_empty (pt_default_version p) \<noteq> [] then or_empty (pt_default_version p) else fst (hd tags)) = Some commit"
      using repository_resolves [OF _ _ False] gs(2) by blast
    then show ?thesis using False by (simp add: catalog_resolve_def g Let_def del: not_None_eq)
  qed
qed

definition demo_sources :: sources where
  "demo_sources = \<lparr>so_local = (\<lambda>p. True), so_fetch = (\<lambda>p commit. Inr True)\<rparr>"

theorem checked_catalog_resolves_witness:
  "\<exists>r. catalog_resolve shop_ext ''postgresql'' None = Inr r"
proof (rule checked_catalog_resolves [where raw = "JObj [(''patterns'', JObj (x_catalog shop_ext))]" and so = demo_sources and fs = "[]"])
  show "check_catalog shop_ext demo_sources (Some (JObj [(''patterns'', JObj (x_catalog shop_ext))])) = Inr []"
    by (simp add: check_catalog_def shop_ext_def is_dict_def entry_findings_def unknown_entry_keys_def keys_of_def entry_keys_def bad_cloud_def
        catalog_entry_def is_local_def demo_sources_def)
  show "map_of (x_catalog shop_ext) ''postgresql'' = Some (JObj [(''local'', JStr ''pg'')])" by (simp add: shop_ext_def)
qed (simp_all add: exit_code_def finding_counts_def)

end
