(* ===== verification/Spec2Isabelle.thy ===== *)
theory Spec2Isabelle
  imports LedgerProperties LifecycleProperties WorkerProperties AppLedgerProperties AppLinks
    AppActivities AppProperties FailoverProperties PolicyProperties RequestProperties SweepProperties
    Settlement Reservations RecordProperties InventoryProperties TeamProperties TeamFaults PlanDetailProperties
    WorkerSafety CostHistoryProperties WorkflowProperties ApiProperties EndToEnd
    LegacyProperties PatternCheckProperties
begin

text \<open>
  A verification development for ForgeAPI (\<^verbatim>\<open>src/app\<close>): an API through which callers ask for a Terraform
  pattern to be deployed or destroyed, review the plan, and approve exactly that plan. The promises are
  about the record it keeps: one operation at a time per resource, nothing applied that was not
  approved, budgets and placement respected, every request answered once and audited.

  \<^bold>\<open>The parts and their theories.\<close>

  \<^item> \<open>Prelude\<close>: JSON values, the sequencing of fallible steps (\<open>sbind\<close>, \<open>smap\<close>), tables as lists of
    rows with their laws as the locale \<open>keyed_table\<close>, and the locales \<open>invariant_system\<close> and
    \<open>monotone_system\<close> of step relations with an invariant and with a preserved relation.
  \<^item> \<open>Contracts\<close> (\<^verbatim>\<open>contracts.py\<close>): errors, operation and resource bodies (\<open>doc\<close>), the request models with
    their validation, the public view of an operation.
  \<^item> \<open>Store\<close> (\<^verbatim>\<open>SCHEMA\<close>, \<^verbatim>\<open>connect\<close>, the statements of \<^verbatim>\<open>ledger.py\<close>): the tables, transactions, the laws of
    every table.
  \<^item> \<open>Tenants\<close> (\<^verbatim>\<open>tenants.py\<close>, \<^verbatim>\<open>cloud_targets.py\<close>, reads of \<^verbatim>\<open>team_store.py\<close>): business units and placement.
  \<^item> \<open>Ledger\<close>, \<open>Lifecycle\<close>, \<open>AppLedger\<close>, \<open>LedgerQueries\<close> (\<^verbatim>\<open>ledger.py\<close>): acceptance; execution, discard
    and the worker's reports; apps; the listings.
  \<^item> \<open>Catalog\<close> (\<^verbatim>\<open>catalog.py\<close>), \<open>Shaping\<close> (\<^verbatim>\<open>placement.py\<close>, \<^verbatim>\<open>budgets.py\<close>, \<^verbatim>\<open>schema.py\<close>), \<open>Policy\<close> (\<^verbatim>\<open>policy.py\<close>):
    what a request resolves to and who may ask for it.
  \<^item> \<open>Apps\<close>, \<open>AppRequests\<close> (\<^verbatim>\<open>apps.py\<close>), \<open>AppActivities\<close> (\<^verbatim>\<open>app_activities.py\<close>): the derived state of an app,
    its gates, failover and teardown.
  \<^item> \<open>TeamCheck\<close> (\<^verbatim>\<open>team_check.py\<close>), \<open>TeamAdmin\<close> (\<^verbatim>\<open>team_admin.py\<close>, \<^verbatim>\<open>team_store.py\<close>): the checks of a team
    document and every change of the teams.
  \<^item> \<open>Requests\<close> (\<^verbatim>\<open>promotion.py\<close>, \<^verbatim>\<open>drift.py\<close> and the handlers of \<^verbatim>\<open>main.py\<close>), \<open>Inventory\<close> (the resource
    views and pages of \<^verbatim>\<open>main.py\<close>).
  \<^item> \<open>Terraform\<close> (\<^verbatim>\<open>terraform.py\<close>), \<open>PlanDetail\<close>, \<open>Redaction\<close>, \<open>Worker\<close> (\<^verbatim>\<open>operation_activities.py\<close>): the commands
    the worker runs in the directory of a resource, what it stores of a plan, the identifiers it hides, the
    plan, apply and drift phases and their reports.
  \<^item> \<open>Workflows\<close> (\<^verbatim>\<open>operation_workflow.py\<close>, \<^verbatim>\<open>dispatch.py\<close>): the phase of one operation, the polling loops of an
    app's rollout and teardown, the drift sweep. \<open>CostHistory\<close> (\<^verbatim>\<open>cost_history.py\<close>): the replayed reservations.
  \<^item> \<open>Api\<close> (the handlers of \<^verbatim>\<open>main.py\<close>, \<^verbatim>\<open>dispatch.py\<close>): what each request does to the ledger, which workflows it
    asks for and what it answers.
  \<^item> \<open>PatternCheck\<close> (\<^verbatim>\<open>pattern_check.py\<close>): the linter of patterns and of the catalog.
  \<^item> The deployment API that preceded the ledger: \<open>Deployments\<close> (\<^verbatim>\<open>models.py\<close>, \<^verbatim>\<open>db.py\<close>, \<^verbatim>\<open>db_table.py\<close>), \<open>AuditTrail\<close>
    (\<^verbatim>\<open>audit.py\<close>), \<open>Legacy\<close> (\<^verbatim>\<open>legacy.py\<close>, \<^verbatim>\<open>budgets.py\<close>), \<open>LegacyWorker\<close> (\<^verbatim>\<open>activities.py\<close>, \<^verbatim>\<open>workflows.py\<close>,
    \<^verbatim>\<open>recovery.py\<close>): its records in two stores, its trail, its requests, its worker.

  \<^bold>\<open>State and operations.\<close> The state is one record \<open>world\<close>: the tables, the saved plan files, the settings.
  An operation is a function \<open>'a tx\<close> from a world to an error or an answer and the new world; the body of
  a \<^verbatim>\<open>with connect()\<close> block is its \<open>_tx\<close> function and \<open>connect\<close> restores every table when it raises.
  A clock reading and the identifiers \<^verbatim>\<open>uuid4\<close> draws are arguments. Code outside the repository is a field
  of the parameter record \<open>ext\<close>: the catalog file and the tags of a repository, the HCL parser, the JSON
  Schema validator, regular expression compilation, the directory of group members. The worker's programs
  (\<open>'a wm\<close>) run on a \<open>host\<close>, the ledger beside the workspaces, the logs and the commands started; Terraform is
  the parameter record \<open>engine\<close>. The workflow service is the parameter record \<open>temporal\<close>; for a handler of the API
  (whose state \<open>api\<close> is the ledger and the dispatches so far) it is a \<open>service\<close>, which confirms a call or does not.
  The deployment API has a state of its own, \<open>'s legacy\<close>, over the state \<open>'s\<close> of the store in use (\<open>'s backend\<close>); the
  process around it is the parameter record \<open>setting\<close>, and its worker runs on a \<open>station\<close>.

  \<^bold>\<open>What is shown.\<close>

  \<^item> \<open>TeamSteps\<close>: every change of the teams is a run of single writes (\<open>team_write\<close>), one of the small steps below.
  \<^item> \<open>Invariants\<close>, \<open>LedgerSteps\<close>, \<open>AppSteps\<close>, \<open>LedgerSystem\<close>: every operation of the ledger is a sequence of a
    dozen small steps (\<open>micro\<close>); each keeps the invariant \<open>wf\<close> and the relation \<open>evolves\<close> (rows are kept and
    move forward). \<open>ledger_step\<close> interleaves every operation and every change of the teams, in any order and
    with any arguments, with late worker reports from earlier claims; the properties over reachable ledgers quantify over its runs.
  \<^item> \<open>Acceptance\<close>, \<open>LedgerProperties\<close>, \<open>LifecycleProperties\<close>, \<open>WorkerProperties\<close>: one active operation per
    resource, approval before apply, budgets, idempotent requests, the audit trail, discard as the inverse
    of acceptance, the worker's reports, reconciliation.
  \<^item> \<open>AppLinks\<close>, \<open>AppLedgerProperties\<close>, \<open>AppProperties\<close>, \<open>FailoverProperties\<close>: the operations an app names
    exist in every reachable ledger, so its derived state is defined; gates, approval, failover, teardown.
  \<^item> \<open>PolicyProperties\<close>, \<open>RequestProperties\<close>, \<open>SweepProperties\<close>: placement, injected inputs, references,
    rights, guardrails, promotion, refusals, pages.
  \<^item> \<open>Reservations\<close>: the abstract lock a resource is, and the ledger as its refinement; the view takes every
    unfinished operation on a resource as a holder, so one holder at most is a result.
  \<^item> \<open>Settlement\<close>: every operation whose document carries no mark of an earlier settlement can still finish, and
    the one input that blocks reconciliation.
  \<^item> \<open>RecordProperties\<close>, \<open>InventoryProperties\<close>: the types of stored records, counts, saved plan files; the
    pages of the inventory lose nothing and its views hide what is internal.
  \<^item> \<open>TeamProperties\<close>: histories, optimistic concurrency, imports, revert, archive; \<open>TeamFaults\<close>: two inputs
    answered with an exception instead of a report.
  \<^item> \<open>PlanDetailProperties\<close>, \<open>RedactionProperties\<close>: what a plan lists as changed is true and complete, what is
    stored mentions no hidden identifier, and the two inputs for which that fails.
  \<^item> \<open>WorkerRuns\<close>, \<open>WorkerSafety\<close>: an activity, whatever Terraform does, is exactly one claim, commands with the full
    argument lists of its phase (\<open>phase_lines\<close>) and one justified report; so it is a run of ledger steps, applies only
    the saved and approved plan and always reports. What it stores of a plan and of the outputs mentions no identifier
    that JSON prints unchanged (\<open>plain\<close>).
  \<^item> \<open>AppRuns\<close>: whatever the ledger does, an app keeps the router once it is past it, which is why a rollout asks for
    its router once. \<open>WorkflowProperties\<close>: the locale \<open>polling_loop\<close> and its two instances; a rollout or a teardown gives up
    after a week when its failure can be recorded (otherwise it polls on); a phase leaves its operation settled even
    when its worker is lost.
  \<^item> \<open>CostHistoryProperties\<close>: the rules of what is reserved, as events of the operations (\<open>reserve_events\<close>), and the
    replayed history as their sum on every day; its last day is the reservation of the rows.
  \<^item> \<open>ApiRuns\<close>, \<open>ApiProperties\<close>: every request is a run of ledger steps, work is dispatched only while it waits, an
    unconfirmed request is finished by repeating it. \<open>EndToEnd\<close>: the API, the worker with its losses, the app
    workflows and the drift sweep as one step relation (\<open>machine_step\<close>), in which nothing is applied unapproved.
  \<^item> \<open>LegacyProperties\<close>: no job of the deployment API without its audit event, both stores hold the same records (the
    locale \<open>deployment_store\<close>), a deploy settles its deployment (\<open>state_store\<close>), and two faults of retries and of the trail.
    That a deploy settles is about a run of its activities to their end; an activity that goes on after the workflow
    gave it up may still write its report, which is not fenced.
  \<^item> \<open>PatternCheckProperties\<close>: version constraints mean what is documented; a pattern or catalog the linter passes is
    one the API can place, price and resolve.
  \<^item> \<open>Scenario\<close>, \<open>WorkerScenario\<close>, \<open>TeamScenario\<close>: concrete runs (accept, plan, execute, apply; create, replace, import, revert,
    archive) the witnesses use.

  \<^bold>\<open>Bounds and fuel.\<close> Loops walk a finite list, or text that gets shorter (\<open>mask_strings\<close>), or pages from a
  cursor that moves back (\<open>scan_pages\<close>). \<open>run_at\<close> counts down the interpreter's recursion limit, because the
  automatic unlock may call itself; \<open>words_from\<close> counts down the length of its text. The polling loops
  (\<open>poll\<close>) may run for ever and are partial functions; that they return is proved. Amounts are
  rationals, so sums are exact where the code adds floats; an amount above the largest float is rejected as
  the code rejects an infinite sum. A float that is not finite is NaN or one of the infinities (\<open>nonfinite\<close>); a REAL
  column of SQLite stores NaN as NULL (\<open>real_column\<close>). Times are naturals, in microseconds where a day is read off them.

  \<^bold>\<open>Not modelled.\<close> Human-readable texts of errors and hints; the Terraform process, the credentials in its
  environment and its cancellation; Temporal's own scheduling (an activity answers or fails, a worker may be
  lost at any point after its claim); the messages and line numbers of the linter; the
  descriptions of a pattern; the migration of the SQLite schema; authentication, logging, the HTTP client and process start, which only move data in and out.
\<close>

end
